(* ===== verification/Prelude.thy ===== *)
theory Prelude
  imports Complex_Main
begin

text \<open>
  Shared vocabulary of the development: the exceptions the backend raises, results that are
  an exception or a value, loops that stop at the first exception, and database tables.

  A table is the list of its rows in insertion order. \<open>get_row\<close> is a lookup by key
  (\<open>session.get\<close>), \<open>List.find\<close> is \<open>session.exec(select(...)).first()\<close>, \<open>filter\<close> is
  \<open>.all()\<close>; \<open>put_row\<close> writes back a row that was loaded and changed; \<open>fresh_id\<close> is the
  primary key that an insert gets. A datetime is a naive UTC time in microseconds.
\<close>

section \<open>Exceptions and results\<close>

type_synonym datetime = int

datatype exn =
    HTTPException int string
  | ValueError string
  | InvalidOperation
  | IntegrityError
  | AttributeError string
  | TypeError string
  | ProviderError string
  | PermissionError string
  | DatabaseError
  | ZeroDivisionError

type_synonym 'a res = "exn + 'a"

named_theorems res_simps \<open>equations of the result type and its loops\<close>
named_theorems table_simps \<open>equations of the table operations\<close>

abbreviation second :: int where "second \<equiv> 1000000"
abbreviation minute :: int where "minute \<equiv> 60 * second"
abbreviation hour :: int where "hour \<equiv> 60 * minute"
abbreviation day :: int where "day \<equiv> 24 * hour"

text \<open>A loop \<open>for x in xs: s = step(x, s)\<close> that an exception leaves at once.\<close>

fun fold_res :: "('x \<Rightarrow> 's \<Rightarrow> 's res) \<Rightarrow> 'x list \<Rightarrow> 's \<Rightarrow> 's res" where
  "fold_res step [] s = Inr s"
| "fold_res step (x # xs) s =
     (case step x s of Inl e \<Rightarrow> Inl e | Inr s' \<Rightarrow> fold_res step xs s')"

fun map_res :: "('x \<Rightarrow> 'y res) \<Rightarrow> 'x list \<Rightarrow> 'y list res" where
  "map_res g [] = Inr []"
| "map_res g (x # xs) =
     (case g x of Inl e \<Rightarrow> Inl e
      | Inr y \<Rightarrow> (case map_res g xs of Inl e \<Rightarrow> Inl e | Inr ys \<Rightarrow> Inr (y # ys)))"

lemma fold_res_append:
  "fold_res step (xs @ ys) s =
     (case fold_res step xs s of Inl e \<Rightarrow> Inl e | Inr s' \<Rightarrow> fold_res step ys s')"
  by (induction xs arbitrary: s) (auto split: sum.splits)

lemma map_res_length: "map_res g xs = Inr ys \<Longrightarrow> length ys = length xs"
  by (induction xs arbitrary: ys) (auto split: sum.splits)

text \<open>
  The interface of a step that keeps a property: what every client that loops over rows
  relies on. The step takes the loop's element and the state and may raise.
\<close>

locale preserving_step =
  fixes step :: "'x \<Rightarrow> 's \<Rightarrow> 's res"
    and inv :: "'s \<Rightarrow> bool"
  assumes step_preserves: "inv s \<Longrightarrow> step x s = Inr s' \<Longrightarrow> inv s'"
begin

lemma fold_preserves: "inv s \<Longrightarrow> fold_res step xs s = Inr s' \<Longrightarrow> inv s'"
proof (induction xs arbitrary: s)
  case Nil
  then show ?case by simp
next
  case (Cons x xs)
  from Cons.prems(2) obtain s1 where "step x s = Inr s1" "fold_res step xs s1 = Inr s'"
    by (auto split: sum.splits)
  with Cons.IH step_preserves[OF Cons.prems(1)] show ?case by blast
qed

end

text \<open>A step that, besides, never touches a projection of the state (a frame condition).\<close>

locale framed_step = preserving_step step inv
  for step :: "'x \<Rightarrow> 's \<Rightarrow> 's res" and inv :: "'s \<Rightarrow> bool" +
  fixes view :: "'s \<Rightarrow> 'v"
  assumes step_frame: "step x s = Inr s' \<Longrightarrow> view s' = view s"
begin

lemma fold_frame: "fold_res step xs s = Inr s' \<Longrightarrow> view s' = view s"
proof (induction xs arbitrary: s)
  case Nil
  then show ?case by simp
next
  case (Cons x xs)
  from Cons.prems obtain s1 where "step x s = Inr s1" "fold_res step xs s1 = Inr s'"
    by (auto split: sum.splits)
  with Cons.IH step_frame show ?case by metis
qed

end

text \<open>
  Steps that always answer with a state, as the requests of a service do: those that are
  allowed keep an invariant, and under it they only move along a preorder of the states.
\<close>

locale stable_step =
  fixes step :: "'x \<Rightarrow> 's \<Rightarrow> 's"
    and allowed :: "'x \<Rightarrow> bool"
    and inv :: "'s \<Rightarrow> bool"
  assumes step_stable: "allowed x \<Longrightarrow> inv s \<Longrightarrow> inv (step x s)"
begin

lemma fold_stable: "list_all allowed xs \<Longrightarrow> inv s \<Longrightarrow> inv (fold step xs s)"
  by (induction xs arbitrary: s) (auto intro: step_stable)

end

locale evolving_step = stable_step step allowed inv
  for step :: "'x \<Rightarrow> 's \<Rightarrow> 's" and allowed :: "'x \<Rightarrow> bool" and inv :: "'s \<Rightarrow> bool" +
  fixes later :: "'s \<Rightarrow> 's \<Rightarrow> bool"
  assumes later_refl: "later s s"
    and later_trans: "later s t \<Longrightarrow> later t u \<Longrightarrow> later s u"
    and step_later: "allowed x \<Longrightarrow> inv s \<Longrightarrow> later s (step x s)"
begin

lemma fold_later: "list_all allowed xs \<Longrightarrow> inv s \<Longrightarrow> later s (fold step xs s)"
proof (induction xs arbitrary: s)
  case Nil
  then show ?case by (simp add: later_refl)
next
  case (Cons x xs)
  then have "later s (step x s)" "later (step x s) (fold step xs (step x s))"
    by (auto intro: step_later step_stable)
  then show ?case by (simp add: later_trans)
qed

end

section \<open>Tables\<close>

definition get_row :: "('r \<Rightarrow> 'k) \<Rightarrow> 'k \<Rightarrow> 'r list \<Rightarrow> 'r option" where
  "get_row key k t = List.find (\<lambda>r. key r = k) t"

definition put_row :: "('r \<Rightarrow> 'k) \<Rightarrow> 'r \<Rightarrow> 'r list \<Rightarrow> 'r list" where
  "put_row key r t = map (\<lambda>q. if key q = key r then r else q) t"

fun fresh_id :: "('r \<Rightarrow> int) \<Rightarrow> 'r list \<Rightarrow> int" where
  "fresh_id key [] = 1"
| "fresh_id key (r # t) = max (key r + 1) (fresh_id key t)"

lemma get_row_Nil [simp]: "get_row key k [] = None"
  by (simp add: get_row_def)

lemma get_row_Cons [simp]: "get_row key k (r # t) = (if key r = k then Some r else get_row key k t)"
  by (simp add: get_row_def)

lemma get_row_Some: "get_row key k t = Some r \<Longrightarrow> r \<in> set t \<and> key r = k"
  by (induction t) (auto split: if_splits)

lemma get_row_None: "get_row key k t = None \<longleftrightarrow> (\<forall>r \<in> set t. key r \<noteq> k)"
  by (induction t) auto

lemma get_row_member: "distinct (map key t) \<Longrightarrow> r \<in> set t \<Longrightarrow> get_row key (key r) t = Some r"
  by (induction t) auto

lemma find_Some: "List.find P t = Some r \<Longrightarrow> r \<in> set t \<and> P r"
  by (auto simp: find_Some_iff)

lemma find_None: "List.find P t = None \<longleftrightarrow> (\<forall>r \<in> set t. \<not> P r)"
  by (auto simp: find_None_iff)

lemma put_row_Nil [simp]: "put_row key r [] = []"
  by (simp add: put_row_def)

lemma put_row_Cons [simp]:
  "put_row key r (q # t) = (if key q = key r then r else q) # put_row key r t"
  by (simp add: put_row_def)

lemma put_row_append [simp]: "put_row key r (t @ u) = put_row key r t @ put_row key r u"
  by (simp add: put_row_def)

lemma put_row_length [simp]: "length (put_row key r t) = length t"
  by (simp add: put_row_def)

lemma put_row_keys [simp]: "map key (put_row key r t) = map key t"
  by (induction t) auto

lemma get_put_same: "get_row key (key r) t \<noteq> None \<Longrightarrow> get_row key (key r) (put_row key r t) = Some r"
  by (induction t) auto

lemma get_put_other: "k \<noteq> key r \<Longrightarrow> get_row key k (put_row key r t) = get_row key k t"
  by (induction t) auto

lemma get_put: "get_row key k (put_row key r t) =
    (if k = key r \<and> get_row key k t \<noteq> None then Some r else get_row key k t)"
  by (induction t) auto

lemma get_append: "get_row key k (t @ u) =
    (case get_row key k t of Some r \<Rightarrow> Some r | None \<Rightarrow> get_row key k u)"
  by (induction t) auto

lemma in_put_row: "q \<in> set (put_row key r t) \<Longrightarrow> q = r \<or> (q \<in> set t \<and> key q \<noteq> key r)"
  by (induction t) (auto split: if_splits)

lemma put_row_absent: "get_row key (key r) t = None \<Longrightarrow> put_row key r t = t"
  by (induction t) (auto split: if_splits)

lemma put_row_notin: "key r \<notin> key ` set t \<Longrightarrow> put_row key r t = t"
  by (auto simp: put_row_def image_iff intro!: map_idI)

lemma put_row_same: "distinct (map key t) \<Longrightarrow> r \<in> set t \<Longrightarrow> put_row key r t = t"
  by (auto simp: put_row_def distinct_map inj_on_def intro!: map_idI)

text \<open>
  A row is updated in a table with unique keys: anything that is summed over the rows changes
  by the difference of that row alone.
\<close>

lemma sum_list_put_row:
  fixes g :: "'r \<Rightarrow> int"
  assumes "distinct (map key t)" "q \<in> set t" "key r = key q"
  shows "sum_list (map g (put_row key r t)) = sum_list (map g t) - g q + g r"
  using assms
proof (induction t)
  case Nil
  then show ?case by simp
next
  case (Cons x t)
  show ?case
  proof (cases "key x = key r")
    case True
    then have "x = q" using Cons.prems by auto
    moreover have "put_row key r t = t"
      using Cons.prems True by (intro put_row_notin) simp
    ultimately show ?thesis using True by simp
  next
    case False
    with Cons show ?thesis by auto
  qed
qed

lemma map_put_row:
  assumes "distinct (map key t)" "q \<in> set t" "key r = key q" "h r = h q"
  shows "map h (put_row key r t) = map h t"
  using assms
proof (induction t)
  case Nil
  then show ?case by simp
next
  case (Cons x t)
  show ?case
  proof (cases "key x = key r")
    case True
    then have "x = q" using Cons.prems by auto
    moreover have "put_row key r t = t"
      using Cons.prems True by (intro put_row_notin) simp
    ultimately show ?thesis using True Cons.prems by simp
  next
    case False
    with Cons show ?thesis by auto
  qed
qed

lemma length_filter_put_row:
  assumes "distinct (map key t)" "q \<in> set t" "key r = key q" "P r = P q"
  shows "length (filter P (put_row key r t)) = length (filter P t)"
  using assms
proof (induction t)
  case Nil
  then show ?case by simp
next
  case (Cons x t)
  show ?case
  proof (cases "key x = key r")
    case True
    then have "x = q" using Cons.prems by auto
    moreover have "put_row key r t = t"
      using Cons.prems True by (intro put_row_notin) simp
    ultimately show ?thesis using True Cons.prems by simp
  next
    case False
    with Cons show ?thesis by auto
  qed
qed

lemma map_singleton: "map g t = [y] \<Longrightarrow> \<exists>a \<in> set t. g a = y"
  by (auto simp: map_eq_Cons_conv)

lemma fresh_id_above: "r \<in> set t \<Longrightarrow> key r < fresh_id key t"
  by (induction t) auto

lemma fresh_id_pos: "0 < fresh_id key t"
  by (induction t) auto

lemma fresh_id_notin: "fresh_id key t \<notin> key ` set t"
  using fresh_id_above[of _ t key] by force

lemma get_fresh: "get_row key (fresh_id key t) t = None"
  using fresh_id_above[of _ t key] by (force simp: get_row_None)

declare get_put [table_simps] get_append [table_simps] get_fresh [table_simps]
declare fold_res.simps [res_simps] map_res.simps [res_simps]

end
