(* ===== verification/PyStr.thy ===== *)
theory PyStr
  imports Prelude
begin

text \<open>
  The string operations of Python that the backend uses, on ASCII text: \<open>strip\<close>,
  \<open>upper\<close>, \<open>lower\<close>, \<open>replace\<close> of a character, \<open>isdigit\<close>, \<open>startswith\<close>, the substring
  test \<open>in\<close>, \<open>split\<close> at a character, and \<open>str\<close> of an int. Each is followed by the algebra the normalisation
  routines rest on: every normaliser is idempotent because these are.
\<close>

definition is_space :: "char \<Rightarrow> bool" where
  "is_space c \<longleftrightarrow> (let n = of_char c :: nat in n = 32 \<or> (9 \<le> n \<and> n \<le> 13) \<or> (28 \<le> n \<and> n \<le> 31))"

definition upper_char :: "char \<Rightarrow> char" where
  "upper_char c = (let n = of_char c :: nat in if 97 \<le> n \<and> n \<le> 122 then char_of (n - 32) else c)"

definition lower_char :: "char \<Rightarrow> char" where
  "lower_char c = (let n = of_char c :: nat in if 65 \<le> n \<and> n \<le> 90 then char_of (n + 32) else c)"

definition digit_char :: "char \<Rightarrow> bool" where
  "digit_char c \<longleftrightarrow> (let n = of_char c :: nat in 48 \<le> n \<and> n \<le> 57)"

definition py_lstrip :: "string \<Rightarrow> string" where
  "py_lstrip s = dropWhile is_space s"

definition py_strip :: "string \<Rightarrow> string" where
  "py_strip s = rev (dropWhile is_space (rev (dropWhile is_space s)))"

definition py_upper :: "string \<Rightarrow> string" where
  "py_upper s = map upper_char s"

definition py_lower :: "string \<Rightarrow> string" where
  "py_lower s = map lower_char s"

definition replace_char :: "char \<Rightarrow> string \<Rightarrow> string \<Rightarrow> string" where
  "replace_char c t s = concat (map (\<lambda>d. if d = c then t else [d]) s)"

definition py_isdigit :: "string \<Rightarrow> bool" where
  "py_isdigit s \<longleftrightarrow> s \<noteq> [] \<and> list_all digit_char s"

fun starts_with :: "string \<Rightarrow> string \<Rightarrow> bool" where
  "starts_with [] s = True"
| "starts_with (c # p) [] = False"
| "starts_with (c # p) (d # s) = (c = d \<and> starts_with p s)"

fun is_infix :: "string \<Rightarrow> string \<Rightarrow> bool" where
  "is_infix p [] = (p = [])"
| "is_infix p (d # s) = (starts_with p (d # s) \<or> is_infix p s)"

fun split_on :: "char \<Rightarrow> string \<Rightarrow> string list" where
  "split_on c [] = [[]]"
| "split_on c (d # s) =
     (if d = c then [] # split_on c s
      else case split_on c s of [] \<Rightarrow> [[d]] | p # ps \<Rightarrow> (d # p) # ps)"

fun show_nat :: "nat \<Rightarrow> string" where
  "show_nat n = (if n < 10 then [char_of (48 + n)] else show_nat (n div 10) @ [char_of (48 + n mod 10)])"

declare show_nat.simps [simp del]

definition show_int :: "int \<Rightarrow> string" where
  "show_int i = (if i < 0 then CHR ''-'' # show_nat (nat (- i)) else show_nat (nat i))"

definition digit_val :: "char \<Rightarrow> nat" where
  "digit_val c = of_char c - 48"

definition read_nat :: "string \<Rightarrow> nat" where
  "read_nat s = foldl (\<lambda>a c. 10 * a + digit_val c) 0 s"

text \<open>\<open>int(a / b)\<close> for a positive divisor: truncation towards zero.\<close>

definition py_trunc_div :: "int \<Rightarrow> int \<Rightarrow> int" where
  "py_trunc_div a b = (if 0 \<le> a then a div b else - ((- a) div b))"

section \<open>Characters\<close>

lemma of_char_less: "(of_char c :: nat) < 256"
  by (metis of_char_of nat_of_char_less_256)

lemma of_char_of_small: "n < 256 \<Longrightarrow> (of_char (char_of n) :: nat) = n"
  by simp

lemma of_char_upper: "(of_char (upper_char c) :: nat) =
   (if 97 \<le> (of_char c :: nat) \<and> (of_char c :: nat) \<le> 122 then of_char c - 32 else of_char c)"
  by (auto simp: upper_char_def Let_def)

lemma of_char_lower: "(of_char (lower_char c) :: nat) =
   (if 65 \<le> (of_char c :: nat) \<and> (of_char c :: nat) \<le> 90 then of_char c + 32 else of_char c)"
  by (auto simp: lower_char_def Let_def)

lemma char_eqI: "(of_char c :: nat) = of_char d \<Longrightarrow> c = d"
  by (metis char_of_char)

lemma upper_char_idem [simp]: "upper_char (upper_char c) = upper_char c"
  by (rule char_eqI) (auto simp: of_char_upper)

lemma lower_char_idem [simp]: "lower_char (lower_char c) = lower_char c"
  by (rule char_eqI) (auto simp: of_char_lower)

lemma lower_upper_char [simp]: "lower_char (upper_char c) = lower_char c"
  by (rule char_eqI) (auto simp: of_char_lower of_char_upper)

lemma is_space_upper [simp]: "is_space (upper_char c) = is_space c"
  by (auto simp: is_space_def Let_def of_char_upper split: if_splits)

lemma is_space_lower [simp]: "is_space (lower_char c) = is_space c"
  by (auto simp: is_space_def Let_def of_char_lower split: if_splits)

lemma digit_not_space [simp]: "digit_char c \<Longrightarrow> \<not> is_space c"
  by (auto simp: is_space_def digit_char_def Let_def)

lemma digit_lower [simp]: "digit_char c \<Longrightarrow> lower_char c = c"
  by (rule char_eqI) (auto simp: of_char_lower digit_char_def Let_def)

section \<open>Stripping and case folding\<close>

lemma py_strip_Nil [simp]: "py_strip [] = []"
  by (simp add: py_strip_def)

lemma dropWhile_idem: "dropWhile P (dropWhile P xs) = dropWhile P xs"
  by (induction xs) auto

lemma dropWhile_hd: "dropWhile P xs = xs \<longleftrightarrow> xs = [] \<or> \<not> P (hd xs)"
proof (cases xs)
  case Nil
  then show ?thesis by simp
next
  case (Cons x ys)
  moreover have "dropWhile P ys \<noteq> x # ys"
    using length_dropWhile_le[of P ys] by (metis impossible_Cons)
  ultimately show ?thesis by auto
qed

lemma py_strip_hd: "py_strip s \<noteq> [] \<Longrightarrow> \<not> is_space (hd (py_strip s))"
proof -
  assume ne: "py_strip s \<noteq> []"
  define t where "t = dropWhile is_space s"
  have "t \<noteq> []" using ne by (metis py_strip_def t_def dropWhile.simps(1) rev.simps(1))
  then have hd_t: "\<not> is_space (hd t)" unfolding t_def by (rule hd_dropWhile)
  define u where "u = rev (dropWhile is_space (rev t))"
  have u: "py_strip s = u" by (simp add: py_strip_def u_def t_def)
  obtain v where "t = u @ v"
    unfolding u_def by (metis rev_append rev_rev_ident takeWhile_dropWhile_id)
  with ne u have "hd t = hd u" by simp
  with hd_t u show ?thesis by simp
qed

lemma py_strip_last: "py_strip s \<noteq> [] \<Longrightarrow> \<not> is_space (last (py_strip s))"
  unfolding py_strip_def
  by (metis hd_dropWhile last_rev rev_is_Nil_conv)

lemma py_strip_id:
  assumes "s \<noteq> [] \<Longrightarrow> \<not> is_space (hd s)" "s \<noteq> [] \<Longrightarrow> \<not> is_space (last s)"
  shows "py_strip s = s"
proof (cases "s = []")
  case True
  then show ?thesis by simp
next
  case False
  then have "dropWhile is_space s = s" using assms(1) by (simp add: dropWhile_hd)
  moreover have "dropWhile is_space (rev s) = rev s"
    using False assms(2) by (simp add: dropWhile_hd hd_rev)
  ultimately show ?thesis by (simp add: py_strip_def)
qed

lemma py_strip_idem [simp]: "py_strip (py_strip s) = py_strip s"
  by (rule py_strip_id) (auto dest: py_strip_hd py_strip_last)

lemma py_strip_map:
  assumes "\<And>c. is_space (g c) = is_space c"
  shows "py_strip (map g s) = map g (py_strip s)"
proof -
  have "is_space \<circ> g = is_space" using assms by auto
  then show ?thesis by (simp add: py_strip_def dropWhile_map rev_map)
qed

lemma py_strip_upper [simp]: "py_strip (py_upper s) = py_upper (py_strip s)"
  by (simp add: py_upper_def py_strip_map)

lemma py_strip_lower [simp]: "py_strip (py_lower s) = py_lower (py_strip s)"
  by (simp add: py_lower_def py_strip_map)

lemma py_upper_idem [simp]: "py_upper (py_upper s) = py_upper s"
  by (simp add: py_upper_def)

lemma py_lower_idem [simp]: "py_lower (py_lower s) = py_lower s"
  by (simp add: py_lower_def)

lemma py_upper_eq_Nil [simp]: "py_upper s = [] \<longleftrightarrow> s = []" "[] = py_upper s \<longleftrightarrow> s = []"
  by (auto simp: py_upper_def)

lemma py_upper_Nil [simp]: "py_upper [] = []" "py_lower [] = []"
  by (auto simp: py_upper_def py_lower_def)

lemma py_lower_append [simp]: "py_lower (s @ t) = py_lower s @ py_lower t"
  by (simp add: py_lower_def)

lemma length_py_strip: "length (py_strip s) \<le> length s"
  unfolding py_strip_def by (metis length_dropWhile_le length_rev le_trans)

section \<open>Decimal digits\<close>

lemma digit_char_of: "(n::nat) < 10 \<Longrightarrow> digit_char (char_of (48 + n))"
  by (simp add: digit_char_def Let_def)

lemma show_nat_digits: "list_all digit_char (show_nat n)"
proof (induction n rule: show_nat.induct)
  case (1 n)
  show ?case
    using 1 by (subst show_nat.simps) (auto simp: digit_char_of)
qed

lemma show_nat_nonempty [simp]: "show_nat n \<noteq> []"
  by (subst show_nat.simps) auto

lemma read_nat_append: "read_nat (s @ [c]) = 10 * read_nat s + digit_val c"
  by (simp add: read_nat_def)

lemma read_show_nat [simp]: "read_nat (show_nat n) = n"
proof (induction n rule: show_nat.induct)
  case (1 n)
  show ?case
  proof (cases "n < 10")
    case True
    then show ?thesis by (subst show_nat.simps) (simp add: read_nat_def digit_val_def)
  next
    case False
    then show ?thesis using 1
      by (subst show_nat.simps) (simp add: read_nat_append digit_val_def)
  qed
qed

lemma show_nat_inject [simp]: "show_nat m = show_nat n \<longleftrightarrow> m = n"
  by (metis read_show_nat)

lemma show_int_inject: "show_int i = show_int j \<longleftrightarrow> i = j"
proof
  assume eq: "show_int i = show_int j"
  have nodash: "show_nat n = CHR ''-'' # s \<Longrightarrow> False" for n s
    using show_nat_digits[of n] by (auto simp: digit_char_def)
  show "i = j"
    using eq nodash nodash[OF sym] by (auto simp: show_int_def split: if_splits)
qed simp

end
