(* ===== verification/PyNum.thy ===== *)
theory PyNum
  imports Prelude "HOL-Library.Log_Nat"
begin

text \<open>
  The numbers of the backend. \<open>decimal.Decimal\<close> values are exact rationals with the two
  special values; a Decimal operation rounds its exact result to 28 significant digits, half
  to even (\<open>ctx\<close>, the default context). Money is kept in paise: an \<open>int\<close>, the coefficient of
  a Decimal quantized to \<open>0.01\<close>. Floats that the code only compares are the rationals they
  denote.
\<close>

datatype decimal = Finite rat | Infinite bool | NaN

type_synonym money = int

section \<open>Rounding to an integer\<close>

definition round_half_even :: "rat \<Rightarrow> int" where
  "round_half_even x =
     (let f = \<lfloor>x\<rfloor>; d = x - of_int f
      in if d < 1 / 2 then f
         else if d > 1 / 2 then f + 1
         else if even f then f else f + 1)"

definition round_half_up :: "rat \<Rightarrow> int" where
  "round_half_up x = (if 0 \<le> x then \<lfloor>x + 1 / 2\<rfloor> else - \<lfloor>- x + 1 / 2\<rfloor>)"

text \<open>\<open>int(x)\<close> of a float truncates towards zero; \<open>math.ceil\<close> rounds up.\<close>

definition py_trunc :: "rat \<Rightarrow> int" where
  "py_trunc x = (if 0 \<le> x then \<lfloor>x\<rfloor> else - \<lfloor>- x\<rfloor>)"

lemma round_half_even_of_int [simp]: "round_half_even (of_int i) = i"
  by (simp add: round_half_even_def)

lemma round_half_up_of_int [simp]: "round_half_up (of_int i) = i"
proof -
  have "\<lfloor>(of_int j :: rat) + 1 / 2\<rfloor> = j" for j by (rule floor_unique) auto
  from this[of i] this[of "- i"] show ?thesis by (simp add: round_half_up_def)
qed

lemma round_half_even_dist: "\<bar>of_int (round_half_even x) - x\<bar> \<le> 1 / 2"
proof -
  have "of_int \<lfloor>x\<rfloor> \<le> x" by (rule of_int_floor_le)
  moreover have "x < of_int \<lfloor>x\<rfloor> + 1" using floor_correct[of x] by linarith
  ultimately show ?thesis by (auto simp: round_half_even_def Let_def)
qed

lemma round_half_up_dist: "\<bar>of_int (round_half_up x) - x\<bar> \<le> 1 / 2"
proof -
  have *: "\<bar>of_int \<lfloor>y + 1 / 2\<rfloor> - y\<bar> \<le> 1 / 2" for y :: rat
    using floor_correct[of "y + 1 / 2"] by linarith
  show ?thesis
  proof (cases "0 \<le> x")
    case True
    with *[of x] show ?thesis by (simp only: round_half_up_def if_True)
  next
    case False
    then show ?thesis
      using *[of "- x"] by (simp only: round_half_up_def if_False of_int_minus)
  qed
qed

lemma round_half_even_mono: "x \<le> y \<Longrightarrow> round_half_even x \<le> round_half_even y"
proof -
  assume le: "x \<le> y"
  then have f: "\<lfloor>x\<rfloor> \<le> \<lfloor>y\<rfloor>" by (rule floor_mono)
  show ?thesis
  proof (cases "\<lfloor>x\<rfloor> = \<lfloor>y\<rfloor>")
    case True
    with le show ?thesis by (auto simp: round_half_even_def Let_def)
  next
    case False
    with f have "\<lfloor>x\<rfloor> + 1 \<le> \<lfloor>y\<rfloor>" by simp
    moreover have "round_half_even x \<le> \<lfloor>x\<rfloor> + 1" "\<lfloor>y\<rfloor> \<le> round_half_even y"
      by (auto simp: round_half_even_def Let_def)
    ultimately show ?thesis by linarith
  qed
qed

lemma round_half_even_nonneg: "0 \<le> x \<Longrightarrow> 0 \<le> round_half_even x"
  using round_half_even_mono[of 0 x] round_half_even_of_int[of 0] by simp

lemma round_half_up_nonneg: "0 \<le> x \<Longrightarrow> 0 \<le> round_half_up x"
  by (simp add: round_half_up_def)

lemma round_half_up_mono_nonneg: "0 \<le> x \<Longrightarrow> x \<le> y \<Longrightarrow> round_half_up x \<le> round_half_up y"
  by (simp add: round_half_up_def floor_mono)

text \<open>\<open>round(x, 2)\<close> of a float.\<close>

definition round2 :: "rat \<Rightarrow> rat" where
  "round2 x = of_int (round_half_even (100 * x)) / 100"

lemma round2_mono: "x \<le> y \<Longrightarrow> round2 x \<le> round2 y"
  by (simp add: round2_def round_half_even_mono divide_right_mono)

lemma round2_nonneg: "0 \<le> x \<Longrightarrow> 0 \<le> round2 x"
  by (simp add: round2_def round_half_even_nonneg)

section \<open>Rounding to significant digits\<close>

definition sig_exp :: "nat \<Rightarrow> nat \<Rightarrow> rat \<Rightarrow> int" where
  "sig_exp b p x =
     (let (n, d) = quotient_of x;
          k = int (floorlog b (nat n)) - int (floorlog b (nat d))
      in if of_nat b powi k \<le> x then k + 1 - int p else k - int p)"

definition sig_round :: "nat \<Rightarrow> nat \<Rightarrow> rat \<Rightarrow> rat" where
  "sig_round b p x =
     (if x = 0 then 0
      else let u = of_nat b powi (sig_exp b p \<bar>x\<bar>) in of_int (round_half_even (x / u)) * u)"

definition ctx :: "rat \<Rightarrow> rat" where
  "ctx x = sig_round 10 28 x"

lemma sig_round_nonneg: "0 \<le> x \<Longrightarrow> 0 \<le> sig_round b p x"
  by (auto simp: sig_round_def Let_def intro!: mult_nonneg_nonneg round_half_even_nonneg
      divide_nonneg_nonneg)

lemma ctx_nonneg: "0 \<le> x \<Longrightarrow> 0 \<le> ctx x"
  by (simp add: ctx_def sig_round_nonneg)

lemma ctx_0 [simp]: "ctx 0 = 0"
  by (simp add: ctx_def sig_round_def)

text \<open>A quantized amount of at most 28 digits is representable: \<open>quantize\<close> raises otherwise.\<close>

definition fits28 :: "int \<Rightarrow> bool" where
  "fits28 c \<longleftrightarrow> \<bar>c\<bar> < 10 ^ 28"

end
