(* ===== verification/Schema.thy ===== *)
theory Schema
  imports PyStr PyNum
begin

text \<open>
  The tables of the logistics database (\<open>app/models\<close>): a record per row class, with the
  columns that the modelled services read or write, and the record \<open>fleet\<close> of the tables
  themselves. An ORM status column declared with a string enum is the string it holds. The
  JSON columns \<open>assigned_battery_ids\<close> of an order and \<open>items\<close> of a transfer are the document that
  \<open>json.loads\<close> reads from them, \<open>None\<close> when the text is missing or blank.
\<close>

record battery =
  b_id :: int
  serial_number :: string
  b_status :: string
  b_location_type :: "string option"
  b_location_id :: "int option"
  b_station_id :: "int option"
  current_charge :: rat
  b_health_percentage :: rat
  b_battery_type :: "string option"
  b_sku_id :: "int option"
  purchase_cost :: rat
  retirement_date :: "datetime option"
  decommissioned_at :: "datetime option"
  decommissioned_by :: "int option"
  decommission_reason :: "string option"
  b_updated_at :: datetime

record battery_event =
  ev_id :: int
  ev_battery_id :: int
  ev_type :: string
  ev_description :: string
  ev_actor_id :: "int option"
  ev_timestamp :: datetime

record warehouse =
  w_id :: int
  w_is_active :: bool

record rack =
  rk_id :: int
  rk_warehouse_id :: int

record shelf =
  sh_id :: int
  sh_rack_id :: int
  sh_capacity :: int

record shelf_battery =
  sb_shelf_id :: int
  sb_battery_id :: string

record station =
  st_id :: int
  st_status :: string
  st_is_deleted :: bool
  st_dealer_id :: "int option"

datatype json_value = JStr string | JOther

datatype json_doc = JInvalid | JNotList | JList "json_value list"

record inventory_transfer =
  tr_id :: int
  tr_status :: string
  tr_from_type :: string
  tr_from_id :: int
  tr_to_type :: string
  tr_to_id :: int
  tr_items :: "json_doc option"
  tr_completed_at :: "datetime option"
  tr_updated_at :: datetime

record transfer_item =
  ti_transfer_id :: int
  ti_battery_id :: string

record driver =
  d_id :: int
  d_user_id :: int
  d_phone :: "string option"
  d_status :: string
  d_is_online :: bool
  d_last_location_update :: datetime

record order =
  o_id :: string
  o_status :: string
  o_type :: string
  o_priority :: string
  o_units :: int
  o_destination :: string
  o_latitude :: "rat option"
  o_longitude :: "rat option"
  o_notes :: "string option"
  o_customer_name :: string
  o_customer_phone :: "string option"
  o_total_value :: rat
  o_tracking_number :: "string option"
  o_assigned_battery_ids :: "json_doc option"
  o_assigned_driver_id :: "int option"
  o_order_date :: datetime
  o_dispatch_date :: "datetime option"
  o_estimated_delivery :: "datetime option"
  o_delivered_at :: "datetime option"
  o_updated_at :: datetime
  o_pod_url :: "string option"
  o_pod_notes :: "string option"
  o_pod_captured_at :: "datetime option"
  o_pod_signature_url :: "string option"
  o_recipient_name :: "string option"
  o_failure_reason :: "string option"
  o_slot_start :: "datetime option"
  o_slot_end :: "datetime option"
  o_confirmation_sent_at :: "datetime option"
  o_original_order_id :: "string option"
  o_refund_status :: string

record order_battery =
  ob_id :: int
  ob_order_id :: string
  ob_battery_id :: string
  ob_battery_pk :: "int option"

record fleet =
  batteries :: "battery list"
  battery_events :: "battery_event list"
  warehouses :: "warehouse list"
  racks :: "rack list"
  shelves :: "shelf list"
  shelf_batteries :: "shelf_battery list"
  stations :: "station list"
  transfers :: "inventory_transfer list"
  transfer_items :: "transfer_item list"
  drivers :: "driver list"
  orders :: "order list"
  order_batteries :: "order_battery list"

end
