(* ===== verification/Fleet.thy ===== *)
theory Fleet
  imports Schema
begin

text \<open>
  Battery consistency (\<open>app/services/battery_consistency.py\<close>): the one place through which
  every service moves a battery. It normalises serial numbers, checks locations, refuses
  batteries locked by an active transfer or order, keeps the shelf rows of the warehouses in
  step with the batteries, and appends a lifecycle event.

  A message of an exception is the f-string of the source with its placeholders; what is
  interpolated is not part of the model. The functions return the new tables; on an exception
  the session is rolled back by its owner, so the tables of the caller stand.
\<close>

section \<open>Constants\<close>

definition valid_battery_statuses :: "string list" where
  "valid_battery_statuses =
     [''available'', ''deployed'', ''charging'', ''faulty'', ''maintenance'', ''reserved'',
      ''in_transit'', ''new'', ''ready'', ''retired'']"

definition valid_location_types :: "string list" where
  "valid_location_types = [''warehouse'', ''station'', ''customer'', ''transit'', ''shelf'']"

definition location_types_requiring_id :: "string list" where
  "location_types_requiring_id = [''warehouse'', ''station'', ''shelf'']"

definition location_types_without_id :: "string list" where
  "location_types_without_id = [''customer'', ''transit'']"

definition transfer_eligible_station_statuses :: "string list" where
  "transfer_eligible_station_statuses = [''active'']"

definition active_transfer_statuses :: "string list" where
  "active_transfer_statuses = [''pending'', ''in_transit'']"

definition active_order_normalized_statuses :: "string list" where
  "active_order_normalized_statuses =
     [''pending'', ''in_transit'', ''assigned'', ''new'', ''in_progress'', ''out_for_delivery'',
      ''dispatched'']"

definition transit_compatible_statuses :: "string list" where
  "transit_compatible_statuses = [''in_transit'', ''deployed'']"

section \<open>Locations\<close>

definition underscored :: "string \<Rightarrow> string" where
  "underscored s = replace_char CHR '' '' ''_'' (replace_char CHR ''-'' ''_'' s)"

definition normalize_station_status :: "string \<Rightarrow> string" where
  "normalize_station_status raw = underscored (py_lower (py_strip raw))"

definition is_station_transfer_eligible :: "station option \<Rightarrow> bool" where
  "is_station_transfer_eligible st =
     (case st of
        None \<Rightarrow> False
      | Some s \<Rightarrow>
          if st_is_deleted s then False
          else normalize_station_status (st_status s) \<in> set transfer_eligible_station_statuses)"

definition get_transfer_eligible_warehouse :: "fleet \<Rightarrow> int \<Rightarrow> warehouse option" where
  "get_transfer_eligible_warehouse f wid =
     List.find (\<lambda>w. w_id w = wid \<and> w_is_active w) (warehouses f)"

definition get_transfer_eligible_station :: "fleet \<Rightarrow> int \<Rightarrow> station option" where
  "get_transfer_eligible_station f sid =
     (let st = get_row st_id sid (stations f)
      in if is_station_transfer_eligible st then st else None)"

definition shelf_in_active_warehouse :: "fleet \<Rightarrow> int \<Rightarrow> bool" where
  "shelf_in_active_warehouse f l =
     list_ex (\<lambda>s. sh_id s = l \<and>
       list_ex (\<lambda>r. rk_id r = sh_rack_id s \<and>
         list_ex (\<lambda>w. w_id w = rk_warehouse_id r \<and> w_is_active w) (warehouses f)) (racks f))
       (shelves f)"

definition assert_location_exists ::
    "fleet \<Rightarrow> string option \<Rightarrow> int option \<Rightarrow> bool \<Rightarrow> unit res" where
  "assert_location_exists f location_type location_id require_transfer_eligibility =
     (case location_type of
        None \<Rightarrow> Inr ()
      | Some t \<Rightarrow>
          if t \<notin> set valid_location_types then
            Inl (HTTPException 400 ''Invalid {location_role}_location_type'')
          else if t \<in> set location_types_requiring_id then
            (case location_id of
               None \<Rightarrow> Inl (HTTPException 400 ''{location_role}_location_id must be a positive integer'')
             | Some l \<Rightarrow>
                 if l \<le> 0 then
                   Inl (HTTPException 400 ''{location_role}_location_id must be a positive integer'')
                 else if t = ''warehouse'' then
                   (case get_transfer_eligible_warehouse f l of
                      None \<Rightarrow> Inl (HTTPException 404 ''warehouse not found or inactive'')
                    | Some w \<Rightarrow> Inr ())
                 else if t = ''station'' then
                   (case get_row st_id l (stations f) of
                      None \<Rightarrow> Inl (HTTPException 404 ''station not found'')
                    | Some s \<Rightarrow>
                        if st_is_deleted s then
                          Inl (HTTPException 404 ''station not found or inactive'')
                        else if require_transfer_eligibility
                                \<and> \<not> is_station_transfer_eligible (Some s) then
                          Inl (HTTPException 404 ''station not found or inactive'')
                        else Inr ())
                 else if \<not> shelf_in_active_warehouse f l then
                   (case get_row sh_id l (shelves f) of
                      Some s \<Rightarrow> Inl (HTTPException 400 ''shelf belongs to an inactive warehouse'')
                    | None \<Rightarrow> Inl (HTTPException 404 ''shelf not found''))
                 else Inr ())
          else if t \<in> set location_types_without_id \<and> location_id \<noteq> None then
            Inl (HTTPException 400 ''{location_role}_location_id must be omitted'')
          else Inr ())"

definition active_warehouse_ids :: "fleet \<Rightarrow> int list" where
  "active_warehouse_ids f = sort (map w_id (filter w_is_active (warehouses f)))"

definition resolve_intake_warehouse_id :: "fleet \<Rightarrow> int option \<Rightarrow> int res" where
  "resolve_intake_warehouse_id f warehouse_id =
     (case warehouse_id of
        Some wid \<Rightarrow>
          (case get_transfer_eligible_warehouse f wid of
             None \<Rightarrow> Inl (HTTPException 404 ''Warehouse not found or inactive'')
           | Some w \<Rightarrow> Inr (w_id w))
      | None \<Rightarrow>
          (case active_warehouse_ids f of
             [] \<Rightarrow> Inl (HTTPException 404 ''No active warehouse configured'')
           | [wid] \<Rightarrow> Inr wid
           | _ \<Rightarrow> Inl (HTTPException 400 ''Multiple active warehouses found'')))"

definition get_single_active_warehouse_id :: "fleet \<Rightarrow> int option" where
  "get_single_active_warehouse_id f =
     (case active_warehouse_ids f of [wid] \<Rightarrow> Some wid | _ \<Rightarrow> None)"

section \<open>Serial numbers\<close>

definition normalize_battery_serial :: "string \<Rightarrow> string res" where
  "normalize_battery_serial raw =
     (let serial = py_upper (py_strip raw)
      in if serial = [] then Inl (HTTPException 400 ''{field_name} must be a non-empty string'')
         else Inr serial)"

text \<open>The loop; its set \<open>seen\<close> is the set of the serials already normalised.\<close>

fun normalize_serials_loop :: "string list \<Rightarrow> string list \<Rightarrow> string list res" where
  "normalize_serials_loop normalized [] = Inr normalized"
| "normalize_serials_loop normalized (raw # rest) =
     (case normalize_battery_serial raw of
        Inl e \<Rightarrow> Inl e
      | Inr serial \<Rightarrow>
          if serial \<in> set normalized then
            Inl (HTTPException 400 ''Duplicate battery serial'')
          else normalize_serials_loop (normalized @ [serial]) rest)"

definition normalize_battery_serials :: "string list \<Rightarrow> bool \<Rightarrow> string list res" where
  "normalize_battery_serials serials require_non_empty =
     (case normalize_serials_loop [] serials of
        Inl e \<Rightarrow> Inl e
      | Inr normalized \<Rightarrow>
          if require_non_empty \<and> normalized = [] then
            Inl (HTTPException 400 ''{field_name} must not be empty'')
          else Inr normalized)"

definition get_shelf_assignment :: "fleet \<Rightarrow> string \<Rightarrow> shelf_battery option res" where
  "get_shelf_assignment f serial =
     (case filter (\<lambda>r. py_upper (sb_battery_id r) = serial) (shelf_batteries f) of
        [] \<Rightarrow> Inr None
      | [r] \<Rightarrow> Inr (Some r)
      | _ \<Rightarrow> Inl (HTTPException 409 ''multiple shelf assignments found''))"

text \<open>The dictionary \<open>by_serial\<close>, as the association list of its insertions.\<close>

fun index_by_serial ::
    "(string \<times> battery) list \<Rightarrow> battery list \<Rightarrow> (string \<times> battery) list res" where
  "index_by_serial by_serial [] = Inr by_serial"
| "index_by_serial by_serial (row # rows) =
     (case normalize_battery_serial (serial_number row) of
        Inl e \<Rightarrow> Inl e
      | Inr normalized \<Rightarrow>
          if map_of by_serial normalized \<noteq> None then
            Inl (HTTPException 409 ''multiple battery rows found'')
          else index_by_serial (by_serial @ [(normalized, row)]) rows)"

definition fetch_batteries_case_insensitive :: "fleet \<Rightarrow> string list \<Rightarrow> battery list res" where
  "fetch_batteries_case_insensitive f serials =
     (if serials = [] then Inr []
      else
        case index_by_serial []
               (filter (\<lambda>b. py_upper (serial_number b) \<in> set serials) (batteries f)) of
          Inl e \<Rightarrow> Inl e
        | Inr by_serial \<Rightarrow>
            if list_ex (\<lambda>s. map_of by_serial s = None) serials then
              Inl (HTTPException 400 ''Batteries not found'')
            else Inr (map (\<lambda>s. the (map_of by_serial s)) serials))"

definition get_battery_by_serial :: "fleet \<Rightarrow> string \<Rightarrow> battery option res" where
  "get_battery_by_serial f serial =
     (case normalize_battery_serial serial of
        Inl e \<Rightarrow> Inl e
      | Inr normalized \<Rightarrow>
          (case filter (\<lambda>b. py_upper (serial_number b) = normalized) (batteries f) of
             [] \<Rightarrow> Inr None
           | [b] \<Rightarrow> Inr (Some b)
           | _ \<Rightarrow> Inl (HTTPException 409 ''multiple battery rows found'')))"

definition fetch_batteries_by_serials :: "fleet \<Rightarrow> string list \<Rightarrow> bool \<Rightarrow> battery list res" where
  "fetch_batteries_by_serials f serials require_non_empty =
     (case normalize_battery_serials serials require_non_empty of
        Inl e \<Rightarrow> Inl e
      | Inr normalized \<Rightarrow> fetch_batteries_case_insensitive f normalized)"

section \<open>Locks\<close>

definition transfer_conflict :: "fleet \<Rightarrow> string list \<Rightarrow> int option \<Rightarrow> bool" where
  "transfer_conflict f normalized exclude_transfer_id =
     list_ex (\<lambda>i. py_upper (ti_battery_id i) \<in> set normalized \<and>
       list_ex (\<lambda>t. tr_id t = ti_transfer_id i \<and> tr_status t \<in> set active_transfer_statuses
                    \<and> exclude_transfer_id \<noteq> Some (tr_id t)) (transfers f))
       (transfer_items f)"

definition assert_batteries_not_in_active_transfers ::
    "fleet \<Rightarrow> string list \<Rightarrow> int option \<Rightarrow> unit res" where
  "assert_batteries_not_in_active_transfers f serials exclude_transfer_id =
     (case normalize_battery_serials serials False of
        Inl e \<Rightarrow> Inl e
      | Inr normalized \<Rightarrow>
          if normalized = [] then Inr ()
          else if transfer_conflict f normalized exclude_transfer_id then
            Inl (HTTPException 409 ''Batteries already in active transfers'')
          else Inr ())"

text \<open>In SQL: \<open>replace(replace(lower(status), '-', '_'), ' ', '_')\<close>; nothing is stripped.\<close>

definition order_is_active :: "order \<Rightarrow> bool" where
  "order_is_active r \<longleftrightarrow>
     underscored (py_lower (o_status r)) \<in> set active_order_normalized_statuses"

definition order_conflict :: "fleet \<Rightarrow> string list \<Rightarrow> string option \<Rightarrow> bool" where
  "order_conflict f normalized exclude_order_id =
     list_ex (\<lambda>i. py_upper (ob_battery_id i) \<in> set normalized \<and>
       list_ex (\<lambda>r. o_id r = ob_order_id i \<and> order_is_active r
                    \<and> (exclude_order_id = Some (o_id r) \<longrightarrow> o_id r = [])) (orders f))
       (order_batteries f)"

definition assert_batteries_not_in_active_orders ::
    "fleet \<Rightarrow> string list \<Rightarrow> string option \<Rightarrow> unit res" where
  "assert_batteries_not_in_active_orders f serials exclude_order_id =
     (case normalize_battery_serials serials False of
        Inl e \<Rightarrow> Inl e
      | Inr normalized \<Rightarrow>
          if normalized = [] then Inr ()
          else if order_conflict f normalized exclude_order_id then
            Inl (HTTPException 409 ''Batteries already assigned to active orders'')
          else Inr ())"

definition assert_battery_not_locked ::
    "fleet \<Rightarrow> string \<Rightarrow> int option \<Rightarrow> string option \<Rightarrow> bool \<Rightarrow> bool \<Rightarrow> unit res" where
  "assert_battery_not_locked f serial exclude_transfer_id exclude_order_id
       skip_active_transfer_check skip_active_order_check =
     (case normalize_battery_serial serial of
        Inl e \<Rightarrow> Inl e
      | Inr normalized \<Rightarrow>
          (case (if skip_active_transfer_check then Inr ()
                 else assert_batteries_not_in_active_transfers f [normalized] exclude_transfer_id) of
             Inl e \<Rightarrow> Inl e
           | Inr _ \<Rightarrow>
               if skip_active_order_check then Inr ()
               else assert_batteries_not_in_active_orders f [normalized] exclude_order_id))"

definition assert_battery_shelf_state_consistent :: "fleet \<Rightarrow> battery \<Rightarrow> unit res" where
  "assert_battery_shelf_state_consistent f b =
     (case normalize_battery_serial (serial_number b) of
        Inl e \<Rightarrow> Inl e
      | Inr serial \<Rightarrow>
          (case get_shelf_assignment f serial of
             Inl e \<Rightarrow> Inl e
           | Inr assignment \<Rightarrow>
               if b_location_type b = Some ''shelf'' then
                 (case b_location_id b of
                    None \<Rightarrow> Inl (HTTPException 409 ''shelf location type but location_id is missing'')
                  | Some l \<Rightarrow>
                      (case assignment of
                         None \<Rightarrow> Inl (HTTPException 409 ''shelf-located but has no shelf assignment row'')
                       | Some a \<Rightarrow>
                           if sb_shelf_id a \<noteq> l then
                             Inl (HTTPException 409 ''location and assignment row disagree'')
                           else Inr ()))
               else if assignment \<noteq> None then
                 Inl (HTTPException 409 ''stale shelf assignment row'')
               else Inr ()))"

section \<open>The transition\<close>

text \<open>
  The keyword arguments of \<open>apply_battery_transition\<close>; \<open>t_to_location_id = None\<close> is the
  sentinel \<open>_UNSET\<close>. \<open>transition_to\<close> is a call with the defaults of the signature.
\<close>

record transition =
  t_event_type :: string
  t_event_description :: string
  t_actor_id :: "int option"
  t_decommission_reason :: "string option"
  t_to_status :: "string option"
  t_to_location_type :: "string option"
  t_to_location_id :: "int option option"
  t_exclude_transfer_id :: "int option"
  t_exclude_order_id :: "string option"
  t_skip_active_transfer_check :: bool
  t_skip_active_order_check :: bool

definition transition_to ::
    "string \<Rightarrow> string \<Rightarrow> int option \<Rightarrow> string \<Rightarrow> string \<Rightarrow> int option \<Rightarrow> transition" where
  "transition_to status ltype lid event description actor =
     \<lparr>t_event_type = event, t_event_description = description, t_actor_id = actor,
      t_decommission_reason = None, t_to_status = Some status, t_to_location_type = Some ltype,
      t_to_location_id = Some lid, t_exclude_transfer_id = None, t_exclude_order_id = None,
      t_skip_active_transfer_check = False, t_skip_active_order_check = False\<rparr>"

definition target_status :: "battery \<Rightarrow> transition \<Rightarrow> string" where
  "target_status b t = (case t_to_status t of None \<Rightarrow> b_status b | Some s \<Rightarrow> s)"

definition target_location_type :: "battery \<Rightarrow> transition \<Rightarrow> string option" where
  "target_location_type b t =
     (case t_to_location_type t of None \<Rightarrow> b_location_type b | Some l \<Rightarrow> Some l)"

definition target_location_id :: "battery \<Rightarrow> transition \<Rightarrow> int option" where
  "target_location_id b t = (case t_to_location_id t of None \<Rightarrow> b_location_id b | Some l \<Rightarrow> l)"

definition drop_assignment :: "shelf_battery option \<Rightarrow> shelf_battery list \<Rightarrow> shelf_battery list" where
  "drop_assignment assignment rows = (case assignment of None \<Rightarrow> rows | Some a \<Rightarrow> remove1 a rows)"

definition move_shelf_row ::
    "fleet \<Rightarrow> string \<Rightarrow> shelf_battery option \<Rightarrow> string option \<Rightarrow> int option \<Rightarrow> shelf_battery list res"
where
  "move_shelf_row f serial assignment ltype lid =
     (let others = drop_assignment assignment (shelf_batteries f)
      in if ltype = Some ''shelf'' then
           (case lid of
              None \<Rightarrow> Inl (HTTPException 400 ''target_location_id is required for shelf assignments'')
            | Some l \<Rightarrow>
                (case get_row sh_id l (shelves f) of
                   None \<Rightarrow> Inl (HTTPException 404 ''Shelf not found'')
                 | Some target_shelf \<Rightarrow>
                     if map_option sb_shelf_id assignment = Some l then Inr (shelf_batteries f)
                     else if sh_capacity target_shelf
                             \<le> int (length (filter (\<lambda>r. sb_shelf_id r = l) (shelf_batteries f))) then
                       Inl (HTTPException 400 ''Shelf is at full capacity'')
                     else Inr (others @ [\<lparr>sb_shelf_id = l, sb_battery_id = serial\<rparr>])))
         else Inr others)"

definition moved_battery ::
    "battery \<Rightarrow> transition \<Rightarrow> string \<Rightarrow> datetime \<Rightarrow> battery" where
  "moved_battery b t serial now =
     (let ltype = target_location_type b t;
          lid = (if ltype \<in> Some ` set location_types_without_id then None
                 else target_location_id b t);
          b1 = b\<lparr>serial_number := serial, b_status := target_status b t, b_location_type := ltype,
                 b_location_id := lid, b_updated_at := now,
                 b_station_id := (if ltype = Some ''station'' \<and> lid \<noteq> None then lid
                                  else if ltype \<noteq> Some ''station'' then None
                                  else b_station_id b)\<rparr>;
          cleaned_reason = py_strip (case t_decommission_reason t of None \<Rightarrow> [] | Some r \<Rightarrow> r)
      in if target_status b t = ''retired'' then
           b1\<lparr>retirement_date := (if retirement_date b = None then Some now else retirement_date b),
              decommissioned_at :=
                (if decommissioned_at b = None then Some now else decommissioned_at b),
              decommissioned_by :=
                (if t_actor_id t \<noteq> None then t_actor_id t else decommissioned_by b),
              decommission_reason :=
                (if cleaned_reason \<noteq> [] then Some cleaned_reason else decommission_reason b)\<rparr>
         else b1)"

definition apply_battery_transition ::
    "datetime \<Rightarrow> battery \<Rightarrow> transition \<Rightarrow> fleet \<Rightarrow> fleet res" where
  "apply_battery_transition now b t f =
     (case normalize_battery_serial (serial_number b) of
        Inl e \<Rightarrow> Inl e
      | Inr serial \<Rightarrow>
          if target_status b t \<notin> set valid_battery_statuses then
            Inl (HTTPException 400 ''Invalid battery status'')
          else if b_status b = ''retired'' \<and> target_status b t \<noteq> ''retired'' then
            Inl (HTTPException 409 ''Battery is retired and cannot transition back to active states'')
          else
            case assert_location_exists f (target_location_type b t) (target_location_id b t) False of
              Inl e \<Rightarrow> Inl e
            | Inr _ \<Rightarrow>
                if target_location_type b t = Some ''transit''
                   \<and> target_status b t \<notin> set transit_compatible_statuses then
                  Inl (HTTPException 400 ''location_type 'transit' is only allowed with statuses'')
                else
                  case assert_battery_not_locked f serial (t_exclude_transfer_id t)
                         (t_exclude_order_id t) (t_skip_active_transfer_check t)
                         (t_skip_active_order_check t) of
                    Inl e \<Rightarrow> Inl e
                  | Inr _ \<Rightarrow>
                      (case get_shelf_assignment f serial of
                         Inl e \<Rightarrow> Inl e
                       | Inr assignment \<Rightarrow>
                           (case move_shelf_row f serial assignment (target_location_type b t)
                                   (target_location_id b t) of
                              Inl e \<Rightarrow> Inl e
                            | Inr rows \<Rightarrow>
                                Inr (f\<lparr>shelf_batteries := rows,
                                       batteries := put_row b_id (moved_battery b t serial now)
                                                      (batteries f),
                                       battery_events := battery_events f @
                                         [\<lparr>ev_id = fresh_id ev_id (battery_events f),
                                           ev_battery_id = b_id b,
                                           ev_type = t_event_type t,
                                           ev_description = t_event_description t,
                                           ev_actor_id = t_actor_id t,
                                           ev_timestamp = now\<rparr>]\<rparr>))))"

text \<open>An event that is written without a move (\<open>_log_battery_event\<close> of the order API).\<close>

definition log_battery_event ::
    "datetime \<Rightarrow> int \<Rightarrow> string \<Rightarrow> string \<Rightarrow> int option \<Rightarrow> fleet \<Rightarrow> fleet" where
  "log_battery_event now bid event_type description actor_id f =
     f\<lparr>battery_events := battery_events f @
         [\<lparr>ev_id = fresh_id ev_id (battery_events f), ev_battery_id = bid, ev_type = event_type,
           ev_description = description, ev_actor_id = actor_id, ev_timestamp = now\<rparr>]\<rparr>"

end
