(* ===== verification/FleetInv.thy ===== *)
theory FleetInv
  imports Fleet
begin

text \<open>
  What the battery transition keeps and establishes. The invariant \<open>fleet_inv\<close> ties the
  batteries to the shelf rows of the warehouses: at most one row per serial number, no shelf
  above its capacity, and every battery in the state that
  \<open>assert_battery_shelf_state_consistent\<close> accepts.
\<close>

section \<open>Serial numbers\<close>

definition serial_key :: "battery \<Rightarrow> string" where
  "serial_key b = py_upper (py_strip (serial_number b))"

lemma normalize_serial_iff:
  "normalize_battery_serial s = Inr n \<longleftrightarrow> n = py_upper (py_strip s) \<and> n \<noteq> []"
  by (auto simp: normalize_battery_serial_def Let_def)

lemma normalize_serial_idem:
  "normalize_battery_serial s = Inr n \<Longrightarrow> normalize_battery_serial n = Inr n"
  by (auto simp: normalize_serial_iff)

lemma normalize_serial_upper: "normalize_battery_serial s = Inr n \<Longrightarrow> py_upper n = n \<and> py_strip n = n"
  by (auto simp: normalize_serial_iff)

lemma normalize_serials_loop_iff:
  "normalize_serials_loop acc ss = Inr ns \<longleftrightarrow>
     ns = acc @ map (\<lambda>s. py_upper (py_strip s)) ss
     \<and> set acc \<inter> (\<lambda>s. py_upper (py_strip s)) ` set ss = {}
     \<and> distinct (map (\<lambda>s. py_upper (py_strip s)) ss) \<and> [] \<notin> (\<lambda>s. py_upper (py_strip s)) ` set ss"
  by (induction acc ss rule: normalize_serials_loop.induct)
    (auto simp: normalize_battery_serial_def Let_def)

lemma normalize_serials_iff:
  "normalize_battery_serials ss req = Inr ns \<longleftrightarrow>
     ns = map (\<lambda>s. py_upper (py_strip s)) ss \<and> distinct ns \<and> [] \<notin> set ns \<and> (req \<longrightarrow> ss \<noteq> [])"
  using normalize_serials_loop_iff[of "[]" ss ns]
  by (cases "normalize_serials_loop [] ss")
    (auto simp: normalize_battery_serials_def dest: normalize_serials_loop_iff[THEN iffD1])

lemma index_by_serial_map:
  "index_by_serial acc rows = Inr m \<Longrightarrow>
     m = acc @ map (\<lambda>b. (serial_key b, b)) rows \<and> (\<forall>b\<in>set rows. serial_key b \<noteq> [])
     \<and> distinct (map serial_key rows)
     \<and> fst ` set acc \<inter> serial_key ` set rows = {}"
  by (induction acc rows rule: index_by_serial.induct)
    (auto simp: serial_key_def normalize_serial_iff map_of_eq_None_iff split: sum.splits if_splits)

lemma fetch_result:
  assumes "fetch_batteries_case_insensitive f serials = Inr rows"
  shows "map serial_key rows = serials \<and> set rows \<subseteq> set (batteries f)"
proof (cases "serials = []")
  case True
  with assms show ?thesis by (simp add: fetch_batteries_case_insensitive_def)
next
  case False
  let ?cand = "filter (\<lambda>b. py_upper (serial_number b) \<in> set serials) (batteries f)"
  from assms False obtain m where m: "index_by_serial [] ?cand = Inr m"
    and all: "\<forall>s\<in>set serials. map_of m s \<noteq> None"
    and rows: "rows = map (\<lambda>s. the (map_of m s)) serials"
    by (auto simp: fetch_batteries_case_insensitive_def list_ex_iff split: sum.splits if_splits)
  from index_by_serial_map[OF m] have m_eq: "m = map (\<lambda>b. (serial_key b, b)) ?cand" by simp
  have "serial_key (the (map_of m s)) = s \<and> the (map_of m s) \<in> set (batteries f)"
    if "s \<in> set serials" for s
  proof -
    from all that obtain b where "map_of m s = Some b" by auto
    then show ?thesis using map_of_SomeD[of m s b] by (auto simp: m_eq)
  qed
  then show ?thesis by (auto simp: rows map_idI)
qed

lemma fetch_distinct:
  assumes "fetch_batteries_case_insensitive f serials = Inr rows" "distinct serials"
  shows "distinct rows"
  using fetch_result[OF assms(1)] assms(2) by (metis distinct_map)

section \<open>Shelf rows\<close>

definition shelf_rows :: "shelf_battery list \<Rightarrow> string \<Rightarrow> shelf_battery list" where
  "shelf_rows rows serial = filter (\<lambda>r. py_upper (sb_battery_id r) = serial) rows"

definition shelf_load :: "shelf_battery list \<Rightarrow> int \<Rightarrow> int" where
  "shelf_load rows l = int (length (filter (\<lambda>r. sb_shelf_id r = l) rows))"

lemma get_shelf_assignment_iff:
  "get_shelf_assignment f serial = Inr a \<longleftrightarrow>
     shelf_rows (shelf_batteries f) serial = (case a of None \<Rightarrow> [] | Some r \<Rightarrow> [r])"
  by (auto simp: get_shelf_assignment_def shelf_rows_def split: list.splits option.splits)

lemma shelf_consistent_iff:
  "assert_battery_shelf_state_consistent f b = Inr () \<longleftrightarrow>
     serial_key b \<noteq> [] \<and>
     (case shelf_rows (shelf_batteries f) (serial_key b) of
        [] \<Rightarrow> b_location_type b \<noteq> Some ''shelf''
      | [a] \<Rightarrow> b_location_type b = Some ''shelf'' \<and> b_location_id b = Some (sb_shelf_id a)
      | _ \<Rightarrow> False)"
  unfolding assert_battery_shelf_state_consistent_def get_shelf_assignment_def
    normalize_battery_serial_def serial_key_def[symmetric] Let_def shelf_rows_def[symmetric]
  by (cases "shelf_rows (shelf_batteries f) (serial_key b)")
    (auto split: list.splits option.splits)

lemma distinct_map_remove1: "distinct (map h xs) \<Longrightarrow> distinct (map h (remove1 a xs))"
  by (induction xs) (auto dest: set_remove1_subset[THEN subsetD])

lemma filter_remove1_other: "\<not> P a \<Longrightarrow> filter P (remove1 a xs) = filter P xs"
  by (simp add: filter_remove1 remove1_idem)

lemma filter_remove1_single: "filter P xs = [a] \<Longrightarrow> filter P (remove1 a xs) = []"
  by (simp add: filter_remove1)

lemma length_filter_remove1_le: "length (filter P (remove1 a xs)) \<le> length (filter P xs)"
  by (simp add: filter_remove1 length_remove1)

lemma shelf_rows_distinct:
  "distinct (map (\<lambda>r. py_upper (sb_battery_id r)) rows) \<Longrightarrow> length (shelf_rows rows s) \<le> 1"
proof (induction rows)
  case Nil
  then show ?case by (simp add: shelf_rows_def)
next
  case (Cons r rows)
  show ?case
  proof (cases "py_upper (sb_battery_id r) = s")
    case True
    then have "shelf_rows rows s = []" using Cons.prems
      by (auto simp: shelf_rows_def filter_empty_conv image_iff)
    then show ?thesis by (simp add: shelf_rows_def)
  next
    case False
    with Cons show ?thesis by (simp add: shelf_rows_def)
  qed
qed

definition fleet_inv :: "fleet \<Rightarrow> bool" where
  "fleet_inv f \<longleftrightarrow>
     distinct (map b_id (batteries f)) \<and> distinct (map serial_key (batteries f))
     \<and> distinct (map sh_id (shelves f))
     \<and> distinct (map (\<lambda>r. py_upper (sb_battery_id r)) (shelf_batteries f))
     \<and> list_all (\<lambda>s. shelf_load (shelf_batteries f) (sh_id s) \<le> sh_capacity s) (shelves f)
     \<and> list_all (\<lambda>b. assert_battery_shelf_state_consistent f b = Inr ()) (batteries f)"

section \<open>One transition\<close>

lemma transition_cases:
  assumes "apply_battery_transition now b t f = Inr f'"
  obtains a rows where
    "normalize_battery_serial (serial_number b) = Inr (serial_key b)"
    "target_status b t \<in> set valid_battery_statuses"
    "b_status b = ''retired'' \<longrightarrow> target_status b t = ''retired''"
    "assert_location_exists f (target_location_type b t) (target_location_id b t) False = Inr ()"
    "target_location_type b t = Some ''transit'' \<longrightarrow>
       target_status b t \<in> set transit_compatible_statuses"
    "assert_battery_not_locked f (serial_key b) (t_exclude_transfer_id t) (t_exclude_order_id t)
       (t_skip_active_transfer_check t) (t_skip_active_order_check t) = Inr ()"
    "get_shelf_assignment f (serial_key b) = Inr a"
    "move_shelf_row f (serial_key b) a (target_location_type b t) (target_location_id b t) = Inr rows"
    "f' = f\<lparr>shelf_batteries := rows,
            batteries := put_row b_id (moved_battery b t (serial_key b) now) (batteries f),
            battery_events := battery_events f @
              [\<lparr>ev_id = fresh_id ev_id (battery_events f), ev_battery_id = b_id b,
                ev_type = t_event_type t, ev_description = t_event_description t,
                ev_actor_id = t_actor_id t, ev_timestamp = now\<rparr>]\<rparr>"
proof -
  from assms obtain serial where s: "normalize_battery_serial (serial_number b) = Inr serial"
    by (auto simp: apply_battery_transition_def split: sum.splits)
  then have "serial = serial_key b" by (simp add: normalize_serial_iff serial_key_def)
  with s assms that show thesis
    by (auto simp: apply_battery_transition_def split: sum.splits if_splits)
qed

lemma moved_battery_fields [simp]:
  "b_id (moved_battery b t s now) = b_id b"
  "serial_number (moved_battery b t s now) = s"
  "b_status (moved_battery b t s now) = target_status b t"
  "b_location_type (moved_battery b t s now) = target_location_type b t"
  "b_location_id (moved_battery b t s now) =
     (if target_location_type b t \<in> Some ` set location_types_without_id then None
      else target_location_id b t)"
  "current_charge (moved_battery b t s now) = current_charge b"
  "b_sku_id (moved_battery b t s now) = b_sku_id b"
  "purchase_cost (moved_battery b t s now) = purchase_cost b"
  by (simp_all add: moved_battery_def Let_def)

lemma moved_serial_key:
  "serial_key b \<noteq> [] \<Longrightarrow> serial_key (moved_battery b t (serial_key b) now) = serial_key b"
  by (simp add: serial_key_def)

lemma drop_assignment_facts:
  assumes "get_shelf_assignment f k = Inr a"
  defines "others \<equiv> drop_assignment a (shelf_batteries f)"
  shows "shelf_rows others k = []"
    and "s \<noteq> k \<Longrightarrow> shelf_rows others s = shelf_rows (shelf_batteries f) s"
    and "shelf_load others l \<le> shelf_load (shelf_batteries f) l"
    and "distinct (map (\<lambda>r. py_upper (sb_battery_id r)) (shelf_batteries f)) \<Longrightarrow>
         distinct (map (\<lambda>r. py_upper (sb_battery_id r)) others)"
proof -
  have a: "py_upper (sb_battery_id r) = k \<and> shelf_rows (shelf_batteries f) k = [r]" if "a = Some r" for r
  proof -
    have rows: "shelf_rows (shelf_batteries f) k = [r]"
      using assms(1) that by (simp add: get_shelf_assignment_iff)
    then have "r \<in> set (shelf_rows (shelf_batteries f) k)" by simp
    then have "py_upper (sb_battery_id r) = k" unfolding shelf_rows_def by simp
    with rows show ?thesis by simp
  qed
  show "shelf_rows others k = []"
    using assms(1) a by (cases a)
      (auto simp: others_def drop_assignment_def get_shelf_assignment_iff shelf_rows_def
        filter_remove1_single)
  show "shelf_rows others s = shelf_rows (shelf_batteries f) s" if "s \<noteq> k"
    using a that by (cases a)
      (auto simp: others_def drop_assignment_def shelf_rows_def filter_remove1_other)
  show "shelf_load others l \<le> shelf_load (shelf_batteries f) l"
    by (cases a) (simp_all add: others_def drop_assignment_def shelf_load_def length_filter_remove1_le)
  show "distinct (map (\<lambda>r. py_upper (sb_battery_id r)) others)"
    if "distinct (map (\<lambda>r. py_upper (sb_battery_id r)) (shelf_batteries f))"
    using that by (cases a) (simp_all add: others_def drop_assignment_def distinct_map_remove1)
qed

lemma move_shelf_row_cases:
  assumes "move_shelf_row f k a lt lid = Inr rows"
  obtains (same) r where "a = Some r" "lt = Some ''shelf''" "lid = Some (sb_shelf_id r)"
      "rows = shelf_batteries f"
  | (place) l sh where "lt = Some ''shelf''" "lid = Some l" "get_row sh_id l (shelves f) = Some sh"
      "shelf_load (shelf_batteries f) l < sh_capacity sh"
      "rows = drop_assignment a (shelf_batteries f) @ [\<lparr>sb_shelf_id = l, sb_battery_id = k\<rparr>]"
  | (leave) "lt \<noteq> Some ''shelf''" "rows = drop_assignment a (shelf_batteries f)"
proof (cases "lt = Some ''shelf''")
  case False
  with assms leave show thesis by (simp add: move_shelf_row_def)
next
  case True
  with assms obtain l sh where l: "lid = Some l" "get_row sh_id l (shelves f) = Some sh"
    by (auto simp: move_shelf_row_def split: option.splits)
  show thesis
  proof (cases "map_option sb_shelf_id a = Some l")
    case same': True
    with assms True l same show thesis by (auto simp: move_shelf_row_def)
  next
    case other: False
    with assms True l have "shelf_load (shelf_batteries f) l < sh_capacity sh
        \<and> rows = drop_assignment a (shelf_batteries f) @ [\<lparr>sb_shelf_id = l, sb_battery_id = k\<rparr>]"
      by (auto simp: move_shelf_row_def shelf_load_def simp del: map_option_eq_Some split: if_splits)
    with True l place show thesis by blast
  qed
qed

lemma move_shelf_row_rows:
  assumes "get_shelf_assignment f k = Inr a" "move_shelf_row f k a lt lid = Inr rows" "py_upper k = k"
  shows "s \<noteq> k \<Longrightarrow> shelf_rows rows s = shelf_rows (shelf_batteries f) s"
    and "case shelf_rows rows k of [] \<Rightarrow> lt \<noteq> Some ''shelf''
         | [r] \<Rightarrow> lt = Some ''shelf'' \<and> lid = Some (sb_shelf_id r) | _ \<Rightarrow> False"
proof -
  note d = drop_assignment_facts[OF assms(1)]
  show "shelf_rows rows s = shelf_rows (shelf_batteries f) s" if "s \<noteq> k"
    using assms(2) that assms(3) d(2)[OF that]
    by (cases rule: move_shelf_row_cases) (auto simp: shelf_rows_def)
  show "case shelf_rows rows k of [] \<Rightarrow> lt \<noteq> Some ''shelf''
         | [r] \<Rightarrow> lt = Some ''shelf'' \<and> lid = Some (sb_shelf_id r) | _ \<Rightarrow> False"
    using assms(2)
  proof (cases rule: move_shelf_row_cases)
    case (same r)
    with assms(1) show ?thesis by (simp add: get_shelf_assignment_iff)
  next
    case (place l sh)
    then have "shelf_rows rows k = [\<lparr>sb_shelf_id = l, sb_battery_id = k\<rparr>]"
      using d(1) assms(3) by (simp add: shelf_rows_def)
    with place show ?thesis by simp
  next
    case leave
    with d(1) show ?thesis by simp
  qed
qed

lemma move_shelf_row_tables:
  assumes "get_shelf_assignment f k = Inr a" "move_shelf_row f k a lt lid = Inr rows" "py_upper k = k"
    and "distinct (map sh_id (shelves f))"
    and dist: "distinct (map (\<lambda>r. py_upper (sb_battery_id r)) (shelf_batteries f))"
    and cap: "\<forall>s\<in>set (shelves f). shelf_load (shelf_batteries f) (sh_id s) \<le> sh_capacity s"
  shows "distinct (map (\<lambda>r. py_upper (sb_battery_id r)) rows)
    \<and> (\<forall>s\<in>set (shelves f). shelf_load rows (sh_id s) \<le> sh_capacity s)"
  using assms(2)
proof (cases rule: move_shelf_row_cases)
  case (same r)
  with dist cap show ?thesis by simp
next
  case (place l sh)
  note d = drop_assignment_facts[OF assms(1)]
  let ?others = "drop_assignment a (shelf_batteries f)"
  have "k \<notin> (\<lambda>r. py_upper (sb_battery_id r)) ` set ?others"
    using d(1) by (auto simp: shelf_rows_def filter_empty_conv)
  with d(4)[OF dist] place assms(3)
  have "distinct (map (\<lambda>r. py_upper (sb_battery_id r)) rows)" by auto
  moreover have "shelf_load rows (sh_id s) \<le> sh_capacity s" if s: "s \<in> set (shelves f)" for s
  proof (cases "sh_id s = l")
    case True
    with s place(3) assms(4) have "s = sh"
      by (metis get_row_member option.inject)
    with True place d(3)[of l] show ?thesis by (auto simp: shelf_load_def)
  next
    case False
    with place d(3)[of "sh_id s"] cap s show ?thesis by (force simp: shelf_load_def)
  qed
  ultimately show ?thesis by simp
next
  case leave
  with drop_assignment_facts(3,4)[OF assms(1)] dist cap show ?thesis by (meson order_trans)
qed

lemma transition_preserves_fleet_inv:
  assumes inv: "fleet_inv f" and b: "b \<in> set (batteries f)"
    and step: "apply_battery_transition now b t f = Inr f'"
  shows "fleet_inv f'"
  using step
proof (cases rule: transition_cases)
  case (1 a rows)
  let ?k = "serial_key b" and ?m = "moved_battery b t (serial_key b) now"
  have k: "py_upper ?k = ?k" "?k \<noteq> []" using 1(1)
    by (simp_all add: serial_key_def normalize_serial_iff)
  have ids: "distinct (map b_id (batteries f))" and keys: "distinct (map serial_key (batteries f))"
    using inv by (auto simp: fleet_inv_def)
  have mk: "serial_key ?m = ?k" by (simp add: moved_serial_key k)
  have "map serial_key (put_row b_id ?m (batteries f)) = map serial_key (batteries f)"
    by (rule map_put_row[OF ids b]) (simp_all add: mk)
  moreover have "assert_battery_shelf_state_consistent f' c = Inr ()" if c: "c \<in> set (batteries f')" for c
  proof (cases "c = ?m")
    case True
    have shelf: "Some ''shelf'' \<notin> Some ` set location_types_without_id"
      by (simp add: location_types_without_id_def)
    have rows: "shelf_batteries f' = rows" using 1(9) by simp
    show ?thesis
      using move_shelf_row_rows(2)[OF 1(7,8) k(1)] shelf k(2)
      unfolding shelf_consistent_iff True mk rows
      by (cases "shelf_rows rows ?k") (auto split: list.splits)
  next
    case False
    with c 1(9) have c: "c \<in> set (batteries f)" "b_id c \<noteq> b_id b" by (auto dest: in_put_row)
    with b keys have "serial_key c \<noteq> ?k" by (metis distinct_map inj_onD)
    then have "shelf_rows rows (serial_key c) = shelf_rows (shelf_batteries f) (serial_key c)"
      by (rule move_shelf_row_rows(1)[OF 1(7,8) k(1)])
    with inv c(1) 1(9) show ?thesis
      by (simp add: fleet_inv_def list_all_iff shelf_consistent_iff)
  qed
  ultimately show ?thesis
    using inv 1(9) move_shelf_row_tables[OF 1(7,8) k(1)]
    by (simp add: fleet_inv_def list_all_iff)
qed

section \<open>What a transition changes\<close>

lemma transition_row:
  assumes "apply_battery_transition now b t f = Inr f'"
  shows "batteries f' = put_row b_id (moved_battery b t (serial_key b) now) (batteries f)"
  using assms by (cases rule: transition_cases) simp

lemma transition_get:
  assumes "apply_battery_transition now b t f = Inr f'" "b \<in> set (batteries f)"
  shows "get_row b_id i (batteries f') =
    (if i = b_id b then Some (moved_battery b t (serial_key b) now) else get_row b_id i (batteries f))"
proof -
  have "get_row b_id (b_id b) (batteries f) \<noteq> None" using assms(2) by (auto simp: get_row_None)
  then show ?thesis by (simp add: transition_row[OF assms(1)] get_put)
qed

text \<open>The tables a transition does not write, together.\<close>

definition fleet_frame where
  "fleet_frame f = (warehouses f, racks f, shelves f, stations f, transfers f, transfer_items f,
                    drivers f, orders f, order_batteries f)"

lemma transition_frame: "apply_battery_transition now b t f = Inr f' \<Longrightarrow> fleet_frame f' = fleet_frame f"
  by (erule transition_cases) (simp add: fleet_frame_def)

lemma transition_ids: "apply_battery_transition now b t f = Inr f' \<Longrightarrow>
    map b_id (batteries f') = map b_id (batteries f)"
  by (simp add: transition_row)

lemma transition_events:
  "apply_battery_transition now b t f = Inr f' \<Longrightarrow>
     \<exists>e. battery_events f' = battery_events f @ [e] \<and> ev_battery_id e = b_id b
       \<and> ev_type e = t_event_type t \<and> ev_description e = t_event_description t
       \<and> ev_actor_id e = t_actor_id t \<and> ev_timestamp e = now
       \<and> ev_id e = fresh_id ev_id (battery_events f)"
  by (erule transition_cases) simp

text \<open>
  The place of a battery, as a specification: the location exists and can hold it, a location
  without an id has none, the legacy column \<open>station_id\<close> mirrors it, and only a battery that is
  on its way is in transit.
\<close>

definition well_located :: "fleet \<Rightarrow> battery \<Rightarrow> bool" where
  "well_located f b \<longleftrightarrow>
     (case b_location_type b of
        None \<Rightarrow> True
      | Some l \<Rightarrow> l \<in> set valid_location_types)
     \<and> (b_location_type b = Some ''warehouse'' \<longrightarrow>
          (\<exists>w\<in>set (warehouses f). b_location_id b = Some (w_id w) \<and> 0 < w_id w \<and> w_is_active w))
     \<and> (b_location_type b = Some ''station'' \<longrightarrow>
          (\<exists>s\<in>set (stations f). b_location_id b = Some (st_id s) \<and> 0 < st_id s \<and> \<not> st_is_deleted s))
     \<and> (b_location_type b = Some ''shelf'' \<longrightarrow>
          (\<exists>s\<in>set (shelves f). b_location_id b = Some (sh_id s) \<and> 0 < sh_id s
              \<and> shelf_in_active_warehouse f (sh_id s)))
     \<and> (b_location_type b \<in> {Some ''customer'', Some ''transit''} \<longrightarrow> b_location_id b = None)
     \<and> (b_station_id b = (if b_location_type b = Some ''station'' then b_location_id b else None))
     \<and> (b_location_type b = Some ''transit'' \<longrightarrow> b_status b \<in> set transit_compatible_statuses)"

lemmas location_constants =
  valid_location_types_def location_types_requiring_id_def location_types_without_id_def

lemma location_exists_cases:
  assumes "assert_location_exists f (Some l) lid e = Inr ()"
  shows "l \<in> set valid_location_types"
    and "l = ''warehouse'' \<Longrightarrow> \<exists>w\<in>set (warehouses f). lid = Some (w_id w) \<and> 0 < w_id w \<and> w_is_active w"
    and "l = ''station'' \<Longrightarrow> \<exists>s\<in>set (stations f). lid = Some (st_id s) \<and> 0 < st_id s \<and> \<not> st_is_deleted s"
    and "l = ''shelf'' \<Longrightarrow> \<exists>s\<in>set (shelves f). lid = Some (sh_id s) \<and> 0 < sh_id s
           \<and> shelf_in_active_warehouse f (sh_id s)"
    and "l \<in> {''customer'', ''transit''} \<Longrightarrow> lid = None"
proof -
  show "l \<in> set valid_location_types"
    using assms by (auto simp: assert_location_exists_def split: if_splits)
  show "\<exists>w\<in>set (warehouses f). lid = Some (w_id w) \<and> 0 < w_id w \<and> w_is_active w" if "l = ''warehouse''"
    using assms that
    by (auto simp: assert_location_exists_def get_transfer_eligible_warehouse_def location_constants
        not_le split: if_splits option.splits dest!: find_Some)
  show "\<exists>s\<in>set (stations f). lid = Some (st_id s) \<and> 0 < st_id s \<and> \<not> st_is_deleted s" if "l = ''station''"
    using assms that
    by (auto simp: assert_location_exists_def location_constants not_le
        split: if_splits option.splits dest!: get_row_Some)
  show "\<exists>s\<in>set (shelves f). lid = Some (sh_id s) \<and> 0 < sh_id s \<and> shelf_in_active_warehouse f (sh_id s)"
    if "l = ''shelf''"
    using assms that
    by (auto simp: assert_location_exists_def location_constants not_le shelf_in_active_warehouse_def
        list_ex_iff split: if_splits option.splits)
  show "lid = None" if "l \<in> {''customer'', ''transit''}"
    using assms that
    by (auto simp: assert_location_exists_def location_constants split: if_splits option.splits)
qed

lemma well_located_frame:
  "warehouses f' = warehouses f \<Longrightarrow> racks f' = racks f \<Longrightarrow> shelves f' = shelves f \<Longrightarrow>
   stations f' = stations f \<Longrightarrow> well_located f' b = well_located f b"
  by (simp add: well_located_def shelf_in_active_warehouse_def)

lemma moved_station_id:
  "b_station_id (moved_battery b t s now) =
     (if target_location_type b t = Some ''station'' \<and> target_location_id b t \<noteq> None
      then target_location_id b t
      else if target_location_type b t \<noteq> Some ''station'' then None else b_station_id b)"
  by (auto simp: moved_battery_def Let_def location_types_without_id_def)

lemma moved_well_located:
  assumes "apply_battery_transition now b t f = Inr f'"
  shows "well_located f' (moved_battery b t (serial_key b) now)"
  using assms
proof (cases rule: transition_cases)
  case (1 a rows)
  have same: "well_located f' c = well_located f c" for c
    using 1(9) by (intro well_located_frame) simp_all
  show ?thesis
  proof (cases "target_location_type b t")
    case None
    then show ?thesis unfolding same by (simp add: well_located_def moved_station_id)
  next
    case (Some l)
    note loc = location_exists_cases[OF 1(4)[unfolded Some]]
    have id: "b_location_id (moved_battery b t (serial_key b) now) = target_location_id b t"
      using Some loc(5) by (auto simp: location_types_without_id_def)
    have "l = ''station'' \<Longrightarrow> target_location_id b t \<noteq> None" using loc(3) by auto
    then show ?thesis
      using Some loc 1(5) unfolding same unfolding well_located_def moved_station_id id by simp
  qed
qed

section \<open>Sequences of transitions\<close>

text \<open>A client loads the row of a battery and moves it; a run is a list of such moves.\<close>

definition move_battery :: "datetime \<Rightarrow> int \<times> transition \<Rightarrow> fleet \<Rightarrow> fleet res" where
  "move_battery now m f =
     (case get_row b_id (fst m) (batteries f) of
        None \<Rightarrow> Inl (HTTPException 404 ''Battery not found'')
      | Some b \<Rightarrow> apply_battery_transition now b (snd m) f)"

lemma move_batteryE:
  assumes "move_battery now m f = Inr f'"
  obtains b where "get_row b_id (fst m) (batteries f) = Some b" "b \<in> set (batteries f)"
    "b_id b = fst m" "apply_battery_transition now b (snd m) f = Inr f'"
  using assms by (auto simp: move_battery_def split: option.splits dest: get_row_Some)

interpretation fleet_move: framed_step "move_battery now" fleet_inv fleet_frame for now
proof unfold_locales
  fix f m f'
  show "fleet_inv f \<Longrightarrow> move_battery now m f = Inr f' \<Longrightarrow> fleet_inv f'"
    by (erule move_batteryE) (rule transition_preserves_fleet_inv)
  show "move_battery now m f = Inr f' \<Longrightarrow> fleet_frame f' = fleet_frame f"
    by (erule move_batteryE) (rule transition_frame)
qed

definition is_retired :: "int \<Rightarrow> fleet \<Rightarrow> bool" where
  "is_retired i f \<longleftrightarrow> (case get_row b_id i (batteries f) of None \<Rightarrow> False | Some b \<Rightarrow> b_status b = ''retired'')"

interpretation retired_move: preserving_step "move_battery now" "is_retired i" for now i
proof unfold_locales
  fix f m f'
  assume ret: "is_retired i f" and "move_battery now m f = Inr f'"
  from this(2) show "is_retired i f'"
  proof (rule move_batteryE)
    fix b assume b: "get_row b_id (fst m) (batteries f) = Some b" "b \<in> set (batteries f)"
      "b_id b = fst m" "apply_battery_transition now b (snd m) f = Inr f'"
    have "b_status b = ''retired'' \<longrightarrow> target_status b (snd m) = ''retired''"
      using b(4) by (cases rule: transition_cases)
    with ret b show "is_retired i f'"
      by (auto simp: is_retired_def transition_get[OF b(4,2)] split: option.splits)
  qed
qed

lemma transition_locked:
  assumes "t_skip_active_order_check t = False"
    and "order_conflict f [serial_key b] (t_exclude_order_id t)"
  shows "\<exists>e. apply_battery_transition now b t f = Inl e"
proof (rule ccontr)
  assume "\<not> ?thesis"
  then obtain f' where "apply_battery_transition now b t f = Inr f'"
    by (cases "apply_battery_transition now b t f") auto
  then show False
  proof (cases rule: transition_cases)
    case (1 a rows)
    have k: "normalize_battery_serial (serial_key b) = Inr (serial_key b)"
      using 1(1) by (rule normalize_serial_idem)
    then have "normalize_battery_serials [serial_key b] False = Inr [serial_key b]"
      by (auto simp: normalize_serials_iff normalize_serial_iff)
    with 1(6) assms k show False
      by (auto simp: assert_battery_not_locked_def assert_batteries_not_in_active_orders_def
          split: sum.splits if_splits)
  qed
qed


section \<open>A concrete fleet\<close>

text \<open>Two batteries, one shelf with room for one, an active warehouse and a station.\<close>

definition sample_battery :: "int \<Rightarrow> string \<Rightarrow> battery" where
  "sample_battery i s = \<lparr>b_id = i, serial_number = s, b_status = ''available'',
     b_location_type = Some ''warehouse'', b_location_id = Some 1, b_station_id = None,
     current_charge = 100, b_health_percentage = 100, b_battery_type = None, b_sku_id = None, purchase_cost = 0, retirement_date = None,
     decommissioned_at = None, decommissioned_by = None, decommission_reason = None, b_updated_at = 0\<rparr>"

definition sample_fleet :: fleet where
  "sample_fleet = \<lparr>batteries = [sample_battery 1 ''A'', sample_battery 2 ''B''], battery_events = [],
     warehouses = [\<lparr>w_id = 1, w_is_active = True\<rparr>], racks = [\<lparr>rk_id = 1, rk_warehouse_id = 1\<rparr>],
     shelves = [\<lparr>sh_id = 1, sh_rack_id = 1, sh_capacity = 1\<rparr>], shelf_batteries = [],
     stations = [\<lparr>st_id = 1, st_status = ''active'', st_is_deleted = False, st_dealer_id = None\<rparr>], transfers = [],
     transfer_items = [], drivers = [], orders = [], order_batteries = []\<rparr>"

abbreviation to_shelf :: transition where
  "to_shelf \<equiv> transition_to ''available'' ''shelf'' (Some 1) ''moved'' ''to the shelf'' None"

abbreviation to_customer :: transition where
  "to_customer \<equiv> transition_to ''deployed'' ''customer'' None ''moved'' ''to a customer'' None"

abbreviation to_scrap :: transition where
  "to_scrap \<equiv> transition_to ''retired'' ''warehouse'' (Some 1) ''retired'' ''scrapped'' None"

lemmas fleet_eval = sample_battery_def sample_fleet_def fleet_inv_def serial_key_def
  assert_battery_shelf_state_consistent_def get_shelf_assignment_def normalize_battery_serial_def
  shelf_load_def py_upper_def py_strip_def upper_char_def is_space_def move_battery_def
  apply_battery_transition_def transition_to_def target_status_def target_location_type_def
  target_location_id_def valid_battery_statuses_def assert_location_exists_def
  valid_location_types_def location_types_requiring_id_def location_types_without_id_def
  get_transfer_eligible_warehouse_def shelf_in_active_warehouse_def transit_compatible_statuses_def assert_battery_not_locked_def
  assert_batteries_not_in_active_transfers_def assert_batteries_not_in_active_orders_def
  normalize_battery_serials_def transfer_conflict_def order_conflict_def move_shelf_row_def
  drop_assignment_def moved_battery_def Let_def

lemma sample_inv: "fleet_inv sample_fleet"
  by (simp add: fleet_eval)

lemma sample_move: "\<exists>f'. move_battery 5 (1, to_shelf) sample_fleet = Inr f'
    \<and> map sb_battery_id (shelf_batteries f') = [''A'']"
  by (simp add: fleet_eval)

lemma sample_run: "\<exists>f'. fold_res (move_battery 5) [(1, to_shelf), (1, to_customer), (2, to_shelf)] sample_fleet = Inr f'
    \<and> map sb_battery_id (shelf_batteries f') = [''B'']"
  by (simp add: fleet_eval)

section \<open>Properties\<close>

text \<open>
  C3: Any run of battery moves that succeeds keeps the fleet consistent: unique
  rows and serials, every battery on a shelf has exactly the assignment row of that shelf and
  no other battery has one; warehouses, stations, transfers and orders are not touched.
\<close>

theorem moves_keep_fleet_consistent:
  assumes "fleet_inv f" "fold_res (move_battery now) moves f = Inr f'"
  shows "fleet_inv f' \<and> fleet_frame f' = fleet_frame f"
  using fleet_move.fold_preserves[OF assms] fleet_move.fold_frame[OF assms(2)] by blast

lemma moves_keep_fleet_consistent_witness:
  "\<exists>f'. fold_res (move_battery 5) [(1, to_shelf), (1, to_customer), (2, to_shelf)] sample_fleet = Inr f'
     \<and> fleet_inv f' \<and> map sb_battery_id (shelf_batteries f') = [''B'']"
proof -
  obtain f' where f': "fold_res (move_battery 5) [(1, to_shelf), (1, to_customer), (2, to_shelf)] sample_fleet = Inr f'"
    "map sb_battery_id (shelf_batteries f') = [''B'']"
    using sample_run by (elim exE conjE)
  show ?thesis
    by (intro exI[of _ f'] conjI, rule f', rule conjunct1, rule moves_keep_fleet_consistent[OF sample_inv f'(1)], rule f')
qed

text \<open>
  No run of moves puts more batteries on a shelf than its capacity.
\<close>

lemma shelves_never_overfull:
  assumes "fleet_inv f" "fold_res (move_battery now) moves f = Inr f'" "sh \<in> set (shelves f')"
  shows "shelf_load (shelf_batteries f') (sh_id sh) \<le> sh_capacity sh"
  using fleet_move.fold_preserves[OF assms(1,2)] assms(3) by (auto simp: fleet_inv_def list_all_iff)

lemma shelves_never_overfull_witness:
  "\<exists>f'. fold_res (move_battery 5) [(1, to_shelf), (1, to_customer), (2, to_shelf)] sample_fleet = Inr f'
     \<and> (\<exists>sh \<in> set (shelves f'). sh_capacity sh = 1 \<and> shelf_load (shelf_batteries f') (sh_id sh) \<le> sh_capacity sh)"
proof -
  obtain f' where f': "fold_res (move_battery 5) [(1, to_shelf), (1, to_customer), (2, to_shelf)] sample_fleet = Inr f'"
    using sample_run by (elim exE conjE)
  have "shelves f' = shelves sample_fleet"
    using fleet_move.fold_frame[OF f'] by (simp add: fleet_frame_def)
  then have sh: "\<lparr>sh_id = 1, sh_rack_id = 1, sh_capacity = 1\<rparr> \<in> set (shelves f')"
    by (simp add: sample_fleet_def)
  show ?thesis using shelves_never_overfull[OF sample_inv f' sh] f' sh by force
qed

text \<open>
  A move that succeeds rewrites the row of the moved battery alone and records
  exactly one event, which names that battery, the actor and the time.
\<close>

lemma move_rewrites_one_battery:
  assumes "apply_battery_transition now b t f = Inr f'" "b \<in> set (batteries f)"
  shows "get_row b_id (b_id b) (batteries f') = Some (moved_battery b t (serial_key b) now)
    \<and> (\<forall>i. i \<noteq> b_id b \<longrightarrow> get_row b_id i (batteries f') = get_row b_id i (batteries f))
    \<and> (\<exists>e. battery_events f' = battery_events f @ [e] \<and> ev_battery_id e = b_id b
         \<and> ev_type e = t_event_type t \<and> ev_actor_id e = t_actor_id t \<and> ev_timestamp e = now)"
  using transition_get[OF assms] transition_events[OF assms(1)] by auto

lemma move_rewrites_one_battery_witness:
  "\<exists>f' e. apply_battery_transition 5 (sample_battery 1 ''A'') to_shelf sample_fleet = Inr f'
     \<and> battery_events f' = [e] \<and> ev_battery_id e = 1
     \<and> get_row b_id 2 (batteries f') = Some (sample_battery 2 ''B'')"
proof -
  obtain f' where f': "apply_battery_transition 5 (sample_battery 1 ''A'') to_shelf sample_fleet = Inr f'"
    by (simp add: fleet_eval)
  show ?thesis using move_rewrites_one_battery[OF f'] f' by (auto simp: sample_fleet_def sample_battery_def)
qed

text \<open>
  Where a move leaves a battery is a place that exists and can hold it: an
  active warehouse, a station that is not deleted, a shelf of an active warehouse; a battery
  with a customer or in transit has no location id, and only a battery at a station names one.
\<close>

lemma moved_battery_is_placed:
  assumes "apply_battery_transition now b t f = Inr f'"
  shows "well_located f' (moved_battery b t (serial_key b) now)"
  by (rule moved_well_located[OF assms])

lemma moved_battery_is_placed_witness:
  "\<exists>f'. apply_battery_transition 5 (sample_battery 1 ''A'') to_shelf sample_fleet = Inr f'
     \<and> well_located f' (moved_battery (sample_battery 1 ''A'') to_shelf (serial_key (sample_battery 1 ''A'')) 5)"
proof -
  obtain f' where f': "apply_battery_transition 5 (sample_battery 1 ''A'') to_shelf sample_fleet = Inr f'"
    by (simp add: fleet_eval)
  show ?thesis using moved_battery_is_placed[OF f'] f' by blast
qed

text \<open>
  A retired battery stays retired through any run of moves.
\<close>

lemma retired_stays_retired:
  assumes "is_retired i f" "fold_res (move_battery now) moves f = Inr f'"
  shows "is_retired i f'"
  by (rule retired_move.fold_preserves[OF assms])

lemma retired_stays_retired_witness:
  "\<exists>f f'. is_retired 1 f \<and> fold_res (move_battery 6) [(1, to_scrap), (2, to_shelf)] f = Inr f' \<and> is_retired 1 f'"
proof -
  obtain f where f: "move_battery 5 (1, to_scrap) sample_fleet = Inr f" "is_retired 1 f"
    "\<exists>f'. fold_res (move_battery 6) [(1, to_scrap), (2, to_shelf)] f = Inr f'"
    by (simp add: fleet_eval is_retired_def)
  then show ?thesis using retired_stays_retired[OF f(2)] by blast
qed

text \<open>
  A battery assigned to an active order cannot be moved, unless the caller is
  that order or skips the check.
\<close>

lemma ordered_battery_is_locked:
  assumes "t_skip_active_order_check t = False"
    and "order_conflict f [serial_key b] (t_exclude_order_id t)"
  shows "\<exists>e. apply_battery_transition now b t f = Inl e"
  by (rule transition_locked[OF assms])

definition sample_order :: order where
  "sample_order = \<lparr>o_id = ''O1'', o_status = ''pending'', o_type = ''delivery'', o_priority = ''normal'',
     o_units = 1, o_destination = ''D'', o_latitude = None, o_longitude = None, o_notes = None, o_customer_name = ''C'',
     o_customer_phone = None, o_total_value = 0, o_tracking_number = None,
     o_assigned_battery_ids = None, o_assigned_driver_id = None, o_order_date = 0,
     o_dispatch_date = None, o_estimated_delivery = None, o_delivered_at = None, o_updated_at = 0,
     o_pod_url = None, o_pod_notes = None, o_pod_captured_at = None, o_pod_signature_url = None,
     o_recipient_name = None, o_failure_reason = None, o_slot_start = None, o_slot_end = None,
     o_confirmation_sent_at = None, o_original_order_id = None, o_refund_status = ''none''\<rparr>"

lemma ordered_battery_is_locked_witness:
  "\<exists>e. apply_battery_transition 5 (sample_battery 1 ''A'') to_shelf
     (sample_fleet\<lparr>orders := [sample_order],
        order_batteries := [\<lparr>ob_id = 1, ob_order_id = ''O1'', ob_battery_id = ''A'', ob_battery_pk = Some 1\<rparr>]\<rparr>)
     = Inl e"
  by (rule ordered_battery_is_locked)
    (simp_all add: fleet_eval sample_order_def order_is_active_def underscored_def replace_char_def
      py_lower_def lower_char_def active_order_normalized_statuses_def)

text \<open>
  Looking up batteries by serial numbers returns exactly one row per requested
  serial, in the order of the request and without repetition, whatever the case and the blanks
  of the request.
\<close>

lemma fetched_in_request_order:
  assumes "fetch_batteries_by_serials f serials require_non_empty = Inr rows"
  shows "map serial_key rows = map (\<lambda>s. py_upper (py_strip s)) serials
    \<and> set rows \<subseteq> set (batteries f) \<and> distinct rows"
proof -
  obtain ns where ns: "normalize_battery_serials serials require_non_empty = Inr ns"
    "fetch_batteries_case_insensitive f ns = Inr rows"
    using assms by (auto simp: fetch_batteries_by_serials_def split: sum.splits)
  then show ?thesis using fetch_result[OF ns(2)] fetch_distinct[OF ns(2)]
    by (auto simp: normalize_serials_iff)
qed

lemma fetched_in_request_order_witness:
  "\<exists>rows. fetch_batteries_by_serials sample_fleet ['' B '', ''A''] True = Inr rows
     \<and> map serial_key rows = [''B'', ''A''] \<and> distinct rows"
proof -
  obtain rows where r: "fetch_batteries_by_serials sample_fleet ['' B '', ''A''] True = Inr rows"
    by (simp add: fleet_eval fetch_batteries_by_serials_def fetch_batteries_case_insensitive_def)
  show ?thesis using fetched_in_request_order[OF r] r
    by (simp add: py_upper_def py_strip_def upper_char_def is_space_def)
qed

end
