(* ===== verification/Outbox.thy ===== *)
theory Outbox
  imports PyStr
begin

text \<open>
  The transactional outbox of notifications (\<open>app/services/notification_outbox_service.py\<close>):
  rows staged by a business transaction, claimed in batches by a worker, delivered, retried
  with exponential back-off, and dead-lettered when their attempts are spent. The delivery
  providers behind \<open>NotificationService._dispatch\<close> are a parameter, \<open>deliver\<close>, and so is
  the access \<open>notification.app_scope\<close>, \<open>scope_of\<close>: the class \<open>Notification\<close> of this commit
  does not declare that attribute (\<open>notification_app_scope\<close>).
\<close>

section \<open>Tables and settings\<close>

record notification =
  n_id :: int
  n_user_id :: int
  n_title :: string
  n_message :: string
  n_type :: string
  n_channel :: string
  n_scheduled_at :: "datetime option"
  n_status :: string

record outbox_row =
  x_id :: int
  x_notification_id :: int
  x_user_id :: int
  x_channel :: string
  x_status :: string
  x_attempt_count :: int
  x_max_attempts :: int
  x_last_error :: "string option"
  x_idempotency_key :: "string option"
  x_created_at :: datetime
  x_updated_at :: datetime
  x_next_attempt_at :: "datetime option"
  x_published_at :: "datetime option"

record outbox_db =
  notifications :: "notification list"
  outbox :: "outbox_row list"
  user_ids :: "int list"

record outbox_settings =
  cfg_enabled :: bool
  cfg_max_attempts :: int
  cfg_max_retry_delay_seconds :: int
  cfg_batch_size :: int

section \<open>Staging\<close>

definition truthy_str :: "string option \<Rightarrow> string option" where
  "truthy_str s = (case s of None \<Rightarrow> None | Some v \<Rightarrow> if v = [] then None else Some v)"

definition channel_or_push :: "string \<Rightarrow> string" where
  "channel_or_push c = py_lower (py_strip (if c = [] then ''push'' else c))"

definition enqueue ::
    "outbox_settings \<Rightarrow> datetime \<Rightarrow> notification \<Rightarrow> datetime option \<Rightarrow> string option \<Rightarrow> outbox_db
      \<Rightarrow> outbox_row \<times> outbox_db" where
  "enqueue cfg now n scheduled_at idempotency_key s =
     (let key = truthy_str (map_option py_strip idempotency_key);
          existing = (case key of
                        None \<Rightarrow> None
                      | Some k \<Rightarrow> List.find (\<lambda>r. x_notification_id r = n_id n
                                                  \<and> x_idempotency_key r = Some k) (outbox s))
      in case existing of
           Some r \<Rightarrow> (r, s)
         | None \<Rightarrow>
             let due_at = (case scheduled_at of
                             Some d \<Rightarrow> d
                           | None \<Rightarrow> (case n_scheduled_at n of Some d \<Rightarrow> d | None \<Rightarrow> now));
                 row = \<lparr>x_id = fresh_id x_id (outbox s), x_notification_id = n_id n,
                        x_user_id = n_user_id n, x_channel = channel_or_push (n_channel n),
                        x_status = ''pending'', x_attempt_count = 0,
                        x_max_attempts = max 1 (cfg_max_attempts cfg), x_last_error = None,
                        x_idempotency_key =
                          (case key of Some k \<Rightarrow> Some k
                           | None \<Rightarrow> Some (''notification:'' @ show_int (n_id n))),
                        x_created_at = now, x_updated_at = now, x_next_attempt_at = Some due_at,
                        x_published_at = None\<rparr>
             in (row, s\<lparr>outbox := outbox s @ [row]\<rparr>))"

section \<open>Claiming\<close>

definition next_retry_eta :: "outbox_settings \<Rightarrow> datetime \<Rightarrow> int \<Rightarrow> datetime" where
  "next_retry_eta cfg now attempt_count =
     (let max_delay = max 1 (cfg_max_retry_delay_seconds cfg);
          delay_seconds = min max_delay (2 ^ nat (min (max 1 attempt_count) 8))
      in now + delay_seconds * second)"

definition claimable :: "datetime \<Rightarrow> int option \<Rightarrow> outbox_row \<Rightarrow> bool" where
  "claimable now notification_id r \<longleftrightarrow>
     x_status r \<in> {''pending'', ''failed''}
     \<and> x_attempt_count r < x_max_attempts r
     \<and> (case x_next_attempt_at r of None \<Rightarrow> True | Some d \<Rightarrow> d \<le> now)
     \<and> (case notification_id of None \<Rightarrow> True | Some i \<Rightarrow> x_notification_id r = i)"

definition claimed_row :: "datetime \<Rightarrow> outbox_row \<Rightarrow> outbox_row" where
  "claimed_row now r =
     r\<lparr>x_status := ''processing'', x_attempt_count := x_attempt_count r + 1, x_updated_at := now\<rparr>"

text \<open>\<open>ORDER BY created_at, id\<close> is a sort by \<open>id\<close> followed by a stable sort by \<open>created_at\<close>.\<close>

definition claim_rows ::
    "datetime \<Rightarrow> int \<Rightarrow> int option \<Rightarrow> outbox_db \<Rightarrow> outbox_row list \<times> outbox_db" where
  "claim_rows now batch_size notification_id s =
     (let rows = take (nat (max 1 batch_size))
                   (sort_key x_created_at
                     (sort_key x_id (filter (claimable now notification_id) (outbox s))));
          claimed = map (claimed_row now) rows
      in (claimed, s\<lparr>outbox := fold (put_row x_id) claimed (outbox s)\<rparr>))"

section \<open>Dispatching one row\<close>

definition put_outbox :: "outbox_row \<Rightarrow> outbox_db \<Rightarrow> outbox_db" where
  "put_outbox r s = s\<lparr>outbox := put_row x_id r (outbox s)\<rparr>"

definition put_notification :: "notification \<Rightarrow> outbox_db \<Rightarrow> outbox_db" where
  "put_notification n s = s\<lparr>notifications := put_row n_id n (notifications s)\<rparr>"

definition dead_letter_row :: "outbox_row \<Rightarrow> outbox_row" where
  "dead_letter_row r = r\<lparr>x_status := ''dead_letter'', x_next_attempt_at := None\<rparr>"

definition retry_row :: "outbox_settings \<Rightarrow> datetime \<Rightarrow> outbox_row \<Rightarrow> outbox_row" where
  "retry_row cfg now r =
     r\<lparr>x_status := ''failed'', x_next_attempt_at := Some (next_retry_eta cfg now (x_attempt_count r))\<rparr>"

definition published_row :: "datetime \<Rightarrow> outbox_row \<Rightarrow> outbox_row" where
  "published_row now r =
     r\<lparr>x_status := ''published'', x_published_at := Some now, x_next_attempt_at := None,
       x_last_error := None\<rparr>"

definition handle_terminal_without_send ::
    "datetime \<Rightarrow> outbox_row \<Rightarrow> notification \<Rightarrow> outbox_row \<times> string" where
  "handle_terminal_without_send now r n =
     (if n_status n \<in> {''sent'', ''skipped''} then (published_row now r, ''published'')
      else ((dead_letter_row r)\<lparr>x_last_error := Some ''notification reached terminal status''\<rparr>,
            ''dead_letter''))"

definition notification_app_scope :: "notification \<Rightarrow> string option res" where
  "notification_app_scope n = Inl (AttributeError ''app_scope'')"

definition dispatch_claimed_row ::
    "outbox_settings \<Rightarrow> (notification \<Rightarrow> string option res) \<Rightarrow>
     (notification \<Rightarrow> string option \<Rightarrow> bool res) \<Rightarrow> datetime \<Rightarrow> outbox_row \<Rightarrow> outbox_db \<Rightarrow>
     (string \<times> outbox_db) res" where
  "dispatch_claimed_row cfg scope_of deliver now r s =
     (case get_row n_id (x_notification_id r) (notifications s) of
        None \<Rightarrow>
          Inr (''dead_letter'',
               put_outbox ((dead_letter_row r)\<lparr>x_last_error := Some ''notification row not found'',
                                              x_updated_at := now\<rparr>) s)
      | Some n \<Rightarrow>
          if n_status n \<in> {''sent'', ''skipped'', ''dead_letter''} then
            (let (r', result) = handle_terminal_without_send now r n
             in Inr (result, put_outbox (r'\<lparr>x_updated_at := now\<rparr>) s))
          else if (case n_scheduled_at n of None \<Rightarrow> False | Some d \<Rightarrow> now < d) then
            Inr (''deferred'',
                 put_outbox (r\<lparr>x_status := ''pending'', x_next_attempt_at := n_scheduled_at n,
                               x_last_error := None, x_updated_at := now\<rparr>) s)
          else if n_user_id n \<notin> set (user_ids s) then
            (if x_max_attempts r \<le> x_attempt_count r then
               Inr (''dead_letter'',
                    put_notification (n\<lparr>n_status := ''dead_letter''\<rparr>)
                      (put_outbox ((dead_letter_row r)\<lparr>x_last_error := Some ''user not found'',
                                                      x_updated_at := now\<rparr>) s))
             else
               Inr (''failed'',
                    put_notification (n\<lparr>n_status := ''failed''\<rparr>)
                      (put_outbox ((retry_row cfg now r)\<lparr>x_last_error := Some ''user not found'',
                                                        x_updated_at := now\<rparr>) s)))
          else
            case scope_of n of
              Inl e \<Rightarrow> Inl e
            | Inr scope \<Rightarrow>
                (case deliver n scope of
                   Inl e \<Rightarrow> Inl e
                 | Inr True \<Rightarrow>
                     Inr (''published'',
                          put_outbox ((published_row now r)\<lparr>x_updated_at := now\<rparr>)
                            (put_notification (n\<lparr>n_status := ''sent''\<rparr>) s))
                 | Inr False \<Rightarrow>
                     if x_max_attempts r \<le> x_attempt_count r then
                       Inr (''dead_letter'',
                            put_outbox ((dead_letter_row r)
                                \<lparr>x_last_error := Some ''provider delivery returned false'',
                                 x_updated_at := now\<rparr>)
                              (put_notification (n\<lparr>n_status := ''dead_letter''\<rparr>) s))
                     else
                       Inr (''failed'',
                            put_outbox ((retry_row cfg now r)
                                \<lparr>x_last_error := Some ''provider delivery returned false'',
                                 x_updated_at := now\<rparr>)
                              (put_notification (n\<lparr>n_status := ''failed''\<rparr>) s))))"

section \<open>A worker pass\<close>

record dispatch_counts =
  cnt_claimed :: int
  cnt_published :: int
  cnt_failed :: int
  cnt_dead_letter :: int
  cnt_deferred :: int
  cnt_errored :: int

definition no_counts :: dispatch_counts where
  "no_counts = \<lparr>cnt_claimed = 0, cnt_published = 0, cnt_failed = 0, cnt_dead_letter = 0, cnt_deferred = 0, cnt_errored = 0\<rparr>"

definition exn_text :: "exn \<Rightarrow> string" where
  "exn_text e = (case e of
      HTTPException code detail \<Rightarrow> show_int code @ '': '' @ detail
    | ValueError m \<Rightarrow> m
    | InvalidOperation \<Rightarrow> ''InvalidOperation''
    | IntegrityError \<Rightarrow> ''IntegrityError''
    | AttributeError m \<Rightarrow> m
    | TypeError m \<Rightarrow> m
    | ProviderError m \<Rightarrow> m
    | PermissionError m \<Rightarrow> m
    | DatabaseError \<Rightarrow> ''DatabaseError''
    | ZeroDivisionError \<Rightarrow> ''division by zero'')"

definition count_outcome :: "string \<Rightarrow> dispatch_counts \<Rightarrow> dispatch_counts" where
  "count_outcome outcome c =
     (if outcome = ''published'' then c\<lparr>cnt_published := cnt_published c + 1\<rparr>
      else if outcome = ''failed'' then c\<lparr>cnt_failed := cnt_failed c + 1\<rparr>
      else if outcome = ''dead_letter'' then c\<lparr>cnt_dead_letter := cnt_dead_letter c + 1\<rparr>
      else if outcome = ''deferred'' then c\<lparr>cnt_deferred := cnt_deferred c + 1\<rparr>
      else c)"

definition errored_row :: "outbox_settings \<Rightarrow> datetime \<Rightarrow> exn \<Rightarrow> outbox_row \<Rightarrow> outbox_row" where
  "errored_row cfg now e r =
     (if x_max_attempts r \<le> x_attempt_count r then dead_letter_row r else retry_row cfg now r)
       \<lparr>x_last_error := Some (take 1000 (exn_text e)), x_updated_at := now\<rparr>"

fun dispatch_rows ::
    "outbox_settings \<Rightarrow> (notification \<Rightarrow> string option res) \<Rightarrow>
     (notification \<Rightarrow> string option \<Rightarrow> bool res) \<Rightarrow> datetime \<Rightarrow> outbox_row list \<Rightarrow>
     dispatch_counts \<times> outbox_db \<Rightarrow> dispatch_counts \<times> outbox_db" where
  "dispatch_rows cfg scope_of deliver now [] (c, s) = (c, s)"
| "dispatch_rows cfg scope_of deliver now (r # rs) (c, s) =
     dispatch_rows cfg scope_of deliver now rs
       (case dispatch_claimed_row cfg scope_of deliver now r s of
          Inl e \<Rightarrow>
            ((if x_max_attempts r \<le> x_attempt_count r
              then c\<lparr>cnt_dead_letter := cnt_dead_letter c + 1, cnt_errored := cnt_errored c + 1\<rparr>
              else c\<lparr>cnt_failed := cnt_failed c + 1, cnt_errored := cnt_errored c + 1\<rparr>),
             put_outbox (errored_row cfg now e r) s)
        | Inr (outcome, s') \<Rightarrow> (count_outcome outcome c, s'))"

definition dispatch_pending_once ::
    "outbox_settings \<Rightarrow> (notification \<Rightarrow> string option res) \<Rightarrow>
     (notification \<Rightarrow> string option \<Rightarrow> bool res) \<Rightarrow> datetime \<Rightarrow> int option \<Rightarrow> int option \<Rightarrow>
     outbox_db \<Rightarrow> dispatch_counts \<times> outbox_db" where
  "dispatch_pending_once cfg scope_of deliver now max_rows notification_id s =
     (if \<not> cfg_enabled cfg then (no_counts, s)
      else
        let batch_size = max 1 (case max_rows of
                                  Some m \<Rightarrow> if m = 0 then cfg_batch_size cfg else m
                                | None \<Rightarrow> cfg_batch_size cfg);
            (rows, s1) = claim_rows now batch_size notification_id s
        in if rows = [] then (no_counts, s)
           else dispatch_rows cfg scope_of deliver now rows
                  (no_counts\<lparr>cnt_claimed := int (length rows)\<rparr>, s1))"

definition dispatch_for_notification where
  "dispatch_for_notification cfg scope_of deliver now notification_id s =
     dispatch_pending_once cfg scope_of deliver now (Some 10) (Some notification_id) s"

record health_snapshot =
  pending_count :: int
  dead_letter_count :: int
  oldest_pending_age_seconds :: "int option"

definition get_health_snapshot :: "datetime \<Rightarrow> outbox_db \<Rightarrow> health_snapshot" where
  "get_health_snapshot now s =
     (let waiting = filter (\<lambda>r. x_status r \<in> {''pending'', ''failed''}) (outbox s)
      in \<lparr>pending_count = int (length waiting),
          dead_letter_count =
            int (length (filter (\<lambda>r. x_status r = ''dead_letter'') (outbox s))),
          oldest_pending_age_seconds =
            (if waiting = [] then None
             else Some (max 0 (py_trunc_div (now - Min (set (map x_created_at waiting))) second)))\<rparr>)"

end
