(* ===== verification/OutboxInv.thy ===== *)
theory OutboxInv
  imports Outbox
begin

text \<open>
  The outbox keeps its book: a worker pass accounts for every row it claimed, leaves no row in
  processing, spends exactly one attempt per claim and never exceeds the maximum. The
  retry delay is bounded, and grows with the attempts.
\<close>

section \<open>Back-off\<close>

lemma next_retry_eta_bounds:
  "now + second \<le> next_retry_eta cfg now a
   \<and> next_retry_eta cfg now a \<le> now + 256 * second
   \<and> next_retry_eta cfg now a \<le> now + max 1 (cfg_max_retry_delay_seconds cfg) * second"
proof -
  let ?n = "nat (min (max 1 a) 8)"
  have "(2::int) ^ 0 \<le> 2 ^ ?n" by (rule power_increasing) auto
  moreover have "(2::int) ^ ?n \<le> 2 ^ 8" by (rule power_increasing) auto
  ultimately show ?thesis by (auto simp: next_retry_eta_def Let_def min_def max_def)
qed

lemma next_retry_eta_mono: "a \<le> b \<Longrightarrow> next_retry_eta cfg now a \<le> next_retry_eta cfg now b"
proof -
  assume "a \<le> b"
  then have "(2::int) ^ nat (min (max 1 a) 8) \<le> 2 ^ nat (min (max 1 b) 8)"
    by (intro power_increasing) auto
  then show ?thesis
    unfolding next_retry_eta_def Let_def by (intro add_left_mono mult_right_mono min.mono) auto
qed

section \<open>Rows\<close>

definition row_ok :: "outbox_row \<Rightarrow> bool" where
  "row_ok r \<longleftrightarrow> 0 \<le> x_attempt_count r \<and> x_attempt_count r \<le> x_max_attempts r
     \<and> x_status r \<in> {''pending'', ''published'', ''failed'', ''dead_letter''}
     \<and> (x_status r = ''failed'' \<longrightarrow> x_attempt_count r < x_max_attempts r \<and> x_next_attempt_at r \<noteq> None)
     \<and> (x_status r \<in> {''published'', ''dead_letter''} \<longrightarrow> x_next_attempt_at r = None)"

definition outbox_inv :: "outbox_db \<Rightarrow> bool" where
  "outbox_inv s \<longleftrightarrow> distinct (map x_id (outbox s)) \<and> list_all row_ok (outbox s)"

lemma outbox_put_notification [simp]: "outbox (put_notification n s) = outbox s"
  by (simp add: put_notification_def)

lemma outbox_put_outbox [simp]: "outbox (put_outbox r s) = put_row x_id r (outbox s)"
  by (simp add: put_outbox_def)

lemmas row_updates = dead_letter_row_def retry_row_def published_row_def errored_row_def

text \<open>What one dispatch leaves, whatever the outcome: the claimed row itself, settled.\<close>

definition settles :: "outbox_row \<Rightarrow> outbox_row \<Rightarrow> bool" where
  "settles r r' \<longleftrightarrow> x_id r' = x_id r \<and> row_ok r'
     \<and> x_attempt_count r' = x_attempt_count r \<and> x_max_attempts r' = x_max_attempts r"

definition settled_in :: "outbox_row \<Rightarrow> outbox_db \<Rightarrow> outbox_db \<Rightarrow> bool" where
  "settled_in r s s' \<longleftrightarrow> (\<exists>r'. outbox s' = put_row x_id r' (outbox s) \<and> settles r r')"

lemma settled_in_intros:
  "settles r r' \<Longrightarrow> settled_in r s (put_outbox r' s)"
  "settles r r' \<Longrightarrow> settled_in r s (put_notification n (put_outbox r' s))"
  "settles r r' \<Longrightarrow> settled_in r s (put_outbox r' (put_notification n s))"
  by (auto simp: settled_in_def)

lemma settles_intros:
  assumes "0 \<le> x_attempt_count r" "x_attempt_count r \<le> x_max_attempts r"
  shows "settles r (dead_letter_row r\<lparr>x_last_error := e, x_updated_at := now\<rparr>)"
    and "settles r (published_row now r\<lparr>x_updated_at := now\<rparr>)"
    and "settles r (r\<lparr>x_status := ''pending'', x_next_attempt_at := d, x_last_error := e, x_updated_at := now\<rparr>)"
    and "\<not> x_max_attempts r \<le> x_attempt_count r \<Longrightarrow>
         settles r (retry_row cfg now r\<lparr>x_last_error := e, x_updated_at := now\<rparr>)"
    and "settles r (errored_row cfg now x r)"
  using assms by (auto simp: settles_def row_ok_def row_updates)

lemma dispatch_row_settles:
  assumes "dispatch_claimed_row cfg scope_of deliver now r s = Inr (outcome, s')"
    and "0 \<le> x_attempt_count r" "x_attempt_count r \<le> x_max_attempts r"
  shows "settled_in r s s'"
  using assms(1)
  by (auto simp: dispatch_claimed_row_def handle_terminal_without_send_def
      intro!: settled_in_intros settles_intros[OF assms(2,3)]
      split: option.splits if_splits sum.splits bool.splits)

lemma dispatch_outcome:
  "dispatch_claimed_row cfg scope_of deliver now r s = Inr (outcome, s') \<Longrightarrow>
     outcome \<in> {''published'', ''failed'', ''dead_letter'', ''deferred''}"
  by (auto simp: dispatch_claimed_row_def handle_terminal_without_send_def
      split: option.splits if_splits sum.splits bool.splits)

section \<open>A pass\<close>

lemma dispatch_rows_settle:
  assumes "distinct (map x_id rs)"
    and "\<forall>r\<in>set rs. 0 \<le> x_attempt_count r \<and> x_attempt_count r \<le> x_max_attempts r"
    and "\<forall>q\<in>set (outbox s). x_id q \<notin> x_id ` set rs \<longrightarrow> row_ok q"
    and "dispatch_rows cfg scope_of deliver now rs (c, s) = (c', s')"
  shows "map x_id (outbox s') = map x_id (outbox s) \<and> list_all row_ok (outbox s')"
  using assms
proof (induction rs arbitrary: c s)
  case Nil
  then show ?case by (simp add: list_all_iff)
next
  case (Cons r rs)
  define d where "d = dispatch_claimed_row cfg scope_of deliver now r s"
  have r: "0 \<le> x_attempt_count r" "x_attempt_count r \<le> x_max_attempts r" using Cons.prems(2) by auto
  obtain c1 s1 r1 where one: "dispatch_rows cfg scope_of deliver now (r # rs) (c, s)
       = dispatch_rows cfg scope_of deliver now rs (c1, s1)"
    and s1: "outbox s1 = put_row x_id r1 (outbox s)" "x_id r1 = x_id r" "row_ok r1"
  proof (cases d)
    case (Inl e)
    have "settles r (errored_row cfg now e r)" by (rule settles_intros(5)[OF r])
    with Inl that show thesis by (simp add: d_def settles_def)
  next
    case (Inr p)
    obtain o' s2 where "p = (o', s2)" by (cases p)
    with Inr have "settled_in r s s2" using dispatch_row_settles[OF _ r] by (auto simp: d_def)
    with \<open>p = (o', s2)\<close> Inr that show thesis by (auto simp: d_def settled_in_def settles_def)
  qed
  have "\<forall>q\<in>set (outbox s1). x_id q \<notin> x_id ` set rs \<longrightarrow> row_ok q"
    using Cons.prems(3) s1 by (auto dest!: in_put_row)
  with Cons.IH[of s1 c1] Cons.prems one s1(1)
  show ?case by simp
qed

lemma in_fold_put_row:
  "q \<in> set (fold (put_row key) rs t) \<Longrightarrow> q \<in> set rs \<or> (q \<in> set t \<and> key q \<notin> key ` set rs)"
proof (induction rs arbitrary: t)
  case Nil
  then show ?case by simp
next
  case (Cons r rs)
  then have "q \<in> set rs \<or> (q \<in> set (put_row key r t) \<and> key q \<notin> key ` set rs)" by simp
  then show ?case by (auto dest!: in_put_row)
qed

lemma fold_put_row_keys: "map key (fold (put_row key) rs t) = map key t"
  by (induction rs arbitrary: t) auto

lemma claim_rows_facts:
  assumes "claim_rows now n i s = (rs, s1)" "outbox_inv s"
  shows "distinct (map x_id rs)"
    and "\<forall>r\<in>set rs. 0 \<le> x_attempt_count r \<and> x_attempt_count r \<le> x_max_attempts r"
    and "\<forall>q\<in>set (outbox s1). x_id q \<notin> x_id ` set rs \<longrightarrow> row_ok q"
    and "map x_id (outbox s1) = map x_id (outbox s)"
    and "int (length rs) \<le> max 1 n"
proof -
  let ?sorted = "sort_key x_created_at (sort_key x_id (filter (claimable now i) (outbox s)))"
  have rs: "rs = map (claimed_row now) (take (nat (max 1 n)) ?sorted)"
    and s1: "outbox s1 = fold (put_row x_id) rs (outbox s)"
    using assms(1) by (auto simp: claim_rows_def Let_def)
  have ids: "map x_id rs = map x_id (take (nat (max 1 n)) ?sorted)"
    by (simp add: rs claimed_row_def)
  have "distinct (map x_id (filter (claimable now i) (outbox s)))"
    using assms(2) by (simp add: outbox_inv_def distinct_map_filter)
  then have "distinct (map x_id ?sorted)"
    by (simp add: distinct_map)
  then show "distinct (map x_id rs)" unfolding ids take_map[symmetric] by (rule distinct_take)
  have "set (take (nat (max 1 n)) ?sorted) \<subseteq> set ?sorted" by (rule set_take_subset)
  then have sub: "set (take (nat (max 1 n)) ?sorted) \<subseteq> {r \<in> set (outbox s). claimable now i r}"
    by auto
  show "\<forall>r\<in>set rs. 0 \<le> x_attempt_count r \<and> x_attempt_count r \<le> x_max_attempts r"
  proof
    fix r assume "r \<in> set rs"
    then obtain q where q: "q \<in> set (outbox s)" "claimable now i q" "r = claimed_row now q"
      unfolding rs using sub by auto
    with assms(2) have "0 \<le> x_attempt_count q" "x_attempt_count q < x_max_attempts q"
      by (simp_all add: outbox_inv_def list_all_iff row_ok_def claimable_def)
    with q(3) show "0 \<le> x_attempt_count r \<and> x_attempt_count r \<le> x_max_attempts r"
      by (simp add: claimed_row_def)
  qed
  show "\<forall>q\<in>set (outbox s1). x_id q \<notin> x_id ` set rs \<longrightarrow> row_ok q"
    using assms(2) by (auto simp: s1 outbox_inv_def list_all_iff dest!: in_fold_put_row)
  show "map x_id (outbox s1) = map x_id (outbox s)" by (simp add: s1 fold_put_row_keys)
  show "int (length rs) \<le> max 1 n" by (simp add: rs)
qed

lemma dispatch_pending_once_inv:
  assumes "outbox_inv s"
  shows "outbox_inv (snd (dispatch_pending_once cfg scope_of deliver now m i s))"
proof -
  let ?n = "max 1 (case m of Some m \<Rightarrow> if m = 0 then cfg_batch_size cfg else m
                             | None \<Rightarrow> cfg_batch_size cfg)"
  obtain rs s1 where cl: "claim_rows now ?n i s = (rs, s1)" by fastforce
  obtain c s2 where "dispatch_rows cfg scope_of deliver now rs
      (no_counts\<lparr>cnt_claimed := int (length rs)\<rparr>, s1) = (c, s2)" by fastforce
  moreover note dispatch_rows_settle[OF claim_rows_facts(1,2,3)[OF cl assms] this]
    claim_rows_facts(4)[OF cl assms]
  ultimately have "outbox_inv s2" using assms by (simp add: outbox_inv_def)
  with cl \<open>dispatch_rows _ _ _ _ _ _ = _\<close> assms show ?thesis
    by (simp add: dispatch_pending_once_def Let_def)
qed

lemma dispatch_rows_counts:
  "dispatch_rows cfg scope_of deliver now rs (c, s) = (c', s') \<Longrightarrow>
     cnt_claimed c' = cnt_claimed c
     \<and> cnt_published c' + cnt_failed c' + cnt_dead_letter c' + cnt_deferred c'
       = cnt_published c + cnt_failed c + cnt_dead_letter c + cnt_deferred c + int (length rs)
     \<and> cnt_errored c' - cnt_errored c
       \<le> cnt_failed c' + cnt_dead_letter c' - cnt_failed c - cnt_dead_letter c"
proof (induction rs arbitrary: c s)
  case Nil
  then show ?case by simp
next
  case (Cons r rs)
  define d where "d = dispatch_claimed_row cfg scope_of deliver now r s"
  show ?case
  proof (cases d)
    case (Inl e)
    with Cons.prems Cons.IH show ?thesis
      by (fastforce simp: d_def split: if_splits)
  next
    case (Inr p)
    obtain o' s2 where p: "p = (o', s2)" by (cases p)
    with Inr have "o' \<in> {''published'', ''failed'', ''dead_letter'', ''deferred''}"
      using dispatch_outcome by (auto simp: d_def)
    with Cons.prems Cons.IH Inr p show ?thesis
      by (fastforce simp: d_def count_outcome_def)
  qed
qed

section \<open>Consequences of the missing attribute and of deferral\<close>

lemma dispatch_claimed_row_no_scope:
  "dispatch_claimed_row cfg notification_app_scope deliver now r s =
   dispatch_claimed_row cfg notification_app_scope deliver' now r s"
  by (simp add: dispatch_claimed_row_def notification_app_scope_def split: option.split)

lemma dispatch_rows_no_scope:
  "dispatch_rows cfg notification_app_scope deliver now rs (c, s) =
   dispatch_rows cfg notification_app_scope deliver' now rs (c, s)"
proof (induction rs arbitrary: c s)
  case Nil
  then show ?case by simp
next
  case (Cons r rs)
  obtain c1 s1 where
    "(case dispatch_claimed_row cfg notification_app_scope deliver' now r s of
        Inl e \<Rightarrow>
            ((if x_max_attempts r \<le> x_attempt_count r
              then c\<lparr>cnt_dead_letter := cnt_dead_letter c + 1, cnt_errored := cnt_errored c + 1\<rparr>
              else c\<lparr>cnt_failed := cnt_failed c + 1, cnt_errored := cnt_errored c + 1\<rparr>),
             put_outbox (errored_row cfg now e r) s)
        | Inr (outcome, s') \<Rightarrow> (count_outcome outcome c, s')) = (c1, s1)" by fastforce
  then show ?case
    by (simp add: dispatch_claimed_row_no_scope[of cfg deliver now r s deliver'] Cons.IH)
qed

lemma dispatch_pending_once_no_scope:
  "dispatch_pending_once cfg notification_app_scope deliver now m i s =
   dispatch_pending_once cfg notification_app_scope deliver' now m i s"
  unfolding dispatch_pending_once_def Let_def
  by (simp add: dispatch_rows_no_scope[of cfg deliver _ _ _ _ deliver'] split: prod.split)

definition unsent :: "outbox_db \<Rightarrow> bool" where
  "unsent s \<longleftrightarrow> (\<forall>n\<in>set (notifications s). n_status n \<notin> {''sent'', ''skipped''})"

lemma notifications_put [simp]:
  "notifications (put_outbox r s) = notifications s"
  "notifications (put_notification n s) = put_row n_id n (notifications s)"
  by (simp_all add: put_outbox_def put_notification_def)

lemma unsent_put:
  "unsent s \<Longrightarrow> unsent (put_outbox r s)"
  "unsent s \<Longrightarrow> n_status n \<in> {''failed'', ''dead_letter''} \<Longrightarrow> unsent (put_notification n s)"
  by (auto simp: unsent_def dest!: in_put_row)

lemma dispatch_claimed_row_unsent:
  assumes "unsent s" "dispatch_claimed_row cfg notification_app_scope deliver now r s = Inr (outcome, s')"
  shows "outcome \<noteq> ''published'' \<and> unsent s'"
proof (cases "get_row n_id (x_notification_id r) (notifications s)")
  case None
  with assms show ?thesis by (auto simp: dispatch_claimed_row_def intro: unsent_put)
next
  case (Some n)
  with assms(1) have "n_status n \<noteq> ''sent''" "n_status n \<noteq> ''skipped''"
    by (auto simp: unsent_def dest!: get_row_Some)
  with Some assms show ?thesis
    by (auto simp: dispatch_claimed_row_def notification_app_scope_def handle_terminal_without_send_def
        split: if_splits intro!: unsent_put)
qed

lemma dispatch_rows_unsent:
  "unsent s \<Longrightarrow> dispatch_rows cfg notification_app_scope deliver now rs (c, s) = (c', s') \<Longrightarrow>
     cnt_published c' = cnt_published c \<and> unsent s'"
proof (induction rs arbitrary: c s)
  case Nil
  then show ?case by simp
next
  case (Cons r rs)
  define d where "d = dispatch_claimed_row cfg notification_app_scope deliver now r s"
  show ?case
  proof (cases d)
    case (Inl e)
    note IH = Cons.IH[OF unsent_put(1)[OF Cons.prems(1)]]
    from Inl Cons.prems(2) show ?thesis by (auto simp: d_def split: if_splits dest!: IH)
  next
    case (Inr p)
    obtain o' s2 where p: "p = (o', s2)" by (cases p)
    with Inr Cons.prems(1) have o': "o' \<noteq> ''published''" and s2: "unsent s2"
      using dispatch_claimed_row_unsent by (auto simp: d_def)
    from Cons.prems(2) Inr p have "dispatch_rows cfg notification_app_scope deliver now rs
        (count_outcome o' c, s2) = (c', s')" by (simp add: d_def)
    from Cons.IH[OF s2 this] o' show ?thesis by (simp add: count_outcome_def)
  qed
qed

lemma unsent_nothing_published:
  assumes "unsent s"
  shows "cnt_published (fst (dispatch_pending_once cfg notification_app_scope deliver now m i s)) = 0"
proof -
  let ?n = "max 1 (case m of Some m \<Rightarrow> if m = 0 then cfg_batch_size cfg else m
                             | None \<Rightarrow> cfg_batch_size cfg)"
  obtain rs s1 where cl: "claim_rows now ?n i s = (rs, s1)" by fastforce
  then have u: "unsent s1" using assms by (auto simp: claim_rows_def Let_def unsent_def)
  obtain c s2 where d: "dispatch_rows cfg notification_app_scope deliver now rs
      (no_counts\<lparr>cnt_claimed := int (length rs)\<rparr>, s1) = (c, s2)" by fastforce
  show ?thesis
    using cl d dispatch_rows_unsent[OF u d]
    by (simp add: dispatch_pending_once_def Let_def no_counts_def)
qed

text \<open>
  A deferral spends the attempt of its claim. On the last attempt the row goes back to pending
  with its attempts used up, and no later pass can claim it.
\<close>

lemma deferral_strands_row:
  assumes "get_row n_id (x_notification_id r) (notifications s) = Some n"
    and "n_status n \<notin> {''sent'', ''skipped'', ''dead_letter''}"
    and "n_scheduled_at n = Some d" "now < d"
    and "x_attempt_count r = x_max_attempts r"
  obtains r' where
    "dispatch_claimed_row cfg scope_of deliver now r s = Inr (''deferred'', put_outbox r' s)"
    "x_id r' = x_id r" "x_status r' = ''pending''" "\<And>now' i. \<not> claimable now' i r'"
proof
  let ?r = "r\<lparr>x_status := ''pending'', x_next_attempt_at := n_scheduled_at n,
             x_last_error := None, x_updated_at := now\<rparr>"
  show "dispatch_claimed_row cfg scope_of deliver now r s = Inr (''deferred'', put_outbox ?r s)"
    using assms by (simp add: dispatch_claimed_row_def)
  show "x_id ?r = x_id r" "x_status ?r = ''pending''" by simp_all
  show "\<not> claimable now' i ?r" for now' i using assms(5) by (simp add: claimable_def)
qed


section \<open>A concrete outbox\<close>

definition sample_notification :: notification where
  "sample_notification = \<lparr>n_id = 1, n_user_id = 7, n_title = ''T'', n_message = ''M'', n_type = ''info'',
     n_channel = ''push'', n_scheduled_at = None, n_status = ''queued''\<rparr>"

definition sample_cfg :: outbox_settings where
  "sample_cfg = \<lparr>cfg_enabled = True, cfg_max_attempts = 2, cfg_max_retry_delay_seconds = 60, cfg_batch_size = 5\<rparr>"

definition sample_outbox :: outbox_db where
  "sample_outbox = snd (enqueue sample_cfg 0 sample_notification None None
     \<lparr>notifications = [sample_notification], outbox = [], user_ids = [7]\<rparr>)"

lemmas outbox_eval = sample_outbox_def sample_cfg_def sample_notification_def enqueue_def
  truthy_str_def outbox_inv_def row_ok_def dispatch_pending_once_def claim_rows_def claimable_def
  claimed_row_def dispatch_claimed_row_def no_counts_def count_outcome_def put_outbox_def
  put_notification_def published_row_def unsent_def Let_def

lemma sample_outbox_inv: "outbox_inv sample_outbox"
  by (simp add: outbox_eval)

section \<open>Properties\<close>

text \<open>
  C40: A worker pass, whatever the providers answer or raise, leaves no row in
  processing, never spends more attempts than the maximum, schedules every failed row again
  and never a published or dead one.
\<close>

theorem worker_pass_keeps_outbox:
  assumes "outbox_inv s"
  shows "outbox_inv (snd (dispatch_pending_once cfg scope_of deliver now m i s))"
  by (rule dispatch_pending_once_inv[OF assms])

lemma worker_pass_keeps_outbox_witness:
  "map x_status (outbox (snd (dispatch_pending_once sample_cfg (\<lambda>n. Inr None) (\<lambda>n a. Inr True) 5 None None sample_outbox)))
     = [''published'']
   \<and> outbox_inv (snd (dispatch_pending_once sample_cfg (\<lambda>n. Inr None) (\<lambda>n a. Inr True) 5 None None sample_outbox))"
  using worker_pass_keeps_outbox[OF sample_outbox_inv, of sample_cfg "\<lambda>n. Inr None" "\<lambda>n a. Inr True" 5 None None]
  by (simp add: outbox_eval)

text \<open>
  The report of a worker pass accounts for every claimed row exactly once, as
  published, failed, dead or deferred.
\<close>

lemma worker_pass_counts:
  "cnt_published (fst (dispatch_pending_once cfg scope_of deliver now m i s))
   + cnt_failed (fst (dispatch_pending_once cfg scope_of deliver now m i s))
   + cnt_dead_letter (fst (dispatch_pending_once cfg scope_of deliver now m i s))
   + cnt_deferred (fst (dispatch_pending_once cfg scope_of deliver now m i s))
   = cnt_claimed (fst (dispatch_pending_once cfg scope_of deliver now m i s))"
proof -
  let ?n = "max 1 (case m of Some m \<Rightarrow> if m = 0 then cfg_batch_size cfg else m
                             | None \<Rightarrow> cfg_batch_size cfg)"
  obtain rs s1 where cl: "claim_rows now ?n i s = (rs, s1)" by fastforce
  obtain c s2 where d: "dispatch_rows cfg scope_of deliver now rs
      (no_counts\<lparr>cnt_claimed := int (length rs)\<rparr>, s1) = (c, s2)" by fastforce
  show ?thesis using dispatch_rows_counts[OF d] cl d
    by (simp add: dispatch_pending_once_def Let_def no_counts_def)
qed

text \<open>
  The delay before the next attempt is at least a second, at most 256 seconds and
  the configured maximum, and does not shrink as attempts accumulate.
\<close>

lemma retry_delay_bounded:
  "now + second \<le> next_retry_eta cfg now a
   \<and> next_retry_eta cfg now a \<le> now + min 256 (max 1 (cfg_max_retry_delay_seconds cfg)) * second
   \<and> next_retry_eta cfg now a \<le> next_retry_eta cfg now (a + int k)"
  using next_retry_eta_bounds[of now cfg a] next_retry_eta_mono[of a "a + int k" cfg now]
  by (simp add: min_def)

text \<open>
  With the notification model as it is declared, which has no app_scope, a worker
  pass never consults the delivery provider and publishes nothing, as long as no notification
  was marked as sent by other code.
\<close>

lemma outbox_never_delivers:
  assumes "unsent s"
  shows "dispatch_pending_once cfg notification_app_scope deliver now m i s
           = dispatch_pending_once cfg notification_app_scope deliver' now m i s
    \<and> cnt_published (fst (dispatch_pending_once cfg notification_app_scope deliver now m i s)) = 0"
  using dispatch_pending_once_no_scope unsent_nothing_published[OF assms] by blast

lemma outbox_never_delivers_witness:
  "unsent sample_outbox
   \<and> cnt_claimed (fst (dispatch_pending_once sample_cfg notification_app_scope (\<lambda>n a. Inr True) 5 None None sample_outbox)) = 1
   \<and> cnt_published (fst (dispatch_pending_once sample_cfg notification_app_scope (\<lambda>n a. Inr True) 5 None None sample_outbox)) = 0"
proof -
  have u: "unsent sample_outbox" by (simp add: outbox_eval)
  have c: "cnt_claimed (fst (dispatch_pending_once sample_cfg notification_app_scope (\<lambda>n a. Inr True) 5 None None sample_outbox)) = 1"
    by (simp add: outbox_eval notification_app_scope_def)
  show ?thesis using u c outbox_never_delivers[OF u] by blast
qed

text \<open>
  A row whose notification is scheduled for later when the row is on its last
  attempt is put back to pending and can never be claimed again, at any later time.
\<close>

lemma deferral_strands_last_attempt:
  assumes "get_row n_id (x_notification_id r) (notifications s) = Some n"
    and "n_status n \<notin> {''sent'', ''skipped'', ''dead_letter''}"
    and "n_scheduled_at n = Some d" "now < d"
    and "x_attempt_count r = x_max_attempts r"
  shows "\<exists>r'. dispatch_claimed_row cfg scope_of deliver now r s = Inr (''deferred'', put_outbox r' s)
    \<and> x_status r' = ''pending'' \<and> (\<forall>now' i. \<not> claimable now' i r')"
  using deferral_strands_row[OF assms] by metis

lemma deferral_strands_last_attempt_witness:
  "\<exists>r'. dispatch_claimed_row sample_cfg (\<lambda>n. Inr None) (\<lambda>n a. Inr True) 5
      \<lparr>x_id = 1, x_notification_id = 1, x_user_id = 7, x_channel = ''push'', x_status = ''processing'',
       x_attempt_count = 2, x_max_attempts = 2, x_last_error = None, x_idempotency_key = None,
       x_created_at = 0, x_updated_at = 5, x_next_attempt_at = Some 5, x_published_at = None\<rparr>
      \<lparr>notifications = [sample_notification\<lparr>n_scheduled_at := Some 9\<rparr>], outbox = [], user_ids = [7]\<rparr>
     = Inr (''deferred'', put_outbox r' \<lparr>notifications = [sample_notification\<lparr>n_scheduled_at := Some 9\<rparr>], outbox = [], user_ids = [7]\<rparr>)
    \<and> x_status r' = ''pending'' \<and> (\<forall>now' i. \<not> claimable now' i r')"
  by (rule deferral_strands_last_attempt[where n = "sample_notification\<lparr>n_scheduled_at := Some 9\<rparr>" and d = 9])
    (simp_all add: sample_notification_def)

end
