(* ===== verification/Wallet.thy ===== *)
theory Wallet
  imports Outbox PyNum
begin

text \<open>
  The wallet ledger (\<open>app/services/wallet_service.py\<close>): deposits, payments, gateway recharges,
  withdrawal requests, transfers and refunds. Amounts are paise. The columns are declared as
  floats and read back through \<open>_to_money\<close>; the model assumes amounts of at most fifteen
  significant digits, for which that read gives back the value written.

  An operation returns the tables its last commit leaves. When it raises, what it wrote since
  its last commit is rolled back: an exception of type \<open>'a res\<close> leaves the caller's tables,
  and \<open>process_refund\<close>, which commits before it raises, returns its tables next to the result.
  Security events and user notices are written after the commit, in tables of their own.
\<close>

section \<open>Tables\<close>

record wallet =
  wl_id :: int
  wl_user_id :: int
  balance :: money
  wl_is_frozen :: bool
  wl_updated_at :: datetime

text \<open>
  \<open>tx_status\<close> is the text the service writes: \<open>success\<close>, \<open>pending\<close>, \<open>failed\<close>. The column is declared
  as the enum \<open>TransactionStatus\<close>, whose members are in upper case: the model is that of a column that
  keeps the text, as it is compared in the service; one that insists on the members refuses the write.
\<close>

record txn =
  tx_id :: int
  tx_user_id :: int
  tx_wallet_id :: "int option"
  tx_amount :: money
  tx_balance_after :: "money option"
  tx_type :: "string option"
  tx_category :: "string option"
  tx_status :: string
  tx_description :: string
  tx_payment_id :: "string option"
  tx_reference_type :: "string option"
  tx_reference_id :: "string option"
  tx_created_at :: datetime

record withdrawal =
  wr_id :: int
  wr_wallet_id :: int
  wr_amount :: money
  wr_bank_details :: string
  wr_status :: string
  wr_processed_at :: "datetime option"

record refund =
  rf_id :: int
  rf_transaction_id :: int
  rf_amount :: money
  rf_reason :: string
  rf_status :: string
  rf_gateway_refund_id :: "string option"
  rf_processed_at :: "datetime option"
  rf_created_at :: datetime

record account =
  u_id :: int
  u_phone_number :: "string option"

record wallet_db =
  wallets :: "wallet list"
  txns :: "txn list"
  withdrawals :: "withdrawal list"
  refunds :: "refund list"
  accounts :: "account list"
  mail :: outbox_db
  security_events :: "(string \<times> int) list"
  notices :: "(string \<times> int) list"

section \<open>Amounts\<close>

text \<open>
  The argument is the Decimal that \<open>Decimal(str(value))\<close> gives, \<open>None\<close> when it raises. The
  comparison that follows in every caller raises on a NaN, like \<open>quantize\<close> on an infinity or
  on more than 28 digits.
\<close>

definition to_money :: "decimal option \<Rightarrow> money res" where
  "to_money value =
     (case value of
        None \<Rightarrow> Inl (HTTPException 400 ''Invalid amount'')
      | Some (Finite x) \<Rightarrow>
          (let c = round_half_even (x * 100)
           in if fits28 c then Inr c else Inl InvalidOperation)
      | Some _ \<Rightarrow> Inl InvalidOperation)"

definition show_money :: "money \<Rightarrow> string" where
  "show_money c =
     (if c < 0 then ''-'' else '''') @ show_int (\<bar>c\<bar> div 100) @ ''.''
       @ show_nat (nat (\<bar>c\<bar> mod 100 div 10)) @ show_nat (nat (\<bar>c\<bar> mod 10))"

section \<open>Wallets\<close>

definition get_wallet :: "datetime \<Rightarrow> int \<Rightarrow> wallet_db \<Rightarrow> wallet \<times> wallet_db" where
  "get_wallet now user_id s =
     (case List.find (\<lambda>w. wl_user_id w = user_id) (wallets s) of
        Some w \<Rightarrow> (w, s)
      | None \<Rightarrow>
          let w = \<lparr>wl_id = fresh_id wl_id (wallets s), wl_user_id = user_id, balance = 0,
                   wl_is_frozen = False, wl_updated_at = now\<rparr>
          in (w, s\<lparr>wallets := wallets s @ [w]\<rparr>))"

definition put_wallet :: "wallet \<Rightarrow> wallet_db \<Rightarrow> wallet_db" where
  "put_wallet w s = s\<lparr>wallets := put_row wl_id w (wallets s)\<rparr>"

definition put_txn :: "txn \<Rightarrow> wallet_db \<Rightarrow> wallet_db" where
  "put_txn t s = s\<lparr>txns := put_row tx_id t (txns s)\<rparr>"

definition add_txn :: "txn \<Rightarrow> wallet_db \<Rightarrow> wallet_db" where
  "add_txn t s = s\<lparr>txns := txns s @ [t]\<rparr>"

definition set_balance :: "datetime \<Rightarrow> money \<Rightarrow> wallet \<Rightarrow> wallet" where
  "set_balance now b w = w\<lparr>balance := b, wl_updated_at := now\<rparr>"

text \<open>\<open>Transaction(user_id=wallet.user_id, wallet_id=wallet.id, ...)\<close>: a new row for a wallet.\<close>

definition new_txn ::
    "datetime \<Rightarrow> wallet \<Rightarrow> money \<Rightarrow> string \<Rightarrow> string \<Rightarrow> string \<Rightarrow> string \<Rightarrow> string option \<Rightarrow>
     string option \<Rightarrow> string option \<Rightarrow> wallet_db \<Rightarrow> txn" where
  "new_txn now w amount ttype category status description payment_id ref_type ref_id s =
     \<lparr>tx_id = fresh_id tx_id (txns s), tx_user_id = wl_user_id w, tx_wallet_id = Some (wl_id w),
      tx_amount = amount, tx_balance_after = Some (balance w), tx_type = Some ttype,
      tx_category = Some category, tx_status = status, tx_description = description,
      tx_payment_id = payment_id, tx_reference_type = ref_type, tx_reference_id = ref_id,
      tx_created_at = now\<rparr>"

definition add_balance ::
    "datetime \<Rightarrow> int \<Rightarrow> decimal option \<Rightarrow> string \<Rightarrow> string option \<Rightarrow> string \<Rightarrow> string option \<Rightarrow>
     string option \<Rightarrow> wallet_db \<Rightarrow> (wallet \<times> wallet_db) res" where
  "add_balance now user_id amount description gateway_payment_id category reference_type
       reference_id s =
     (case to_money amount of
        Inl e \<Rightarrow> Inl e
      | Inr amount_value \<Rightarrow>
          if amount_value \<le> 0 then
            Inl (HTTPException 400 ''Amount must be greater than zero'')
          else
            let (wallet, s1) = get_wallet now user_id s;
                wallet' = set_balance now (balance wallet + amount_value) wallet;
                s2 = put_wallet wallet' s1;
                txn = new_txn now wallet' amount_value ''credit'' category ''success'' description
                        gateway_payment_id reference_type reference_id s2
            in Inr (wallet', add_txn txn s2))"

definition deduct_balance ::
    "datetime \<Rightarrow> int \<Rightarrow> decimal option \<Rightarrow> string \<Rightarrow> wallet_db \<Rightarrow> (wallet \<times> wallet_db) res" where
  "deduct_balance now user_id amount description s =
     (case to_money amount of
        Inl e \<Rightarrow> Inl e
      | Inr amount_value \<Rightarrow>
          if amount_value \<le> 0 then
            Inl (HTTPException 400 ''Amount must be greater than zero'')
          else
            let (wallet, s1) = get_wallet now user_id s;
                current_balance = balance wallet
            in if current_balance < amount_value then
                 Inl (HTTPException 400 ''Insufficient balance'')
               else
                 let wallet' = set_balance now (current_balance - amount_value) wallet;
                     s2 = put_wallet wallet' s1;
                     txn = new_txn now wallet' (- amount_value) ''debit'' ''withdrawal'' ''success''
                             description None None None s2
                 in Inr (wallet', add_txn txn s2))"

definition apply_cashback ::
    "datetime \<Rightarrow> int \<Rightarrow> decimal option \<Rightarrow> string \<Rightarrow> wallet_db \<Rightarrow> (wallet \<times> wallet_db) res" where
  "apply_cashback now user_id amount reason s =
     add_balance now user_id amount reason None ''cashback'' None None s"

section \<open>Gateway recharges\<close>

definition recharge_intent :: "string \<Rightarrow> txn \<Rightarrow> bool" where
  "recharge_intent order_id t \<longleftrightarrow>
     tx_reference_type t = Some ''wallet_recharge'' \<and> tx_reference_id t = Some order_id"

definition create_recharge_intent ::
    "datetime \<Rightarrow> int \<Rightarrow> decimal option \<Rightarrow> string \<Rightarrow> string \<Rightarrow> wallet_db \<Rightarrow> (txn \<times> wallet_db) res"
where
  "create_recharge_intent now user_id amount order_id description s =
     (if order_id = [] then Inl (HTTPException 400 ''order_id is required'')
      else
        case to_money amount of
          Inl e \<Rightarrow> Inl e
        | Inr amount_value \<Rightarrow>
            if amount_value \<le> 0 then
              Inl (HTTPException 400 ''Amount must be greater than zero'')
            else
              let (wallet, s1) = get_wallet now user_id s
              in case List.find (\<lambda>t. tx_wallet_id t = Some (wl_id wallet) \<and> recharge_intent order_id t)
                        (txns s1) of
                   Some existing \<Rightarrow> Inr (existing, s)
                 | None \<Rightarrow>
                     let intent = new_txn now wallet amount_value ''credit'' ''deposit'' ''pending''
                                    description None (Some ''wallet_recharge'') (Some order_id) s1
                     in Inr (intent, add_txn intent s1))"

definition stage_recharge_success_channel ::
    "outbox_settings \<Rightarrow> datetime \<Rightarrow> int \<Rightarrow> money \<Rightarrow> string \<Rightarrow> string \<Rightarrow> outbox_db \<Rightarrow> outbox_db" where
  "stage_recharge_success_channel cfg now user_id amount payment_id channel m =
     (let notif = \<lparr>n_id = fresh_id n_id (notifications m), n_user_id = user_id,
                   n_title = ''Wallet Recharge Successful'',
                   n_message = ''We have credited INR '' @ show_money amount
                     @ '' to your wallet. Payment reference: '' @ payment_id @ ''.'',
                   n_type = ''wallet_recharge_success'', n_channel = channel,
                   n_scheduled_at = Some now, n_status = ''queued''\<rparr>
      in snd (enqueue cfg now notif (Some now)
                (Some (''wallet_recharge_captured:'' @ payment_id @ '':'' @ channel))
                (m\<lparr>notifications := notifications m @ [notif]\<rparr>)))"

definition stage_recharge_success_notifications ::
    "outbox_settings \<Rightarrow> datetime \<Rightarrow> int \<Rightarrow> money \<Rightarrow> string \<Rightarrow> outbox_db \<Rightarrow> outbox_db" where
  "stage_recharge_success_notifications cfg now user_id amount payment_id m =
     fold (stage_recharge_success_channel cfg now user_id amount payment_id)
       [''push'', ''email'', ''sms''] m"

definition apply_recharge_capture ::
    "outbox_settings \<Rightarrow> datetime \<Rightarrow> string \<Rightarrow> string \<Rightarrow> decimal option \<Rightarrow> int option \<Rightarrow>
     wallet_db \<Rightarrow> (txn \<times> wallet_db) res" where
  "apply_recharge_capture cfg now order_id payment_id amount noted_user_id s =
     (case to_money amount of
        Inl e \<Rightarrow> Inl e
      | Inr amount_value \<Rightarrow>
          if amount_value \<le> 0 then
            Inl (HTTPException 400 ''Recharge amount must be greater than zero'')
          else
            case List.find (recharge_intent order_id) (txns s) of
              None \<Rightarrow> Inl (HTTPException 404 ''Recharge intent not found'')
            | Some intent \<Rightarrow>
                (case List.find (\<lambda>w. Some (wl_id w) = tx_wallet_id intent) (wallets s) of
                   None \<Rightarrow> Inl (HTTPException 404 ''Wallet not found'')
                 | Some wallet \<Rightarrow>
                     if noted_user_id \<noteq> None \<and> noted_user_id \<noteq> Some (wl_user_id wallet) then
                       Inl (HTTPException 400 ''Webhook user mismatch for recharge intent'')
                     else if tx_status intent = ''success'' then Inr (intent, s)
                     else
                       let wallet' = set_balance now (balance wallet + amount_value) wallet;
                           intent' = intent\<lparr>tx_status := ''success'', tx_amount := amount_value,
                                            tx_balance_after := Some (balance wallet'),
                                            tx_payment_id := Some payment_id,
                                            tx_description := ''Wallet recharge captured ('' @ payment_id @ '')''\<rparr>;
                           s1 = put_txn intent' (put_wallet wallet' s)
                       in Inr (intent',
                               s1\<lparr>mail := stage_recharge_success_notifications cfg now
                                            (wl_user_id wallet') amount_value payment_id (mail s1)\<rparr>)))"

definition mark_recharge_intent_failed ::
    "datetime \<Rightarrow> string \<Rightarrow> string option \<Rightarrow> wallet_db \<Rightarrow> txn option \<times> wallet_db" where
  "mark_recharge_intent_failed now order_id payment_id s =
     (case List.find (recharge_intent order_id) (txns s) of
        None \<Rightarrow> (None, s)
      | Some intent \<Rightarrow>
          if tx_status intent = ''success'' then (Some intent, s)
          else
            let wallet = List.find (\<lambda>w. Some (wl_id w) = tx_wallet_id intent) (wallets s);
                intent' = intent\<lparr>tx_status := ''failed'',
                                 tx_payment_id := (case truthy_str payment_id of
                                                     None \<Rightarrow> tx_payment_id intent
                                                   | Some p \<Rightarrow> Some p)\<rparr>;
                s1 = put_txn intent' s
            in (Some intent',
                (case wallet of
                   None \<Rightarrow> s1
                 | Some w \<Rightarrow> s1\<lparr>notices := notices s1 @ [(''wallet_recharge_failed'', wl_user_id w)]\<rparr>)))"

section \<open>Withdrawal requests\<close>

definition withdrawal_txn :: "int \<Rightarrow> txn \<Rightarrow> bool" where
  "withdrawal_txn req_id t \<longleftrightarrow>
     tx_reference_type t = Some ''withdrawal_request'' \<and> tx_reference_id t = Some (show_int req_id)"

definition put_withdrawal :: "withdrawal \<Rightarrow> wallet_db \<Rightarrow> wallet_db" where
  "put_withdrawal r s = s\<lparr>withdrawals := put_row wr_id r (withdrawals s)\<rparr>"

definition log_event :: "string \<Rightarrow> int \<Rightarrow> wallet_db \<Rightarrow> wallet_db" where
  "log_event event_type user_id s =
     s\<lparr>security_events := security_events s @ [(event_type, user_id)]\<rparr>"

definition notify :: "string \<Rightarrow> int \<Rightarrow> wallet_db \<Rightarrow> wallet_db" where
  "notify kind user_id s = s\<lparr>notices := notices s @ [(kind, user_id)]\<rparr>"

definition request_withdrawal ::
    "datetime \<Rightarrow> int \<Rightarrow> decimal option \<Rightarrow> string \<Rightarrow> wallet_db \<Rightarrow> (withdrawal \<times> wallet_db) res"
where
  "request_withdrawal now user_id amount bank_details s =
     (case to_money amount of
        Inl e \<Rightarrow> Inl e
      | Inr amount_value \<Rightarrow>
          if amount_value \<le> 0 then
            Inl (HTTPException 400 ''Amount must be greater than zero'')
          else
            let (wallet, s1) = get_wallet now user_id s;
                current_balance = balance wallet
            in if current_balance < amount_value then
                 Inl (HTTPException 400 ''Insufficient balance'')
               else
                 let req = \<lparr>wr_id = fresh_id wr_id (withdrawals s1), wr_wallet_id = wl_id wallet,
                            wr_amount = amount_value, wr_bank_details = bank_details,
                            wr_status = ''requested'', wr_processed_at = None\<rparr>;
                     s2 = s1\<lparr>withdrawals := withdrawals s1 @ [req]\<rparr>;
                     wallet' = set_balance now (current_balance - amount_value) wallet;
                     s3 = put_wallet wallet' s2;
                     txn = new_txn now wallet' (- amount_value) ''debit'' ''withdrawal_request''
                             ''pending'' (''Withdrawal request #'' @ show_int (wr_id req)) None
                             (Some ''withdrawal_request'') (Some (show_int (wr_id req))) s3
                 in Inr (req, notify ''withdrawal_requested'' user_id
                                (log_event ''withdrawal_request'' user_id (add_txn txn s3))))"

definition approve_withdrawal_request ::
    "datetime \<Rightarrow> int \<Rightarrow> int \<Rightarrow> string option \<Rightarrow> wallet_db \<Rightarrow> (withdrawal \<times> wallet_db) res" where
  "approve_withdrawal_request now request_id approver_user_id payout_reference s =
     (case get_row wr_id request_id (withdrawals s) of
        None \<Rightarrow> Inl (HTTPException 404 ''Request not found'')
      | Some req \<Rightarrow>
          if wr_status req \<noteq> ''requested'' then
            Inl (HTTPException 400 ''Request already processed'')
          else
            let req' = req\<lparr>wr_status := ''processed'', wr_processed_at := Some now\<rparr>;
                s1 = put_withdrawal req' s;
                s2 = (case List.find (withdrawal_txn (wr_id req)) (txns s) of
                        None \<Rightarrow> s1
                      | Some t \<Rightarrow>
                          put_txn (t\<lparr>tx_status := ''success'',
                                     tx_description :=
                                       (case truthy_str payout_reference of
                                          None \<Rightarrow> tx_description t
                                        | Some p \<Rightarrow> ''Withdrawal payout processed ('' @ p @ '')'')\<rparr>) s1);
                s3 = (case get_row wl_id (wr_wallet_id req) (wallets s2) of
                        None \<Rightarrow> s2
                      | Some w \<Rightarrow> notify ''withdrawal_processed'' (wl_user_id w) s2)
            in Inr (req', log_event ''withdrawal_processed'' approver_user_id s3))"

definition reject_withdrawal_request ::
    "datetime \<Rightarrow> int \<Rightarrow> int \<Rightarrow> string option \<Rightarrow> wallet_db \<Rightarrow> (withdrawal \<times> wallet_db) res" where
  "reject_withdrawal_request now request_id approver_user_id reason s =
     (case get_row wr_id request_id (withdrawals s) of
        None \<Rightarrow> Inl (HTTPException 404 ''Request not found'')
      | Some req \<Rightarrow>
          if wr_status req \<noteq> ''requested'' then
            Inl (HTTPException 400 ''Request already processed'')
          else
            case get_row wl_id (wr_wallet_id req) (wallets s) of
              None \<Rightarrow> Inl (HTTPException 404 ''Wallet not found'')
            | Some wallet \<Rightarrow>
                let pending_txn = List.find (withdrawal_txn (wr_id req)) (txns s)
                in if (case pending_txn of None \<Rightarrow> False | Some t \<Rightarrow> tx_status t = ''success'') then
                     Inl (HTTPException 400 ''Cannot reject an already processed withdrawal'')
                   else
                     let amount = wr_amount req;
                         wallet' = set_balance now (balance wallet + amount) wallet;
                         s1 = put_wallet wallet' s;
                         rejected = ''Withdrawal request #'' @ show_int (wr_id req) @ '' rejected'';
                         described = (case truthy_str reason of
                                        None \<Rightarrow> rejected | Some r \<Rightarrow> rejected @ '': '' @ r);
                         reversal = new_txn now wallet' amount ''credit'' ''withdrawal_reversal''
                                      ''success'' described None (Some ''withdrawal_request'')
                                      (Some (show_int (wr_id req))) s1;
                         s2 = add_txn reversal s1;
                         s3 = (case pending_txn of
                                 None \<Rightarrow> s2
                               | Some t \<Rightarrow>
                                   put_txn (t\<lparr>tx_status := ''failed'',
                                              tx_description :=
                                                (case truthy_str reason of
                                                   None \<Rightarrow> tx_description t
                                                 | Some r \<Rightarrow> rejected @ '': '' @ r)\<rparr>) s2);
                         req' = req\<lparr>wr_status := ''rejected'', wr_processed_at := Some now\<rparr>;
                         s4 = put_withdrawal req' s3
                     in Inr (req', log_event ''withdrawal_rejected'' approver_user_id
                                     (notify ''withdrawal_rejected'' (wl_user_id wallet') s4)))"

section \<open>Transfers\<close>

definition transfer_balance ::
    "datetime \<Rightarrow> int \<Rightarrow> string \<Rightarrow> decimal option \<Rightarrow> string option \<Rightarrow> wallet_db \<Rightarrow>
     (txn \<times> wallet_db) res" where
  "transfer_balance now sender_id recipient_phone amount note s =
     (case to_money amount of
        Inl e \<Rightarrow> Inl e
      | Inr amount_value \<Rightarrow>
          if amount_value \<le> 0 then
            Inl (HTTPException 400 ''Transfer amount must be greater than zero'')
          else
            case List.find (\<lambda>u. u_phone_number u = Some recipient_phone) (accounts s) of
              None \<Rightarrow> Inl (HTTPException 404 ''Recipient not found'')
            | Some recipient \<Rightarrow>
                if u_id recipient = sender_id then
                  Inl (HTTPException 400 ''Cannot transfer to yourself'')
                else
                  let (wallet_a, s1) = get_wallet now (min sender_id (u_id recipient)) s;
                      (wallet_b, s2) = get_wallet now (max sender_id (u_id recipient)) s1;
                      sender_wallet = (if wl_user_id wallet_a = sender_id then wallet_a else wallet_b);
                      recipient_wallet =
                        (if wl_user_id wallet_b = u_id recipient then wallet_b else wallet_a)
                  in if balance sender_wallet < amount_value then
                       Inl (HTTPException 400 ''Insufficient balance'')
                     else
                       let sender' = set_balance now (balance sender_wallet - amount_value) sender_wallet;
                           s3 = put_wallet sender' s2;
                           debit_txn = new_txn now sender' (- amount_value) ''debit'' ''transfer''
                             ''success''
                             (case truthy_str note of
                                Some n \<Rightarrow> n | None \<Rightarrow> ''Transfer to '' @ recipient_phone)
                             None (Some ''transfer'') (Some (show_int (u_id recipient))) s3;
                           s4 = add_txn debit_txn s3;
                           recipient' =
                             set_balance now (balance recipient_wallet + amount_value) recipient_wallet;
                           s5 = put_wallet recipient' s4;
                           credit_txn = new_txn now recipient' amount_value ''credit'' ''transfer''
                             ''success''
                             (case truthy_str note of
                                Some n \<Rightarrow> n
                              | None \<Rightarrow> ''Transfer from user #'' @ show_int sender_id)
                             None (Some ''transfer'') (Some (show_int sender_id)) s5
                       in Inr (debit_txn, add_txn credit_txn s5))"

definition get_cashback_history :: "datetime \<Rightarrow> int \<Rightarrow> wallet_db \<Rightarrow> txn list" where
  "get_cashback_history now user_id s =
     (let (wallet, s1) = get_wallet now user_id s
      in take 100 (rev (sort_key tx_created_at
           (filter (\<lambda>t. tx_wallet_id t = Some (wl_id wallet) \<and> tx_category t = Some ''cashback'')
             (txns s1)))))"

section \<open>Refunds\<close>

definition put_refund :: "refund \<Rightarrow> wallet_db \<Rightarrow> wallet_db" where
  "put_refund r s = s\<lparr>refunds := put_row rf_id r (refunds s)\<rparr>"

text \<open>\<open>amount = None\<close> is the default argument: the whole amount of the transaction.\<close>

definition initiate_refund ::
    "datetime \<Rightarrow> int \<Rightarrow> decimal option option \<Rightarrow> string \<Rightarrow> wallet_db \<Rightarrow>
     (refund option \<times> wallet_db) res" where
  "initiate_refund now transaction_id amount reason s =
     (case get_row tx_id transaction_id (txns s) of
        None \<Rightarrow> Inr (None, s)
      | Some orig_txn \<Rightarrow>
          if tx_type orig_txn \<noteq> Some ''credit'' then Inr (None, s)
          else
            case List.find (\<lambda>r. rf_transaction_id r = transaction_id
                                \<and> rf_status r \<in> {''pending'', ''processed''}) (refunds s) of
              Some existing_refund \<Rightarrow> Inr (Some existing_refund, s)
            | None \<Rightarrow>
                (case (case amount of None \<Rightarrow> Inr (tx_amount orig_txn) | Some a \<Rightarrow> to_money a) of
                   Inl e \<Rightarrow> Inl e
                 | Inr refund_amount \<Rightarrow>
                     if refund_amount \<le> 0 then
                       Inl (HTTPException 400 ''Refund amount must be greater than zero'')
                     else if tx_amount orig_txn < refund_amount then
                       Inl (HTTPException 400 ''Refund amount exceeds original transaction'')
                     else
                       let r = \<lparr>rf_id = fresh_id rf_id (refunds s), rf_transaction_id = transaction_id,
                                rf_amount = refund_amount, rf_reason = reason, rf_status = ''pending'',
                                rf_gateway_refund_id = None, rf_processed_at = None,
                                rf_created_at = now\<rparr>
                       in Inr (Some r, s\<lparr>refunds := refunds s @ [r]\<rparr>)))"

definition process_refund :: "datetime \<Rightarrow> int \<Rightarrow> wallet_db \<Rightarrow> refund res \<times> wallet_db" where
  "process_refund now refund_id s =
     (case get_row rf_id refund_id (refunds s) of
        None \<Rightarrow> (Inl (HTTPException 404 ''Refund not found''), s)
      | Some r \<Rightarrow>
          if rf_status r = ''processed'' then (Inr r, s)
          else if rf_status r \<noteq> ''pending'' then
            (Inl (HTTPException 400 ''Cannot process refund with status''), s)
          else
            case get_row tx_id (rf_transaction_id r) (txns s) of
              None \<Rightarrow>
                (Inl (HTTPException 404 ''Original transaction not found''),
                 put_refund (r\<lparr>rf_status := ''failed''\<rparr>) s)
            | Some orig_txn \<Rightarrow>
                (case List.find (\<lambda>w. Some (wl_id w) = tx_wallet_id orig_txn) (wallets s) of
                   None \<Rightarrow>
                     (Inl (HTTPException 404 ''Wallet not found''),
                      put_refund (r\<lparr>rf_status := ''failed''\<rparr>) s)
                 | Some wallet \<Rightarrow>
                     let wallet' = set_balance now (balance wallet + rf_amount r) wallet;
                         s1 = put_wallet wallet' s;
                         refund_txn = new_txn now wallet' (rf_amount r) ''credit'' ''refund'' ''success''
                           (''Refund for transaction #'' @ show_int (rf_transaction_id r) @ '': '' @ rf_reason r)
                           None (Some ''refund'') (Some (show_int (rf_id r))) s1;
                         r' = r\<lparr>rf_status := ''processed'', rf_processed_at := Some now\<rparr>
                     in (Inr r', put_refund r' (add_txn refund_txn s1))))"

end
