(* ===== verification/Webhook.thy ===== *)
theory Webhook
  imports Wallet
begin

text \<open>
  Razorpay webhooks (\<open>app/services/razorpay_webhook_service.py\<close>): the events of the payment
  gateway that confirm, fail or refund a payment. The JSON payload is read into the entities
  below, one field per key the handlers look up (\<open>None\<close> for a missing key); a handler answers
  with a status and a reason.
\<close>

record payment_entity =
  pe_id :: "string option"
  pe_order_id :: "string option"
  pe_amount_paise :: "decimal option"
  pe_notes_user_id :: "int option option"

record refund_entity =
  re_id :: "string option"
  re_payment_id :: "string option"

record webhook_payload =
  wp_event :: "string option"
  wp_payment :: payment_entity
  wp_refund :: refund_entity

record event_result =
  er_status :: string
  er_reason :: string

definition ignored :: "string \<Rightarrow> event_result" where
  "ignored reason = \<lparr>er_status = ''ignored'', er_reason = reason\<rparr>"

definition answered :: event_result where
  "answered = \<lparr>er_status = ''ok'', er_reason = ''''\<rparr>"

text \<open>
  \<open>(Decimal(str(amount_paise)) / Decimal("100")).quantize(Decimal("0.01"))\<close> under the handler's
  \<open>except Exception\<close>: \<open>None\<close> when it raises. A NaN passes, and the comparison after it raises.
\<close>

definition captured_amount :: "decimal option \<Rightarrow> money option res" where
  "captured_amount paise =
     (case paise of
        None \<Rightarrow> Inr None
      | Some NaN \<Rightarrow> Inl InvalidOperation
      | Some (Infinite neg) \<Rightarrow> Inr None
      | Some (Finite x) \<Rightarrow>
          let c = round_half_even (ctx (x / 100) * 100)
          in Inr (if fits28 c then Some c else None))"

definition handle_payment_captured ::
    "outbox_settings \<Rightarrow> datetime \<Rightarrow> payment_entity \<Rightarrow> wallet_db \<Rightarrow> event_result res \<times> wallet_db"
where
  "handle_payment_captured cfg now p s =
     (case (truthy_str (pe_id p), truthy_str (pe_order_id p)) of
        (Some payment_id, Some order_id) \<Rightarrow>
          (case captured_amount (pe_amount_paise p) of
             Inl e \<Rightarrow> (Inl e, s)
           | Inr None \<Rightarrow> (Inr (ignored ''invalid amount''), s)
           | Inr (Some amount) \<Rightarrow>
               if amount \<le> 0 then (Inr (ignored ''non_positive amount''), s)
               else
                 let noted_user_id = (case pe_notes_user_id p of
                                        Some (Some i) \<Rightarrow> Some i | _ \<Rightarrow> None)
                 in case apply_recharge_capture cfg now order_id payment_id
                           (Some (Finite (of_int amount / 100))) noted_user_id s of
                      Inl (HTTPException code detail) \<Rightarrow> (Inr (ignored detail), s)
                    | Inl e \<Rightarrow> (Inl e, s)
                    | Inr (intent, s') \<Rightarrow> (Inr answered, s'))
      | _ \<Rightarrow> (Inr (ignored ''missing payment_id/order_id''), s))"

definition handle_payment_failed ::
    "datetime \<Rightarrow> payment_entity \<Rightarrow> wallet_db \<Rightarrow> event_result \<times> wallet_db" where
  "handle_payment_failed now p s =
     (case truthy_str (pe_order_id p) of
        None \<Rightarrow> (ignored ''missing order_id'', s)
      | Some order_id \<Rightarrow>
          (answered, snd (mark_recharge_intent_failed now order_id (pe_id p) s)))"

definition resolve_refund :: "string option \<Rightarrow> string option \<Rightarrow> wallet_db \<Rightarrow> refund option" where
  "resolve_refund gateway_refund_id payment_id s =
     (let by_gateway = (case truthy_str gateway_refund_id of
                          None \<Rightarrow> None
                        | Some g \<Rightarrow> List.find (\<lambda>r. rf_gateway_refund_id r = Some g) (refunds s))
      in case by_gateway of
           Some r \<Rightarrow> Some r
         | None \<Rightarrow>
             (case truthy_str payment_id of
                None \<Rightarrow> None
              | Some p \<Rightarrow>
                  (case List.find (\<lambda>t. tx_payment_id t = Some p) (txns s) of
                     None \<Rightarrow> None
                   | Some t \<Rightarrow>
                       List.find (\<lambda>r. rf_transaction_id r = tx_id t)
                         (rev (sort_key rf_created_at (refunds s))))))"

definition handle_refund_event ::
    "datetime \<Rightarrow> string \<Rightarrow> refund_entity \<Rightarrow> wallet_db \<Rightarrow> event_result \<times> wallet_db" where
  "handle_refund_event now event_type p s =
     (case resolve_refund (re_id p) (re_payment_id p) s of
        None \<Rightarrow> (ignored ''refund record not found'', s)
      | Some r \<Rightarrow>
          let r1 = (case truthy_str (re_id p) of
                      None \<Rightarrow> r | Some g \<Rightarrow> r\<lparr>rf_gateway_refund_id := Some g\<rparr>);
              r2 = (if event_type = ''refund.processed'' then
                      r1\<lparr>rf_status := ''processed'', rf_processed_at := Some now\<rparr>
                    else if event_type = ''refund.failed'' then r1\<lparr>rf_status := ''failed''\<rparr>
                    else r1\<lparr>rf_status := ''pending''\<rparr>)
          in (answered, put_refund r2 s))"

definition process_event ::
    "outbox_settings \<Rightarrow> datetime \<Rightarrow> webhook_payload \<Rightarrow> wallet_db \<Rightarrow> event_result res \<times> wallet_db"
where
  "process_event cfg now payload s =
     (let event_type = py_lower (py_strip (case wp_event payload of None \<Rightarrow> [] | Some e \<Rightarrow> e))
      in if event_type = [] then (Inl (HTTPException 400 ''Missing event type''), s)
         else if event_type = ''payment.captured'' then
           handle_payment_captured cfg now (wp_payment payload) s
         else if event_type = ''payment.failed'' then
           (let (r, s') = handle_payment_failed now (wp_payment payload) s in (Inr r, s'))
         else if event_type \<in> {''refund.created'', ''refund.processed'', ''refund.failed''} then
           (let (r, s') = handle_refund_event now event_type (wp_refund payload) s in (Inr r, s'))
         else (Inr (ignored ''unsupported_event''), s))"

end
