(* ===== verification/WalletInv.thy ===== *)
theory WalletInv
  imports Webhook OutboxInv
begin

text \<open>
  The ledger is the truth: every balance is the sum of the movements recorded for its wallet,
  no balance is negative, and every operation of the wallet service and every gateway event
  keeps that. A withdrawal request is paid for exactly once, until it is rejected.
\<close>

section \<open>The sum of a wallet's movements\<close>

text \<open>A recharge intent moves money when the gateway captures it; every other row when it is written.\<close>

definition ledger_effect :: "txn \<Rightarrow> money" where
  "ledger_effect t =
     (if tx_reference_type t = Some ''wallet_recharge'' \<and> tx_status t \<noteq> ''success'' then 0
      else tx_amount t)"

definition effect_on :: "int \<Rightarrow> txn \<Rightarrow> money" where
  "effect_on i t = (if tx_wallet_id t = Some i then ledger_effect t else 0)"

definition ledger_sum :: "int \<Rightarrow> txn list \<Rightarrow> money" where
  "ledger_sum i ts = sum_list (map (effect_on i) ts)"

lemma ledger_sum_append [simp]: "ledger_sum i (ts @ us) = ledger_sum i ts + ledger_sum i us"
  by (simp add: ledger_sum_def)

lemma ledger_sum_single [simp]: "ledger_sum i [t] = effect_on i t"
  by (simp add: ledger_sum_def)

lemma ledger_sum_put:
  "distinct (map tx_id ts) \<Longrightarrow> q \<in> set ts \<Longrightarrow> tx_id t = tx_id q \<Longrightarrow>
   ledger_sum i (put_row tx_id t ts) = ledger_sum i ts - effect_on i q + effect_on i t"
  unfolding ledger_sum_def by (rule sum_list_put_row)

lemma ledger_sum_unknown:
  "\<forall>t \<in> set ts. tx_wallet_id t \<noteq> Some i \<Longrightarrow> ledger_sum i ts = 0"
  by (induction ts) (auto simp: ledger_sum_def effect_on_def)

section \<open>The invariant\<close>

definition keys_ok :: "wallet_db \<Rightarrow> bool" where
  "keys_ok s \<longleftrightarrow> distinct (map wl_id (wallets s)) \<and> distinct (map wl_user_id (wallets s))
     \<and> distinct (map tx_id (txns s)) \<and> distinct (map wr_id (withdrawals s))
     \<and> distinct (map rf_id (refunds s))"

definition balances_ok :: "wallet_db \<Rightarrow> bool" where
  "balances_ok s \<longleftrightarrow>
     (\<forall>w \<in> set (wallets s). balance w = ledger_sum (wl_id w) (txns s) \<and> 0 \<le> balance w)
     \<and> (\<forall>t \<in> set (txns s). \<forall>i. tx_wallet_id t = Some i \<longrightarrow> i \<in> wl_id ` set (wallets s))"

definition amounts_ok :: "wallet_db \<Rightarrow> bool" where
  "amounts_ok s \<longleftrightarrow>
     (\<forall>r \<in> set (withdrawals s). 0 < wr_amount r) \<and> (\<forall>r \<in> set (refunds s). 0 < rf_amount r)"

definition ledger_inv :: "wallet_db \<Rightarrow> bool" where
  "ledger_inv s \<longleftrightarrow> keys_ok s \<and> balances_ok s \<and> amounts_ok s"

text \<open>
  What a withdrawal request has cost its wallet: its amount while it is requested or paid out,
  nothing once it is rejected.
\<close>

definition withdrawal_effect :: "int \<Rightarrow> txn \<Rightarrow> money" where
  "withdrawal_effect i t = (if withdrawal_txn i t then tx_amount t else 0)"

definition withdrawal_net :: "int \<Rightarrow> txn list \<Rightarrow> money" where
  "withdrawal_net i ts = sum_list (map (withdrawal_effect i) ts)"

definition withdrawal_cost :: "withdrawal \<Rightarrow> money" where
  "withdrawal_cost r = (if wr_status r = ''rejected'' then 0 else - wr_amount r)"

definition payout_inv :: "wallet_db \<Rightarrow> bool" where
  "payout_inv s \<longleftrightarrow>
     (\<forall>r \<in> set (withdrawals s). withdrawal_net (wr_id r) (txns s) = withdrawal_cost r
        \<and> wr_status r \<in> {''requested'', ''processed'', ''rejected''})
     \<and> (\<forall>t \<in> set (txns s). tx_reference_type t = Some ''withdrawal_request'' \<longrightarrow>
          (\<exists>r \<in> set (withdrawals s). tx_reference_id t = Some (show_int (wr_id r))))"

definition wallet_inv :: "wallet_db \<Rightarrow> bool" where
  "wallet_inv s \<longleftrightarrow> ledger_inv s \<and> payout_inv s"

lemma withdrawal_net_append [simp]:
  "withdrawal_net i (ts @ us) = withdrawal_net i ts + withdrawal_net i us"
  by (simp add: withdrawal_net_def)

lemma withdrawal_net_single [simp]: "withdrawal_net i [t] = withdrawal_effect i t"
  by (simp add: withdrawal_net_def)

lemma withdrawal_net_put:
  "distinct (map tx_id ts) \<Longrightarrow> q \<in> set ts \<Longrightarrow> tx_id t = tx_id q \<Longrightarrow>
   withdrawal_net i (put_row tx_id t ts)
     = withdrawal_net i ts - withdrawal_effect i q + withdrawal_effect i t"
  unfolding withdrawal_net_def by (rule sum_list_put_row)

section \<open>The tables an update touches\<close>

named_theorems frame_simps \<open>which table an update changes\<close>

lemma put_wallet_tables [simp, frame_simps]:
  "wallets (put_wallet w s) = put_row wl_id w (wallets s)" "txns (put_wallet w s) = txns s"
  "withdrawals (put_wallet w s) = withdrawals s" "refunds (put_wallet w s) = refunds s"
  "accounts (put_wallet w s) = accounts s"
  by (simp_all add: put_wallet_def)

lemma put_txn_tables [simp, frame_simps]:
  "wallets (put_txn t s) = wallets s" "txns (put_txn t s) = put_row tx_id t (txns s)"
  "withdrawals (put_txn t s) = withdrawals s" "refunds (put_txn t s) = refunds s"
  "accounts (put_txn t s) = accounts s"
  by (simp_all add: put_txn_def)

lemma add_txn_tables [simp, frame_simps]:
  "wallets (add_txn t s) = wallets s" "txns (add_txn t s) = txns s @ [t]"
  "withdrawals (add_txn t s) = withdrawals s" "refunds (add_txn t s) = refunds s"
  "accounts (add_txn t s) = accounts s"
  by (simp_all add: add_txn_def)

lemma put_withdrawal_tables [simp, frame_simps]:
  "wallets (put_withdrawal r s) = wallets s" "txns (put_withdrawal r s) = txns s"
  "withdrawals (put_withdrawal r s) = put_row wr_id r (withdrawals s)"
  "refunds (put_withdrawal r s) = refunds s" "accounts (put_withdrawal r s) = accounts s"
  by (simp_all add: put_withdrawal_def)

lemma put_refund_tables [simp, frame_simps]:
  "wallets (put_refund r s) = wallets s" "txns (put_refund r s) = txns s"
  "withdrawals (put_refund r s) = withdrawals s"
  "refunds (put_refund r s) = put_row rf_id r (refunds s)" "accounts (put_refund r s) = accounts s"
  by (simp_all add: put_refund_def)

lemma log_tables [simp, frame_simps]:
  "wallets (log_event e u s) = wallets s" "txns (log_event e u s) = txns s"
  "withdrawals (log_event e u s) = withdrawals s" "refunds (log_event e u s) = refunds s"
  "wallets (notify e u s) = wallets s" "txns (notify e u s) = txns s"
  "withdrawals (notify e u s) = withdrawals s" "refunds (notify e u s) = refunds s"
  by (simp_all add: log_event_def notify_def)

lemma set_balance_simps [simp]:
  "wl_id (set_balance now b w) = wl_id w" "wl_user_id (set_balance now b w) = wl_user_id w"
  "balance (set_balance now b w) = b"
  by (simp_all add: set_balance_def)

lemma new_txn_simps [simp]:
  "tx_id (new_txn now w a ty c st d p rt ri s) = fresh_id tx_id (txns s)"
  "tx_wallet_id (new_txn now w a ty c st d p rt ri s) = Some (wl_id w)"
  "tx_amount (new_txn now w a ty c st d p rt ri s) = a"
  "tx_reference_type (new_txn now w a ty c st d p rt ri s) = rt"
  "tx_reference_id (new_txn now w a ty c st d p rt ri s) = ri"
  "tx_status (new_txn now w a ty c st d p rt ri s) = st"
  "tx_category (new_txn now w a ty c st d p rt ri s) = Some c"
  "tx_type (new_txn now w a ty c st d p rt ri s) = Some ty"
  by (simp_all add: new_txn_def)

lemma ledger_effect_new [simp]:
  "ledger_effect (new_txn now w a ty c st d p rt ri s) =
     (if rt = Some ''wallet_recharge'' \<and> st \<noteq> ''success'' then 0 else a)"
  by (simp add: ledger_effect_def)

text \<open>The invariant reads four tables, so notices, mail and the security log do not matter.\<close>

lemma wallet_inv_tables:
  "wallets s' = wallets s \<Longrightarrow> txns s' = txns s \<Longrightarrow> withdrawals s' = withdrawals s \<Longrightarrow>
   refunds s' = refunds s \<Longrightarrow> wallet_inv s' = wallet_inv s"
  by (simp add: wallet_inv_def ledger_inv_def keys_ok_def balances_ok_def amounts_ok_def payout_inv_def)

lemma wallet_inv_log [simp]:
  "wallet_inv (log_event e u s) = wallet_inv s" "wallet_inv (notify e u s) = wallet_inv s"
  by (rule wallet_inv_tables; simp)+

lemma wallet_inv_other [simp]:
  "wallet_inv (s\<lparr>mail := m\<rparr>) = wallet_inv s" "wallet_inv (s\<lparr>notices := n\<rparr>) = wallet_inv s"
  by (rule wallet_inv_tables; simp)+

section \<open>The elementary updates\<close>

lemma get_wallet_facts:
  assumes "wallet_inv s" "get_wallet now u s = (w, s1)"
  shows "wallet_inv s1 \<and> w \<in> set (wallets s1) \<and> wl_user_id w = u
    \<and> (\<forall>q \<in> set (wallets s). q \<in> set (wallets s1)) \<and> txns s1 = txns s
    \<and> withdrawals s1 = withdrawals s \<and> refunds s1 = refunds s"
proof (cases "List.find (\<lambda>w. wl_user_id w = u) (wallets s)")
  case (Some q)
  then show ?thesis using assms by (auto simp: get_wallet_def dest: find_Some)
next
  case None
  then have u: "u \<notin> wl_user_id ` set (wallets s)" by (auto simp: find_None)
  let ?i = "fresh_id wl_id (wallets s)"
  have i: "?i \<notin> wl_id ` set (wallets s)" by (rule fresh_id_notin)
  have "\<forall>t \<in> set (txns s). tx_wallet_id t \<noteq> Some ?i"
    using assms(1) i by (auto simp: wallet_inv_def ledger_inv_def balances_ok_def)
  then have "ledger_sum ?i (txns s) = 0" by (rule ledger_sum_unknown)
  then show ?thesis
    using assms u i None
    by (auto simp: get_wallet_def wallet_inv_def ledger_inv_def keys_ok_def balances_ok_def
        amounts_ok_def payout_inv_def Let_def)
qed

text \<open>A balance moves together with one row of the ledger: a new row, or a row that is settled.\<close>

lemma put_wallet_balances:
  assumes "ledger_inv s" "w \<in> set (wallets s)" "0 \<le> b"
    and sum: "\<And>i. ledger_sum i ts = ledger_sum i (txns s) + (if i = wl_id w then b - balance w else 0)"
    and ids: "\<And>t i. t \<in> set ts \<Longrightarrow> tx_wallet_id t = Some i \<Longrightarrow>
      i \<in> wl_id ` set (wallets s)"
  shows "balances_ok (s\<lparr>wallets := put_row wl_id (set_balance now b w) (wallets s), txns := ts\<rparr>)"
proof -
  let ?t = "put_row wl_id (set_balance now b w) (wallets s)"
  have keys: "wl_id ` set ?t = wl_id ` set (wallets s)"
    by (metis put_row_keys list.set_map)
  have "balance q = ledger_sum (wl_id q) ts \<and> 0 \<le> ledger_sum (wl_id q) ts" if "q \<in> set ?t" for q
    using in_put_row[OF that] assms(1-3) sum
    by (auto simp: ledger_inv_def balances_ok_def)
  then show ?thesis using ids by (auto simp: balances_ok_def keys)
qed

lemma post_ledger:
  assumes "ledger_inv s" "w \<in> set (wallets s)" "0 \<le> b"
    and "tx_wallet_id t = Some (wl_id w)" "ledger_effect t = b - balance w"
    and "tx_id t \<notin> tx_id ` set (txns s)"
  shows "ledger_inv (add_txn t (put_wallet (set_balance now b w) s))"
proof -
  have "balances_ok (s\<lparr>wallets := put_row wl_id (set_balance now b w) (wallets s),
                      txns := txns s @ [t]\<rparr>)"
    by (rule put_wallet_balances)
      (use assms in \<open>auto simp: effect_on_def ledger_inv_def balances_ok_def\<close>)
  moreover have "map wl_user_id (put_row wl_id (set_balance now b w) (wallets s))
      = map wl_user_id (wallets s)"
    using assms by (intro map_put_row[of _ _ w]) (auto simp: ledger_inv_def keys_ok_def)
  ultimately show ?thesis using assms
    by (auto simp: ledger_inv_def keys_ok_def amounts_ok_def add_txn_def put_wallet_def)
qed

lemma settle_ledger:
  assumes "ledger_inv s" "w \<in> set (wallets s)" "0 \<le> b" "q \<in> set (txns s)"
    and "tx_id t = tx_id q" "tx_wallet_id q = Some (wl_id w)" "tx_wallet_id t = tx_wallet_id q"
    and "ledger_effect t = ledger_effect q + (b - balance w)"
  shows "ledger_inv (put_txn t (put_wallet (set_balance now b w) s))"
proof -
  have "ledger_sum i (put_row tx_id t (txns s))
      = ledger_sum i (txns s) + (if i = wl_id w then b - balance w else 0)" for i
    using assms by (subst ledger_sum_put[of _ q]) (auto simp: ledger_inv_def keys_ok_def effect_on_def)
  then have "balances_ok (s\<lparr>wallets := put_row wl_id (set_balance now b w) (wallets s),
                      txns := put_row tx_id t (txns s)\<rparr>)"
    by (rule put_wallet_balances[OF assms(1-3)])
      (use assms in \<open>auto simp: ledger_inv_def balances_ok_def dest!: in_put_row\<close>)
  moreover have "map wl_user_id (put_row wl_id (set_balance now b w) (wallets s))
      = map wl_user_id (wallets s)"
    using assms by (intro map_put_row[of _ _ w]) (auto simp: ledger_inv_def keys_ok_def)
  ultimately show ?thesis using assms
    by (auto simp: ledger_inv_def keys_ok_def amounts_ok_def put_txn_def put_wallet_def)
qed

text \<open>A row changes its status and keeps what it moves.\<close>

lemma relabel_ledger:
  assumes "ledger_inv s" "q \<in> set (txns s)" "tx_id t = tx_id q" "tx_wallet_id t = tx_wallet_id q"
    and "ledger_effect t = ledger_effect q"
  shows "ledger_inv (put_txn t s)"
proof -
  have "ledger_sum i (put_row tx_id t (txns s)) = ledger_sum i (txns s)" for i
    using assms by (subst ledger_sum_put[of _ q]) (auto simp: ledger_inv_def keys_ok_def effect_on_def)
  then show ?thesis using assms
    by (auto simp: ledger_inv_def keys_ok_def amounts_ok_def balances_ok_def dest!: in_put_row)
qed

lemma payout_other_row:
  assumes "payout_inv s" "tx_reference_type t \<noteq> Some ''withdrawal_request''"
  shows "payout_inv (add_txn t s)"
  using assms by (auto simp: payout_inv_def withdrawal_effect_def withdrawal_txn_def)

lemma payout_relabel:
  assumes "payout_inv s" "keys_ok s" "q \<in> set (txns s)" "tx_id t = tx_id q"
    and "tx_reference_type t = tx_reference_type q" "tx_reference_id t = tx_reference_id q"
    and "tx_amount t = tx_amount q \<or> tx_reference_type t \<noteq> Some ''withdrawal_request''"
  shows "payout_inv (put_txn t s)"
proof -
  have "withdrawal_net i (put_row tx_id t (txns s)) = withdrawal_net i (txns s)" for i
    using assms by (subst withdrawal_net_put[of _ q])
      (auto simp: keys_ok_def withdrawal_effect_def withdrawal_txn_def)
  then show ?thesis using assms
    by (auto simp: payout_inv_def dest!: in_put_row)
qed

lemma payout_put_wallet [simp]: "payout_inv (put_wallet w s) = payout_inv s"
  by (simp add: payout_inv_def)

lemma keys_ok_put_wallet:
  "keys_ok s \<Longrightarrow> w \<in> set (wallets s) \<Longrightarrow> keys_ok (put_wallet (set_balance now b w) s)"
  using map_put_row[of wl_id "wallets s" w "set_balance now b w" wl_user_id]
  by (auto simp: keys_ok_def)

text \<open>The three shapes of the wallet service's writes.\<close>

lemma post_inv:
  assumes "wallet_inv s" "w \<in> set (wallets s)" "0 \<le> b"
    and "tx_wallet_id t = Some (wl_id w)" "ledger_effect t = b - balance w"
    and "tx_id t \<notin> tx_id ` set (txns s)" "tx_reference_type t \<noteq> Some ''withdrawal_request''"
  shows "wallet_inv (add_txn t (put_wallet (set_balance now b w) s))"
  using assms by (auto simp: wallet_inv_def intro!: post_ledger payout_other_row)

lemma settle_inv:
  assumes "wallet_inv s" "w \<in> set (wallets s)" "0 \<le> b" "q \<in> set (txns s)"
    and "tx_id t = tx_id q" "tx_wallet_id q = Some (wl_id w)" "tx_wallet_id t = tx_wallet_id q"
    and "ledger_effect t = ledger_effect q + (b - balance w)"
    and "tx_reference_type t = tx_reference_type q" "tx_reference_id t = tx_reference_id q"
    and "tx_reference_type t \<noteq> Some ''withdrawal_request''"
  shows "wallet_inv (put_txn t (put_wallet (set_balance now b w) s))"
  unfolding wallet_inv_def
proof
  show "ledger_inv (put_txn t (put_wallet (set_balance now b w) s))"
    by (rule settle_ledger[of _ _ _ q]) (use assms in \<open>auto simp: wallet_inv_def\<close>)
  show "payout_inv (put_txn t (put_wallet (set_balance now b w) s))"
    by (rule payout_relabel[of _ q])
      (use assms in \<open>auto simp: wallet_inv_def ledger_inv_def intro: keys_ok_put_wallet\<close>)
qed

lemma relabel_inv:
  assumes "wallet_inv s" "q \<in> set (txns s)" "tx_id t = tx_id q" "tx_wallet_id t = tx_wallet_id q"
    and "ledger_effect t = ledger_effect q"
    and "tx_reference_type t = tx_reference_type q" "tx_reference_id t = tx_reference_id q"
    and "tx_amount t = tx_amount q"
  shows "wallet_inv (put_txn t s)"
  using assms relabel_ledger[of s q t] payout_relabel[of s q t]
  by (auto simp: wallet_inv_def ledger_inv_def)

section \<open>The abstract bank\<close>

text \<open>
  Abstractly the service is a map from users to balances; a user without a wallet has none yet,
  a balance of zero.
\<close>

definition balances :: "wallet_db \<Rightarrow> int \<Rightarrow> money" where
  "balances s u = (case get_row wl_user_id u (wallets s) of None \<Rightarrow> 0 | Some w \<Rightarrow> balance w)"

lemma balances_of_wallet:
  "wallet_inv s \<Longrightarrow> w \<in> set (wallets s) \<Longrightarrow> balances s (wl_user_id w) = balance w"
  using get_row_member[of wl_user_id "wallets s" w]
  by (simp add: balances_def wallet_inv_def ledger_inv_def keys_ok_def)

lemma balances_tables: "wallets s' = wallets s \<Longrightarrow> balances s' = balances s"
  by (simp add: balances_def fun_eq_iff)

lemma balances_frame [simp]:
  "balances (add_txn t s) = balances s" "balances (put_txn t s) = balances s"
  "balances (put_withdrawal r s) = balances s" "balances (put_refund f s) = balances s"
  "balances (log_event e u s) = balances s" "balances (notify e u s) = balances s"
  "balances (s\<lparr>mail := m\<rparr>) = balances s" "balances (s\<lparr>withdrawals := ws\<rparr>) = balances s"
  "balances (s\<lparr>refunds := rs\<rparr>) = balances s" "balances (s\<lparr>notices := ns\<rparr>) = balances s"
  by (rule balances_tables, simp)+

lemma get_row_put_wallet:
  assumes "distinct (map wl_user_id t)" "w \<in> set t" "distinct (map wl_id t)"
  shows "get_row wl_user_id u (put_row wl_id (set_balance now b w) t) =
    (if u = wl_user_id w then Some (set_balance now b w) else get_row wl_user_id u t)"
  using assms by (induction t) (auto simp: put_row_notin image_iff)

lemma balances_put_wallet:
  "wallet_inv s \<Longrightarrow> w \<in> set (wallets s) \<Longrightarrow>
   balances (put_wallet (set_balance now b w) s) = (balances s)(wl_user_id w := b)"
  by (auto simp: balances_def fun_eq_iff get_row_put_wallet wallet_inv_def ledger_inv_def keys_ok_def)

lemma get_wallet_balances:
  assumes "wallet_inv s" "get_wallet now u s = (w, s1)"
  shows "balances s1 = balances s \<and> balance w = balances s u"
proof -
  note f = get_wallet_facts[OF assms]
  have "balances s1 = balances s"
  proof (cases "get_row wl_user_id u (wallets s)")
    case None
    then show ?thesis using assms(2)
      by (auto simp: get_wallet_def get_row_def[symmetric] balances_def get_append fun_eq_iff Let_def
          split: option.splits if_splits)
  next
    case (Some q)
    then show ?thesis using assms(2) by (simp add: get_wallet_def get_row_def[symmetric])
  qed
  then show ?thesis using f balances_of_wallet[of s1 w] by auto
qed

definition total_balance :: "wallet_db \<Rightarrow> money" where
  "total_balance s = sum_list (map balance (wallets s))"

lemma get_wallet_total:
  "get_wallet now u s = (w, s1) \<Longrightarrow> total_balance s1 = total_balance s"
  by (auto simp: get_wallet_def total_balance_def Let_def split: option.splits)

lemma total_put_wallet:
  "wallet_inv s \<Longrightarrow> w \<in> set (wallets s) \<Longrightarrow>
   total_balance (put_wallet (set_balance now b w) s) = total_balance s - balance w + b"
  unfolding total_balance_def
  by (simp add: sum_list_put_row[of wl_id _ w] wallet_inv_def ledger_inv_def keys_ok_def)

lemma total_add_txn [simp]: "total_balance (add_txn t s) = total_balance s"
  by (simp add: total_balance_def)

section \<open>Every operation\<close>

lemma fresh_txn: "tx_id (new_txn now w a ty c st d p rt ri s) \<notin> tx_id ` set (txns s)"
  by (simp add: fresh_id_notin)

lemma wallet_inv_balance: "wallet_inv s \<Longrightarrow> w \<in> set (wallets s) \<Longrightarrow> 0 \<le> balance w"
  by (auto simp: wallet_inv_def ledger_inv_def balances_ok_def)

lemma add_balance_inv:
  assumes "wallet_inv s" "rt \<noteq> Some ''withdrawal_request''"
    and "add_balance now u a d gid c rt ri s = Inr (w', s')"
  shows "wallet_inv s'"
proof -
  obtain v w s1 where v: "to_money a = Inr v" "0 < v" and g: "get_wallet now u s = (w, s1)"
    and s': "s' = add_txn (new_txn now (set_balance now (balance w + v) w) v ''credit'' c ''success''
                    d gid rt ri (put_wallet (set_balance now (balance w + v) w) s1))
                  (put_wallet (set_balance now (balance w + v) w) s1)"
    using assms(3) by (auto simp: add_balance_def Let_def split: sum.splits if_splits prod.splits)
  note f = get_wallet_facts[OF assms(1) g]
  show ?thesis unfolding s'
    by (rule post_inv) (use f v wallet_inv_balance[of s1 w] assms(2) in \<open>auto simp: fresh_id_notin\<close>)
qed

lemma deduct_balance_inv:
  assumes "wallet_inv s" "deduct_balance now u a d s = Inr (w', s')"
  shows "wallet_inv s'"
proof -
  obtain v w s1 where v: "to_money a = Inr v" "0 < v" "v \<le> balance w"
    and g: "get_wallet now u s = (w, s1)"
    and s': "s' = add_txn (new_txn now (set_balance now (balance w - v) w) (- v) ''debit'' ''withdrawal''
                    ''success'' d None None None (put_wallet (set_balance now (balance w - v) w) s1))
                  (put_wallet (set_balance now (balance w - v) w) s1)"
    using assms(2)
    by (auto simp: deduct_balance_def Let_def not_less not_le split: sum.splits if_splits prod.splits)
  note f = get_wallet_facts[OF assms(1) g]
  show ?thesis unfolding s'
    by (rule post_inv) (use f v in \<open>auto simp: fresh_id_notin\<close>)
qed

lemma add_pending_inv:
  assumes "wallet_inv s" "w \<in> set (wallets s)" "tx_wallet_id t = Some (wl_id w)" "ledger_effect t = 0"
    and "tx_id t \<notin> tx_id ` set (txns s)" "tx_reference_type t \<noteq> Some ''withdrawal_request''"
  shows "wallet_inv (add_txn t s)"
  using assms payout_other_row[of s t]
  by (auto simp: wallet_inv_def ledger_inv_def keys_ok_def balances_ok_def amounts_ok_def effect_on_def)

lemma create_recharge_intent_inv:
  assumes "wallet_inv s" "create_recharge_intent now u a oid d s = Inr (t, s')"
  shows "wallet_inv s'"
proof -
  obtain v w s1 where v: "to_money a = Inr v" "0 < v" and g: "get_wallet now u s = (w, s1)"
    and s': "s' = s \<or> s' = add_txn (new_txn now w v ''credit'' ''deposit'' ''pending'' d None
                               (Some ''wallet_recharge'') (Some oid) s1) s1"
    using assms(2)
    by (auto simp: create_recharge_intent_def Let_def
        split: sum.splits if_splits prod.splits option.splits)
  note f = get_wallet_facts[OF assms(1) g]
  have "wallet_inv (add_txn (new_txn now w v ''credit'' ''deposit'' ''pending'' d None
                               (Some ''wallet_recharge'') (Some oid) s1) s1)"
    by (rule add_pending_inv[of _ w]) (use f in \<open>simp_all add: fresh_id_notin\<close>)
  then show ?thesis using s' assms(1) by blast
qed

lemma capture_cases:
  assumes "apply_recharge_capture cfg now oid pid a noted s = Inr (t, s')"
  obtains (repeated) "List.find (recharge_intent oid) (txns s) = Some t" "tx_status t = ''success''"
      "s' = s"
  | (captured) v q w m where "to_money a = Inr v" "0 < v"
      "List.find (recharge_intent oid) (txns s) = Some q" "tx_status q \<noteq> ''success''"
      "w \<in> set (wallets s)" "tx_wallet_id q = Some (wl_id w)"
      "t = q\<lparr>tx_status := ''success'', tx_amount := v, tx_balance_after := Some (balance w + v),
             tx_payment_id := Some pid, tx_description := ''Wallet recharge captured ('' @ pid @ '')''\<rparr>"
      "s' = (put_txn t (put_wallet (set_balance now (balance w + v) w) s))\<lparr>mail := m\<rparr>"
proof -
  show thesis
  proof (cases "\<exists>q. List.find (recharge_intent oid) (txns s) = Some q \<and> tx_status q = ''success''")
    case True
    then show thesis using assms repeated
      by (auto simp: apply_recharge_capture_def Let_def split: sum.splits if_splits option.splits)
  next
    case False
    with assms obtain v q w where *: "to_money a = Inr v" "0 < v"
      "List.find (recharge_intent oid) (txns s) = Some q"
      "List.find (\<lambda>w. Some (wl_id w) = tx_wallet_id q) (wallets s) = Some w"
      "tx_status q \<noteq> ''success''"
      and eqs: "t = q\<lparr>tx_status := ''success'', tx_amount := v, tx_balance_after := Some (balance w + v),
             tx_payment_id := Some pid, tx_description := ''Wallet recharge captured ('' @ pid @ '')''\<rparr>"
      "\<exists>m. s' = (put_txn t (put_wallet (set_balance now (balance w + v) w) s))\<lparr>mail := m\<rparr>"
      by (auto simp: apply_recharge_capture_def Let_def split: sum.splits if_splits option.splits)
    then show thesis using captured find_Some[OF *(4)] by metis
  qed
qed

lemma recharge_intent_type: "recharge_intent oid t \<Longrightarrow>
    tx_reference_type t = Some ''wallet_recharge'' \<and> tx_reference_id t = Some oid"
  by (simp add: recharge_intent_def)

lemma apply_recharge_capture_inv:
  assumes "wallet_inv s" "apply_recharge_capture cfg now oid pid a noted s = Inr (t, s')"
  shows "wallet_inv s'"
  using assms(2)
proof (cases rule: capture_cases)
  case repeated
  then show ?thesis using assms(1) by simp
next
  case (captured v q w m)
  note q = find_Some[OF captured(3)]
  have "wallet_inv (put_txn t (put_wallet (set_balance now (balance w + v) w) s))"
    by (rule settle_inv[of _ _ _ q])
      (use captured q recharge_intent_type[of oid q] wallet_inv_balance[OF assms(1), of w] assms(1)
       in \<open>simp_all add: ledger_effect_def\<close>)
  then show ?thesis by (simp add: captured(8))
qed

lemma mark_recharge_intent_failed_inv:
  assumes "wallet_inv s"
  shows "wallet_inv (snd (mark_recharge_intent_failed now oid pid s))"
proof (cases "List.find (recharge_intent oid) (txns s)")
  case None
  then show ?thesis using assms by (simp add: mark_recharge_intent_failed_def)
next
  case (Some q)
  note f = find_Some[OF Some] recharge_intent_type[of oid q]
  show ?thesis
  proof (cases "tx_status q = ''success''")
    case True
    then show ?thesis using assms Some by (simp add: mark_recharge_intent_failed_def)
  next
    case False
    define t where "t = q\<lparr>tx_status := ''failed'', tx_payment_id := (case truthy_str pid of
        None \<Rightarrow> tx_payment_id q | Some p \<Rightarrow> Some p)\<rparr>"
    have "wallet_inv (put_txn t s)"
      by (rule relabel_inv[of _ q]) (use f assms False in \<open>simp_all add: t_def ledger_effect_def\<close>)
    then show ?thesis using Some False
      by (auto simp: mark_recharge_intent_failed_def Let_def t_def[symmetric] split: option.splits)
  qed
qed

text \<open>A withdrawal: the request and its debit are written together.\<close>

lemma withdrawal_net_unknown:
  assumes "payout_inv s" "i \<notin> wr_id ` set (withdrawals s)"
  shows "withdrawal_net i (txns s) = 0"
proof -
  have "\<not> withdrawal_txn i t" if "t \<in> set (txns s)" for t
    using assms that by (force simp: payout_inv_def withdrawal_txn_def show_int_inject)
  then have "map (withdrawal_effect i) (txns s) = map (\<lambda>_. 0) (txns s)"
    by (simp add: withdrawal_effect_def)
  then show ?thesis by (metis sum_list_0 withdrawal_net_def)
qed

lemma request_withdrawal_cases:
  assumes "request_withdrawal now u a bank s = Inr (r, s')"
  obtains v w s1 where "to_money a = Inr v" "0 < v" "v \<le> balance w" "get_wallet now u s = (w, s1)"
    "r = \<lparr>wr_id = fresh_id wr_id (withdrawals s1), wr_wallet_id = wl_id w, wr_amount = v,
          wr_bank_details = bank, wr_status = ''requested'', wr_processed_at = None\<rparr>"
    "s' = notify ''withdrawal_requested'' u (log_event ''withdrawal_request'' u
           (add_txn (new_txn now (set_balance now (balance w - v) w) (- v) ''debit''
               ''withdrawal_request'' ''pending'' (''Withdrawal request #'' @ show_int (wr_id r)) None
               (Some ''withdrawal_request'') (Some (show_int (wr_id r)))
               (put_wallet (set_balance now (balance w - v) w) (s1\<lparr>withdrawals := withdrawals s1 @ [r]\<rparr>)))
             (put_wallet (set_balance now (balance w - v) w) (s1\<lparr>withdrawals := withdrawals s1 @ [r]\<rparr>))))"
  using assms
  by (auto simp: request_withdrawal_def Let_def not_less not_le
      split: sum.splits if_splits prod.splits)

lemma request_withdrawal_inv:
  assumes "wallet_inv s" "request_withdrawal now u a bank s = Inr (r, s')"
  shows "wallet_inv s'"
  using assms(2)
proof (cases rule: request_withdrawal_cases)
  case (1 v w s1)
  note f = get_wallet_facts[OF assms(1) 1(4)]
  let ?s2 = "s1\<lparr>withdrawals := withdrawals s1 @ [r]\<rparr>"
  let ?w = "set_balance now (balance w - v) w"
  let ?t = "new_txn now ?w (- v) ''debit'' ''withdrawal_request'' ''pending''
      (''Withdrawal request #'' @ show_int (wr_id r)) None
               (Some ''withdrawal_request'') (Some (show_int (wr_id r))) (put_wallet ?w ?s2)"
  have new: "wr_id r \<notin> wr_id ` set (withdrawals s1)" using 1(5) fresh_id_notin by simp
  have "ledger_inv ?s2" using f 1 new
    by (auto simp: wallet_inv_def ledger_inv_def keys_ok_def balances_ok_def amounts_ok_def)
  then have "ledger_inv (add_txn ?t (put_wallet ?w ?s2))"
    by (rule post_ledger) (use f 1 in \<open>simp_all add: fresh_id_notin\<close>)
  moreover have "payout_inv (add_txn ?t (put_wallet ?w ?s2))"
  proof -
    have p: "payout_inv s1" using f by (simp add: wallet_inv_def)
    have others: "withdrawal_effect (wr_id q) ?t = 0" if "q \<in> set (withdrawals s1)" for q
      using that new by (auto simp: withdrawal_effect_def withdrawal_txn_def show_int_inject image_iff)
    have own: "withdrawal_effect (wr_id r) ?t = - v"
      by (simp add: withdrawal_effect_def withdrawal_txn_def)
    have net: "withdrawal_net (wr_id r) (txns s1) = 0" by (rule withdrawal_net_unknown[OF p new])
    have "wr_status r = ''requested''" "wr_amount r = v" using 1(5) by simp_all
    then show ?thesis using p others own net by (auto simp: payout_inv_def withdrawal_cost_def)
  qed
  ultimately have "wallet_inv (add_txn ?t (put_wallet ?w ?s2))" by (simp add: wallet_inv_def)
  then show ?thesis by (simp add: 1(6))
qed

lemma wallet_inv_withdrawal:
  assumes "wallet_inv s" "r \<in> set (withdrawals s)"
  shows "0 < wr_amount r \<and> get_row wr_id (wr_id r) (withdrawals s) = Some r
    \<and> withdrawal_net (wr_id r) (txns s) = withdrawal_cost r"
  using assms
  by (auto simp: wallet_inv_def ledger_inv_def keys_ok_def amounts_ok_def payout_inv_def
      intro: get_row_member)

text \<open>The status of a request changes; the ledger already shows what the new status costs.\<close>

lemma put_withdrawal_ledger:
  assumes "ledger_inv s" "0 < wr_amount r"
  shows "ledger_inv (put_withdrawal r s)"
  using assms
  by (auto simp: ledger_inv_def keys_ok_def balances_ok_def amounts_ok_def dest!: in_put_row)

lemma put_withdrawal_payout:
  assumes "keys_ok s" "r \<in> set (withdrawals s)" "wr_id r' = wr_id r"
    and "withdrawal_net (wr_id r) (txns s) = withdrawal_cost r'"
    and "wr_status r' \<in> {''requested'', ''processed'', ''rejected''}"
    and "\<forall>q \<in> set (withdrawals s). q \<noteq> r \<longrightarrow> withdrawal_net (wr_id q) (txns s) = withdrawal_cost q
           \<and> wr_status q \<in> {''requested'', ''processed'', ''rejected''}"
    and "\<forall>t \<in> set (txns s). tx_reference_type t = Some ''withdrawal_request'' \<longrightarrow>
          (\<exists>r \<in> set (withdrawals s). tx_reference_id t = Some (show_int (wr_id r)))"
  shows "payout_inv (put_withdrawal r' s)"
proof -
  have "wr_id ` set (put_row wr_id r' (withdrawals s)) = wr_id ` set (withdrawals s)"
    by (metis put_row_keys list.set_map)
  then have refs: "(\<exists>q \<in> set (put_row wr_id r' (withdrawals s)). x = Some (show_int (wr_id q)))
      \<longleftrightarrow> (\<exists>q \<in> set (withdrawals s). x = Some (show_int (wr_id q)))" for x
    by (metis (no_types, lifting) image_iff)
  show ?thesis using assms by (auto simp: payout_inv_def refs dest!: in_put_row)
qed

lemma approve_cases:
  assumes "approve_withdrawal_request now i approver ref s = Inr (r', s')"
  obtains r s2 where "get_row wr_id i (withdrawals s) = Some r" "wr_status r = ''requested''"
    "r' = r\<lparr>wr_status := ''processed'', wr_processed_at := Some now\<rparr>"
    "s2 = put_withdrawal r' s \<or> (\<exists>t d. t \<in> set (txns s) \<and> withdrawal_txn (wr_id r) t
        \<and> s2 = put_txn (t\<lparr>tx_status := ''success'', tx_description := d\<rparr>) (put_withdrawal r' s))"
    "s' = log_event ''withdrawal_processed'' approver s2
     \<or> (\<exists>u. s' = log_event ''withdrawal_processed'' approver (notify ''withdrawal_processed'' u s2))"
proof -
  obtain r where r: "get_row wr_id i (withdrawals s) = Some r" "wr_status r = ''requested''"
      "r' = r\<lparr>wr_status := ''processed'', wr_processed_at := Some now\<rparr>"
    using assms by (auto simp: approve_withdrawal_request_def Let_def split: if_splits option.splits)
  define s2 where "s2 = (case List.find (withdrawal_txn (wr_id r)) (txns s) of
      None \<Rightarrow> put_withdrawal r' s
    | Some t \<Rightarrow> put_txn (t\<lparr>tx_status := ''success'', tx_description := (case truthy_str ref of
          None \<Rightarrow> tx_description t | Some p \<Rightarrow> ''Withdrawal payout processed ('' @ p @ '')'')\<rparr>)
        (put_withdrawal r' s))"
  have s': "s' = log_event ''withdrawal_processed'' approver
      (case get_row wl_id (wr_wallet_id r) (wallets s2) of
         None \<Rightarrow> s2 | Some w \<Rightarrow> notify ''withdrawal_processed'' (wl_user_id w) s2)"
    using assms r(1,2) unfolding s2_def r(3) by (simp add: approve_withdrawal_request_def Let_def)
  have s2: "s2 = put_withdrawal r' s \<or> (\<exists>t d. t \<in> set (txns s) \<and> withdrawal_txn (wr_id r) t
        \<and> s2 = put_txn (t\<lparr>tx_status := ''success'', tx_description := d\<rparr>) (put_withdrawal r' s))"
    unfolding s2_def by (cases "List.find (withdrawal_txn (wr_id r)) (txns s)") (auto dest: find_Some)
  show thesis using that[OF r s2] s' by (auto split: option.splits)
qed

lemma approve_withdrawal_request_inv:
  assumes "wallet_inv s" "approve_withdrawal_request now i approver ref s = Inr (r', s')"
  shows "wallet_inv s'"
  using assms(2)
proof (cases rule: approve_cases)
  case (1 r s2)
  note r = get_row_Some[OF 1(1)]
  note w = wallet_inv_withdrawal[OF assms(1) conjunct1[OF r]]
  have "ledger_inv (put_withdrawal r' s)"
    by (rule put_withdrawal_ledger) (use assms(1) w 1(3) in \<open>auto simp: wallet_inv_def\<close>)
  moreover have "payout_inv (put_withdrawal r' s)"
    by (rule put_withdrawal_payout[of _ r])
      (use assms(1) r w 1(2,3) in \<open>auto simp: wallet_inv_def ledger_inv_def payout_inv_def
        withdrawal_cost_def\<close>)
  ultimately have base: "wallet_inv (put_withdrawal r' s)" by (simp add: wallet_inv_def)
  have "wallet_inv (put_txn (t\<lparr>tx_status := ''success'', tx_description := d\<rparr>) (put_withdrawal r' s))"
    if "t \<in> set (txns s)" "withdrawal_txn (wr_id r) t" for t d
    by (rule relabel_inv[of _ t])
      (use that base in \<open>simp_all add: withdrawal_txn_def ledger_effect_def\<close>)
  then have "wallet_inv s2" using base 1(4) by auto
  then show ?thesis using 1(5) by auto
qed

lemma reject_cases:
  assumes "reject_withdrawal_request now i approver reason s = Inr (r', s')"
  obtains r w s3 d where "get_row wr_id i (withdrawals s) = Some r" "wr_status r = ''requested''"
    "w \<in> set (wallets s)" "wl_id w = wr_wallet_id r"
    "r' = r\<lparr>wr_status := ''rejected'', wr_processed_at := Some now\<rparr>"
    "s3 = add_txn (new_txn now (set_balance now (balance w + wr_amount r) w) (wr_amount r) ''credit''
            ''withdrawal_reversal'' ''success'' d None (Some ''withdrawal_request'')
            (Some (show_int (wr_id r))) (put_wallet (set_balance now (balance w + wr_amount r) w) s))
          (put_wallet (set_balance now (balance w + wr_amount r) w) s)"
    "(\<exists>s4. s' = log_event ''withdrawal_rejected'' approver
              (notify ''withdrawal_rejected'' (wl_user_id w) (put_withdrawal r' s4))
       \<and> (s4 = s3 \<or> (\<exists>t e. t \<in> set (txns s) \<and> withdrawal_txn (wr_id r) t \<and> tx_status t \<noteq> ''success''
             \<and> s4 = put_txn (t\<lparr>tx_status := ''failed'', tx_description := e\<rparr>) s3)))"
proof -
  obtain r w where r: "get_row wr_id i (withdrawals s) = Some r" "wr_status r = ''requested''"
      "r' = r\<lparr>wr_status := ''rejected'', wr_processed_at := Some now\<rparr>"
    and w: "get_row wl_id (wr_wallet_id r) (wallets s) = Some w"
    using assms
    by (auto simp: reject_withdrawal_request_def Let_def split: if_splits option.splits)
  define rejected where "rejected = ''Withdrawal request #'' @ show_int (wr_id r) @ '' rejected''"
  define d where "d = (case truthy_str reason of None \<Rightarrow> rejected | Some x \<Rightarrow> rejected @ '': '' @ x)"
  define s3 where "s3 =
    add_txn (new_txn now (set_balance now (balance w + wr_amount r) w) (wr_amount r) ''credit''
            ''withdrawal_reversal'' ''success'' d None (Some ''withdrawal_request'')
            (Some (show_int (wr_id r))) (put_wallet (set_balance now (balance w + wr_amount r) w) s))
          (put_wallet (set_balance now (balance w + wr_amount r) w) s)"
  define s4 where "s4 = (case List.find (withdrawal_txn (wr_id r)) (txns s) of None \<Rightarrow> s3
      | Some t \<Rightarrow> put_txn (t\<lparr>tx_status := ''failed'', tx_description := (case truthy_str reason of
            None \<Rightarrow> tx_description t | Some x \<Rightarrow> rejected @ '': '' @ x)\<rparr>) s3)"
  have s': "s' = log_event ''withdrawal_rejected'' approver
              (notify ''withdrawal_rejected'' (wl_user_id w) (put_withdrawal r' s4))"
    using assms r(1,2) w unfolding s4_def s3_def d_def rejected_def r(3)
    by (cases "List.find (withdrawal_txn (wr_id r)) (txns s)"; cases "truthy_str reason")
      (auto simp: reject_withdrawal_request_def Let_def split: if_splits)
  have s4: "s4 = s3 \<or> (\<exists>t e. t \<in> set (txns s) \<and> withdrawal_txn (wr_id r) t \<and> tx_status t \<noteq> ''success''
             \<and> s4 = put_txn (t\<lparr>tx_status := ''failed'', tx_description := e\<rparr>) s3)"
  proof (cases "List.find (withdrawal_txn (wr_id r)) (txns s)")
    case None then show ?thesis by (simp add: s4_def)
  next
    case (Some t)
    then have "tx_status t \<noteq> ''success''"
      using assms r(1,2) w by (auto simp: reject_withdrawal_request_def Let_def)
    then show ?thesis using find_Some[OF Some] by (auto simp: s4_def Some)
  qed
  show thesis
    using that[OF r(1,2) conjunct1[OF get_row_Some[OF w]] conjunct2[OF get_row_Some[OF w]] r(3) s3_def]
      s' s4 by blast
qed

lemma reject_withdrawal_request_inv:
  assumes "wallet_inv s" "reject_withdrawal_request now i approver reason s = Inr (r', s')"
  shows "wallet_inv s'"
  using assms(2)
proof (cases rule: reject_cases)
  case (1 r w s3 d)
  note r = get_row_Some[OF 1(1)]
  note a = wallet_inv_withdrawal[OF assms(1) conjunct1[OF r]]
  let ?w = "set_balance now (balance w + wr_amount r) w"
  let ?t = "new_txn now ?w (wr_amount r) ''credit'' ''withdrawal_reversal'' ''success'' d None
      (Some ''withdrawal_request'') (Some (show_int (wr_id r))) (put_wallet ?w s)"
  have led3: "ledger_inv s3" unfolding 1(6)
    by (rule post_ledger)
      (use assms(1) a 1(3) wallet_inv_balance[OF assms(1) 1(3)] in \<open>simp_all add: wallet_inv_def fresh_id_notin\<close>)
  have tables: "withdrawals s3 = withdrawals s" "txns s3 = txns s @ [?t]" by (simp_all add: 1(6))
  have eff: "withdrawal_effect i' ?t = (if i' = wr_id r then wr_amount r else 0)" for i'
    by (simp add: withdrawal_effect_def withdrawal_txn_def show_int_inject)
  have net3: "withdrawal_net (wr_id r) (txns s3) = 0"
    using a 1(2) eff by (simp add: tables withdrawal_cost_def)
  have pay3: "payout_inv (put_withdrawal r' s3)"
  proof (rule put_withdrawal_payout[of _ r])
    show "\<forall>q \<in> set (withdrawals s3). q \<noteq> r \<longrightarrow> withdrawal_net (wr_id q) (txns s3) = withdrawal_cost q
           \<and> wr_status q \<in> {''requested'', ''processed'', ''rejected''}"
    proof (intro ballI impI)
      fix q assume q: "q \<in> set (withdrawals s3)" "q \<noteq> r"
      then have "wr_id q \<noteq> wr_id r" using a wallet_inv_withdrawal[OF assms(1), of q]
        by (auto simp: tables)
      then show "withdrawal_net (wr_id q) (txns s3) = withdrawal_cost q
           \<and> wr_status q \<in> {''requested'', ''processed'', ''rejected''}"
        using q assms(1) eff by (auto simp: tables wallet_inv_def payout_inv_def)
    qed
    show "\<forall>t \<in> set (txns s3). tx_reference_type t = Some ''withdrawal_request'' \<longrightarrow>
          (\<exists>r \<in> set (withdrawals s3). tx_reference_id t = Some (show_int (wr_id r)))"
      using assms(1) r by (auto simp: tables wallet_inv_def payout_inv_def)
  qed (use led3 r 1(5) net3 in \<open>auto simp: ledger_inv_def tables withdrawal_cost_def\<close>)
  have "ledger_inv (put_withdrawal r' s3)"
    by (rule put_withdrawal_ledger[OF led3]) (use a 1(5) in simp)
  with pay3 have base: "wallet_inv (put_withdrawal r' s3)" by (simp add: wallet_inv_def)
  have "wallet_inv (put_withdrawal r' (put_txn (t\<lparr>tx_status := ''failed'', tx_description := e\<rparr>) s3))"
    if "t \<in> set (txns s)" "withdrawal_txn (wr_id r) t" for t e
  proof -
    have "wallet_inv (put_txn (t\<lparr>tx_status := ''failed'', tx_description := e\<rparr>) (put_withdrawal r' s3))"
      by (rule relabel_inv[of _ t])
        (use that base in \<open>simp_all add: tables withdrawal_txn_def ledger_effect_def\<close>)
    then show ?thesis by (rule iffD1[OF wallet_inv_tables, rotated -1]) simp_all
  qed
  then show ?thesis using base 1(7) by auto
qed

lemma get_wallet_other:
  "get_wallet now u s = (w, s1) \<Longrightarrow> accounts s1 = accounts s"
  by (auto simp: get_wallet_def Let_def split: option.splits)

text \<open>A transfer: what the two posts find and leave.\<close>

lemma transfer_cases:
  assumes "wallet_inv s" "transfer_balance now sender phone a note s = Inr (t, s')"
  obtains v p ws wr s2 d1 d2 where "to_money a = Inr v" "0 < v" "v \<le> balance ws"
    "p \<in> set (accounts s)" "u_phone_number p = Some phone" "u_id p \<noteq> sender"
    "wallet_inv s2" "ws \<in> set (wallets s2)" "wr \<in> set (wallets s2)"
    "wl_user_id ws = sender" "wl_user_id wr = u_id p"
    "balances s2 = balances s" "total_balance s2 = total_balance s"
    "t = new_txn now (set_balance now (balance ws - v) ws) (- v) ''debit'' ''transfer'' ''success'' d1
           None (Some ''transfer'') (Some (show_int (u_id p)))
           (put_wallet (set_balance now (balance ws - v) ws) s2)"
    "s' = (let s4 = add_txn t (put_wallet (set_balance now (balance ws - v) ws) s2);
               s5 = put_wallet (set_balance now (balance wr + v) wr) s4
           in add_txn (new_txn now (set_balance now (balance wr + v) wr) v ''credit'' ''transfer''
                ''success'' d2 None (Some ''transfer'') (Some (show_int sender)) s5) s5)"
proof -
  obtain v p where v: "to_money a = Inr v" "0 < v"
    and p: "List.find (\<lambda>u. u_phone_number u = Some phone) (accounts s) = Some p" "u_id p \<noteq> sender"
    using assms(2) by (auto simp: transfer_balance_def not_le split: sum.splits if_splits option.splits)
  obtain wa s1 where ga: "get_wallet now (min sender (u_id p)) s = (wa, s1)" by force
  obtain wb s2 where gb: "get_wallet now (max sender (u_id p)) s1 = (wb, s2)" by force
  note fa = get_wallet_facts[OF assms(1) ga]
  note fb = get_wallet_facts[OF conjunct1[OF fa] gb]
  note bals = get_wallet_balances[OF assms(1) ga] get_wallet_balances[OF conjunct1[OF fa] gb]
  define ws where "ws = (if wl_user_id wa = sender then wa else wb)"
  define wr where "wr = (if wl_user_id wb = u_id p then wb else wa)"
  have users: "wl_user_id ws = sender" "wl_user_id wr = u_id p"
    using fa fb p(2) by (auto simp: ws_def wr_def min_def max_def split: if_splits)
  have rows: "ws \<in> set (wallets s2)" "wr \<in> set (wallets s2)"
    using fa fb by (auto simp: ws_def wr_def)
  define d1 where "d1 = (case truthy_str note of Some n \<Rightarrow> n | None \<Rightarrow> ''Transfer to '' @ phone)"
  define d2 where "d2 = (case truthy_str note of
      Some n \<Rightarrow> n | None \<Rightarrow> ''Transfer from user #'' @ show_int sender)"
  have run: "v \<le> balance ws
    \<and> t = new_txn now (set_balance now (balance ws - v) ws) (- v) ''debit'' ''transfer'' ''success'' d1
           None (Some ''transfer'') (Some (show_int (u_id p)))
           (put_wallet (set_balance now (balance ws - v) ws) s2)
    \<and> s' = (let s4 = add_txn t (put_wallet (set_balance now (balance ws - v) ws) s2);
               s5 = put_wallet (set_balance now (balance wr + v) wr) s4
           in add_txn (new_txn now (set_balance now (balance wr + v) wr) v ''credit'' ''transfer''
                ''success'' d2 None (Some ''transfer'') (Some (show_int sender)) s5) s5)"
  proof -
    have cond: "\<not> balance ws < v"
    proof
      assume "balance ws < v"
      with assms(2) v p ga gb show False
        unfolding transfer_balance_def by (simp add: Let_def ws_def[symmetric])
    qed
    have "Inr (t, s') = transfer_balance now sender phone a note s" using assms(2) by simp
    also have "\<dots> = (let t = new_txn now (set_balance now (balance ws - v) ws) (- v) ''debit''
           ''transfer'' ''success'' d1
           None (Some ''transfer'') (Some (show_int (u_id p)))
           (put_wallet (set_balance now (balance ws - v) ws) s2);
         s4 = add_txn t (put_wallet (set_balance now (balance ws - v) ws) s2);
               s5 = put_wallet (set_balance now (balance wr + v) wr) s4
           in Inr (t, add_txn (new_txn now (set_balance now (balance wr + v) wr) v ''credit'' ''transfer''
                ''success'' d2 None (Some ''transfer'') (Some (show_int sender)) s5) s5))"
      using v p ga gb cond unfolding transfer_balance_def d1_def d2_def
      by (simp add: Let_def ws_def[symmetric] wr_def[symmetric])
    finally show ?thesis using cond by (simp add: Let_def)
  qed
  show thesis
    using that[OF v conjunct1[OF run], of p s2 wr d1 d2] run users rows fa fb bals get_wallet_total[OF ga] get_wallet_total[OF gb] p find_Some[OF p(1)]
    by simp
qed

lemma post_other_wallet:
  "q \<in> set (wallets s) \<Longrightarrow> wl_id q \<noteq> wl_id w \<Longrightarrow>
   q \<in> set (wallets (add_txn t (put_wallet (set_balance now b w) s)))"
  by (auto simp: put_row_def image_iff)

lemma wallet_inv_other_id:
  "wallet_inv s \<Longrightarrow> w \<in> set (wallets s) \<Longrightarrow> q \<in> set (wallets s) \<Longrightarrow>
   wl_user_id w \<noteq> wl_user_id q \<Longrightarrow> wl_id w \<noteq> wl_id q"
  by (auto simp: wallet_inv_def ledger_inv_def keys_ok_def distinct_map dest: inj_onD)

lemma transfer_balance_inv:
  assumes "wallet_inv s" "transfer_balance now sender phone a note s = Inr (t, s')"
  shows "wallet_inv s'"
  using assms
proof (cases rule: transfer_cases)
  case (1 v p ws wr s2 d1 d2)
  let ?s4 = "add_txn t (put_wallet (set_balance now (balance ws - v) ws) s2)"
  have ids: "wl_id wr \<noteq> wl_id ws" using wallet_inv_other_id[OF 1(7) 1(9) 1(8)] 1 by simp
  have "wallet_inv ?s4"
    by (rule post_inv) (use 1 in \<open>simp_all add: fresh_id_notin\<close>)
  moreover have "wr \<in> set (wallets ?s4)" by (rule post_other_wallet[OF 1(9) ids])
  moreover have "wr \<in> set (wallets ?s4) \<Longrightarrow> wallet_inv ?s4 \<Longrightarrow> 0 \<le> balance wr"
    by (rule wallet_inv_balance)
  ultimately show ?thesis unfolding 1(15) Let_def
    by - (rule post_inv, use 1(2) fresh_id_notin[of tx_id "txns s2 @ [t]"] in simp_all)
qed

lemma initiate_refund_inv:
  assumes "wallet_inv s" "initiate_refund now i a reason s = Inr (r, s')"
  shows "wallet_inv s'"
proof -
  have "s' = s \<or> (\<exists>r. s' = s\<lparr>refunds := refunds s @ [r]\<rparr> \<and> 0 < rf_amount r
      \<and> rf_id r = fresh_id rf_id (refunds s))"
    using assms(2)
    by (auto simp: initiate_refund_def Let_def not_le split: sum.splits if_splits option.splits)
  then show ?thesis using assms(1)
    by (auto simp: wallet_inv_def ledger_inv_def keys_ok_def balances_ok_def amounts_ok_def
        payout_inv_def fresh_id_notin)
qed

lemma put_refund_inv:
  "wallet_inv s \<Longrightarrow> 0 < rf_amount r \<Longrightarrow> wallet_inv (put_refund r s)"
  by (auto simp: wallet_inv_def ledger_inv_def keys_ok_def balances_ok_def amounts_ok_def
        payout_inv_def dest!: in_put_row)

lemma process_refund_cases:
  assumes "process_refund now i s = (out, s')"
  obtains (unchanged) "s' = s" "out \<noteq> Inl (HTTPException 404 ''Wallet not found'')"
  | (lost) r where "get_row rf_id i (refunds s) = Some r" "rf_status r = ''pending''"
      "s' = put_refund (r\<lparr>rf_status := ''failed''\<rparr>) s" "\<exists>d. out = Inl (HTTPException 404 d)"
  | (credited) r q w d where "get_row rf_id i (refunds s) = Some r" "rf_status r = ''pending''"
      "get_row tx_id (rf_transaction_id r) (txns s) = Some q"
      "w \<in> set (wallets s)" "tx_wallet_id q = Some (wl_id w)"
      "out = Inr (r\<lparr>rf_status := ''processed'', rf_processed_at := Some now\<rparr>)"
      "s' = put_refund (r\<lparr>rf_status := ''processed'', rf_processed_at := Some now\<rparr>)
         (add_txn (new_txn now (set_balance now (balance w + rf_amount r) w) (rf_amount r) ''credit''
            ''refund'' ''success'' d None (Some ''refund'') (Some (show_int (rf_id r)))
            (put_wallet (set_balance now (balance w + rf_amount r) w) s))
           (put_wallet (set_balance now (balance w + rf_amount r) w) s))"
proof (cases "\<exists>r q w. get_row rf_id i (refunds s) = Some r \<and> rf_status r = ''pending''
    \<and> get_row tx_id (rf_transaction_id r) (txns s) = Some q
    \<and> List.find (\<lambda>w. Some (wl_id w) = tx_wallet_id q) (wallets s) = Some w")
  case True
  then obtain r q w where *: "get_row rf_id i (refunds s) = Some r" "rf_status r = ''pending''"
    "get_row tx_id (rf_transaction_id r) (txns s) = Some q"
    "List.find (\<lambda>w. Some (wl_id w) = tx_wallet_id q) (wallets s) = Some w" by blast
  show ?thesis
    by (rule credited[OF *(1-3)])
      (use assms * find_Some[OF *(4)] in \<open>auto simp: process_refund_def Let_def\<close>)
next
  case False
  show ?thesis
  proof (cases "\<exists>r. get_row rf_id i (refunds s) = Some r \<and> rf_status r = ''pending''")
    case True
    then obtain r where *: "get_row rf_id i (refunds s) = Some r" "rf_status r = ''pending''" by blast
    show ?thesis
      by (rule lost[OF *]) (use assms * False in \<open>auto simp: process_refund_def Let_def split: option.splits\<close>)
  next
    case none: False
    show ?thesis
      by (rule unchanged) (use assms none in \<open>auto simp: process_refund_def split: option.splits if_splits\<close>)
  qed
qed

lemma process_refund_inv:
  assumes "wallet_inv s" "process_refund now i s = (out, s')"
  shows "wallet_inv s'"
proof -
  have pos: "0 < rf_amount r" if "get_row rf_id i (refunds s) = Some r" for r
    using assms(1) get_row_Some[OF that] by (auto simp: wallet_inv_def ledger_inv_def amounts_ok_def)
  show ?thesis using assms(2)
  proof (cases rule: process_refund_cases)
    case unchanged
    then show ?thesis using assms(1) by simp
  next
    case (lost r)
    then show ?thesis using put_refund_inv[OF assms(1)] pos by simp
  next
    case (credited r q w d)
    let ?w = "set_balance now (balance w + rf_amount r) w"
    have "wallet_inv (add_txn (new_txn now ?w (rf_amount r) ''credit'' ''refund'' ''success'' d None
        (Some ''refund'') (Some (show_int (rf_id r))) (put_wallet ?w s)) (put_wallet ?w s))"
      by (rule post_inv)
        (use assms(1) credited pos[OF credited(1)] wallet_inv_balance[OF assms(1), of w]
         in \<open>simp_all add: fresh_id_notin\<close>)
    then show ?thesis unfolding credited(7)
      by (rule put_refund_inv) (use pos[OF credited(1)] in simp)
  qed
qed

section \<open>Gateway events\<close>

lemma handle_payment_captured_inv:
  "wallet_inv s \<Longrightarrow> wallet_inv (snd (handle_payment_captured cfg now p s))"
  by (auto simp: handle_payment_captured_def Let_def
      split: option.splits sum.splits exn.splits intro: apply_recharge_capture_inv)

lemma resolve_refund_member: "resolve_refund g p s = Some r \<Longrightarrow> r \<in> set (refunds s)"
  by (auto simp: resolve_refund_def Let_def split: option.splits dest!: find_Some)

lemma handle_refund_event_shape:
  "resolve_refund (re_id p) (re_payment_id p) s = Some r \<Longrightarrow>
   \<exists>r'. snd (handle_refund_event now e p s) = put_refund r' s \<and> rf_id r' = rf_id r
     \<and> rf_amount r' = rf_amount r \<and> rf_transaction_id r' = rf_transaction_id r"
  by (auto simp: handle_refund_event_def Let_def split: option.splits)

lemma handle_refund_event_inv:
  assumes "wallet_inv s"
  shows "wallet_inv (snd (handle_refund_event now e p s))"
proof (cases "resolve_refund (re_id p) (re_payment_id p) s")
  case None
  then show ?thesis using assms by (simp add: handle_refund_event_def)
next
  case (Some r)
  have "0 < rf_amount r" using resolve_refund_member[OF Some] assms
    by (auto simp: wallet_inv_def ledger_inv_def amounts_ok_def)
  then show ?thesis using handle_refund_event_shape[OF Some, of now e] put_refund_inv[OF assms] by metis
qed

lemma process_event_inv:
  assumes "wallet_inv s"
  shows "wallet_inv (snd (process_event cfg now p s))"
  using handle_payment_captured_inv[OF assms] handle_refund_event_inv[OF assms]
    mark_recharge_intent_failed_inv[OF assms] assms
  by (auto simp: process_event_def Let_def handle_payment_failed_def split: option.splits prod.splits)
    (metis snd_conv)+

section \<open>The service as a state machine\<close>

datatype wallet_request =
    Recharge int "decimal option" string "string option" string "string option" "string option"
  | Pay int "decimal option" string
  | Cashback int "decimal option" string
  | CreateIntent int "decimal option" string string
  | Capture string string "decimal option" "int option"
  | CaptureFailed string "string option"
  | Withdraw int "decimal option" string
  | ApproveWithdrawal int int "string option"
  | RejectWithdrawal int int "string option"
  | Transfer int string "decimal option" "string option"
  | Refund int "decimal option option" string
  | ProcessRefund int
  | GatewayEvent webhook_payload

text \<open>
  One request against the tables: what it commits. A request that raises leaves the tables as
  they were, save for what \<open>process_refund\<close> and the webhook commit before they raise.
\<close>

definition committed :: "('a \<times> wallet_db) res \<Rightarrow> wallet_db \<Rightarrow> wallet_db" where
  "committed out s = (case out of Inl e \<Rightarrow> s | Inr (r, s') \<Rightarrow> s')"

fun serve_wallet :: "outbox_settings \<Rightarrow> datetime \<times> wallet_request \<Rightarrow> wallet_db \<Rightarrow> wallet_db" where
  "serve_wallet cfg (now, Recharge u a d g c rt ri) s = committed (add_balance now u a d g c rt ri s) s"
| "serve_wallet cfg (now, Pay u a d) s = committed (deduct_balance now u a d s) s"
| "serve_wallet cfg (now, Cashback u a d) s = committed (apply_cashback now u a d s) s"
| "serve_wallet cfg (now, CreateIntent u a oid d) s = committed (create_recharge_intent now u a oid d s) s"
| "serve_wallet cfg (now, Capture oid pid a n) s = committed (apply_recharge_capture cfg now oid pid a n s) s"
| "serve_wallet cfg (now, CaptureFailed oid pid) s = snd (mark_recharge_intent_failed now oid pid s)"
| "serve_wallet cfg (now, Withdraw u a b) s = committed (request_withdrawal now u a b s) s"
| "serve_wallet cfg (now, ApproveWithdrawal i by r) s = committed (approve_withdrawal_request now i by r s) s"
| "serve_wallet cfg (now, RejectWithdrawal i by r) s = committed (reject_withdrawal_request now i by r s) s"
| "serve_wallet cfg (now, Transfer u p a n) s = committed (transfer_balance now u p a n s) s"
| "serve_wallet cfg (now, Refund i a r) s = committed (initiate_refund now i a r s) s"
| "serve_wallet cfg (now, ProcessRefund i) s = snd (process_refund now i s)"
| "serve_wallet cfg (now, GatewayEvent p) s = snd (process_event cfg now p s)"

text \<open>Only the withdrawal routines book under the reference type of withdrawals.\<close>

fun well_referenced :: "datetime \<times> wallet_request \<Rightarrow> bool" where
  "well_referenced (now, Recharge u a d g c rt ri) = (rt \<noteq> Some ''withdrawal_request'')"
| "well_referenced (now, _) = True"

lemma committed_inv:
  "wallet_inv s \<Longrightarrow> (\<And>r s'. out = Inr (r, s') \<Longrightarrow> wallet_inv s') \<Longrightarrow> wallet_inv (committed out s)"
  by (auto simp: committed_def split: sum.splits prod.splits)

lemma apply_cashback_inv:
  "wallet_inv s \<Longrightarrow> apply_cashback now u a d s = Inr (w, s') \<Longrightarrow> wallet_inv s'"
  unfolding apply_cashback_def by (rule add_balance_inv) simp_all

lemmas wallet_op_invs = add_balance_inv deduct_balance_inv apply_cashback_inv
  create_recharge_intent_inv apply_recharge_capture_inv request_withdrawal_inv
  approve_withdrawal_request_inv reject_withdrawal_request_inv transfer_balance_inv
  initiate_refund_inv

lemma serve_wallet_inv:
  assumes "wallet_inv s" "well_referenced x"
  shows "wallet_inv (serve_wallet cfg x s)"
proof -
  obtain now q where x: "x = (now, q)" by force
  note m = mark_recharge_intent_failed_inv[OF assms(1)] process_event_inv[OF assms(1)]
    process_refund_inv[OF assms(1) prod.collapse[symmetric]]
  show ?thesis using assms unfolding x
    by (cases q) (simp_all add: m, auto intro!: committed_inv intro: wallet_op_invs)
qed

text \<open>An empty ledger, and any history of requests from it.\<close>

definition opened :: "account list \<Rightarrow> wallet_db" where
  "opened us = \<lparr>wallets = [], txns = [], withdrawals = [], refunds = [], accounts = us,
     mail = \<lparr>notifications = [], outbox = [], user_ids = map u_id us\<rparr>, security_events = [], notices = []\<rparr>"

lemma opened_inv: "wallet_inv (opened us)"
  by (simp add: opened_def wallet_inv_def ledger_inv_def keys_ok_def balances_ok_def amounts_ok_def
      payout_inv_def)

lemma history_inv:
  "wallet_inv s \<Longrightarrow> \<forall>x \<in> set xs. well_referenced x \<Longrightarrow> wallet_inv (fold (serve_wallet cfg) xs s)"
  by (rule fold_invariant[where Q = well_referenced]) (auto intro: serve_wallet_inv)

section \<open>The service refines the bank\<close>

lemma add_balance_refines:
  assumes "wallet_inv s" "add_balance now u a d g c rt ri s = Inr (w, s')"
  shows "\<exists>v. to_money a = Inr v \<and> 0 < v \<and> balances s' = (balances s)(u := balances s u + v)
    \<and> balance w = balances s' u"
proof -
  obtain v w1 s1 where v: "to_money a = Inr v" "0 < v" and g: "get_wallet now u s = (w1, s1)"
    and w: "w = set_balance now (balance w1 + v) w1"
    and s': "\<exists>t. s' = add_txn t (put_wallet w s1)"
    using assms(2) by (auto simp: add_balance_def Let_def split: sum.splits if_splits prod.splits)
  note f = get_wallet_facts[OF assms(1) g] get_wallet_balances[OF assms(1) g]
  show ?thesis using s' f v balances_put_wallet[of s1 w1 now "balance w1 + v"] by (auto simp: w)
qed

lemma deduct_balance_refines:
  assumes "wallet_inv s" "to_money a = Inr v" "0 < v"
  shows "deduct_balance now u a d s = Inl (HTTPException 400 ''Insufficient balance'') \<and> balances s u < v
    \<or> (\<exists>w s'. deduct_balance now u a d s = Inr (w, s') \<and> v \<le> balances s u
         \<and> balances s' = (balances s)(u := balances s u - v) \<and> balance w = balances s' u)"
proof -
  obtain w1 s1 where g: "get_wallet now u s = (w1, s1)" by force
  note f = get_wallet_facts[OF assms(1) g] get_wallet_balances[OF assms(1) g]
  show ?thesis using f assms g balances_put_wallet[of s1 w1 now "balance w1 - v"]
    by (auto simp: deduct_balance_def Let_def)
qed

lemma transfer_refines:
  assumes "wallet_inv s" "transfer_balance now sender phone a note s = Inr (t, s')"
  shows "\<exists>v p. to_money a = Inr v \<and> 0 < v \<and> v \<le> balances s sender
    \<and> p \<in> set (accounts s) \<and> u_phone_number p = Some phone \<and> u_id p \<noteq> sender
    \<and> balances s' = (balances s)(sender := balances s sender - v, u_id p := balances s (u_id p) + v)"
  using assms
proof (cases rule: transfer_cases)
  case (1 v p ws wr s2 d1 d2)
  let ?s4 = "add_txn t (put_wallet (set_balance now (balance ws - v) ws) s2)"
  have ids: "wl_id wr \<noteq> wl_id ws" using wallet_inv_other_id[OF 1(7) 1(9) 1(8)] 1 by simp
  have inv4: "wallet_inv ?s4"
    by (rule post_inv) (use 1 in \<open>simp_all add: fresh_id_notin\<close>)
  have wr4: "wr \<in> set (wallets ?s4)" by (rule post_other_wallet[OF 1(9) ids])
  have "balances s' = (balances ?s4)(u_id p := balance wr + v)"
    using balances_put_wallet[OF inv4 wr4] 1(11) by (simp add: 1(15) Let_def)
  moreover have "balances ?s4 = (balances s)(sender := balance ws - v)"
    using balances_put_wallet[OF 1(7) 1(8)] 1(10,12) by simp
  moreover have "balance ws = balances s sender" "balance wr = balances s (u_id p)"
    using balances_of_wallet[OF 1(7) 1(8)] balances_of_wallet[OF 1(7) 1(9)] 1(10-12) by simp_all
  ultimately show ?thesis using 1(1-6) by auto
qed

lemma capture_refines:
  assumes "wallet_inv s" "apply_recharge_capture cfg now oid pid a noted s = Inr (t, s')"
  shows "s' = s \<or> (\<exists>v w. to_money a = Inr v \<and> 0 < v \<and> w \<in> set (wallets s)
    \<and> tx_wallet_id t = Some (wl_id w) \<and> tx_amount t = v
    \<and> balances s' = (balances s)(wl_user_id w := balances s (wl_user_id w) + v))"
  using assms(2)
proof (cases rule: capture_cases)
  case repeated
  then show ?thesis by simp
next
  case (captured v q w m)
  have "balances s' = (balances s)(wl_user_id w := balances s (wl_user_id w) + v)"
    using balances_put_wallet[OF assms(1) captured(5), of now "balance w + v"]
      balances_of_wallet[OF assms(1) captured(5)] by (simp add: captured(8))
  then show ?thesis using captured by auto
qed

lemma request_withdrawal_refines:
  assumes "wallet_inv s" "request_withdrawal now u a bank s = Inr (r, s')"
  shows "to_money a = Inr (wr_amount r) \<and> 0 < wr_amount r \<and> wr_amount r \<le> balances s u
    \<and> wr_status r = ''requested'' \<and> r \<in> set (withdrawals s')
    \<and> (\<exists>w \<in> set (wallets s'). wl_user_id w = u \<and> wr_wallet_id r = wl_id w)
    \<and> balances s' = (balances s)(u := balances s u - wr_amount r)"
  using assms(2)
proof (cases rule: request_withdrawal_cases)
  case (1 v w s1)
  note f = get_wallet_facts[OF assms(1) 1(4)] get_wallet_balances[OF assms(1) 1(4)]
  have r: "wr_amount r = v" "wr_status r = ''requested''" "wr_wallet_id r = wl_id w"
    using 1(5) by simp_all
  let ?w = "set_balance now (balance w - v) w"
  have "balances (put_wallet ?w (s1\<lparr>withdrawals := withdrawals s1 @ [r]\<rparr>))
      = balances (put_wallet ?w s1)" by (rule balances_tables) simp
  then have "balances s' = (balances s)(u := balances s u - v)"
    using balances_put_wallet[of s1 w now "balance w - v"] f by (simp add: 1(6))
  moreover have "?w \<in> set (wallets s')" "r \<in> set (withdrawals s')"
    using f by (auto simp: 1(6) put_row_def image_iff)
  ultimately show ?thesis using 1(1-3) f r by (auto intro!: bexI[of _ ?w])
qed

lemma reject_refines:
  assumes "wallet_inv s" "reject_withdrawal_request now i approver reason s = Inr (r', s')"
  shows "\<exists>w \<in> set (wallets s). wl_id w = wr_wallet_id r'
    \<and> balances s' = (balances s)(wl_user_id w := balances s (wl_user_id w) + wr_amount r')
    \<and> get_row wr_id i (withdrawals s') = Some r' \<and> wr_status r' = ''rejected''"
  using assms(2)
proof (cases rule: reject_cases)
  case (1 r w s3 d)
  have b3: "balances s3 = (balances s)(wl_user_id w := balances s (wl_user_id w) + wr_amount r)"
    using balances_put_wallet[OF assms(1) 1(3)] balances_of_wallet[OF assms(1) 1(3)]
    by (simp add: 1(6))
  have "withdrawals s3 = withdrawals s" by (simp add: 1(6))
  then have "balances s' = balances s3 \<and> withdrawals s' = put_row wr_id r' (withdrawals s)"
    using 1(7) by auto
  then show ?thesis using b3 1(3-5) 1(1) get_row_Some[OF 1(1)]
    by (auto simp: get_put intro!: bexI[of _ w])
qed

lemma approve_refines:
  assumes "approve_withdrawal_request now i approver ref s = Inr (r', s')"
  shows "balances s' = balances s \<and> get_row wr_id i (withdrawals s') = Some r'
    \<and> wr_status r' = ''processed''"
  using assms
proof (cases rule: approve_cases)
  case (1 r s2)
  then have "balances s2 = balances s \<and> withdrawals s2 = put_row wr_id r' (withdrawals s)" by auto
  then have "balances s' = balances s \<and> withdrawals s' = put_row wr_id r' (withdrawals s)"
    using 1(5) by auto
  then show ?thesis using 1(1,3) get_row_Some[OF 1(1)] by (auto simp: get_put)
qed

lemma process_refund_refines:
  assumes "wallet_inv s" "process_refund now i s = (Inr r', s')" "s' \<noteq> s"
  shows "\<exists>w q. w \<in> set (wallets s) \<and> get_row tx_id (rf_transaction_id r') (txns s) = Some q
    \<and> tx_wallet_id q = Some (wl_id w)
    \<and> balances s' = (balances s)(wl_user_id w := balances s (wl_user_id w) + rf_amount r')
    \<and> get_row rf_id i (refunds s') = Some r' \<and> rf_status r' = ''processed''"
  using assms(2)
proof (cases rule: process_refund_cases)
  case unchanged
  then show ?thesis using assms(3) by simp
next
  case (lost r)
  then show ?thesis by simp
next
  case (credited r q w d)
  have "balances s' = (balances s)(wl_user_id w := balances s (wl_user_id w) + rf_amount r)"
    using balances_put_wallet[OF assms(1) credited(4), of now] balances_of_wallet[OF assms(1) credited(4)]
    by (simp add: credited(7))
  moreover have "get_row rf_id i (refunds s') = Some r'"
    using credited(1,6,7) get_row_Some[OF credited(1)] by (simp add: get_put)
  ultimately show ?thesis using credited by auto
qed

section \<open>Money is conserved by transfers\<close>

locale conserving_step = preserving_step step inv
  for step :: "'x \<Rightarrow> 's \<Rightarrow> 's res" and inv :: "'s \<Rightarrow> bool" +
  fixes total :: "'s \<Rightarrow> int"
  assumes step_total: "inv s \<Longrightarrow> step x s = Inr s' \<Longrightarrow> total s' = total s"
begin

lemma fold_total: "inv s \<Longrightarrow> fold_res step xs s = Inr s' \<Longrightarrow> total s' = total s"
proof (induction xs arbitrary: s)
  case Nil
  then show ?case by simp
next
  case (Cons x xs)
  from Cons.prems(2) obtain s1 where s1: "step x s = Inr s1" "fold_res step xs s1 = Inr s'"
    by (auto split: sum.splits)
  with Cons.IH[OF step_preserves[OF Cons.prems(1) s1(1)]] step_total[OF Cons.prems(1) s1(1)]
  show ?case by simp
qed

end

definition transfer_step ::
    "datetime \<times> int \<times> string \<times> decimal option \<times> string option \<Rightarrow> wallet_db \<Rightarrow> wallet_db res" where
  "transfer_step x s =
     (case x of (now, sender, phone, a, note) \<Rightarrow>
        (case transfer_balance now sender phone a note s of
           Inl e \<Rightarrow> Inl e | Inr (t, s') \<Rightarrow> Inr s'))"

lemma transfer_total:
  assumes "wallet_inv s" "transfer_balance now sender phone a note s = Inr (t, s')"
  shows "total_balance s' = total_balance s"
  using assms
proof (cases rule: transfer_cases)
  case (1 v p ws wr s2 d1 d2)
  let ?s4 = "add_txn t (put_wallet (set_balance now (balance ws - v) ws) s2)"
  have ids: "wl_id wr \<noteq> wl_id ws" using wallet_inv_other_id[OF 1(7) 1(9) 1(8)] 1 by simp
  have inv4: "wallet_inv ?s4"
    by (rule post_inv) (use 1 in \<open>simp_all add: fresh_id_notin\<close>)
  have wr4: "wr \<in> set (wallets ?s4)" by (rule post_other_wallet[OF 1(9) ids])
  have "total_balance s' = total_balance ?s4 + v"
    using total_put_wallet[OF inv4 wr4] by (simp add: 1(15) Let_def)
  also have "\<dots> = total_balance s2" using total_put_wallet[OF 1(7) 1(8)] by simp
  finally show ?thesis using 1(13) by simp
qed

interpretation transfers: conserving_step transfer_step wallet_inv total_balance
  by unfold_locales (auto simp: transfer_step_def intro: transfer_balance_inv transfer_total
      split: sum.splits prod.splits)

section \<open>Settled rows\<close>

text \<open>
  Once captured, a recharge row never changes again, and once paid out or rejected, neither
  does a withdrawal request: no later request, retry or gateway event touches it.
\<close>

definition captured_row :: "txn \<Rightarrow> bool" where
  "captured_row t \<longleftrightarrow> tx_reference_type t = Some ''wallet_recharge'' \<and> tx_status t = ''success''"

definition keeps_settled :: "wallet_db \<Rightarrow> wallet_db \<Rightarrow> bool" where
  "keeps_settled s s' \<longleftrightarrow>
     (\<forall>t \<in> set (txns s). captured_row t \<longrightarrow> t \<in> set (txns s'))
     \<and> (\<forall>r \<in> set (withdrawals s). wr_status r \<noteq> ''requested'' \<longrightarrow> r \<in> set (withdrawals s'))"

lemma keeps_settled_refl [simp]: "keeps_settled s s"
  by (simp add: keeps_settled_def)

lemma keeps_settled_trans:
  "keeps_settled s s1 \<Longrightarrow> keeps_settled s1 s2 \<Longrightarrow> keeps_settled s s2"
  by (simp add: keeps_settled_def)

lemma keeps_settled_append:
  "(\<exists>ts. txns s' = txns s @ ts) \<Longrightarrow> (\<exists>ws. withdrawals s' = withdrawals s @ ws) \<Longrightarrow> keeps_settled s s'"
  by (auto simp: keeps_settled_def)

lemma in_put_row_other: "q \<in> set t \<Longrightarrow> key r \<noteq> key q \<Longrightarrow> q \<in> set (put_row key r t)"
  by (auto simp: put_row_def image_iff)

lemma distinct_key: "distinct (map key t) \<Longrightarrow> q \<in> set t \<Longrightarrow> r \<in> set t \<Longrightarrow> key q = key r \<Longrightarrow> q = r"
  by (auto simp: distinct_map dest: inj_onD)

lemma keeps_settled_put_txn:
  assumes "wallet_inv s" "q \<in> set (txns s)" "\<not> captured_row q" "tx_id t = tx_id q"
  shows "keeps_settled s (put_txn t s)"
proof -
  have "tx_id t \<noteq> tx_id r" if "r \<in> set (txns s)" "captured_row r" for r
    using assms that distinct_key[of tx_id "txns s" r q]
    by (auto simp: wallet_inv_def ledger_inv_def keys_ok_def)
  then show ?thesis by (auto simp: keeps_settled_def intro: in_put_row_other)
qed

lemma keeps_settled_put_withdrawal:
  assumes "wallet_inv s" "q \<in> set (withdrawals s)" "wr_status q = ''requested''" "wr_id r = wr_id q"
  shows "keeps_settled s (put_withdrawal r s)"
proof -
  have "wr_id r \<noteq> wr_id p" if "p \<in> set (withdrawals s)" "wr_status p \<noteq> ''requested''" for p
    using assms that distinct_key[of wr_id "withdrawals s" p q]
    by (auto simp: wallet_inv_def ledger_inv_def keys_ok_def)
  then show ?thesis by (auto simp: keeps_settled_def intro: in_put_row_other)
qed

lemma keeps_settled_tables:
  "txns s' = txns s1 \<Longrightarrow> withdrawals s' = withdrawals s1 \<Longrightarrow> keeps_settled s s' = keeps_settled s s1"
  by (simp add: keeps_settled_def)

lemma get_wallet_rows:
  "get_wallet now u s = (w, s1) \<Longrightarrow> txns s1 = txns s \<and> withdrawals s1 = withdrawals s"
  by (auto simp: get_wallet_def Let_def split: option.splits)

lemma appending_ops:
  "add_balance now u a d g c rt ri s = Inr (w, s') \<Longrightarrow> keeps_settled s s'"
  "deduct_balance now u a d s = Inr (w, s') \<Longrightarrow> keeps_settled s s'"
  "request_withdrawal now u a b s = Inr (r, s') \<Longrightarrow> keeps_settled s s'"
  "initiate_refund now i ao d s = Inr (f, s') \<Longrightarrow> keeps_settled s s'"
  "create_recharge_intent now u a oid d s = Inr (t, s') \<Longrightarrow> keeps_settled s s'"
  by (auto simp: add_balance_def deduct_balance_def request_withdrawal_def initiate_refund_def
      create_recharge_intent_def Let_def intro!: keeps_settled_append
      split: sum.splits if_splits prod.splits option.splits dest!: get_wallet_rows)

lemma apply_cashback_settled: "apply_cashback now u a d s = Inr (w, s') \<Longrightarrow> keeps_settled s s'"
  unfolding apply_cashback_def by (rule appending_ops)

lemma transfer_settled:
  "transfer_balance now u p a n s = Inr (t, s') \<Longrightarrow> keeps_settled s s'"
  by (auto simp: transfer_balance_def Let_def intro!: keeps_settled_append
      split: sum.splits if_splits prod.splits option.splits dest!: get_wallet_rows)

lemma process_refund_settled:
  assumes "process_refund now i s = (out, s')"
  shows "keeps_settled s s'"
  using assms by (cases rule: process_refund_cases) (auto intro!: keeps_settled_append)

lemma capture_settled:
  assumes "wallet_inv s" "apply_recharge_capture cfg now oid pid a noted s = Inr (t, s')"
  shows "keeps_settled s s'"
  using assms(2)
proof (cases rule: capture_cases)
  case repeated
  then show ?thesis by simp
next
  case (captured v q w m)
  have "keeps_settled s (put_txn t s)"
    by (rule keeps_settled_put_txn[OF assms(1), of q])
      (use captured find_Some[OF captured(3)] in \<open>auto simp: captured_row_def\<close>)
  then show ?thesis
    by (rule iffD1[OF keeps_settled_tables, rotated -1]) (simp_all add: captured(8))
qed

lemma mark_failed_settled:
  assumes "wallet_inv s"
  shows "keeps_settled s (snd (mark_recharge_intent_failed now oid pid s))"
proof (cases "\<exists>q. List.find (recharge_intent oid) (txns s) = Some q \<and> tx_status q \<noteq> ''success''")
  case True
  then obtain q where q: "List.find (recharge_intent oid) (txns s) = Some q" "tx_status q \<noteq> ''success''"
    by blast
  let ?t = "q\<lparr>tx_status := ''failed'', tx_payment_id := (case truthy_str pid of
        None \<Rightarrow> tx_payment_id q | Some p \<Rightarrow> Some p)\<rparr>"
  have "keeps_settled s (put_txn ?t s)"
    by (rule keeps_settled_put_txn[OF assms, of q])
      (use q find_Some[OF q(1)] in \<open>auto simp: captured_row_def\<close>)
  moreover have "txns (snd (mark_recharge_intent_failed now oid pid s)) = txns (put_txn ?t s)
      \<and> withdrawals (snd (mark_recharge_intent_failed now oid pid s)) = withdrawals (put_txn ?t s)"
    using q by (simp add: mark_recharge_intent_failed_def Let_def split: option.splits)
  ultimately show ?thesis by (simp add: keeps_settled_def)
next
  case False
  then have "snd (mark_recharge_intent_failed now oid pid s) = s"
    by (auto simp: mark_recharge_intent_failed_def split: option.splits)
  then show ?thesis by simp
qed

lemma withdrawal_txn_uncaptured: "withdrawal_txn i t \<Longrightarrow> \<not> captured_row t"
  by (simp add: withdrawal_txn_def captured_row_def)

lemma approve_settled:
  assumes "wallet_inv s" "approve_withdrawal_request now i approver ref s = Inr (r', s')"
  shows "keeps_settled s s'"
  using assms(2)
proof (cases rule: approve_cases)
  case (1 r s2)
  have w: "keeps_settled s (put_withdrawal r' s)"
    by (rule keeps_settled_put_withdrawal[OF assms(1), of r])
      (use 1 get_row_Some[OF 1(1)] in auto)
  have "keeps_settled s s2" using 1(4)
  proof
    assume "s2 = put_withdrawal r' s"
    then show ?thesis using w by simp
  next
    assume "\<exists>t d. t \<in> set (txns s) \<and> withdrawal_txn (wr_id r) t
        \<and> s2 = put_txn (t\<lparr>tx_status := ''success'', tx_description := d\<rparr>) (put_withdrawal r' s)"
    then obtain t d where t: "t \<in> set (txns s)" "withdrawal_txn (wr_id r) t"
      "s2 = put_txn (t\<lparr>tx_status := ''success'', tx_description := d\<rparr>) (put_withdrawal r' s)" by blast
    have "keeps_settled s (put_txn (t\<lparr>tx_status := ''success'', tx_description := d\<rparr>) s)"
      by (rule keeps_settled_put_txn[OF assms(1) t(1) withdrawal_txn_uncaptured[OF t(2)]]) simp
    then show ?thesis using w by (simp add: t(3) keeps_settled_def)
  qed
  moreover have "txns s' = txns s2 \<and> withdrawals s' = withdrawals s2" using 1(5) by auto
  ultimately show ?thesis by (simp add: keeps_settled_def)
qed

lemma reject_settled:
  assumes "wallet_inv s" "reject_withdrawal_request now i approver reason s = Inr (r', s')"
  shows "keeps_settled s s'"
  using assms(2)
proof (cases rule: reject_cases)
  case (1 r w s3 d)
  have w: "keeps_settled s (put_withdrawal r' s)"
    by (rule keeps_settled_put_withdrawal[OF assms(1), of r])
      (use 1 get_row_Some[OF 1(1)] in auto)
  obtain s4 where s': "s' = log_event ''withdrawal_rejected'' approver
              (notify ''withdrawal_rejected'' (wl_user_id w) (put_withdrawal r' s4))"
    and s4: "s4 = s3 \<or> (\<exists>t e. t \<in> set (txns s) \<and> withdrawal_txn (wr_id r) t
             \<and> s4 = put_txn (t\<lparr>tx_status := ''failed'', tx_description := e\<rparr>) s3)"
    using 1(7) by blast
  have stay: "t \<in> set (txns s4)" if t: "t \<in> set (txns s)" "captured_row t" for t
    using s4
  proof
    assume "s4 = s3"
    then show ?thesis using t by (simp add: 1(6))
  next
    assume "\<exists>q e. q \<in> set (txns s) \<and> withdrawal_txn (wr_id r) q
             \<and> s4 = put_txn (q\<lparr>tx_status := ''failed'', tx_description := e\<rparr>) s3"
    then obtain q e where q: "q \<in> set (txns s)" "withdrawal_txn (wr_id r) q"
      "s4 = put_txn (q\<lparr>tx_status := ''failed'', tx_description := e\<rparr>) s3" by blast
    have "tx_id q \<noteq> tx_id t"
      using distinct_key[of tx_id "txns s" q t] assms(1) q t withdrawal_txn_uncaptured
      by (auto simp: wallet_inv_def ledger_inv_def keys_ok_def)
    then show ?thesis using t by (auto simp: q(3) 1(6) intro: in_put_row_other)
  qed
  have "withdrawals s4 = withdrawals s" using s4 by (auto simp: 1(6))
  then show ?thesis using stay w by (simp add: s' keeps_settled_def)
qed

lemma gateway_settled:
  assumes "wallet_inv s"
  shows "keeps_settled s (snd (process_event cfg now p s))"
proof -
  have "keeps_settled s (snd (handle_payment_captured cfg now pe s))" for pe
    using capture_settled[OF assms]
    by (auto simp: handle_payment_captured_def Let_def split: option.splits sum.splits exn.splits)
  moreover have "keeps_settled s (snd (handle_payment_failed now pe s))" for pe
    using mark_failed_settled[OF assms] by (auto simp: handle_payment_failed_def split: option.splits)
  moreover have "keeps_settled s (snd (handle_refund_event now e re s))" for e re
    by (auto simp: handle_refund_event_def Let_def intro!: keeps_settled_append split: option.splits)
  ultimately show ?thesis
    by (auto simp: process_event_def Let_def split: prod.splits) (metis snd_conv)+
qed

lemma committed_settled:
  "(\<And>r s'. out = Inr (r, s') \<Longrightarrow> keeps_settled s s') \<Longrightarrow> keeps_settled s (committed out s)"
  by (auto simp: committed_def split: sum.splits prod.splits)

lemma serve_wallet_settled:
  assumes "wallet_inv s"
  shows "keeps_settled s (serve_wallet cfg x s)"
proof -
  obtain now q where x: "x = (now, q)" by force
  note m = mark_failed_settled[OF assms] gateway_settled[OF assms]
    process_refund_settled[OF prod.collapse[symmetric]]
  show ?thesis using assms unfolding x
    by (cases q) (simp_all add: m, auto intro!: committed_settled intro: appending_ops
      apply_cashback_settled transfer_settled capture_settled approve_settled reject_settled)
qed

lemma history_settled:
  assumes "wallet_inv s" "\<forall>x \<in> set xs. well_referenced x"
  shows "keeps_settled s (fold (serve_wallet cfg) xs s)"
  using assms
proof (induction xs arbitrary: s)
  case Nil
  then show ?case by simp
next
  case (Cons x xs)
  have "keeps_settled (serve_wallet cfg x s) (fold (serve_wallet cfg) xs (serve_wallet cfg x s))"
    by (rule Cons.IH) (use Cons.prems serve_wallet_inv in auto)
  then show ?case using keeps_settled_trans[OF serve_wallet_settled[OF Cons.prems(1)]] by simp
qed

section \<open>Running the service\<close>

text \<open>Two amounts, and the definitions a concrete run unfolds.\<close>

lemma five_rupees: "to_money (Some (Finite 5)) = Inr 500" "to_money (Some (Finite 2)) = Inr 200"
  by (simp_all add: to_money_def round_half_even_def fits28_def)

lemmas wallet_eval = opened_def committed_def add_balance_def get_wallet_def request_withdrawal_def
  reject_withdrawal_request_def approve_withdrawal_request_def deduct_balance_def
  transfer_balance_def put_wallet_def set_balance_def add_txn_def Let_def new_txn_def
  log_event_def notify_def create_recharge_intent_def apply_recharge_capture_def
  recharge_intent_def withdrawal_txn_def put_txn_def put_withdrawal_def initiate_refund_def
  process_refund_def put_refund_def five_rupees

lemma find_put_row:
  assumes "List.find P t = Some q" "key r = key q" "P r" "distinct (map key t)"
  shows "List.find P (put_row key r t) = Some r"
  using assms
proof (induction t)
  case Nil
  then show ?case by simp
next
  case (Cons x t)
  show ?case
  proof (cases "P x")
    case True
    then show ?thesis using Cons.prems by simp
  next
    case False
    then have q: "List.find P t = Some q" using Cons.prems by simp
    then have "key x \<noteq> key r" using Cons.prems find_Some[OF q] by auto
    then show ?thesis using Cons q False by simp
  qed
qed

section \<open>Properties\<close>

text \<open>
  C1: After any history of wallet requests and gateway events from an empty
  ledger, every balance is the sum of the movements recorded for the wallet and is not
  negative, and every withdrawal request has cost its amount, or nothing once rejected.
\<close>

theorem wallet_ledger_history:
  assumes "\<forall>x \<in> set xs. well_referenced x"
  shows "(\<forall>w \<in> set (wallets (fold (serve_wallet cfg) xs (opened us))).
            balance w = ledger_sum (wl_id w) (txns (fold (serve_wallet cfg) xs (opened us))) \<and> 0 \<le> balance w)
    \<and> (\<forall>r \<in> set (withdrawals (fold (serve_wallet cfg) xs (opened us))).
            withdrawal_net (wr_id r) (txns (fold (serve_wallet cfg) xs (opened us))) = withdrawal_cost r)"
  using history_inv[OF opened_inv assms, of cfg us]
  unfolding wallet_inv_def ledger_inv_def balances_ok_def payout_inv_def by blast

text \<open>Five rupees in, two requested: three left, and the request has cost two.\<close>

lemma wallet_ledger_history_witness:
  "\<exists>s w r. s = fold (serve_wallet sample_cfg)
      [(0, Recharge 1 (Some (Finite 5)) ''topup'' None ''deposit'' None None),
       (1, Withdraw 1 (Some (Finite 2)) ''bank'')] (opened [])
   \<and> wallets s = [w] \<and> withdrawals s = [r] \<and> balance w = 300
   \<and> balance w = ledger_sum (wl_id w) (txns s) \<and> withdrawal_net (wr_id r) (txns s) = - 200"
  using wallet_ledger_history[of "[(0, Recharge 1 (Some (Finite 5)) ''topup'' None ''deposit'' None None),
       (1, Withdraw 1 (Some (Finite 2)) ''bank'')]" sample_cfg "[]"]
  by (simp add: wallet_eval withdrawal_cost_def)

text \<open>
  C4: A gateway order credits its wallet once: when the webhook for a captured
  order is delivered again, with whatever payment id and amount, it answers with the same row
  and changes nothing.
\<close>

theorem recharge_captured_once:
  assumes "wallet_inv s" "apply_recharge_capture cfg now oid pid a noted s = Inr (t, s')"
    and "apply_recharge_capture cfg' now' oid pid' a' noted' s' = Inr (t', s'')"
  shows "s'' = s' \<and> t' = t"
proof -
  have found: "List.find (recharge_intent oid) (txns s') = Some t \<and> tx_status t = ''success''"
    using assms(2)
  proof (cases rule: capture_cases)
    case repeated
    then show ?thesis by simp
  next
    case (captured v q w m)
    have "List.find (recharge_intent oid) (put_row tx_id t (txns s)) = Some t"
      by (rule find_put_row[OF captured(3)])
        (use captured find_Some[OF captured(3)] assms(1) in
          \<open>auto simp: recharge_intent_def wallet_inv_def ledger_inv_def keys_ok_def\<close>)
    then show ?thesis using captured by simp
  qed
  show ?thesis using assms(3) found by (cases rule: capture_cases) auto
qed

lemma recharge_captured_once_witness:
  "\<exists>s t s' t' s''. wallet_inv s \<and> apply_recharge_capture sample_cfg 1 ''o'' ''p'' (Some (Finite 5)) None s = Inr (t, s')
     \<and> apply_recharge_capture sample_cfg 2 ''o'' ''q'' (Some (Finite 2)) None s' = Inr (t', s'')
     \<and> s' \<noteq> s \<and> s'' = s' \<and> t' = t"
proof -
  define s where "s = serve_wallet sample_cfg (0, CreateIntent 1 (Some (Finite 5)) ''o'' ''d'') (opened [])"
  have inv: "wallet_inv s" unfolding s_def by (rule serve_wallet_inv[OF opened_inv]) simp
  obtain t s' where 1: "apply_recharge_capture sample_cfg 1 ''o'' ''p'' (Some (Finite 5)) None s = Inr (t, s')"
    "map balance (wallets s') = [500]" "map balance (wallets s) = [0]"
    by (simp add: s_def wallet_eval)
  obtain t' s'' where 2: "apply_recharge_capture sample_cfg 2 ''o'' ''q'' (Some (Finite 2)) None s' = Inr (t', s'')"
    using 1(1) by (simp add: s_def wallet_eval) (auto simp: wallet_eval)
  show ?thesis using recharge_captured_once[OF inv 1(1) 2] inv 1 2 by force
qed

text \<open>
  A captured recharge row and a withdrawal request that was paid out or rejected
  are final: no history of later requests and gateway events changes them.
\<close>

lemma settled_rows_stay:
  assumes "wallet_inv s" "\<forall>x \<in> set xs. well_referenced x"
    and "t \<in> set (txns s)" "tx_reference_type t = Some ''wallet_recharge''" "tx_status t = ''success''"
    and "r \<in> set (withdrawals s)" "wr_status r \<noteq> ''requested''"
  shows "t \<in> set (txns (fold (serve_wallet cfg) xs s))
    \<and> r \<in> set (withdrawals (fold (serve_wallet cfg) xs s))"
  using history_settled[OF assms(1,2)] assms(3-) by (simp add: keeps_settled_def captured_row_def)

lemma settled_rows_stay_witness:
  "\<exists>s t r. t \<in> set (txns s) \<and> r \<in> set (withdrawals s) \<and> wr_status r = ''processed''
     \<and> t \<in> set (txns (fold (serve_wallet sample_cfg) [(5, RejectWithdrawal 1 9 None),
           (6, Capture ''o'' ''q'' (Some (Finite 2)) None)] s))
     \<and> r \<in> set (withdrawals (fold (serve_wallet sample_cfg) [(5, RejectWithdrawal 1 9 None),
           (6, Capture ''o'' ''q'' (Some (Finite 2)) None)] s))"
proof -
  define s where "s = fold (serve_wallet sample_cfg) [(0, CreateIntent 1 (Some (Finite 5)) ''o'' ''d''),
    (1, Capture ''o'' ''p'' (Some (Finite 5)) None), (2, Withdraw 1 (Some (Finite 2)) ''bank''),
    (3, ApproveWithdrawal 1 9 None)] (opened [])"
  have inv: "wallet_inv s" unfolding s_def by (rule history_inv[OF opened_inv]) simp
  obtain t t2 r where rows: "txns s = [t, t2]" "withdrawals s = [r]" "wr_status r = ''processed''"
    "tx_reference_type t = Some ''wallet_recharge''" "tx_status t = ''success''"
    by (simp add: s_def wallet_eval truthy_str_def)
  show ?thesis
    using settled_rows_stay[of s "[(5, RejectWithdrawal 1 9 None),
           (6, Capture ''o'' ''q'' (Some (Finite 2)) None)]" t r sample_cfg] inv rows
    by (intro exI[of _ s] exI[of _ t] exI[of _ r]) simp
qed

text \<open>
  A transfer moves exactly the quantized amount from the sender to the owner of
  the phone number, who is another user; it needs the balance, touches no other user, and
  leaves the total unchanged.
\<close>

lemma transfer_moves_amount:
  assumes "wallet_inv s" "transfer_balance now sender phone a note s = Inr (t, s')"
  shows "(\<exists>v p. to_money a = Inr v \<and> 0 < v \<and> v \<le> balances s sender
      \<and> p \<in> set (accounts s) \<and> u_phone_number p = Some phone \<and> u_id p \<noteq> sender
      \<and> balances s' = (balances s)(sender := balances s sender - v, u_id p := balances s (u_id p) + v))
    \<and> total_balance s' = total_balance s"
  using transfer_refines[OF assms] transfer_total[OF assms] by blast

lemma transfer_moves_amount_witness:
  "\<exists>s t s'. wallet_inv s \<and> transfer_balance 1 1 ''99'' (Some (Finite 2)) None s = Inr (t, s')
     \<and> total_balance s' = total_balance s \<and> balances s' 1 = 300 \<and> balances s' 2 = 200"
proof -
  define s where "s = serve_wallet sample_cfg (0, Recharge 1 (Some (Finite 5)) ''topup'' None ''deposit'' None None)
    (opened [\<lparr>u_id = 2, u_phone_number = Some ''99''\<rparr>])"
  have inv: "wallet_inv s" unfolding s_def by (rule serve_wallet_inv[OF opened_inv]) simp
  obtain t s' where run: "transfer_balance 1 1 ''99'' (Some (Finite 2)) None s = Inr (t, s')"
    "balances s' 1 = 300" "balances s' 2 = 200"
    by (simp add: s_def wallet_eval truthy_str_def balances_def)
  show ?thesis using transfer_moves_amount[OF inv run(1)] inv run by blast
qed

text \<open>
  A run of transfers that all succeed leaves the total of all balances
  unchanged, and the ledger consistent.
\<close>

lemma transfers_conserve_money:
  assumes "wallet_inv s" "fold_res transfer_step xs s = Inr s'"
  shows "total_balance s' = total_balance s \<and> wallet_inv s'"
  using transfers.fold_total[OF assms] transfers.fold_preserves[OF assms] by blast

lemma transfers_conserve_money_witness:
  "\<exists>s s'. fold_res transfer_step [(1, 1, ''99'', Some (Finite 2), None), (2, 2, ''11'', Some (Finite 2), None)] s = Inr s'
     \<and> length (txns s') = 5 \<and> total_balance s' = total_balance s \<and> wallet_inv s'"
proof -
  define s where "s = serve_wallet sample_cfg (0, Recharge 1 (Some (Finite 5)) ''topup'' None ''deposit'' None None)
    (opened [\<lparr>u_id = 2, u_phone_number = Some ''99''\<rparr>, \<lparr>u_id = 1, u_phone_number = Some ''11''\<rparr>])"
  have inv: "wallet_inv s" unfolding s_def by (rule serve_wallet_inv[OF opened_inv]) simp
  obtain s' where run: "fold_res transfer_step
      [(1, 1, ''99'', Some (Finite 2), None), (2, 2, ''11'', Some (Finite 2), None)] s = Inr s'"
    "length (txns s') = 5"
    by (simp add: s_def wallet_eval truthy_str_def transfer_step_def)
  show ?thesis using transfers_conserve_money[OF inv run(1)] run by blast
qed

text \<open>
  A payment of a positive amount is refused as insufficient exactly when the
  user's balance is smaller, and otherwise takes exactly that amount from that user.
\<close>

lemma payment_needs_balance:
  assumes "wallet_inv s" "to_money a = Inr v" "0 < v"
  shows "deduct_balance now u a d s = Inl (HTTPException 400 ''Insufficient balance'') \<and> balances s u < v
    \<or> (\<exists>w s'. deduct_balance now u a d s = Inr (w, s') \<and> v \<le> balances s u
         \<and> balances s' = (balances s)(u := balances s u - v) \<and> balance w = balances s' u)"
  by (rule deduct_balance_refines[OF assms])

lemma payment_needs_balance_witness:
  "deduct_balance 1 1 (Some (Finite 5)) ''ride'' (opened [])
     = Inl (HTTPException 400 ''Insufficient balance'')"
  using payment_needs_balance[OF opened_inv five_rupees(1), of 1 1 "''ride''" "[]"]
  by (auto simp: balances_def opened_def)

text \<open>
  A withdrawal request that is rejected leaves every balance as it was
  before the request.
\<close>

lemma rejected_withdrawal_restores:
  assumes "wallet_inv s" "request_withdrawal now u a bank s = Inr (r, s1)"
    and "reject_withdrawal_request now' (wr_id r) approver reason s1 = Inr (r', s2)"
  shows "balances s2 = balances s"
proof -
  have inv1: "wallet_inv s1" by (rule request_withdrawal_inv[OF assms(1,2)])
  note req = request_withdrawal_refines[OF assms(1,2)]
  then obtain w1 where w1: "w1 \<in> set (wallets s1)" "wl_user_id w1 = u" "wr_wallet_id r = wl_id w1" by blast
  have row: "get_row wr_id (wr_id r) (withdrawals s1) = Some r"
    using wallet_inv_withdrawal[OF inv1] req by blast
  have same: "wr_amount r' = wr_amount r \<and> wr_wallet_id r' = wr_wallet_id r"
    using assms(3) row by (cases rule: reject_cases) simp
  obtain w where w: "w \<in> set (wallets s1)" "wl_id w = wr_wallet_id r'"
    "balances s2 = (balances s1)(wl_user_id w := balances s1 (wl_user_id w) + wr_amount r')"
    using reject_refines[OF inv1 assms(3)] by blast
  have "w = w1" using distinct_key[of wl_id "wallets s1" w w1] inv1 w1 w same
    by (simp add: wallet_inv_def ledger_inv_def keys_ok_def)
  then show ?thesis using req w w1 same by auto
qed

lemma rejected_withdrawal_restores_witness:
  "\<exists>s r s1 r' s2. wallet_inv s \<and> request_withdrawal 1 1 (Some (Finite 2)) ''bank'' s = Inr (r, s1)
     \<and> reject_withdrawal_request 2 (wr_id r) 9 None s1 = Inr (r', s2)
     \<and> balances s1 1 = 300 \<and> balances s2 = balances s"
proof -
  define s where "s = serve_wallet sample_cfg (0, Recharge 1 (Some (Finite 5)) ''topup'' None ''deposit'' None None)
    (opened [])"
  have inv: "wallet_inv s" unfolding s_def by (rule serve_wallet_inv[OF opened_inv]) simp
  obtain r s1 r' s2 where run: "request_withdrawal 1 1 (Some (Finite 2)) ''bank'' s = Inr (r, s1)"
    "reject_withdrawal_request 2 (wr_id r) 9 None s1 = Inr (r', s2)" "balances s1 1 = 300"
    by (simp add: s_def wallet_eval truthy_str_def balances_def)
  show ?thesis using rejected_withdrawal_restores[OF inv run(1,2)] inv run by blast
qed

text \<open>
  Processing a refund credits its amount to the wallet of the refunded
  transaction, and processing the same refund again answers with it and changes nothing.
\<close>

lemma refund_credited_once:
  assumes "wallet_inv s" "process_refund now i s = (Inr r, s')" "s' \<noteq> s"
  shows "(\<exists>w \<in> set (wallets s). balances s' = (balances s)(wl_user_id w := balances s (wl_user_id w) + rf_amount r))
    \<and> process_refund now' i s' = (Inr r, s')"
  using process_refund_refines[OF assms] by (auto simp: process_refund_def)

lemma refund_credited_once_witness:
  "\<exists>s r s'. wallet_inv s \<and> process_refund 3 1 s = (Inr r, s') \<and> balances s 1 = 500
     \<and> balances s' 1 = 1000 \<and> process_refund 4 1 s' = (Inr r, s')"
proof -
  define s where "s = fold (serve_wallet sample_cfg)
    [(0, Recharge 1 (Some (Finite 5)) ''topup'' None ''deposit'' None None), (1, Refund 1 None ''x'')] (opened [])"
  have inv: "wallet_inv s" unfolding s_def by (rule history_inv[OF opened_inv]) simp
  obtain r s' where run: "process_refund 3 1 s = (Inr r, s')" "balances s 1 = 500" "balances s' 1 = 1000"
    by (simp add: s_def wallet_eval balances_def)
  then have "s' \<noteq> s" by auto
  then show ?thesis using refund_credited_once[OF inv run(1), of 4] inv run by blast
qed

text \<open>
  A deposit can be refunded to its wallet more than once: the gateway's
  refund.failed event reopens a refund that was already credited, and the next refund of the
  same deposit is credited again. Every refund adds to the balance the deposit already made.
\<close>

lemma deposit_refunded_twice:
  "balances (fold (serve_wallet cfg)
     [(0, Recharge 1 (Some (Finite 5)) ''topup'' (Some ''pay_1'') ''deposit'' None None),
      (1, Refund 1 None ''first''), (2, ProcessRefund 1),
      (3, GatewayEvent \<lparr>wp_event = Some ''refund.failed'',
            wp_payment = \<lparr>pe_id = None, pe_order_id = None, pe_amount_paise = None, pe_notes_user_id = None\<rparr>,
            wp_refund = \<lparr>re_id = None, re_payment_id = Some ''pay_1''\<rparr>\<rparr>),
      (4, Refund 1 None ''second''), (5, ProcessRefund 2)] (opened [])) 1 = 1500"
  by (simp add: wallet_eval balances_def process_event_def handle_refund_event_def resolve_refund_def
      truthy_str_def py_strip_def py_lower_def lower_char_def is_space_def answered_def)

end
