(* ===== verification/Rentals.thy ===== *)
theory Rentals
  imports Fleet PyNum Outbox
begin

text \<open>
  Rentals (\<open>app/services/rental_service.py\<close> and the endpoints of \<open>app/api/v1/rentals.py\<close> that
  change a rental outside it): pricing, the reservation of a battery, confirmation, return,
  extensions, pauses and late-fee waivers. The float columns hold the rationals they denote,
  \<open>rental_money\<close> reads them in paise; Decimal arithmetic rounds to 28 digits (\<open>ctx\<close>). The text
  of an event's description is not modelled.

  An operation returns the tables its commit leaves; when it raises, its writes are rolled
  back. \<open>initiate_rental\<close> commits the clean-up of stale reservations before it can raise, and
  the return endpoint raises after its commit: these return the tables next to the result.
\<close>

section \<open>Tables\<close>

record rental =
  rn_id :: int
  rn_user_id :: int
  rn_battery_id :: int
  rn_start_station_id :: int
  rn_end_station_id :: "int option"
  rn_start_time :: datetime
  rn_expected_end_time :: datetime
  rn_end_time :: "datetime option"
  rn_total_amount :: rat
  rn_security_deposit :: rat
  rn_status :: string
  rn_created_at :: datetime

record rental_event =
  rv_rental_id :: int
  rv_event_type :: string
  rv_station_id :: "int option"
  rv_battery_id :: int

record catalog =
  ct_id :: int
  ct_price_per_day :: rat

record promo_code =
  pc_id :: int
  pc_code :: string
  pc_discount_amount :: rat
  pc_discount_percentage :: rat
  pc_max_discount_amount :: "rat option"
  pc_min_order_amount :: rat
  pc_min_rental_days :: int
  pc_is_active :: bool
  pc_valid_from :: datetime
  pc_valid_until :: "datetime option"
  pc_usage_limit :: int
  pc_usage_count :: int

record extension =
  ex_id :: int
  ex_rental_id :: int
  ex_user_id :: int
  ex_current_end_date :: datetime
  ex_requested_end_date :: datetime
  ex_extension_days :: int
  ex_additional_cost :: money
  ex_reason :: "string option"
  ex_status :: string
  ex_approved_by :: "int option"
  ex_approved_at :: "datetime option"
  ex_admin_notes :: "string option"

record pause =
  pz_id :: int
  pz_rental_id :: int
  pz_user_id :: int
  pz_start_date :: datetime
  pz_end_date :: datetime
  pz_days :: int
  pz_reason :: string
  pz_daily_charge :: rat
  pz_total_cost :: money
  pz_status :: string
  pz_approved_by :: "int option"
  pz_approved_at :: "datetime option"
  pz_admin_notes :: "string option"
  pz_battery_reclaimed_at :: "datetime option"

record late_fee =
  lf_id :: int
  lf_rental_id :: int
  lf_user_id :: int
  lf_original_end_date :: datetime
  lf_days_overdue :: int
  lf_daily_rate :: rat
  lf_base_late_fee :: rat
  lf_total_late_fee :: rat
  lf_amount_paid :: rat
  lf_amount_waived :: rat
  lf_amount_outstanding :: rat
  lf_payment_status :: string
  lf_updated_at :: datetime

record waiver =
  wv_id :: int
  wv_late_fee_id :: int
  wv_user_id :: int
  wv_requested_amount :: rat
  wv_reason :: string
  wv_status :: string
  wv_approved_amount :: "rat option"
  wv_rejection_reason :: "string option"
  wv_reviewed_by :: "int option"
  wv_reviewed_at :: "datetime option"
  wv_admin_notes :: "string option"

record rental_db =
  rn_fleet :: fleet
  rentals :: "rental list"
  rental_events :: "rental_event list"
  catalogs :: "catalog list"
  promo_codes :: "promo_code list"
  extensions :: "extension list"
  pauses :: "pause list"
  late_fees :: "late_fee list"
  waivers :: "waiver list"

record rental_settings =
  cfg_pending_timeout_minutes :: int
  cfg_max_active_rentals :: int
  cfg_min_battery_soc :: int

section \<open>Amounts and days\<close>

definition rental_to_money :: "decimal option \<Rightarrow> money res" where
  "rental_to_money value =
     (case value of
        Some (Finite x) \<Rightarrow>
          (let c = round_half_up (x * 100)
           in if fits28 c then Inr c else Inl (HTTPException 400 ''Invalid monetary amount''))
      | Some NaN \<Rightarrow> Inl InvalidOperation
      | _ \<Rightarrow> Inl (HTTPException 400 ''Invalid monetary amount''))"

definition rental_money :: "rat \<Rightarrow> money res" where
  "rental_money x = rental_to_money (Some (Finite x))"

text \<open>\<open>int(ceil(d.total_seconds() / 86400))\<close>\<close>

definition ceil_days :: "int \<Rightarrow> int" where
  "ceil_days d = - ((- d) div day)"

section \<open>Writes\<close>

definition put_rental :: "rental \<Rightarrow> rental_db \<Rightarrow> rental_db" where
  "put_rental r s = s\<lparr>rentals := put_row rn_id r (rentals s)\<rparr>"

definition add_event :: "rental \<Rightarrow> string \<Rightarrow> int \<Rightarrow> rental_db \<Rightarrow> rental_db" where
  "add_event r event_type station s =
     s\<lparr>rental_events := rental_events s @
        [\<lparr>rv_rental_id = rn_id r, rv_event_type = event_type, rv_station_id = Some station,
          rv_battery_id = rn_battery_id r\<rparr>]\<rparr>"

definition move_rental_battery ::
    "datetime \<Rightarrow> battery \<Rightarrow> transition \<Rightarrow> rental_db \<Rightarrow> rental_db res" where
  "move_rental_battery now b t s =
     (case apply_battery_transition now b t (rn_fleet s) of
        Inl e \<Rightarrow> Inl e | Inr f \<Rightarrow> Inr (s\<lparr>rn_fleet := f\<rparr>))"

section \<open>Stale reservations\<close>

definition stale_pending ::
    "rental_settings \<Rightarrow> datetime \<Rightarrow> int option \<Rightarrow> rental_db \<Rightarrow> rental list" where
  "stale_pending cfg now user_id s =
     (let cutoff = now - max 1 (cfg_pending_timeout_minutes cfg) * minute
      in filter (\<lambda>r. rn_status r = ''pending_payment'' \<and> rn_start_time r < cutoff
                     \<and> (case user_id of None \<Rightarrow> True | Some u \<Rightarrow> rn_user_id r = u)) (rentals s))"

definition cancel_stale_rental :: "datetime \<Rightarrow> rental \<Rightarrow> rental_db \<Rightarrow> rental_db res" where
  "cancel_stale_rental now r s =
     (let r' = r\<lparr>rn_status := ''cancelled'', rn_end_time := Some now\<rparr>;
          s1 = add_event r' ''payment_timeout_cancelled'' (rn_start_station_id r') (put_rental r' s)
      in case get_row b_id (rn_battery_id r') (batteries (rn_fleet s1)) of
           Some b \<Rightarrow>
             if b_status b = ''reserved'' then
               move_rental_battery now b
                 (transition_to ''available'' ''station'' (Some (rn_start_station_id r'))
                   ''rental_reservation_timeout_release''
                   (''Released reservation for expired rental #'' @ show_int (rn_id r'))
                   (Some (rn_user_id r'))) s1
             else Inr s1
         | None \<Rightarrow> Inr s1)"

definition cleanup_stale_pending_rentals ::
    "rental_settings \<Rightarrow> datetime \<Rightarrow> int option \<Rightarrow> rental_db \<Rightarrow> (int \<times> rental_db) res" where
  "cleanup_stale_pending_rentals cfg now user_id s =
     (let stale_rentals = stale_pending cfg now user_id s
      in if stale_rentals = [] then Inr (0, s)
         else case fold_res (cancel_stale_rental now) stale_rentals s of
                Inl e \<Rightarrow> Inl e
              | Inr s' \<Rightarrow> Inr (int (length stale_rentals), s'))"

section \<open>Pricing\<close>

record price =
  pr_daily_rate :: rat
  pr_duration_days :: int
  pr_rental_cost :: rat
  pr_discount :: rat
  pr_deposit :: rat
  pr_total_payable :: rat
  pr_promo_code_id :: "int option"

text \<open>
  The discount of a promo code. Its columns are floats, and Python refuses to add a float to a
  Decimal or to subtract it from one; comparing the two is allowed. The flag says that the
  value is the Decimal the caller can go on with.
\<close>

definition promo_discount :: "promo_code \<Rightarrow> rat \<Rightarrow> rat res" where
  "promo_discount p total_rent =
     (if 0 < pc_discount_amount p then Inl (TypeError ''unsupported operand type(s) for +='')
      else if 0 < pc_discount_percentage p then Inl (TypeError ''unsupported operand type(s) for *'')
      else
        let (discount, is_decimal) =
              (case pc_max_discount_amount p of
                 Some m \<Rightarrow> if m < 0 then (m, False) else (0, True)
               | None \<Rightarrow> (0, True));
            (discount', is_decimal') =
              (if total_rent < discount then (total_rent, True) else (discount, is_decimal))
        in if is_decimal' then Inr discount'
           else Inl (TypeError ''unsupported operand type(s) for -''))"

definition check_promo ::
    "datetime \<Rightarrow> string \<Rightarrow> int \<Rightarrow> rat \<Rightarrow> rental_db \<Rightarrow> (rat \<times> int option) res" where
  "check_promo now promo_code duration_days total_rent s =
     (let normalized_code = py_upper (py_strip promo_code)
      in if normalized_code = [] then Inl (HTTPException 400 ''promo_code cannot be empty'')
         else
           case List.find (\<lambda>p. py_upper (pc_code p) = normalized_code) (promo_codes s) of
             None \<Rightarrow> Inl (HTTPException 400 ''Invalid promo code'')
           | Some promo \<Rightarrow>
               if \<not> pc_is_active promo then Inl (HTTPException 400 ''Promo code is inactive'')
               else if now < pc_valid_from promo then
                 Inl (HTTPException 400 ''Promo code is not yet active'')
               else if (case pc_valid_until promo of None \<Rightarrow> False | Some d \<Rightarrow> d < now) then
                 Inl (HTTPException 400 ''Promo code has expired'')
               else if 0 < pc_usage_limit promo \<and> pc_usage_limit promo \<le> pc_usage_count promo then
                 Inl (HTTPException 400 ''Promo code usage limit reached'')
               else if duration_days < max 0 (pc_min_rental_days promo) then
                 Inl (HTTPException 400 ''Promo code requires a minimum rental of {min_rental_days} day(s)'')
               else if total_rent < pc_min_order_amount promo then
                 Inl (HTTPException 400 ''Promo code requires a minimum order amount of {min_order_amount}'')
               else
                 case promo_discount promo total_rent of
                   Inl e \<Rightarrow> Inl e
                 | Inr discount \<Rightarrow> Inr (discount, Some (pc_id promo)))"

definition calculate_price ::
    "datetime \<Rightarrow> int \<Rightarrow> int \<Rightarrow> string option \<Rightarrow> rental_db \<Rightarrow> price res" where
  "calculate_price now battery_id duration_days promo_code s =
     (if duration_days \<le> 0 then Inl (HTTPException 400 ''duration_days must be greater than 0'')
      else
        case get_row b_id battery_id (batteries (rn_fleet s)) of
          None \<Rightarrow> Inl (HTTPException 404 ''Battery not found'')
        | Some battery \<Rightarrow>
            let catalog_price = (case b_sku_id battery of
                  None \<Rightarrow> 0
                | Some k \<Rightarrow> if k = 0 then 0
                            else (case get_row ct_id k (catalogs s) of
                                    None \<Rightarrow> 0 | Some c \<Rightarrow> ct_price_per_day c));
                daily_rate = catalog_price;
                deposit = ctx (purchase_cost battery * (1 / 10));
                total_rent = ctx (daily_rate * of_int duration_days)
            in case (case truthy_str promo_code of
                       None \<Rightarrow> Inr (0, None)
                     | Some code \<Rightarrow> check_promo now code duration_days total_rent s) of
                 Inl e \<Rightarrow> Inl e
               | Inr (discount, promo_id) \<Rightarrow>
                   Inr \<lparr>pr_daily_rate = daily_rate, pr_duration_days = duration_days,
                        pr_rental_cost = total_rent, pr_discount = discount, pr_deposit = deposit,
                        pr_total_payable = ctx (ctx (total_rent - discount) + deposit),
                        pr_promo_code_id = promo_id\<rparr>)"

section \<open>Reservation\<close>

record rental_create =
  in_battery_id :: int
  in_start_station_id :: int
  in_duration_days :: int
  in_promo_code :: "string option"

definition open_of_user :: "int \<Rightarrow> rental_db \<Rightarrow> rental list" where
  "open_of_user u s =
     filter (\<lambda>r. rn_user_id r = u \<and> rn_status r \<in> {''active'', ''pending_payment''}) (rentals s)"

definition open_of_battery :: "int \<Rightarrow> rental_db \<Rightarrow> rental list" where
  "open_of_battery b s =
     filter (\<lambda>r. rn_battery_id r = b
       \<and> rn_status r \<in> {''active'', ''pending_payment'', ''reserved''}) (rentals s)"

text \<open>The compare-and-set \<open>UPDATE\<close> on the usage counter; \<open>None\<close> when no row matches.\<close>

definition take_promo_slot :: "int \<Rightarrow> promo_code list \<Rightarrow> promo_code list option" where
  "take_promo_slot i ps =
     (let matches = (\<lambda>p. pc_id p = i \<and> (pc_usage_limit p = 0 \<or> pc_usage_count p < pc_usage_limit p))
      in if list_ex matches ps
         then Some (map (\<lambda>p. if matches p then p\<lparr>pc_usage_count := pc_usage_count p + 1\<rparr> else p) ps)
         else None)"

text \<open>\<open>if promo_code_id:\<close>, the reservation itself, in the transaction after the clean-up.\<close>

definition reserve_promo :: "int option \<Rightarrow> rental_db \<Rightarrow> rental_db res" where
  "reserve_promo promo_code_id s =
     (case promo_code_id of
        None \<Rightarrow> Inr s
      | Some i \<Rightarrow>
          if i = 0 then Inr s
          else (case take_promo_slot i (promo_codes s) of
                  None \<Rightarrow> Inl (HTTPException 400 ''Promo code usage limit reached'')
                | Some ps \<Rightarrow> Inr (s\<lparr>promo_codes := ps\<rparr>)))"

definition new_rental :: "datetime \<Rightarrow> int \<Rightarrow> rental_create \<Rightarrow> price \<Rightarrow> rental_db \<Rightarrow> rental" where
  "new_rental now user_id rental_in price_details s =
     \<lparr>rn_id = fresh_id rn_id (rentals s), rn_user_id = user_id,
      rn_battery_id = in_battery_id rental_in,
      rn_start_station_id = in_start_station_id rental_in, rn_end_station_id = None,
      rn_start_time = now, rn_expected_end_time = now + in_duration_days rental_in * day,
      rn_end_time = None, rn_total_amount = pr_total_payable price_details,
      rn_security_deposit = pr_deposit price_details, rn_status = ''pending_payment'',
      rn_created_at = now\<rparr>"

definition reserve_battery ::
    "rental_settings \<Rightarrow> datetime \<Rightarrow> int \<Rightarrow> rental_create \<Rightarrow> rental_db \<Rightarrow> (rental \<times> rental_db) res"
where
  "reserve_battery cfg now user_id rental_in s =
     (if max 1 (cfg_max_active_rentals cfg) \<le> int (length (open_of_user user_id s)) then
        Inl (HTTPException 409 ''Maximum active rentals reached ({max_active})'')
      else
        case get_row b_id (in_battery_id rental_in) (batteries (rn_fleet s)) of
          None \<Rightarrow> Inl (HTTPException 404 ''Battery not found'')
        | Some battery \<Rightarrow>
            if b_status battery \<notin> {''ready'', ''available''} then
              Inl (HTTPException 400 ''Battery is not available for rental (current status: {status})'')
            else if b_location_type battery \<noteq> Some ''station''
                    \<or> b_location_id battery \<noteq> Some (in_start_station_id rental_in) then
              Inl (HTTPException 400 ''Battery is not available at pickup station {start_station_id}'')
            else if py_trunc (current_charge battery) < max 0 (cfg_min_battery_soc cfg) then
              Inl (HTTPException 400 ''Battery SOC {current_soc}% is below rental minimum {min_soc}%'')
            else if open_of_battery (in_battery_id rental_in) s \<noteq> [] then
              Inl (HTTPException 409 ''Battery is already assigned to an active rental'')
            else
              case calculate_price now (in_battery_id rental_in) (in_duration_days rental_in)
                     (in_promo_code rental_in) s of
                Inl e \<Rightarrow> Inl e
              | Inr price_details \<Rightarrow>
                  (case reserve_promo (pr_promo_code_id price_details) s of
                     Inl e \<Rightarrow> Inl e
                   | Inr s1 \<Rightarrow>
                       let r = new_rental now user_id rental_in price_details s1
                       in case move_rental_battery now battery
                                 (transition_to ''reserved'' ''station''
                                   (Some (in_start_station_id rental_in)) ''rental_reserved''
                                   (''Reserved for rental #'' @ show_int (rn_id r)) (Some user_id))
                                 (s1\<lparr>rentals := rentals s1 @ [r]\<rparr>) of
                            Inl e \<Rightarrow> Inl e
                          | Inr s2 \<Rightarrow> Inr (r, s2)))"

definition initiate_rental ::
    "rental_settings \<Rightarrow> datetime \<Rightarrow> int \<Rightarrow> rental_create \<Rightarrow> rental_db \<Rightarrow> rental res \<times> rental_db" where
  "initiate_rental cfg now user_id rental_in s =
     (case cleanup_stale_pending_rentals cfg now (Some user_id) s of
        Inl e \<Rightarrow> (Inl e, s)
      | Inr (released, s1) \<Rightarrow>
          (case reserve_battery cfg now user_id rental_in s1 of
             Inl e \<Rightarrow> (Inl e, s1)
           | Inr (r, s2) \<Rightarrow> (Inr r, s2)))"

section \<open>Payment and confirmation\<close>

text \<open>
  \<open>PaymentService.create_order(amount, currency)\<close> is called with \<open>receipt\<close> and \<open>notes\<close>, which it
  does not take.
\<close>

definition create_rental_payment_order :: "int \<Rightarrow> int \<Rightarrow> rental_db \<Rightarrow> unit res" where
  "create_rental_payment_order rental_id user_id s =
     (case get_row rn_id rental_id (rentals s) of
        None \<Rightarrow> Inl (HTTPException 404 ''Rental not found'')
      | Some r \<Rightarrow>
          if rn_user_id r \<noteq> user_id then Inl (HTTPException 404 ''Rental not found'')
          else if rn_status r \<noteq> ''pending_payment'' then
            Inl (HTTPException 400 ''Rental is not awaiting payment'')
          else
            case rental_money (rn_total_amount r) of
              Inl e \<Rightarrow> Inl e
            | Inr amount \<Rightarrow> Inl (TypeError ''create_order() got an unexpected keyword argument 'receipt' ''))"

text \<open>
  \<open>verify\<close> is \<open>PaymentService.verify_payment_signature\<close>, which asks the gateway's client.
  \<open>PaymentTransaction\<close> has no \<open>reference_type\<close> and \<open>PaymentService\<close> no \<open>fetch_payment\<close>: both
  raise where the code reaches them.
\<close>

definition confirm_rental_verified ::
    "(string \<Rightarrow> string \<Rightarrow> string \<Rightarrow> bool res) \<Rightarrow> int \<Rightarrow> int \<Rightarrow> string \<Rightarrow> string \<Rightarrow> string \<Rightarrow>
     rental_db \<Rightarrow> rental res" where
  "confirm_rental_verified verify rental_id user_id razorpay_order_id razorpay_payment_id
       razorpay_signature s =
     (if razorpay_order_id = [] \<or> razorpay_payment_id = [] \<or> razorpay_signature = [] then
        Inl (HTTPException 400 ''Payment verification payload is required'')
      else
        case get_row rn_id rental_id (rentals s) of
          None \<Rightarrow> Inl (HTTPException 404 ''Rental not found'')
        | Some r \<Rightarrow>
            if rn_user_id r \<noteq> user_id then Inl (HTTPException 404 ''Rental not found'')
            else if rn_status r = ''active'' then Inl (AttributeError ''reference_type'')
            else if rn_status r \<noteq> ''pending_payment'' then
              Inl (HTTPException 400 ''Invalid rental state'')
            else
              case verify razorpay_order_id razorpay_payment_id razorpay_signature of
                Inl e \<Rightarrow> Inl e
              | Inr signature_ok \<Rightarrow>
                  if \<not> signature_ok then Inl (HTTPException 400 ''Invalid payment signature'')
                  else Inl (AttributeError ''fetch_payment''))"

text \<open>
  \<open>POST /{rental_id}/confirm\<close> of \<open>rentals.py\<close>. It assigns \<open>"ACTIVE"\<close>, the name under which the
  enum column stores the member \<open>active\<close>.
\<close>

definition confirm_rental :: "int \<Rightarrow> int \<Rightarrow> rental_db \<Rightarrow> (rental \<times> rental_db) res" where
  "confirm_rental rental_id current_user_id s =
     (case get_row rn_id rental_id (rentals s) of
        None \<Rightarrow> Inl (HTTPException 404 ''Rental not found'')
      | Some r \<Rightarrow>
          if rn_user_id r \<noteq> current_user_id then Inl (HTTPException 404 ''Rental not found'')
          else let r' = r\<lparr>rn_status := ''active''\<rparr> in Inr (r', put_rental r' s))"

text \<open>
  \<open>PUT /rentals/{rental_id}/terminate\<close> of \<open>app/api/admin/rentals.py\<close>: an administrator cancels any
  rental that is not completed. Its battery stays as it is.
\<close>

definition terminate_rental :: "datetime \<Rightarrow> int \<Rightarrow> rental_db \<Rightarrow> (rental \<times> rental_db) res" where
  "terminate_rental now rental_id s =
     (case get_row rn_id rental_id (rentals s) of
        None \<Rightarrow> Inl (HTTPException 404 ''Rental not found'')
      | Some r \<Rightarrow>
          if rn_status r = ''completed'' then Inl (HTTPException 400 ''Rental already completed'')
          else let r' = r\<lparr>rn_status := ''cancelled'', rn_end_time := Some now\<rparr>
               in Inr (r', put_rental r' s))"

section \<open>Reads\<close>

definition get_active_rentals :: "int \<Rightarrow> rental_db \<Rightarrow> rental list" where
  "get_active_rentals user_id s =
     filter (\<lambda>r. rn_user_id r = user_id \<and> rn_status r = ''active'') (rentals s)"

definition get_current_rental :: "int \<Rightarrow> rental_db \<Rightarrow> rental option" where
  "get_current_rental user_id s =
     List.find (\<lambda>_. True) (sort_key (\<lambda>r. - rn_created_at r) (open_of_user user_id s))"

definition get_history :: "int \<Rightarrow> rental_db \<Rightarrow> rental list" where
  "get_history user_id s =
     sort_key (\<lambda>r. - rn_start_time r) (filter (\<lambda>r. rn_user_id r = user_id) (rentals s))"

section \<open>Return\<close>

definition return_battery :: "datetime \<Rightarrow> int \<Rightarrow> int \<Rightarrow> rental_db \<Rightarrow> (rental \<times> rental_db) res" where
  "return_battery now rental_id station_id s =
     (case get_row rn_id rental_id (rentals s) of
        None \<Rightarrow> Inl (HTTPException 400 ''Invalid rental'')
      | Some r \<Rightarrow>
          if rn_status r \<noteq> ''active'' then Inl (HTTPException 400 ''Invalid rental'')
          else
            let r' = r\<lparr>rn_status := ''completed'', rn_end_station_id := Some station_id,
                       rn_end_time := Some now\<rparr>
            in case get_row b_id (rn_battery_id r') (batteries (rn_fleet s)) of
                 None \<Rightarrow> Inl (HTTPException 404 ''Battery not found'')
               | Some battery \<Rightarrow>
                   (case move_rental_battery now battery
                           (transition_to ''available'' ''station'' (Some station_id)
                             ''rental_completed''
                             (''Returned to station #'' @ show_int station_id @ '' for rental #''
                               @ show_int (rn_id r'))
                             (Some (rn_user_id r'))) s of
                      Inl e \<Rightarrow> Inl e
                    | Inr s1 \<Rightarrow> Inr (r', add_event r' ''stop'' station_id (put_rental r' s1))))"

text \<open>\<open>POST /{rental_id}/return\<close>: the owner is compared after the service has committed.\<close>

definition return_rental_battery ::
    "datetime \<Rightarrow> int \<Rightarrow> int \<Rightarrow> int \<Rightarrow> rental_db \<Rightarrow> rental res \<times> rental_db" where
  "return_rental_battery now rental_id station_id current_user_id s =
     (case return_battery now rental_id station_id s of
        Inl e \<Rightarrow> (Inl e, s)
      | Inr (r, s') \<Rightarrow>
          if rn_user_id r \<noteq> current_user_id then (Inl (HTTPException 403 ''Not authorized''), s')
          else (Inr r, s'))"

section \<open>Extensions\<close>

text \<open>The rate of a rental: what it cost, per day of its original duration.\<close>

definition computed_daily_rate :: "rental \<Rightarrow> rat res" where
  "computed_daily_rate r =
     (let original_days = max 1 (ceil_days (rn_expected_end_time r - rn_start_time r))
      in case rental_money (rn_total_amount r) of
           Inl e \<Rightarrow> Inl e
         | Inr c \<Rightarrow> Inr (ctx (of_int c / 100 / of_int original_days)))"

definition request_extension ::
    "int \<Rightarrow> int \<Rightarrow> datetime \<Rightarrow> string option \<Rightarrow> rental_db \<Rightarrow> (extension \<times> rental_db) res" where
  "request_extension rental_id user_id requested_end_date reason s =
     (case get_row rn_id rental_id (rentals s) of
        None \<Rightarrow> Inl (HTTPException 404 ''Rental not found'')
      | Some r \<Rightarrow>
          if rn_user_id r \<noteq> user_id then Inl (HTTPException 404 ''Rental not found'')
          else if rn_status r \<noteq> ''active'' then Inl (HTTPException 400 ''Rental is not active'')
          else
            case rn_end_time r of
              None \<Rightarrow> Inl (HTTPException 400 ''Rental has no scheduled end time'')
            | Some end_time \<Rightarrow>
                let extension_days = ceil_days (requested_end_date - end_time)
                in if extension_days \<le> 0 then
                     Inl (HTTPException 400 ''Extension date must be after current end date'')
                   else if List.find (\<lambda>x. ex_rental_id x = rental_id \<and> ex_status x = ''PENDING'')
                             (extensions s) \<noteq> None then
                     Inl (HTTPException 409 ''An extension request is already pending'')
                   else
                     case computed_daily_rate r of
                       Inl e \<Rightarrow> Inl e
                     | Inr daily_rate \<Rightarrow>
                         (case rental_money (ctx (daily_rate * of_int extension_days)) of
                            Inl e \<Rightarrow> Inl e
                          | Inr additional_cost \<Rightarrow>
                              let x = \<lparr>ex_id = fresh_id ex_id (extensions s), ex_rental_id = rental_id,
                                       ex_user_id = user_id, ex_current_end_date = end_time,
                                       ex_requested_end_date = requested_end_date,
                                       ex_extension_days = extension_days,
                                       ex_additional_cost = additional_cost, ex_reason = reason,
                                       ex_status = ''PENDING'', ex_approved_by = None,
                                       ex_approved_at = None, ex_admin_notes = None\<rparr>
                              in Inr (x, add_event r ''extension_requested'' (rn_start_station_id r)
                                           (s\<lparr>extensions := extensions s @ [x]\<rparr>))))"

definition review_extension ::
    "datetime \<Rightarrow> int \<Rightarrow> int \<Rightarrow> bool \<Rightarrow> string option \<Rightarrow> rental_db \<Rightarrow> (extension \<times> rental_db) res"
where
  "review_extension now extension_id reviewer_id approve admin_notes s =
     (case get_row ex_id extension_id (extensions s) of
        None \<Rightarrow> Inl (HTTPException 404 ''Extension request not found'')
      | Some x \<Rightarrow>
          if ex_status x \<noteq> ''PENDING'' then
            Inl (HTTPException 400 ''Extension request already processed'')
          else
            case get_row rn_id (ex_rental_id x) (rentals s) of
              None \<Rightarrow> Inl (HTTPException 404 ''Rental not found'')
            | Some r \<Rightarrow>
                let x1 = x\<lparr>ex_approved_by := Some reviewer_id, ex_approved_at := Some now,
                           ex_admin_notes := admin_notes\<rparr>;
                    x2 = x1\<lparr>ex_status := (if approve then ''APPROVED'' else ''REJECTED'')\<rparr>;
                    r' = (if approve then r\<lparr>rn_end_time := Some (ex_requested_end_date x)\<rparr> else r);
                    s1 = add_event r' (if approve then ''extension_approved'' else ''extension_rejected'')
                           (rn_start_station_id r) (put_rental r' s)
                in Inr (x2, s1\<lparr>extensions := put_row ex_id x2 (extensions s1)\<rparr>))"

section \<open>Pauses\<close>

definition request_pause ::
    "int \<Rightarrow> int \<Rightarrow> datetime \<Rightarrow> datetime \<Rightarrow> string \<Rightarrow> rental_db \<Rightarrow> (pause \<times> rental_db) res" where
  "request_pause rental_id user_id pause_start_date pause_end_date reason s =
     (case get_row rn_id rental_id (rentals s) of
        None \<Rightarrow> Inl (HTTPException 404 ''Rental not found'')
      | Some r \<Rightarrow>
          if rn_user_id r \<noteq> user_id then Inl (HTTPException 404 ''Rental not found'')
          else if rn_status r \<noteq> ''active'' then Inl (HTTPException 400 ''Rental is not active'')
          else
            let pause_days = ceil_days (pause_end_date - pause_start_date)
            in if pause_days \<le> 0 then Inl (HTTPException 400 ''Invalid pause period'')
               else if List.find (\<lambda>z. pz_rental_id z = rental_id
                                   \<and> pz_status z \<in> {''PENDING'', ''APPROVED'', ''ACTIVE''})
                         (pauses s) \<noteq> None then
                 Inl (HTTPException 409 ''A pause request is already active'')
               else
                 case computed_daily_rate r of
                   Inl e \<Rightarrow> Inl e
                 | Inr daily_rate \<Rightarrow>
                     let daily_pause_charge = ctx (daily_rate * (1 / 5))
                     in (case rental_money (ctx (daily_pause_charge * of_int pause_days)) of
                           Inl e \<Rightarrow> Inl e
                         | Inr total_pause_cost \<Rightarrow>
                             let z = \<lparr>pz_id = fresh_id pz_id (pauses s), pz_rental_id = rental_id,
                                      pz_user_id = user_id, pz_start_date = pause_start_date,
                                      pz_end_date = pause_end_date, pz_days = pause_days,
                                      pz_reason = reason, pz_daily_charge = daily_pause_charge,
                                      pz_total_cost = total_pause_cost, pz_status = ''PENDING'',
                                      pz_approved_by = None, pz_approved_at = None,
                                      pz_admin_notes = None, pz_battery_reclaimed_at = None\<rparr>
                             in Inr (z, add_event r ''pause_requested'' (rn_start_station_id r)
                                          (s\<lparr>pauses := pauses s @ [z]\<rparr>))))"

definition review_pause ::
    "datetime \<Rightarrow> int \<Rightarrow> int \<Rightarrow> bool \<Rightarrow> string option \<Rightarrow> rental_db \<Rightarrow> (pause \<times> rental_db) res" where
  "review_pause now pause_id reviewer_id approve admin_notes s =
     (case get_row pz_id pause_id (pauses s) of
        None \<Rightarrow> Inl (HTTPException 404 ''Pause request not found'')
      | Some z \<Rightarrow>
          if pz_status z \<noteq> ''PENDING'' then
            Inl (HTTPException 400 ''Pause request already processed'')
          else
            let z' = z\<lparr>pz_approved_by := Some reviewer_id, pz_approved_at := Some now,
                       pz_admin_notes := admin_notes,
                       pz_status := (if approve then ''APPROVED'' else ''REJECTED'')\<rparr>
            in Inr (z', s\<lparr>pauses := put_row pz_id z' (pauses s)\<rparr>))"

definition resume_pause ::
    "datetime \<Rightarrow> int \<Rightarrow> int \<Rightarrow> rental_db \<Rightarrow> (pause \<times> rental_db) res" where
  "resume_pause now rental_id user_id s =
     (case List.find (\<lambda>_. True)
             (sort_key (\<lambda>z. - pz_id z)
               (filter (\<lambda>z. pz_rental_id z = rental_id \<and> pz_status z \<in> {''ACTIVE'', ''APPROVED''})
                 (pauses s))) of
        None \<Rightarrow> Inl (HTTPException 404 ''No active pause found'')
      | Some z \<Rightarrow>
          if pz_user_id z \<noteq> user_id then Inl (HTTPException 403 ''Not authorized'')
          else
            let z' = z\<lparr>pz_status := ''COMPLETED'', pz_battery_reclaimed_at := Some now\<rparr>
            in Inr (z', s\<lparr>pauses := put_row pz_id z' (pauses s)\<rparr>))"

section \<open>Late-fee waivers\<close>

text \<open>\<open>LateFeeWaiver.late_fee_id\<close> is unique: the commit of a second waiver for a fee raises.\<close>

definition request_late_fee_waiver ::
    "int \<Rightarrow> int \<Rightarrow> decimal option \<Rightarrow> string \<Rightarrow> rental_db \<Rightarrow> (waiver \<times> rental_db) res" where
  "request_late_fee_waiver rental_id user_id requested_waiver_amount reason s =
     (case List.find (\<lambda>l. lf_rental_id l = rental_id) (late_fees s) of
        None \<Rightarrow> Inl (HTTPException 404 ''No late fees found'')
      | Some fee \<Rightarrow>
          if lf_user_id fee \<noteq> user_id then Inl (HTTPException 403 ''Not authorized'')
          else
            case rental_money (lf_amount_outstanding fee) of
              Inl e \<Rightarrow> Inl e
            | Inr outstanding \<Rightarrow>
                if outstanding \<le> 0 then Inl (HTTPException 400 ''No outstanding late fees'')
                else
                  case rental_to_money requested_waiver_amount of
                    Inl e \<Rightarrow> Inl e
                  | Inr requested_amount \<Rightarrow>
                      if requested_amount \<le> 0 then
                        Inl (HTTPException 400 ''requested_waiver_amount must be greater than zero'')
                      else if outstanding < requested_amount then
                        Inl (HTTPException 400 ''Waiver amount exceeds outstanding late fee'')
                      else if List.find (\<lambda>v. wv_late_fee_id v = lf_id fee \<and> wv_status v = ''PENDING'')
                                (waivers s) \<noteq> None then
                        Inl (HTTPException 409 ''A waiver request is already pending'')
                      else if list_ex (\<lambda>v. wv_late_fee_id v = lf_id fee) (waivers s) then
                        Inl IntegrityError
                      else
                        let v = \<lparr>wv_id = fresh_id wv_id (waivers s), wv_late_fee_id = lf_id fee,
                                 wv_user_id = user_id,
                                 wv_requested_amount = of_int requested_amount / 100,
                                 wv_reason = reason, wv_status = ''PENDING'',
                                 wv_approved_amount = None, wv_rejection_reason = None,
                                 wv_reviewed_by = None, wv_reviewed_at = None, wv_admin_notes = None\<rparr>
                        in Inr (v, s\<lparr>waivers := waivers s @ [v]\<rparr>))"

text \<open>The fee after a waiver of \<open>target\<close>, given in paise like what was outstanding.\<close>

definition waive_fee :: "late_fee \<Rightarrow> money \<Rightarrow> money \<Rightarrow> late_fee res" where
  "waive_fee fee outstanding target =
     (case rental_money (lf_amount_waived fee) of
        Inl e \<Rightarrow> Inl e
      | Inr waived \<Rightarrow>
          Inr (fee\<lparr>lf_amount_waived := of_int (waived + target) / 100,
                   lf_amount_outstanding := of_int (outstanding - target) / 100,
                   lf_payment_status := (if outstanding - target = 0 then ''WAIVED'' else ''PARTIAL'')\<rparr>))"

definition review_late_fee_waiver ::
    "datetime \<Rightarrow> int \<Rightarrow> int \<Rightarrow> bool \<Rightarrow> decimal option option \<Rightarrow> string option \<Rightarrow> rental_db \<Rightarrow>
     (waiver \<times> rental_db) res" where
  "review_late_fee_waiver now waiver_id reviewer_id approve approved_waiver_amount admin_notes s =
     (case get_row wv_id waiver_id (waivers s) of
        None \<Rightarrow> Inl (HTTPException 404 ''Waiver request not found'')
      | Some v \<Rightarrow>
          if wv_status v \<noteq> ''PENDING'' then
            Inl (HTTPException 400 ''Waiver request already processed'')
          else
            case get_row lf_id (wv_late_fee_id v) (late_fees s) of
              None \<Rightarrow> Inl (HTTPException 404 ''Late fee record not found'')
            | Some fee \<Rightarrow>
                let v1 = v\<lparr>wv_reviewed_by := Some reviewer_id, wv_reviewed_at := Some now,
                           wv_admin_notes := admin_notes\<rparr>
                in if approve then
                     (case (case approved_waiver_amount of
                              Some a \<Rightarrow> rental_to_money a
                            | None \<Rightarrow> rental_money (wv_requested_amount v)) of
                        Inl e \<Rightarrow> Inl e
                      | Inr target \<Rightarrow>
                          if target \<le> 0 then
                            Inl (HTTPException 400 ''Approved waiver amount must be greater than zero'')
                          else
                            case rental_money (lf_amount_outstanding fee) of
                              Inl e \<Rightarrow> Inl e
                            | Inr outstanding \<Rightarrow>
                                if outstanding < target then
                                  Inl (HTTPException 400 ''Approved waiver exceeds outstanding amount'')
                                else
                                  (case waive_fee fee outstanding target of
                                     Inl e \<Rightarrow> Inl e
                                   | Inr fee' \<Rightarrow>
                                       let v' = v1\<lparr>wv_status := ''APPROVED'',
                                                   wv_approved_amount := Some (of_int target / 100)\<rparr>
                                       in Inr (v', s\<lparr>waivers := put_row wv_id v' (waivers s),
                                                     late_fees := put_row lf_id fee' (late_fees s)\<rparr>)))
                   else
                     let v' = v1\<lparr>wv_status := ''REJECTED'',
                                 wv_rejection_reason :=
                                   (case truthy_str admin_notes of
                                      None \<Rightarrow> Some ''Waiver request rejected'' | Some n \<Rightarrow> Some n)\<rparr>
                     in Inr (v', s\<lparr>waivers := put_row wv_id v' (waivers s)\<rparr>))"

text \<open>
  \<open>PUT /rentals/late-fees/waivers/{waiver_id}/review\<close> of \<open>app/api/admin/rentals.py\<close>, the endpoint
  through which administrators answer a waiver (nothing calls \<open>review_late_fee_waiver\<close>). It takes any
  status and any amount, as often as it is sent; amounts are floats, rationals here.
\<close>

definition granted_fee :: "rat \<Rightarrow> late_fee \<Rightarrow> late_fee" where
  "granted_fee approved_amount fee =
     (let due = max 0 (lf_total_late_fee fee - lf_amount_paid fee - approved_amount)
      in fee\<lparr>lf_amount_waived := approved_amount, lf_amount_outstanding := due,
             lf_payment_status := (if due = 0 then ''WAIVED'' else lf_payment_status fee)\<rparr>)"

definition review_waiver ::
    "datetime \<Rightarrow> int \<Rightarrow> int \<Rightarrow> string \<Rightarrow> rat option \<Rightarrow> string option \<Rightarrow> rental_db \<Rightarrow>
     (string \<times> rental_db) res" where
  "review_waiver now current_user_id waiver_id status approved_amount admin_notes s =
     (case get_row wv_id waiver_id (waivers s) of
        None \<Rightarrow> Inl (HTTPException 404 ''Waiver request not found'')
      | Some v \<Rightarrow>
          let v1 = v\<lparr>wv_status := status, wv_admin_notes := admin_notes,
                     wv_reviewed_by := Some current_user_id, wv_reviewed_at := Some now\<rparr>
          in (case (if status = ''APPROVED'' then approved_amount else None) of
                None \<Rightarrow> Inr (status, s\<lparr>waivers := put_row wv_id v1 (waivers s)\<rparr>)
              | Some a \<Rightarrow>
                  let s1 = s\<lparr>waivers := put_row wv_id (v1\<lparr>wv_approved_amount := Some a\<rparr>) (waivers s)\<rparr>
                  in Inr (status,
                       case get_row lf_id (wv_late_fee_id v) (late_fees s1) of
                         None \<Rightarrow> s1
                       | Some fee \<Rightarrow>
                           s1\<lparr>late_fees := put_row lf_id (granted_fee a fee) (late_fees s1)\<rparr>)))"

end
