(* ===== verification/Swaps.thy ===== *)
theory Swaps
  imports Rentals
begin

text \<open>
  Battery swaps (\<open>app/services/swap_service.py\<close> and \<open>app/api/v1/swaps.py\<close>): a session is opened
  at a station for an active rental, and completed when the station has dispensed the new
  battery. \<open>DealerStationService.is_station_operational\<close> guards the opening; it reads
  \<open>station.opening_hours\<close>, which the model \<open>Station\<close> does not have.
\<close>

section \<open>Tables\<close>

record swap_session =
  ss_id :: int
  ss_rental_id :: "int option"
  ss_user_id :: int
  ss_station_id :: int
  ss_old_battery_id :: "int option"
  ss_new_battery_id :: "int option"
  ss_old_battery_soc :: rat
  ss_new_battery_soc :: rat
  ss_swap_amount :: rat
  ss_status :: string
  ss_payment_status :: string
  ss_created_at :: datetime
  ss_completed_at :: "datetime option"

record downtime =
  dt_station_id :: int
  dt_start_time :: datetime
  dt_end_time :: "datetime option"
  dt_reason :: string

record swap_db =
  sw_rentals :: rental_db
  swaps :: "swap_session list"
  downtimes :: "downtime list"

section \<open>The service\<close>

definition station_battery :: "int \<Rightarrow> battery \<Rightarrow> bool" where
  "station_battery station_id b \<longleftrightarrow>
     b_location_id b = Some station_id \<and> b_location_type b = Some ''station''"

text \<open>
  The two moves work on the objects of the session: when both ids are the same, the second
  starts from the row the first has changed.
\<close>

definition swap_batteries ::
    "datetime \<Rightarrow> int \<Rightarrow> int \<Rightarrow> int \<Rightarrow> battery \<Rightarrow> rental_db \<Rightarrow> rental_db res" where
  "swap_batteries now rental_id new_battery_id station_id old_battery s =
     (case move_rental_battery now old_battery
             (transition_to ''available'' ''station'' (Some station_id) ''swap_returned''
                (''Swap return for rental #'' @ show_int rental_id @ '' at station #'' @ show_int station_id)
                None) s of
        Inl e \<Rightarrow> Inl e
      | Inr s1 \<Rightarrow>
          (case get_row b_id new_battery_id (batteries (rn_fleet s1)) of
             None \<Rightarrow> Inl (ValueError ''New battery not available'')
           | Some new_battery \<Rightarrow>
               move_rental_battery now new_battery
                 (transition_to ''deployed'' ''customer'' None ''swap_dispensed''
                    (''Swap dispense for rental #'' @ show_int rental_id @ '' at station #'' @ show_int station_id)
                    None) s1))"

definition execute_swap :: "datetime \<Rightarrow> int \<Rightarrow> int \<Rightarrow> int \<Rightarrow> rental_db \<Rightarrow> rental_db res" where
  "execute_swap now rental_id new_battery_id station_id s =
     (case get_row rn_id rental_id (rentals s) of
        None \<Rightarrow> Inl (ValueError ''Invalid rental'')
      | Some r \<Rightarrow>
          if rn_status r \<noteq> ''active'' then Inl (ValueError ''Invalid rental'')
          else case get_row b_id (rn_battery_id r) (batteries (rn_fleet s)) of
                 None \<Rightarrow> Inl (ValueError ''Old battery not found'')
               | Some old_battery \<Rightarrow>
                   (case get_row b_id new_battery_id (batteries (rn_fleet s)) of
                      None \<Rightarrow> Inl (ValueError ''New battery not available'')
                    | Some new_battery \<Rightarrow>
                        if b_status new_battery \<noteq> ''available'' then
                          Inl (ValueError ''New battery not available'')
                        else if \<not> station_battery station_id new_battery then
                          Inl (ValueError ''Battery not at specified station'')
                        else case swap_batteries now rental_id new_battery_id station_id old_battery s of
                               Inl e \<Rightarrow> Inl e
                             | Inr s1 \<Rightarrow>
                                 let s2 = put_rental (r\<lparr>rn_battery_id := new_battery_id\<rparr>) s1
                                 in Inr (s2\<lparr>rental_events := rental_events s2 @
                                      [\<lparr>rv_rental_id = rental_id, rv_event_type = ''swap_complete'',
                                        rv_station_id = Some station_id,
                                        rv_battery_id = new_battery_id\<rparr>]\<rparr>)))"

text \<open>With \<open>auto_commit\<close> an exception is rolled back and answered with False.\<close>

definition execute_swap_committed ::
    "datetime \<Rightarrow> int \<Rightarrow> int \<Rightarrow> int \<Rightarrow> rental_db \<Rightarrow> bool \<times> rental_db" where
  "execute_swap_committed now rental_id new_battery_id station_id s =
     (case execute_swap now rental_id new_battery_id station_id s of
        Inl e \<Rightarrow> (False, s) | Inr s' \<Rightarrow> (True, s'))"

definition calculate_swap_fee :: "int \<Rightarrow> rat" where
  "calculate_swap_fee rental_id = 0"

section \<open>Opening a session\<close>

definition down_now :: "datetime \<Rightarrow> int \<Rightarrow> downtime \<Rightarrow> bool" where
  "down_now now station_id d \<longleftrightarrow> dt_station_id d = station_id \<and> dt_start_time d \<le> now
     \<and> (case dt_end_time d of None \<Rightarrow> True | Some e \<Rightarrow> now \<le> e)"

definition is_station_operational :: "datetime \<Rightarrow> int \<Rightarrow> swap_db \<Rightarrow> (bool \<times> string) res" where
  "is_station_operational now station_id s =
     (case get_row st_id station_id (stations (rn_fleet (sw_rentals s))) of
        None \<Rightarrow> Inr (False, ''Station not found'')
      | Some st \<Rightarrow>
          (case List.find (down_now now station_id) (downtimes s) of
             Some d \<Rightarrow> Inr (False, ''Station under maintenance: '' @ dt_reason d)
           | None \<Rightarrow> Inl (AttributeError ''opening_hours'')))"

text \<open>\<open>schedule_maintenance\<close> keeps the downtimes of a station apart.\<close>

definition overlaps :: "int \<Rightarrow> datetime \<Rightarrow> datetime option \<Rightarrow> downtime \<Rightarrow> bool" where
  "overlaps station_id start_time end_time d \<longleftrightarrow> dt_station_id d = station_id
     \<and> (case end_time of
          None \<Rightarrow> True
        | Some e \<Rightarrow> dt_start_time d < e
            \<and> (case dt_end_time d of None \<Rightarrow> False | Some de \<Rightarrow> start_time < de))"

definition get_dealer_station :: "int \<Rightarrow> int \<Rightarrow> swap_db \<Rightarrow> station res" where
  "get_dealer_station station_id dealer_id s =
     (case List.find (\<lambda>t. st_id t = station_id \<and> st_dealer_id t = Some dealer_id)
             (stations (rn_fleet (sw_rentals s))) of
        None \<Rightarrow> Inl (HTTPException 404 ''Station not found'') | Some t \<Rightarrow> Inr t)"

definition schedule_maintenance ::
    "int \<Rightarrow> int \<Rightarrow> datetime \<Rightarrow> datetime option \<Rightarrow> string \<Rightarrow> swap_db \<Rightarrow> swap_db res" where
  "schedule_maintenance station_id dealer_id start_time end_time reason s =
     (case get_dealer_station station_id dealer_id s of Inl e \<Rightarrow> Inl e | Inr st \<Rightarrow>
      if list_ex (overlaps station_id start_time end_time) (downtimes s) then
        Inl (HTTPException 400 ''Maintenance schedule overlaps with existing downtime'')
      else Inr (s\<lparr>downtimes := downtimes s @
             [\<lparr>dt_station_id = station_id, dt_start_time = start_time, dt_end_time = end_time,
               dt_reason = reason\<rparr>]\<rparr>))"

definition resolve_active_rental :: "int \<Rightarrow> int option \<Rightarrow> rental_db \<Rightarrow> rental option" where
  "resolve_active_rental user_id rental_id s =
     (case sort_key (\<lambda>r. - rn_start_time r)
            (filter (\<lambda>r. rn_user_id r = user_id \<and> rn_status r = ''active''
                         \<and> (case rental_id of None \<Rightarrow> True | Some i \<Rightarrow> rn_id r = i)) (rentals s)) of
        [] \<Rightarrow> None | r # rs \<Rightarrow> Some r)"

text \<open>The pattern of SQL's \<open>ILIKE\<close>, on lower-case text.\<close>

fun sql_like :: "string \<Rightarrow> string \<Rightarrow> bool" where
  "sql_like [] s = (s = [])"
| "sql_like (p # ps) [] = (p = CHR ''%'' \<and> sql_like ps [])"
| "sql_like (p # ps) (c # cs) =
     (if p = CHR ''%'' then sql_like ps (c # cs) \<or> sql_like (p # ps) cs
      else if p = CHR 0x5C then
        (case ps of [] \<Rightarrow> False | q # qs \<Rightarrow> q = c \<and> sql_like qs cs)
      else (p = CHR ''_'' \<or> p = c) \<and> sql_like ps cs)"

definition pick_replacement_battery :: "int \<Rightarrow> string option \<Rightarrow> fleet \<Rightarrow> battery option" where
  "pick_replacement_battery station_id preferred_battery_type f =
     (let t = py_lower (py_strip (case preferred_battery_type of None \<Rightarrow> [] | Some p \<Rightarrow> p));
          eligible = filter (\<lambda>b. station_battery station_id b \<and> b_status b = ''available''
              \<and> 80 \<le> current_charge b \<and> 85 \<le> b_health_percentage b
              \<and> (t = [] \<or> (case b_battery_type b of None \<Rightarrow> False | Some y \<Rightarrow> sql_like t (py_lower y))))
            (batteries f)
      in case sort_key (\<lambda>b. - current_charge b) (sort_key (\<lambda>b. - b_health_percentage b) eligible) of
           [] \<Rightarrow> None | b # bs \<Rightarrow> Some b)"

record swap_init =
  si_station_id :: int
  si_rental_id :: "int option"
  si_new_battery_id :: "int option"
  si_preferred_battery_type :: "string option"

definition choose_replacement :: "swap_init \<Rightarrow> fleet \<Rightarrow> int res" where
  "choose_replacement c f =
     (case si_new_battery_id c of
        Some i \<Rightarrow>
          (case get_row b_id i (batteries f) of
             None \<Rightarrow> Inl (HTTPException 404 ''Requested replacement battery not found'')
           | Some b \<Rightarrow>
               if b_status b \<noteq> ''available'' then
                 Inl (HTTPException 400 ''Requested replacement battery is not available'')
               else if \<not> station_battery (si_station_id c) b then
                 Inl (HTTPException 400 ''Requested replacement battery is not at this station'')
               else Inr i)
      | None \<Rightarrow>
          (case pick_replacement_battery (si_station_id c) (si_preferred_battery_type c) f of
             None \<Rightarrow> Inl (HTTPException 409 ''No eligible charged batteries are available at this station'')
           | Some b \<Rightarrow> Inr (b_id b)))"

text \<open>The handler behind the guard: an open session of the rental is answered again.\<close>

definition open_swap :: "datetime \<Rightarrow> int \<Rightarrow> swap_init \<Rightarrow> swap_db \<Rightarrow> (swap_session \<times> swap_db) res" where
  "open_swap now user_id c s =
     (case get_row st_id (si_station_id c) (stations (rn_fleet (sw_rentals s))) of
        None \<Rightarrow> Inl (HTTPException 404 ''Station not found'')
      | Some st \<Rightarrow>
     (case resolve_active_rental user_id (si_rental_id c) (sw_rentals s) of
        None \<Rightarrow> Inl (HTTPException 404 ''Active rental not found'')
      | Some r \<Rightarrow>
     (case sort_key (\<lambda>x. - ss_created_at x)
            (filter (\<lambda>x. ss_user_id x = user_id \<and> ss_rental_id x = Some (rn_id r)
                         \<and> ss_status x \<in> {''initiated'', ''processing''}) (swaps s)) of
        x # xs \<Rightarrow> Inr (x, s)
      | [] \<Rightarrow>
     (case get_row b_id (rn_battery_id r) (batteries (rn_fleet (sw_rentals s))) of
        None \<Rightarrow> Inl (HTTPException 400 ''Rental battery not found'')
      | Some b \<Rightarrow>
     (case choose_replacement c (rn_fleet (sw_rentals s)) of
        Inl e \<Rightarrow> Inl e
      | Inr new_id \<Rightarrow>
          let x = \<lparr>ss_id = fresh_id ss_id (swaps s), ss_rental_id = Some (rn_id r),
                   ss_user_id = user_id, ss_station_id = si_station_id c,
                   ss_old_battery_id = Some (b_id b), ss_new_battery_id = Some new_id,
                   ss_old_battery_soc = current_charge b, ss_new_battery_soc = 0,
                   ss_swap_amount = calculate_swap_fee (rn_id r), ss_status = ''initiated'',
                   ss_payment_status = ''pending'', ss_created_at = now, ss_completed_at = None\<rparr>
          in Inr (x, s\<lparr>swaps := swaps s @ [x]\<rparr>))))))"

definition initiate_swap ::
    "datetime \<Rightarrow> int \<Rightarrow> swap_init \<Rightarrow> swap_db \<Rightarrow> (swap_session \<times> swap_db) res" where
  "initiate_swap now user_id c s =
     (case is_station_operational now (si_station_id c) s of
        Inl e \<Rightarrow> Inl e
      | Inr (operational, msg) \<Rightarrow>
          if \<not> operational then Inl (HTTPException 400 msg) else open_swap now user_id c s)"

section \<open>Completing a session\<close>

record swap_complete =
  sc_new_battery_id :: int
  sc_new_battery_soc :: rat
  sc_old_battery_soc :: rat

text \<open>\<open>operator\<close> is the outcome of \<open>require_internal_operator\<close> for the caller.\<close>

definition complete_swap ::
    "datetime \<Rightarrow> int \<Rightarrow> bool \<Rightarrow> int \<Rightarrow> swap_complete \<Rightarrow> swap_db \<Rightarrow> (swap_session \<times> swap_db) res" where
  "complete_swap now user_id operator swap_id c s =
     (case get_row ss_id swap_id (swaps s) of
        None \<Rightarrow> Inl (HTTPException 404 ''Session not found'')
      | Some x \<Rightarrow>
          if ss_user_id x \<noteq> user_id \<and> \<not> operator then
            Inl (HTTPException 403 ''insufficient_permissions'')
          else if ss_status x = ''completed'' then Inl (HTTPException 400 ''Swap already completed'')
          else case ss_rental_id x of
                 None \<Rightarrow> Inl (HTTPException 400 ''Swap session is not linked to a rental'')
               | Some rid \<Rightarrow>
                   (case get_row rn_id rid (rentals (sw_rentals s)) of
                      None \<Rightarrow> Inl (HTTPException 404 ''Rental not found'')
                    | Some r \<Rightarrow>
                        if rn_status r \<noteq> ''active'' then
                          Inl (HTTPException 400 ''Rental is not active'')
                        else
                          (case (if sc_new_battery_id c \<noteq> 0 then Some (sc_new_battery_id c)
                                 else ss_new_battery_id x) of
                             None \<Rightarrow> Inl (HTTPException 400 ''Replacement battery is required'')
                           | Some new_id \<Rightarrow>
                               (case execute_swap now rid new_id (ss_station_id x) (sw_rentals s) of
                                  Inl (HTTPException code d) \<Rightarrow> Inl (HTTPException code d)
                                | Inl e \<Rightarrow> Inl (HTTPException 500 ''Swap completion failed: {exc}'')
                                | Inr rs \<Rightarrow>
                                    let x' = x\<lparr>ss_new_battery_id := Some new_id,
                                               ss_old_battery_soc := sc_old_battery_soc c,
                                               ss_new_battery_soc := sc_new_battery_soc c,
                                               ss_swap_amount := calculate_swap_fee rid,
                                               ss_status := ''completed'', ss_payment_status := ''paid'',
                                               ss_completed_at := Some now\<rparr>
                                    in Inr (x', s\<lparr>sw_rentals := rs,
                                                   swaps := put_row ss_id x' (swaps s)\<rparr>)))))"

end
