(* ===== verification/RentalInv.thy ===== *)
theory RentalInv
  imports FleetInv Swaps
begin

text \<open>
  A battery serves one rental at a time: no two open rentals share a battery, the battery of an
  open rental is reserved or deployed, and no user has more open rentals than the settings
  allow. Every step of the rental service keeps that. The price is what the catalogue says, a
  waiver never exceeds what is due, and the findings on promo codes, payments and confirmation
  are theorems.
\<close>

section \<open>Occupancy\<close>

definition is_open :: "rental \<Rightarrow> bool" where
  "is_open r \<longleftrightarrow> rn_status r \<in> {''active'', ''pending_payment'', ''reserved''}"

definition occupied :: "fleet \<Rightarrow> int \<Rightarrow> bool" where
  "occupied f i \<longleftrightarrow> (case get_row b_id i (batteries f) of
     None \<Rightarrow> False | Some b \<Rightarrow> b_status b \<in> {''reserved'', ''deployed''})"

definition rental_inv :: "rental_settings \<Rightarrow> rental_db \<Rightarrow> bool" where
  "rental_inv cfg s \<longleftrightarrow> fleet_inv (rn_fleet s) \<and> distinct (map rn_id (rentals s))
     \<and> distinct (map rn_battery_id (filter is_open (rentals s)))
     \<and> (\<forall>r \<in> set (rentals s). is_open r \<longrightarrow> occupied (rn_fleet s) (rn_battery_id r))
     \<and> (\<forall>u. int (length (open_of_user u s)) \<le> max 1 (cfg_max_active_rentals cfg))"

lemma put_rental_tables [simp]:
  "rentals (put_rental r s) = put_row rn_id r (rentals s)" "rn_fleet (put_rental r s) = rn_fleet s"
  "promo_codes (put_rental r s) = promo_codes s"
  by (simp_all add: put_rental_def)

lemma add_event_tables [simp]:
  "rentals (add_event r e i s) = rentals s" "rn_fleet (add_event r e i s) = rn_fleet s"
  "promo_codes (add_event r e i s) = promo_codes s"
  by (simp_all add: add_event_def)

lemma rental_inv_tables:
  "rentals s' = rentals s \<Longrightarrow> rn_fleet s' = rn_fleet s \<Longrightarrow> rental_inv cfg s' = rental_inv cfg s"
  by (simp add: rental_inv_def open_of_user_def)

lemma move_rental_batteryE:
  assumes "move_rental_battery now b t s = Inr s'"
  obtains f where "apply_battery_transition now b t (rn_fleet s) = Inr f" "s' = s\<lparr>rn_fleet := f\<rparr>"
  using assms by (auto simp: move_rental_battery_def split: sum.splits)

lemma untouched_inv:
  "rentals s' = rentals s \<and> rn_fleet s' = rn_fleet s \<Longrightarrow> rental_inv cfg s \<Longrightarrow> rental_inv cfg s'"
  using rental_inv_tables by blast

text \<open>A rental ends and its battery may move.\<close>

lemma filter_put_row_closed:
  "\<not> P r \<Longrightarrow> filter P (put_row key r t) = filter (\<lambda>q. P q \<and> key q \<noteq> key r) t"
  by (induction t) auto

lemma length_filter_le_filter: "(\<And>x. P x \<Longrightarrow> Q x) \<Longrightarrow> length (filter P t) \<le> length (filter Q t)"
  by (induction t) auto

lemma distinct_map_filter_sub:
  "distinct (map g (filter Q t)) \<Longrightarrow> (\<And>x. P x \<Longrightarrow> Q x) \<Longrightarrow> distinct (map g (filter P t))"
  by (induction t) (auto split: if_splits)

lemma distinct_filter_key:
  "distinct (map g (filter P t)) \<Longrightarrow> q \<in> set t \<Longrightarrow> r \<in> set t \<Longrightarrow> P q \<Longrightarrow> P r \<Longrightarrow> g q = g r \<Longrightarrow> q = r"
  by (auto simp: distinct_map dest: inj_onD)

lemma occupied_other:
  assumes "apply_battery_transition now b t f = Inr f'" "b \<in> set (batteries f)" "i \<noteq> b_id b"
  shows "occupied f' i = occupied f i"
  using transition_get[OF assms(1,2), of i] assms(3) by (simp add: occupied_def)

lemma occupied_moved:
  assumes "apply_battery_transition now b t f = Inr f'" "b \<in> set (batteries f)"
  shows "occupied f' (b_id b) = (target_status b t \<in> {''reserved'', ''deployed''})"
  using transition_get[OF assms, of "b_id b"] by (simp add: occupied_def)

lemma close_rental_inv:
  assumes inv: "rental_inv cfg s" and r: "r \<in> set (rentals s)" "is_open r"
    and r': "rn_id r' = rn_id r" "\<not> is_open r'"
    and f: "f = rn_fleet s \<or> (\<exists>b t. get_row b_id (rn_battery_id r) (batteries (rn_fleet s)) = Some b
        \<and> apply_battery_transition now b t (rn_fleet s) = Inr f)"
    and s': "rentals s' = put_row rn_id r' (rentals s)" "rn_fleet s' = f"
  shows "rental_inv cfg s'"
proof -
  have open_eq: "filter is_open (rentals s') = filter (\<lambda>q. is_open q \<and> rn_id q \<noteq> rn_id r') (rentals s)"
    using filter_put_row_closed[of is_open r' rn_id] r'(2) by (simp add: s')
  have occ: "occupied f (rn_battery_id q)" if q: "q \<in> set (rentals s)" "is_open q" "rn_id q \<noteq> rn_id r" for q
  proof -
    have nb: "rn_battery_id q \<noteq> rn_battery_id r"
      using distinct_filter_key[of rn_battery_id is_open "rentals s" q r] inv r q
      by (auto simp: rental_inv_def)
    have old: "occupied (rn_fleet s) (rn_battery_id q)" using inv q by (auto simp: rental_inv_def)
    show ?thesis using f
    proof (elim disjE exE conjE)
      assume "f = rn_fleet s" then show ?thesis using old by simp
    next
      fix b t assume b: "get_row b_id (rn_battery_id r) (batteries (rn_fleet s)) = Some b"
        "apply_battery_transition now b t (rn_fleet s) = Inr f"
      show ?thesis using occupied_other[OF b(2)] get_row_Some[OF b(1)] nb old by auto
    qed
  qed
  have "occupied f (rn_battery_id q)" if "q \<in> set (rentals s')" "is_open q" for q
    using that in_put_row[of q rn_id r' "rentals s"] occ r' by (auto simp: s')
  moreover have "fleet_inv f" using f inv transition_preserves_fleet_inv
    by (auto simp: rental_inv_def dest!: get_row_Some)
  moreover have "length (open_of_user u s') \<le> length (open_of_user u s)" for u
  proof -
    have "\<not> (rn_user_id r' = u \<and> rn_status r' \<in> {''active'', ''pending_payment''})"
      using r'(2) by (auto simp: is_open_def)
    then show ?thesis unfolding open_of_user_def s'(1)
      by (subst filter_put_row_closed) (auto intro: length_filter_le_filter)
  qed
  then have "int (length (open_of_user u s')) \<le> max 1 (cfg_max_active_rentals cfg)" for u
    using inv by (meson of_nat_mono order_trans rental_inv_def)
  moreover have "distinct (map rn_battery_id (filter is_open (rentals s')))"
    unfolding open_eq using inv by (auto simp: rental_inv_def intro: distinct_map_filter_sub)
  moreover have "distinct (map rn_id (rentals s'))"
    using inv by (simp add: s' rental_inv_def)
  ultimately show ?thesis unfolding rental_inv_def s'(2) by blast
qed

text \<open>A rental keeps its owner, battery and status, whatever else changes in its row.\<close>

lemma edit_rental_inv:
  assumes inv: "rental_inv cfg s" and r: "r \<in> set (rentals s)"
    and r': "rn_id r' = rn_id r" "rn_battery_id r' = rn_battery_id r" "rn_user_id r' = rn_user_id r"
      "is_open r' = is_open r"
      "rn_status r' \<in> {''active'', ''pending_payment''} \<longleftrightarrow> rn_status r \<in> {''active'', ''pending_payment''}"
    and s': "rentals s' = put_row rn_id r' (rentals s)" "rn_fleet s' = rn_fleet s"
  shows "rental_inv cfg s'"
proof -
  have d: "distinct (map rn_id (rentals s))" using inv by (simp add: rental_inv_def)
  have bat: "map rn_battery_id (filter is_open (put_row rn_id r' t))
      = map rn_battery_id (filter is_open t)" if "distinct (map rn_id t)" "r \<in> set t" for t
    using that
  proof (induction t)
    case (Cons x t)
    show ?case
    proof (cases "rn_id x = rn_id r'")
      case True
      then have "x = r" using Cons.prems r'(1) by auto
      moreover have "put_row rn_id r' t = t"
        using Cons.prems True by (intro put_row_notin) simp
      ultimately show ?thesis using True r' by simp
    next
      case False
      then have "r \<in> set t" using Cons.prems r'(1) by auto
      then show ?thesis using Cons False by simp
    qed
  qed simp
  have users: "length (open_of_user u s') = length (open_of_user u s)" for u
    unfolding open_of_user_def s'(1)
    by (rule length_filter_put_row[of _ _ r]) (use d r r' in auto)
  have "occupied (rn_fleet s) (rn_battery_id q)" if "q \<in> set (rentals s')" "is_open q" for q
    using that in_put_row[of q rn_id r' "rentals s"] inv r r' by (auto simp: s' rental_inv_def)
  then show ?thesis using inv users d bat[OF d r] by (simp add: rental_inv_def s')
qed

section \<open>The operations\<close>

lemma cancel_stale_rental_inv:
  assumes "rental_inv cfg s" "r \<in> set (rentals s)" "is_open r"
    and "cancel_stale_rental now r s = Inr s'"
  shows "rental_inv cfg s' \<and> (\<forall>q \<in> set (rentals s). rn_id q \<noteq> rn_id r \<longrightarrow> q \<in> set (rentals s'))"
proof -
  let ?r = "r\<lparr>rn_status := ''cancelled'', rn_end_time := Some now\<rparr>"
  have rows: "rentals s' = put_row rn_id ?r (rentals s)"
    using assms(4) by (auto simp: cancel_stale_rental_def Let_def elim!: move_rental_batteryE
        split: option.splits if_splits)
  have "rn_fleet s' = rn_fleet s \<or> (\<exists>b t. get_row b_id (rn_battery_id r) (batteries (rn_fleet s)) = Some b
        \<and> apply_battery_transition now b t (rn_fleet s) = Inr (rn_fleet s'))"
    using assms(4) by (auto simp: cancel_stale_rental_def Let_def elim!: move_rental_batteryE
        split: option.splits if_splits)
  then have "rental_inv cfg s'"
    by (rule close_rental_inv[OF assms(1-3) _ _ _ rows refl, rotated -1]) (simp_all add: is_open_def)
  then show ?thesis by (auto simp: rows put_row_def image_iff)
qed

lemma cancel_stale_rentals_inv:
  assumes "rental_inv cfg s" "set rs \<subseteq> set (rentals s)" "\<forall>r \<in> set rs. is_open r"
    and "distinct (map rn_id rs)" "fold_res (cancel_stale_rental now) rs s = Inr s'"
  shows "rental_inv cfg s'"
  using assms
proof (induction rs arbitrary: s)
  case Nil
  then show ?case by simp
next
  case (Cons r rs)
  from Cons.prems(5) obtain s1 where s1: "cancel_stale_rental now r s = Inr s1"
    "fold_res (cancel_stale_rental now) rs s1 = Inr s'"
    by (auto split: sum.splits)
  have step: "rental_inv cfg s1 \<and> (\<forall>q \<in> set (rentals s). rn_id q \<noteq> rn_id r \<longrightarrow> q \<in> set (rentals s1))"
    by (rule cancel_stale_rental_inv[OF _ _ _ s1(1)]) (use Cons.prems in auto)
  show ?case
  proof (rule Cons.IH[OF _ _ _ _ s1(2)])
    show "set rs \<subseteq> set (rentals s1)"
    proof
      fix x assume x: "x \<in> set rs"
      then have "rn_id x \<noteq> rn_id r" using Cons.prems(4) by (auto simp: image_iff)
      then show "x \<in> set (rentals s1)" using step Cons.prems(2) x by auto
    qed
  qed (use step Cons.prems in auto)
qed

lemma cleanup_inv:
  assumes "rental_inv cfg s" "cleanup_stale_pending_rentals cfg now u s = Inr (n, s')"
  shows "rental_inv cfg s'"
proof (cases "stale_pending cfg now u s = []")
  case True
  then show ?thesis using assms by (simp add: cleanup_stale_pending_rentals_def)
next
  case False
  then have run: "fold_res (cancel_stale_rental now) (stale_pending cfg now u s) s = Inr s'"
    using assms(2) by (simp add: cleanup_stale_pending_rentals_def Let_def split: sum.splits)
  show ?thesis
  proof (rule cancel_stale_rentals_inv[OF assms(1) _ _ _ run])
    show "distinct (map rn_id (stale_pending cfg now u s))"
      using assms(1) by (auto simp: stale_pending_def Let_def rental_inv_def intro: distinct_map_filter)
  qed (auto simp: stale_pending_def Let_def is_open_def)
qed

lemma reserve_batteryE:
  assumes "reserve_battery cfg now u c s = Inr (r, s')"
  obtains b p f where
    "int (length (open_of_user u s)) < max 1 (cfg_max_active_rentals cfg)"
    "get_row b_id (in_battery_id c) (batteries (rn_fleet s)) = Some b"
    "b_status b \<in> {''ready'', ''available''}"
    "b_location_type b = Some ''station''" "b_location_id b = Some (in_start_station_id c)"
    "max 0 (cfg_min_battery_soc cfg) \<le> py_trunc (current_charge b)"
    "open_of_battery (in_battery_id c) s = []"
    "calculate_price now (in_battery_id c) (in_duration_days c) (in_promo_code c) s = Inr p"
    "r = new_rental now u c p s"
    "rentals s' = rentals s @ [r]" "rn_fleet s' = f"
    "reserve_promo (pr_promo_code_id p) s = Inr (s\<lparr>promo_codes := promo_codes s'\<rparr>)"
    "apply_battery_transition now b (transition_to ''reserved'' ''station'' (Some (in_start_station_id c))
        ''rental_reserved'' (''Reserved for rental #'' @ show_int (rn_id r)) (Some u)) (rn_fleet s) = Inr f"
proof -
  obtain b where b: "get_row b_id (in_battery_id c) (batteries (rn_fleet s)) = Some b"
    using assms by (auto simp: reserve_battery_def split: if_splits option.splits)
  obtain p where p: "calculate_price now (in_battery_id c) (in_duration_days c) (in_promo_code c) s = Inr p"
    using assms b by (auto simp: reserve_battery_def split: if_splits sum.splits)
  obtain s1 where s1: "reserve_promo (pr_promo_code_id p) s = Inr s1"
    using assms b p by (auto simp: reserve_battery_def split: if_splits sum.splits)
  have shape: "\<exists>ps. s1 = s\<lparr>promo_codes := ps\<rparr>"
    using s1 by (cases s) (auto simp: reserve_promo_def split: option.splits if_splits)
  then obtain ps where ps: "s1 = s\<lparr>promo_codes := ps\<rparr>" by blast
  have new: "new_rental now u c p s1 = new_rental now u c p s" by (simp add: ps new_rental_def)
  define r0 where "r0 = new_rental now u c p s"
  have rest: "move_rental_battery now b (transition_to ''reserved'' ''station''
      (Some (in_start_station_id c)) ''rental_reserved''
      (''Reserved for rental #'' @ show_int (rn_id r0)) (Some u)) (s1\<lparr>rentals := rentals s1 @ [r0]\<rparr>) = Inr s'
    \<and> r = r0"
    using assms b p s1 new unfolding reserve_battery_def
    by (auto simp: Let_def r0_def[symmetric] split: if_splits sum.splits)
  then obtain f where f: "apply_battery_transition now b (transition_to ''reserved'' ''station''
      (Some (in_start_station_id c)) ''rental_reserved''
      (''Reserved for rental #'' @ show_int (rn_id r0)) (Some u)) (rn_fleet s) = Inr f"
    "s' = s1\<lparr>rentals := rentals s1 @ [r0], rn_fleet := f\<rparr>"
    by (auto elim!: move_rental_batteryE simp: ps)
  have guards: "int (length (open_of_user u s)) < max 1 (cfg_max_active_rentals cfg)"
    "b_status b \<in> {''ready'', ''available''}"
    "b_location_type b = Some ''station''" "b_location_id b = Some (in_start_station_id c)"
    "max 0 (cfg_min_battery_soc cfg) \<le> py_trunc (current_charge b)"
    "open_of_battery (in_battery_id c) s = []"
    using assms b unfolding reserve_battery_def by (auto simp: not_le not_less split: if_splits)
  have r: "r = r0" using rest by simp
  show thesis
    by (rule that[OF guards(1) b guards(2-6) p _ _ _ _ f(1)[folded r]])
      (use r f s1 ps in \<open>simp_all add: r0_def\<close>)
qed

lemma reserve_battery_inv:
  assumes "rental_inv cfg s" "reserve_battery cfg now u c s = Inr (r, s')"
  shows "rental_inv cfg s'"
  using assms(2)
proof (cases rule: reserve_batteryE)
  case (1 b p f)
  have b: "b \<in> set (batteries (rn_fleet s))" "b_id b = in_battery_id c" using get_row_Some[OF 1(2)] by auto
  have r: "rn_id r = fresh_id rn_id (rentals s)" "rn_battery_id r = in_battery_id c"
    "rn_user_id r = u" "rn_status r = ''pending_payment''"
    by (simp_all add: 1(9) new_rental_def)
  have free: "rn_battery_id q \<noteq> in_battery_id c" if "q \<in> set (rentals s)" "is_open q" for q
    using 1(7) that by (auto simp: open_of_battery_def is_open_def filter_empty_conv)
  have "occupied f (rn_battery_id q)" if q: "q \<in> set (rentals s')" "is_open q" for q
  proof (cases "q = r")
    case True
    then show ?thesis using occupied_moved[OF 1(13) b(1)] b(2) r
      by (simp add: target_status_def transition_to_def)
  next
    case False
    then have old: "q \<in> set (rentals s)" using q 1(10) by auto
    then have "occupied (rn_fleet s) (rn_battery_id q)" using assms(1) q by (auto simp: rental_inv_def)
    then show ?thesis using occupied_other[OF 1(13) b(1)] free[OF old q(2)] b(2) by simp
  qed
  moreover have "fleet_inv f"
    using transition_preserves_fleet_inv[OF _ b(1) 1(13)] assms(1) by (simp add: rental_inv_def)
  moreover have "distinct (map rn_battery_id (filter is_open (rentals s')))"
  proof -
    have "rn_battery_id r \<notin> rn_battery_id ` set (filter is_open (rentals s))"
      using r(2) by (auto dest: free)
    then show ?thesis using assms(1) by (simp add: 1(10) rental_inv_def)
  qed
  moreover have "int (length (open_of_user v s')) \<le> max 1 (cfg_max_active_rentals cfg)" for v
    using assms(1) 1(1) r by (auto simp: 1(10) rental_inv_def open_of_user_def)
  moreover have "distinct (map rn_id (rentals s'))"
    using assms(1) r fresh_id_notin by (simp add: 1(10) rental_inv_def)
  ultimately show ?thesis unfolding rental_inv_def 1(11) by blast
qed

lemma initiate_rental_inv:
  assumes "rental_inv cfg s"
  shows "rental_inv cfg (snd (initiate_rental cfg now u c s))"
  using assms
  by (auto simp: initiate_rental_def split: sum.splits prod.splits
      dest: cleanup_inv intro: reserve_battery_inv)

lemma return_batteryE:
  assumes "return_battery now i st s = Inr (r', s')"
  obtains r b t where "get_row rn_id i (rentals s) = Some r" "rn_status r = ''active''"
    "r' = r\<lparr>rn_status := ''completed'', rn_end_station_id := Some st, rn_end_time := Some now\<rparr>"
    "get_row b_id (rn_battery_id r) (batteries (rn_fleet s)) = Some b"
    "apply_battery_transition now b t (rn_fleet s) = Inr (rn_fleet s')"
    "t_to_status t = Some ''available''"
    "rentals s' = put_row rn_id r' (rentals s)"
  using assms
  by (auto simp: return_battery_def Let_def transition_to_def elim!: move_rental_batteryE
      split: option.splits if_splits sum.splits)

lemma return_battery_inv:
  assumes "rental_inv cfg s" "return_battery now i st s = Inr (r', s')"
  shows "rental_inv cfg s'"
  using assms(2)
proof (cases rule: return_batteryE)
  case (1 r b t)
  show ?thesis
    by (rule close_rental_inv[OF assms(1) conjunct1[OF get_row_Some[OF 1(1)]] _ _ _ _ 1(7) refl, where now = now])
      (use 1 in \<open>auto simp: is_open_def\<close>)
qed

lemma review_extensionE:
  assumes "review_extension now i who ok notes s = Inr (x', s')"
  obtains x r where "get_row ex_id i (extensions s) = Some x" "ex_status x = ''PENDING''"
    "get_row rn_id (ex_rental_id x) (rentals s) = Some r" "rn_fleet s' = rn_fleet s"
    "rentals s' = put_row rn_id (if ok then r\<lparr>rn_end_time := Some (ex_requested_end_date x)\<rparr> else r) (rentals s)"
    "x' = x\<lparr>ex_approved_by := Some who, ex_approved_at := Some now, ex_admin_notes := notes,
            ex_status := (if ok then ''APPROVED'' else ''REJECTED'')\<rparr>"
    "extensions s' = put_row ex_id x' (extensions s)"
  using assms
  by (auto simp: review_extension_def Let_def put_rental_def add_event_def
      split: option.splits if_splits)

lemma review_extension_inv:
  assumes "rental_inv cfg s" "review_extension now i who ok notes s = Inr (x', s')"
  shows "rental_inv cfg s'"
  using assms(2)
proof (cases rule: review_extensionE)
  case (1 x r)
  show ?thesis
    by (rule edit_rental_inv[OF assms(1) conjunct1[OF get_row_Some[OF 1(3)]] _ _ _ _ _ 1(5,4)])
      (simp_all add: is_open_def)
qed

lemma rentals_untouched:
  "request_extension i u d why s = Inr (x, s') \<Longrightarrow> rentals s' = rentals s \<and> rn_fleet s' = rn_fleet s"
  "request_pause i u d1 d2 y s = Inr (z, s') \<Longrightarrow> rentals s' = rentals s \<and> rn_fleet s' = rn_fleet s"
  "review_pause now i u ok notes s = Inr (z, s') \<Longrightarrow> rentals s' = rentals s \<and> rn_fleet s' = rn_fleet s"
  "resume_pause now i u s = Inr (z, s') \<Longrightarrow> rentals s' = rentals s \<and> rn_fleet s' = rn_fleet s"
  "request_late_fee_waiver i u a y s = Inr (v, s') \<Longrightarrow> rentals s' = rentals s \<and> rn_fleet s' = rn_fleet s"
  "review_late_fee_waiver now i u ok aa notes s = Inr (v, s') \<Longrightarrow> rentals s' = rentals s \<and> rn_fleet s' = rn_fleet s"
  by (auto simp: request_extension_def request_pause_def review_pause_def resume_pause_def
      request_late_fee_waiver_def review_late_fee_waiver_def Let_def
      split: option.splits sum.splits if_splits)

text \<open>A swap: the rental goes on with a battery that no open rental holds.\<close>

lemma execute_swapE:
  assumes "execute_swap now i bid st s = Inr s'"
  obtains r old b f1 b1 t1 t2 where "get_row rn_id i (rentals s) = Some r" "rn_status r = ''active''"
    "get_row b_id (rn_battery_id r) (batteries (rn_fleet s)) = Some old"
    "get_row b_id bid (batteries (rn_fleet s)) = Some b" "b_status b = ''available''"
    "station_battery st b"
    "t1 = transition_to ''available'' ''station'' (Some st) ''swap_returned''
       (''Swap return for rental #'' @ show_int i @ '' at station #'' @ show_int st) None"
    "apply_battery_transition now old t1 (rn_fleet s) = Inr f1"
    "get_row b_id bid (batteries f1) = Some b1"
    "t2 = transition_to ''deployed'' ''customer'' None ''swap_dispensed''
       (''Swap dispense for rental #'' @ show_int i @ '' at station #'' @ show_int st) None"
    "apply_battery_transition now b1 t2 f1 = Inr (rn_fleet s')"
    "rentals s' = put_row rn_id (r\<lparr>rn_battery_id := bid\<rparr>) (rentals s)"
  using assms
  by (auto simp: execute_swap_def swap_batteries_def Let_def
      elim!: move_rental_batteryE split: option.splits sum.splits if_splits)

lemma execute_swap_extensions: "execute_swap now i bid st s = Inr s' \<Longrightarrow> extensions s' = extensions s"
  by (auto simp: execute_swap_def swap_batteries_def put_rental_def Let_def
      elim!: move_rental_batteryE split: option.splits sum.splits if_splits)

lemma filter_put_row_open:
  assumes "distinct (map key t)" "q \<in> set t" "key r = key q" "P r" "P q"
    and "distinct (map g (filter P t))" "g r \<notin> set (map g (filter P t))"
  shows "distinct (map g (filter P (put_row key r t)))"
  using assms
proof (induction t)
  case Nil
  then show ?case by simp
next
  case (Cons x t)
  have sub: "set (map g (filter P (put_row key r u))) \<subseteq> insert (g r) (set (map g (filter P u)))" for u
    by (induction u) auto
  show ?case
  proof (cases "key x = key r")
    case True
    then have "x = q" using Cons.prems by auto
    moreover have "put_row key r t = t" using Cons.prems True by (intro put_row_notin) simp
    ultimately show ?thesis using True Cons.prems by simp
  next
    case False
    then have "distinct (map g (filter P (put_row key r t)))" using Cons by (auto split: if_splits)
    moreover have "P x \<Longrightarrow> g x \<notin> set (map g (filter P (put_row key r t)))"
      using sub[of t] Cons.prems(6,7) by (auto split: if_splits)
    ultimately show ?thesis using False by auto
  qed
qed

lemma execute_swap_inv:
  assumes inv: "rental_inv cfg s" and "execute_swap now i bid st s = Inr s'"
  shows "rental_inv cfg s'"
  using assms(2)
proof (cases rule: execute_swapE)
  case (1 r old b f1 b1 t1 t2)
  let ?r = "r\<lparr>rn_battery_id := bid\<rparr>"
  have r: "r \<in> set (rentals s)" "rn_id r = i" using get_row_Some[OF 1(1)] by auto
  have open_r: "is_open r" "is_open ?r" using 1(2) by (simp_all add: is_open_def)
  have old: "old \<in> set (batteries (rn_fleet s))" "b_id old = rn_battery_id r" using get_row_Some[OF 1(3)] by auto
  have b1: "b1 \<in> set (batteries f1)" "b_id b1 = bid" using get_row_Some[OF 1(9)] by auto
  have ids: "distinct (map rn_id (rentals s))"
    and bats: "distinct (map rn_battery_id (filter is_open (rentals s)))"
    and occ: "\<And>q. q \<in> set (rentals s) \<Longrightarrow> is_open q \<Longrightarrow> occupied (rn_fleet s) (rn_battery_id q)"
    using inv by (auto simp: rental_inv_def)
  have "\<not> occupied (rn_fleet s) bid" using 1(4,5) by (simp add: occupied_def)
  then have free: "rn_battery_id q \<noteq> bid" if "q \<in> set (rentals s)" "is_open q" for q
    using occ[OF that] by auto
  have occ': "occupied (rn_fleet s') (rn_battery_id q)" if q: "q \<in> set (rentals s')" "is_open q" for q
  proof (cases "q = ?r")
    case True
    then show ?thesis using occupied_moved[OF 1(11) b1(1)] b1(2) 1(10)
      by (simp add: target_status_def transition_to_def)
  next
    case False
    then have q': "q \<in> set (rentals s)" "rn_id q \<noteq> rn_id r"
      using q(1) in_put_row[of q rn_id ?r "rentals s"] 1(12) by auto
    then have "rn_battery_id q \<noteq> rn_battery_id r"
      using distinct_filter_key[OF bats q'(1) r(1) q(2) open_r(1)] by auto
    then have "occupied f1 (rn_battery_id q)"
      using occupied_other[OF 1(8) old(1)] old(2) occ[OF q'(1) q(2)] by simp
    then show ?thesis using occupied_other[OF 1(11) b1(1)] b1(2) free[OF q'(1) q(2)] by simp
  qed
  have "fleet_inv (rn_fleet s')"
    using transition_preserves_fleet_inv[OF _ old(1) 1(8)] transition_preserves_fleet_inv[OF _ b1(1) 1(11)] inv
    by (simp add: rental_inv_def)
  moreover have "distinct (map rn_battery_id (filter is_open (rentals s')))"
    unfolding 1(12) by (rule filter_put_row_open[OF ids r(1)]) (use open_r bats free in auto)
  moreover have "length (open_of_user u s') = length (open_of_user u s)" for u
    unfolding open_of_user_def 1(12) by (rule length_filter_put_row[OF ids r(1)]) simp_all
  ultimately show ?thesis using occ' inv ids unfolding rental_inv_def 1(12) by simp
qed

section \<open>The service as a step relation\<close>

text \<open>
  One step commits the outcome of one request: of a customer, of the clean-up job or of an
  administrator.
\<close>

inductive rental_step :: "rental_settings \<Rightarrow> rental_db \<Rightarrow> rental_db \<Rightarrow> bool" for cfg where
  cleanup: "cleanup_stale_pending_rentals cfg now u s = Inr (n, s') \<Longrightarrow> rental_step cfg s s'"
| initiate: "rental_step cfg s (snd (initiate_rental cfg now u c s))"
| confirm: "confirm_rental i u s = Inr (r', s') \<Longrightarrow> rental_step cfg s s'"
| terminate: "terminate_rental now i s = Inr (r', s') \<Longrightarrow> rental_step cfg s s'"
| give_back: "rental_step cfg s (snd (return_rental_battery now i st u s))"
| ask_extension: "request_extension i u d why s = Inr (x, s') \<Longrightarrow> rental_step cfg s s'"
| answer_extension: "review_extension now i u ok notes s = Inr (x, s') \<Longrightarrow> rental_step cfg s s'"
| ask_pause: "request_pause i u d1 d2 y s = Inr (z, s') \<Longrightarrow> rental_step cfg s s'"
| answer_pause: "review_pause now i u ok notes s = Inr (z, s') \<Longrightarrow> rental_step cfg s s'"
| resume: "resume_pause now i u s = Inr (z, s') \<Longrightarrow> rental_step cfg s s'"
| ask_waiver: "request_late_fee_waiver i u a y s = Inr (v, s') \<Longrightarrow> rental_step cfg s s'"
| swap: "execute_swap now i bid st s = Inr s' \<Longrightarrow> rental_step cfg s s'"
| answer_waiver: "review_late_fee_waiver now i u ok aa notes s = Inr (v, s') \<Longrightarrow> rental_step cfg s s'"
| grant_waiver: "review_waiver now u i st ag notes s = Inr (v, s') \<Longrightarrow> rental_step cfg s s'"

inductive_cases rental_stepE: "rental_step cfg s s'"

text \<open>
  The confirm endpoint activates a rental whatever its status, also one that is over. A step is
  orderly when it does not bring a rental back in this way.
\<close>

definition running :: "rental \<Rightarrow> bool" where
  "running r \<longleftrightarrow> rn_status r \<in> {''active'', ''pending_payment''}"

definition reopens :: "rental_db \<Rightarrow> rental_db \<Rightarrow> bool" where
  "reopens s s' \<longleftrightarrow> (\<exists>q \<in> set (rentals s). \<not> running q
     \<and> (\<exists>r \<in> set (rentals s'). rn_id r = rn_id q \<and> running r))"

definition orderly_step :: "rental_settings \<Rightarrow> rental_db \<Rightarrow> rental_db \<Rightarrow> bool" where
  "orderly_step cfg s s' \<longleftrightarrow> rental_step cfg s s' \<and> \<not> reopens s s'"

lemma confirm_rentalE:
  assumes "confirm_rental i u s = Inr (r', s')"
  obtains r where "get_row rn_id i (rentals s) = Some r" "r' = r\<lparr>rn_status := ''active''\<rparr>"
    "s' = put_rental r' s"
  using assms by (auto simp: confirm_rental_def Let_def split: option.splits if_splits)

lemma confirm_running:
  assumes "confirm_rental i u s = Inr (r', s')" "get_row rn_id i (rentals s) = Some r" "\<not> reopens s s'"
  shows "running r"
proof (rule ccontr)
  assume closed: "\<not> running r"
  have r: "r \<in> set (rentals s)" using get_row_Some [OF assms(2)] by simp
  from assms(1) have "r' \<in> set (rentals s') \<and> rn_id r' = rn_id r \<and> running r'"
    by (elim confirm_rentalE) (use assms(2) r in \<open>auto simp: running_def put_row_def image_iff\<close>)
  with closed r have "reopens s s'" by (auto simp: reopens_def)
  with assms(3) show False by simp
qed

lemma confirm_rental_inv:
  assumes "rental_inv cfg s" "confirm_rental i u s = Inr (r', s')" "\<not> reopens s s'"
  shows "rental_inv cfg s'"
  using assms(2)
proof (cases rule: confirm_rentalE)
  case (1 r)
  have "running r" by (rule confirm_running [OF assms(2) 1(1) assms(3)])
  then show ?thesis
    by (intro edit_rental_inv[OF assms(1) conjunct1[OF get_row_Some[OF 1(1)]], where r' = r'])
      (simp_all add: 1(2,3) is_open_def running_def, blast)
qed

lemma terminate_rentalE:
  assumes "terminate_rental now i s = Inr (r', s')"
  obtains r where "get_row rn_id i (rentals s) = Some r"
    "r' = r\<lparr>rn_status := ''cancelled'', rn_end_time := Some now\<rparr>" "s' = put_rental r' s"
  using assms by (auto simp: terminate_rental_def Let_def split: option.splits if_splits)

lemma terminate_rental_inv:
  assumes "rental_inv cfg s" "terminate_rental now i s = Inr (r', s')"
  shows "rental_inv cfg s'"
  using assms(2)
proof (cases rule: terminate_rentalE)
  case (1 r)
  have r: "r \<in> set (rentals s)" using get_row_Some [OF 1(1)] by simp
  show ?thesis
  proof (cases "is_open r")
    case True
    show ?thesis
      by (rule close_rental_inv [OF assms(1) r True, where r' = r' and f = "rn_fleet s"])
        (simp_all add: 1(2,3) is_open_def)
  next
    case False
    show ?thesis
      by (rule edit_rental_inv [OF assms(1) r, where r' = r'])
        (use False in \<open>simp_all add: 1(2,3) is_open_def\<close>)
  qed
qed

lemma review_waiver_rentals:
  "review_waiver now u i st a notes s = Inr (v, s') \<Longrightarrow> rentals s' = rentals s \<and> rn_fleet s' = rn_fleet s"
  "review_waiver now u i st a notes s = Inr (v, s') \<Longrightarrow> rentals s' = rentals s \<and> extensions s' = extensions s"
  by (auto simp: review_waiver_def Let_def split: option.splits if_splits)

lemma return_endpoint_inv:
  assumes "rental_inv cfg s"
  shows "rental_inv cfg (snd (return_rental_battery now i st u s))"
  using assms by (auto simp: return_rental_battery_def split: sum.splits prod.splits
      intro: return_battery_inv)

lemma rental_step_inv: "rental_step cfg s s' \<Longrightarrow> \<not> reopens s s' \<Longrightarrow> rental_inv cfg s \<Longrightarrow> rental_inv cfg s'"
proof (induction rule: rental_step.induct)
  case (cleanup now u s n s')
  show ?case by (rule cleanup_inv [OF cleanup(3,1)])
next
  case (initiate s now u c)
  then show ?case by (intro initiate_rental_inv)
next
  case (confirm i u s r' s')
  then show ?case using confirm_rental_inv by blast
next
  case (terminate now i s r' s')
  then show ?case using terminate_rental_inv by blast
next
  case (give_back s now i st u)
  then show ?case by (intro return_endpoint_inv)
next
  case answer_extension
  then show ?case using review_extension_inv by blast
next
  case swap
  then show ?case using execute_swap_inv by blast
next
  case grant_waiver
  then show ?case using review_waiver_rentals(1) untouched_inv by blast
qed (rule untouched_inv, erule rentals_untouched, assumption)+

lemma rental_run_inv:
  "(orderly_step cfg)\<^sup>*\<^sup>* s s' \<Longrightarrow> rental_inv cfg s \<Longrightarrow> rental_inv cfg s'"
  by (induction rule: rtranclp_induct) (auto simp: orderly_step_def intro: rental_step_inv)

section \<open>Prices and promo codes\<close>

lemma check_promo_found:
  assumes "check_promo now code days rent s = Inr (d, pid)"
  obtains p where "p \<in> set (promo_codes s)" "py_upper (pc_code p) = py_upper (py_strip code)"
    "pid = Some (pc_id p)" "pc_is_active p" "promo_discount p rent = Inr d"
    "0 < pc_usage_limit p \<longrightarrow> pc_usage_count p < pc_usage_limit p"
  using assms
  by (auto simp: check_promo_def Let_def not_le not_less dest!: find_Some
      split: if_splits option.splits sum.splits)

lemma promo_discount_zero:
  assumes "promo_discount p rent = Inr d"
  shows "pc_discount_amount p \<le> 0 \<and> pc_discount_percentage p \<le> 0 \<and> d = min 0 rent"
  using assms by (auto simp: promo_discount_def Let_def min_def split: if_splits option.splits)

lemma promo_discount_raises:
  "0 < pc_discount_amount p \<or> 0 < pc_discount_percentage p \<Longrightarrow>
   \<exists>m. promo_discount p rent = Inl (TypeError m)"
  by (auto simp: promo_discount_def)

definition catalogue_rate :: "battery \<Rightarrow> rental_db \<Rightarrow> rat" where
  "catalogue_rate b s = (case b_sku_id b of None \<Rightarrow> 0
     | Some k \<Rightarrow> if k = 0 then 0 else (case get_row ct_id k (catalogs s) of None \<Rightarrow> 0 | Some c \<Rightarrow> ct_price_per_day c))"

lemma calculate_priceE:
  assumes "calculate_price now i days code s = Inr p"
  obtains b d where "get_row b_id i (batteries (rn_fleet s)) = Some b" "0 < days"
    "pr_rental_cost p = ctx (catalogue_rate b s * of_int days)"
    "pr_deposit p = ctx (purchase_cost b / 10)" "pr_discount p = d"
    "d = 0 \<or> d = min 0 (pr_rental_cost p)"
    "pr_total_payable p = ctx (ctx (pr_rental_cost p - d) + pr_deposit p)"
  using assms
  by (auto simp: calculate_price_def Let_def catalogue_rate_def not_le elim!: check_promo_found
      dest!: promo_discount_zero split: if_splits option.splits sum.splits)

text \<open>The counter of a limited promo code stays within its limit.\<close>

definition promos_ok :: "rental_db \<Rightarrow> bool" where
  "promos_ok s \<longleftrightarrow> (\<forall>p \<in> set (promo_codes s). 0 < pc_usage_limit p \<longrightarrow> pc_usage_count p \<le> pc_usage_limit p)"

lemma reserve_promo_ok: "promos_ok s \<Longrightarrow> reserve_promo i s = Inr s' \<Longrightarrow> promos_ok s'"
  by (auto simp: reserve_promo_def take_promo_slot_def Let_def promos_ok_def split: option.splits if_splits)

lemma cleanup_tables:
  assumes "cleanup_stale_pending_rentals cfg now u s = Inr (n, s')"
  shows "promo_codes s' = promo_codes s \<and> extensions s' = extensions s"
proof -
  have step: "promo_codes s2 = promo_codes s1 \<and> extensions s2 = extensions s1"
    if "cancel_stale_rental now r s1 = Inr s2" for r s1 s2
    using that by (auto simp: cancel_stale_rental_def Let_def put_rental_def add_event_def
        elim!: move_rental_batteryE split: option.splits if_splits)
  have "fold_res (cancel_stale_rental now) rs s1 = Inr s2 \<Longrightarrow>
      promo_codes s2 = promo_codes s1 \<and> extensions s2 = extensions s1" for rs s1 s2
    by (induction rs arbitrary: s1) (auto dest: step split: sum.splits)
  then show ?thesis using assms
    by (auto simp: cleanup_stale_pending_rentals_def Let_def split: if_splits sum.splits)
qed

lemma initiate_promos_ok:
  assumes "promos_ok s"
  shows "promos_ok (snd (initiate_rental cfg now u c s))"
proof (cases "cleanup_stale_pending_rentals cfg now (Some u) s")
  case (Inl e)
  then show ?thesis using assms by (simp add: initiate_rental_def)
next
  case (Inr x)
  obtain n s1 where x: "x = (n, s1)" by force
  have ok1: "promos_ok s1"
    using cleanup_tables[OF Inr[unfolded x]] assms by (simp add: promos_ok_def)
  show ?thesis
  proof (cases "reserve_battery cfg now u c s1")
    case (Inl e)
    then show ?thesis using Inr x ok1 by (simp add: initiate_rental_def)
  next
    case (Inr y)
    obtain r s2 where y: "y = (r, s2)" by force
    have "promos_ok s2" using Inr[unfolded y]
    proof (cases rule: reserve_batteryE)
      case (1 b p f)
      then show ?thesis using reserve_promo_ok[OF ok1 1(12)] by (simp add: promos_ok_def)
    qed
    then show ?thesis using \<open>cleanup_stale_pending_rentals cfg now (Some u) s = Inr x\<close> Inr x y
      by (simp add: initiate_rental_def)
  qed
qed

section \<open>No rental has a scheduled end\<close>

text \<open>
  Only the answer to an extension request, the clean-up and the return set \<open>end_time\<close>, and an
  extension can be requested only when it is set: from an empty table none ever is.
\<close>

definition unscheduled :: "rental_db \<Rightarrow> bool" where
  "unscheduled s \<longleftrightarrow> extensions s = []
     \<and> (\<forall>r \<in> set (rentals s). rn_status r \<in> {''active'', ''pending_payment''} \<longrightarrow> rn_end_time r = None)"

lemma unscheduled_no_extension:
  assumes "unscheduled s"
  shows "\<exists>e. request_extension i u d why s = Inl e"
proof (cases "get_row rn_id i (rentals s)")
  case None
  then show ?thesis by (simp add: request_extension_def)
next
  case (Some r)
  then show ?thesis using assms get_row_Some[OF Some]
    by (auto simp: request_extension_def unscheduled_def)
qed

lemma unscheduled_put:
  assumes "unscheduled s" "extensions s' = extensions s" "rentals s' = put_row rn_id r (rentals s)"
    and "rn_status r \<in> {''active'', ''pending_payment''} \<longrightarrow> rn_end_time r = None"
  shows "unscheduled s'"
  using assms by (auto simp: unscheduled_def dest!: in_put_row)

lemma cancel_unscheduled:
  assumes "unscheduled s" "cancel_stale_rental now r s = Inr s'"
  shows "unscheduled s'"
  by (rule unscheduled_put[OF assms(1), where r = "r\<lparr>rn_status := ''cancelled'', rn_end_time := Some now\<rparr>"])
    (use assms(2) in \<open>auto simp: cancel_stale_rental_def Let_def put_rental_def add_event_def
       elim!: move_rental_batteryE split: option.splits if_splits\<close>)

interpretation cancel_all: preserving_step "cancel_stale_rental now" unscheduled for now
  by unfold_locales (rule cancel_unscheduled)

lemma cleanup_unscheduled:
  "unscheduled s \<Longrightarrow> cleanup_stale_pending_rentals cfg now u s = Inr (n, s') \<Longrightarrow> unscheduled s'"
  by (auto simp: cleanup_stale_pending_rentals_def Let_def intro: cancel_all.fold_preserves
      split: if_splits sum.splits)

lemma reserve_extensions:
  assumes "reserve_battery cfg now u c s = Inr (r, s')"
  shows "extensions s' = extensions s"
proof -
  have p: "extensions s1 = extensions s" if "reserve_promo i s = Inr s1" for i s1
    using that by (auto simp: reserve_promo_def split: option.splits if_splits)
  show ?thesis using assms
    by (auto simp: reserve_battery_def Let_def elim!: move_rental_batteryE dest!: p
        split: if_splits option.splits sum.splits)
qed

lemma reserve_unscheduled:
  assumes "unscheduled s" "reserve_battery cfg now u c s = Inr (r, s')"
  shows "unscheduled s'"
  using assms(2)
proof (cases rule: reserve_batteryE)
  case (1 b p f)
  then show ?thesis using assms(1) reserve_extensions[OF assms(2)]
    by (auto simp: unscheduled_def new_rental_def)
qed

lemma return_unscheduled:
  assumes "unscheduled s" "return_battery now i st s = Inr (r', s')"
  shows "unscheduled s'"
proof -
  have x: "extensions s' = extensions s" using assms(2)
    by (auto simp: return_battery_def Let_def put_rental_def add_event_def elim!: move_rental_batteryE
        split: option.splits if_splits sum.splits)
  show ?thesis using assms(2)
  proof (cases rule: return_batteryE)
    case (1 r b t)
    show ?thesis by (rule unscheduled_put[OF assms(1) x 1(7)]) (simp add: 1(3))
  qed
qed

lemma rental_step_unscheduled:
  "rental_step cfg s s' \<Longrightarrow> \<not> reopens s s' \<Longrightarrow> unscheduled s \<Longrightarrow> unscheduled s'"
proof (induction rule: rental_step.induct)
  case (cleanup now u s n s')
  show ?case by (rule cleanup_unscheduled [OF cleanup(3,1)])
next
  case (initiate s now u c)
  then show ?case
    by (auto simp: initiate_rental_def split: sum.splits prod.splits
        dest: cleanup_unscheduled intro: reserve_unscheduled)
next
  case (confirm i u s r' s')
  from confirm(1) show ?case
  proof (cases rule: confirm_rentalE)
    case (1 r)
    have "running r" by (rule confirm_running [OF confirm(1) 1(1) confirm(2)])
    then have "rn_end_time r = None"
      using confirm(3) get_row_Some [OF 1(1)] by (auto simp: unscheduled_def running_def)
    then show ?thesis using confirm(3)
      by (intro unscheduled_put [of s s' r']) (simp_all add: 1(2,3) put_rental_def)
  qed
next
  case (terminate now i s r' s')
  from terminate(1) show ?case
  proof (cases rule: terminate_rentalE)
    case (1 r)
    show ?thesis using terminate(3)
      by (intro unscheduled_put [of s s' r']) (simp_all add: 1(2,3) put_rental_def)
  qed
next
  case (give_back s now i st u)
  then show ?case by (auto simp: return_rental_battery_def split: sum.splits prod.splits
      intro: return_unscheduled)
next
  case (ask_extension i u d why s x s')
  then show ?case using unscheduled_no_extension by (metis sum.distinct(1))
next
  case (swap now i bid st s s')
  from swap(1) show ?case
  proof (cases rule: execute_swapE)
    case (1 r old b f1 b1 t1 t2)
    show ?thesis
      by (rule unscheduled_put[OF swap(3) execute_swap_extensions[OF swap(1)] 1(12)])
        (use swap(3) 1(2) get_row_Some[OF 1(1)] in \<open>auto simp: unscheduled_def\<close>)
  qed
next
  case answer_extension
  then show ?case by (auto simp: review_extension_def unscheduled_def)
next
  case grant_waiver
  then show ?case using review_waiver_rentals(2) by (auto simp: unscheduled_def)
qed (auto simp: request_pause_def review_pause_def resume_pause_def request_late_fee_waiver_def
  review_late_fee_waiver_def Let_def unscheduled_def add_event_def
  split: option.splits sum.splits if_splits)

lemma rental_run_unscheduled:
  "(orderly_step cfg)\<^sup>*\<^sup>* s s' \<Longrightarrow> unscheduled s \<Longrightarrow> unscheduled s'"
  by (induction rule: rtranclp_induct) (auto simp: orderly_step_def intro: rental_step_unscheduled)

section \<open>Waivers\<close>

lemma rental_money_paise [simp]: "fits28 c \<Longrightarrow> rental_money (of_int c / 100) = Inr c"
  by (simp add: rental_money_def rental_to_money_def)

lemma review_waiverE:
  assumes "review_late_fee_waiver now i who True a notes s = Inr (v', s')"
  obtains v fee waived due t fee' where "get_row wv_id i (waivers s) = Some v" "wv_status v = ''PENDING''"
    "get_row lf_id (wv_late_fee_id v) (late_fees s) = Some fee"
    "rental_money (lf_amount_waived fee) = Inr waived"
    "rental_money (lf_amount_outstanding fee) = Inr due" "0 < t" "t \<le> due"
    "fee' = fee\<lparr>lf_amount_waived := of_int (waived + t) / 100,
                lf_amount_outstanding := of_int (due - t) / 100,
                lf_payment_status := (if due - t = 0 then ''WAIVED'' else ''PARTIAL'')\<rparr>"
    "late_fees s' = put_row lf_id fee' (late_fees s)" "wv_status v' = ''APPROVED''"
    "waivers s' = put_row wv_id v' (waivers s)" "wv_id v' = wv_id v"
  using assms
  by (auto simp: review_late_fee_waiver_def Let_def waive_fee_def not_le not_less
      split: option.splits sum.splits if_splits)

section \<open>A concrete rental\<close>

definition sample_start :: rental_db where
  "sample_start = \<lparr>rn_fleet = sample_fleet\<lparr>batteries :=
       [(sample_battery 1 ''A'')\<lparr>b_location_type := Some ''station'', b_location_id := Some 1,
          b_station_id := Some 1, b_sku_id := Some 1, purchase_cost := 1000\<rparr>]\<rparr>,
     rentals = [], rental_events = [], catalogs = [\<lparr>ct_id = 1, ct_price_per_day = 50\<rparr>],
     promo_codes = [\<lparr>pc_id = 1, pc_code = ''TEN'', pc_discount_amount = 10, pc_discount_percentage = 0,
        pc_max_discount_amount = None, pc_min_order_amount = 0, pc_min_rental_days = 0,
        pc_is_active = True, pc_valid_from = 0, pc_valid_until = None, pc_usage_limit = 5,
        pc_usage_count = 0\<rparr>,
       \<lparr>pc_id = 2, pc_code = ''NIL'', pc_discount_amount = 0, pc_discount_percentage = 0,
        pc_max_discount_amount = None, pc_min_order_amount = 0, pc_min_rental_days = 0,
        pc_is_active = True, pc_valid_from = 0, pc_valid_until = None, pc_usage_limit = 1,
        pc_usage_count = 0\<rparr>],
     extensions = [], pauses = [],
     late_fees = [\<lparr>lf_id = 1, lf_rental_id = 1, lf_user_id = 7, lf_original_end_date = 0,
        lf_days_overdue = 0, lf_daily_rate = 50, lf_base_late_fee = 50, lf_total_late_fee = 50,
        lf_amount_paid = 0, lf_amount_waived = 0, lf_amount_outstanding = 50,
        lf_payment_status = ''PENDING'', lf_updated_at = 0\<rparr>],
     waivers = [\<lparr>wv_id = 1, wv_late_fee_id = 1, wv_user_id = 7, wv_requested_amount = 20,
        wv_reason = ''x'', wv_status = ''PENDING'', wv_approved_amount = None, wv_rejection_reason = None,
        wv_reviewed_by = None, wv_reviewed_at = None, wv_admin_notes = None\<rparr>]\<rparr>"

definition sample_cfg_rentals :: rental_settings where
  "sample_cfg_rentals = \<lparr>cfg_pending_timeout_minutes = 30, cfg_max_active_rentals = 1, cfg_min_battery_soc = 20\<rparr>"

definition sample_request :: "string option \<Rightarrow> rental_create" where
  "sample_request code = \<lparr>in_battery_id = 1, in_start_station_id = 1, in_duration_days = 2, in_promo_code = code\<rparr>"

lemmas rental_eval = fleet_eval sample_start_def sample_cfg_rentals_def sample_request_def
  initiate_rental_def cleanup_stale_pending_rentals_def stale_pending_def reserve_battery_def
  open_of_user_def open_of_battery_def calculate_price_def reserve_promo_def new_rental_def
  move_rental_battery_def truthy_str_def check_promo_def promo_discount_def take_promo_slot_def
  py_trunc_def get_transfer_eligible_station_def confirm_rental_def return_battery_def
  put_rental_def add_event_def

lemma sample_start_inv: "rental_inv cfg sample_start"
  by (simp add: rental_inv_def fleet_eval sample_start_def open_of_user_def)

lemma sample_initiate: "\<exists>r s. initiate_rental sample_cfg_rentals 5 7 (sample_request None) sample_start = (Inr r, s)
    \<and> rentals s = [r] \<and> rn_user_id r = 7 \<and> rn_status r = ''pending_payment'' \<and> rn_battery_id r = 1"
  by (simp add: rental_eval)

lemma sample_initiate_step:
  assumes "initiate_rental sample_cfg_rentals 5 7 (sample_request None) sample_start = (Inr r, s)"
  shows "(orderly_step sample_cfg_rentals)\<^sup>*\<^sup>* sample_start s"
proof -
  have "rental_step sample_cfg_rentals sample_start s"
    using rental_step.initiate [of sample_cfg_rentals sample_start 5 7 "sample_request None"] assms by simp
  moreover have "\<not> reopens sample_start s" by (simp add: reopens_def sample_start_def)
  ultimately show ?thesis by (simp add: orderly_step_def r_into_rtranclp)
qed

lemma sample_rent: "\<not> ctx 100 < 0" "\<not> ctx (50 * 2) < 0" "0 \<le> ctx 100" "0 \<le> ctx (50 * 2)"
  using ctx_nonneg[of 100] by simp_all

section \<open>Properties\<close>



text \<open>
  What the condition excludes: a customer confirms a rental that is over, for instance a reservation
  the clean-up cancelled, after its battery went to another rental, and both are open.
\<close>

lemma reopened_rental_shares_battery:
  assumes "get_row rn_id i (rentals s) = Some q" "r \<in> set (rentals s)" "is_open r" "rn_id r \<noteq> i"
    and "rn_battery_id q = rn_battery_id r"
  shows "\<exists>q' s'. confirm_rental i (rn_user_id q) s = Inr (q', s') \<and> rental_step cfg s s'
    \<and> q' \<in> set (rentals s') \<and> r \<in> set (rentals s') \<and> q' \<noteq> r \<and> is_open q' \<and> is_open r
    \<and> rn_battery_id q' = rn_battery_id r"
proof -
  have q: "q \<in> set (rentals s)" "rn_id q = i" using get_row_Some [OF assms(1)] by simp_all
  let ?q = "q\<lparr>rn_status := ''active''\<rparr>"
  have run: "confirm_rental i (rn_user_id q) s = Inr (?q, put_rental ?q s)"
    using assms(1) by (simp add: confirm_rental_def Let_def)
  moreover have "?q \<in> set (rentals (put_rental ?q s))" "r \<in> set (rentals (put_rental ?q s))"
    using q assms(2,4) by (auto simp: put_row_def image_iff)
  moreover have "is_open ?q" "rn_battery_id ?q = rn_battery_id r" "?q \<noteq> r"
    using assms(4,5) q(2) by (auto simp: is_open_def)
  ultimately show ?thesis using rental_step.confirm [OF run] assms(3) by blast
qed

text \<open>
  A reservation that succeeds took a battery that was ready at the requested
  station, with enough charge and no open rental, for a user below the limit; it ends up
  reserved at that station, and the rental awaits the payment of the computed price.
\<close>

lemma reservation_is_sound:
  assumes "reserve_battery cfg now u c s = Inr (r, s')"
  shows "\<exists>b p. get_row b_id (in_battery_id c) (batteries (rn_fleet s)) = Some b
    \<and> b_status b \<in> {''ready'', ''available''} \<and> b_location_id b = Some (in_start_station_id c)
    \<and> max 0 (cfg_min_battery_soc cfg) \<le> py_trunc (current_charge b)
    \<and> open_of_battery (in_battery_id c) s = []
    \<and> int (length (open_of_user u s)) < max 1 (cfg_max_active_rentals cfg)
    \<and> calculate_price now (in_battery_id c) (in_duration_days c) (in_promo_code c) s = Inr p
    \<and> rn_total_amount r = pr_total_payable p \<and> rn_status r = ''pending_payment''
    \<and> rn_expected_end_time r = now + in_duration_days c * day
    \<and> (\<exists>b'. get_row b_id (in_battery_id c) (batteries (rn_fleet s')) = Some b'
         \<and> b_status b' = ''reserved'' \<and> b_location_id b' = Some (in_start_station_id c))"
  using assms
proof (cases rule: reserve_batteryE)
  case (1 b p f)
  have b: "b \<in> set (batteries (rn_fleet s))" "b_id b = in_battery_id c" using get_row_Some[OF 1(2)] by auto
  have moved: "get_row b_id (in_battery_id c) (batteries (rn_fleet s')) = Some (moved_battery b
      (transition_to ''reserved'' ''station'' (Some (in_start_station_id c)) ''rental_reserved''
        (''Reserved for rental #'' @ show_int (rn_id r)) (Some u)) (serial_key b) now)"
    using transition_get[OF 1(13) b(1), of "in_battery_id c"] b(2) by (simp add: 1(11))
  have r: "rn_total_amount r = pr_total_payable p" "rn_status r = ''pending_payment''"
    "rn_expected_end_time r = now + in_duration_days c * day"
    by (simp_all add: 1(9) new_rental_def)
  show ?thesis
    by (rule exI[of _ b], rule exI[of _ p])
      (use 1(1-8) r moved in \<open>simp add: target_status_def target_location_id_def
        target_location_type_def transition_to_def location_types_without_id_def\<close>)
qed

lemma reservation_is_sound_witness:
  "\<exists>r s'. reserve_battery sample_cfg_rentals 5 7 (sample_request None) sample_start = Inr (r, s')
     \<and> rn_expected_end_time r = 5 + 2 * day"
proof -
  obtain r s' where run: "reserve_battery sample_cfg_rentals 5 7 (sample_request None) sample_start = Inr (r, s')"
    by (simp add: rental_eval)
  show ?thesis using reservation_is_sound[OF run] run by (auto simp: sample_request_def)
qed

text \<open>
  A computed price is the catalogue's daily rate times the days plus a
  tenth of the purchase cost, at the precision of Decimal, and never contains a discount, with
  or without a promo code.
\<close>

lemma price_is_catalogue_price:
  assumes "calculate_price now i days code s = Inr p"
    and "\<forall>b \<in> set (batteries (rn_fleet s)). 0 \<le> ctx (catalogue_rate b s * of_int days)"
  shows "\<exists>b \<in> set (batteries (rn_fleet s)). b_id b = i \<and> 0 < days \<and> pr_discount p = 0
    \<and> pr_rental_cost p = ctx (catalogue_rate b s * of_int days)
    \<and> pr_deposit p = ctx (purchase_cost b / 10)
    \<and> pr_total_payable p = ctx (ctx (pr_rental_cost p) + pr_deposit p)"
  using assms(1)
proof (cases rule: calculate_priceE)
  case (1 b d)
  have b: "b \<in> set (batteries (rn_fleet s))" "b_id b = i" using get_row_Some[OF 1(1)] by auto
  then have "d = 0" using 1(3,6) assms(2) by auto
  then show ?thesis using 1 b by auto
qed

lemma price_is_catalogue_price_witness:
  "\<exists>p. calculate_price 5 1 2 (Some ''NIL'') sample_start = Inr p \<and> pr_promo_code_id p = Some 2
     \<and> pr_discount p = 0"
proof -
  obtain p where run: "calculate_price 5 1 2 (Some ''NIL'') sample_start = Inr p" "pr_promo_code_id p = Some 2"
    by (simp add: rental_eval sample_rent)
  have "\<forall>b \<in> set (batteries (rn_fleet sample_start)). 0 \<le> ctx (catalogue_rate b sample_start * of_int 2)"
    by (simp add: sample_start_def sample_battery_def catalogue_rate_def sample_rent)
  from price_is_catalogue_price[OF run(1) this] run show ?thesis by auto
qed

text \<open>
  A promo code that grants a discount makes the price computation raise a
  TypeError: its columns are floats, which Python does not add to or multiply with a Decimal.
\<close>

lemma discounts_always_fail:
  assumes "0 < pc_discount_amount p \<or> 0 < pc_discount_percentage p"
    and "List.find (\<lambda>p. py_upper (pc_code p) = py_upper (py_strip code)) (promo_codes s) = Some p"
    and "get_row b_id i (batteries (rn_fleet s)) \<noteq> None" "0 < days"
  shows "\<exists>e. calculate_price now i days (Some code) s = Inl e
    \<and> ((\<exists>m. e = TypeError m) \<or> (\<exists>d. e = HTTPException 400 d)) \<or> py_strip code = []"
proof (cases "py_strip code = []")
  case False
  then have code: "code \<noteq> []" by auto
  obtain b where b: "get_row b_id i (batteries (rn_fleet s)) = Some b" using assms(3) by blast
  have "\<exists>e. check_promo now code days rent s = Inl e
      \<and> ((\<exists>m. e = TypeError m) \<or> (\<exists>d. e = HTTPException 400 d))" for rent
    using promo_discount_raises[OF assms(1), of rent] assms(2) False
    by (auto simp: check_promo_def Let_def)
  then obtain e where e: "check_promo now code days (ctx (catalogue_rate b s * of_int days)) s = Inl e"
    "(\<exists>m. e = TypeError m) \<or> (\<exists>d. e = HTTPException 400 d)" by blast
  have "calculate_price now i days (Some code) s = Inl e"
    using e(1) code b assms(4)
    by (simp add: calculate_price_def Let_def truthy_str_def catalogue_rate_def)
  then show ?thesis using e(2) by blast
qed simp

lemma discounts_always_fail_witness:
  "\<exists>m. calculate_price 5 1 2 (Some ''TEN'') sample_start = Inl (TypeError m)"
proof -
  have "\<exists>e. calculate_price 5 1 2 (Some ''TEN'') sample_start = Inl e
    \<and> ((\<exists>m. e = TypeError m) \<or> (\<exists>d. e = HTTPException 400 d)) \<or> py_strip ''TEN'' = []"
    by (rule discounts_always_fail[where p = "hd (promo_codes sample_start)"])
      (simp_all add: sample_start_def fleet_eval)
  then show ?thesis by (simp add: rental_eval sample_rent)
qed

text \<open>
  However many rentals are initiated, the usage counter of a limited promo code
  stays within its limit.
\<close>

lemma promo_limit_kept:
  assumes "promos_ok s"
  shows "promos_ok (fold (\<lambda>(now, u, c) s. snd (initiate_rental cfg now u c s)) xs s)"
  using assms by (induction xs arbitrary: s) (auto intro: initiate_promos_ok)

lemma promo_limit_kept_witness:
  "promos_ok (fold (\<lambda>(now, u, c) s. snd (initiate_rental sample_cfg_rentals now u c s))
      [(5, 7, sample_request (Some ''NIL'')), (6, 8, sample_request (Some ''NIL''))] sample_start)"
  by (rule promo_limit_kept) (simp add: promos_ok_def sample_start_def)

text \<open>
  The paid path never activates a rental: the payment order and the
  verified confirmation raise for every rental, user, signature check and payment.
\<close>

lemma verified_payment_never_confirms:
  "(\<exists>e. create_rental_payment_order i u s = Inl e)
   \<and> (\<exists>e. confirm_rental_verified verify i u oid pid signature s = Inl e)"
  by (auto simp: create_rental_payment_order_def confirm_rental_verified_def
      split: option.splits sum.splits)

text \<open>
  The confirm endpoint activates any rental of its owner, whatever
  its state and without a payment, and leaves its battery where it is.
\<close>

lemma confirmation_needs_no_payment:
  assumes "get_row rn_id i (rentals s) = Some r" "rn_user_id r = u"
  shows "\<exists>s'. confirm_rental i u s = Inr (r\<lparr>rn_status := ''active''\<rparr>, s') \<and> rn_fleet s' = rn_fleet s
    \<and> get_row rn_id i (rentals s') = Some (r\<lparr>rn_status := ''active''\<rparr>)"
  using assms get_row_Some[OF assms(1)] by (simp add: confirm_rental_def Let_def get_put)

lemma confirmation_needs_no_payment_witness:
  "\<exists>s r s1 r' s'. initiate_rental sample_cfg_rentals 5 7 (sample_request None) sample_start = (Inr r, s)
     \<and> cleanup_stale_pending_rentals sample_cfg_rentals (5 + 60 * minute) None s = Inr (1, s1)
     \<and> confirm_rental 1 7 s1 = Inr (r', s') \<and> rn_status r' = ''active''
     \<and> map b_status (batteries (rn_fleet s')) = [''available'']"
proof -
  obtain r s s1 q where run: "initiate_rental sample_cfg_rentals 5 7 (sample_request None) sample_start = (Inr r, s)"
    "cleanup_stale_pending_rentals sample_cfg_rentals (5 + 60 * minute) None s = Inr (1, s1)"
    "get_row rn_id 1 (rentals s1) = Some q" "rn_user_id q = 7"
    "map b_status (batteries (rn_fleet s1)) = [''available'']"
    by (simp add: rental_eval cancel_stale_rental_def)
  show ?thesis using confirmation_needs_no_payment[OF run(3,4)] run
    by - (rule exI[of _ s], rule exI[of _ r], rule exI[of _ s1], auto)
qed

text \<open>
  The return endpoint answers a user who does not own the rental with 403, after
  the return has been committed: the rental is completed.
\<close>

lemma stranger_can_return:
  assumes "return_battery now i st s = Inr (r, s')" "rn_user_id r \<noteq> u"
  shows "return_rental_battery now i st u s = (Inl (HTTPException 403 ''Not authorized''), s')
    \<and> (\<exists>q. get_row rn_id i (rentals s) = Some q \<and> rn_status q = ''active''
         \<and> get_row rn_id i (rentals s') = Some r \<and> rn_status r = ''completed'')"
  using assms(1)
proof (cases rule: return_batteryE)
  case (1 q b t)
  show ?thesis using assms 1(1,2,3,7) get_row_Some[OF 1(1)]
    by (simp add: return_rental_battery_def get_put)
qed

lemma stranger_can_return_witness:
  "\<exists>s s'. map rn_status (rentals s) = [''active''] \<and> map rn_user_id (rentals s) = [7]
     \<and> return_rental_battery 9 1 1 8 s = (Inl (HTTPException 403 ''Not authorized''), s')
     \<and> map rn_status (rentals s') = [''completed'']"
proof -
  obtain r s q s1 r' s2 where run: "initiate_rental sample_cfg_rentals 5 7 (sample_request None) sample_start = (Inr r, s)"
    "confirm_rental 1 7 s = Inr (q, s1)" "return_battery 9 1 1 s1 = Inr (r', s2)" "rn_user_id r' \<noteq> 8"
    "map rn_status (rentals s1) = [''active'']" "map rn_user_id (rentals s1) = [7]"
    "map rn_status (rentals s2) = [''completed'']"
    by (simp add: rental_eval)
  show ?thesis using stranger_can_return[OF run(3,4)] run(5-7)
    by - (rule exI[of _ s1], rule exI[of _ s2], simp)
qed

text \<open>
  From empty tables, no run of the rental service that reopens nothing ever accepts an extension
  request: an active rental has no scheduled end, which the request needs.
\<close>

lemma extensions_unreachable:
  assumes "rentals s = []" "extensions s = []" "(orderly_step cfg)\<^sup>*\<^sup>* s s'"
  shows "\<exists>e. request_extension i u d why s' = Inl e"
  using unscheduled_no_extension[OF rental_run_unscheduled[OF assms(3)]] assms(1,2)
  by (simp add: unscheduled_def)

lemma extensions_unreachable_witness:
  "\<exists>s'. (orderly_step sample_cfg_rentals)\<^sup>*\<^sup>* sample_start s' \<and> rentals s' \<noteq> []
     \<and> (\<exists>e. request_extension 1 7 999 None s' = Inl e)"
proof -
  obtain r s where run: "initiate_rental sample_cfg_rentals 5 7 (sample_request None) sample_start = (Inr r, s)"
    "rentals s = [r]"
    using sample_initiate by (elim exE conjE)
  have step: "(orderly_step sample_cfg_rentals)\<^sup>*\<^sup>* sample_start s"
    by (rule sample_initiate_step [OF run(1)])
  have "\<exists>e. request_extension 1 7 999 None s = Inl e"
    by (rule extensions_unreachable[OF _ _ step]) (simp_all add: sample_start_def)
  then show ?thesis using step run by (intro exI[of _ s]) simp
qed

text \<open>
  An approved waiver moves a positive amount of at most what is outstanding from
  outstanding to waived: their sum stays, nothing becomes negative, and the fee counts as
  waived exactly when nothing is left.
\<close>

lemma waiver_conserves_fee:
  assumes "review_late_fee_waiver now i who True a notes s = Inr (v, s')"
  shows "\<exists>fee fee' waived due. fee \<in> set (late_fees s) \<and> late_fees s' = put_row lf_id fee' (late_fees s)
    \<and> lf_id fee' = lf_id fee
    \<and> rental_money (lf_amount_waived fee) = Inr waived \<and> rental_money (lf_amount_outstanding fee) = Inr due
    \<and> lf_amount_waived fee' + lf_amount_outstanding fee' = of_int (waived + due) / 100
    \<and> 0 \<le> lf_amount_outstanding fee' \<and> of_int waived / 100 < lf_amount_waived fee'
    \<and> (lf_payment_status fee' = ''WAIVED'' \<longleftrightarrow> lf_amount_outstanding fee' = 0)"
  using assms
proof (cases rule: review_waiverE)
  case (1 w fee waived due t fee')
  have "lf_amount_waived fee' + lf_amount_outstanding fee' = of_int (waived + due) / 100"
    unfolding 1(8) by (simp add: field_simps)
  moreover have "0 \<le> lf_amount_outstanding fee'" using 1(7) by (simp add: 1(8))
  moreover have "of_int waived / 100 < lf_amount_waived fee'" using 1(6) by (simp add: 1(8) field_simps)
  moreover have "lf_payment_status fee' = ''WAIVED'' \<longleftrightarrow> lf_amount_outstanding fee' = 0"
    unfolding 1(8) by simp
  moreover have "fee \<in> set (late_fees s)" "lf_id fee' = lf_id fee"
    using get_row_Some[OF 1(3)] by (simp_all add: 1(8))
  ultimately show ?thesis using 1(4,5,9) by blast
qed

lemma waiver_conserves_fee_witness:
  "\<exists>v s'. review_late_fee_waiver 9 1 2 True None None sample_start = Inr (v, s')
     \<and> (\<exists>fee'. late_fees s' = [fee'] \<and> lf_amount_waived fee' + lf_amount_outstanding fee' = 50)"
proof -
  have m: "rental_money 50 = Inr 5000" "rental_money 20 = Inr 2000" "rental_money 0 = Inr 0"
    using rental_money_paise[of 5000] rental_money_paise[of 2000] rental_money_paise[of 0]
    by (simp_all add: fits28_def)
  obtain v s' where run: "review_late_fee_waiver 9 1 2 True None None sample_start = Inr (v, s')"
    by (simp add: review_late_fee_waiver_def sample_start_def m waive_fee_def Let_def)
  show ?thesis using waiver_conserves_fee[OF run] run
    by (auto simp: sample_start_def m)
qed

end
