(* ===== verification/OrderText.thy ===== *)
theory OrderText
  imports Fleet
begin

text \<open>
  The texts of dealer orders (\<open>app/api/v1/orders.py\<close>): the many spellings of a status and
  their canonical form, the normalisation of the fields of a request, and the description of a
  dispatch, in which the source of a battery is written and later found again by a regular
  expression.
\<close>

section \<open>Statuses\<close>

definition valid_order_statuses :: "string list" where
  "valid_order_statuses = [''pending'', ''in_transit'', ''delivered'', ''failed'', ''cancelled'']"

definition valid_order_priorities :: "string list" where
  "valid_order_priorities = [''urgent'', ''normal'', ''low'']"

definition valid_transitions :: "(string \<times> string list) list" where
  "valid_transitions =
     [(''pending'', [''in_transit'', ''cancelled'']),
      (''in_transit'', [''delivered'', ''failed'', ''cancelled'']),
      (''failed'', [''pending'']), (''delivered'', []), (''cancelled'', [])]"

definition order_status_equivalents :: "(string \<times> string list) list" where
  "order_status_equivalents =
     [(''pending'', [''pending'', ''assigned'', ''new'']),
      (''in_transit'',
        [''in_transit'', ''in-transit'', ''in transit'', ''in_progress'', ''in-progress'', ''in progress'',
         ''out_for_delivery'', ''out-for-delivery'', ''out for delivery'', ''intransit'', ''inprogress'',
         ''outfordelivery'', ''dispatched'']),
      (''delivered'', [''delivered'', ''completed'', ''complete'', ''done'']),
      (''failed'', [''failed'', ''failure'', ''delivery_failed'', ''delivery-failed'']),
      (''cancelled'', [''cancelled'', ''canceled'', ''cancelled_order'', ''canceled_order''])]"

definition active_driver_order_statuses_db :: "string list" where
  "active_driver_order_statuses_db =
     concat (map (\<lambda>s. the (map_of order_status_equivalents s)) [''pending'', ''in_transit''])"

definition terminal_statuses :: "string list" where
  "terminal_statuses = [''delivered'', ''failed'', ''cancelled'']"

definition transferable_battery_statuses :: "string list" where
  "transferable_battery_statuses = [''available'', ''new'', ''ready'']"

definition status_mapping :: "(string \<times> string) list" where
  "status_mapping =
     [(''pending'', ''pending''), (''assigned'', ''pending''), (''new'', ''pending''),
      (''intransit'', ''in_transit''), (''inprogress'', ''in_transit''),
      (''outfordelivery'', ''in_transit''), (''dispatched'', ''in_transit''),
      (''delivered'', ''delivered''), (''completed'', ''delivered''), (''complete'', ''delivered''),
      (''done'', ''delivered''), (''failed'', ''failed''), (''failure'', ''failed''),
      (''deliveryfailed'', ''failed''), (''cancelled'', ''cancelled''), (''canceled'', ''cancelled''),
      (''cancelledorder'', ''cancelled''), (''canceledorder'', ''cancelled'')]"

definition canonical_order_status :: "string \<Rightarrow> string" where
  "canonical_order_status raw_status =
     (let status = py_strip raw_status
      in if status = [] then []
         else let normalized = py_lower (underscored status);
                  compact = filter (\<lambda>c. c \<noteq> CHR ''_'') normalized
              in case map_of status_mapping compact of Some s \<Rightarrow> s | None \<Rightarrow> normalized)"

definition status_aliases_for :: "string \<Rightarrow> string list" where
  "status_aliases_for canonical_status =
     (case map_of order_status_equivalents canonical_status of
        Some aliases \<Rightarrow> canonical_status # aliases | None \<Rightarrow> [canonical_status])"

definition validate_status_transition :: "string \<Rightarrow> string \<Rightarrow> unit res" where
  "validate_status_transition order_status new_status =
     (let current_status = canonical_order_status order_status;
          target_status = canonical_order_status new_status
      in if target_status \<notin> set valid_order_statuses then
           Inl (HTTPException 400 ''Invalid status. Must be one of: {VALID_ORDER_STATUSES}'')
         else if target_status
                  \<notin> set (case map_of valid_transitions current_status of None \<Rightarrow> [] | Some a \<Rightarrow> a) then
           Inl (HTTPException 400 ''Cannot transition from '{current_status}' to '{target_status}' '')
         else Inr ())"

text \<open>The values of the driver status column, and the canonical one.\<close>

definition driver_status_map :: "(string \<times> string) list" where
  "driver_status_map =
     [(''available'', ''available''), (''onroute'', ''onRoute''), (''busy'', ''busy''),
      (''offline'', ''offline''), (''breaktime'', ''break_time'')]"

definition canonical_driver_status :: "string \<Rightarrow> string" where
  "canonical_driver_status raw_status =
     (let status = py_strip raw_status
      in if status = [] then []
         else let compact_key = py_lower (filter (\<lambda>c. c \<noteq> CHR ''_'') (underscored status))
              in case map_of driver_status_map compact_key of Some s \<Rightarrow> s | None \<Rightarrow> status)"

section \<open>Request fields\<close>

definition parse_int32_id_candidate :: "string \<Rightarrow> int option" where
  "parse_int32_id_candidate raw_driver_id =
     (let clean = py_strip raw_driver_id;
          clean_id = (if starts_with ''D-'' (py_upper clean) then py_strip (drop 2 clean) else clean)
      in if \<not> py_isdigit clean_id then None
         else let parsed_id = int (read_nat clean_id)
              in if parsed_id < 1 \<or> 2147483647 < parsed_id then None else Some parsed_id)"

definition parse_driver_id :: "string \<Rightarrow> int res" where
  "parse_driver_id raw_driver_id =
     (let clean = py_strip raw_driver_id;
          clean_id = (if starts_with ''D-'' (py_upper clean) then py_strip (drop 2 clean) else clean)
      in if \<not> py_isdigit clean_id then Inl (HTTPException 400 ''Invalid driver ID format'')
         else let parsed_id = int (read_nat clean_id)
              in if parsed_id < 1 \<or> 2147483647 < parsed_id then
                   Inl (HTTPException 400 ''Driver ID is out of supported range for numeric primary keys'')
                 else Inr parsed_id)"

text \<open>
  The values of a driver reference that a request names, in the order in which the handler
  looks at them (query parameters, then fields of the body); a JSON \<open>true\<close> is refused, any other
  value is its text.
\<close>

datatype driver_token = TokenBool | TokenText string

definition normalize_driver_lookup_token :: "driver_token \<Rightarrow> string res" where
  "normalize_driver_lookup_token raw =
     (case raw of
        TokenBool \<Rightarrow> Inl (HTTPException 422 ''driver_id must be a string or number'')
      | TokenText t \<Rightarrow>
          if py_strip t = [] then Inl (HTTPException 422 ''driver_id must not be empty'')
          else Inr (py_strip t))"

definition extract_driver_reference :: "driver_token list \<Rightarrow> string res" where
  "extract_driver_reference candidates =
     (case map_res normalize_driver_lookup_token candidates of
        Inl e \<Rightarrow> Inl e
      | Inr values \<Rightarrow>
          (case values of
             [] \<Rightarrow> Inl (HTTPException 422 ''driver_id is required in query or JSON body'')
           | v # vs \<Rightarrow>
               if list_ex (\<lambda>w. w \<noteq> v) vs then
                 Inl (HTTPException 422 ''Conflicting driver_id values provided in query/body'')
               else Inr v))"

text \<open>The set of candidates, as the list of its insertions without repetition.\<close>

definition phone_candidates :: "string \<Rightarrow> string list" where
  "phone_candidates raw_phone =
     (if raw_phone = [] then []
      else
        let stripped = py_strip raw_phone;
            ds = filter digit_char stripped;
            last_ten = drop (length ds - 10) ds
        in filter (\<lambda>c. c \<noteq> [])
             (remdups ([stripped, ds]
               @ (if ds = [] then []
                  else (CHR ''+'' # ds)
                    # (if 10 \<le> length ds then [last_ten, ''+91'' @ last_ten] else [])))))"

definition normalize_customer_phone :: "string option \<Rightarrow> string option res" where
  "normalize_customer_phone raw_phone =
     (case raw_phone of
        None \<Rightarrow> Inr None
      | Some raw \<Rightarrow>
          let cleaned = filter digit_char (py_strip raw)
          in if cleaned = [] then Inl (HTTPException 400 ''customer_phone must contain digits'')
             else if length cleaned < 10 \<or> 15 < length cleaned then
               Inl (HTTPException 400 ''customer_phone must have between 10 and 15 digits'')
             else Inr (Some cleaned))"

definition normalize_destination :: "string option \<Rightarrow> string res" where
  "normalize_destination raw_destination =
     (let destination = py_strip (case raw_destination of None \<Rightarrow> [] | Some d \<Rightarrow> d)
      in if destination = [] then Inl (HTTPException 400 ''destination is required'')
         else if 255 < length destination then
           Inl (HTTPException 400 ''destination must be 255 characters or fewer'')
         else Inr destination)"

definition normalize_customer_name :: "string option \<Rightarrow> string res" where
  "normalize_customer_name raw_customer_name =
     (let customer_name = py_strip (case raw_customer_name of
            None \<Rightarrow> ''Walk-in Customer'' | Some n \<Rightarrow> if n = [] then ''Walk-in Customer'' else n)
      in if customer_name = [] then Inl (HTTPException 400 ''customer_name is required'')
         else if 120 < length customer_name then
           Inl (HTTPException 400 ''customer_name must be 120 characters or fewer'')
         else Inr customer_name)"

definition normalize_order_notes :: "string option \<Rightarrow> string option res" where
  "normalize_order_notes raw_notes =
     (case raw_notes of
        None \<Rightarrow> Inr None
      | Some raw \<Rightarrow>
          let notes = py_strip raw
          in if notes = [] then Inr None
             else if 2000 < length notes then
               Inl (HTTPException 400 ''notes must be 2000 characters or fewer'')
             else Inr (Some notes))"

definition normalize_pod_media_url :: "string option \<Rightarrow> bool \<Rightarrow> string option res" where
  "normalize_pod_media_url raw_url required =
     (let value = (case raw_url of None \<Rightarrow> [] | Some u \<Rightarrow> py_strip u)
      in if value = [] then
           (if required then Inl (HTTPException 400 ''{field_name} is required for proof of delivery'')
            else Inr None)
         else
           let lowered = py_lower value
           in if list_ex (\<lambda>p. starts_with p lowered) [''file://'', ''content://'', ''blob:'', ''data:''] then
                Inl (HTTPException 400 ''{field_name} must be a backend-hosted or HTTPS URL'')
              else if starts_with ''uploads/'' value then Inr (Some (CHR ''/'' # value))
              else if starts_with ''/'' value then Inr (Some value)
              else if list_ex (\<lambda>p. starts_with p lowered) [''http://'', ''https://''] then Inr (Some value)
              else Inl (HTTPException 400 ''{field_name} must be an absolute path or a full HTTPS URL''))"

definition normalize_tracking_number :: "string option \<Rightarrow> string \<Rightarrow> string res" where
  "normalize_tracking_number raw_tracking_number order_id =
     (let tracking_number = py_upper (py_strip (case raw_tracking_number of None \<Rightarrow> [] | Some t \<Rightarrow> t))
      in if tracking_number \<noteq> [] then
           (if 64 < length tracking_number then
              Inl (HTTPException 400 ''tracking_number must be 64 characters or fewer'')
            else Inr tracking_number)
         else Inr (''TRK-'' @ order_id))"

definition normalize_order_priority :: "string option \<Rightarrow> string res" where
  "normalize_order_priority raw_priority =
     (let priority = py_lower (py_strip (case raw_priority of
            None \<Rightarrow> ''normal'' | Some p \<Rightarrow> if p = [] then ''normal'' else p))
      in if priority \<notin> set valid_order_priorities then
           Inl (HTTPException 400 ''Invalid priority '{raw_priority}'. Allowed: {VALID_ORDER_PRIORITIES}'')
         else Inr priority)"

definition normalize_total_value :: "rat option \<Rightarrow> rat res" where
  "normalize_total_value raw_total_value =
     (let normalized = (case raw_total_value of None \<Rightarrow> 0 | Some v \<Rightarrow> v)
      in if normalized < 0 then Inl (HTTPException 400 ''total_value cannot be negative'')
         else Inr normalized)"

definition finite_coordinate :: "decimal option \<Rightarrow> rat option res" where
  "finite_coordinate value =
     (case value of
        None \<Rightarrow> Inr None
      | Some (Finite x) \<Rightarrow> Inr (Some x)
      | Some _ \<Rightarrow> Inl (HTTPException 400 ''{field_name} must be a finite number''))"

definition normalize_order_coordinates ::
    "decimal option \<Rightarrow> decimal option \<Rightarrow> (rat option \<times> rat option) res" where
  "normalize_order_coordinates raw_latitude raw_longitude =
     (case finite_coordinate raw_latitude of
        Inl e \<Rightarrow> Inl e
      | Inr latitude \<Rightarrow>
          (case finite_coordinate raw_longitude of
             Inl e \<Rightarrow> Inl e
           | Inr longitude \<Rightarrow>
               if (latitude = None) \<noteq> (longitude = None) then
                 Inl (HTTPException 400 ''latitude and longitude must be provided together'')
               else if (case latitude of None \<Rightarrow> False | Some x \<Rightarrow> x < -90 \<or> 90 < x) then
                 Inl (HTTPException 400 ''latitude must be between -90 and 90'')
               else if (case longitude of None \<Rightarrow> False | Some x \<Rightarrow> x < -180 \<or> 180 < x) then
                 Inl (HTTPException 400 ''longitude must be between -180 and 180'')
               else Inr (latitude, longitude)))"

section \<open>The source of a dispatch\<close>

definition build_dispatch_event_description :: "string \<Rightarrow> string \<Rightarrow> int option \<Rightarrow> string" where
  "build_dispatch_event_description order_id source_location_type source_location_id =
     (let source_token = (case source_location_id of
            Some i \<Rightarrow> source_location_type @ '':'' @ show_int i | None \<Rightarrow> source_location_type);
          source_label = (case source_location_id of
            Some i \<Rightarrow> source_location_type @ '' #'' @ show_int i | None \<Rightarrow> source_location_type)
      in ''event=dispatched;order='' @ order_id @ '';source='' @ source_token
           @ ''; note=Dispatched with order '' @ order_id @ '' from '' @ source_label)"

text \<open>
  The two regular expressions, which ignore case. \<open>after\<close> matches a literal, \<open>location_group\<close> the
  group \<open>location_type\<close> (no alternative is a prefix of another), \<open>digits\<close> the group \<open>\d+\<close>. A
  match needs no backtracking: a shorter run of digits or blanks is followed by a digit or a
  blank, which the rest of the pattern does not accept.
\<close>

definition after :: "string \<Rightarrow> string \<Rightarrow> string option" where
  "after p s = (if starts_with p (py_lower s) then Some (drop (length p) s) else None)"

fun location_group :: "string list \<Rightarrow> string \<Rightarrow> (string \<times> string) option" where
  "location_group [] s = None"
| "location_group (t # ts) s =
     (case after t s of Some rest \<Rightarrow> Some (t, rest) | None \<Rightarrow> location_group ts s)"

definition dispatch_source_types :: "string list" where
  "dispatch_source_types = [''warehouse'', ''station'', ''shelf'', ''customer'']"

definition digits :: "string \<Rightarrow> (int \<times> string) option" where
  "digits s = (let d = takeWhile digit_char s
               in if d = [] then None else Some (int (read_nat d), drop (length d) s))"

definition separator :: "char \<Rightarrow> bool" where
  "separator c \<longleftrightarrow> c = CHR '';'' \<or> c = CHR ''|'' \<or> is_space c"

definition at_end :: "string \<Rightarrow> bool" where
  "at_end s \<longleftrightarrow> (case s of [] \<Rightarrow> True | c # cs \<Rightarrow> separator c)"

text \<open>\<open>_DISPATCH_SOURCE_MACHINE_PATTERN\<close> after its first, empty or separating, part.\<close>

definition match_machine :: "string \<Rightarrow> (string \<times> int option) option" where
  "match_machine s =
     (case after ''source='' s of
        None \<Rightarrow> None
      | Some s1 \<Rightarrow>
          (case location_group dispatch_source_types s1 of
             None \<Rightarrow> None
           | Some (t, s2) \<Rightarrow>
               (case (case after '':'' s2 of None \<Rightarrow> None | Some s3 \<Rightarrow> digits s3) of
                  Some (i, s4) \<Rightarrow> if at_end s4 then Some (t, Some i) else None
                | None \<Rightarrow> if at_end s2 then Some (t, None) else None)))"

text \<open>The search from the second character on: a match begins behind a separator.\<close>

fun search_machine :: "string \<Rightarrow> (string \<times> int option) option" where
  "search_machine [] = None"
| "search_machine (c # cs) =
     (case (if separator c then match_machine cs else None) of
        Some m \<Rightarrow> Some m | None \<Rightarrow> search_machine cs)"

text \<open>\<open>_DISPATCH_SOURCE_PATTERN\<close>\<close>

definition match_legacy :: "string \<Rightarrow> (string \<times> int option) option" where
  "match_legacy s =
     (case after ''from'' s of
        None \<Rightarrow> None
      | Some s1 \<Rightarrow>
          if \<not> (case s1 of [] \<Rightarrow> False | c # cs \<Rightarrow> is_space c) then None
          else
            (case location_group dispatch_source_types (dropWhile is_space s1) of
               None \<Rightarrow> None
             | Some (t, s2) \<Rightarrow>
                 (case (if \<not> (case s2 of [] \<Rightarrow> False | c # cs \<Rightarrow> is_space c) then None
                        else case after ''#'' (dropWhile is_space s2) of
                               None \<Rightarrow> None | Some s3 \<Rightarrow> digits s3) of
                    Some (i, s4) \<Rightarrow> Some (t, Some i) | None \<Rightarrow> Some (t, None))))"

fun search_legacy :: "string \<Rightarrow> (string \<times> int option) option" where
  "search_legacy [] = None"
| "search_legacy (c # cs) =
     (case match_legacy (c # cs) of Some m \<Rightarrow> Some m | None \<Rightarrow> search_legacy cs)"

definition extract_dispatch_source_from_event :: "string option \<Rightarrow> (string \<times> int option) option" where
  "extract_dispatch_source_from_event description =
     (case description of
        None \<Rightarrow> None
      | Some d \<Rightarrow>
          (case (case match_machine d of Some m \<Rightarrow> Some m | None \<Rightarrow> search_machine d) of
             Some m \<Rightarrow> Some m
           | None \<Rightarrow> search_legacy d))"

definition mentions_order :: "string \<Rightarrow> string \<Rightarrow> bool" where
  "mentions_order order_id description \<longleftrightarrow>
     (let value = py_lower description
      in is_infix (py_lower (''order='' @ order_id)) value
         \<or> is_infix (py_lower (''order '' @ order_id)) value)"

end
