(* ===== verification/Orders.thy ===== *)
theory Orders
  imports OrderText
begin

text \<open>
  Dealer orders (\<open>app/api/v1/orders.py\<close>): creation with the reservation of the batteries, the
  status machine with its effect on batteries and drivers, proof of delivery, driver assignment,
  scheduling and returns, on the tables of the record \<open>fleet\<close>.

  Requests carry no \<open>Idempotency-Key\<close>. The event for connected clients, the cache and the
  messages that are sent after a commit are left out: they change none of these tables. All
  \<open>utcnow()\<close> of one request are its time \<open>now\<close>; the database does not round a value, and a
  table has no columns beyond those of the models, so the lookups in legacy columns find none.
\<close>

section \<open>Orders and drivers\<close>

definition nonempty_str :: "string option \<Rightarrow> bool" where
  "nonempty_str v \<longleftrightarrow> v \<noteq> None \<and> v \<noteq> Some []"

definition resolve_order_for_assignment :: "fleet \<Rightarrow> string \<Rightarrow> order option" where
  "resolve_order_for_assignment f order_reference =
     (let reference = py_strip order_reference
      in if reference = [] then None
         else case get_row o_id reference (orders f) of
                Some r \<Rightarrow> Some r
              | None \<Rightarrow> List.find (\<lambda>r. o_tracking_number r = Some reference) (orders f))"

definition resolve_order_or_404 :: "fleet \<Rightarrow> string \<Rightarrow> order res" where
  "resolve_order_or_404 f order_reference =
     (case resolve_order_for_assignment f order_reference of
        None \<Rightarrow> Inl (HTTPException 404 ''Order not found'') | Some r \<Rightarrow> Inr r)"

definition save_order :: "order \<Rightarrow> fleet \<Rightarrow> fleet" where
  "save_order r f = f\<lparr>orders := put_row o_id r (orders f)\<rparr>"

definition mark_order_assigned_if_pending :: "datetime \<Rightarrow> order \<Rightarrow> order" where
  "mark_order_assigned_if_pending now r =
     (if canonical_order_status (o_status r) = ''pending''
         \<and> py_lower (py_strip (o_status r)) \<noteq> ''assigned'' then
        r\<lparr>o_status := ''assigned'', o_updated_at := now\<rparr>
      else r)"

definition set_driver_status :: "datetime \<Rightarrow> int \<Rightarrow> string \<Rightarrow> fleet \<Rightarrow> fleet" where
  "set_driver_status now driver_id status f =
     (case get_row d_id driver_id (drivers f) of
        None \<Rightarrow> f
      | Some d \<Rightarrow>
          f\<lparr>drivers := put_row d_id
               (d\<lparr>d_status := status, d_is_online := status \<in> {''available'', ''onRoute''},
                  d_last_location_update := now\<rparr>) (drivers f)\<rparr>)"

text \<open>The active orders of a driver, without the order \<open>exclude\<close>.\<close>

definition active_orders_of :: "fleet \<Rightarrow> int \<Rightarrow> string option \<Rightarrow> order list" where
  "active_orders_of f driver_id exclude =
     filter (\<lambda>r. o_assigned_driver_id r = Some driver_id
                 \<and> o_status r \<in> set active_driver_order_statuses_db
                 \<and> Some (o_id r) \<noteq> exclude) (orders f)"

definition truthy_id :: "int option \<Rightarrow> bool" where
  "truthy_id i \<longleftrightarrow> i \<noteq> None \<and> i \<noteq> Some 0"

text \<open>\<open>if not active_order\<close>: the id of the first row is empty, or there is no row.\<close>

definition no_active_order :: "fleet \<Rightarrow> int \<Rightarrow> string \<Rightarrow> bool" where
  "no_active_order f driver_id exclude =
     (case active_orders_of f driver_id (Some exclude) of [] \<Rightarrow> True | r # rs \<Rightarrow> o_id r = [])"

definition release_driver_if_idle :: "datetime \<Rightarrow> order \<Rightarrow> fleet \<Rightarrow> fleet" where
  "release_driver_if_idle now r f =
     (case o_assigned_driver_id r of
        None \<Rightarrow> f
      | Some d \<Rightarrow>
          if d = 0 then f
          else if no_active_order f d (o_id r) then set_driver_status now d ''available'' f
          else f)"

definition assert_driver_available_for_order ::
    "int \<Rightarrow> string option \<Rightarrow> bool \<Rightarrow> bool \<Rightarrow> fleet \<Rightarrow> fleet res" where
  "assert_driver_available_for_order driver_id exclude_order_id allow_busy check_active_conflict f =
     (case get_row d_id driver_id (drivers f) of
        None \<Rightarrow> Inl (HTTPException 404 ''Assigned driver not found'')
      | Some d \<Rightarrow>
          let driver_status = canonical_driver_status (d_status d);
              f1 = (if driver_status \<noteq> [] \<and> driver_status \<noteq> d_status d
                    then f\<lparr>drivers := put_row d_id (d\<lparr>d_status := driver_status\<rparr>) (drivers f)\<rparr>
                    else f)
          in if driver_status
                \<notin> {''available'', ''onRoute''} \<union> (if allow_busy then {''busy''} else {}) then
               Inl (HTTPException 409 ''Driver is '{driver_status}'. Allowed statuses: {valid_statuses}'')
             else if check_active_conflict
                     \<and> active_orders_of f1 driver_id
                         (if exclude_order_id = Some [] then None else exclude_order_id) \<noteq> [] then
               Inl (HTTPException 409 ''Driver already assigned to active order'')
             else Inr f1)"

section \<open>The batteries of an order\<close>

definition add_order_battery ::
    "string \<Rightarrow> (string \<times> int) list \<Rightarrow> string \<Rightarrow> order_battery list \<Rightarrow> order_battery list" where
  "add_order_battery order_id battery_pk_by_serial serial rows =
     rows @ [\<lparr>ob_id = fresh_id ob_id rows, ob_order_id = order_id, ob_battery_id = serial,
              ob_battery_pk = map_of battery_pk_by_serial serial\<rparr>]"

definition persist_order_batteries :: "string \<Rightarrow> string list \<Rightarrow> fleet \<Rightarrow> fleet res" where
  "persist_order_batteries order_id battery_ids f =
     (if battery_ids = [] then Inr f
      else
        case map_res normalize_battery_serial battery_ids of
          Inl e \<Rightarrow> Inl e
        | Inr canonical_ids \<Rightarrow>
            (case fetch_batteries_by_serials f canonical_ids False of
               Inl e \<Rightarrow> Inl e
             | Inr rows \<Rightarrow>
                 let pks = map (\<lambda>b. (py_upper (py_strip (serial_number b)), b_id b)) rows
                 in case map_res normalize_battery_serial
                           (map ob_battery_id
                             (filter (\<lambda>i. ob_order_id i = order_id) (order_batteries f))) of
                      Inl e \<Rightarrow> Inl e
                    | Inr existing_ids \<Rightarrow>
                        Inr (f\<lparr>order_batteries :=
                               fold (add_order_battery order_id pks)
                                 (filter (\<lambda>s. s \<notin> set existing_ids) canonical_ids)
                                 (order_batteries f)\<rparr>)))"

definition json_string :: "json_value \<Rightarrow> string res" where
  "json_string v = (case v of
     JStr s \<Rightarrow> Inr s
   | JOther \<Rightarrow> Inl (HTTPException 409 ''assigned_battery_ids[{idx}] must be a string battery serial''))"

definition parse_order_assigned_battery_ids_json :: "order \<Rightarrow> string list res" where
  "parse_order_assigned_battery_ids_json r =
     (case o_assigned_battery_ids r of
        None \<Rightarrow> Inr []
      | Some JInvalid \<Rightarrow> Inl (HTTPException 409 ''Order has invalid assigned_battery_ids JSON'')
      | Some JNotList \<Rightarrow> Inl (HTTPException 409 ''assigned_battery_ids must be a JSON array'')
      | Some (JList parsed) \<Rightarrow>
          (case map_res json_string parsed of
             Inl e \<Rightarrow> Inl e
           | Inr normalized_raw \<Rightarrow> normalize_battery_serials normalized_raw False))"

text \<open>Rows missing from the index are added; a row is never added twice, so the savepoint holds.\<close>

definition get_order_battery_ids :: "order \<Rightarrow> fleet \<Rightarrow> (string list \<times> fleet) res" where
  "get_order_battery_ids r f =
     (case normalize_battery_serials
             (map ob_battery_id (sort_key ob_id
                (filter (\<lambda>i. ob_order_id i = o_id r) (order_batteries f)))) False of
        Inl e \<Rightarrow> Inl e
      | Inr indexed \<Rightarrow>
          (case parse_order_assigned_battery_ids_json r of
             Inl e \<Rightarrow> Inl e
           | Inr legacy \<Rightarrow>
               if indexed = [] \<and> legacy = [] then
                 (if canonical_order_status (o_status r) \<in> {''in_transit'', ''delivered''} then
                    Inl (HTTPException 409 ''Order has no indexed battery assignments'')
                  else Inr ([], f))
               else if indexed = [] then
                 (case persist_order_batteries (o_id r) legacy f of
                    Inl e \<Rightarrow> Inl e | Inr f1 \<Rightarrow> Inr (legacy, f1))
               else if legacy = [] then Inr (indexed, f)
               else
                 let missing_indexed = filter (\<lambda>s. s \<notin> set indexed) legacy
                 in if missing_indexed = [] then Inr (indexed, f)
                    else case persist_order_batteries (o_id r) missing_indexed f of
                           Inl e \<Rightarrow> Inl e
                         | Inr f1 \<Rightarrow> Inr (indexed @ missing_indexed, f1)))"

text \<open>
  A loop over fetched rows works on the objects of the session, so an iteration sees the row as
  it then is: the loops run over the primary keys.
\<close>

definition reserve_one :: "datetime \<Rightarrow> string \<Rightarrow> string option \<Rightarrow> int \<Rightarrow> fleet \<Rightarrow> fleet res" where
  "reserve_one now order_id exclude_order_id bid f =
     (case get_row b_id bid (batteries f) of
        None \<Rightarrow> Inl (HTTPException 400 ''Batteries not found'')
      | Some b \<Rightarrow>
          if b_status b \<notin> set transferable_battery_statuses then
            Inl (HTTPException 400 ''Battery {serial} is '{battery.status}', cannot assign'')
          else if b_location_type b \<notin> {Some ''warehouse'', Some ''station'', Some ''shelf''} then
            Inl (HTTPException 400 ''Battery {serial} is at '{location_type}' and cannot be reserved'')
          else if b_location_id b = None then
            Inl (HTTPException 409 ''Battery {serial} is missing location_id'')
          else
            case (if b_location_type b = Some ''shelf''
                  then assert_battery_shelf_state_consistent f b else Inr ()) of
              Inl e \<Rightarrow> Inl e
            | Inr _ \<Rightarrow>
                apply_battery_transition now b
                  ((transition_to ''reserved'' (the (b_location_type b)) (b_location_id b)
                      ''reserved'' (''Reserved for order '' @ order_id) None)
                   \<lparr>t_exclude_order_id := exclude_order_id\<rparr>) f)"

definition reserve_order_batteries ::
    "datetime \<Rightarrow> order \<Rightarrow> string list option \<Rightarrow> string option \<Rightarrow> fleet \<Rightarrow> fleet res" where
  "reserve_order_batteries now r battery_ids exclude_order_id f =
     (case (case battery_ids of
              Some ids \<Rightarrow> Inr (ids, f) | None \<Rightarrow> get_order_battery_ids r f) of
        Inl e \<Rightarrow> Inl e
      | Inr (ids, f1) \<Rightarrow>
          (case fetch_batteries_by_serials f1 ids False of
             Inl e \<Rightarrow> Inl e
           | Inr rows \<Rightarrow>
               (case assert_batteries_not_in_active_orders f1 ids exclude_order_id of
                  Inl e \<Rightarrow> Inl e
                | Inr _ \<Rightarrow>
                    (case assert_batteries_not_in_active_transfers f1 ids None of
                       Inl e \<Rightarrow> Inl e
                     | Inr _ \<Rightarrow>
                         fold_res (reserve_one now (o_id r) exclude_order_id) (map b_id rows) f1))))"

section \<open>Where a battery goes back to\<close>

definition newest_first :: "battery_event list \<Rightarrow> battery_event list" where
  "newest_first es = sort_key (\<lambda>e. - ev_timestamp e) (sort_key (\<lambda>e. - ev_id e) es)"

definition find_dispatch_event_description :: "fleet \<Rightarrow> int \<Rightarrow> string \<Rightarrow> string option" where
  "find_dispatch_event_description f bid order_id =
     List.find (mentions_order order_id)
       (map ev_description (newest_first
          (filter (\<lambda>e. ev_battery_id e = bid \<and> ev_type e = ''dispatched'') (battery_events f))))"

definition dispatch_source :: "fleet \<Rightarrow> int \<Rightarrow> string \<Rightarrow> (string \<times> int option) option" where
  "dispatch_source f bid order_id =
     extract_dispatch_source_from_event (find_dispatch_event_description f bid order_id)"

definition resolve_release_location :: "fleet \<Rightarrow> battery \<Rightarrow> order \<Rightarrow> (string \<times> int option) res" where
  "resolve_release_location f b r =
     (let source = dispatch_source f (b_id b) (o_id r);
          undispatched =
            (if b_location_type b \<in> {Some ''warehouse'', Some ''station'', Some ''shelf''}
                \<and> b_location_id b \<noteq> None then
               Inr (the (b_location_type b), b_location_id b)
             else if b_location_type b = Some ''customer'' then Inr (''customer'', None)
             else case get_single_active_warehouse_id f of
                    Some w \<Rightarrow> Inr (''warehouse'', Some w)
                  | None \<Rightarrow> Inl (HTTPException 409 ''Cannot resolve release location''))
      in case source of
           None \<Rightarrow> undispatched
         | Some (t, i) \<Rightarrow>
             if t \<in> {''warehouse'', ''station'', ''shelf''} \<and> i \<noteq> None then Inr (t, i)
             else if t = ''customer'' then Inr (''customer'', None)
             else undispatched)"

definition resolve_warehouse_id_from_shelf :: "fleet \<Rightarrow> int option \<Rightarrow> int option" where
  "resolve_warehouse_id_from_shelf f shelf_id =
     (case shelf_id of
        None \<Rightarrow> None
      | Some i \<Rightarrow>
          (case get_row sh_id i (shelves f) of
             None \<Rightarrow> None
           | Some s \<Rightarrow> map_option rk_warehouse_id (get_row rk_id (sh_rack_id s) (racks f))))"

text \<open>\<open>completed_at DESC, updated_at DESC, id DESC\<close>; a missing time is the largest.\<close>

definition latest_transfers :: "inventory_transfer list \<Rightarrow> inventory_transfer list" where
  "latest_transfers ts =
     (let ordered = sort_key (\<lambda>t. - tr_updated_at t) (sort_key (\<lambda>t. - tr_id t) ts)
      in filter (\<lambda>t. tr_completed_at t = None) ordered
         @ sort_key (\<lambda>t. - the (tr_completed_at t)) (filter (\<lambda>t. tr_completed_at t \<noteq> None) ordered))"

definition items_contain :: "string \<Rightarrow> inventory_transfer \<Rightarrow> bool" where
  "items_contain serial t =
     (case tr_items t of
        Some (JList vs) \<Rightarrow>
          list_ex (\<lambda>v. case v of JStr s \<Rightarrow> normalize_battery_serial s = Inr serial | JOther \<Rightarrow> False) vs
      | _ \<Rightarrow> False)"

fun legacy_station_source :: "fleet \<Rightarrow> string \<Rightarrow> inventory_transfer list \<Rightarrow> int option" where
  "legacy_station_source f serial [] = None"
| "legacy_station_source f serial (t # ts) =
     (if \<not> items_contain serial t then legacy_station_source f serial ts
      else
        let from_type = py_lower (py_strip (tr_from_type t))
        in if from_type = ''warehouse'' then Some (tr_from_id t)
           else if from_type = ''shelf'' then
             (case resolve_warehouse_id_from_shelf f (Some (tr_from_id t)) of
                Some w \<Rightarrow> Some w | None \<Rightarrow> legacy_station_source f serial ts)
           else legacy_station_source f serial ts)"

definition resolve_warehouse_id_from_station_history ::
    "fleet \<Rightarrow> string \<Rightarrow> int option \<Rightarrow> int option res" where
  "resolve_warehouse_id_from_station_history f battery_serial station_id =
     (case station_id of
        None \<Rightarrow> Inr None
      | Some sid \<Rightarrow>
          (case normalize_battery_serial battery_serial of
             Inl e \<Rightarrow> Inl e
           | Inr serial \<Rightarrow>
               let completed = filter (\<lambda>t. tr_status t = ''completed'' \<and> tr_to_type t = ''station''
                                           \<and> tr_to_id t = sid) (transfers f);
                   legacy = legacy_station_source f serial (take 50 (latest_transfers completed))
               in case latest_transfers (filter (\<lambda>t. list_ex (\<lambda>i. ti_transfer_id i = tr_id t
                          \<and> py_upper (ti_battery_id i) = serial) (transfer_items f)) completed) of
                    [] \<Rightarrow> Inr legacy
                  | t # ts \<Rightarrow>
                      if py_lower (py_strip (tr_from_type t)) = ''warehouse'' then
                        Inr (Some (tr_from_id t))
                      else if py_lower (py_strip (tr_from_type t)) = ''shelf'' then
                        Inr (resolve_warehouse_id_from_shelf f (Some (tr_from_id t)))
                      else Inr legacy))"

definition resolve_warehouse_id_for_location ::
    "fleet \<Rightarrow> string \<Rightarrow> string option \<Rightarrow> int option \<Rightarrow> int option res" where
  "resolve_warehouse_id_for_location f battery_serial location_type location_id =
     (let t = py_lower (py_strip (case location_type of None \<Rightarrow> [] | Some l \<Rightarrow> l))
      in if t = ''warehouse'' \<and> location_id \<noteq> None then Inr location_id
         else if t = ''shelf'' then Inr (resolve_warehouse_id_from_shelf f location_id)
         else if t = ''station'' then
           resolve_warehouse_id_from_station_history f battery_serial location_id
         else Inr None)"

definition get_first_active_warehouse_id :: "fleet \<Rightarrow> int option" where
  "get_first_active_warehouse_id f =
     (case active_warehouse_ids f of [] \<Rightarrow> None | w # ws \<Rightarrow> Some w)"

definition warehouse_of_source ::
    "fleet \<Rightarrow> string \<Rightarrow> (string \<times> int option) option \<Rightarrow> int option res" where
  "warehouse_of_source f serial source =
     resolve_warehouse_id_for_location f serial (map_option fst source)
       (case source of None \<Rightarrow> None | Some s \<Rightarrow> snd s)"

text \<open>The attempts are made one after the other; the first that names a warehouse wins.\<close>

fun first_warehouse :: "int option res list \<Rightarrow> int res" where
  "first_warehouse [] = Inl (HTTPException 409 ''Cannot resolve return destination warehouse'')"
| "first_warehouse (a # as) =
     (case a of Inl e \<Rightarrow> Inl e | Inr (Some w) \<Rightarrow> Inr w | Inr None \<Rightarrow> first_warehouse as)"

definition resolve_return_delivery_warehouse_id :: "fleet \<Rightarrow> battery \<Rightarrow> order \<Rightarrow> int res" where
  "resolve_return_delivery_warehouse_id f b r =
     (case normalize_battery_serial (serial_number b) of
        Inl e \<Rightarrow> Inl e
      | Inr serial \<Rightarrow>
          first_warehouse
            [warehouse_of_source f serial (dispatch_source f (b_id b) (o_id r)),
             (case o_original_order_id r of
                None \<Rightarrow> Inr None
              | Some original \<Rightarrow>
                  if original = [] then Inr None
                  else warehouse_of_source f serial (dispatch_source f (b_id b) original)),
             resolve_warehouse_id_for_location f serial (b_location_type b) (b_location_id b),
             Inr (get_single_active_warehouse_id f),
             Inr (get_first_active_warehouse_id f)])"

section \<open>Batteries follow the status\<close>

definition for_order :: "order \<Rightarrow> transition \<Rightarrow> transition" where
  "for_order r t = t\<lparr>t_exclude_order_id := Some (o_id r)\<rparr>"

definition dispatch_one :: "datetime \<Rightarrow> order \<Rightarrow> int option \<Rightarrow> battery \<Rightarrow> fleet \<Rightarrow> fleet res" where
  "dispatch_one now r actor_id b f =
     (if b_location_type b \<notin> {Some ''warehouse'', Some ''station'', Some ''shelf'', Some ''customer''} then
        Inl (HTTPException 400 ''Battery {serial} at location '{source_location_type}' cannot be dispatched'')
      else if b_location_type b \<noteq> Some ''customer'' \<and> b_location_id b = None then
        Inl (HTTPException 409 ''Battery {serial} has missing location_id for '{source_location_type}' '')
      else
        case (if b_location_type b = Some ''shelf''
              then assert_battery_shelf_state_consistent f b else Inr ()) of
          Inl e \<Rightarrow> Inl e
        | Inr _ \<Rightarrow>
            apply_battery_transition now b
              (for_order r (transition_to ''deployed'' ''transit'' None ''dispatched''
                 (build_dispatch_event_description (o_id r) (the (b_location_type b))
                    (b_location_id b)) actor_id)) f)"

definition deliver_one :: "datetime \<Rightarrow> order \<Rightarrow> int option \<Rightarrow> battery \<Rightarrow> fleet \<Rightarrow> fleet res" where
  "deliver_one now r actor_id b f =
     (if o_type r = ''return'' then
        (case resolve_return_delivery_warehouse_id f b r of
           Inl e \<Rightarrow> Inl e
         | Inr wid \<Rightarrow>
             apply_battery_transition now b
               (for_order r (transition_to ''available'' ''warehouse'' (Some wid) ''returned''
                  (''Returned to warehouse #'' @ show_int wid @ '' via return order '' @ o_id r)
                  actor_id)) f)
      else
        apply_battery_transition now b
          (for_order r (transition_to ''deployed'' ''customer'' None ''delivered''
             (''Delivered with order '' @ o_id r) actor_id)) f)"

definition release_one ::
    "datetime \<Rightarrow> order \<Rightarrow> string \<Rightarrow> string option \<Rightarrow> int option \<Rightarrow> battery \<Rightarrow> fleet \<Rightarrow> fleet res" where
  "release_one now r new_status failure_reason actor_id b f =
     (case resolve_release_location f b r of
        Inl e \<Rightarrow> Inl e
      | Inr (restore_type, restore_id) \<Rightarrow>
          let released = ''Released from order '' @ o_id r @ '' due to '' @ new_status;
              description = (if new_status = ''failed'' \<and> nonempty_str failure_reason
                             then released @ '': '' @ the failure_reason else released)
          in apply_battery_transition now b
               (for_order r (transition_to ''available'' restore_type restore_id ''released''
                  description actor_id)) f)"

definition sync_one ::
    "datetime \<Rightarrow> order \<Rightarrow> string \<Rightarrow> string option \<Rightarrow> int option \<Rightarrow> int \<Rightarrow> fleet \<Rightarrow> fleet res" where
  "sync_one now r new_status failure_reason actor_id bid f =
     (case get_row b_id bid (batteries f) of
        None \<Rightarrow> Inl (HTTPException 400 ''Batteries not found'')
      | Some row \<Rightarrow>
          (case normalize_battery_serial (serial_number row) of
             Inl e \<Rightarrow> Inl e
           | Inr serial \<Rightarrow>
               let b = row\<lparr>serial_number := serial\<rparr>;
                   f1 = f\<lparr>batteries := put_row b_id b (batteries f)\<rparr>
               in if new_status = ''in_transit'' then dispatch_one now r actor_id b f1
                  else if new_status = ''delivered'' then deliver_one now r actor_id b f1
                  else if new_status \<in> {''failed'', ''cancelled''} then
                    release_one now r new_status failure_reason actor_id b f1
                  else Inr f1))"

definition sync_batteries_for_order_status ::
    "datetime \<Rightarrow> order \<Rightarrow> string \<Rightarrow> string option \<Rightarrow> int option \<Rightarrow> fleet \<Rightarrow> fleet res" where
  "sync_batteries_for_order_status now r new_status failure_reason actor_id f =
     (case get_order_battery_ids r f of
        Inl e \<Rightarrow> Inl e
      | Inr (ids, f1) \<Rightarrow>
          (case fetch_batteries_by_serials f1 ids False of
             Inl e \<Rightarrow> Inl e
           | Inr rows \<Rightarrow>
               fold_res (sync_one now r new_status failure_reason actor_id) (map b_id rows) f1))"

section \<open>Creation\<close>

record order_create =
  c_id :: "string option"
  c_units :: int
  c_destination :: string
  c_notes :: "string option"
  c_customer_name :: "string option"
  c_customer_phone :: "string option"
  c_priority :: "string option"
  c_total_value :: "rat option"
  c_status :: "string option"
  c_order_date :: "datetime option"
  c_estimated_delivery :: "datetime option"
  c_dispatch_date :: "datetime option"
  c_latitude :: "decimal option"
  c_longitude :: "decimal option"
  c_tracking_number :: "string option"
  c_assigned_battery_ids :: "string list"
  c_assigned_driver_id :: "int option"
  c_type :: "string option"
  c_original_order_id :: "string option"

definition or_default :: "'a \<Rightarrow> 'a option \<Rightarrow> 'a" where
  "or_default d v = (case v of None \<Rightarrow> d | Some x \<Rightarrow> x)"

text \<open>The order row a valid payload describes; \<open>order_id\<close> is its id. \<open>token\<close> is \<open>uuid4().hex[:6]\<close>.\<close>

definition new_order_id :: "string \<Rightarrow> order_create \<Rightarrow> string" where
  "new_order_id token c =
     (if nonempty_str (c_id c) then the (c_id c) else ''ORD-'' @ py_upper token)"

definition tracking_conflict :: "fleet \<Rightarrow> string \<Rightarrow> string \<Rightarrow> bool" where
  "tracking_conflict f tracking order_id =
     (case List.find (\<lambda>r. o_tracking_number r = Some tracking) (orders f) of
        None \<Rightarrow> False | Some r \<Rightarrow> o_id r \<noteq> [] \<and> o_id r \<noteq> order_id)"

definition check_order_dates :: "datetime \<Rightarrow> order_create \<Rightarrow> unit res" where
  "check_order_dates now c =
     (let order_date = or_default now (c_order_date c)
      in if (case c_dispatch_date c of None \<Rightarrow> False | Some d \<Rightarrow> d < order_date) then
           Inl (HTTPException 400 ''dispatch_date cannot be earlier than order_date'')
         else if (case c_estimated_delivery c of None \<Rightarrow> False
                  | Some e \<Rightarrow> e < or_default order_date (c_dispatch_date c)) then
           Inl (HTTPException 400 ''estimated_delivery cannot be earlier than order_date/dispatch_date'')
         else Inr ())"

definition order_row :: "datetime \<Rightarrow> string \<Rightarrow> order_create \<Rightarrow> fleet \<Rightarrow> order res" where
  "order_row now order_id c f =
     (if c_units c \<le> 0 then Inl (HTTPException 400 ''units must be greater than 0'')
      else if get_row o_id order_id (orders f) \<noteq> None then
        Inl (HTTPException 409 ''Order ID already exists'')
      else case normalize_destination (Some (c_destination c)) of Inl e \<Rightarrow> Inl e
      | Inr destination \<Rightarrow> (case normalize_customer_name (c_customer_name c) of Inl e \<Rightarrow> Inl e
      | Inr name \<Rightarrow> (case normalize_order_notes (c_notes c) of Inl e \<Rightarrow> Inl e
      | Inr notes_text \<Rightarrow> (case normalize_customer_phone (c_customer_phone c) of Inl e \<Rightarrow> Inl e
      | Inr phone \<Rightarrow> (case normalize_tracking_number (c_tracking_number c) order_id of Inl e \<Rightarrow> Inl e
      | Inr tracking \<Rightarrow>
          if tracking_conflict f tracking order_id then
            Inl (HTTPException 409 ''tracking_number is already in use'')
          else (case normalize_order_priority (c_priority c) of Inl e \<Rightarrow> Inl e
      | Inr priority \<Rightarrow> (case normalize_total_value (c_total_value c) of Inl e \<Rightarrow> Inl e
      | Inr value \<Rightarrow> (case check_order_dates now c of Inl e \<Rightarrow> Inl e
      | Inr _ \<Rightarrow> (case normalize_order_coordinates (c_latitude c) (c_longitude c) of Inl e \<Rightarrow> Inl e
      | Inr (latitude, longitude) \<Rightarrow>
          let requested_status = canonical_order_status (or_default ''pending'' (c_status c))
          in if requested_status \<notin> set valid_order_statuses then
               Inl (HTTPException 400 ''Invalid status. Must be one of: {VALID_ORDER_STATUSES}'')
             else if requested_status \<noteq> ''pending'' then
               Inl (HTTPException 400 ''New orders must start in 'pending' state'')
             else if or_default ''delivery'' (c_type c) \<noteq> ''delivery'' then
               Inl (HTTPException 400 ''Use /orders/{order_id}/return to create return orders'')
             else
               Inr \<lparr>o_id = order_id, o_status = ''pending'', o_type = ''delivery'',
                    o_priority = priority, o_units = c_units c, o_destination = destination,
                    o_latitude = latitude, o_longitude = longitude, o_notes = notes_text,
                    o_customer_name = name, o_customer_phone = phone, o_total_value = value,
                    o_tracking_number = Some tracking, o_assigned_battery_ids = None,
                    o_assigned_driver_id = c_assigned_driver_id c,
                    o_order_date = or_default now (c_order_date c),
                    o_dispatch_date = c_dispatch_date c,
                    o_estimated_delivery = c_estimated_delivery c, o_delivered_at = None,
                    o_updated_at = now, o_pod_url = None, o_pod_notes = None,
                    o_pod_captured_at = None, o_pod_signature_url = None, o_recipient_name = None,
                    o_failure_reason = None, o_slot_start = None, o_slot_end = None,
                    o_confirmation_sent_at = None, o_original_order_id = c_original_order_id c,
                    o_refund_status = ''none''\<rparr>)))))))))"

definition create_order ::
    "datetime \<Rightarrow> string \<Rightarrow> order_create \<Rightarrow> fleet \<Rightarrow> (order \<times> fleet) res" where
  "create_order now token c f =
     (case order_row now (new_order_id token c) c f of
        Inl e \<Rightarrow> Inl e
      | Inr row \<Rightarrow>
          (case (case c_assigned_driver_id c of
                   None \<Rightarrow> Inr f
                 | Some d \<Rightarrow> assert_driver_available_for_order d None False True f) of
             Inl e \<Rightarrow> Inl e
           | Inr f1 \<Rightarrow>
               (case normalize_battery_serials (c_assigned_battery_ids c) False of
                  Inl e \<Rightarrow> Inl e
                | Inr ids \<Rightarrow>
                    if ids = [] then
                      Inl (HTTPException 400 ''assigned_battery_ids is required to create a dispatch order'')
                    else if c_units c \<noteq> int (length ids) then
                      Inl (HTTPException 400 ''units must exactly match the number of assigned_battery_ids'')
                    else
                      let r = row\<lparr>o_assigned_battery_ids := Some (JList (map JStr ids))\<rparr>
                      in case reserve_order_batteries now r (Some ids) None f1 of
                           Inl e \<Rightarrow> Inl e
                         | Inr f2 \<Rightarrow>
                             let (r1, f3) = (case c_assigned_driver_id c of
                                   None \<Rightarrow> (r, f2)
                                 | Some d \<Rightarrow> (mark_order_assigned_if_pending now r,
                                             set_driver_status now d ''busy'' f2))
                             in case persist_order_batteries (o_id r1) ids
                                       (f3\<lparr>orders := orders f3 @ [r1]\<rparr>) of
                                  Inl e \<Rightarrow> Inl e
                                | Inr f4 \<Rightarrow> Inr (r1, f4))))"

section \<open>Status updates\<close>

record status_update =
  su_status :: string
  su_failure_reason :: "string option"
  su_dispatch_date :: "datetime option"

text \<open>The part of the handler before the batteries move: the checks, the driver, the reservation.\<close>

definition prepare_status ::
    "datetime \<Rightarrow> order \<Rightarrow> string \<Rightarrow> status_update \<Rightarrow> fleet \<Rightarrow> (order \<times> fleet) res" where
  "prepare_status now r new_status su f =
     (let driver_id = (case o_assigned_driver_id r of None \<Rightarrow> 0 | Some d \<Rightarrow> d);
          with_busy_driver = (\<lambda>g. (case assert_driver_available_for_order driver_id (Some (o_id r)) True True g of
             Inl e \<Rightarrow> Inl e | Inr g1 \<Rightarrow> Inr (set_driver_status now driver_id ''busy'' g1)))
      in if new_status = ''in_transit'' then
           (if \<not> truthy_id (o_assigned_driver_id r) then
              Inl (HTTPException 400 ''Cannot dispatch order without an assigned driver'')
            else case with_busy_driver f of
                   Inl e \<Rightarrow> Inl e
                 | Inr f1 \<Rightarrow> Inr (r\<lparr>o_dispatch_date := Some (or_default now (su_dispatch_date su))\<rparr>, f1))
         else if new_status = ''failed'' \<and> \<not> nonempty_str (su_failure_reason su) then
           Inl (HTTPException 400 ''failure_reason is required when marking an order as failed'')
         else if canonical_order_status (o_status r) = ''failed'' \<and> new_status = ''pending'' then
           (case reserve_order_batteries now r None (Some (o_id r)) f of
              Inl e \<Rightarrow> Inl e
            | Inr f1 \<Rightarrow>
                if truthy_id (o_assigned_driver_id r) then
                  (case with_busy_driver f1 of Inl e \<Rightarrow> Inl e | Inr f2 \<Rightarrow> Inr (r, f2))
                else Inr (r, f1))
         else Inr (r, f))"

definition update_order_status ::
    "datetime \<Rightarrow> int \<Rightarrow> string \<Rightarrow> status_update \<Rightarrow> fleet \<Rightarrow> (order \<times> fleet) res" where
  "update_order_status now user_id order_ref su f =
     (case resolve_order_or_404 f order_ref of
        Inl e \<Rightarrow> Inl e
      | Inr r \<Rightarrow>
          let new_status = canonical_order_status (su_status su)
          in case validate_status_transition (o_status r) new_status of
               Inl e \<Rightarrow> Inl e
             | Inr _ \<Rightarrow>
                 (case prepare_status now r new_status su f of
                    Inl e \<Rightarrow> Inl e
                  | Inr (r1, f1) \<Rightarrow>
                      let r2 = r1\<lparr>o_status := new_status, o_updated_at := now,
                                  o_delivered_at := (if new_status = ''delivered'' then Some now
                                                     else o_delivered_at r1),
                                  o_failure_reason := (if new_status = ''failed''
                                                       then su_failure_reason su
                                                       else o_failure_reason r1)\<rparr>
                      in case sync_batteries_for_order_status now r2 new_status
                                (su_failure_reason su) (Some user_id) (save_order r2 f1) of
                           Inl e \<Rightarrow> Inl e
                         | Inr f2 \<Rightarrow>
                             Inr (r2, if new_status \<in> set terminal_statuses
                                      then release_driver_if_idle now r2 f2 else f2)))"

definition mark_in_transit :: "datetime \<Rightarrow> int \<Rightarrow> string \<Rightarrow> fleet \<Rightarrow> (order \<times> fleet) res" where
  "mark_in_transit now user_id order_ref =
     update_order_status now user_id order_ref
       \<lparr>su_status = ''in_transit'', su_failure_reason = None, su_dispatch_date = Some now\<rparr>"

definition mark_failed :: "datetime \<Rightarrow> int \<Rightarrow> string \<Rightarrow> string \<Rightarrow> fleet \<Rightarrow> (order \<times> fleet) res" where
  "mark_failed now user_id order_ref failure_reason =
     update_order_status now user_id order_ref
       \<lparr>su_status = ''failed'', su_failure_reason = Some failure_reason, su_dispatch_date = None\<rparr>"

section \<open>Proof of delivery\<close>

record proof_of_delivery =
  pd_image_url :: string
  pd_notes :: "string option"
  pd_signature_url :: "string option"
  pd_recipient_name :: "string option"

definition stripped_or_none :: "string option \<Rightarrow> string option" where
  "stripped_or_none v =
     (case v of None \<Rightarrow> None | Some s \<Rightarrow> if py_strip s = [] then None else Some (py_strip s))"

definition accepts_proof :: "order \<Rightarrow> bool" where
  "accepts_proof r \<longleftrightarrow>
     canonical_order_status (o_status r) = ''in_transit''
     \<or> (py_lower (py_strip (o_status r)) \<in> {''assigned'', ''new''} \<and> o_assigned_driver_id r \<noteq> None)
     \<or> (canonical_order_status (o_status r) = ''pending'' \<and> o_assigned_driver_id r \<noteq> None
        \<and> o_dispatch_date r \<noteq> None)"

definition submit_proof_of_delivery ::
    "datetime \<Rightarrow> int \<Rightarrow> string \<Rightarrow> proof_of_delivery \<Rightarrow> fleet \<Rightarrow> (order \<times> fleet) res" where
  "submit_proof_of_delivery now user_id order_ref pod f =
     (case resolve_order_or_404 f order_ref of
        Inl e \<Rightarrow> Inl e
      | Inr r \<Rightarrow>
          if \<not> accepts_proof r then
            Inl (HTTPException 409 ''Proof of delivery can only be submitted for in-transit orders'')
          else case normalize_pod_media_url (Some (pd_image_url pod)) True of
                 Inl e \<Rightarrow> Inl e
               | Inr image_url \<Rightarrow>
                   (case normalize_pod_media_url (pd_signature_url pod) False of
                      Inl e \<Rightarrow> Inl e
                    | Inr signature_url \<Rightarrow>
                        let r2 = r\<lparr>o_pod_url := image_url,
                                   o_pod_notes := stripped_or_none (pd_notes pod),
                                   o_pod_signature_url := signature_url,
                                   o_recipient_name := stripped_or_none (pd_recipient_name pod),
                                   o_pod_captured_at := Some now,
                                   o_dispatch_date := Some (or_default now (o_dispatch_date r)),
                                   o_status := ''delivered'', o_delivered_at := Some now,
                                   o_updated_at := now\<rparr>
                        in case sync_batteries_for_order_status now r2 ''delivered'' None
                                  (Some user_id) (save_order r2 f) of
                             Inl e \<Rightarrow> Inl e
                           | Inr f2 \<Rightarrow> Inr (r2, release_driver_if_idle now r2 f2)))"

section \<open>Driver assignment\<close>

text \<open>
  \<open>user_phones\<close> holds the id and the phone number of every user; \<open>arrange\<close> is the order in which
  Python iterates over the set of phone candidates.
\<close>

fun driver_by_phone ::
    "(int \<times> string) list \<Rightarrow> driver list \<Rightarrow> string list \<Rightarrow> driver option" where
  "driver_by_phone user_phones ds [] = None"
| "driver_by_phone user_phones ds (candidate # rest) =
     (case List.find (\<lambda>d. d_phone d = Some candidate) ds of
        Some d \<Rightarrow> Some d
      | None \<Rightarrow>
          (case (case List.find (\<lambda>u. snd u = candidate) user_phones of
                   None \<Rightarrow> None
                 | Some u \<Rightarrow>
                     if fst u < 1 \<or> 2147483647 < fst u then None
                     else List.find (\<lambda>d. d_user_id d = fst u) ds) of
             Some d \<Rightarrow> Some d
           | None \<Rightarrow> driver_by_phone user_phones ds rest))"

definition resolve_driver_for_assignment ::
    "(string list \<Rightarrow> string list) \<Rightarrow> (int \<times> string) list \<Rightarrow> string \<Rightarrow> fleet \<Rightarrow> driver option res" where
  "resolve_driver_for_assignment arrange user_phones driver_reference f =
     (case normalize_driver_lookup_token (TokenText driver_reference) of
        Inl e \<Rightarrow> Inl e
      | Inr reference \<Rightarrow>
          let int_id = parse_int32_id_candidate reference
          in case (case int_id of None \<Rightarrow> None | Some i \<Rightarrow> get_row d_id i (drivers f)) of
               Some d \<Rightarrow> Inr (Some d)
             | None \<Rightarrow>
                 (case driver_by_phone user_phones (drivers f) (arrange (phone_candidates reference)) of
                    Some d \<Rightarrow> Inr (Some d)
                  | None \<Rightarrow>
                      Inr (case int_id of
                             None \<Rightarrow> None
                           | Some i \<Rightarrow> List.find (\<lambda>d. d_user_id d = i) (drivers f))))"

text \<open>The most recently updated active order of the driver, taken from it when both are pending.\<close>

definition take_over_driver :: "datetime \<Rightarrow> order \<Rightarrow> int \<Rightarrow> fleet \<Rightarrow> fleet res" where
  "take_over_driver now r driver_id f =
     (case sort_key (\<lambda>q. - o_updated_at q) (active_orders_of f driver_id (Some (o_id r))) of
        [] \<Rightarrow> Inr f
      | q # qs \<Rightarrow>
          if canonical_order_status (o_status r) = ''pending''
             \<and> canonical_order_status (o_status q) = ''pending'' then
            Inr (set_driver_status now driver_id ''available''
                  (save_order (q\<lparr>o_assigned_driver_id := None,
                                 o_status := (if py_lower (py_strip (o_status q)) = ''assigned''
                                              then ''pending'' else o_status q),
                                 o_updated_at := now\<rparr>) f))
          else Inl (HTTPException 409 ''Driver conflict: driver is already assigned to another order''))"

definition release_previous_driver :: "datetime \<Rightarrow> int option \<Rightarrow> order \<Rightarrow> fleet \<Rightarrow> fleet" where
  "release_previous_driver now previous r f =
     (if truthy_id previous \<and> no_active_order f (the previous) (o_id r)
      then set_driver_status now (the previous) ''available'' f else f)"

definition assign_driver ::
    "(string list \<Rightarrow> string list) \<Rightarrow> (int \<times> string) list \<Rightarrow> datetime \<Rightarrow> string \<Rightarrow> driver_token list
     \<Rightarrow> fleet \<Rightarrow> (order \<times> fleet) res" where
  "assign_driver arrange user_phones now order_ref candidates f =
     (case extract_driver_reference candidates of
        Inl e \<Rightarrow> Inl e
      | Inr reference \<Rightarrow>
     (case resolve_order_for_assignment f order_ref of
        None \<Rightarrow> Inl (HTTPException 404 ''Order not found'')
      | Some r \<Rightarrow>
          if canonical_order_status (o_status r) \<in> set terminal_statuses then
            Inl (HTTPException 409 ''Cannot assign driver when order is in terminal state'')
          else case resolve_driver_for_assignment arrange user_phones reference f of
                 Inl e \<Rightarrow> Inl e
               | Inr None \<Rightarrow> Inl (HTTPException 404 ''Driver not found'')
               | Inr (Some d) \<Rightarrow>
                   if o_assigned_driver_id r = Some (d_id d) then
                     (let r1 = mark_order_assigned_if_pending now r in Inr (r1, save_order r1 f))
                   else
                     (case assert_driver_available_for_order (d_id d) (Some (o_id r)) False False f of
                        Inl e \<Rightarrow> Inl e
                      | Inr f1 \<Rightarrow>
                     (case take_over_driver now r (d_id d) f1 of
                        Inl e \<Rightarrow> Inl e
                      | Inr f2 \<Rightarrow>
                     (case assert_driver_available_for_order (d_id d) (Some (o_id r)) False True f2 of
                        Inl e \<Rightarrow> Inl e
                      | Inr f3 \<Rightarrow>
                          let r1 = mark_order_assigned_if_pending now
                                     (r\<lparr>o_assigned_driver_id := Some (d_id d), o_updated_at := now\<rparr>)
                          in Inr (r1, release_previous_driver now (o_assigned_driver_id r) r1
                                        (set_driver_status now (d_id d) ''busy''
                                          (save_order r1 f3))))))))"

section \<open>Schedules and returns\<close>

definition schedule_delivery ::
    "datetime \<Rightarrow> string \<Rightarrow> datetime \<Rightarrow> datetime \<Rightarrow> fleet \<Rightarrow> (order \<times> fleet) res" where
  "schedule_delivery now order_ref slot_start slot_end f =
     (case resolve_order_or_404 f order_ref of
        Inl e \<Rightarrow> Inl e
      | Inr r \<Rightarrow>
          if canonical_order_status (o_status r) \<in> set terminal_statuses then
            Inl (HTTPException 400 ''Cannot reschedule order in '{order.status}' status'')
          else if slot_end \<le> slot_start then
            Inl (HTTPException 400 ''scheduled_slot_end must be after scheduled_slot_start'')
          else
            let r1 = r\<lparr>o_slot_start := Some slot_start, o_slot_end := Some slot_end,
                       o_updated_at := now\<rparr>
            in Inr (r1, save_order r1 f))"

definition has_open_return :: "fleet \<Rightarrow> string \<Rightarrow> bool" where
  "has_open_return f original_id =
     (case filter (\<lambda>r. o_type r = ''return'' \<and> o_original_order_id r = Some original_id
                       \<and> o_status r \<in> set active_driver_order_statuses_db) (orders f) of
        [] \<Rightarrow> False | r # rs \<Rightarrow> o_id r \<noteq> [])"

definition return_order_row ::
    "datetime \<Rightarrow> string \<Rightarrow> string \<Rightarrow> order \<Rightarrow> string list \<Rightarrow> order" where
  "return_order_row now return_id reason original ids =
     \<lparr>o_id = return_id, o_status = ''pending'', o_type = ''return'', o_priority = o_priority original,
      o_units = o_units original, o_destination = o_destination original, o_latitude = None,
      o_longitude = None,
      o_notes = Some (''Return for order '' @ o_id original @ ''. Reason: '' @ reason),
      o_customer_name = o_customer_name original, o_customer_phone = o_customer_phone original,
      o_total_value = o_total_value original, o_tracking_number = None,
      o_assigned_battery_ids = (if ids = [] then None else Some (JList (map JStr ids))),
      o_assigned_driver_id = None, o_order_date = now, o_dispatch_date = None,
      o_estimated_delivery = None, o_delivered_at = None, o_updated_at = now, o_pod_url = None,
      o_pod_notes = None, o_pod_captured_at = None, o_pod_signature_url = None,
      o_recipient_name = None, o_failure_reason = None, o_slot_start = None, o_slot_end = None,
      o_confirmation_sent_at = None, o_original_order_id = Some (o_id original),
      o_refund_status = ''pending''\<rparr>"

text \<open>\<open>token\<close> is \<open>uuid4().hex[:6]\<close>; the insert raises when its order id is taken.\<close>

definition initiate_return ::
    "datetime \<Rightarrow> string \<Rightarrow> int \<Rightarrow> string \<Rightarrow> string \<Rightarrow> fleet \<Rightarrow> (order \<times> fleet) res" where
  "initiate_return now token user_id order_ref reason f =
     (case resolve_order_or_404 f order_ref of
        Inl e \<Rightarrow> Inl e
      | Inr original \<Rightarrow>
          if canonical_order_status (o_status original) \<noteq> ''delivered'' then
            Inl (HTTPException 400 ''Can only return delivered orders'')
          else if has_open_return f (o_id original) then
            Inl (HTTPException 400 ''An active return already exists for this order'')
          else
            (case get_order_battery_ids original f of
               Inl e \<Rightarrow> Inl e
             | Inr (ids, f1) \<Rightarrow>
                 let r = return_order_row now (''RET-'' @ py_upper token) reason original ids
                 in case fetch_batteries_by_serials f1 ids False of
                      Inl e \<Rightarrow> Inl e
                    | Inr rows \<Rightarrow>
                        if get_row o_id (o_id r) (orders f1) \<noteq> None then Inl IntegrityError
                        else
                          let f2 = fold (\<lambda>b. log_battery_event now (b_id b) ''return_initiated''
                                     (''Return initiated for order '' @ o_id original @ ''. Return ID: ''
                                      @ o_id r @ ''. Reason: '' @ reason) (Some user_id)) rows f1
                          in (case persist_order_batteries (o_id r) ids (f2\<lparr>orders := orders f2 @ [r]\<rparr>) of
                                Inl e \<Rightarrow> Inl e
                              | Inr f3 \<Rightarrow> Inr (r, f3))))"

section \<open>Confirmation requests and refunds\<close>

text \<open>\<open>sent\<close> tells whether the message to the customer went out.\<close>

definition request_confirmation :: "datetime \<Rightarrow> string \<Rightarrow> bool \<Rightarrow> fleet \<Rightarrow> (order \<times> fleet) res" where
  "request_confirmation now order_ref sent f =
     (case resolve_order_or_404 f order_ref of
        Inl e \<Rightarrow> Inl e
      | Inr r \<Rightarrow>
          if \<not> nonempty_str (o_customer_phone r) then
            Inl (HTTPException 400 ''Customer phone number is missing'')
          else if \<not> sent then Inl (HTTPException 500 ''Failed to send SMS'')
          else let r1 = r\<lparr>o_confirmation_sent_at := Some now\<rparr> in Inr (r1, save_order r1 f))"

definition has_customer_user :: "(int \<times> string) list \<Rightarrow> order \<Rightarrow> bool" where
  "has_customer_user user_phones r \<longleftrightarrow>
     (case o_customer_phone r of None \<Rightarrow> False
      | Some p \<Rightarrow> list_ex (\<lambda>c. c \<in> set (map snd user_phones)) (phone_candidates p))"

definition original_or_self :: "fleet \<Rightarrow> order \<Rightarrow> order" where
  "original_or_self f r =
     (case o_original_order_id r of None \<Rightarrow> r
      | Some i \<Rightarrow> if i = [] then r
                  else case get_row o_id i (orders f) of None \<Rightarrow> r | Some original \<Rightarrow> original)"

definition with_refund_status :: "datetime \<Rightarrow> string \<Rightarrow> order \<Rightarrow> order" where
  "with_refund_status now st r = r\<lparr>o_refund_status := st, o_updated_at := now\<rparr>"

text \<open>
  \<open>POST /{order_id}/refund\<close>. \<open>payment_id\<close> is the \<open>razorpay_payment_id\<close> of the latest transaction
  booked for the order or its original, and \<open>gateway\<close> what the gateway answers to the refund of that
  payment: \<open>PaymentService.refund_transaction\<close> turns every failure into an \<open>HTTPException\<close>. The
  \<open>Refund\<close> rows are left out.

  Without such a payment the amount goes to the customer's wallet, through a \<open>Transaction\<close> without
  the \<open>user_id\<close> that its table requires: the flush raises, and nothing is kept. A refund that fails
  is committed before the exception is raised, so the tables come next to the answer.
\<close>

definition process_refund_order ::
    "(int \<times> string) list \<Rightarrow> datetime \<Rightarrow> string \<Rightarrow> string option \<Rightarrow> unit res \<Rightarrow> fleet \<Rightarrow>
     order res \<times> fleet" where
  "process_refund_order user_phones now order_ref payment_id gateway f =
     (case resolve_order_or_404 f order_ref of
        Inl e \<Rightarrow> (Inl e, f)
      | Inr r \<Rightarrow>
          let refunded = with_refund_status now ''processed'' r;
              failed = with_refund_status now ''failed'' r
          in if o_type r \<noteq> ''return'' then (Inl (HTTPException 400 ''Order is not a return order''), f)
             else if canonical_order_status (o_status r) \<noteq> ''delivered'' then
               (Inl (HTTPException 400
                  ''Refund can only be processed after return delivery is completed''), f)
             else if o_refund_status r = ''processed'' then
               (Inl (HTTPException 400 ''Refund already processed''), f)
             else if o_refund_status r = ''none'' then
               (Inl (HTTPException 400 ''Return order is not marked for refund''), f)
             else if round_half_up (100 * o_total_value r) \<le> 0 then
               (Inl (HTTPException 400 ''Refund amount must be greater than zero''), f)
             else if nonempty_str payment_id then
               (case gateway of
                  Inr _ \<Rightarrow> (Inr refunded, save_order refunded f)
                | Inl e \<Rightarrow> (Inl e, save_order failed f))
             else if has_customer_user user_phones (original_or_self f r) then (Inl IntegrityError, f)
             else (Inl (HTTPException 409 ''Unable to determine refund destination or payment source for this return order''),
                   save_order failed f))"

section \<open>Serving requests\<close>

datatype order_request =
    CreateOrder string order_create
  | UpdateStatus int string status_update
  | ProofOfDelivery int string proof_of_delivery
  | AssignDriver string "driver_token list"
  | Schedule string datetime datetime
  | InitiateReturn string int string string
  | ConfirmRequest string bool
  | RefundOrder string "string option" "unit res"

text \<open>What a handler that raised has written is rolled back.\<close>

definition rolled_back :: "fleet \<Rightarrow> (order \<times> fleet) res \<Rightarrow> order res \<times> fleet" where
  "rolled_back f answer = (case answer of Inl e \<Rightarrow> (Inl e, f) | Inr (r, f') \<Rightarrow> (Inr r, f'))"

text \<open>A request at its time.\<close>

definition serve_order ::
    "(string list \<Rightarrow> string list) \<Rightarrow> (int \<times> string) list \<Rightarrow> datetime \<times> order_request
     \<Rightarrow> fleet \<Rightarrow> order res \<times> fleet" where
  "serve_order arrange user_phones q f =
     (case snd q of
        CreateOrder token c \<Rightarrow> rolled_back f (create_order (fst q) token c f)
      | UpdateStatus user ref su \<Rightarrow> rolled_back f (update_order_status (fst q) user ref su f)
      | ProofOfDelivery user ref pod \<Rightarrow> rolled_back f (submit_proof_of_delivery (fst q) user ref pod f)
      | AssignDriver ref candidates \<Rightarrow>
          rolled_back f (assign_driver arrange user_phones (fst q) ref candidates f)
      | Schedule ref s e \<Rightarrow> rolled_back f (schedule_delivery (fst q) ref s e f)
      | InitiateReturn token user ref reason \<Rightarrow>
          rolled_back f (initiate_return (fst q) token user ref reason f)
      | ConfirmRequest ref sent \<Rightarrow> rolled_back f (request_confirmation (fst q) ref sent f)
      | RefundOrder ref payment_id gateway \<Rightarrow>
          process_refund_order user_phones (fst q) ref payment_id gateway f)"

text \<open>A run that is wanted to succeed stops at the first exception; a server goes on with what was committed.\<close>

definition order_step ::
    "(string list \<Rightarrow> string list) \<Rightarrow> (int \<times> string) list \<Rightarrow> datetime \<times> order_request
     \<Rightarrow> fleet \<Rightarrow> fleet res" where
  "order_step arrange user_phones q f =
     (case serve_order arrange user_phones q f of (Inl e, f') \<Rightarrow> Inl e | (Inr r, f') \<Rightarrow> Inr f')"

definition after_order_request ::
    "(string list \<Rightarrow> string list) \<Rightarrow> (int \<times> string) list \<Rightarrow> datetime \<times> order_request
     \<Rightarrow> fleet \<Rightarrow> fleet" where
  "after_order_request arrange user_phones q f = snd (serve_order arrange user_phones q f)"

end
