(* ===== verification/OrderTextInv.thy ===== *)
theory OrderTextInv
  imports OrderText
begin

text \<open>
  The texts of orders, proved: canonical statuses are fixed points, every alias has its
  canonical status, and the source that a dispatch writes into its event is read back.
\<close>

section \<open>Canonical statuses\<close>

definition underscore_char :: "char \<Rightarrow> char" where
  "underscore_char c = (if c = CHR ''-'' \<or> c = CHR '' '' then CHR ''_'' else c)"

lemma replace_char_map: "replace_char c [d] s = map (\<lambda>x. if x = c then d else x) s"
  by (induction s) (simp_all add: replace_char_def)

lemma underscored_map: "underscored s = map underscore_char s"
  by (simp add: underscored_def replace_char_map underscore_char_def)

lemma lower_underscore_fix: "underscore_char (lower_char (underscore_char c)) = lower_char (underscore_char c)"
proof -
  have "lower_char d \<noteq> CHR ''-'' \<and> lower_char d \<noteq> CHR '' ''" if "d \<noteq> CHR ''-''" "d \<noteq> CHR '' ''" for d
  proof -
    have "(of_char d :: nat) \<noteq> 45" "(of_char d :: nat) \<noteq> 32"
      using that char_eqI[of d "CHR ''-''"] char_eqI[of d "CHR '' ''"] by auto
    then have "(of_char (lower_char d) :: nat) \<noteq> 45 \<and> (of_char (lower_char d) :: nat) \<noteq> 32"
      by (auto simp: of_char_lower)
    then show ?thesis by auto
  qed
  moreover have "lower_char CHR ''_'' = CHR ''_''" by (simp add: lower_char_def)
  ultimately show ?thesis by (auto simp: underscore_char_def)
qed

definition flat :: "string \<Rightarrow> string" where
  "flat s = py_lower (underscored (py_strip s))"

lemma space_lower_underscore: "is_space (lower_char (underscore_char c)) \<Longrightarrow> is_space c"
  by (simp only: is_space_lower) (auto simp: underscore_char_def is_space_def split: if_splits)

lemma strip_flat: "py_strip (flat s) = flat s"
proof (rule py_strip_id)
  assume ne: "flat s \<noteq> []"
  then have "py_strip s \<noteq> []" by (simp add: flat_def underscored_map py_lower_def)
  then show "\<not> is_space (hd (flat s))" "\<not> is_space (last (flat s))"
    using py_strip_hd[of s] py_strip_last[of s] space_lower_underscore
    by (auto simp: flat_def underscored_map py_lower_def hd_map last_map)
qed

lemma flat_idem: "flat (flat s) = flat s"
  unfolding flat_def[of "flat s"] strip_flat
  by (simp add: flat_def underscored_map py_lower_def lower_underscore_fix)

lemma canonical_flat:
  "canonical_order_status s =
     (if flat s = [] then []
      else case map_of status_mapping (filter (\<lambda>c. c \<noteq> CHR ''_'') (flat s)) of
             Some t \<Rightarrow> t | None \<Rightarrow> flat s)"
  unfolding canonical_order_status_def Let_def flat_def
  by (auto simp: underscored_map py_lower_def split: option.split)

lemma canonical_mapped:
  assumes "t \<in> snd ` set status_mapping"
  shows "canonical_order_status t = t"
proof -
  have "list_all (\<lambda>m. canonical_order_status (snd m) = snd m) status_mapping" by code_simp
  with assms show ?thesis by (auto simp: list_all_iff)
qed

lemma canonical_idem: "canonical_order_status (canonical_order_status s) = canonical_order_status s"
proof (cases "flat s = []")
  case True
  then have "canonical_order_status s = []" by (simp add: canonical_flat)
  then show ?thesis by (simp add: canonical_order_status_def)
next
  case False
  show ?thesis
  proof (cases "map_of status_mapping (filter (\<lambda>c. c \<noteq> CHR ''_'') (flat s))")
    case None
    with False have "canonical_order_status s = flat s" by (simp add: canonical_flat)
    then show ?thesis using None False by (simp add: canonical_flat flat_idem)
  next
    case (Some t)
    with False have "canonical_order_status s = t" by (simp add: canonical_flat)
    moreover have "t \<in> snd ` set status_mapping"
      using map_of_SomeD[OF Some] by force
    ultimately show ?thesis by (simp add: canonical_mapped)
  qed
qed

lemma alias_canonical:
  assumes "alias \<in> set (status_aliases_for s)" "s \<in> set valid_order_statuses"
  shows "canonical_order_status alias = s"
proof -
  have "list_all (\<lambda>s. list_all (\<lambda>a. canonical_order_status a = s) (status_aliases_for s))
      valid_order_statuses" by code_simp
  with assms show ?thesis by (auto simp: list_all_iff)
qed

section \<open>The status machine\<close>

lemma validate_cases:
  assumes "validate_status_transition s (canonical_order_status t) = Inr ()"
  shows "(canonical_order_status s, canonical_order_status t) \<in>
    {(''pending'', ''in_transit''), (''pending'', ''cancelled''), (''in_transit'', ''delivered''),
     (''in_transit'', ''failed''), (''in_transit'', ''cancelled''), (''failed'', ''pending'')}"
proof -
  from assms obtain targets where
    "map_of valid_transitions (canonical_order_status s) = Some targets"
    "canonical_order_status t \<in> set targets"
    by (cases "map_of valid_transitions (canonical_order_status s)")
      (auto simp: validate_status_transition_def canonical_idem Let_def split: if_splits)
  then have "(canonical_order_status s, targets) \<in> set valid_transitions"
    "canonical_order_status t \<in> set targets" by (auto dest: map_of_SomeD)
  then show ?thesis by (auto simp: valid_transitions_def)
qed

section \<open>The source of a dispatch\<close>

lemma search_machine_skip:
  "list_all (\<lambda>c. \<not> separator c) xs \<Longrightarrow> search_machine (xs @ s) = search_machine s"
  by (induction xs) auto

lemma digits_show:
  assumes "\<not> digit_char c"
  shows "digits (show_nat n @ c # s) = Some (int n, c # s)"
proof -
  have "takeWhile digit_char (show_nat n @ c # s) = show_nat n"
    using show_nat_digits[of n] assms by (simp add: takeWhile_append list_all_iff)
  then show ?thesis by (simp add: digits_def Let_def)
qed

lemma after_source: "after ''source='' (''source='' @ s) = Some s"
  by (simp add: after_def py_lower_def lower_char_def)

lemma starts_with_append [simp]: "starts_with p (p @ s)"
  by (induction p) simp_all

lemma lower_type: "t \<in> set dispatch_source_types \<Longrightarrow> py_lower t = t"
proof -
  have "list_all (\<lambda>t. py_lower t = t) dispatch_source_types" by code_simp
  then show "t \<in> set dispatch_source_types \<Longrightarrow> py_lower t = t" by (auto simp: list_all_iff)
qed

lemma after_type:
  "t \<in> set dispatch_source_types \<Longrightarrow> after p (t @ s) =
     (if starts_with p (t @ py_lower s) then Some (drop (length p) (t @ s)) else None)"
  by (simp add: after_def lower_type)

lemma location_group_type:
  assumes "t \<in> set dispatch_source_types"
  shows "location_group dispatch_source_types (t @ s) = Some (t, s)"
proof -
  have "location_group ts (t @ s) = Some (t, s)"
    if "t \<in> set ts" "set ts \<subseteq> set dispatch_source_types" for ts
    using that
  proof (induction ts)
    case Nil
    then show ?case by simp
  next
    case (Cons u us)
    show ?case
    proof (cases "u = t")
      case True
      then show ?thesis using assms by (simp add: after_type)
    next
      case False
      have "\<not> starts_with u (t @ py_lower s)"
        using False assms Cons.prems by (auto simp: dispatch_source_types_def)
      with Cons False assms show ?thesis by (simp add: after_type)
    qed
  qed
  with assms show ?thesis by blast
qed

lemma match_machine_token:
  assumes "t \<in> set dispatch_source_types" "i = None \<or> (\<exists>n. i = Some (int n))"
  shows "match_machine (''source='' @ t @ (case i of None \<Rightarrow> [] | Some j \<Rightarrow> CHR '':'' # show_int j) @ CHR '';'' # s)
    = Some (t, i)"
  using assms(2)
proof
  assume "i = None"
  then show ?thesis
    using location_group_type[OF assms(1), of "CHR '';'' # s"]
    by (simp only: match_machine_def after_source)
      (simp add: at_end_def separator_def after_def lower_char_def py_lower_def)
next
  assume "\<exists>n. i = Some (int n)"
  then obtain n where n: "i = Some (int n)" by blast
  have d: "digits (show_nat n @ CHR '';'' # s) = Some (int n, CHR '';'' # s)"
    by (rule digits_show) (simp add: digit_char_def)
  show ?thesis
    using location_group_type[OF assms(1), of "CHR '':'' # show_nat n @ CHR '';'' # s"] d
    by (simp only: match_machine_def after_source)
      (simp add: n at_end_def separator_def after_def lower_char_def py_lower_def show_int_def)
qed

lemma dispatch_roundtrip:
  assumes "t \<in> set dispatch_source_types" "i = None \<or> (\<exists>n. i = Some (int n))"
    and "list_all (\<lambda>c. \<not> separator c) oid"
  shows "extract_dispatch_source_from_event (Some (build_dispatch_event_description oid t i)) = Some (t, i)"
proof -
  define s where "s = '' note=Dispatched with order '' @ oid @ '' from ''
      @ (case i of Some j \<Rightarrow> t @ '' #'' @ show_int j | None \<Rightarrow> t)"
  have s: "build_dispatch_event_description oid t i =
      ''event=dispatched'' @ CHR '';'' # (''order='' @ oid) @ CHR '';''
      # ''source='' @ t @ (case i of None \<Rightarrow> [] | Some j \<Rightarrow> CHR '':'' # show_int j) @ CHR '';'' # s"
    by (simp add: build_dispatch_event_description_def s_def split: option.split)
  have start: "match_machine (''event=dispatched'' @ u) = None" "match_machine (''order='' @ u) = None" for u
    by (simp_all add: match_machine_def after_def py_lower_def lower_char_def)
  have skip1: "search_machine (''event=dispatched'' @ u) = search_machine u" for u
    by (rule search_machine_skip) (simp add: separator_def is_space_def)
  have skip2: "search_machine (''order='' @ oid @ u) = search_machine u" for u
    using search_machine_skip[of "''order='' @ oid" u] assms(3) by (simp add: separator_def is_space_def)
  have sep: "search_machine (CHR '';'' # u) =
      (case match_machine u of Some m \<Rightarrow> Some m | None \<Rightarrow> search_machine u)" for u
    by (simp add: separator_def)
  let ?tail = "''source='' @ t @ (case i of None \<Rightarrow> [] | Some j \<Rightarrow> CHR '':'' # show_int j) @ CHR '';'' # s"
  have "search_machine (CHR '';'' # ?tail) = Some (t, i)"
    unfolding sep match_machine_token[OF assms(1,2)] by (simp only: option.case)
  then have "search_machine (CHR '';'' # (''order='' @ oid) @ CHR '';'' # ?tail) = Some (t, i)"
    unfolding sep[of "(''order='' @ oid) @ CHR '';'' # ?tail"]
    by (simp only: append_assoc start(2) option.case skip2)
  then show ?thesis
    unfolding extract_dispatch_source_from_event_def s
    by (simp only: option.case start(1) skip1)
qed

lemma infix_starts: "starts_with p s \<Longrightarrow> is_infix p s"
  by (cases s) (auto elim: starts_with.elims)

lemma infix_middle: "is_infix p (xs @ p @ ys)"
  by (induction xs) (auto intro: infix_starts)

lemma dispatch_mentions: "mentions_order oid (build_dispatch_event_description oid t i)"
proof -
  define u where "u = '';source='' @ (case i of Some j \<Rightarrow> t @ '':'' @ show_int j | None \<Rightarrow> t)
    @ ''; note=Dispatched with order '' @ oid @ '' from ''
    @ (case i of Some j \<Rightarrow> t @ '' #'' @ show_int j | None \<Rightarrow> t)"
  have "build_dispatch_event_description oid t i = ''event=dispatched;'' @ (''order='' @ oid) @ u"
    by (simp add: build_dispatch_event_description_def u_def split: option.split)
  then have "py_lower (build_dispatch_event_description oid t i)
      = py_lower ''event=dispatched;'' @ py_lower (''order='' @ oid) @ py_lower u"
    by (simp only: py_lower_append)
  then show ?thesis
    unfolding mentions_order_def Let_def by (simp only: infix_middle simp_thms)
qed

end
