(* ===== verification/OrdersInv.thy ===== *)
theory OrdersInv
  imports Orders OrderTextInv FleetInv
begin

text \<open>
  What the order handlers keep and establish: the consistency of the fleet, the rules of the
  status machine, one active order per driver, and the memory of where a dispatched battery
  came from.
\<close>

section \<open>What the helpers leave alone\<close>

lemma fleet_inv_cong:
  "batteries f' = batteries f \<Longrightarrow> shelves f' = shelves f \<Longrightarrow> shelf_batteries f' = shelf_batteries f \<Longrightarrow>
   fleet_inv f' = fleet_inv f"
  by (simp add: fleet_inv_def list_all_iff shelf_consistent_iff)

definition sites where
  "sites f = (warehouses f, racks f, shelves f, stations f, transfers f, transfer_items f)"

text \<open>The orders, the sites and the identity of the drivers stay, and so does the invariant.\<close>

definition keeps :: "fleet \<Rightarrow> fleet \<Rightarrow> bool" where
  "keeps f f' \<longleftrightarrow> (fleet_inv f \<longrightarrow> fleet_inv f') \<and> orders f' = orders f
     \<and> map d_id (drivers f') = map d_id (drivers f) \<and> sites f' = sites f"

lemma keeps_refl [simp]: "keeps f f"
  by (simp add: keeps_def)

lemma keeps_trans [trans]: "keeps f g \<Longrightarrow> keeps g h \<Longrightarrow> keeps f h"
  by (simp add: keeps_def)

lemma keeps_drivers: "map d_id ds = map d_id (drivers f) \<Longrightarrow> keeps f (f\<lparr>drivers := ds\<rparr>)"
  by (simp add: keeps_def sites_def fleet_inv_cong[of "f\<lparr>drivers := ds\<rparr>" f])

lemma keeps_order_batteries: "keeps f (f\<lparr>order_batteries := obs\<rparr>)"
  by (simp add: keeps_def sites_def fleet_inv_cong[of "f\<lparr>order_batteries := obs\<rparr>" f])

lemma keeps_events: "keeps f (f\<lparr>battery_events := es\<rparr>)"
  by (simp add: keeps_def sites_def fleet_inv_cong[of "f\<lparr>battery_events := es\<rparr>" f])

locale keeping_step =
  fixes step :: "'x \<Rightarrow> fleet \<Rightarrow> fleet res"
  assumes step_keeps: "step x f = Inr f' \<Longrightarrow> keeps f f'"
begin

lemma fold_keeps: "fold_res step xs f = Inr f' \<Longrightarrow> keeps f f'"
proof (induction xs arbitrary: f)
  case Nil
  then show ?case by simp
next
  case (Cons x xs)
  from Cons.prems obtain f1 where "step x f = Inr f1" "fold_res step xs f1 = Inr f'"
    by (auto split: sum.splits)
  with Cons.IH step_keeps keeps_trans show ?case by blast
qed

end

lemma keeps_transition:
  assumes "apply_battery_transition now b t f = Inr f'" "b \<in> set (batteries f)"
  shows "keeps f f'"
  using transition_frame[OF assms(1)] transition_preserves_fleet_inv[OF _ assms(2,1)]
  by (simp add: keeps_def sites_def fleet_frame_def)

lemma keeps_set_driver_status [simp]: "keeps f (set_driver_status now d s f)"
proof (cases "get_row d_id d (drivers f)")
  case None
  then show ?thesis by (simp add: set_driver_status_def)
next
  case (Some v)
  then show ?thesis
    by (auto simp: set_driver_status_def intro!: keeps_drivers)
qed

lemma keeps_release_driver [simp]: "keeps f (release_driver_if_idle now r f)"
  by (simp add: release_driver_if_idle_def split: option.split)

lemma keeps_release_previous [simp]: "keeps f (release_previous_driver now p r f)"
  by (simp add: release_previous_driver_def)

lemma keeps_assert_driver:
  assumes "assert_driver_available_for_order d e ab c f = Inr f'"
  shows "keeps f f'"
  using assms
  by (auto simp: assert_driver_available_for_order_def Let_def
      split: option.splits if_splits intro!: keeps_drivers)

lemma keeps_persist:
  assumes "persist_order_batteries i ids f = Inr f'"
  shows "keeps f f'"
  using assms
  by (auto simp: persist_order_batteries_def Let_def keeps_order_batteries
      split: if_splits sum.splits)

lemma keeps_battery_ids:
  assumes "get_order_battery_ids r f = Inr (ids, f')"
  shows "keeps f f'"
  using assms
  by (auto simp: get_order_battery_ids_def Let_def dest: keeps_persist split: if_splits sum.splits)

lemma reserve_one_cases:
  assumes "reserve_one now i e bid f = Inr f'"
  obtains b where "get_row b_id bid (batteries f) = Some b"
    "b_status b \<in> set transferable_battery_statuses"
    "b_location_type b \<in> {Some ''warehouse'', Some ''station'', Some ''shelf''}"
    "b_location_id b \<noteq> None"
    "apply_battery_transition now b
       ((transition_to ''reserved'' (the (b_location_type b)) (b_location_id b) ''reserved''
           (''Reserved for order '' @ i) None)\<lparr>t_exclude_order_id := e\<rparr>) f = Inr f'"
  using assms by (auto simp: reserve_one_def split: option.splits if_splits sum.splits)

interpretation reserving: keeping_step "reserve_one now i e" for now i e
proof
  fix bid f f'
  assume "reserve_one now i e bid f = Inr f'"
  then show "keeps f f'"
    by (cases rule: reserve_one_cases) (auto intro: keeps_transition dest: get_row_Some)
qed

lemma reserve_cases:
  assumes "reserve_order_batteries now r ids e f = Inr f'"
  obtains bs f1 rows where
    "ids = Some bs \<and> f1 = f \<or> ids = None \<and> get_order_battery_ids r f = Inr (bs, f1)"
    "fetch_batteries_by_serials f1 bs False = Inr rows"
    "assert_batteries_not_in_active_orders f1 bs e = Inr ()"
    "assert_batteries_not_in_active_transfers f1 bs None = Inr ()"
    "fold_res (reserve_one now (o_id r) e) (map b_id rows) f1 = Inr f'"
  using assms
  by (auto simp: reserve_order_batteries_def split: option.splits sum.splits prod.splits)

lemma keeps_reserve:
  assumes "reserve_order_batteries now r ids e f = Inr f'"
  shows "keeps f f'"
  using assms
proof (cases rule: reserve_cases)
  case (1 bs f1 rows)
  then have "keeps f f1" by (auto dest: keeps_battery_ids)
  also have "keeps f1 f'" using 1(5) by (rule reserving.fold_keeps)
  finally show ?thesis .
qed

section \<open>Batteries follow the status\<close>

lemma keeps_serial:
  assumes "get_row b_id bid (batteries f) = Some row" "normalize_battery_serial (serial_number row) = Inr s"
  shows "keeps f (f\<lparr>batteries := put_row b_id (row\<lparr>serial_number := s\<rparr>) (batteries f)\<rparr>)"
    (is "keeps f ?f1")
proof -
  let ?b = "row\<lparr>serial_number := s\<rparr>"
  have row: "row \<in> set (batteries f)" using assms(1) by (auto dest: get_row_Some)
  have k: "serial_key ?b = serial_key row"
    using assms(2) by (simp add: serial_key_def normalize_serial_iff)
  have "fleet_inv ?f1" if inv: "fleet_inv f"
  proof -
    have d: "distinct (map b_id (batteries f))" using inv by (simp add: fleet_inv_def)
    have keys: "map serial_key (batteries ?f1) = map serial_key (batteries f)"
      using map_put_row[OF d row, of ?b serial_key] k by simp
    have "assert_battery_shelf_state_consistent ?f1 c = Inr ()" if "c \<in> set (batteries ?f1)" for c
    proof -
      have ok: "assert_battery_shelf_state_consistent f d = Inr ()" if "d \<in> set (batteries f)" for d
        using that inv by (simp add: fleet_inv_def list_all_iff)
      have "assert_battery_shelf_state_consistent f ?b = Inr ()"
        using ok[OF row] unfolding shelf_consistent_iff k by (simp split: list.splits)
      then have "assert_battery_shelf_state_consistent f c = Inr ()"
        using that in_put_row[of c b_id ?b "batteries f"] ok by auto
      then show ?thesis by (simp add: shelf_consistent_iff)
    qed
    with inv keys show ?thesis by (simp add: fleet_inv_def list_all_iff)
  qed
  then show ?thesis by (simp add: keeps_def sites_def)
qed

lemma sync_one_cases:
  assumes "sync_one now r st reason actor bid f = Inr f'"
  obtains row s b f1 where "get_row b_id bid (batteries f) = Some row"
    "normalize_battery_serial (serial_number row) = Inr s" "b = row\<lparr>serial_number := s\<rparr>"
    "f1 = f\<lparr>batteries := put_row b_id b (batteries f)\<rparr>" "b \<in> set (batteries f1)"
    "st = ''in_transit'' \<and> dispatch_one now r actor b f1 = Inr f'
     \<or> st = ''delivered'' \<and> deliver_one now r actor b f1 = Inr f'
     \<or> st \<in> {''failed'', ''cancelled''} \<and> release_one now r st reason actor b f1 = Inr f'
     \<or> st \<notin> {''in_transit'', ''delivered'', ''failed'', ''cancelled''} \<and> f' = f1"
proof -
  from assms obtain row s where r: "get_row b_id bid (batteries f) = Some row"
    "normalize_battery_serial (serial_number row) = Inr s"
    by (auto simp: sync_one_def split: option.splits sum.splits)
  have "row \<in> set (batteries f)" using r(1) by (auto dest: get_row_Some)
  then have "row\<lparr>serial_number := s\<rparr> \<in> set (put_row b_id (row\<lparr>serial_number := s\<rparr>) (batteries f))"
    by (force simp: put_row_def)
  with assms r that show thesis
    by (auto simp: sync_one_def Let_def split: if_splits)
qed

lemma dispatch_one_cases:
  assumes "dispatch_one now r actor b f = Inr f'"
  obtains l where "b_location_type b = Some l" "l \<in> {''warehouse'', ''station'', ''shelf'', ''customer''}"
    "l \<noteq> ''customer'' \<longrightarrow> b_location_id b \<noteq> None"
    "apply_battery_transition now b
       (for_order r (transition_to ''deployed'' ''transit'' None ''dispatched''
          (build_dispatch_event_description (o_id r) l (b_location_id b)) actor)) f = Inr f'"
  using assms by (auto simp: dispatch_one_def split: if_splits sum.splits)

lemma deliver_one_cases:
  assumes "deliver_one now r actor b f = Inr f'"
  obtains (returned) wid where "o_type r = ''return''"
      "resolve_return_delivery_warehouse_id f b r = Inr wid"
      "apply_battery_transition now b
         (for_order r (transition_to ''available'' ''warehouse'' (Some wid) ''returned''
            (''Returned to warehouse #'' @ show_int wid @ '' via return order '' @ o_id r) actor)) f = Inr f'"
    | (delivered) "o_type r \<noteq> ''return''"
      "apply_battery_transition now b
         (for_order r (transition_to ''deployed'' ''customer'' None ''delivered''
            (''Delivered with order '' @ o_id r) actor)) f = Inr f'"
  using assms by (auto simp: deliver_one_def split: if_splits sum.splits)

lemma release_one_cases:
  assumes "release_one now r st reason actor b f = Inr f'"
  obtains l i d where "resolve_release_location f b r = Inr (l, i)"
    "apply_battery_transition now b
       (for_order r (transition_to ''available'' l i ''released'' d actor)) f = Inr f'"
  using assms by (auto simp: release_one_def Let_def split: sum.splits prod.splits)

interpretation syncing: keeping_step "sync_one now r st reason actor" for now r st reason actor
proof
  fix bid f f'
  assume "sync_one now r st reason actor bid f = Inr f'"
  then show "keeps f f'"
  proof (cases rule: sync_one_cases)
    case (1 row s b f1)
    have "keeps f f1" unfolding 1(4) 1(3) by (rule keeps_serial[OF 1(1,2)])
    also have "keeps f1 f'"
      using 1(6) 1(5)
      by (auto elim!: dispatch_one_cases deliver_one_cases release_one_cases intro: keeps_transition)
    finally show ?thesis .
  qed
qed

lemma sync_cases:
  assumes "sync_batteries_for_order_status now r st reason actor f = Inr f'"
  obtains ids f1 rows where "get_order_battery_ids r f = Inr (ids, f1)"
    "fetch_batteries_by_serials f1 ids False = Inr rows"
    "fold_res (sync_one now r st reason actor) (map b_id rows) f1 = Inr f'"
  using assms by (auto simp: sync_batteries_for_order_status_def split: sum.splits prod.splits)

lemma keeps_sync:
  assumes "sync_batteries_for_order_status now r st reason actor f = Inr f'"
  shows "keeps f f'"
  using assms
proof (cases rule: sync_cases)
  case (1 ids f1 rows)
  then show ?thesis using keeps_battery_ids syncing.fold_keeps keeps_trans by blast
qed

section \<open>What a handler does to the orders\<close>

definition changes :: "fleet \<Rightarrow> order list \<Rightarrow> fleet \<Rightarrow> bool" where
  "changes f rs f' \<longleftrightarrow> (fleet_inv f \<longrightarrow> fleet_inv f') \<and> orders f' = rs
     \<and> map d_id (drivers f') = map d_id (drivers f) \<and> sites f' = sites f"

lemma fleet_inv_orders [simp]: "fleet_inv (f\<lparr>orders := rs\<rparr>) = fleet_inv f"
  by (rule fleet_inv_cong) simp_all

lemma changes_save:
  "keeps f f1 \<Longrightarrow> keeps (save_order r f1) f' \<Longrightarrow> changes f (put_row o_id r (orders f)) f'"
  by (simp add: keeps_def changes_def save_order_def sites_def)

lemma changes_add:
  "keeps f f1 \<Longrightarrow> keeps (f1\<lparr>orders := orders f1 @ [r]\<rparr>) f' \<Longrightarrow> changes f (orders f @ [r]) f'"
  by (simp add: keeps_def changes_def sites_def)

lemma resolve_order:
  assumes "resolve_order_or_404 f ref = Inr r"
  shows "r \<in> set (orders f)"
  using assms
  by (auto simp: resolve_order_or_404_def resolve_order_for_assignment_def Let_def
      split: option.splits if_splits dest: get_row_Some find_Some)

lemma assert_driver_free:
  assumes "assert_driver_available_for_order d e ab True f = Inr f'"
  shows "active_orders_of f d e = []" and "d \<in> d_id ` set (drivers f)"
proof -
  have same: "active_orders_of (f\<lparr>drivers := ds\<rparr>) d x = active_orders_of f d x" for ds x
    by (simp add: active_orders_of_def)
  have none: "active_orders_of g d None = [] \<Longrightarrow> active_orders_of g d x = []" for g x
    by (auto simp: active_orders_of_def filter_empty_conv)
  show "active_orders_of f d e = []"
    using assms
    by (auto simp: assert_driver_available_for_order_def Let_def same none
        split: option.splits if_splits)
  show "d \<in> d_id ` set (drivers f)"
    using assms by (force simp: assert_driver_available_for_order_def
        split: option.splits dest: get_row_Some)
qed

lemma order_row_fields:
  assumes "order_row now i c f = Inr r"
  shows "o_id r = i \<and> get_row o_id i (orders f) = None \<and> o_status r = ''pending''
    \<and> o_assigned_driver_id r = c_assigned_driver_id c \<and> o_type r = ''delivery'' \<and> 0 < o_units r
    \<and> o_units r = c_units c"
  using assms by (auto simp: order_row_def Let_def split: if_splits sum.splits prod.splits)

lemma mark_assigned_fields [simp]:
  "o_id (mark_order_assigned_if_pending now r) = o_id r"
  "o_assigned_driver_id (mark_order_assigned_if_pending now r) = o_assigned_driver_id r"
  "o_type (mark_order_assigned_if_pending now r) = o_type r"
  by (simp_all add: mark_order_assigned_if_pending_def)

lemma same_batteries:
  "batteries (set_driver_status now d s f) = batteries f"
  "assert_driver_available_for_order d e ab c f = Inr f' \<Longrightarrow> batteries f' = batteries f"
  "persist_order_batteries i ids f = Inr f' \<Longrightarrow> batteries f' = batteries f \<and> orders f' = orders f"
  by (auto simp: set_driver_status_def assert_driver_available_for_order_def Let_def
      persist_order_batteries_def split: option.splits if_splits sum.splits)

lemma create_cases:
  assumes "create_order now token c f = Inr (r, f')"
  obtains row ids f1 f2 f3 where
    "order_row now (new_order_id token c) c f = Inr row"
    "c_assigned_driver_id c = None \<and> f1 = f
     \<or> (\<exists>d. c_assigned_driver_id c = Some d \<and> assert_driver_available_for_order d None False True f = Inr f1)"
    "normalize_battery_serials (c_assigned_battery_ids c) False = Inr ids" "ids \<noteq> []"
    "c_units c = int (length ids)"
    "reserve_order_batteries now (row\<lparr>o_assigned_battery_ids := Some (JList (map JStr ids))\<rparr>)
       (Some ids) None f1 = Inr f2"
    "keeps f2 f3 \<and> batteries f3 = batteries f2"
    "r = (if c_assigned_driver_id c = None then (\<lambda>x. x) else mark_order_assigned_if_pending now)
         (row\<lparr>o_assigned_battery_ids := Some (JList (map JStr ids))\<rparr>)"
    "persist_order_batteries (o_id r) ids (f3\<lparr>orders := orders f3 @ [r]\<rparr>) = Inr f'"
proof (cases "c_assigned_driver_id c")
  case None
  with assms obtain row ids f2 where x: "order_row now (new_order_id token c) c f = Inr row"
    "normalize_battery_serials (c_assigned_battery_ids c) False = Inr ids" "ids \<noteq> []"
    "c_units c = int (length ids)"
    "reserve_order_batteries now (row\<lparr>o_assigned_battery_ids := Some (JList (map JStr ids))\<rparr>)
       (Some ids) None f = Inr f2"
    "r = row\<lparr>o_assigned_battery_ids := Some (JList (map JStr ids))\<rparr>"
    "persist_order_batteries (o_id r) ids (f2\<lparr>orders := orders f2 @ [r]\<rparr>) = Inr f'"
    by (auto simp: create_order_def Let_def split: sum.splits if_splits prod.splits)
  show thesis by (rule that[OF x(1) _ x(2-5) conjI[OF keeps_refl refl] _ x(7)]) (use None x(6) in simp_all)
next
  case (Some d)
  with assms obtain row ids f1 f2 where x: "order_row now (new_order_id token c) c f = Inr row"
    "assert_driver_available_for_order d None False True f = Inr f1"
    "normalize_battery_serials (c_assigned_battery_ids c) False = Inr ids" "ids \<noteq> []"
    "c_units c = int (length ids)"
    "reserve_order_batteries now (row\<lparr>o_assigned_battery_ids := Some (JList (map JStr ids))\<rparr>)
       (Some ids) None f1 = Inr f2"
    "r = mark_order_assigned_if_pending now (row\<lparr>o_assigned_battery_ids := Some (JList (map JStr ids))\<rparr>)"
    "persist_order_batteries (o_id r) ids
       ((set_driver_status now d ''busy'' f2)\<lparr>orders := orders (set_driver_status now d ''busy'' f2) @ [r]\<rparr>)
       = Inr f'"
    by (auto simp: create_order_def Let_def split: sum.splits if_splits prod.splits)
  show thesis
    by (rule that[OF x(1) _ x(3-6) conjI[OF keeps_set_driver_status same_batteries(1)] _ x(8)])
      (use Some x(2,7) in simp_all)
qed

lemma create_effect:
  assumes "create_order now token c f = Inr (r, f')"
  shows "changes f (orders f @ [r]) f' \<and> get_row o_id (o_id r) (orders f) = None
    \<and> o_status r \<in> {''pending'', ''assigned''} \<and> o_type r = ''delivery''
    \<and> (\<forall>d. o_assigned_driver_id r = Some d \<longrightarrow>
         active_orders_of f d None = [] \<and> d \<in> d_id ` set (drivers f))"
  using assms
proof (cases rule: create_cases)
  case (1 row ids f1 f2 f3)
  note row = order_row_fields[OF 1(1)]
  have "keeps f f1" using 1(2) by (auto intro: keeps_assert_driver)
  also have "keeps f1 f2" using 1(6) by (rule keeps_reserve)
  also have "keeps f2 f3" using 1(7) by blast
  finally have "changes f (orders f @ [r]) f'" using keeps_persist[OF 1(9)] by (rule changes_add)
  moreover have "o_status r \<in> {''pending'', ''assigned''}"
    using row 1(8) by (auto simp: mark_order_assigned_if_pending_def)
  moreover have "\<forall>d. o_assigned_driver_id r = Some d \<longrightarrow>
      active_orders_of f d None = [] \<and> d \<in> d_id ` set (drivers f)"
    using row 1(2,8) by (auto dest: assert_driver_free split: if_splits)
  ultimately show ?thesis using row 1(8) by auto
qed

lemma prepare_cases:
  assumes "prepare_status now r st su f = Inr (r1, f1)"
  shows "keeps f f1 \<and> o_id r1 = o_id r \<and> o_type r1 = o_type r
    \<and> o_assigned_driver_id r1 = o_assigned_driver_id r
    \<and> (st = ''in_transit'' \<or> canonical_order_status (o_status r) = ''failed'' \<and> st = ''pending'' \<longrightarrow>
        (\<forall>d. o_assigned_driver_id r = Some d \<longrightarrow> d = 0 \<or> active_orders_of f d (Some (o_id r)) = []))
    \<and> (st = ''in_transit'' \<longrightarrow> truthy_id (o_assigned_driver_id r))
    \<and> (st = ''failed'' \<longrightarrow> nonempty_str (su_failure_reason su))"
proof (cases "st = ''in_transit''")
  case True
  with assms obtain d g where d: "o_assigned_driver_id r = Some d" "d \<noteq> 0"
    "assert_driver_available_for_order d (Some (o_id r)) True True f = Inr g"
    "f1 = set_driver_status now d ''busy'' g"
    "r1 = r\<lparr>o_dispatch_date := Some (or_default now (su_dispatch_date su))\<rparr>"
    by (auto simp: prepare_status_def Let_def truthy_id_def split: if_splits sum.splits)
  have "keeps f g" using d(3) by (rule keeps_assert_driver)
  then have "keeps f f1" using d(4) keeps_trans by simp
  then show ?thesis using d True assert_driver_free(1)[OF d(3)] by (simp add: truthy_id_def)
next
  case other: False
  show ?thesis
  proof (cases "canonical_order_status (o_status r) = ''failed'' \<and> st = ''pending''")
    case retry: True
    with assms other obtain g where g: "reserve_order_batteries now r None (Some (o_id r)) f = Inr g"
      "r1 = r"
      and h: "if truthy_id (o_assigned_driver_id r)
         then \<exists>d g1. o_assigned_driver_id r = Some d
                \<and> assert_driver_available_for_order d (Some (o_id r)) True True g = Inr g1
                \<and> f1 = set_driver_status now d ''busy'' g1
         else f1 = g"
      by (auto simp: prepare_status_def Let_def truthy_id_def split: if_splits sum.splits)
    have fg: "keeps f g" using g(1) by (rule keeps_reserve)
    have same: "active_orders_of g d x = active_orders_of f d x" for d x
      using fg by (simp add: keeps_def active_orders_of_def)
    show ?thesis
    proof (cases "truthy_id (o_assigned_driver_id r)")
      case True
      with h obtain d g1 where d: "o_assigned_driver_id r = Some d"
        "assert_driver_available_for_order d (Some (o_id r)) True True g = Inr g1"
        "f1 = set_driver_status now d ''busy'' g1" by auto
      have "keeps g g1" using d(2) by (rule keeps_assert_driver)
      with fg d(3) keeps_trans have "keeps f f1" by (metis keeps_set_driver_status)
      then show ?thesis using g(2) d(1) assert_driver_free(1)[OF d(2)] other retry same by auto
    next
      case False
      with h fg g(2) other retry show ?thesis by (auto simp: truthy_id_def)
    qed
  next
    case False
    with assms other show ?thesis by (auto simp: prepare_status_def Let_def split: if_splits)
  qed
qed

lemma update_effect:
  assumes "update_order_status now user ref su f = Inr (r, f')"
  obtains r0 where "resolve_order_or_404 f ref = Inr r0"
    "validate_status_transition (o_status r0) (canonical_order_status (su_status su)) = Inr ()"
    "o_id r = o_id r0" "o_type r = o_type r0" "o_assigned_driver_id r = o_assigned_driver_id r0"
    "o_status r = canonical_order_status (su_status su)"
    "changes f (put_row o_id r (orders f)) f'"
    "o_status r \<in> {''pending'', ''in_transit''} \<longrightarrow>
       (\<forall>d. o_assigned_driver_id r = Some d \<longrightarrow> d = 0 \<or> active_orders_of f d (Some (o_id r)) = [])"
    "o_status r = ''in_transit'' \<longrightarrow> truthy_id (o_assigned_driver_id r)"
proof -
  let ?st = "canonical_order_status (su_status su)"
  from assms obtain r0 r1 f1 f2 where x: "resolve_order_or_404 f ref = Inr r0"
    "validate_status_transition (o_status r0) ?st = Inr ()"
    "prepare_status now r0 ?st su f = Inr (r1, f1)"
    "r = r1\<lparr>o_status := ?st, o_updated_at := now,
            o_delivered_at := (if ?st = ''delivered'' then Some now else o_delivered_at r1),
            o_failure_reason := (if ?st = ''failed'' then su_failure_reason su else o_failure_reason r1)\<rparr>"
    "sync_batteries_for_order_status now r ?st (su_failure_reason su) (Some user) (save_order r f1) = Inr f2"
    "f' = (if ?st \<in> set terminal_statuses then release_driver_if_idle now r f2 else f2)"
    by (auto simp: update_order_status_def Let_def split: sum.splits prod.splits)
  note p = prepare_cases[OF x(3)]
  have r1: "o_id r1 = o_id r0" "o_type r1 = o_type r0" "o_assigned_driver_id r1 = o_assigned_driver_id r0"
    using p by auto
  have "keeps (save_order r f1) f2" using x(5) by (rule keeps_sync)
  then have "keeps (save_order r f1) f'" using x(6) keeps_trans[OF _ keeps_release_driver] by simp
  then have ch: "changes f (put_row o_id r (orders f)) f'" using p by (intro changes_save) auto
  have st: "o_status r = ?st" using x(4) by simp
  have from_failed: "?st = ''pending'' \<longrightarrow> canonical_order_status (o_status r0) = ''failed''"
    using validate_cases[OF x(2)] by auto
  show thesis
    by (rule that[OF x(1,2)]) (use x(4) r1 ch st p from_failed in auto)
qed

lemma proof_effect:
  assumes "submit_proof_of_delivery now user ref pod f = Inr (r, f')"
  obtains r0 where "resolve_order_or_404 f ref = Inr r0" "accepts_proof r0"
    "o_id r = o_id r0" "o_type r = o_type r0" "o_assigned_driver_id r = o_assigned_driver_id r0"
    "o_status r = ''delivered''" "changes f (put_row o_id r (orders f)) f'"
proof -
  from assms obtain r0 image sig f2 where x: "resolve_order_or_404 f ref = Inr r0" "accepts_proof r0"
    "r = r0\<lparr>o_pod_url := image, o_pod_notes := stripped_or_none (pd_notes pod),
            o_pod_signature_url := sig, o_recipient_name := stripped_or_none (pd_recipient_name pod),
            o_pod_captured_at := Some now,
            o_dispatch_date := Some (or_default now (o_dispatch_date r0)),
            o_status := ''delivered'', o_delivered_at := Some now, o_updated_at := now\<rparr>"
    "sync_batteries_for_order_status now r ''delivered'' None (Some user) (save_order r f) = Inr f2"
    "f' = release_driver_if_idle now r f2"
    by (auto simp: submit_proof_of_delivery_def Let_def split: sum.splits if_splits)
  have "keeps (save_order r f) f2" using x(4) by (rule keeps_sync)
  then have "keeps (save_order r f) f'" using x(5) keeps_trans[OF _ keeps_release_driver] by simp
  then have "changes f (put_row o_id r (orders f)) f'" by (rule changes_save[OF keeps_refl])
  then show thesis by (intro that[OF x(1,2)]) (simp_all add: x(3))
qed

lemma schedule_effect:
  assumes "schedule_delivery now ref s e f = Inr (r, f')"
  obtains r0 where "resolve_order_or_404 f ref = Inr r0"
    "canonical_order_status (o_status r0) \<notin> set terminal_statuses" "s < e"
    "r = r0\<lparr>o_slot_start := Some s, o_slot_end := Some e, o_updated_at := now\<rparr>"
    "changes f (put_row o_id r (orders f)) f'"
proof -
  from assms obtain r0 where x: "resolve_order_or_404 f ref = Inr r0"
    "canonical_order_status (o_status r0) \<notin> set terminal_statuses" "s < e"
    "r = r0\<lparr>o_slot_start := Some s, o_slot_end := Some e, o_updated_at := now\<rparr>" "f' = save_order r f"
    by (auto simp: schedule_delivery_def Let_def split: sum.splits if_splits)
  then have "changes f (put_row o_id r (orders f)) f'" by (intro changes_save[OF keeps_refl]) simp
  with x that show thesis by blast
qed

lemma confirmation_effect:
  assumes "request_confirmation now ref sent f = Inr (r, f')"
  obtains r0 where "resolve_order_or_404 f ref = Inr r0" "r = r0\<lparr>o_confirmation_sent_at := Some now\<rparr>"
    "changes f (put_row o_id r (orders f)) f'"
proof -
  from assms obtain r0 where x: "resolve_order_or_404 f ref = Inr r0"
    "r = r0\<lparr>o_confirmation_sent_at := Some now\<rparr>" "f' = save_order r f"
    by (auto simp: request_confirmation_def Let_def split: sum.splits if_splits)
  then have "changes f (put_row o_id r (orders f)) f'" by (intro changes_save[OF keeps_refl]) simp
  with x that show thesis by blast
qed

lemma refund_effect:
  assumes "process_refund_order phones now ref pid gateway f = (a, f')"
  obtains (refused) "f' = f"
  | (written) r0 st where "resolve_order_or_404 f ref = Inr r0" "o_type r0 = ''return''"
      "canonical_order_status (o_status r0) = ''delivered''" "o_refund_status r0 \<notin> {''processed'', ''none''}"
      "st \<in> {''processed'', ''failed''}"
      "changes f (put_row o_id (with_refund_status now st r0) (orders f)) f'"
proof (cases "f' = f")
  case True
  then show thesis by (rule refused)
next
  case False
  with assms obtain r0 st where x: "resolve_order_or_404 f ref = Inr r0" "o_type r0 = ''return''"
      "canonical_order_status (o_status r0) = ''delivered''" "o_refund_status r0 \<notin> {''processed'', ''none''}"
      "st \<in> {''processed'', ''failed''}" "f' = save_order (with_refund_status now st r0) f"
    by (auto simp: process_refund_order_def Let_def split: sum.splits if_splits)
  then have "changes f (put_row o_id (with_refund_status now st r0) (orders f)) f'"
    by (intro changes_save[OF keeps_refl]) simp
  with x(1-5) show thesis by (rule written)
qed

lemma keeps_log: "keeps f (fold (\<lambda>b. log_battery_event now (b_id b) t d a) bs f)"
proof (induction bs arbitrary: f)
  case Nil
  then show ?case by simp
next
  case (Cons b bs)
  have "keeps f (log_battery_event now (b_id b) t d a f)"
    unfolding log_battery_event_def by (rule keeps_events)
  also have "keeps (log_battery_event now (b_id b) t d a f)
      (fold (\<lambda>b. log_battery_event now (b_id b) t d a) bs (log_battery_event now (b_id b) t d a f))"
    by (rule Cons.IH)
  finally show ?case by simp
qed

lemma return_effect:
  assumes "initiate_return now token user ref reason f = Inr (r, f')"
  obtains r0 ids where "resolve_order_or_404 f ref = Inr r0"
    "canonical_order_status (o_status r0) = ''delivered''" "\<not> has_open_return f (o_id r0)"
    "r = return_order_row now (''RET-'' @ py_upper token) reason r0 ids"
    "get_row o_id (o_id r) (orders f) = None" "changes f (orders f @ [r]) f'"
proof -
  define lg where "lg r0 = (\<lambda>b :: battery. log_battery_event now (b_id b) ''return_initiated''
    (''Return initiated for order '' @ o_id r0 @ ''. Return ID: '' @ o_id r @ ''. Reason: '' @ reason) (Some user))"
    for r0 :: order
  from assms obtain r0 ids f1 rows where x: "resolve_order_or_404 f ref = Inr r0"
    "canonical_order_status (o_status r0) = ''delivered''" "\<not> has_open_return f (o_id r0)"
    "get_order_battery_ids r0 f = Inr (ids, f1)"
    "r = return_order_row now (''RET-'' @ py_upper token) reason r0 ids"
    "get_row o_id (o_id r) (orders f1) = None"
    "persist_order_batteries (o_id r) ids
       ((fold (lg r0) rows f1)\<lparr>orders := orders (fold (lg r0) rows f1) @ [r]\<rparr>) = Inr f'"
    by (auto simp: initiate_return_def Let_def lg_def split: sum.splits prod.splits if_splits)
  have f1: "keeps f f1" using x(4) by (rule keeps_battery_ids)
  also have "keeps f1 (fold (lg r0) rows f1)" unfolding lg_def by (rule keeps_log)
  finally have "changes f (orders f @ [r]) f'" using keeps_persist[OF x(7)] by (rule changes_add)
  with x f1 that show thesis by (auto simp: keeps_def)
qed

lemma resolve_driver:
  assumes "resolve_driver_for_assignment arrange phones ref f = Inr (Some d)"
  shows "d \<in> set (drivers f)"
proof -
  have phone: "driver_by_phone phones ds cs = Some d \<Longrightarrow> d \<in> set ds" for ds cs
    by (induction phones ds cs rule: driver_by_phone.induct)
      (auto split: option.splits if_splits dest: find_Some)
  show ?thesis
    using assms
    by (auto simp: resolve_driver_for_assignment_def Let_def
        split: sum.splits option.splits dest: get_row_Some find_Some phone)
qed

text \<open>The orders after the driver was taken from a pending order, if it had one.\<close>

definition unassigned :: "datetime \<Rightarrow> order \<Rightarrow> order" where
  "unassigned now q = q\<lparr>o_assigned_driver_id := None,
     o_status := (if py_lower (py_strip (o_status q)) = ''assigned'' then ''pending'' else o_status q),
     o_updated_at := now\<rparr>"

lemma take_over_cases:
  assumes "take_over_driver now r d f = Inr f'"
  obtains (free) "active_orders_of f d (Some (o_id r)) = []" "f' = f"
    | (taken) q where "q \<in> set (active_orders_of f d (Some (o_id r)))"
      "canonical_order_status (o_status r) = ''pending''" "canonical_order_status (o_status q) = ''pending''"
      "f' = set_driver_status now d ''available'' (save_order (unassigned now q) f)"
proof -
  let ?act = "active_orders_of f d (Some (o_id r))"
  have members: "set (sort_key (\<lambda>q. - o_updated_at q) ?act) = set ?act" by simp
  show thesis
  proof (cases "sort_key (\<lambda>q. - o_updated_at q) ?act")
    case Nil
    then have "?act = []" using members by simp
    moreover have "f' = f"
      using assms[unfolded take_over_driver_def Nil list.case] by simp
    ultimately show thesis by (rule free)
  next
    case (Cons q qs)
    then have "q \<in> set ?act" using members by (metis list.set_intros(1))
    then show thesis
      using assms[unfolded take_over_driver_def Cons list.case] taken
      by (auto simp: unassigned_def split: if_splits)
  qed
qed

lemma assign_effect:
  assumes "assign_driver arrange phones now ref cands f = Inr (r, f')"
  obtains r0 d where "resolve_order_or_404 f ref = Inr r0" "d \<in> set (drivers f)"
    "canonical_order_status (o_status r0) \<notin> set terminal_statuses"
    "o_id r = o_id r0" "o_type r = o_type r0" "o_assigned_driver_id r = Some (d_id d)"
    "o_status r \<in> {o_status r0, ''assigned''}"
    "o_status r \<noteq> o_status r0 \<longrightarrow> canonical_order_status (o_status r0) = ''pending''"
    "(o_assigned_driver_id r0 = Some (d_id d) \<and> changes f (put_row o_id r (orders f)) f')
     \<or> (active_orders_of f (d_id d) (Some (o_id r)) = [] \<and> changes f (put_row o_id r (orders f)) f')
     \<or> (\<exists>q. q \<in> set (active_orders_of f (d_id d) (Some (o_id r)))
            \<and> canonical_order_status (o_status q) = ''pending''
            \<and> active_orders_of (save_order (unassigned now q) f) (d_id d) (Some (o_id r)) = []
            \<and> changes f (put_row o_id r (put_row o_id (unassigned now q) (orders f))) f')"
proof -
  from assms obtain reference r0 d where x: "extract_driver_reference cands = Inr reference"
    "resolve_order_for_assignment f ref = Some r0"
    "canonical_order_status (o_status r0) \<notin> set terminal_statuses"
    "resolve_driver_for_assignment arrange phones reference f = Inr (Some d)"
    by (auto simp: assign_driver_def Let_def split: sum.splits option.splits if_splits)
  have ref: "resolve_order_or_404 f ref = Inr r0" using x(2) by (simp add: resolve_order_or_404_def)
  have d: "d \<in> set (drivers f)" using x(4) by (rule resolve_driver)
  note marked = mark_order_assigned_if_pending_def
  show thesis
  proof (cases "o_assigned_driver_id r0 = Some (d_id d)")
    case True
    with assms x have y: "r = mark_order_assigned_if_pending now r0" "f' = save_order r f"
      by (auto simp: assign_driver_def Let_def)
    then have "changes f (put_row o_id r (orders f)) f'" by (intro changes_save[OF keeps_refl]) simp
    with True y(1) show thesis
      by (intro that[OF ref d x(3)]) (auto simp: marked)
  next
    case False
    with assms x obtain f1 f2 f3 where y:
      "assert_driver_available_for_order (d_id d) (Some (o_id r0)) False False f = Inr f1"
      "take_over_driver now r0 (d_id d) f1 = Inr f2"
      "assert_driver_available_for_order (d_id d) (Some (o_id r0)) False True f2 = Inr f3"
      "r = mark_order_assigned_if_pending now (r0\<lparr>o_assigned_driver_id := Some (d_id d), o_updated_at := now\<rparr>)"
      "f' = release_previous_driver now (o_assigned_driver_id r0) r
              (set_driver_status now (d_id d) ''busy'' (save_order r f3))"
      by (auto simp: assign_driver_def Let_def split: sum.splits)
    have f1: "keeps f f1" using y(1) by (rule keeps_assert_driver)
    have f3: "keeps f2 f3" using y(3) by (rule keeps_assert_driver)
    have id: "o_id r = o_id r0" using y(4) by simp
    have same: "active_orders_of f1 e x = active_orders_of f e x" for e x
      using f1 by (simp add: keeps_def active_orders_of_def)
    have tail: "keeps (save_order r f3) f'"
      unfolding y(5) by (rule keeps_trans[OF keeps_set_driver_status keeps_release_previous])
    have alternatives: "(active_orders_of f (d_id d) (Some (o_id r)) = [] \<and> changes f (put_row o_id r (orders f)) f')
     \<or> (\<exists>q. q \<in> set (active_orders_of f (d_id d) (Some (o_id r)))
            \<and> canonical_order_status (o_status q) = ''pending''
            \<and> active_orders_of (save_order (unassigned now q) f) (d_id d) (Some (o_id r)) = []
            \<and> changes f (put_row o_id r (put_row o_id (unassigned now q) (orders f))) f')"
      using y(2)
    proof (cases rule: take_over_cases)
      case free
      with f1 f3 have "keeps f f3" using keeps_trans by blast
      then have "changes f (put_row o_id r (orders f)) f'" using tail by (rule changes_save)
      then show ?thesis using free(1) id same by simp
    next
      case (taken q)
      let ?g = "save_order (unassigned now q) f1"
      have g: "keeps ?g f2" unfolding taken(4) by (rule keeps_set_driver_status)
      have "active_orders_of f2 (d_id d) (Some (o_id r)) = []"
        using assert_driver_free(1)[OF y(3)] id by simp
      moreover have "active_orders_of f2 e x = active_orders_of (save_order (unassigned now q) f) e x" for e x
        using f1 g by (simp add: keeps_def active_orders_of_def save_order_def)
      moreover have "changes f (put_row o_id r (put_row o_id (unassigned now q) (orders f))) f'"
        using f1 keeps_trans[OF g f3] tail
        by (auto simp: keeps_def changes_def save_order_def sites_def)
      ultimately show ?thesis using taken(1,3) id same by auto
    qed
    show thesis
      by (rule that[OF ref d x(3)]) (use y(4) alternatives in \<open>auto simp: marked\<close>)
  qed
qed

section \<open>One active order per driver\<close>

definition written_statuses :: "string list" where
  "written_statuses = [''pending'', ''assigned'', ''in_transit'', ''delivered'', ''failed'', ''cancelled'']"

definition active_order :: "order \<Rightarrow> bool" where
  "active_order r \<longleftrightarrow> o_status r \<in> set active_driver_order_statuses_db"

definition rivals :: "order \<Rightarrow> order \<Rightarrow> bool" where
  "rivals r q \<longleftrightarrow> active_order r \<and> active_order q
     \<and> (case o_assigned_driver_id r of None \<Rightarrow> False | Some d \<Rightarrow> o_assigned_driver_id q = Some d)"

lemma rivals_sym: "rivals r q = rivals q r"
  by (auto simp: rivals_def split: option.splits)

definition orders_ok :: "order list \<Rightarrow> bool" where
  "orders_ok rs \<longleftrightarrow> distinct (map o_id rs)
     \<and> (\<forall>r\<in>set rs. o_status r \<in> set written_statuses \<and> o_assigned_driver_id r \<noteq> Some 0)
     \<and> (\<forall>r\<in>set rs. \<forall>q\<in>set rs. rivals r q \<longrightarrow> r = q)"

definition orders_inv :: "fleet \<Rightarrow> bool" where
  "orders_inv f \<longleftrightarrow> fleet_inv f \<and> orders_ok (orders f) \<and> 0 \<notin> d_id ` set (drivers f)"

definition driver_free :: "order list \<Rightarrow> int \<Rightarrow> string \<Rightarrow> bool" where
  "driver_free rs d i \<longleftrightarrow>
     (\<forall>q\<in>set rs. active_order q \<and> o_assigned_driver_id q = Some d \<longrightarrow> o_id q = i)"

lemma active_orders_free:
  "active_orders_of f d (Some i) = [] \<longleftrightarrow> driver_free (orders f) d i"
  by (auto simp: active_orders_of_def driver_free_def active_order_def filter_empty_conv)

lemma orders_ok_put:
  assumes "orders_ok rs" "q \<in> set rs" "o_id r = o_id q" "o_status r \<in> set written_statuses"
    "o_assigned_driver_id r \<noteq> Some 0"
    and free: "\<And>d. active_order r \<Longrightarrow> o_assigned_driver_id r = Some d \<Longrightarrow> driver_free rs d (o_id r)"
  shows "orders_ok (put_row o_id r rs)"
proof -
  have clash: "\<not> rivals r x" if "x \<in> set rs" "o_id x \<noteq> o_id r" for x
    using that free by (auto simp: driver_free_def rivals_def split: option.splits)
  have "p = p'" if "p \<in> set (put_row o_id r rs)" "p' \<in> set (put_row o_id r rs)" "rivals p p'" for p p'
    using in_put_row[OF that(1)] in_put_row[OF that(2)] that(3) clash assms(1)
    unfolding orders_ok_def by (metis rivals_sym)
  moreover have "o_status p \<in> set written_statuses \<and> o_assigned_driver_id p \<noteq> Some 0"
    if "p \<in> set (put_row o_id r rs)" for p
    using in_put_row[OF that] assms(1,4,5) by (auto simp: orders_ok_def)
  ultimately show ?thesis using assms(1) unfolding orders_ok_def put_row_keys by blast
qed

lemma orders_ok_add:
  assumes "orders_ok rs" "get_row o_id (o_id r) rs = None" "o_status r \<in> set written_statuses"
    "o_assigned_driver_id r \<noteq> Some 0"
    and free: "\<And>d. o_assigned_driver_id r = Some d \<Longrightarrow>
      \<forall>q\<in>set rs. active_order q \<longrightarrow> o_assigned_driver_id q \<noteq> Some d"
  shows "orders_ok (rs @ [r])"
proof -
  have "o_id r \<notin> set (map o_id rs)" using assms(2) by (auto simp: get_row_None)
  moreover have clash: "\<not> rivals r x" if "x \<in> set rs" for x
    using that free by (auto simp: rivals_def split: option.splits)
  moreover have "p = p'" if "p \<in> set (rs @ [r])" "p' \<in> set (rs @ [r])" "rivals p p'" for p p'
    using that clash assms(1) unfolding orders_ok_def by (auto simp: rivals_sym[of _ r])
  ultimately show ?thesis using assms(1,3,4) by (auto simp: orders_ok_def)
qed

lemma written_canonical:
  assumes "s \<in> set written_statuses"
  shows "canonical_order_status s = (if s = ''assigned'' then ''pending'' else s)"
proof -
  have "list_all (\<lambda>s. canonical_order_status s = (if s = ''assigned'' then ''pending'' else s))
    written_statuses" by code_simp
  with assms show ?thesis by (simp add: list_all_iff)
qed

lemma written_active:
  assumes "s \<in> set written_statuses"
  shows "s \<in> set active_driver_order_statuses_db \<longleftrightarrow> s \<in> {''pending'', ''assigned'', ''in_transit''}"
proof -
  have "list_all (\<lambda>s. (s \<in> set active_driver_order_statuses_db) =
    (s \<in> {''pending'', ''assigned'', ''in_transit''})) written_statuses" by code_simp
  with assms show ?thesis unfolding list_all_iff by blast
qed

lemma driver_free_self:
  "orders_ok rs \<Longrightarrow> r0 \<in> set rs \<Longrightarrow> active_order r0 \<Longrightarrow> o_assigned_driver_id r0 = Some d \<Longrightarrow>
   driver_free rs d (o_id r0)"
  by (auto simp: orders_ok_def driver_free_def rivals_def split: option.splits)

lemma orders_inv_changes:
  "orders_inv f \<Longrightarrow> changes f rs f' \<Longrightarrow> orders_ok rs \<Longrightarrow> orders_inv f'"
  by (auto simp: orders_inv_def changes_def simp flip: set_map)

lemma create_inv:
  assumes "orders_inv f" "create_order now token c f = Inr (r, f')"
  shows "orders_inv f'"
proof -
  note e = create_effect[OF assms(2)]
  have "orders_ok (orders f @ [r])"
  proof (rule orders_ok_add)
    show "orders_ok (orders f)" using assms(1) by (simp add: orders_inv_def)
    show "o_status r \<in> set written_statuses" using e by (auto simp: written_statuses_def)
    show "o_assigned_driver_id r \<noteq> Some 0" using e assms(1) by (auto simp: orders_inv_def)
    show "\<forall>q\<in>set (orders f). active_order q \<longrightarrow> o_assigned_driver_id q \<noteq> Some d"
      if "o_assigned_driver_id r = Some d" for d
      using e that by (auto simp: active_orders_of_def active_order_def filter_empty_conv)
  qed (use e in simp)
  with assms(1) e orders_inv_changes show ?thesis by blast
qed

lemma put_inv:
  assumes "orders_inv f" "changes f (put_row o_id r (orders f)) f'"
    "r0 \<in> set (orders f)" "o_id r = o_id r0" "o_status r \<in> set written_statuses"
    "o_assigned_driver_id r \<noteq> Some 0"
    and "\<And>d. active_order r \<Longrightarrow> o_assigned_driver_id r = Some d \<Longrightarrow> driver_free (orders f) d (o_id r)"
  shows "orders_inv f'"
  by (rule orders_inv_changes[OF assms(1,2) orders_ok_put[OF _ assms(3-7)]])
    (use assms(1) in \<open>simp_all add: orders_inv_def\<close>)

lemma inv_order:
  assumes "orders_inv f" "resolve_order_or_404 f ref = Inr r0"
  shows "r0 \<in> set (orders f)" "o_status r0 \<in> set written_statuses" "o_assigned_driver_id r0 \<noteq> Some 0"
  using assms(1) resolve_order[OF assms(2)] by (auto simp: orders_inv_def orders_ok_def)

lemma update_inv:
  assumes inv: "orders_inv f" and "update_order_status now user ref su f = Inr (r, f')"
  shows "orders_inv f'"
  using assms(2)
proof (cases rule: update_effect)
  case (1 r0)
  note r0 = inv_order[OF inv 1(1)]
  have st: "o_status r \<in> {''pending'', ''in_transit'', ''delivered'', ''failed'', ''cancelled''}"
    using validate_cases[OF 1(2)] 1(6) by auto
  then have written: "o_status r \<in> set written_statuses" by (auto simp: written_statuses_def)
  show ?thesis
  proof (rule put_inv[OF inv 1(7) r0(1) 1(3) written])
    show zero: "o_assigned_driver_id r \<noteq> Some 0" using r0 1(5) by simp
    show "driver_free (orders f) d (o_id r)"
      if "active_order r" "o_assigned_driver_id r = Some d" for d
      using that st written_active[OF written] 1(8) zero
      by (auto simp: active_order_def active_orders_free)
  qed
qed

lemma proof_inv:
  assumes inv: "orders_inv f" and "submit_proof_of_delivery now user ref pod f = Inr (r, f')"
  shows "orders_inv f'"
  using assms(2)
proof (cases rule: proof_effect)
  case (1 r0)
  note r0 = inv_order[OF inv 1(1)]
  have "\<not> active_order r" using 1(6) written_active[of "o_status r"]
    by (simp add: active_order_def written_statuses_def)
  then show ?thesis
    by (intro put_inv[OF inv 1(7) r0(1) 1(3)]) (use 1 r0 in \<open>auto simp: written_statuses_def\<close>)
qed

lemma schedule_inv:
  assumes inv: "orders_inv f" and "schedule_delivery now ref s e f = Inr (r, f')"
  shows "orders_inv f'"
  using assms(2)
proof (cases rule: schedule_effect)
  case (1 r0)
  note r0 = inv_order[OF inv 1(1)]
  show ?thesis
    by (rule put_inv[OF inv 1(5) r0(1)])
      (use 1(4) r0 driver_free_self[OF _ r0(1)] inv in \<open>auto simp: active_order_def orders_inv_def\<close>)
qed

lemma return_inv:
  assumes inv: "orders_inv f" and "initiate_return now token user ref reason f = Inr (r, f')"
  shows "orders_inv f'"
  using assms(2)
proof (cases rule: return_effect)
  case (1 r0 ids)
  have "orders_ok (orders f @ [r])"
    by (rule orders_ok_add)
      (use 1(4,5) inv in \<open>simp_all add: orders_inv_def return_order_row_def written_statuses_def\<close>)
  with inv 1(6) orders_inv_changes show ?thesis by blast
qed

lemma assign_inv:
  assumes inv: "orders_inv f" and "assign_driver arrange phones now ref cands f = Inr (r, f')"
  shows "orders_inv f'"
  using assms(2)
proof (cases rule: assign_effect)
  case (1 r0 d)
  note r0 = inv_order[OF inv 1(1)]
  have ok: "orders_ok (orders f)" using inv by (simp add: orders_inv_def)
  have written: "o_status r \<in> set written_statuses"
    using 1(7) r0 by (auto simp: written_statuses_def)
  have zero: "o_assigned_driver_id r \<noteq> Some 0" using 1(2,6) inv by (auto simp: orders_inv_def)
  have act: "active_order r0"
    using 1(3) r0(2) written_canonical[OF r0(2)] written_active[OF r0(2)]
    by (auto simp: active_order_def terminal_statuses_def written_statuses_def)
  from 1(9) show ?thesis
  proof (elim disjE exE conjE)
    assume a: "o_assigned_driver_id r0 = Some (d_id d)" "changes f (put_row o_id r (orders f)) f'"
    show ?thesis
      by (rule put_inv[OF inv a(2) r0(1) 1(4) written zero])
        (use driver_free_self[OF ok r0(1) act] a(1) 1(4,6) in auto)
  next
    assume a: "active_orders_of f (d_id d) (Some (o_id r)) = []" "changes f (put_row o_id r (orders f)) f'"
    show ?thesis
      by (rule put_inv[OF inv a(2) r0(1) 1(4) written zero])
        (use a(1) 1(6) in \<open>auto simp: active_orders_free\<close>)
  next
    fix q
    assume q: "q \<in> set (active_orders_of f (d_id d) (Some (o_id r)))"
      "active_orders_of (save_order (unassigned now q) f) (d_id d) (Some (o_id r)) = []"
      "changes f (put_row o_id r (put_row o_id (unassigned now q) (orders f))) f'"
    have qf: "q \<in> set (orders f)" "o_id q \<noteq> o_id r" "o_status q \<in> set written_statuses"
      using q(1) ok by (auto simp: active_orders_of_def orders_ok_def)
    let ?rs = "put_row o_id (unassigned now q) (orders f)"
    have "orders_ok ?rs"
      by (rule orders_ok_put[OF ok qf(1)]) (use qf(3) in \<open>auto simp: unassigned_def written_statuses_def\<close>)
    moreover have "r0 \<in> set ?rs"
      using r0(1) qf(2) 1(4) by (force simp: put_row_def unassigned_def)
    moreover have "driver_free ?rs (d_id d) (o_id r)"
      using q(2) by (simp add: active_orders_free save_order_def)
    ultimately have "orders_ok (put_row o_id r ?rs)"
      using 1(4,6) written zero by (intro orders_ok_put[of ?rs r0 r]) auto
    with inv q(3) orders_inv_changes show ?thesis by blast
  qed
qed

lemma confirmation_inv:
  assumes inv: "orders_inv f" and "request_confirmation now ref sent f = Inr (r, f')"
  shows "orders_inv f'"
  using assms(2)
proof (cases rule: confirmation_effect)
  case (1 r0)
  note r0 = inv_order[OF inv 1(1)]
  show ?thesis
    by (rule put_inv[OF inv 1(3) r0(1)])
      (use 1(2) r0 driver_free_self[OF _ r0(1)] inv in \<open>auto simp: active_order_def orders_inv_def\<close>)
qed

lemma refund_inv:
  assumes inv: "orders_inv f" and "process_refund_order phones now ref pid gateway f = (a, f')"
  shows "orders_inv f'"
  using assms(2)
proof (cases rule: refund_effect)
  case refused
  with inv show ?thesis by simp
next
  case (written r0 st)
  note r0 = inv_order[OF inv written(1)]
  show ?thesis
    by (rule put_inv[OF inv written(6) r0(1)])
      (use r0 driver_free_self[OF _ r0(1)] inv in
        \<open>auto simp: active_order_def orders_inv_def with_refund_status_def\<close>)
qed

text \<open>A request either leaves the tables, or its handler returned, or it is a refund.\<close>

lemma serve_cases:
  assumes "serve_order arrange phones q f = (a, f')"
  obtains
    (refused) "f' = f"
  | (create) r token c where "snd q = CreateOrder token c" "create_order (fst q) token c f = Inr (r, f')"
  | (update) r user ref su where "snd q = UpdateStatus user ref su"
      "update_order_status (fst q) user ref su f = Inr (r, f')"
  | (pod) r user ref pod where "snd q = ProofOfDelivery user ref pod"
      "submit_proof_of_delivery (fst q) user ref pod f = Inr (r, f')"
  | (assign) r ref cands where "snd q = AssignDriver ref cands"
      "assign_driver arrange phones (fst q) ref cands f = Inr (r, f')"
  | (slot) r ref s e where "snd q = Schedule ref s e" "schedule_delivery (fst q) ref s e f = Inr (r, f')"
  | (giveback) r token user ref reason where "snd q = InitiateReturn token user ref reason"
      "initiate_return (fst q) token user ref reason f = Inr (r, f')"
  | (confirm) r ref sent where "snd q = ConfirmRequest ref sent"
      "request_confirmation (fst q) ref sent f = Inr (r, f')"
  | (refund) ref pid gateway where "snd q = RefundOrder ref pid gateway"
      "process_refund_order phones (fst q) ref pid gateway f = (a, f')"
proof -
  have returned: "f' = f \<or> (\<exists>r. x = Inr (r, f'))" if "rolled_back f x = (a, f')" for x
    using that by (auto simp: rolled_back_def split: sum.splits)
  show thesis using assms
    by (cases "snd q")
      (auto simp: serve_order_def dest!: returned
        intro: refused create update pod assign slot giveback confirm refund)
qed

lemma serve_inv:
  assumes "orders_inv f" "serve_order arrange phones q f = (a, f')"
  shows "orders_inv f'"
  using assms(2)
proof (cases rule: serve_cases)
  case refused
  with assms(1) show ?thesis by simp
qed (erule create_inv[OF assms(1)] update_inv[OF assms(1)] proof_inv[OF assms(1)] assign_inv[OF assms(1)]
  schedule_inv[OF assms(1)] return_inv[OF assms(1)] confirmation_inv[OF assms(1)] refund_inv[OF assms(1)])+

interpretation order_serving: stable_step "after_order_request arrange phones" "\<lambda>_. True" orders_inv
  for arrange phones
  by unfold_locales (auto simp: after_order_request_def intro: serve_inv surjective_pairing)

lemma requests_inv: "orders_inv f \<Longrightarrow> orders_inv (fold (after_order_request arrange phones) qs f)"
  by (rule order_serving.fold_stable) (simp_all add: list_all_iff)

section \<open>Delivered and cancelled orders\<close>

lemma resolved_row:
  assumes "orders_inv f" "resolve_order_or_404 f ref = Inr r0" "get_row o_id (o_id r0) (orders f) = Some r"
  shows "r0 = r"
  using resolve_order[OF assms(2)] assms(1,3) get_row_member[of o_id "orders f" r0]
  by (auto simp: orders_inv_def orders_ok_def)

definition settled_order :: "order \<Rightarrow> bool" where
  "settled_order r \<longleftrightarrow> o_status r \<in> {''delivered'', ''cancelled''}"

lemma settled_canonical: "settled_order r \<Longrightarrow> canonical_order_status (o_status r) = o_status r"
  using written_canonical[of "o_status r"] by (auto simp: settled_order_def written_statuses_def)

lemma settled_refused:
  assumes "settled_order r"
  shows "validate_status_transition (o_status r) (canonical_order_status t) \<noteq> Inr ()"
    and "\<not> accepts_proof r" and "canonical_order_status (o_status r) \<in> set terminal_statuses"
proof -
  note c = settled_canonical[OF assms]
  show "validate_status_transition (o_status r) (canonical_order_status t) \<noteq> Inr ()"
    using validate_cases[of "o_status r" t] assms c by (auto simp: settled_order_def)
  have raw: "py_lower (py_strip s) \<notin> {''assigned'', ''new''}" if "s \<in> {''delivered'', ''cancelled''}" for s
  proof -
    have "list_all (\<lambda>s. py_lower (py_strip s) \<notin> {''assigned'', ''new''}) [''delivered'', ''cancelled'']"
      by code_simp
    with that show ?thesis by auto
  qed
  show "\<not> accepts_proof r" using assms c raw[of "o_status r"]
    by (auto simp: accepts_proof_def settled_order_def)
  show "canonical_order_status (o_status r) \<in> set terminal_statuses"
    using assms c by (auto simp: settled_order_def terminal_statuses_def)
qed

lemma put_frozen:
  "get_row o_id i rs = Some r \<Longrightarrow> o_id q \<noteq> i \<Longrightarrow> get_row o_id i (put_row o_id q rs) = Some r"
  by (simp add: get_put)

text \<open>What may still change in such a row: the message to the customer, and the refund of a return.\<close>

definition refunding :: "order \<Rightarrow> bool" where
  "refunding r \<longleftrightarrow> o_type r = ''return'' \<and> o_status r = ''delivered'' \<and> o_refund_status r \<notin> {''processed'', ''none''}"

definition same_but_refund :: "order \<Rightarrow> order \<Rightarrow> bool" where
  "same_but_refund r r' \<longleftrightarrow> r' = r\<lparr>o_confirmation_sent_at := o_confirmation_sent_at r'\<rparr>
     \<or> refunding r \<and> o_refund_status r' \<in> {''processed'', ''failed''}
       \<and> r' = r\<lparr>o_confirmation_sent_at := o_confirmation_sent_at r', o_refund_status := o_refund_status r',
               o_updated_at := o_updated_at r'\<rparr>"

lemma same_but_refund_refl: "same_but_refund r r"
  by (simp add: same_but_refund_def)

lemma same_but_refund_message: "same_but_refund r (r\<lparr>o_confirmation_sent_at := t\<rparr>)"
  by (simp add: same_but_refund_def)

lemma same_but_refund_refund:
  "refunding r \<Longrightarrow> st \<in> {''processed'', ''failed''} \<Longrightarrow> same_but_refund r (with_refund_status now st r)"
  by (auto simp: same_but_refund_def with_refund_status_def)

lemma same_but_refundE:
  assumes "same_but_refund r q"
  obtains (message) t where "q = r\<lparr>o_confirmation_sent_at := t\<rparr>"
  | (refund) t st u where "refunding r" "st \<in> {''processed'', ''failed''}"
      "q = r\<lparr>o_confirmation_sent_at := t, o_refund_status := st, o_updated_at := u\<rparr>"
  using assms unfolding same_but_refund_def by blast

lemma same_but_refundI:
  "refunding r \<Longrightarrow> st \<in> {''processed'', ''failed''} \<Longrightarrow>
   same_but_refund r (r\<lparr>o_confirmation_sent_at := t, o_refund_status := st, o_updated_at := u\<rparr>)"
  by (simp add: same_but_refund_def)

lemma same_but_refund_trans:
  assumes "same_but_refund r q" "same_but_refund q p"
  shows "same_but_refund r p"
  using assms(1)
proof (cases rule: same_but_refundE)
  case (message t)
  from assms(2) show ?thesis
  proof (cases rule: same_but_refundE)
    case (message t')
    then show ?thesis by (simp add: \<open>q = r\<lparr>o_confirmation_sent_at := t\<rparr>\<close> same_but_refund_message)
  next
    case (refund t' st u)
    then show ?thesis using same_but_refundI[where r = r and st = st and t = t' and u = u] message by (simp add: refunding_def)
  qed
next
  case (refund t st u)
  from assms(2) show ?thesis
  proof (cases rule: same_but_refundE)
    case (message t')
    then show ?thesis using refund(1,2) unfolding refund(3) by (simp add: same_but_refund_def)
  next
    case (refund t' st' u')
    then show ?thesis
      using same_but_refundI[where r = r and st = st' and t = t' and u = u'] \<open>refunding r\<close>
        \<open>q = r\<lparr>o_confirmation_sent_at := t, o_refund_status := st, o_updated_at := u\<rparr>\<close> by simp
  qed
qed

lemma same_but_refund_settled:
  assumes "same_but_refund r q" "settled_order r"
  shows "settled_order q \<and> o_id q = o_id r"
  using assms(1) by (cases rule: same_but_refundE) (use assms(2) in \<open>simp_all add: settled_order_def\<close>)

lemma serve_frozen:
  assumes inv: "orders_inv f" and row: "get_row o_id i (orders f) = Some r" and settled: "settled_order r"
    and serve: "serve_order arrange phones rq f = (a, f')"
  shows "\<exists>r'. get_row o_id i (orders f') = Some r' \<and> same_but_refund r r'"
proof -
  have other: "o_id r0 \<noteq> i \<or> r0 = r" if "resolve_order_or_404 f ref = Inr r0" for ref r0
    using resolved_row[OF inv that] row by auto
  have same: "\<exists>r'. get_row o_id i (orders f') = Some r' \<and> same_but_refund r r'"
    if "get_row o_id i (orders f') = Some r"
    using that same_but_refund_refl by blast
  have put: "get_row o_id i (orders f') = Some r"
    if "changes f (put_row o_id p (orders f)) f'" "o_id p \<noteq> i" for p
    using that put_frozen[OF row] by (simp add: changes_def)
  have replaced: "\<exists>r'. get_row o_id i (orders f') = Some r' \<and> same_but_refund r r'"
    if "resolve_order_or_404 f ref = Inr r0" "changes f (put_row o_id p (orders f)) f'" "o_id p = o_id r0"
      "r0 = r \<Longrightarrow> same_but_refund r p" for ref r0 p
  proof (cases "r0 = r")
    case True
    have "get_row o_id i (orders f') = Some p"
      using that(2,3) True row get_row_Some[OF row] by (simp add: changes_def get_put)
    with that(4) True show ?thesis by blast
  next
    case False
    with other[OF that(1)] put[OF that(2)] that(3) show ?thesis by (intro same) simp
  qed
  have add: "get_row o_id i (orders f') = Some r" if "changes f (orders f @ [p]) f'" for p
    using that row by (simp add: changes_def get_append)
  note no = settled_refused[OF settled]
  from serve show ?thesis
  proof (cases rule: serve_cases)
    case refused
    with row show ?thesis by (intro same) simp
  next
    case create
    then show ?thesis using create_effect add by (intro same) blast
  next
    case (update r1 user ref su)
    from update(2) show ?thesis
      by (cases rule: update_effect) (rule same, use other no(1) put in metis)
  next
    case (pod r1 user ref pd)
    from pod(2) show ?thesis
      by (cases rule: proof_effect) (rule same, use other no(2) put in metis)
  next
    case (assign r1 ref cands)
    from assign(2) show ?thesis
    proof (cases rule: assign_effect)
      case (1 r0 d)
      have i: "o_id r1 \<noteq> i" using other[OF 1(1)] no(3) 1(3,4) by auto
      from 1(9) have "get_row o_id i (orders f') = Some r"
      proof (elim disjE exE conjE)
        fix p assume p: "p \<in> set (active_orders_of f (d_id d) (Some (o_id r1)))"
          "canonical_order_status (o_status p) = ''pending''"
          "changes f (put_row o_id r1 (put_row o_id (unassigned (fst rq) p) (orders f))) f'"
        have "get_row o_id (o_id p) (orders f) = Some p"
          using p(1) inv get_row_member[of o_id "orders f" p]
          by (auto simp: active_orders_of_def orders_inv_def orders_ok_def)
        then have "o_id p \<noteq> i" using row p(2) settled settled_canonical[OF settled]
          by (auto simp: settled_order_def)
        then have "get_row o_id i (put_row o_id (unassigned (fst rq) p) (orders f)) = Some r"
          using row by (intro put_frozen) (simp_all add: unassigned_def)
        then show ?thesis using p(3) i put_frozen by (simp add: changes_def)
      qed (use put i in auto)
      then show ?thesis by (rule same)
    qed
  next
    case (slot r1 ref s e)
    from slot(2) show ?thesis
    proof (cases rule: schedule_effect)
      case (1 r0)
      then have "o_id r1 \<noteq> i" using other[OF 1(1)] no(3) by auto
      with 1(5) put show ?thesis by (intro same) blast
    qed
  next
    case (giveback r1 token user ref reason)
    from giveback(2) show ?thesis by (cases rule: return_effect) (rule same, use add in blast)
  next
    case (confirm r1 ref sent)
    from confirm(2) show ?thesis
    proof (cases rule: confirmation_effect)
      case (1 r0)
      show ?thesis by (rule replaced[OF 1(1,3)]) (simp_all add: 1(2) same_but_refund_message)
    qed
  next
    case (refund ref pid gateway)
    from refund(2) show ?thesis
    proof (cases rule: refund_effect)
      case refused
      with row show ?thesis by (intro same) simp
    next
      case (written r0 st)
      show ?thesis
      proof (rule replaced[OF written(1,6)])
        assume "r0 = r"
        then have "refunding r"
          using written(2-4) settled settled_canonical[OF settled] by (simp add: refunding_def)
        then show "same_but_refund r (with_refund_status (fst rq) st r0)"
          using same_but_refund_refund written(5) \<open>r0 = r\<close> by blast
      qed (simp add: with_refund_status_def)
    qed
  qed
qed

interpretation frozen_order: stable_step "after_order_request arrange phones" "\<lambda>_. True"
  "\<lambda>f. orders_inv f \<and> (\<exists>q. get_row o_id i (orders f) = Some q \<and> settled_order q \<and> same_but_refund r q)"
  for arrange phones r i
proof unfold_locales
  fix x f
  assume a: "orders_inv f \<and> (\<exists>q. get_row o_id i (orders f) = Some q \<and> settled_order q \<and> same_but_refund r q)"
  then obtain q where q: "get_row o_id i (orders f) = Some q" "settled_order q" "same_but_refund r q" by blast
  obtain ans f' where f': "serve_order arrange phones x f = (ans, f')" by (cases "serve_order arrange phones x f")
  have inv: "orders_inv f'" using serve_inv a f' by blast
  from serve_frozen[OF _ q(1,2) f'] a obtain p where
    "get_row o_id i (orders f') = Some p" "same_but_refund q p" by blast
  then show "orders_inv (after_order_request arrange phones x f)
    \<and> (\<exists>q. get_row o_id i (orders (after_order_request arrange phones x f)) = Some q
         \<and> settled_order q \<and> same_but_refund r q)"
    using inv same_but_refund_trans[OF q(3)] same_but_refund_settled q(2)
    by (auto simp: after_order_request_def f')
qed

lemma requests_frozen:
  assumes "orders_inv f" "get_row o_id i (orders f) = Some r" "settled_order r"
  shows "\<exists>q. get_row o_id i (orders (fold (after_order_request arrange phones) qs f)) = Some q
    \<and> same_but_refund r q"
  using frozen_order.fold_stable[of qs f i r arrange phones] assms same_but_refund_refl
  by (auto simp: list_all_iff)

section \<open>Where a dispatched battery came from\<close>

lemma insort_below:
  "\<forall>x\<in>set xs. k e < k x \<Longrightarrow> foldr (insort_key k) xs [e] = e # sort_key k xs" for k :: "'a \<Rightarrow> int"
  by (induction xs) (auto simp: sort_key_def not_le)

lemma sort_key_snoc:
  fixes k :: "'a \<Rightarrow> int"
  assumes "\<forall>x\<in>set xs. k e < k x"
  shows "sort_key k (xs @ [e]) = e # sort_key k xs"
  using insort_below[OF assms] by (simp add: sort_key_def)

lemma newest_first_snoc:
  assumes "\<forall>x\<in>set es. ev_id x < ev_id e \<and> ev_timestamp x \<le> ev_timestamp e"
  shows "newest_first (es @ [e]) = e # newest_first es"
proof -
  have "sort_key (\<lambda>e. - ev_id e) (es @ [e]) = e # sort_key (\<lambda>e. - ev_id e) es"
    using assms by (intro sort_key_snoc) auto
  moreover have "insort_key (\<lambda>e. - ev_timestamp e) e (sort_key (\<lambda>e. - ev_timestamp e) xs)
      = e # sort_key (\<lambda>e. - ev_timestamp e) xs" if "set xs \<subseteq> set es" for xs
    using that assms by (intro insort_is_Cons) auto
  ultimately show ?thesis by (simp add: newest_first_def)
qed

text \<open>A fresh dispatch event is the newest, and it names the order.\<close>

lemma dispatch_source_fresh:
  assumes "battery_events f' = battery_events f @ [e]" "ev_battery_id e = bid"
    "ev_type e = ''dispatched''" "ev_description e = build_dispatch_event_description oid l i"
    "ev_id e = fresh_id ev_id (battery_events f)"
    and past: "\<forall>x\<in>set (battery_events f). ev_timestamp x \<le> ev_timestamp e"
    and src: "l \<in> set dispatch_source_types" "i = None \<or> (\<exists>n. i = Some (int n))"
      "list_all (\<lambda>c. \<not> separator c) oid"
  shows "dispatch_source f' bid oid = Some (l, i)"
proof -
  let ?P = "\<lambda>e. ev_battery_id e = bid \<and> ev_type e = ''dispatched''"
  have "newest_first (filter ?P (battery_events f) @ [e]) = e # newest_first (filter ?P (battery_events f))"
    using past fresh_id_above[of _ "battery_events f" ev_id] assms(5) by (intro newest_first_snoc) auto
  then have "find_dispatch_event_description f' bid oid = Some (build_dispatch_event_description oid l i)"
    using assms(1-4) dispatch_mentions[of oid l i] by (simp add: find_dispatch_event_description_def)
  then show ?thesis using dispatch_roundtrip[OF src] by (simp add: dispatch_source_def)
qed

lemma sync_location:
  assumes "apply_battery_transition now b t f = Inr f'" "b \<in> set (batteries f)"
  shows "get_row b_id (b_id b) (batteries f') = Some (moved_battery b t (serial_key b) now)"
  using transition_get[OF assms, of "b_id b"] by simp

definition in_range :: "int option \<Rightarrow> bool" where
  "in_range i \<longleftrightarrow> (case i of None \<Rightarrow> True | Some j \<Rightarrow> 0 \<le> j)"

lemma in_range_cases: "in_range i \<Longrightarrow> i = None \<or> (\<exists>n. i = Some (int n))"
  by (cases i) (auto simp: in_range_def nonneg_int_cases dest: nonneg_int_cases)

lemma dispatch_sync:
  assumes "sync_one now r ''in_transit'' reason actor bid f = Inr f'"
    "get_row b_id bid (batteries f) = Some b"
    and past: "\<forall>x\<in>set (battery_events f). ev_timestamp x \<le> now"
    and src: "in_range (b_location_id b)" "list_all (\<lambda>c. \<not> separator c) (o_id r)"
  obtains l b' where "b_location_type b = Some l" "l \<in> {''warehouse'', ''station'', ''shelf'', ''customer''}"
    "l \<noteq> ''customer'' \<longrightarrow> b_location_id b \<noteq> None"
    "dispatch_source f' bid (o_id r) = Some (l, b_location_id b)"
    "get_row b_id bid (batteries f') = Some b'" "b_location_type b' = Some ''transit''"
    "b_location_id b' = None"
  using assms(1)
proof (cases rule: sync_one_cases)
  case (1 row s c f1)
  then have row: "row = b" using assms(2) by simp
  have bid: "b_id c = bid" using 1(1,3) by (auto dest: get_row_Some)
  have d: "dispatch_one now r actor c f1 = Inr f'" using 1(6) by auto
  from d show thesis
  proof (cases rule: dispatch_one_cases)
    case tr: (1 l)
    let ?t = "for_order r (transition_to ''deployed'' ''transit'' None ''dispatched''
      (build_dispatch_event_description (o_id r) l (b_location_id c)) actor)"
    obtain e where e: "battery_events f' = battery_events f1 @ [e]" "ev_battery_id e = b_id c"
      "ev_type e = t_event_type ?t" "ev_description e = t_event_description ?t" "ev_timestamp e = now"
      "ev_id e = fresh_id ev_id (battery_events f1)"
      using transition_events[OF tr(4)] by blast
    have "dispatch_source f' (b_id c) (o_id r) = Some (l, b_location_id c)"
      by (rule dispatch_source_fresh[OF e(1,2) _ _ e(6)])
        (use e past src in_range_cases tr(2) 1(3,4) row
          in \<open>auto simp: for_order_def transition_to_def dispatch_source_types_def\<close>)
    moreover have "get_row b_id (b_id c) (batteries f') = Some (moved_battery c ?t (serial_key c) now)"
      by (rule sync_location[OF tr(4) 1(5)])
    ultimately show thesis using tr(1,2,3) 1(3) row bid
      by (intro that[of l "moved_battery c ?t (serial_key c) now"])
        (auto simp: for_order_def transition_to_def target_location_type_def
          location_types_without_id_def)
  qed
qed

lemma release_sync:
  assumes "sync_one now r st reason actor bid f = Inr f'" "st \<in> {''failed'', ''cancelled''}"
    "dispatch_source f bid (o_id r) = Some (l, i)"
    "l \<in> {''warehouse'', ''station'', ''shelf'', ''customer''}" "l \<noteq> ''customer'' \<longrightarrow> i \<noteq> None"
  obtains b' where "get_row b_id bid (batteries f') = Some b'" "b_status b' = ''available''"
    "b_location_type b' = Some l" "b_location_id b' = (if l = ''customer'' then None else i)"
  using assms(1)
proof (cases rule: sync_one_cases)
  case (1 row s c f1)
  have bid: "b_id c = bid" using 1(1,3) by (auto dest: get_row_Some)
  have src': "dispatch_source f1 (b_id c) (o_id r) = Some (l, i)"
    using assms(3) 1(4) bid by (simp add: dispatch_source_def find_dispatch_event_description_def)
  have "release_one now r st reason actor c f1 = Inr f'" using 1(6) assms(2) by auto
  then show thesis
  proof (cases rule: release_one_cases)
    case tr: (1 k j d)
    have kj: "(k, j) = (if l = ''customer'' then (''customer'', None) else (l, i))"
      using tr(1) src' assms(4,5) by (auto simp: resolve_release_location_def Let_def)
    have row: "get_row b_id bid (batteries f') = Some (moved_battery c
        (for_order r (transition_to ''available'' k j ''released'' d actor)) (serial_key c) now)"
      using sync_location[OF tr(2) 1(5)] bid by simp
    show thesis
      by (rule that[OF row]) (use kj assms(4) in \<open>auto simp: for_order_def transition_to_def
        target_status_def target_location_type_def target_location_id_def
        location_types_without_id_def split: if_splits\<close>)
  qed
qed

section \<open>A retry needs the batteries in stock\<close>

lemma reserve_other:
  assumes "reserve_one now i e x f = Inr f'" "x \<noteq> y"
  shows "get_row b_id y (batteries f') = get_row b_id y (batteries f)"
  using assms(1)
proof (cases rule: reserve_one_cases)
  case (1 b)
  then have "b \<in> set (batteries f)" "b_id b = x" by (auto dest: get_row_Some)
  with transition_get[OF 1(5), of y] assms(2) show ?thesis by simp
qed

lemma reserve_stuck:
  assumes "bid \<in> set xs" "get_row b_id bid (batteries f) = Some b"
    "b_location_type b \<notin> {Some ''warehouse'', Some ''station'', Some ''shelf''}"
  shows "\<exists>e'. fold_res (reserve_one now i e) xs f = Inl e'"
  using assms(1,2)
proof (induction xs arbitrary: f)
  case Nil
  then show ?case by simp
next
  case (Cons x xs)
  show ?case
  proof (cases "reserve_one now i e x f")
    case (Inr f1)
    have "x \<noteq> bid"
      using Inr Cons.prems(2) assms(3) by (auto elim!: reserve_one_cases)
    with Cons.IH[of f1] reserve_other[OF Inr] Cons.prems Inr show ?thesis by auto
  qed simp
qed

section \<open>Reserved batteries\<close>

definition reserved_like :: "battery \<Rightarrow> battery \<Rightarrow> bool" where
  "reserved_like b b' \<longleftrightarrow> b_status b' = ''reserved'' \<and> b_location_type b' = b_location_type b
     \<and> b_location_id b' = b_location_id b"

lemma reserve_one_row:
  assumes "reserve_one now i e x f = Inr f'"
  obtains b b' where "get_row b_id x (batteries f) = Some b" "get_row b_id x (batteries f') = Some b'"
    "b_status b \<in> set transferable_battery_statuses" "reserved_like b b'"
  using assms
proof (cases rule: reserve_one_cases)
  case (1 b)
  then have b: "b \<in> set (batteries f)" "b_id b = x" by (auto dest: get_row_Some)
  with sync_location[OF 1(5)] 1(1-4) that show thesis
    by (auto simp: reserved_like_def transition_to_def target_status_def target_location_type_def
        target_location_id_def location_types_without_id_def)
qed

lemma reserve_rows:
  assumes "fold_res (reserve_one now i e) xs f = Inr f'" "distinct xs" "x \<in> set xs"
  shows "\<exists>b b'. get_row b_id x (batteries f) = Some b \<and> get_row b_id x (batteries f') = Some b'
    \<and> b_status b \<in> set transferable_battery_statuses \<and> reserved_like b b'"
  using assms
proof (induction xs arbitrary: f)
  case Nil
  then show ?case by simp
next
  case (Cons y ys)
  then obtain f1 where f1: "reserve_one now i e y f = Inr f1" "fold_res (reserve_one now i e) ys f1 = Inr f'"
    by (auto split: sum.splits)
  have untouched: "get_row b_id y (batteries h) = get_row b_id y (batteries g)"
    if "fold_res (reserve_one now i e) zs g = Inr h" "y \<notin> set zs" for zs g h
    using that
  proof (induction zs arbitrary: g)
    case (Cons z zs)
    then obtain g1 where "reserve_one now i e z g = Inr g1" "fold_res (reserve_one now i e) zs g1 = Inr h"
      by (auto split: sum.splits)
    with Cons reserve_other[of now i e z g g1 y] show ?case by auto
  qed simp
  show ?case
  proof (cases "x = y")
    case True
    with reserve_one_row[OF f1(1)] untouched[OF f1(2)] Cons.prems show ?thesis by fastforce
  next
    case False
    with Cons.IH[OF f1(2)] Cons.prems reserve_other[OF f1(1), of x] show ?thesis by auto
  qed
qed

lemma create_reserves:
  assumes "create_order now token c f = Inr (r, f')" "fleet_inv f"
  shows "\<forall>s\<in>set (c_assigned_battery_ids c). \<exists>b b'. serial_key b = py_upper (py_strip s)
    \<and> get_row b_id (b_id b) (batteries f) = Some b \<and> get_row b_id (b_id b) (batteries f') = Some b'
    \<and> b_status b \<in> set transferable_battery_statuses \<and> reserved_like b b'"
  using assms(1)
proof (cases rule: create_cases)
  case (1 row ids f1 f2 f3)
  have f1: "batteries f1 = batteries f" using 1(2) same_batteries(2) by auto
  have f': "batteries f' = batteries f2" using same_batteries(3)[OF 1(9)] 1(7) by simp
  let ?r = "row\<lparr>o_assigned_battery_ids := Some (JList (map JStr ids))\<rparr>"
  obtain rows where rows: "fetch_batteries_by_serials f1 ids False = Inr rows"
    "fold_res (reserve_one now (o_id ?r) None) (map b_id rows) f1 = Inr f2"
    using 1(6) by (auto elim!: reserve_cases)
  obtain ns where ns: "normalize_battery_serials ids False = Inr ns"
    "fetch_batteries_case_insensitive f1 ns = Inr rows"
    using rows(1) by (auto simp: fetch_batteries_by_serials_def split: sum.splits)
  have keys: "map serial_key rows = ids" and sub: "set rows \<subseteq> set (batteries f)" and d: "distinct rows"
    using fetch_result[OF ns(2)] fetch_distinct[OF ns(2)] ns(1) 1(3) f1
    by (auto simp: normalize_serials_iff)
  have ids: "ids = map (\<lambda>s. py_upper (py_strip s)) (c_assigned_battery_ids c)"
    using 1(3) by (simp add: normalize_serials_iff)
  have pk: "distinct (map b_id (batteries f))" using assms(2) by (simp add: fleet_inv_def)
  have dr: "distinct (map b_id rows)"
    using d sub pk by (auto simp: distinct_map intro: inj_on_subset)
  show ?thesis
  proof
    fix s assume "s \<in> set (c_assigned_battery_ids c)"
    then have "py_upper (py_strip s) \<in> set (map serial_key rows)" using ids keys by simp
    then obtain b where b: "b \<in> set rows" "serial_key b = py_upper (py_strip s)" by auto
    from reserve_rows[OF rows(2) dr, of "b_id b"] b(1) obtain c' b' where
      r: "get_row b_id (b_id b) (batteries f1) = Some c'" "get_row b_id (b_id b) (batteries f2) = Some b'"
      "b_status c' \<in> set transferable_battery_statuses" "reserved_like c' b'" by auto
    have "get_row b_id (b_id b) (batteries f) = Some b"
      using b(1) sub pk by (auto intro: get_row_member)
    with r b f1 f' show "\<exists>b b'. serial_key b = py_upper (py_strip s)
      \<and> get_row b_id (b_id b) (batteries f) = Some b \<and> get_row b_id (b_id b) (batteries f') = Some b'
      \<and> b_status b \<in> set transferable_battery_statuses \<and> reserved_like b b'" by auto
  qed
qed

end
