(* ===== verification/OrderClaims.thy ===== *)
theory OrderClaims
  imports OrdersInv
begin

text \<open>
  The properties of dealer orders, each with an execution on a small depot: two batteries, two
  warehouses, one driver.
\<close>

section \<open>A depot\<close>

definition sample_driver :: driver where
  "sample_driver = \<lparr>d_id = 1, d_user_id = 1, d_phone = None, d_status = ''available'',
     d_is_online = True, d_last_location_update = 0\<rparr>"

definition depot :: fleet where
  "depot = sample_fleet\<lparr>drivers := [sample_driver],
     warehouses := [\<lparr>w_id = 1, w_is_active = True\<rparr>, \<lparr>w_id = 2, w_is_active = True\<rparr>]\<rparr>"

definition sample_create :: "string \<Rightarrow> string list \<Rightarrow> int option \<Rightarrow> order_create" where
  "sample_create i bs d = \<lparr>c_id = Some i, c_units = int (length bs), c_destination = ''Dock'',
     c_notes = None, c_customer_name = None, c_customer_phone = None, c_priority = None,
     c_total_value = None, c_status = None, c_order_date = None, c_estimated_delivery = None,
     c_dispatch_date = None, c_latitude = None, c_longitude = None, c_tracking_number = None,
     c_assigned_battery_ids = bs, c_assigned_driver_id = d, c_type = None,
     c_original_order_id = None\<rparr>"

definition set_status :: "string \<Rightarrow> string \<Rightarrow> order_request" where
  "set_status i s =
     UpdateStatus 7 i \<lparr>su_status = s, su_failure_reason = Some ''x'', su_dispatch_date = None\<rparr>"

definition order_run :: "(datetime \<times> order_request) list \<Rightarrow> fleet \<Rightarrow> fleet res" where
  "order_run qs f = fold_res (order_step (\<lambda>x. x) []) qs f"

definition place_of :: "int \<Rightarrow> fleet \<Rightarrow> (string \<times> int option) option" where
  "place_of bid f =
     (case get_row b_id bid (batteries f) of
        None \<Rightarrow> None
      | Some b \<Rightarrow> map_option (\<lambda>l. (l, b_location_id b)) (b_location_type b))"

lemma depot_inv: "orders_inv depot"
  by code_simp

section \<open>Properties\<close>

text \<open>
  C5: Whatever requests the order API serves, refused ones included, the fleet stays
  consistent and no driver has two active orders.
\<close>

theorem driver_serves_one_order:
  assumes "orders_inv f"
  shows "fleet_inv (fold (after_order_request arrange phones) qs f)
    \<and> (\<forall>r q. r \<in> set (orders (fold (after_order_request arrange phones) qs f))
        \<and> q \<in> set (orders (fold (after_order_request arrange phones) qs f))
        \<and> rivals r q \<longrightarrow> r = q)"
  using requests_inv[OF assms, of arrange phones qs] by (simp add: orders_inv_def orders_ok_def)

lemma driver_serves_one_order_witness:
  "\<exists>f. f = fold (after_order_request (\<lambda>x. x) [])
      [(1, CreateOrder ''00'' (sample_create ''O1'' [''A''] (Some 1))),
       (2, CreateOrder ''00'' (sample_create ''O2'' [''B''] (Some 1)))] depot
     \<and> map o_assigned_driver_id (orders f) = [Some 1] \<and> fleet_inv f"
proof -
  let ?qs = "[(1, CreateOrder ''00'' (sample_create ''O1'' [''A''] (Some 1))),
       (2, CreateOrder ''00'' (sample_create ''O2'' [''B''] (Some 1)))]"
  have run: "map o_assigned_driver_id (orders (fold (after_order_request (\<lambda>x. x) []) ?qs depot)) = [Some 1]"
    by code_simp
  show ?thesis
    by (intro exI conjI, rule refl, rule run,
      rule conjunct1[OF driver_serves_one_order[OF depot_inv, of "\<lambda>x. x" "[]" ?qs]])
qed


definition closed_depot :: fleet where
  "closed_depot = depot\<lparr>orders := [sample_order\<lparr>o_status := ''cancelled''\<rparr>]\<rparr>"


text \<open>A return that is not paid through the gateway is never refunded to a customer with an account.\<close>

lemma wallet_refund_always_fails:
  assumes "has_customer_user phones (original_or_self f r)" "resolve_order_or_404 f ref = Inr r"
    and "\<not> nonempty_str pid"
  shows "\<exists>e. process_refund_order phones now ref pid gateway f = (Inl e, f)"
  using assms by (simp add: process_refund_order_def Let_def)

text \<open>The log entries by which a battery was dispatched.\<close>

definition dispatches :: "int \<Rightarrow> fleet \<Rightarrow> battery_event list" where
  "dispatches bid f = filter (\<lambda>e. ev_battery_id e = bid \<and> ev_type e = ''dispatched'') (battery_events f)"

lemma dispatch_source_cong: "dispatches bid g = dispatches bid f \<Longrightarrow> dispatch_source g bid i = dispatch_source f bid i"
  by (simp add: dispatch_source_def find_dispatch_event_description_def dispatches_def)


definition staffed :: fleet where
  "staffed = (case order_run [(1, CreateOrder ''00'' (sample_create ''O1'' [''A''] (Some 1)))] depot of
     Inr f \<Rightarrow> f | Inl e \<Rightarrow> depot)"


text \<open>
  C8: A new order has a fresh id, starts pending or assigned, and every battery it names was
  free for dispatch and is now reserved where it stood.
\<close>

theorem new_order_reserves_batteries:
  assumes "create_order now token c f = Inr (r, f')" "fleet_inv f"
  shows "get_row o_id (o_id r) (orders f) = None \<and> orders f' = orders f @ [r]
    \<and> o_status r \<in> {''pending'', ''assigned''} \<and> fleet_inv f'
    \<and> (\<forall>s\<in>set (c_assigned_battery_ids c). \<exists>b b'. serial_key b = py_upper (py_strip s)
        \<and> get_row b_id (b_id b) (batteries f) = Some b \<and> get_row b_id (b_id b) (batteries f') = Some b'
        \<and> b_status b \<in> set transferable_battery_statuses \<and> reserved_like b b')"
  using create_effect[OF assms(1)] create_reserves[OF assms] assms(2) by (auto simp: changes_def)

lemma new_order_reserves_batteries_witness:
  "\<exists>r f'. create_order 1 ''00'' (sample_create ''O1'' ['' b'', ''A''] None) depot = Inr (r, f')
     \<and> orders f' = [r] \<and> o_status r = ''pending'' \<and> fleet_inv f'"
proof -
  have "case create_order 1 ''00'' (sample_create ''O1'' ['' b'', ''A''] None) depot of
      Inr (r, f') \<Rightarrow> o_status r = ''pending'' | Inl e \<Rightarrow> False" by code_simp
  then obtain r f' where c: "create_order 1 ''00'' (sample_create ''O1'' ['' b'', ''A''] None) depot = Inr (r, f')"
    "o_status r = ''pending''" by (auto split: sum.splits)
  have inv: "fleet_inv depot" using depot_inv by (simp add: orders_inv_def)
  have "orders depot = []" by code_simp
  with new_order_reserves_batteries[OF c(1) inv] c show ?thesis by auto
qed

text \<open>
  A status update that succeeds follows an edge of the status machine, in the canonical
  form of both statuses, and only an order with a driver gets under way.
\<close>

lemma updates_follow_the_machine:
  assumes "update_order_status now user ref su f = Inr (r, f')"
  shows "\<exists>r0\<in>set (orders f). o_id r = o_id r0
    \<and> (canonical_order_status (o_status r0), o_status r) \<in>
        {(''pending'', ''in_transit''), (''pending'', ''cancelled''), (''in_transit'', ''delivered''),
         (''in_transit'', ''failed''), (''in_transit'', ''cancelled''), (''failed'', ''pending'')}
    \<and> (o_status r = ''in_transit'' \<longrightarrow> truthy_id (o_assigned_driver_id r))"
  using assms
proof (cases rule: update_effect)
  case (1 r0)
  from validate_cases[OF 1(2)] 1(3,6,9) resolve_order[OF 1(1)] show ?thesis by auto
qed

lemma updates_follow_the_machine_witness:
  "\<exists>r f'. update_order_status 2 7 ''O1'' \<lparr>su_status = ''Out-for delivery'', su_failure_reason = None,
        su_dispatch_date = None\<rparr> staffed = Inr (r, f')
     \<and> (o_status r = ''in_transit'' \<longrightarrow> truthy_id (o_assigned_driver_id r)) \<and> o_status r = ''in_transit''"
proof -
  let ?su = "\<lparr>su_status = ''Out-for delivery'', su_failure_reason = None, su_dispatch_date = None\<rparr>"
  have "case update_order_status 2 7 ''O1'' ?su staffed of Inr (r, f') \<Rightarrow> o_status r = ''in_transit'' | Inl e \<Rightarrow> False"
    by code_simp
  then obtain r f' where u: "update_order_status 2 7 ''O1'' ?su staffed = Inr (r, f')"
    "o_status r = ''in_transit''" by (auto split: sum.splits)
  from updates_follow_the_machine[OF u(1)] u show ?thesis by blast
qed

text \<open>
  A failed order is retried only when its batteries are in stock. A battery of the order
  that is with a customer, as every battery of a failed return is, makes each retry fail.
\<close>

lemma retry_needs_stock:
  assumes "resolve_order_or_404 f ref = Inr r" "canonical_order_status (o_status r) = ''failed''"
    "canonical_order_status (su_status su) = ''pending''"
    "get_order_battery_ids r f = Inr (ids, f1)" "fetch_batteries_by_serials f1 ids False = Inr rows"
    "b \<in> set rows" "get_row b_id (b_id b) (batteries f1) = Some b" "b_location_type b = Some ''customer''"
  shows "\<exists>e. update_order_status now user ref su f = Inl e"
proof -
  have "b_id b \<in> set (map b_id rows)" using assms(6) by simp
  then obtain e where "fold_res (reserve_one now (o_id r) (Some (o_id r))) (map b_id rows) f1 = Inl e"
    using reserve_stuck[OF _ assms(7)] assms(8) by fastforce
  then have "\<exists>e. reserve_order_batteries now r None (Some (o_id r)) f = Inl e"
    using assms(4,5) by (auto simp: reserve_order_batteries_def split: sum.splits)
  then obtain e where "reserve_order_batteries now r None (Some (o_id r)) f = Inl e" by blast
  then show ?thesis
    using assms(1-3) by (auto simp: update_order_status_def prepare_status_def Let_def split: sum.splits)
qed

definition failed_return :: fleet where
  "failed_return = depot\<lparr>
     batteries := [(sample_battery 1 ''A'')\<lparr>b_location_type := Some ''customer'', b_location_id := None\<rparr>],
     orders := [sample_order\<lparr>o_id := ''RET-AA'', o_type := ''return'', o_status := ''failed''\<rparr>],
     order_batteries := [\<lparr>ob_id = 1, ob_order_id = ''RET-AA'', ob_battery_id = ''A'', ob_battery_pk = Some 1\<rparr>]\<rparr>"

lemma retry_needs_stock_witness:
  "\<exists>e. update_order_status 8 7 ''RET-AA'' \<lparr>su_status = ''pending'', su_failure_reason = None,
      su_dispatch_date = None\<rparr> failed_return = Inl e"
proof -
  define r where "r = sample_order\<lparr>o_id := ''RET-AA'', o_type := ''return'', o_status := ''failed''\<rparr>"
  define b where "b = (sample_battery 1 ''A'')\<lparr>b_location_type := Some ''customer'', b_location_id := None\<rparr>"
  have x: "resolve_order_or_404 failed_return ''RET-AA'' = Inr r"
    "canonical_order_status (o_status r) = ''failed''"
    "get_order_battery_ids r failed_return = Inr ([''A''], failed_return)"
    "fetch_batteries_by_serials failed_return [''A''] False = Inr [b]"
    "get_row b_id (b_id b) (batteries failed_return) = Some b" "b_location_type b = Some ''customer''"
    unfolding r_def b_def by code_simp+
  have "canonical_order_status ''pending'' = ''pending''" by code_simp
  then show ?thesis using x by (intro retry_needs_stock[OF x(1,2) _ x(3,4) _ x(5,6)]) simp_all
qed

text \<open>
  What the dispatch events say wins over where a battery is: an order that fails or is
  cancelled books its batteries back to the place of their last dispatch under that order,
  also when the order was retried from another place since.
\<close>

lemma release_follows_the_log:
  assumes "sync_one now r st reason actor bid f = Inr f'" "st = ''failed'' \<or> st = ''cancelled''"
    and "dispatch_source f bid (o_id r) = Some (l, Some i)"
    and "l = ''warehouse'' \<or> l = ''station'' \<or> l = ''shelf''"
  shows "place_of bid f' = Some (l, Some i)"
proof -
  from assms obtain b' where "get_row b_id bid (batteries f') = Some b'"
    "b_location_type b' = Some l" "b_location_id b' = (if l = ''customer'' then None else Some i)"
    by (elim release_sync) auto
  with assms(4) show ?thesis by (auto simp: place_of_def)
qed

definition retried_depot :: fleet where
  "retried_depot = depot\<lparr>
     batteries := [(sample_battery 1 ''A'')\<lparr>b_status := ''reserved'', b_location_id := Some 2\<rparr>],
     battery_events := [\<lparr>ev_id = 1, ev_battery_id = 1, ev_type = ''dispatched'',
       ev_description = build_dispatch_event_description ''O1'' ''warehouse'' (Some 1),
       ev_actor_id = Some 7, ev_timestamp = 2\<rparr>],
     orders := [sample_order],
     order_batteries := [\<lparr>ob_id = 1, ob_order_id = ''O1'', ob_battery_id = ''A'', ob_battery_pk = Some 1\<rparr>]\<rparr>"

lemma release_follows_the_log_witness:
  "\<exists>f'. sync_one 9 sample_order ''cancelled'' None (Some 7) 1 retried_depot = Inr f'
     \<and> place_of 1 retried_depot = Some (''warehouse'', Some 2) \<and> place_of 1 f' = Some (''warehouse'', Some 1)"
proof -
  define g where "g = (case sync_one 9 sample_order ''cancelled'' None (Some 7) 1 retried_depot of
    Inr f \<Rightarrow> f | Inl e \<Rightarrow> depot)"
  have g: "sync_one 9 sample_order ''cancelled'' None (Some 7) 1 retried_depot = Inr g"
    unfolding g_def by code_simp
  have src: "dispatch_source retried_depot 1 (o_id sample_order) = Some (''warehouse'', Some 1)" by code_simp
  have "place_of 1 retried_depot = Some (''warehouse'', Some 2)" by code_simp
  with g release_follows_the_log[OF g _ src] show ?thesis by auto
qed

text \<open>
  The dispatch event of an order is found by a substring: an event of an order whose id
  merely begins with the id looked for counts as well.
\<close>

lemma longer_order_id_is_mistaken:
  "mentions_order oid (build_dispatch_event_description (oid @ suffix) t i)"
proof -
  define u where "u = suffix @ '';source='' @ (case i of Some j \<Rightarrow> t @ '':'' @ show_int j | None \<Rightarrow> t)
    @ ''; note=Dispatched with order '' @ oid @ suffix @ '' from ''
    @ (case i of Some j \<Rightarrow> t @ '' #'' @ show_int j | None \<Rightarrow> t)"
  have "build_dispatch_event_description (oid @ suffix) t i = ''event=dispatched;'' @ (''order='' @ oid) @ u"
    by (simp add: build_dispatch_event_description_def u_def split: option.split)
  then have "py_lower (build_dispatch_event_description (oid @ suffix) t i)
      = py_lower ''event=dispatched;'' @ py_lower (''order='' @ oid) @ py_lower u"
    by (simp only: py_lower_append)
  then show ?thesis unfolding mentions_order_def Let_def by (simp only: infix_middle simp_thms)
qed

definition returned_depot :: fleet where
  "returned_depot = depot\<lparr>
     batteries := [(sample_battery 1 ''A'')\<lparr>b_status := ''reserved''\<rparr>],
     orders := [sample_order\<lparr>o_status := ''delivered''\<rparr>,
                sample_order\<lparr>o_id := ''RET-1'', o_type := ''return'', o_status := ''delivered'',
                             o_original_order_id := Some ''O1''\<rparr>,
                sample_order\<lparr>o_id := ''O2'', o_status := ''assigned'', o_assigned_driver_id := Some 1\<rparr>],
     order_batteries := map (\<lambda>(k, i). \<lparr>ob_id = k, ob_order_id = i, ob_battery_id = ''A'', ob_battery_pk = Some 1\<rparr>)
       [(1, ''O1''), (2, ''RET-1''), (3, ''O2'')]\<rparr>"

text \<open>
  Nothing stops a second return of an order whose return was delivered. Its batteries are
  back in stock by then; when a new order holds one of them, the second return blocks that
  order: a dispatch that would have succeeded is refused.
\<close>

lemma second_return_blocks_order:
  "\<exists>r f1. orders_inv returned_depot \<and> initiate_return 9 ''bb'' 7 ''O1'' ''again'' returned_depot = Inr (r, f1)
     \<and> (\<exists>p. mark_in_transit 10 7 ''O2'' returned_depot = Inr p)
     \<and> (\<exists>e. mark_in_transit 10 7 ''O2'' f1 = Inl e)"
proof -
  have inv: "orders_inv returned_depot" by code_simp
  have a: "case mark_in_transit 10 7 ''O2'' returned_depot of Inl e \<Rightarrow> False | Inr p \<Rightarrow> True" by code_simp
  have b: "case initiate_return 9 ''bb'' 7 ''O1'' ''again'' returned_depot of Inl e \<Rightarrow> False
    | Inr (r, f1) \<Rightarrow> isl (mark_in_transit 10 7 ''O2'' f1)" by code_simp
  from inv a b show ?thesis by (auto simp: isl_def split: sum.splits)
qed

end
