(* ===== verification/Bookings.thy ===== *)
theory Bookings
  imports Wallet Schema
begin

text \<open>
  Bookings (\<open>app/services/booking_service.py\<close>, \<open>app/api/v1/bookings.py\<close>): a user holds a
  charged battery of a station for thirty minutes, and settles the fee from the wallet.

  The amounts of the request and of the wallet are floats. A request may carry the float NaN,
  which no comparison of the handler refuses and which then is stored: \<open>nan_wallets\<close> and
  \<open>nan_txns\<close> are the ids of the rows whose amount is NaN (their \<open>money\<close> field means nothing).
  Of a scheduled reminder the model keeps the user and the time.
\<close>

section \<open>Tables\<close>

record reservation =
  br_id :: int
  br_user_id :: int
  br_station_id :: int
  br_battery_id :: "int option"
  br_start_time :: datetime
  br_end_time :: datetime
  br_status :: string
  br_created_at :: datetime
  br_updated_at :: datetime

record booking_db =
  bk_fleet :: fleet
  reservations :: "reservation list"
  purse :: wallet_db
  nan_wallets :: "int list"
  nan_txns :: "int list"
  reminders :: "(int \<times> datetime) list"

definition put_reservation :: "reservation \<Rightarrow> booking_db \<Rightarrow> booking_db" where
  "put_reservation r s = s\<lparr>reservations := put_row br_id r (reservations s)\<rparr>"

section \<open>The service\<close>

definition normalize_booking_status :: "string \<Rightarrow> string" where
  "normalize_booking_status v = py_upper (py_strip v)"

definition is_station_bookable :: "station \<Rightarrow> bool" where
  "is_station_bookable st \<longleftrightarrow>
     py_lower (py_strip (st_status st)) \<notin> {''maintenance'', ''closed'', ''offline'', ''error''}"

definition expire :: "datetime \<Rightarrow> reservation \<Rightarrow> reservation" where
  "expire now r = r\<lparr>br_status := ''EXPIRED'', br_updated_at := now\<rparr>"

definition is_due :: "datetime \<Rightarrow> int option \<Rightarrow> reservation \<Rightarrow> bool" where
  "is_due now user_id r \<longleftrightarrow> br_status r = ''PENDING'' \<and> br_end_time r \<le> now
     \<and> (case user_id of None \<Rightarrow> True | Some u \<Rightarrow> br_user_id r = u)"

definition release_expired_reservations ::
    "datetime \<Rightarrow> int option \<Rightarrow> booking_db \<Rightarrow> nat \<times> booking_db" where
  "release_expired_reservations now user_id s =
     (let expired = filter (is_due now user_id) (reservations s)
      in (length expired, fold (\<lambda>r. put_reservation (expire now r)) expired s))"

definition mark_expired_if_due :: "datetime \<Rightarrow> reservation \<Rightarrow> booking_db \<Rightarrow> reservation \<times> booking_db" where
  "mark_expired_if_due now r s =
     (if normalize_booking_status (br_status r) \<noteq> ''PENDING'' \<or> now < br_end_time r then (r, s)
      else (expire now r, put_reservation (expire now r) s))"

text \<open>A reservation that holds its battery and its user at a time.\<close>

definition live_status :: "reservation \<Rightarrow> bool" where
  "live_status r \<longleftrightarrow> br_status r \<in> {''PENDING'', ''ACTIVE''}"

definition holds :: "datetime \<Rightarrow> reservation \<Rightarrow> bool" where
  "holds now r \<longleftrightarrow> live_status r \<and> now < br_end_time r"

definition reserved_ids :: "datetime \<Rightarrow> booking_db \<Rightarrow> int list" where
  "reserved_ids now s = List.map_filter br_battery_id (filter (holds now) (reservations s))"

definition bookable_batteries :: "datetime \<Rightarrow> int \<Rightarrow> booking_db \<Rightarrow> battery list" where
  "bookable_batteries now station_id s =
     sort_key (\<lambda>b. - current_charge b) (sort_key b_id
       (filter (\<lambda>b. b_station_id b = Some station_id \<and> b_status b = ''available''
                    \<and> 70 \<le> current_charge b \<and> b_id b \<notin> set (reserved_ids now s))
          (batteries (bk_fleet s))))"

definition new_reservation :: "datetime \<Rightarrow> int \<Rightarrow> int \<Rightarrow> battery \<Rightarrow> booking_db \<Rightarrow> reservation" where
  "new_reservation now user_id station_id b s =
     \<lparr>br_id = fresh_id br_id (reservations s), br_user_id = user_id, br_station_id = station_id,
      br_battery_id = Some (b_id b), br_start_time = now, br_end_time = now + 30 * minute,
      br_status = ''PENDING'', br_created_at = now, br_updated_at = now\<rparr>"

definition create_reservation ::
    "datetime \<Rightarrow> int \<Rightarrow> int \<Rightarrow> booking_db \<Rightarrow> reservation res \<times> booking_db" where
  "create_reservation now user_id station_id s0 =
     (let s = snd (release_expired_reservations now (Some user_id) s0)
      in case get_row st_id station_id (stations (bk_fleet s)) of
           None \<Rightarrow> (Inl (ValueError ''Station not found''), s)
         | Some st \<Rightarrow>
             if \<not> is_station_bookable st then
               (Inl (ValueError ''Station is currently not accepting bookings''), s)
             else if list_ex (\<lambda>r. br_user_id r = user_id \<and> holds now r) (reservations s) then
               (Inl (ValueError ''User already has an active reservation''), s)
             else case bookable_batteries now station_id s of
                    [] \<Rightarrow> (Inl (ValueError ''No bookable batteries available at this station''), s)
                  | b # bs \<Rightarrow>
                      let r = new_reservation now user_id station_id b s;
                          reminder_time = br_end_time r - 10 * minute;
                          s1 = s\<lparr>reservations := reservations s @ [r]\<rparr>
                      in (Inr r, if now < reminder_time
                                 then s1\<lparr>reminders := reminders s1 @ [(user_id, reminder_time)]\<rparr>
                                 else s1))"

definition allowed_booking_transitions :: "string \<Rightarrow> string set" where
  "allowed_booking_transitions current =
     (if current = ''PENDING'' then {''ACTIVE'', ''CANCELLED'', ''EXPIRED''}
      else if current = ''ACTIVE'' then {''COMPLETED'', ''CANCELLED''}
      else {})"

definition is_transition_allowed :: "string \<Rightarrow> string \<Rightarrow> bool" where
  "is_transition_allowed current_status target_status \<longleftrightarrow>
     normalize_booking_status target_status
       \<in> allowed_booking_transitions (normalize_booking_status current_status)"

section \<open>The endpoints\<close>

definition get_user_booking :: "int \<Rightarrow> int \<Rightarrow> booking_db \<Rightarrow> reservation res" where
  "get_user_booking booking_id user_id s =
     (case get_row br_id booking_id (reservations s) of
        None \<Rightarrow> Inl (HTTPException 404 ''Booking not found'')
      | Some r \<Rightarrow> if br_user_id r \<noteq> user_id then Inl (HTTPException 404 ''Booking not found'') else Inr r)"

definition create_booking ::
    "datetime \<Rightarrow> int \<Rightarrow> int \<Rightarrow> booking_db \<Rightarrow> reservation res \<times> booking_db" where
  "create_booking now user_id station_id s =
     (case create_reservation now user_id station_id s of
        (Inl (ValueError d), s') \<Rightarrow> (Inl (HTTPException 400 d), s')
      | out \<Rightarrow> out)"

definition list_my_bookings :: "datetime \<Rightarrow> int \<Rightarrow> booking_db \<Rightarrow> reservation list \<times> booking_db" where
  "list_my_bookings now user_id s =
     (let s' = snd (release_expired_reservations now (Some user_id) s)
      in (sort_key (\<lambda>r. - br_created_at r) (filter (\<lambda>r. br_user_id r = user_id) (reservations s')), s'))"

definition get_booking_details ::
    "datetime \<Rightarrow> int \<Rightarrow> int \<Rightarrow> booking_db \<Rightarrow> reservation res \<times> booking_db" where
  "get_booking_details now booking_id user_id s =
     (case get_user_booking booking_id user_id s of
        Inl e \<Rightarrow> (Inl e, s)
      | Inr r \<Rightarrow> (case mark_expired_if_due now r s of (r', s') \<Rightarrow> (Inr r', s')))"

definition set_booking_status :: "datetime \<Rightarrow> string \<Rightarrow> reservation \<Rightarrow> reservation" where
  "set_booking_status now st r = r\<lparr>br_status := st, br_updated_at := now\<rparr>"

definition update_booking ::
    "datetime \<Rightarrow> int \<Rightarrow> int \<Rightarrow> string option \<Rightarrow> booking_db \<Rightarrow> reservation res \<times> booking_db" where
  "update_booking now booking_id user_id status s =
     (case get_user_booking booking_id user_id s of
        Inl e \<Rightarrow> (Inl e, s)
      | Inr r0 \<Rightarrow>
     (case mark_expired_if_due now r0 s of (r, s1) \<Rightarrow>
     (case truthy_str status of
        None \<Rightarrow> (Inr r, s1)
      | Some status \<Rightarrow>
          let target_status = py_upper (py_strip status);
              current_status = py_upper (py_strip (br_status r))
          in if target_status = current_status then (Inr r, s1)
             else if \<not> is_transition_allowed current_status target_status then
               (Inl (HTTPException 400
                  (''Cannot transition booking from '' @ current_status @ '' to '' @ target_status)), s1)
             else let r' = set_booking_status now target_status r
                  in (Inr r', put_reservation r' s1))))"

definition cancel_booking ::
    "datetime \<Rightarrow> int \<Rightarrow> int \<Rightarrow> booking_db \<Rightarrow> string res \<times> booking_db" where
  "cancel_booking now booking_id user_id s =
     (case get_user_booking booking_id user_id s of
        Inl e \<Rightarrow> (Inl e, s)
      | Inr r0 \<Rightarrow>
     (case mark_expired_if_due now r0 s of (r, s1) \<Rightarrow>
        let current_status = py_upper (py_strip (br_status r));
            refusal = Inl (HTTPException 400 (''Cannot cancel booking in '' @ current_status @ '' state''))
        in if current_status \<in> {''COMPLETED'', ''EXPIRED''} then (refusal, s1)
           else if current_status = ''CANCELLED'' then (Inr ''Booking already cancelled'', s1)
           else if \<not> is_transition_allowed current_status ''CANCELLED'' then (refusal, s1)
           else (Inr ''Booking cancelled'', put_reservation (set_booking_status now ''CANCELLED'' r) s1)))"

text \<open>The reminder is one notification; sending it is the notification service's.\<close>

definition send_booking_reminder ::
    "datetime \<Rightarrow> int \<Rightarrow> int \<Rightarrow> booking_db \<Rightarrow> string res \<times> booking_db" where
  "send_booking_reminder now booking_id user_id s =
     (case get_user_booking booking_id user_id s of
        Inl e \<Rightarrow> (Inl e, s)
      | Inr r0 \<Rightarrow>
     (case mark_expired_if_due now r0 s of (r, s1) \<Rightarrow>
        if py_upper (py_strip (br_status r)) = ''EXPIRED'' then
          (Inl (HTTPException 400 ''Cannot send reminder for expired booking''), s1)
        else (Inr ''Reminder sent'', s1\<lparr>reminders := reminders s1 @ [(user_id, now)]\<rparr>)))"

section \<open>Payment\<close>

record booking_payment =
  bp_amount :: "decimal option"
  bp_payment_method :: string

text \<open>The amount after \<open>round(amount, 2)\<close> and the two comparisons; \<open>None\<close> is NaN.\<close>

definition booking_amount :: "booking_payment option \<Rightarrow> money option res" where
  "booking_amount payment_in =
     (case (case payment_in of None \<Rightarrow> None | Some p \<Rightarrow> bp_amount p) of
        None \<Rightarrow> Inr (Some 4900)
      | Some NaN \<Rightarrow> Inr None
      | Some (Infinite negative) \<Rightarrow>
          if negative then Inl (HTTPException 400 ''Payment amount must be greater than zero'')
          else Inl (HTTPException 400 ''Payment amount exceeds allowed limit'')
      | Some (Finite x) \<Rightarrow>
          let amount = round_half_even (x * 100)
          in if amount \<le> 0 then Inl (HTTPException 400 ''Payment amount must be greater than zero'')
             else if 10000000 < amount then
               Inl (HTTPException 400 ''Payment amount exceeds allowed limit'')
             else Inr (Some amount))"

definition insufficient :: "int \<Rightarrow> money option \<Rightarrow> wallet \<Rightarrow> booking_db \<Rightarrow> bool" where
  "insufficient i amount w s \<longleftrightarrow>
     i \<notin> set (nan_wallets s) \<and> (case amount of None \<Rightarrow> False | Some a \<Rightarrow> balance w < a)"

text \<open>
  The row \<open>Transaction\<close> of a payment has the amount as it was paid, no \<open>balance_after\<close>, and
  none of the columns \<open>type\<close>, \<open>category\<close> and \<open>reference_type\<close> of the wallet service.
\<close>

definition booking_txn :: "datetime \<Rightarrow> int \<Rightarrow> int \<Rightarrow> money \<Rightarrow> wallet \<Rightarrow> wallet_db \<Rightarrow> txn" where
  "booking_txn now user_id booking_id amount w s =
     \<lparr>tx_id = fresh_id tx_id (txns s), tx_user_id = user_id, tx_wallet_id = Some (wl_id w),
      tx_amount = amount, tx_balance_after = None, tx_type = None, tx_category = None,
      tx_status = ''SUCCESS'',
      tx_description = ''Booking payment for reservation #'' @ show_int booking_id,
      tx_payment_id = None, tx_reference_type = None, tx_reference_id = None, tx_created_at = now\<rparr>"

definition settle_booking ::
    "datetime \<Rightarrow> int \<Rightarrow> reservation \<Rightarrow> money option \<Rightarrow> booking_db \<Rightarrow> reservation res \<times> booking_db" where
  "settle_booking now user_id r amount s =
     (case get_wallet now user_id (purse s) of (w, p) \<Rightarrow>
        let s1 = s\<lparr>purse := p\<rparr>
        in if wl_is_frozen w then (Inl (HTTPException 403 ''Wallet is frozen''), s1)
           else if insufficient (wl_id w) amount w s1 then
             (Inl (HTTPException 400 ''Insufficient wallet balance''), s1)
           else
             let paid = (case amount of None \<Rightarrow> 0 | Some a \<Rightarrow> a);
                 txn = booking_txn now user_id (br_id r) paid w p;
                 r' = set_booking_status now ''ACTIVE'' r;
                 s2 = s1\<lparr>purse := add_txn txn (put_wallet (set_balance now (balance w - paid) w) p),
                          nan_wallets := (if amount = None then wl_id w # nan_wallets s1 else nan_wallets s1),
                          nan_txns := (if amount = None then tx_id txn # nan_txns s1 else nan_txns s1)\<rparr>
             in (Inr r', put_reservation r' s2))"

definition pay_for_booking ::
    "datetime \<Rightarrow> int \<Rightarrow> int \<Rightarrow> booking_payment option \<Rightarrow> booking_db \<Rightarrow> reservation res \<times> booking_db" where
  "pay_for_booking now booking_id user_id payment_in s =
     (case get_user_booking booking_id user_id s of
        Inl e \<Rightarrow> (Inl e, s)
      | Inr r0 \<Rightarrow>
     (case mark_expired_if_due now r0 s of (r, s1) \<Rightarrow>
        let booking_status = py_upper (py_strip (br_status r));
            payment_method = py_lower (py_strip
              (case payment_in of None \<Rightarrow> ''wallet'' | Some p \<Rightarrow> bp_payment_method p))
        in if booking_status = ''ACTIVE'' then (Inr r, s1)
           else if booking_status \<noteq> ''PENDING'' then
             (Inl (HTTPException 400 (''Cannot pay for booking in '' @ booking_status @ '' state'')), s1)
           else if payment_method \<noteq> ''wallet'' then
             (Inl (HTTPException 400 ''Only wallet payment is currently supported for bookings''), s1)
           else case booking_amount payment_in of
                  Inl e \<Rightarrow> (Inl e, s1)
                | Inr amount \<Rightarrow> settle_booking now user_id r amount s1))"

section \<open>The booking API\<close>

text \<open>A request of an authenticated user, and what it leaves in the tables.\<close>

datatype booking_request =
    Book int
  | ListBookings
  | ShowBooking int
  | UpdateBooking int "string option"
  | CancelBooking int
  | RemindBooking int
  | PayBooking int "booking_payment option"

fun serve_booking :: "datetime \<times> int \<times> booking_request \<Rightarrow> booking_db \<Rightarrow> booking_db" where
  "serve_booking (now, u, Book st) s = snd (create_booking now u st s)"
| "serve_booking (now, u, ListBookings) s = snd (list_my_bookings now u s)"
| "serve_booking (now, u, ShowBooking i) s = snd (get_booking_details now i u s)"
| "serve_booking (now, u, UpdateBooking i x) s = snd (update_booking now i u x s)"
| "serve_booking (now, u, CancelBooking i) s = snd (cancel_booking now i u s)"
| "serve_booking (now, u, RemindBooking i) s = snd (send_booking_reminder now i u s)"
| "serve_booking (now, u, PayBooking i p) s = snd (pay_for_booking now i u p s)"

end
