(* ===== verification/BookingsInv.thy ===== *)
theory BookingsInv
  imports Bookings WalletInv FleetInv
begin

text \<open>
  What the bookings promise: a battery and a user have one live reservation at a time, a
  finished reservation stays finished, an elapsed one never stands in the way of the next, and
  a payment takes its amount from the wallet; and where the payment endpoint breaks what the
  wallet ledger promises.
\<close>

section \<open>One reservation is changed at a time\<close>

lemma expire_simps [simp]:
  "br_id (expire now r) = br_id r" "br_user_id (expire now r) = br_user_id r"
  "br_battery_id (expire now r) = br_battery_id r" "br_end_time (expire now r) = br_end_time r"
  "br_start_time (expire now r) = br_start_time r" "br_status (expire now r) = ''EXPIRED''"
  by (simp_all add: expire_def)

lemma set_booking_status_simps [simp]:
  "br_id (set_booking_status now x r) = br_id r" "br_user_id (set_booking_status now x r) = br_user_id r"
  "br_battery_id (set_booking_status now x r) = br_battery_id r"
  "br_end_time (set_booking_status now x r) = br_end_time r"
  "br_start_time (set_booking_status now x r) = br_start_time r"
  "br_status (set_booking_status now x r) = x"
  by (simp_all add: set_booking_status_def)

lemma put_reservation_tables [simp]:
  "reservations (put_reservation r s) = put_row br_id r (reservations s)"
  "bk_fleet (put_reservation r s) = bk_fleet s" "purse (put_reservation r s) = purse s"
  "nan_wallets (put_reservation r s) = nan_wallets s" "nan_txns (put_reservation r s) = nan_txns s"
  by (simp_all add: put_reservation_def)

text \<open>What may become of one row: its place in time and its holder stay, its status follows the machine.\<close>

definition booking_statuses :: "string set" where
  "booking_statuses = {''PENDING'', ''ACTIVE'', ''COMPLETED'', ''CANCELLED'', ''EXPIRED''}"

definition evolves :: "reservation \<Rightarrow> reservation \<Rightarrow> bool" where
  "evolves r q \<longleftrightarrow> br_id q = br_id r \<and> br_user_id q = br_user_id r \<and> br_battery_id q = br_battery_id r
     \<and> br_start_time q = br_start_time r \<and> br_end_time q = br_end_time r
     \<and> br_status q \<in> allowed_booking_transitions (br_status r)"

definition bookings_inv :: "booking_db \<Rightarrow> bool" where
  "bookings_inv s \<longleftrightarrow> distinct (map br_id (reservations s))
     \<and> (\<forall>r \<in> set (reservations s). br_status r \<in> booking_statuses)"

text \<open>
  A table of reservations becomes another: some rows have followed an edge of the machine, and
  perhaps a new one is there that none of the others stands against.
\<close>

inductive booking_step :: "booking_db \<Rightarrow> booking_db \<Rightarrow> bool" where
  same: "reservations s' = reservations s \<Longrightarrow> booking_step s s'"
| evolve: "r \<in> set (reservations s) \<Longrightarrow> evolves r q \<Longrightarrow>
    reservations s' = put_row br_id q (reservations s) \<Longrightarrow> booking_step s s'"
| book: "br_id q = fresh_id br_id (reservations s) \<Longrightarrow> br_status q = ''PENDING'' \<Longrightarrow>
    \<forall>r \<in> set (reservations s). holds (br_start_time q) r \<longrightarrow>
        br_user_id r \<noteq> br_user_id q \<and> br_battery_id r \<noteq> br_battery_id q \<Longrightarrow>
    reservations s' = reservations s @ [q] \<Longrightarrow> booking_step s s'"

text \<open>Two reservations do not collide: different holders, or one is over when the other starts.\<close>

definition apart :: "reservation \<Rightarrow> reservation \<Rightarrow> bool" where
  "apart r q \<longleftrightarrow> (br_user_id r \<noteq> br_user_id q \<and> br_battery_id r \<noteq> br_battery_id q)
     \<or> \<not> live_status r \<or> \<not> live_status q
     \<or> br_end_time r \<le> br_start_time q \<or> br_end_time q \<le> br_start_time r"

definition no_collision :: "booking_db \<Rightarrow> bool" where
  "no_collision s \<longleftrightarrow> (\<forall>r \<in> set (reservations s). \<forall>q \<in> set (reservations s). r = q \<or> apart r q)"

lemma apart_sym: "apart r q \<longleftrightarrow> apart q r"
  by (auto simp: apart_def)

lemma evolved_status: "evolves r q \<Longrightarrow> br_status q \<in> booking_statuses"
  by (auto simp: evolves_def allowed_booking_transitions_def booking_statuses_def split: if_splits)

lemma evolved_live: "evolves r q \<Longrightarrow> live_status q \<Longrightarrow> live_status r"
  by (auto simp: evolves_def allowed_booking_transitions_def live_status_def split: if_splits)

lemma evolved_apart: "evolves r r' \<Longrightarrow> apart r q \<Longrightarrow> apart r' q"
  using evolved_live[of r r'] by (auto simp: apart_def evolves_def)

lemma booking_step_inv: "booking_step s s' \<Longrightarrow> bookings_inv s \<Longrightarrow> bookings_inv s'"
proof (induction rule: booking_step.induct)
  case (evolve r s q s')
  then show ?case using evolved_status by (auto simp: bookings_inv_def dest!: in_put_row)
next
  case (book q s s')
  then show ?case by (auto simp: bookings_inv_def fresh_id_notin booking_statuses_def)
qed (simp add: bookings_inv_def)

lemma booking_step_apart:
  "booking_step s s' \<Longrightarrow> bookings_inv s \<Longrightarrow> no_collision s \<Longrightarrow> no_collision s'"
proof (induction rule: booking_step.induct)
  case (evolve r s q s')
  have one: "apart q y" if "y \<in> set (reservations s)" "br_id y \<noteq> br_id q" for y
  proof -
    have "r \<noteq> y" using that(2) evolve(2) by (auto simp: evolves_def)
    then have "apart r y" using evolve(1,5) that(1) by (auto simp: no_collision_def)
    then show ?thesis by (rule evolved_apart[OF evolve(2)])
  qed
  have *: "x = y \<or> apart x y" if "x \<in> set (reservations s')" "y \<in> set (reservations s')" for x y
    using that[unfolded evolve(3), THEN in_put_row] one evolve(5) apart_sym
    by (auto simp: no_collision_def)
  then show ?case by (auto simp: no_collision_def)
next
  case (book q s s')
  have one: "apart r q" if "r \<in> set (reservations s)" for r
    using book(3) that by (auto simp: apart_def holds_def)
  then show ?case using book(4,6) apart_sym by (auto simp: no_collision_def)
qed (simp add: no_collision_def)

lemma booking_run_inv:
  "booking_step\<^sup>*\<^sup>* s s' \<Longrightarrow> bookings_inv s \<Longrightarrow> no_collision s \<Longrightarrow> bookings_inv s' \<and> no_collision s'"
  by (induction rule: rtranclp_induct) (use booking_step_inv booking_step_apart in blast)+

text \<open>A row whose status has no successor is never changed again.\<close>

definition finished :: "reservation \<Rightarrow> bool" where
  "finished r \<longleftrightarrow> br_status r \<in> {''COMPLETED'', ''CANCELLED'', ''EXPIRED''}"

lemma booking_step_finished:
  "booking_step s s' \<Longrightarrow> bookings_inv s \<Longrightarrow> r \<in> set (reservations s) \<Longrightarrow> finished r \<Longrightarrow>
   r \<in> set (reservations s')"
proof (induction rule: booking_step.induct)
  case (evolve q s q' s')
  have "q \<noteq> r" using evolve(2,6)
    by (auto simp: evolves_def finished_def allowed_booking_transitions_def)
  then have "br_id q' \<noteq> br_id r" using evolve distinct_key[of br_id "reservations s" r q]
    by (auto simp: bookings_inv_def evolves_def)
  then show ?case using evolve by (simp add: in_put_row_other)
qed auto

lemma booking_run_finished:
  "booking_step\<^sup>*\<^sup>* s s' \<Longrightarrow> bookings_inv s \<Longrightarrow> r \<in> set (reservations s) \<Longrightarrow> finished r \<Longrightarrow>
   r \<in> set (reservations s') \<and> bookings_inv s'"
  by (induction rule: rtranclp_induct) (use booking_step_inv booking_step_finished in blast)+

section \<open>Every endpoint follows the machine\<close>

lemma normal_status: "x \<in> booking_statuses \<Longrightarrow> py_upper (py_strip x) = x"
proof -
  have "\<forall>x \<in> booking_statuses. py_upper (py_strip x) = x" unfolding booking_statuses_def by code_simp
  then show "x \<in> booking_statuses \<Longrightarrow> py_upper (py_strip x) = x" by blast
qed

lemma expire_evolves: "br_status r = ''PENDING'' \<Longrightarrow> evolves r (expire now r)"
  by (simp add: evolves_def allowed_booking_transitions_def)

lemma set_status_evolves:
  "x \<in> allowed_booking_transitions (br_status r) \<Longrightarrow> evolves r (set_booking_status now x r)"
  by (simp add: evolves_def)

lemma in_put_row_new: "q \<in> set t \<Longrightarrow> key r = key q \<Longrightarrow> r \<in> set (put_row key r t)"
  by (induction t) auto

lemma release_steps:
  assumes "bookings_inv s" "set rs \<subseteq> set (reservations s)" "\<forall>r \<in> set rs. br_status r = ''PENDING''"
    "distinct (map br_id rs)"
  shows "booking_step\<^sup>*\<^sup>* s (fold (\<lambda>r. put_reservation (expire now r)) rs s)"
  using assms
proof (induction rs arbitrary: s)
  case Nil
  then show ?case by simp
next
  case (Cons r rs)
  let ?s = "put_reservation (expire now r) s"
  have st: "booking_step s ?s"
    using Cons.prems by (intro booking_step.evolve[of r _ "expire now r"]) (auto simp: expire_evolves)
  have "set rs \<subseteq> set (reservations ?s)"
    using Cons.prems(2,4) by (force intro!: in_put_row_other simp: image_iff)
  then have "booking_step\<^sup>*\<^sup>* ?s (fold (\<lambda>r. put_reservation (expire now r)) rs ?s)"
    using Cons.IH[OF booking_step_inv[OF st Cons.prems(1)]] Cons.prems by simp
  then show ?case using st by (simp add: converse_rtranclp_into_rtranclp)
qed

lemma release_expired_steps:
  "bookings_inv s \<Longrightarrow> release_expired_reservations now u s = (n, s') \<Longrightarrow> booking_step\<^sup>*\<^sup>* s s'"
  by (auto simp: release_expired_reservations_def Let_def is_due_def bookings_inv_def distinct_map_filter
      intro!: release_steps)

lemma mark_expired_step:
  assumes "bookings_inv s" "r \<in> set (reservations s)" "mark_expired_if_due now r s = (r', s')"
  shows "booking_step s s' \<and> r' \<in> set (reservations s') \<and> br_id r' = br_id r \<and> br_user_id r' = br_user_id r"
proof (cases "br_status r = ''PENDING'' \<and> br_end_time r \<le> now")
  case True
  then have "r' = expire now r" "s' = put_reservation (expire now r) s"
    using assms normal_status[of "''PENDING''"]
    by (auto simp: mark_expired_if_due_def normalize_booking_status_def booking_statuses_def)
  then show ?thesis using True assms(2)
    by (auto intro!: booking_step.evolve[OF assms(2)] expire_evolves in_put_row_new)
next
  case False
  then have "r' = r" "s' = s" using assms normal_status[of "br_status r"]
    by (auto simp: mark_expired_if_due_def normalize_booking_status_def bookings_inv_def split: if_splits)
  then show ?thesis using assms(2) by (auto intro: booking_step.same)
qed

lemma reserved_idsI: "r \<in> set (reservations s) \<Longrightarrow> holds now r \<Longrightarrow> br_battery_id r = Some i \<Longrightarrow>
   i \<in> set (reserved_ids now s)"
  by (force simp: reserved_ids_def List.map_filter_def)

lemma new_reservation_simps [simp]:
  "br_id (new_reservation now u st b s) = fresh_id br_id (reservations s)"
  "br_user_id (new_reservation now u st b s) = u"
  "br_station_id (new_reservation now u st b s) = st"
  "br_battery_id (new_reservation now u st b s) = Some (b_id b)"
  "br_start_time (new_reservation now u st b s) = now"
  "br_end_time (new_reservation now u st b s) = now + 30 * minute"
  "br_status (new_reservation now u st b s) = ''PENDING''"
  by (simp_all add: new_reservation_def)

text \<open>After the clean-up either the request is refused and nothing more is written, or a row is added.\<close>

lemma create_reservation_cases [consumes 1, case_names refused booked]:
  assumes "create_reservation now u st s = (out, s')"
  obtains n s1 e where "release_expired_reservations now (Some u) s = (n, s1)" "out = Inl (ValueError e)" "s' = s1"
  | n s1 t b bs where "release_expired_reservations now (Some u) s = (n, s1)"
      "get_row st_id st (stations (bk_fleet s1)) = Some t" "is_station_bookable t"
      "\<not> list_ex (\<lambda>r. br_user_id r = u \<and> holds now r) (reservations s1)"
      "bookable_batteries now st s1 = b # bs" "out = Inr (new_reservation now u st b s1)"
      "reservations s' = reservations s1 @ [new_reservation now u st b s1]"
      "bk_fleet s' = bk_fleet s1" "purse s' = purse s1"
proof -
  obtain n s1 where rel: "release_expired_reservations now (Some u) s = (n, s1)" by force
  show thesis
    using assms by (auto simp: create_reservation_def rel Let_def split: option.splits if_splits list.splits
        intro: that(1)[OF rel] that(2)[OF rel])
qed

lemma create_reservation_steps:
  assumes "bookings_inv s" "create_reservation now u st s = (out, s')"
  shows "booking_step\<^sup>*\<^sup>* s s'"
  using assms(2)
proof (cases rule: create_reservation_cases)
  case (refused n s1 e)
  then show ?thesis using release_expired_steps[OF assms(1)] by blast
next
  case (booked n s1 t b bs)
  have "b \<in> set (bookable_batteries now st s1)" using booked(5) by simp
  then have "b_id b \<notin> set (reserved_ids now s1)" by (simp add: bookable_batteries_def)
  then have "booking_step s1 s'"
    using booked(4) by (intro booking_step.book[OF _ _ _ booked(7)]) (auto simp: list_ex_iff dest: reserved_idsI)
  then show ?thesis using release_expired_steps[OF assms(1) booked(1)] by simp
qed

lemma get_user_bookingE:
  assumes "get_user_booking i u s = Inr r"
  shows "r \<in> set (reservations s)" "br_id r = i" "br_user_id r = u"
  using assms get_row_Some[of br_id i "reservations s"]
  by (auto simp: get_user_booking_def split: option.splits if_splits)

lemma move_booking_step:
  assumes "bookings_inv s" "r \<in> set (reservations s)"
    "x \<in> allowed_booking_transitions (py_upper (py_strip (br_status r)))"
    "reservations s' = put_row br_id (set_booking_status now x r) (reservations s)"
  shows "booking_step s s'"
proof -
  have "py_upper (py_strip (br_status r)) = br_status r"
    using assms(1,2) by (simp add: bookings_inv_def normal_status)
  then show ?thesis using assms(3,4) by (intro booking_step.evolve[OF assms(2) set_status_evolves]) simp_all
qed

lemma allowed_normal: "is_transition_allowed (py_upper (py_strip c)) (py_upper (py_strip x)) \<longleftrightarrow>
    py_upper (py_strip x) \<in> allowed_booking_transitions (py_upper (py_strip c))"
  by (simp add: is_transition_allowed_def normalize_booking_status_def)

text \<open>What an endpoint does behind the lookup of the booking: nothing, or one move of its row.\<close>

lemma marked_steps:
  assumes inv: "bookings_inv s" and r0: "get_user_booking i u s = Inr r0"
    and m: "mark_expired_if_due now r0 s = (r, s1)"
    and out: "reservations s' = reservations s1 \<or>
      (\<exists>x. x \<in> allowed_booking_transitions (py_upper (py_strip (br_status r)))
         \<and> reservations s' = put_row br_id (set_booking_status now x r) (reservations s1))"
  shows "booking_step\<^sup>*\<^sup>* s s'"
proof -
  note f = mark_expired_step[OF inv get_user_bookingE(1)[OF r0] m]
  have inv1: "bookings_inv s1" using f inv booking_step_inv by blast
  have "booking_step s1 s'" using out
  proof
    assume "reservations s' = reservations s1"
    then show ?thesis by (rule booking_step.same)
  next
    assume "\<exists>x. x \<in> allowed_booking_transitions (py_upper (py_strip (br_status r)))
         \<and> reservations s' = put_row br_id (set_booking_status now x r) (reservations s1)"
    then show ?thesis using f inv1 by (blast intro: move_booking_step)
  qed
  then show ?thesis using f by (meson converse_rtranclp_into_rtranclp r_into_rtranclp)
qed

lemma update_steps:
  assumes inv: "bookings_inv s" and upd: "update_booking now i u x s = (out, s')"
  shows "booking_step\<^sup>*\<^sup>* s s'"
proof (cases "get_user_booking i u s")
  case (Inl e)
  then show ?thesis using upd by (simp add: update_booking_def)
next
  case (Inr r0)
  obtain r s1 where m: "mark_expired_if_due now r0 s = (r, s1)" by force
  show ?thesis
    by (rule marked_steps[OF inv Inr m])
      (use upd in \<open>auto simp: update_booking_def Inr m Let_def allowed_normal split: option.splits if_splits\<close>)
qed

lemma cancel_steps:
  assumes inv: "bookings_inv s" and upd: "cancel_booking now i u s = (out, s')"
  shows "booking_step\<^sup>*\<^sup>* s s'"
proof (cases "get_user_booking i u s")
  case (Inl e)
  then show ?thesis using upd by (simp add: cancel_booking_def)
next
  case (Inr r0)
  obtain r s1 where m: "mark_expired_if_due now r0 s = (r, s1)" by force
  have c: "py_upper (py_strip ''CANCELLED'') = ''CANCELLED''"
    by (rule normal_status) (simp add: booking_statuses_def)
  show ?thesis
    by (rule marked_steps[OF inv Inr m])
      (use upd allowed_normal[of "br_status r" "''CANCELLED''"] c
        in \<open>auto simp: cancel_booking_def Inr m Let_def split: if_splits\<close>)
qed

lemma settle_booking_cases [consumes 2, case_names refused paid]:
  assumes "settle_booking now u r amount s = (out, s')" "get_wallet now u (purse s) = (w, p)"
  obtains e where "out = Inl e" "s' = s\<lparr>purse := p\<rparr>"
  | c where "out = Inr (set_booking_status now ''ACTIVE'' r)" "c = (case amount of None \<Rightarrow> 0 | Some a \<Rightarrow> a)"
      "\<not> wl_is_frozen w" "\<not> insufficient (wl_id w) amount w s"
      "reservations s' = put_row br_id (set_booking_status now ''ACTIVE'' r) (reservations s)"
      "purse s' = add_txn (booking_txn now u (br_id r) c w p) (put_wallet (set_balance now (balance w - c) w) p)"
      "nan_wallets s' = (if amount = None then wl_id w # nan_wallets s else nan_wallets s)"
      "bk_fleet s' = bk_fleet s"
  using assms by (auto simp: settle_booking_def insufficient_def Let_def split: if_splits)

lemma pay_cases [consumes 1, case_names absent unchanged settled]:
  assumes "pay_for_booking now i u pay s = (out, s')"
  obtains e where "get_user_booking i u s = Inl e" "out = Inl e" "s' = s"
  | r0 r s1 where "get_user_booking i u s = Inr r0" "mark_expired_if_due now r0 s = (r, s1)" "s' = s1"
      "\<forall>q. out = Inr q \<longrightarrow> q = r \<and> py_upper (py_strip (br_status r)) = ''ACTIVE''"
  | r0 r s1 amount where "get_user_booking i u s = Inr r0" "mark_expired_if_due now r0 s = (r, s1)"
      "py_upper (py_strip (br_status r)) = ''PENDING''" "booking_amount pay = Inr amount"
      "settle_booking now u r amount s1 = (out, s')"
proof (cases "get_user_booking i u s")
  case (Inl e)
  then show thesis using that(1) assms by (simp add: pay_for_booking_def)
next
  case (Inr r0)
  obtain r s1 where m: "mark_expired_if_due now r0 s = (r, s1)" by force
  show thesis using assms
    by (auto simp: pay_for_booking_def Inr m Let_def split: if_splits sum.splits
        intro: that(2)[OF Inr m] that(3)[OF Inr m])
qed

lemma pay_steps:
  assumes inv: "bookings_inv s" and "pay_for_booking now i u pay s = (out, s')"
  shows "booking_step\<^sup>*\<^sup>* s s'"
  using assms(2)
proof (cases rule: pay_cases)
  case (absent e)
  then show ?thesis by simp
next
  case (unchanged r0 r s1)
  then show ?thesis using marked_steps[OF inv unchanged(1,2)] by blast
next
  case (settled r0 r s1 amount)
  obtain w p where w: "get_wallet now u (purse s1) = (w, p)" by force
  have pending: "''ACTIVE'' \<in> allowed_booking_transitions (py_upper (py_strip (br_status r)))"
    using settled(3) by (simp add: allowed_booking_transitions_def)
  show ?thesis using settled(5) w
  proof (cases rule: settle_booking_cases)
    case (refused e)
    then show ?thesis by (intro marked_steps[OF inv settled(1,2)]) simp
  next
    case (paid c)
    then show ?thesis using pending by (intro marked_steps[OF inv settled(1,2)]) blast
  qed
qed

lemma serve_booking_steps: "bookings_inv s \<Longrightarrow> booking_step\<^sup>*\<^sup>* s (serve_booking x s)"
proof (induction x s rule: serve_booking.induct)
  case (1 now u st s)
  obtain out s' where c: "create_reservation now u st s = (out, s')" by force
  have "snd (create_booking now u st s) = s'"
    by (auto simp: create_booking_def c split: sum.splits exn.splits)
  then show ?case using create_reservation_steps[OF 1 c] by simp
next
  case (2 now u s)
  then show ?case using release_expired_steps[OF 2 prod.collapse[symmetric]]
    by (simp add: list_my_bookings_def Let_def)
next
  case (3 now u i s)
  show ?case
  proof (cases "get_user_booking i u s")
    case (Inr r0)
    obtain r s1 where m: "mark_expired_if_due now r0 s = (r, s1)" by force
    show ?thesis by (rule marked_steps[OF 3 Inr m]) (simp add: get_booking_details_def Inr m)
  qed (simp add: get_booking_details_def)
next
  case (4 now u i x s)
  then show ?case using update_steps[OF 4 prod.collapse[symmetric]] by simp
next
  case (5 now u i s)
  then show ?case using cancel_steps[OF 5 prod.collapse[symmetric]] by simp
next
  case (6 now u i s)
  show ?case
  proof (cases "get_user_booking i u s")
    case (Inr r0)
    obtain r s1 where m: "mark_expired_if_due now r0 s = (r, s1)" by force
    show ?thesis by (rule marked_steps[OF 6 Inr m]) (simp add: send_booking_reminder_def Inr m)
  qed (simp add: send_booking_reminder_def)
next
  case (7 now u i p s)
  then show ?case using pay_steps[OF 7 prod.collapse[symmetric]] by simp
qed

lemma serve_bookings_steps: "bookings_inv s \<Longrightarrow> booking_step\<^sup>*\<^sup>* s (fold serve_booking xs s)"
proof (induction xs arbitrary: s)
  case (Cons x xs)
  have inv: "bookings_inv s' " if "booking_step\<^sup>*\<^sup>* s s'" for s'
    using that by (induction rule: rtranclp_induct) (use Cons.prems booking_step_inv in blast)+
  show ?case using serve_booking_steps[OF Cons.prems, of x] Cons.IH[OF inv] by (simp add: rtranclp_trans)
qed simp

section \<open>Clearing up\<close>

lemma release_rows:
  "q \<in> set (reservations (fold (\<lambda>r. put_reservation (expire now r)) rs s)) \<Longrightarrow>
   (q \<in> set (reservations s) \<and> br_id q \<notin> br_id ` set rs) \<or> br_status q = ''EXPIRED''"
proof (induction rs arbitrary: s)
  case (Cons r rs)
  then show ?case using in_put_row[of q br_id "expire now r" "reservations s"] by fastforce
qed simp

lemma release_fleet:
  "bk_fleet (fold (\<lambda>r. put_reservation (expire now r)) rs s) = bk_fleet s"
  "purse (fold (\<lambda>r. put_reservation (expire now r)) rs s) = purse s"
  by (induction rs arbitrary: s) simp_all

lemma released:
  assumes "release_expired_reservations now u s = (n, s')"
  shows "bk_fleet s' = bk_fleet s" "purse s' = purse s"
    and "q \<in> set (reservations s') \<Longrightarrow> \<not> is_due now u q"
    and "q \<in> set (reservations s') \<Longrightarrow> holds t q \<Longrightarrow> q \<in> set (reservations s)"
proof -
  let ?rs = "filter (is_due now u) (reservations s)"
  have s': "s' = fold (\<lambda>r. put_reservation (expire now r)) ?rs s"
    using assms by (simp add: release_expired_reservations_def Let_def)
  show "bk_fleet s' = bk_fleet s" "purse s' = purse s" by (simp_all add: s' release_fleet)
  show "q \<in> set (reservations s') \<Longrightarrow> \<not> is_due now u q"
    using release_rows[of q now ?rs s] unfolding s'[symmetric] by (auto simp: image_iff) (simp add: is_due_def)
  show "q \<in> set (reservations s') \<Longrightarrow> holds t q \<Longrightarrow> q \<in> set (reservations s)"
    using release_rows[of q now ?rs s] unfolding s'[symmetric] by (auto simp: holds_def live_status_def)
qed

lemma sort_key_head: "sort_key g xs = y # ys \<Longrightarrow> x \<in> set xs \<Longrightarrow> g y \<le> g x"
proof -
  assume s: "sort_key g xs = y # ys" and x: "x \<in> set xs"
  have "sorted (map g (y # ys))" using sorted_sort_key[of g xs] by (simp add: s)
  moreover have "x \<in> set (y # ys)" using x set_sort[of g xs] by (simp add: s)
  ultimately show ?thesis by auto
qed

section \<open>Properties\<close>

definition sample_stock :: "battery list" where
  "sample_stock = [(sample_battery 1 ''A'')\<lparr>b_station_id := Some 1, current_charge := 90\<rparr>,
     (sample_battery 2 ''B'')\<lparr>b_station_id := Some 1\<rparr>]"

definition sample_purse :: wallet_db where
  "sample_purse = (opened [])\<lparr>
     wallets := [\<lparr>wl_id = 1, wl_user_id = 7, balance = 10000, wl_is_frozen = False, wl_updated_at = 0\<rparr>],
     txns := [\<lparr>tx_id = 1, tx_user_id = 7, tx_wallet_id = Some 1, tx_amount = 10000,
       tx_balance_after = Some 10000, tx_type = Some ''credit'', tx_category = Some ''deposit'',
       tx_status = ''success'', tx_description = [], tx_payment_id = None, tx_reference_type = None,
       tx_reference_id = None, tx_created_at = 0\<rparr>]\<rparr>"

definition sample_bookings :: booking_db where
  "sample_bookings = \<lparr>bk_fleet = sample_fleet\<lparr>batteries := sample_stock\<rparr>, reservations = [],
     purse = sample_purse, nan_wallets = [], nan_txns = [], reminders = []\<rparr>"

definition sample_reservation :: reservation where
  "sample_reservation = \<lparr>br_id = 1, br_user_id = 7, br_station_id = 1, br_battery_id = Some 2,
     br_start_time = 0, br_end_time = 30 * minute, br_status = ''PENDING'', br_created_at = 0,
     br_updated_at = 0\<rparr>"

lemma sample_purse_inv: "wallet_inv sample_purse"
  by (simp add: sample_purse_def opened_def wallet_inv_def ledger_inv_def keys_ok_def balances_ok_def
      amounts_ok_def payout_inv_def ledger_sum_def effect_on_def ledger_effect_def)

text \<open>
  C9: Whatever the booking API serves, at any time no two reservations that hold their
  battery have the same user or the same battery.
\<close>

theorem bookings_never_collide:
  assumes "reservations s = []" "s' = fold serve_booking xs s"
    and "r \<in> set (reservations s')" "q \<in> set (reservations s')" "r \<noteq> q"
    and "holds t r" "br_start_time r \<le> t" "holds t q" "br_start_time q \<le> t"
  shows "br_user_id r \<noteq> br_user_id q \<and> br_battery_id r \<noteq> br_battery_id q"
proof -
  have "bookings_inv s" "no_collision s" using assms(1) by (simp_all add: bookings_inv_def no_collision_def)
  then have "no_collision s'"
    using booking_run_inv[OF serve_bookings_steps] assms(2) by blast
  then have "apart r q" using assms(3-5) by (auto simp: no_collision_def)
  then show ?thesis using assms(6-9) by (auto simp: apart_def holds_def)
qed

lemma sample_two_bookings: "case fold serve_booking [(0, 7, Book 1), (1, 8, Book 1)] sample_bookings of s \<Rightarrow>
    map (\<lambda>r. (br_user_id r, br_battery_id r)) (reservations s) = [(7, Some 2), (8, Some 1)]
    \<and> list_all (\<lambda>r. holds 2 r \<and> br_start_time r \<le> 2) (reservations s)"
  by code_simp

lemma bookings_never_collide_witness:
  "\<exists>r q. r \<in> set (reservations (fold serve_booking [(0, 7, Book 1), (1, 8, Book 1)] sample_bookings))
     \<and> q \<in> set (reservations (fold serve_booking [(0, 7, Book 1), (1, 8, Book 1)] sample_bookings))
     \<and> br_user_id r \<noteq> br_user_id q \<and> br_battery_id r \<noteq> br_battery_id q"
proof -
  define s where "s = fold serve_booking [(0, 7, Book 1), (1, 8, Book 1)] sample_bookings"
  obtain r q where rs: "reservations s = [r, q]" "br_user_id r = 7" "br_user_id q = 8"
      "holds 2 r" "holds 2 q" "br_start_time r \<le> 2" "br_start_time q \<le> 2"
    using sample_two_bookings unfolding s_def[symmetric] by (auto simp: map_eq_Cons_conv)
  have "br_user_id r \<noteq> br_user_id q \<and> br_battery_id r \<noteq> br_battery_id q"
    by (rule bookings_never_collide[OF _ s_def, where t = 2]) (use rs in \<open>auto simp: sample_bookings_def\<close>)
  then show ?thesis using rs(1) unfolding s_def[symmetric] by (intro exI[of _ r] exI[of _ q]) simp
qed

text \<open>
  A completed, cancelled or expired reservation is never changed again, whatever
  the booking API serves afterwards.
\<close>

lemma finished_booking_stays:
  assumes "bookings_inv s" "r \<in> set (reservations s)"
    and "br_status r \<in> {''COMPLETED'', ''CANCELLED'', ''EXPIRED''}"
  shows "r \<in> set (reservations (fold serve_booking xs s))"
  using booking_run_finished[OF serve_bookings_steps[OF assms(1)] assms(1,2)] assms(3)
  by (simp add: finished_def)

lemma finished_booking_stays_witness:
  "sample_reservation\<lparr>br_status := ''EXPIRED''\<rparr> \<in> set (reservations
     (fold serve_booking [(0, 7, UpdateBooking 1 (Some ''active'')), (1, 7, CancelBooking 1)]
        (sample_bookings\<lparr>reservations := [sample_reservation\<lparr>br_status := ''EXPIRED''\<rparr>]\<rparr>)))"
  by (rule finished_booking_stays) (simp_all add: bookings_inv_def booking_statuses_def sample_reservation_def)

text \<open>
  C10: An elapsed reservation never stands in the way: at a bookable station with a free
  charged battery a user without a holding reservation is served, with a battery charged at least
  as much, and none of the user's elapsed reservations is left pending.
\<close>

theorem elapsed_booking_makes_room:
  assumes "get_row st_id st (stations (bk_fleet s)) = Some t" "is_station_bookable t"
    and b: "b \<in> set (batteries (bk_fleet s))" "b_station_id b = Some st" "b_status b = ''available''"
      "70 \<le> current_charge b"
    and free: "\<forall>r \<in> set (reservations s). holds now r \<longrightarrow>
        br_user_id r \<noteq> u \<and> br_battery_id r \<noteq> Some (b_id b)"
  shows "\<exists>r s'. create_booking now u st s = (Inr r, s') \<and> r \<in> set (reservations s') \<and> holds now r
    \<and> (\<exists>c \<in> set (batteries (bk_fleet s)). br_battery_id r = Some (b_id c) \<and> current_charge b \<le> current_charge c)
    \<and> (\<forall>q \<in> set (reservations s'). \<not> is_due now (Some u) q)"
proof -
  obtain out s' where c: "create_reservation now u st s = (out, s')" by force
  obtain n s1 where rel: "release_expired_reservations now (Some u) s = (n, s1)" by force
  note f = released[OF rel]
  have nobody: "\<not> list_ex (\<lambda>r. br_user_id r = u \<and> holds now r) (reservations s1)"
    using f(4) free by (auto simp: list_ex_iff)
  have "b_id b \<notin> set (reserved_ids now s1)"
    using f(4) free by (auto simp: reserved_ids_def List.map_filter_def)
  then have mem: "b \<in> set (bookable_batteries now st s1)"
    using b f(1) by (simp add: bookable_batteries_def)
  then obtain d ds where d: "bookable_batteries now st s1 = d # ds" by (cases "bookable_batteries now st s1") auto
  have "- current_charge d \<le> - current_charge b"
    by (rule sort_key_head[OF d[unfolded bookable_batteries_def]])
      (use mem in \<open>simp add: bookable_batteries_def\<close>)
  moreover have "d \<in> set (batteries (bk_fleet s))"
    using arg_cong[OF d, of set] f(1) by (auto simp: bookable_batteries_def)
  moreover have "out = Inr (new_reservation now u st d s1)"
      "reservations s' = reservations s1 @ [new_reservation now u st d s1]"
    using c assms(1,2) nobody d f(1) by (auto simp: create_reservation_def rel Let_def)
  ultimately show ?thesis using f(3) c
    by (intro exI[of _ "new_reservation now u st d s1"] exI[of _ s'])
      (auto simp: create_booking_def holds_def live_status_def is_due_def)
qed

lemma elapsed_booking_makes_room_witness:
  "\<exists>r s'. create_booking (31 * minute) 7 1 (sample_bookings\<lparr>reservations := [sample_reservation]\<rparr>)
     = (Inr r, s') \<and> holds (31 * minute) r"
  using elapsed_booking_makes_room[of 1 "sample_bookings\<lparr>reservations := [sample_reservation]\<rparr>"
    "\<lparr>st_id = 1, st_status = ''active'', st_is_deleted = False, st_dealer_id = None\<rparr>"
    "(sample_battery 2 ''B'')\<lparr>b_station_id := Some 1\<rparr>" "31 * minute" 7]
  by (simp add: sample_bookings_def sample_stock_def sample_fleet_def sample_battery_def
      sample_reservation_def holds_def is_station_bookable_def py_lower_def py_strip_def
      lower_char_def is_space_def) blast

lemma pending_payment:
  assumes "get_user_booking i u s = Inr r" "br_status r = ''PENDING''" "now < br_end_time r"
    and "(case pay of None \<Rightarrow> ''wallet'' | Some p \<Rightarrow> bp_payment_method p) = ''wallet''"
    and "booking_amount pay = Inr amount"
  shows "pay_for_booking now i u pay s = settle_booking now u r amount s"
proof -
  have "py_upper (py_strip ''PENDING'') = ''PENDING''" "py_lower (py_strip ''wallet'') = ''wallet''"
    by code_simp+
  then show ?thesis using assms
    by (simp add: pay_for_booking_def mark_expired_if_due_def)
qed

lemma booking_amount_pos: "booking_amount pay = Inr (Some a) \<Longrightarrow> 0 < a \<and> a \<le> 10000000"
  by (auto simp: booking_amount_def Let_def split: option.splits decimal.splits if_splits)

text \<open>
  A payment takes exactly its amount from the payer's wallet, which had it, and
  activates the reservation; but the amount is booked as a credit, so that from then on the
  movements of the wallet add up to twice the amount more than its balance.
\<close>

lemma booking_payment_books_credit:
  assumes inv: "wallet_inv (purse s)" and pay: "pay_for_booking now i u pay s = (Inr r, s')"
    and "get_user_booking i u s = Inr r0" "br_status r0 = ''PENDING''" "now < br_end_time r0"
    and "(case pay of None \<Rightarrow> ''wallet'' | Some p \<Rightarrow> bp_payment_method p) = ''wallet''"
    and amount: "booking_amount pay = Inr (Some a)" and "nan_wallets s = []"
  shows "a \<le> balances (purse s) u
    \<and> balances (purse s') = (balances (purse s))(u := balances (purse s) u - a)
    \<and> br_status r = ''ACTIVE'' \<and> r \<in> set (reservations s')
    \<and> (\<exists>w \<in> set (wallets (purse s')). wl_user_id w = u
         \<and> ledger_sum (wl_id w) (txns (purse s')) = balance w + 2 * a)
    \<and> \<not> wallet_inv (purse s')"
proof -
  obtain w p where w: "get_wallet now u (purse s) = (w, p)" by force
  note f = get_wallet_facts[OF inv w]
  note g = get_wallet_balances[OF inv w]
  have "settle_booking now u r0 (Some a) s = (Inr r, s')"
    using pay pending_payment[OF assms(3-7)] by simp
  then show ?thesis using w
  proof (cases rule: settle_booking_cases)
    case (refused e)
    then show ?thesis by simp
  next
    case (paid c)
    have c: "c = a" using paid by simp
    let ?w = "set_balance now (balance w - a) w"
    let ?p = "put_wallet ?w p"
    have wp: "w \<in> set (wallets p)" "wl_user_id w = u" "wallet_inv p" using f by auto
    have le: "a \<le> balances (purse s) u" using paid g assms(8) by (auto simp: insufficient_def)
    have purse: "purse s' = add_txn (booking_txn now u (br_id r0) a w p) ?p" using paid c by simp
    have "balances (purse s') = (balances (purse s))(u := balances (purse s) u - a)"
      using balances_put_wallet[OF wp(3,1)] wp(2) g by (simp add: purse)
    moreover have w': "?w \<in> set (wallets (purse s'))" "wl_user_id ?w = u"
      using wp by (auto simp: purse put_wallet_def add_txn_def set_balance_def intro: in_put_row_new)
    moreover have sum: "ledger_sum (wl_id ?w) (txns (purse s')) = balance ?w + 2 * a"
      using wp(1,3) by (simp add: purse effect_on_def ledger_effect_def booking_txn_def
          wallet_inv_def ledger_inv_def balances_ok_def set_balance_def)
    moreover have "\<not> wallet_inv (purse s')"
    proof
      assume "wallet_inv (purse s')"
      then have "balance ?w = ledger_sum (wl_id ?w) (txns (purse s'))"
        using w'(1) unfolding wallet_inv_def ledger_inv_def balances_ok_def by blast
      then show False using sum booking_amount_pos[OF amount] by linarith
    qed
    moreover have "r \<in> set (reservations s')" "br_status r = ''ACTIVE''"
      using paid get_user_bookingE[OF assms(3)] by (auto intro: in_put_row_new)
    ultimately show ?thesis using le by blast
  qed
qed

lemma booking_payment_books_credit_witness:
  "\<exists>r s'. pay_for_booking 5 1 7 None (sample_bookings\<lparr>reservations := [sample_reservation]\<rparr>) = (Inr r, s')
     \<and> balances (purse s') 7 = 5100 \<and> \<not> wallet_inv (purse s')"
proof -
  let ?s = "sample_bookings\<lparr>reservations := [sample_reservation]\<rparr>"
  have r0: "get_user_booking 1 7 ?s = Inr sample_reservation" "br_status sample_reservation = ''PENDING''"
      "5 < br_end_time sample_reservation" "booking_amount None = Inr (Some 4900)"
    by (simp_all add: get_user_booking_def sample_reservation_def booking_amount_def)
  have "isl (fst (pay_for_booking 5 1 7 None ?s)) = False"
    unfolding pending_payment[OF r0(1-3) _ r0(4), simplified]
    by (simp add: settle_booking_def get_wallet_def insufficient_def sample_bookings_def sample_purse_def Let_def)
  then obtain r s' where p: "pay_for_booking 5 1 7 None ?s = (Inr r, s')"
    by (cases "pay_for_booking 5 1 7 None ?s"; cases "fst (pay_for_booking 5 1 7 None ?s)") auto
  have "balances (purse ?s) 7 = 10000" by (simp add: balances_def sample_bookings_def sample_purse_def)
  then show ?thesis
    using p booking_payment_books_credit[OF _ p r0(1-3) _ r0(4)] sample_purse_inv
    by (intro exI[of _ r] exI[of _ s']) (simp add: sample_bookings_def)
qed

text \<open>
  A payment of the amount NaN activates the reservation and takes nothing; from then
  on every payment of the wallet is accepted, whatever its amount and however little was in it.
\<close>

lemma nan_payment_is_free:
  assumes "get_user_booking i u s = Inr r" "br_status r = ''PENDING''" "now < br_end_time r"
    and "(case pay of None \<Rightarrow> ''wallet'' | Some p \<Rightarrow> bp_payment_method p) = ''wallet''"
    and "booking_amount pay = Inr amount"
    and "get_wallet now u (purse s) = (w, p)" "\<not> wl_is_frozen w"
    and "(case pay of Some q \<Rightarrow> bp_amount q = Some NaN | None \<Rightarrow> False) \<or> wl_id w \<in> set (nan_wallets s)"
  shows "\<exists>q s'. pay_for_booking now i u pay s = (Inr q, s') \<and> br_status q = ''ACTIVE''
    \<and> wl_id w \<in> set (nan_wallets s')"
proof -
  have "amount = None \<or> wl_id w \<in> set (nan_wallets s)"
    using assms(5,8) by (auto simp: booking_amount_def split: option.splits)
  then show ?thesis unfolding pending_payment[OF assms(1-5)]
    using assms(6,7) by (auto simp: settle_booking_def insufficient_def Let_def put_reservation_def)
qed

lemma nan_payment_is_free_witness:
  "\<exists>q s'. pay_for_booking 5 1 7 (Some \<lparr>bp_amount = Some NaN, bp_payment_method = ''wallet''\<rparr>)
      (sample_bookings\<lparr>reservations := [sample_reservation]\<rparr>) = (Inr q, s') \<and> br_status q = ''ACTIVE''"
proof -
  let ?s = "sample_bookings\<lparr>reservations := [sample_reservation]\<rparr>"
  obtain w where "get_wallet 5 7 (purse ?s) = (w, sample_purse)" "\<not> wl_is_frozen w"
    by (simp add: get_wallet_def sample_bookings_def sample_purse_def)
  then show ?thesis
    using nan_payment_is_free[of 1 7 ?s sample_reservation 5
        "Some \<lparr>bp_amount = Some NaN, bp_payment_method = ''wallet''\<rparr>" None w sample_purse]
    by (auto simp: get_user_booking_def sample_reservation_def booking_amount_def)
qed

text \<open>The status endpoint activates a pending reservation without any payment.\<close>

lemma booking_activated_unpaid:
  assumes "get_user_booking i u s = Inr r" "br_status r = ''PENDING''" "now < br_end_time r"
  shows "\<exists>q s'. update_booking now i u (Some ''active'') s = (Inr q, s') \<and> br_status q = ''ACTIVE''
    \<and> purse s' = purse s"
proof -
  have "py_upper (py_strip ''PENDING'') = ''PENDING''" "py_upper (py_strip ''active'') = ''ACTIVE''"
      "py_upper (py_strip ''ACTIVE'') = ''ACTIVE''"
    by code_simp+
  then show ?thesis using assms
    by (simp add: update_booking_def mark_expired_if_due_def truthy_str_def normalize_booking_status_def
        is_transition_allowed_def allowed_booking_transitions_def Let_def)
qed

end
