(* ===== verification/Otp.thy ===== *)
theory Otp
  imports PyStr
begin

text \<open>
  One-time codes (\<open>app/services/otp_service.py\<close>): a code is issued for a target (a phone number or
  an email address) and a purpose, at a limited rate, and verified with a limited number of
  tries. Twilio is a parameter: \<open>verify_code\<close> and the two senders are the calls of
  \<open>twilio_integration\<close>. The random digits of a new code are the caller's.
\<close>

section \<open>Settings and table\<close>

record otp_settings =
  allow_test_otp_bypass :: bool
  test_otp_bypass_targets :: "string list"
  test_otp_bypass_code :: string
  sms_provider :: string
  twilio_account_sid :: "string option"
  twilio_auth_token :: "string option"
  twilio_verify_service_sid :: "string option"
  environment :: string
  debug_mode :: bool

record otp =
  otp_id :: int
  otp_target :: string
  otp_code :: string
  otp_purpose :: string
  otp_is_active :: bool
  otp_is_used :: bool
  otp_attempts :: int
  otp_expires_at :: datetime
  otp_created_at :: datetime

section \<open>The fixed code of test accounts\<close>

definition digits_of :: "string \<Rightarrow> string" where
  "digits_of s = filter digit_char s"

definition normalize_test_target :: "string \<Rightarrow> string" where
  "normalize_test_target value =
     (let raw = py_strip value
      in if raw = [] then []
         else if CHR ''@'' \<in> set raw then py_lower raw
         else let digits = digits_of raw
              in if 10 < length digits \<and> starts_with ''91'' digits
                 then drop (length digits - 10) digits else digits)"

definition is_test_bypass_target :: "otp_settings \<Rightarrow> string \<Rightarrow> bool" where
  "is_test_bypass_target cfg target =
     (let normalized_target = normalize_test_target target;
          normalized_allowed = filter (\<lambda>t. t \<noteq> []) (map normalize_test_target (test_otp_bypass_targets cfg))
      in if normalized_target = [] then False
         else if normalized_allowed = [] then True
         else normalized_target \<in> set normalized_allowed)"

definition configured_test_bypass_code :: "otp_settings \<Rightarrow> string" where
  "configured_test_bypass_code cfg = py_strip (test_otp_bypass_code cfg)"

definition configured_seeded_login_otp :: "otp_settings \<Rightarrow> string \<Rightarrow> string \<Rightarrow> string" where
  "configured_seeded_login_otp cfg target purpose =
     (if purpose \<noteq> ''login'' then []
      else let code = configured_test_bypass_code cfg
           in if allow_test_otp_bypass cfg \<and> code \<noteq> [] \<and> is_test_bypass_target cfg target then code else [])"

definition generate_otp :: "otp_settings \<Rightarrow> string \<Rightarrow> string \<Rightarrow> string \<Rightarrow> string" where
  "generate_otp cfg random_digits target purpose =
     (let fixed_code = configured_seeded_login_otp cfg target purpose
      in if fixed_code \<noteq> [] then fixed_code else random_digits)"

section \<open>Issuing a code\<close>

definition same_request :: "string \<Rightarrow> string \<Rightarrow> otp \<Rightarrow> bool" where
  "same_request target purpose r \<longleftrightarrow> otp_target r = target \<and> otp_purpose r = purpose"

definition deactivate :: "otp \<Rightarrow> otp" where
  "deactivate r = r\<lparr>otp_is_active := False\<rparr>"

definition new_otp :: "datetime \<Rightarrow> string \<Rightarrow> string \<Rightarrow> string \<Rightarrow> int \<Rightarrow> otp list \<Rightarrow> otp" where
  "new_otp now target code purpose validity_minutes t =
     \<lparr>otp_id = fresh_id otp_id t, otp_target = target, otp_code = code, otp_purpose = purpose,
      otp_is_active = True, otp_is_used = False, otp_attempts = 0,
      otp_expires_at = now + validity_minutes * minute, otp_created_at = now\<rparr>"

text \<open>The fixed code of a test account renews the latest active record.\<close>

definition renew_fixed_otp ::
    "datetime \<Rightarrow> string \<Rightarrow> string \<Rightarrow> string \<Rightarrow> int \<Rightarrow> otp list \<Rightarrow> otp \<times> otp list" where
  "renew_fixed_otp now target code purpose validity_minutes t =
     (case sort_key (\<lambda>r. - otp_created_at r)
             (filter (\<lambda>r. same_request target purpose r \<and> otp_is_active r) t) of
        [] \<Rightarrow> let r = new_otp now target code purpose validity_minutes t in (r, t @ [r])
      | primary # others \<Rightarrow>
          let r = primary\<lparr>otp_code := code, otp_expires_at := now + validity_minutes * minute,
                          otp_is_active := True, otp_is_used := False, otp_attempts := 0\<rparr>
          in (r, put_row otp_id r (fold (\<lambda>q. put_row otp_id (deactivate q)) others t)))"

definition recent_otps :: "datetime \<Rightarrow> string \<Rightarrow> string \<Rightarrow> otp list \<Rightarrow> otp list" where
  "recent_otps now target purpose t =
     sort_key (\<lambda>r. - otp_created_at r)
       (filter (\<lambda>r. same_request target purpose r \<and> now - 30 * minute < otp_created_at r) t)"

text \<open>\<open>int(time_since_last.total_seconds())\<close> of the seconds since the last code.\<close>

definition rate_limit :: "datetime \<Rightarrow> otp list \<Rightarrow> exn option" where
  "rate_limit now recent =
     (if 3 \<le> length recent then
        Some (HTTPException 429 ''Maximum OTP limit reached. Please try again after 30 minutes.'')
      else case recent of
             [] \<Rightarrow> None
           | latest # _ \<Rightarrow>
               let since = now - otp_created_at latest
               in if length recent = 1 \<and> since < minute then
                    Some (HTTPException 429 (''Please wait '' @ show_int (60 - py_trunc_div since second)
                      @ '' seconds before requesting a new OTP.''))
                  else if length recent = 2 \<and> since < 5 * minute then
                    Some (HTTPException 429 (''Please wait '' @ show_int (5 - py_trunc_div since minute)
                      @ '' minutes before requesting a new OTP.''))
                  else None)"

definition deactivate_all :: "string \<Rightarrow> string \<Rightarrow> otp list \<Rightarrow> otp list" where
  "deactivate_all target purpose t =
     map (\<lambda>r. if same_request target purpose r \<and> otp_is_active r then deactivate r else r) t"

definition create_otp_record ::
    "otp_settings \<Rightarrow> datetime \<Rightarrow> string \<Rightarrow> string \<Rightarrow> string \<Rightarrow> int \<Rightarrow> otp list \<Rightarrow> (otp \<times> otp list) res"
where
  "create_otp_record cfg now target code purpose validity_minutes t =
     (let fixed_code = configured_seeded_login_otp cfg target purpose
      in if fixed_code \<noteq> [] \<and> code = fixed_code then
           Inr (renew_fixed_otp now target code purpose validity_minutes t)
         else case rate_limit now (recent_otps now target purpose t) of
                Some e \<Rightarrow> Inl e
              | None \<Rightarrow>
                  let t' = deactivate_all target purpose t;
                      r = new_otp now target code purpose validity_minutes t'
                  in Inr (r, t' @ [r]))"

section \<open>Phone numbers and text messages\<close>

definition e164 :: "string \<Rightarrow> string" where
  "e164 phone =
     (let clean_phone = digits_of phone
      in if length clean_phone = 10 \<and> \<not> starts_with ''+'' phone then ''+91'' @ clean_phone
         else if starts_with ''+'' phone then phone else ''+'' @ phone)"

definition strip_opt :: "string option \<Rightarrow> string" where
  "strip_opt v = py_strip (case v of None \<Rightarrow> [] | Some s \<Rightarrow> s)"

definition uses_placeholder_twilio :: "otp_settings \<Rightarrow> bool" where
  "uses_placeholder_twilio cfg =
     (let sid = strip_opt (twilio_account_sid cfg); token = strip_opt (twilio_auth_token cfg)
      in is_infix ''xxxx'' (py_lower sid) \<or> is_infix ''xxxx'' (py_lower token)
         \<or> is_infix ''your-'' (py_lower sid) \<or> is_infix ''your-'' (py_lower token)
         \<or> sid = ''ACxxxxxxxxxxxxxxxxxxxxxxxxxxxxxxxx'' \<or> token = ''your-twilio-auth-token'')"

definition truthy_opt :: "string option \<Rightarrow> bool" where
  "truthy_opt v = (case v of None \<Rightarrow> False | Some s \<Rightarrow> s \<noteq> [])"

definition send_sms_otp ::
    "otp_settings \<Rightarrow> (string \<Rightarrow> bool) \<Rightarrow> (string \<Rightarrow> string \<Rightarrow> bool) \<Rightarrow> string \<Rightarrow> string \<Rightarrow> bool" where
  "send_sms_otp cfg send_verification_code send_otp phone code =
     (let lenient = (environment cfg = ''development'' \<or> debug_mode cfg);
          phone' = e164 phone
      in if allow_test_otp_bypass cfg \<and> configured_test_bypass_code cfg \<noteq> []
            \<and> is_test_bypass_target cfg phone then True
         else if sms_provider cfg = ''twilio'' \<and> strip_opt (twilio_account_sid cfg) \<noteq> []
            \<and> strip_opt (twilio_auth_token cfg) \<noteq> [] \<and> \<not> uses_placeholder_twilio cfg then
           (if truthy_opt (twilio_verify_service_sid cfg) \<and> send_verification_code phone' then True
            else if send_otp phone' code then True else lenient)
         else if sms_provider cfg = ''twilio'' \<and> uses_placeholder_twilio cfg then lenient
         else if environment cfg = ''production'' \<and> \<not> debug_mode cfg then False
         else True)"

section \<open>Verifying a code\<close>

definition candidate :: "datetime \<Rightarrow> string \<Rightarrow> string \<Rightarrow> otp \<Rightarrow> bool" where
  "candidate now target purpose r \<longleftrightarrow> same_request target purpose r \<and> otp_is_active r
     \<and> \<not> otp_is_used r \<and> now < otp_expires_at r"

definition check_code :: "datetime \<Rightarrow> string \<Rightarrow> string \<Rightarrow> string \<Rightarrow> otp list \<Rightarrow> bool \<times> otp list" where
  "check_code now target code purpose t =
     (case List.find (candidate now target purpose) t of
        None \<Rightarrow> (False, t)
      | Some r \<Rightarrow>
          if otp_code r \<noteq> code then
            let r1 = r\<lparr>otp_attempts := otp_attempts r + 1\<rparr>;
                r2 = (if 5 \<le> otp_attempts r1 then r1\<lparr>otp_is_active := False\<rparr> else r1)
            in (False, put_row otp_id r2 t)
          else (True, put_row otp_id (r\<lparr>otp_is_used := True, otp_is_active := False\<rparr>) t))"

definition verify_otp ::
    "otp_settings \<Rightarrow> (string \<Rightarrow> string \<Rightarrow> bool) \<Rightarrow> datetime \<Rightarrow> string \<Rightarrow> string \<Rightarrow> string \<Rightarrow> otp list \<Rightarrow>
     bool \<times> otp list" where
  "verify_otp cfg verify_code now target code purpose t =
     (if CHR ''@'' \<notin> set target \<and> sms_provider cfg = ''twilio''
         \<and> truthy_opt (twilio_verify_service_sid cfg) \<and> verify_code (e164 target) code then (True, t)
      else check_code now target code purpose t)"

section \<open>The service\<close>

datatype otp_request = Issue string string string int | Verify string string string

text \<open>The answer is whether a code was issued, or whether the code was accepted.\<close>

fun serve_otp ::
    "otp_settings \<Rightarrow> (string \<Rightarrow> string \<Rightarrow> bool) \<Rightarrow> datetime \<times> otp_request \<Rightarrow> otp list \<Rightarrow> bool \<times> otp list" where
  "serve_otp cfg vc (now, Issue target purpose random_digits validity_minutes) t =
     (case create_otp_record cfg now target (generate_otp cfg random_digits target purpose) purpose
             validity_minutes t of
        Inl e \<Rightarrow> (False, t) | Inr (r, t') \<Rightarrow> (True, t'))"
| "serve_otp cfg vc (now, Verify target code purpose) t = verify_otp cfg vc now target code purpose t"

end
