(* ===== verification/OtpInv.thy ===== *)
theory OtpInv
  imports Otp
begin

text \<open>
  What the one-time codes promise: at most three codes of a request in half an hour, one code
  that counts at a time, at most one acceptance for a code issued, and a lock after five wrong
  tries.
\<close>

section \<open>The table is well formed\<close>

definition otp_row_ok :: "otp \<Rightarrow> bool" where
  "otp_row_ok r \<longleftrightarrow> 0 \<le> otp_attempts r \<and> otp_attempts r \<le> 5
     \<and> (otp_is_active r \<longrightarrow> otp_attempts r < 5 \<and> \<not> otp_is_used r)"

definition one_active :: "otp list \<Rightarrow> bool" where
  "one_active t \<longleftrightarrow> (\<forall>r \<in> set t. \<forall>q \<in> set t. otp_is_active r \<and> otp_is_active q
      \<and> same_request (otp_target q) (otp_purpose q) r \<longrightarrow> r = q)"

definition otp_inv :: "otp list \<Rightarrow> bool" where
  "otp_inv t \<longleftrightarrow> distinct (map otp_id t) \<and> (\<forall>r \<in> set t. otp_row_ok r) \<and> one_active t"

lemma otp_inv_put:
  assumes "otp_inv t" "r \<in> set t" "otp_id q = otp_id r" "otp_row_ok q"
    and "otp_is_active q \<Longrightarrow> otp_is_active r \<and> otp_target q = otp_target r \<and> otp_purpose q = otp_purpose r"
  shows "otp_inv (put_row otp_id q t)"
proof -
  have other: "x \<in> set t \<and> x \<noteq> r" if "x \<in> set (put_row otp_id q t)" "x \<noteq> q" for x
    using in_put_row[OF that(1)] that(2) assms(3) by auto
  have "one_active (put_row otp_id q t)"
    unfolding one_active_def
  proof (intro ballI impI)
    fix x y assume "x \<in> set (put_row otp_id q t)" "y \<in> set (put_row otp_id q t)"
      and a: "otp_is_active x \<and> otp_is_active y \<and> same_request (otp_target y) (otp_purpose y) x"
    then show "x = y"
      using other[of x] other[of y] assms(1,2,5) unfolding otp_inv_def one_active_def same_request_def
      by (cases "x = q"; cases "y = q") (metis, metis, metis, metis)
  qed
  then show ?thesis using assms by (auto simp: otp_inv_def dest!: in_put_row)
qed

lemma otp_inv_add:
  assumes "otp_inv t" "otp_id r = fresh_id otp_id t" "otp_row_ok r"
    and "\<forall>q \<in> set t. same_request (otp_target r) (otp_purpose r) q \<longrightarrow> \<not> otp_is_active q"
  shows "otp_inv (t @ [r])"
  using assms by (auto simp: otp_inv_def one_active_def same_request_def fresh_id_notin)

lemma deactivate_simps [simp]:
  "otp_id (deactivate r) = otp_id r" "otp_target (deactivate r) = otp_target r"
  "otp_purpose (deactivate r) = otp_purpose r" "otp_created_at (deactivate r) = otp_created_at r"
  "otp_is_active (deactivate r) = False" "otp_is_used (deactivate r) = otp_is_used r"
  "otp_attempts (deactivate r) = otp_attempts r"
  by (simp_all add: deactivate_def)

lemma new_otp_simps [simp]:
  "otp_id (new_otp now tg c p v t) = fresh_id otp_id t" "otp_target (new_otp now tg c p v t) = tg"
  "otp_purpose (new_otp now tg c p v t) = p" "otp_created_at (new_otp now tg c p v t) = now"
  "otp_is_active (new_otp now tg c p v t)" "\<not> otp_is_used (new_otp now tg c p v t)"
  "otp_attempts (new_otp now tg c p v t) = 0" "otp_code (new_otp now tg c p v t) = c"
  "otp_expires_at (new_otp now tg c p v t) = now + v * minute"
  by (simp_all add: new_otp_def)

lemma same_request_simps [simp]:
  "same_request tg p (deactivate r) = same_request tg p r"
  "same_request tg p (new_otp now tg c p v t)"
  by (simp_all add: same_request_def)

lemma deactivate_all_keys [simp]: "map otp_id (deactivate_all tg p t) = map otp_id t"
  by (induction t) (auto simp: deactivate_all_def)

lemma deactivate_all_inv: "otp_inv t \<Longrightarrow> otp_inv (deactivate_all tg p t)"
  unfolding otp_inv_def one_active_def
  by (auto simp: otp_row_ok_def) (auto simp: deactivate_all_def otp_row_ok_def split: if_splits)

lemma deactivate_all_off: "q \<in> set (deactivate_all tg p t) \<Longrightarrow> same_request tg p q \<Longrightarrow> \<not> otp_is_active q"
  by (auto simp: deactivate_all_def split: if_splits)

text \<open>With one active record the renewal has no others to switch off.\<close>

lemma renew_cases [consumes 2, case_names fresh renewed]:
  assumes "otp_inv t" "renew_fixed_otp now tg c p v t = (r, t')"
  obtains "\<forall>q \<in> set t. same_request tg p q \<longrightarrow> \<not> otp_is_active q" "r = new_otp now tg c p v t" "t' = t @ [r]"
  | q where "q \<in> set t" "same_request tg p q" "otp_is_active q" "t' = put_row otp_id r t"
      "r = q\<lparr>otp_code := c, otp_expires_at := now + v * minute, otp_is_active := True,
             otp_is_used := False, otp_attempts := 0\<rparr>"
proof -
  let ?f = "filter (\<lambda>r. same_request tg p r \<and> otp_is_active r) t"
  let ?s = "sort_key (\<lambda>r. - otp_created_at r) ?f"
  show thesis
  proof (cases ?s)
    case Nil
    then have "?f = []" by (metis length_0_conv length_sort)
    then have "\<forall>q \<in> set t. same_request tg p q \<longrightarrow> \<not> otp_is_active q" by (auto simp: filter_empty_conv)
    then show ?thesis using that(1) assms(2) Nil by (auto simp: renew_fixed_otp_def Let_def)
  next
    case (Cons q qs)
    have set: "set (q # qs) = {r \<in> set t. same_request tg p r \<and> otp_is_active r}"
      unfolding Cons[symmetric] by auto
    have dist: "distinct (q # qs)" unfolding Cons[symmetric] using assms(1)
      by (simp add: otp_inv_def distinct_map)
    have "x = q" if "x \<in> set qs" for x
    proof -
      have "x \<in> set (q # qs)" "q \<in> set (q # qs)" using that by auto
      then show ?thesis using assms(1) unfolding set by (auto simp: otp_inv_def one_active_def same_request_def)
    qed
    then have "qs = []" using dist by (cases qs) auto
    then have "q \<in> set t" "same_request tg p q" "otp_is_active q" using set by auto
    then show ?thesis using assms(2) by (intro that(2)[of q]) (auto simp: renew_fixed_otp_def Cons \<open>qs = []\<close> Let_def)
  qed
qed

lemma create_otp_cases [consumes 1, case_names fixed issued]:
  assumes "create_otp_record cfg now tg c p v t = Inr (r, t')"
  obtains "configured_seeded_login_otp cfg tg p \<noteq> []" "renew_fixed_otp now tg c p v t = (r, t')"
  | "rate_limit now (recent_otps now tg p t) = None" "r = new_otp now tg c p v (deactivate_all tg p t)"
    "t' = deactivate_all tg p t @ [r]"
  using assms by (auto simp: create_otp_record_def Let_def split: if_splits option.splits)

lemma create_otp_inv:
  assumes inv: "otp_inv t" and "create_otp_record cfg now tg c p v t = Inr (r, t')"
  shows "otp_inv t'"
  using assms(2)
proof (cases rule: create_otp_cases)
  case fixed
  show ?thesis using inv fixed(2)
  proof (cases rule: renew_cases)
    case fresh
    then show ?thesis using inv by (auto intro!: otp_inv_add simp: otp_row_ok_def)
  next
    case (renewed q)
    then show ?thesis using inv by (auto intro!: otp_inv_put[of t q] simp: otp_row_ok_def)
  qed
next
  case issued
  then show ?thesis using deactivate_all_inv[OF inv]
    by (auto intro!: otp_inv_add simp: otp_row_ok_def dest: deactivate_all_off)
qed

lemma check_code_cases [consumes 1, case_names none wrong accepted]:
  assumes "check_code now tg c p t = (ok, t')"
  obtains "\<forall>r \<in> set t. \<not> candidate now tg p r" "\<not> ok" "t' = t"
  | r where "r \<in> set t" "candidate now tg p r" "otp_code r \<noteq> c" "\<not> ok"
      "t' = put_row otp_id (r\<lparr>otp_attempts := otp_attempts r + 1,
             otp_is_active := otp_is_active r \<and> otp_attempts r < 4\<rparr>) t"
  | r where "r \<in> set t" "candidate now tg p r" "otp_code r = c" "ok"
      "t' = put_row otp_id (r\<lparr>otp_is_used := True, otp_is_active := False\<rparr>) t"
proof (cases "List.find (candidate now tg p) t")
  case None
  then have "\<forall>r \<in> set t. \<not> candidate now tg p r" by (simp add: find_None)
  then show thesis using that(1) assms None by (simp add: check_code_def)
next
  case (Some r)
  have "(if 5 \<le> otp_attempts r + 1 then r\<lparr>otp_attempts := otp_attempts r + 1, otp_is_active := False\<rparr>
        else r\<lparr>otp_attempts := otp_attempts r + 1\<rparr>)
      = r\<lparr>otp_attempts := otp_attempts r + 1, otp_is_active := otp_is_active r \<and> otp_attempts r < 4\<rparr>"
    by auto
  then show thesis using that(2,3)[of r] find_Some[OF Some] assms
    by (auto simp: check_code_def Some Let_def split: if_splits)
qed

lemma check_code_inv: "otp_inv t \<Longrightarrow> check_code now tg c p t = (ok, t') \<Longrightarrow> otp_inv t'"
proof (erule check_code_cases)
  fix r assume *: "otp_inv t" "r \<in> set t" "candidate now tg p r"
  then have ok: "otp_row_ok r" "otp_is_active r" by (auto simp: otp_inv_def candidate_def)
  show "t' = put_row otp_id (r\<lparr>otp_attempts := otp_attempts r + 1,
          otp_is_active := otp_is_active r \<and> otp_attempts r < 4\<rparr>) t \<Longrightarrow> otp_inv t'"
    using * ok by (auto intro!: otp_inv_put[of t r] simp: otp_row_ok_def)
  show "t' = put_row otp_id (r\<lparr>otp_is_used := True, otp_is_active := False\<rparr>) t \<Longrightarrow> otp_inv t'"
    using * ok by (auto intro!: otp_inv_put[of t r] simp: otp_row_ok_def)
qed simp

text \<open>A try changes at most the counter and the flags of one row.\<close>

definition flags_changed :: "otp list \<Rightarrow> otp list \<Rightarrow> bool" where
  "flags_changed t t' \<longleftrightarrow> t' = t \<or> (\<exists>r q. r \<in> set t \<and> t' = put_row otp_id q t \<and> otp_id q = otp_id r
     \<and> otp_target q = otp_target r \<and> otp_purpose q = otp_purpose r
     \<and> otp_created_at q = otp_created_at r \<and> (otp_is_active q \<longrightarrow> otp_is_active r))"

lemma flags_changedI:
  "r \<in> set t \<Longrightarrow> otp_id q = otp_id r \<and> otp_target q = otp_target r \<and> otp_purpose q = otp_purpose r
     \<and> otp_created_at q = otp_created_at r \<and> (otp_is_active q \<longrightarrow> otp_is_active r) \<Longrightarrow>
   flags_changed t (put_row otp_id q t)"
  unfolding flags_changed_def by blast

lemma flags_changed_refl [simp]: "flags_changed t t"
  by (simp add: flags_changed_def)

lemma check_code_flags: "check_code now tg c p t = (ok, t') \<Longrightarrow> flags_changed t t'"
  by (erule check_code_cases) (auto intro: flags_changedI)

lemma verify_otp_flags: "verify_otp cfg vc now tg c p t = (ok, t') \<Longrightarrow> flags_changed t t'"
  by (auto simp: verify_otp_def check_code_flags split: if_splits)

lemma verify_otp_inv: "otp_inv t \<Longrightarrow> verify_otp cfg vc now tg c p t = (ok, t') \<Longrightarrow> otp_inv t'"
  by (auto simp: verify_otp_def check_code_inv split: if_splits)

lemma serve_otp_inv: "otp_inv t \<Longrightarrow> otp_inv (snd (serve_otp cfg vc x t))"
proof (induction cfg vc x t rule: serve_otp.induct)
  case (1 cfg vc now tg p d v t)
  then show ?case by (auto split: sum.splits intro: create_otp_inv)
next
  case (2 cfg vc now tg c p t)
  then show ?case using verify_otp_inv[OF 2 prod.collapse[symmetric]] by simp
qed

section \<open>Counting\<close>

text \<open>How many records of a request were made after a time.\<close>

definition issued_since :: "datetime \<Rightarrow> string \<Rightarrow> string \<Rightarrow> otp list \<Rightarrow> nat" where
  "issued_since a tg p t = length (filter (\<lambda>r. same_request tg p r \<and> a < otp_created_at r) t)"

definition issued_within :: "datetime \<Rightarrow> string \<Rightarrow> string \<Rightarrow> otp list \<Rightarrow> nat" where
  "issued_within e tg p t =
     length (filter (\<lambda>r. same_request tg p r \<and> e - 30 * minute < otp_created_at r \<and> otp_created_at r \<le> e) t)"

lemma issued_within_append [simp]:
  "issued_within e tg p (t @ u) = issued_within e tg p t + issued_within e tg p u"
  by (simp add: issued_within_def)

lemma issued_within_put:
  assumes "distinct (map otp_id t)" "r \<in> set t" "otp_id q = otp_id r"
    and "otp_target q = otp_target r" "otp_purpose q = otp_purpose r" "otp_created_at q = otp_created_at r"
  shows "issued_within e tg p (put_row otp_id q t) = issued_within e tg p t"
  unfolding issued_within_def
  by (rule length_filter_put_row[OF assms(1-3)]) (simp add: same_request_def assms(4-6))

lemma issued_within_deactivate [simp]: "issued_within e tg p (deactivate_all tg' p' t) = issued_within e tg p t"
  by (induction t) (auto simp: deactivate_all_def issued_within_def)

lemma rate_limit_count: "rate_limit now rs = None \<Longrightarrow> length rs < 3"
  by (auto simp: rate_limit_def split: if_splits)

text \<open>No half hour holds more than three codes, as long as the clock does not run back.\<close>

definition slow_issue :: "string \<Rightarrow> string \<Rightarrow> datetime \<Rightarrow> otp list \<Rightarrow> bool" where
  "slow_issue tg p now t \<longleftrightarrow> (\<forall>e. issued_within e tg p t \<le> 3) \<and> (\<forall>r \<in> set t. otp_created_at r \<le> now)"

lemma deactivate_all_created: "r \<in> set (deactivate_all tg p t) \<Longrightarrow> \<exists>q \<in> set t. otp_created_at r = otp_created_at q"
  by (auto simp: deactivate_all_def)

lemma length_filter_mono: "(\<And>x. x \<in> set xs \<Longrightarrow> P x \<Longrightarrow> Q x) \<Longrightarrow> length (filter P xs) \<le> length (filter Q xs)"
  by (induction xs) auto

lemma issue_slow:
  assumes slow: "slow_issue tg p n t" "n \<le> now" and rate: "rate_limit now (recent_otps now tg' p' t) = None"
  shows "slow_issue tg p now (deactivate_all tg' p' t @ [new_otp now tg' c p' v (deactivate_all tg' p' t)])"
proof -
  let ?r = "new_otp now tg' c p' v (deactivate_all tg' p' t)"
  have old: "\<forall>r \<in> set t. otp_created_at r \<le> now" using slow by (force simp: slow_issue_def)
  have "issued_within e tg p t + issued_within e tg p [?r] \<le> 3" for e
  proof (cases "same_request tg p ?r \<and> now \<le> e")
    case True
    then have eq: "tg = tg'" "p = p'" by (auto simp: same_request_def)
    have "issued_within e tg p t \<le> length (recent_otps now tg' p' t)"
      unfolding issued_within_def recent_otps_def eq length_sort
      using True old by (intro length_filter_mono) auto
    then show ?thesis using rate_limit_count[OF rate] by (simp add: issued_within_def)
  next
    case False
    then have "issued_within e tg p [?r] = 0" by (auto simp: issued_within_def)
    then show ?thesis using slow(1) by (simp add: slow_issue_def)
  qed
  then show ?thesis using old by (auto simp: slow_issue_def dest!: deactivate_all_created)
qed

lemma serve_otp_slow:
  assumes "slow_issue tg p n t" "n \<le> fst x" "distinct (map otp_id t)" "\<not> allow_test_otp_bypass cfg"
  shows "slow_issue tg p (fst x) (snd (serve_otp cfg vc x t))"
  using assms
proof (induction cfg vc x t rule: serve_otp.induct)
  case (1 cfg vc now tg' p' d v t)
  show ?case
  proof (cases "create_otp_record cfg now tg' (generate_otp cfg d tg' p') p' v t")
    case (Inl e)
    then show ?thesis using 1 by (auto simp: slow_issue_def)
  next
    case (Inr rt)
    obtain r t' where rt: "rt = (r, t')" by force
    from Inr[unfolded rt] show ?thesis
    proof (cases rule: create_otp_cases)
      case fixed
      then show ?thesis using 1(4) by (simp add: configured_seeded_login_otp_def split: if_splits)
    next
      case issued
      then show ?thesis using issue_slow[OF 1(1) _ issued(1)] 1(2) Inr rt by simp
    qed
  qed
next
  case (2 cfg vc now tg' c p' t)
  obtain ok t' where v: "verify_otp cfg vc now tg' c p' t = (ok, t')" by force
  have "issued_within e tg p t' = issued_within e tg p t" for e
    using verify_otp_flags[OF v] 2(3) by (auto simp: flags_changed_def intro!: issued_within_put)
  moreover have "\<forall>r \<in> set t'. \<exists>q \<in> set t. otp_created_at r = otp_created_at q"
    using verify_otp_flags[OF v] by (auto simp: flags_changed_def dest!: in_put_row)
  ultimately show ?case using 2(1,2) v by (fastforce simp: slow_issue_def)
qed

text \<open>Codes issued, and acceptances by the table, of a request in a run.\<close>

fun counts :: "string \<Rightarrow> string \<Rightarrow> otp_settings \<Rightarrow> (string \<Rightarrow> string \<Rightarrow> bool) \<Rightarrow>
    (datetime \<times> otp_request) list \<Rightarrow> otp list \<Rightarrow> nat \<times> nat" where
  "counts tg p cfg vc [] t = (0, 0)"
| "counts tg p cfg vc ((now, q) # xs) t =
     (let (ok, t') = serve_otp cfg vc (now, q) t;
          (i, a) = counts tg p cfg vc xs t'
      in case q of
           Issue tg' p' d v \<Rightarrow> (if ok \<and> tg' = tg \<and> p' = p then i + 1 else i, a)
         | Verify tg' c p' \<Rightarrow> (i, if ok \<and> tg' = tg \<and> p' = p then a + 1 else a))"

definition some_active :: "string \<Rightarrow> string \<Rightarrow> otp list \<Rightarrow> bool" where
  "some_active tg p t \<longleftrightarrow> (\<exists>r \<in> set t. same_request tg p r \<and> otp_is_active r)"

definition active_count :: "string \<Rightarrow> string \<Rightarrow> otp list \<Rightarrow> nat" where
  "active_count tg p t = (if some_active tg p t then 1 else 0)"

lemma one_activeD:
  "otp_inv t \<Longrightarrow> r \<in> set t \<Longrightarrow> q \<in> set t \<Longrightarrow> same_request tg p r \<Longrightarrow> same_request tg p q \<Longrightarrow>
   otp_is_active r \<Longrightarrow> otp_is_active q \<Longrightarrow> r = q"
  unfolding otp_inv_def one_active_def same_request_def by metis

lemma other_request: "same_request tg p r \<Longrightarrow> same_request tg' p' r \<Longrightarrow> tg' = tg \<and> p' = p"
  by (simp add: same_request_def)

lemma same_request_cong:
  "otp_target q = otp_target r \<Longrightarrow> otp_purpose q = otp_purpose r \<Longrightarrow> same_request tg p q = same_request tg p r"
  by (simp add: same_request_def)

lemma active_count_le: "active_count tg p t \<le> 1"
  by (simp add: active_count_def)

lemma active_count_mono:
  "(some_active tg p t' \<Longrightarrow> some_active tg p t) \<Longrightarrow> active_count tg p t' \<le> active_count tg p t"
  by (auto simp: active_count_def)

lemma active_flags: "flags_changed t t' \<Longrightarrow> some_active tg p t' \<Longrightarrow> some_active tg p t"
  unfolding flags_changed_def some_active_def
  using same_request_cong by (blast dest: in_put_row)

lemma active_issue_other:
  assumes "otp_inv t" "create_otp_record cfg now tg' c p' v t = Inr (r, t')" "\<not> (tg' = tg \<and> p' = p)"
    and "some_active tg p t'"
  shows "some_active tg p t"
proof -
  obtain x where x: "x \<in> set t'" "same_request tg p x" "otp_is_active x"
    using assms(4) by (auto simp: some_active_def)
  have other: "\<not> same_request tg' p' x" using x(2) assms(3) other_request by blast
  have "x \<in> set t" using assms(2)
  proof (cases rule: create_otp_cases)
    case fixed
    show ?thesis using assms(1) fixed(2)
    proof (cases rule: renew_cases)
      case fresh
      then show ?thesis using x(1) other by auto
    next
      case (renewed q)
      have "same_request tg' p' r" using renewed(2,5) by (simp add: same_request_def)
      then show ?thesis using in_put_row[of x otp_id r t] x(1) other renewed(4) by blast
    qed
  next
    case issued
    then show ?thesis using x(1,3) other by (auto simp: deactivate_all_def split: if_splits)
  qed
  then show ?thesis using x by (auto simp: some_active_def)
qed

lemma verify_local: "\<not> truthy_opt (twilio_verify_service_sid cfg) \<Longrightarrow>
   verify_otp cfg vc now tg c p t = check_code now tg c p t"
  by (simp add: verify_otp_def)

lemma accepted_active:
  assumes "otp_inv t" "check_code now tg c p t = (True, t')"
  shows "active_count tg p t = 1 \<and> active_count tg p t' = 0"
  using assms(2)
proof (cases rule: check_code_cases)
  case (accepted r)
  have "\<not> otp_is_active q" if "q \<in> set t'" "same_request tg p q" for q
  proof
    assume a: "otp_is_active q"
    then have "q \<in> set t" "otp_id q \<noteq> otp_id r"
      using in_put_row[OF that(1)[unfolded accepted(5)]] by auto
    then show False using one_activeD[OF assms(1), of q r] that(2) a accepted(1,2) by (auto simp: candidate_def)
  qed
  then have "\<not> some_active tg p t'" by (auto simp: some_active_def)
  moreover have "some_active tg p t" using accepted(1,2) by (auto simp: some_active_def candidate_def)
  ultimately show ?thesis by (simp add: active_count_def)
qed simp_all

lemma counts_bound:
  assumes "otp_inv t" "\<not> truthy_opt (twilio_verify_service_sid cfg)"
    and "counts tg p cfg vc xs t = (i, a)"
  shows "a \<le> i + active_count tg p t"
  using assms(1,3)
proof (induction xs arbitrary: t i a)
  case Nil
  then show ?case by simp
next
  case (Cons x xs)
  obtain now q where x: "x = (now, q)" by force
  obtain ok t' where st: "serve_otp cfg vc (now, q) t = (ok, t')" by force
  obtain i' a' where rest: "counts tg p cfg vc xs t' = (i', a')" by force
  have inv: "otp_inv t'" using serve_otp_inv[OF Cons.prems(1), of cfg vc "(now, q)"] st by simp
  note ih = Cons.IH[OF inv rest]
  show ?case
  proof (cases q)
    case (Issue tg' p' d v)
    have le: "active_count tg p t' \<le> active_count tg p t" if "\<not> (ok \<and> tg' = tg \<and> p' = p)"
      using st that active_issue_other[OF Cons.prems(1)] unfolding Issue
      by (intro active_count_mono) (auto split: sum.splits prod.splits)
    then show ?thesis using Cons.prems(2) ih active_count_le[of tg p t'] st[unfolded Issue] rest
      by (auto simp: x Issue simp del: serve_otp.simps split: if_splits)
  next
    case (Verify tg' c p')
    have v: "check_code now tg' c p' t = (ok, t')" using st assms(2) by (simp add: Verify verify_local)
    have "active_count tg p t' \<le> active_count tg p t"
      by (rule active_count_mono[OF active_flags[OF check_code_flags[OF v]]])
    moreover have "active_count tg p t = 1 \<and> active_count tg p t' = 0" if "ok \<and> tg' = tg \<and> p' = p"
      using accepted_active[OF Cons.prems(1), of now tg c p t'] v that by simp
    ultimately show ?thesis using Cons.prems(2) ih st[unfolded Verify] rest
      by (auto simp: x Verify simp del: serve_otp.simps split: if_splits)
  qed
qed

text \<open>Wrong tries on the active record: it is spent, or has counted them.\<close>

definition tried :: "string \<Rightarrow> string \<Rightarrow> otp \<Rightarrow> int \<Rightarrow> otp list \<Rightarrow> bool" where
  "tried tg p r k t \<longleftrightarrow> otp_inv t \<and> (\<not> some_active tg p t
     \<or> (\<exists>q \<in> set t. same_request tg p q \<and> otp_is_active q \<and> otp_code q = otp_code r
          \<and> otp_expires_at q = otp_expires_at r \<and> k \<le> otp_attempts q))"

lemma tried_step:
  assumes "tried tg p r k t" "now < otp_expires_at r" "c \<noteq> otp_code r"
  shows "tried tg p r (k + 1) (snd (check_code now tg c p t))"
proof -
  obtain ok t' where c: "check_code now tg c p t = (ok, t')" by force
  have inv: "otp_inv t" "otp_inv t'" using assms(1) check_code_inv[OF _ c] by (auto simp: tried_def)
  show ?thesis
  proof (cases "some_active tg p t")
    case False
    then show ?thesis using inv(2) active_flags[OF check_code_flags[OF c]] by (auto simp: tried_def c)
  next
    case True
    then obtain q where q: "q \<in> set t" "same_request tg p q" "otp_is_active q" "otp_code q = otp_code r"
      "otp_expires_at q = otp_expires_at r" "k \<le> otp_attempts q" using assms(1) by (auto simp: tried_def)
    have "\<not> otp_is_used q" using q inv(1) by (auto simp: otp_inv_def otp_row_ok_def)
    then have cand: "candidate now tg p q" using q assms(2) by (simp add: candidate_def)
    have uniq: "x = q" if "x \<in> set t" "candidate now tg p x" for x
      using one_activeD[OF inv(1), of x q] that q by (auto simp: candidate_def)
    let ?q = "q\<lparr>otp_attempts := otp_attempts q + 1, otp_is_active := otp_is_active q \<and> otp_attempts q < 4\<rparr>"
    from c have t': "t' = put_row otp_id ?q t"
    proof (cases rule: check_code_cases)
      case none
      then show ?thesis using cand q(1) by blast
    next
      case (wrong x)
      then show ?thesis using uniq[of x] by simp
    next
      case (accepted x)
      then show ?thesis using uniq[of x] assms(3) q(4) by simp
    qed
    have mem: "?q \<in> set t'" unfolding t' using q(1) by (induction t) auto
    show ?thesis
    proof (cases "otp_attempts q < 4")
      case True
      then show ?thesis unfolding tried_def c snd_conv using inv(2) mem q
        by (intro conjI disjI2 bexI[of _ ?q]) (simp_all add: same_request_def)
    next
      case False
      have "\<not> otp_is_active x" if "x \<in> set t'" "same_request tg p x" for x
      proof
        assume a: "otp_is_active x"
        then have "x \<in> set t" "otp_id x \<noteq> otp_id q"
          using in_put_row[OF that(1)[unfolded t']] False by auto
        then show False using one_activeD[OF inv(1), of x q] that(2) a q by auto
      qed
      then show ?thesis using inv(2) by (auto simp: tried_def c some_active_def)
    qed
  qed
qed

lemma tries_counted:
  assumes "tried tg p r k t" "\<forall>(now, c) \<in> set tries. now < otp_expires_at r \<and> c \<noteq> otp_code r"
  shows "tried tg p r (k + int (length tries)) (fold (\<lambda>(now, c) t. snd (check_code now tg c p t)) tries t)"
  using assms
proof (induction tries arbitrary: k t)
  case (Cons x xs)
  obtain now c where x: "x = (now, c)" by force
  then show ?case using Cons.IH[OF tried_step[OF Cons.prems(1), of now c]] Cons.prems(2)
    by (auto simp: ac_simps)
qed simp

section \<open>Properties\<close>

definition sample_otp_settings :: otp_settings where
  "sample_otp_settings = \<lparr>allow_test_otp_bypass = False, test_otp_bypass_targets = [],
     test_otp_bypass_code = [], sms_provider = ''twilio'', twilio_account_sid = None,
     twilio_auth_token = None, twilio_verify_service_sid = None, environment = ''production'',
     debug_mode = False\<rparr>"

definition sample_otp :: otp where
  "sample_otp = new_otp 0 ''a@b.c'' ''123456'' ''login'' 15 []"

lemma sample_otp_inv: "otp_inv [sample_otp]"
  by (simp add: otp_inv_def one_active_def otp_row_ok_def sample_otp_def)

text \<open>
  C11: With the test bypass off and a clock that does not run back, no half hour holds
  more than three codes of the same target and purpose, whatever is requested.
\<close>

theorem three_codes_per_half_hour:
  assumes "\<not> allow_test_otp_bypass cfg" "sorted (map fst xs)"
  shows "issued_within e tg p (fold (\<lambda>x t. snd (serve_otp cfg vc x t)) xs []) \<le> 3"
proof -
  have "slow_issue tg p n t \<Longrightarrow> otp_inv t \<Longrightarrow> sorted (n # map fst xs) \<Longrightarrow>
     issued_within e tg p (fold (\<lambda>x t. snd (serve_otp cfg vc x t)) xs t) \<le> 3" for n t
  proof (induction xs arbitrary: n t)
    case Nil
    then show ?case by (simp add: slow_issue_def)
  next
    case (Cons x xs)
    then show ?case
      using Cons.IH[OF serve_otp_slow[OF Cons.prems(1), of x cfg vc] serve_otp_inv] assms(1)
      by (simp add: otp_inv_def)
  qed
  moreover have "slow_issue tg p (if xs = [] then 0 else fst (hd xs)) []"
    by (simp add: slow_issue_def issued_within_def)
  moreover have "otp_inv []" by (simp add: otp_inv_def one_active_def)
  moreover have "sorted ((if xs = [] then 0 else fst (hd xs)) # map fst xs)"
    using assms(2) by (cases xs) auto
  ultimately show ?thesis by blast
qed

lemma three_codes_per_half_hour_witness:
  "issued_within (10 * minute) ''a'' ''login'' (fold (\<lambda>x t. snd (serve_otp sample_otp_settings (\<lambda>p c. False) x t))
     [(0, Issue ''a'' ''login'' ''111111'' 15), (minute, Issue ''a'' ''login'' ''222222'' 15),
      (7 * minute, Issue ''a'' ''login'' ''333333'' 15), (9 * minute, Issue ''a'' ''login'' ''444444'' 15)] []) \<le> 3"
  by (rule three_codes_per_half_hour) (simp_all add: sample_otp_settings_def)

text \<open>
  Without Twilio Verify a code is accepted at most once: no run accepts more codes
  of a target and purpose than were issued for it.
\<close>

lemma codes_spent_once:
  assumes "\<not> truthy_opt (twilio_verify_service_sid cfg)" "counts tg p cfg vc xs [] = (issued, accepted)"
  shows "accepted \<le> issued"
  using counts_bound[OF _ assms] by (simp add: otp_inv_def one_active_def active_count_def some_active_def)

lemma codes_spent_once_witness:
  "\<exists>i a. counts ''a'' ''login'' sample_otp_settings (\<lambda>p c. False)
     [(0, Issue ''a'' ''login'' ''1'' 15), (1, Verify ''a'' ''1'' ''login''), (2, Verify ''a'' ''1'' ''login'')] []
     = (i, a) \<and> a \<le> i"
proof -
  obtain i a where c: "counts ''a'' ''login'' sample_otp_settings (\<lambda>p c. False)
     [(0, Issue ''a'' ''login'' ''1'' 15), (1, Verify ''a'' ''1'' ''login''), (2, Verify ''a'' ''1'' ''login'')] []
     = (i, a)" by force
  have "a \<le> i" by (rule codes_spent_once[OF _ c]) (simp add: sample_otp_settings_def truthy_opt_def)
  then show ?thesis using c by blast
qed

text \<open>
  Five wrong tries lock a code: after them no code is accepted for the target and
  purpose, not even the right one, until another is issued.
\<close>

lemma wrong_tries_lock:
  assumes "otp_inv t" "r \<in> set t" "same_request tg p r" "otp_is_active r"
    and "\<not> truthy_opt (twilio_verify_service_sid cfg)"
    and "\<forall>(now, c) \<in> set tries. now < otp_expires_at r \<and> c \<noteq> otp_code r" "5 \<le> length tries"
  shows "\<not> fst (verify_otp cfg vc n tg c p
           (fold (\<lambda>(now, c) t. snd (verify_otp cfg vc now tg c p t)) tries t))"
proof -
  let ?t = "fold (\<lambda>(now, c) t. snd (check_code now tg c p t)) tries t"
  have eq: "(\<lambda>(now, c) t. snd (verify_otp cfg vc now tg c p t)) = (\<lambda>(now, c) t. snd (check_code now tg c p t))"
    using assms(5) by (simp add: verify_local)
  have "tried tg p r (otp_attempts r) t" using assms(1-4) by (auto simp: tried_def)
  then have "tried tg p r (otp_attempts r + int (length tries)) ?t" by (rule tries_counted[OF _ assms(6)])
  moreover have "0 \<le> otp_attempts r" using assms(1,2) by (auto simp: otp_inv_def otp_row_ok_def)
  ultimately have "\<not> some_active tg p ?t" "otp_inv ?t"
    using assms(7) by (force simp: tried_def otp_inv_def otp_row_ok_def)+
  then have "\<not> fst (check_code n tg c p ?t)"
    using accepted_active[of ?t n tg c p] by (cases "check_code n tg c p ?t") (auto simp: active_count_def)
  then show ?thesis using assms(5) by (simp add: eq verify_local)
qed

lemma wrong_tries_lock_witness:
  "\<not> fst (verify_otp sample_otp_settings (\<lambda>p c. False) 9 ''a@b.c'' ''123456'' ''login''
     (fold (\<lambda>(now, c) t. snd (verify_otp sample_otp_settings (\<lambda>p c. False) now ''a@b.c'' c ''login'' t))
        [(1, ''0''), (2, ''1''), (3, ''2''), (4, ''3''), (5, ''4'')] [sample_otp]))"
  by (rule wrong_tries_lock[of _ sample_otp])
    (simp_all add: sample_otp_inv sample_otp_settings_def truthy_opt_def, simp_all add: sample_otp_def)

end
