(* ===== verification/Roles.thy ===== *)
theory Roles
  imports PyStr "HOL-Library.List_Lexorder" "HOL-Library.Char_ord"
begin

text \<open>
  Access control (\<open>app/core/rbac.py\<close>, \<open>app/api/v1/admin_rbac.py\<close>, the role part of
  \<open>app/api/deps.py\<close>): roles with permissions and a parent role, their assignment to users with a
  period of validity, and the walks up the hierarchy that the endpoints make. A walk is a loop
  that nothing bounds: it is a \<open>partial_function\<close>, and \<open>None\<close> means that it never returns.
  Audit records, labels for the user interface and the menus are left out.
\<close>

section \<open>Tables\<close>

record role =
  ro_id :: int
  ro_name :: string
  ro_description :: "string option"
  ro_category :: string
  ro_level :: int
  ro_parent_id :: "int option"
  ro_is_system_role :: bool
  ro_is_custom_role :: bool
  ro_is_active :: bool
  ro_scope_owner :: string
  ro_dealer_id :: "int option"

record permission =
  pm_id :: int
  pm_slug :: string
  pm_module :: string
  pm_action :: string
  pm_scope :: string

record user_role =
  ur_user_id :: int
  ur_role_id :: int
  ur_assigned_by :: "int option"
  ur_notes :: "string option"
  ur_effective_from :: datetime
  ur_expires_at :: "datetime option"

record member =
  us_id :: int
  us_role_id :: "int option"
  us_last_global_logout_at :: "datetime option"

record login_session =
  se_user_id :: int
  se_is_active :: bool

record access_path =
  ap_id :: int
  ap_user_id :: int
  ap_path_pattern :: string
  ap_access_level :: string
  ap_created_by :: int

text \<open>\<open>role_permissions\<close> are the links, role and permission.\<close>

record rbac_db =
  roles :: "role list"
  permissions :: "permission list"
  role_permissions :: "(int \<times> int) list"
  user_roles :: "user_role list"
  members :: "member list"
  login_sessions :: "login_session list"
  access_paths :: "access_path list"

definition nonzero_id :: "int option \<Rightarrow> int option" where
  "nonzero_id i = (if i = Some 0 then None else i)"

definition perms_of :: "rbac_db \<Rightarrow> int \<Rightarrow> permission list" where
  "perms_of s i = List.map_filter (\<lambda>(r, p). if r = i then get_row pm_id p (permissions s) else None)
                    (role_permissions s)"

section \<open>Names and slugs\<close>

definition role_name_aliases :: "(string \<times> string) list" where
  "role_name_aliases = [(''admin'', ''operations_admin''), (''dealer'', ''dealer_owner''),
     (''dealer_staff'', ''dealer_manager''), (''vendor_owner'', ''dealer_owner''),
     (''logistics'', ''logistics_manager''), (''operator'', ''dispatcher''),
     (''dispatch'', ''dispatcher''), (''superadmin'', ''super_admin'')]"

definition canonical_role_name :: "string \<Rightarrow> string" where
  "canonical_role_name role_name =
     (if role_name = [] then []
      else let cleaned = py_lower (py_strip role_name)
           in case map_of role_name_aliases cleaned of None \<Rightarrow> cleaned | Some n \<Rightarrow> n)"

definition canonicalize_permission_slug :: "string \<Rightarrow> string" where
  "canonicalize_permission_slug permission_slug =
     (let raw = py_lower (py_strip permission_slug); parts = split_on (CHR '':'') raw
      in if raw = [] then []
         else case parts of
                modul # action # rest \<Rightarrow>
                  let scope = (case rest of [] \<Rightarrow> ''global'' | s # _ \<Rightarrow> s);
                      action' = (if action = ''read'' then ''view''
                                 else if action = ''edit'' then ''update'' else action);
                      scope' = (if scope = ''all'' then ''global'' else scope)
                  in modul @ '':'' @ action' @ '':'' @ scope'
              | _ \<Rightarrow> raw)"

definition canonicalize_permission_set :: "string list \<Rightarrow> string set" where
  "canonicalize_permission_set ps = set (filter (\<lambda>s. s \<noteq> []) (map canonicalize_permission_slug ps))"

section \<open>Changing roles\<close>

record role_create =
  rc_name :: string
  rc_description :: "string option"
  rc_category :: string
  rc_level :: int
  rc_is_active :: bool
  rc_dealer_id :: "int option"
  rc_permissions :: "string list"
  rc_parent_role_id :: "int option"

definition allowed_dealer_templates :: "string set" where
  "allowed_dealer_templates = {''dealer_owner'', ''dealer_manager'', ''dealer_inventory_staff'',
     ''dealer_finance_staff'', ''dealer_support_staff''}"

definition link_slugs :: "int \<Rightarrow> string set \<Rightarrow> rbac_db \<Rightarrow> (int \<times> int) list" where
  "link_slugs i slugs s = map (\<lambda>p. (i, pm_id p)) (filter (\<lambda>p. pm_slug p \<in> slugs) (permissions s))"

definition create_role :: "role_create \<Rightarrow> rbac_db \<Rightarrow> (role \<times> rbac_db) res" where
  "create_role c s =
     (if list_ex (\<lambda>r. ro_name r = rc_name c) (roles s) then
        Inl (HTTPException 400 ''Role name already exists'')
      else
        let role = \<lparr>ro_id = fresh_id ro_id (roles s), ro_name = rc_name c,
              ro_description = rc_description c, ro_category = rc_category c, ro_level = rc_level c,
              ro_parent_id = None, ro_is_system_role = False, ro_is_custom_role = True,
              ro_is_active = rc_is_active c, ro_scope_owner = ''global'', ro_dealer_id = rc_dealer_id c\<rparr>;
            store = (\<lambda>r slugs. (r, s\<lparr>roles := roles s @ [r],
              role_permissions := role_permissions s @ link_slugs (ro_id r) slugs s\<rparr>))
        in case nonzero_id (rc_parent_role_id c) of
             None \<Rightarrow> Inr (store role (set (rc_permissions c)))
           | Some parent_id \<Rightarrow>
               (case get_row ro_id parent_id (roles s) of
                  None \<Rightarrow> Inl (HTTPException 404 ''Parent role not found'')
                | Some parent \<Rightarrow>
                    if py_lower (py_strip (ro_name parent)) \<notin> allowed_dealer_templates then
                      Inl (HTTPException 400 ''Custom role parent must be a dealer template role'')
                    else if nonzero_id (rc_dealer_id c) = None then
                      Inl (HTTPException 400 ''dealer_id is required for custom role creation'')
                    else Inr (store (role\<lparr>ro_scope_owner := ''dealer'', ro_parent_id := Some parent_id\<rparr>)
                           (set (rc_permissions c) \<union> set (map pm_slug (perms_of s parent_id))))))"

record role_update =
  ru_name :: "string option"
  ru_description :: "string option"
  ru_category :: "string option"
  ru_level :: "int option"
  ru_permissions :: "string list option"
  ru_parent_role_id :: "int option"

definition keep_or :: "'a option \<Rightarrow> 'a \<Rightarrow> 'a" where
  "keep_or new old = (case new of None \<Rightarrow> old | Some v \<Rightarrow> v)"

definition end_sessions :: "int set \<Rightarrow> rbac_db \<Rightarrow> rbac_db" where
  "end_sessions us s = s\<lparr>login_sessions :=
     map (\<lambda>x. if se_user_id x \<in> us \<and> se_is_active x then x\<lparr>se_is_active := False\<rparr> else x) (login_sessions s)\<rparr>"

text \<open>The parent column references \<open>roles.id\<close>; nothing else is asked of it.\<close>

definition update_role :: "int \<Rightarrow> role_update \<Rightarrow> rbac_db \<Rightarrow> (role \<times> rbac_db) res" where
  "update_role role_id c s =
     (case get_row ro_id role_id (roles s) of
        None \<Rightarrow> Inl (HTTPException 404 ''Role not found'')
      | Some role \<Rightarrow>
          if ro_is_system_role role \<and> ru_name c \<noteq> None \<and> ru_name c \<noteq> Some (ro_name role) then
            Inl (HTTPException 400 ''Cannot rename system roles'')
          else if ro_is_system_role role \<and> ru_category c \<noteq> None \<and> ru_category c \<noteq> Some (ro_category role) then
            Inl (HTTPException 400 ''Cannot change category of system roles'')
          else if ru_name c \<noteq> None \<and> ru_name c \<noteq> Some (ro_name role)
                  \<and> list_ex (\<lambda>r. Some (ro_name r) = ru_name c) (roles s) then
            Inl (HTTPException 400 ''Role name already exists'')
          else
            let role' = role\<lparr>ro_name := keep_or (ru_name c) (ro_name role),
                  ro_description := (case ru_description c of None \<Rightarrow> ro_description role | Some d \<Rightarrow> Some d),
                  ro_category := keep_or (ru_category c) (ro_category role),
                  ro_level := keep_or (ru_level c) (ro_level role),
                  ro_parent_id := (case ru_parent_role_id c of None \<Rightarrow> ro_parent_id role | Some p \<Rightarrow> Some p)\<rparr>;
                s1 = s\<lparr>roles := put_row ro_id role' (roles s)\<rparr>
            in if (case ru_parent_role_id c of None \<Rightarrow> False
                   | Some p \<Rightarrow> Some p \<noteq> ro_parent_id role \<and> get_row ro_id p (roles s) = None) then
                 Inl IntegrityError
               else case ru_permissions c of
                      None \<Rightarrow> Inr (role', s1)
                    | Some slugs \<Rightarrow>
                        let s2 = s1\<lparr>role_permissions := filter (\<lambda>(r, p). r \<noteq> role_id) (role_permissions s1)
                                      @ link_slugs role_id (set slugs) s1\<rparr>;
                            users = set (map ur_user_id (filter (\<lambda>x. ur_role_id x = role_id) (user_roles s2)))
                        in Inr (role', end_sessions users s2))"

definition delete_role :: "int \<Rightarrow> rbac_db \<Rightarrow> rbac_db res" where
  "delete_role role_id s =
     (case get_row ro_id role_id (roles s) of
        None \<Rightarrow> Inl (HTTPException 404 ''Role not found'')
      | Some role \<Rightarrow>
          if ro_is_system_role role then Inl (HTTPException 400 ''Cannot delete system roles'')
          else if list_ex (\<lambda>x. ur_role_id x = role_id) (user_roles s) then
            Inl (HTTPException 400 ''Cannot delete role with assigned active users'')
          else Inr (s\<lparr>roles := put_row ro_id (role\<lparr>ro_is_active := False\<rparr>) (roles s)\<rparr>))"

text \<open>
  The copy is built with the keyword \<open>parent_role_id\<close>, a property of the class and not a field:
  \<open>keyword\<close> is the parent the constructor of the library takes from it.
\<close>

definition duplicate_role ::
    "(int option \<Rightarrow> int option) \<Rightarrow> int \<Rightarrow> string \<Rightarrow> string option \<Rightarrow> rbac_db \<Rightarrow> (role \<times> rbac_db) res" where
  "duplicate_role keyword role_id new_name description s =
     (case get_row ro_id role_id (roles s) of
        None \<Rightarrow> Inl (HTTPException 404 ''Source role not found'')
      | Some source \<Rightarrow>
          if list_ex (\<lambda>r. ro_name r = new_name) (roles s) then
            Inl (HTTPException 400 ''Role name already exists'')
          else
            let role = \<lparr>ro_id = fresh_id ro_id (roles s), ro_name = new_name,
                  ro_description = (case description of
                      None \<Rightarrow> ro_description source
                    | Some d \<Rightarrow> if d = [] then ro_description source else Some d),
                  ro_category = ro_category source, ro_level = ro_level source,
                  ro_parent_id = keyword (ro_parent_id source), ro_is_system_role = False,
                  ro_is_custom_role = False, ro_is_active = True, ro_scope_owner = ''global'',
                  ro_dealer_id = None\<rparr>
            in Inr (role, s\<lparr>roles := roles s @ [role],
                 role_permissions := role_permissions s
                   @ map (\<lambda>p. (ro_id role, pm_id p)) (perms_of s role_id)\<rparr>))"

definition revoke_all_user_sessions :: "datetime \<Rightarrow> int \<Rightarrow> rbac_db \<Rightarrow> rbac_db" where
  "revoke_all_user_sessions now user_id s =
     (case get_row us_id user_id (members s) of
        None \<Rightarrow> end_sessions {user_id} s
      | Some u \<Rightarrow> end_sessions {user_id}
          (s\<lparr>members := put_row us_id (u\<lparr>us_last_global_logout_at := Some now\<rparr>) (members s)\<rparr>))"

definition assign_permissions_to_role ::
    "datetime \<Rightarrow> int \<Rightarrow> string list \<Rightarrow> string \<Rightarrow> rbac_db \<Rightarrow> rbac_db res" where
  "assign_permissions_to_role now role_id slugs mode s =
     (case get_row ro_id role_id (roles s) of
        None \<Rightarrow> Inl (HTTPException 404 ''Role not found'')
      | Some role \<Rightarrow>
          let found = filter (\<lambda>p. pm_slug p \<in> set slugs) (permissions s);
              others = filter (\<lambda>(r, p). r \<noteq> role_id) (role_permissions s);
              missing = filter (\<lambda>p. (role_id, pm_id p) \<notin> set (role_permissions s)) found;
              finish = (\<lambda>links. Inr (fold (\<lambda>u. revoke_all_user_sessions now (us_id u))
                 (filter (\<lambda>u. us_role_id u = Some role_id) (members s)) (s\<lparr>role_permissions := links\<rparr>)))
          in if \<not> set slugs \<subseteq> set (map pm_slug found) then
               Inl (HTTPException 400 ''Invalid permission slugs: {missing}'')
             else if mode = ''overwrite'' then
               finish (others @ map (\<lambda>p. (role_id, pm_id p)) found)
             else if mode = ''append'' then
               finish (role_permissions s @ map (\<lambda>p. (role_id, pm_id p)) missing)
             else Inl (HTTPException 400 ''Invalid mode. Use 'overwrite' or 'append'.''))"

section \<open>Walking up the hierarchy\<close>

definition parent_of :: "rbac_db \<Rightarrow> role \<Rightarrow> role option" where
  "parent_of s r = (case nonzero_id (ro_parent_id r) of None \<Rightarrow> None | Some i \<Rightarrow> get_row ro_id i (roles s))"

text \<open>A role and its ancestors, in the order of the loop.\<close>

partial_function (option) chain :: "rbac_db \<Rightarrow> role \<Rightarrow> role list option" where
  "chain s r = (case parent_of s r of
                  None \<Rightarrow> Some [r]
                | Some q \<Rightarrow> Option.bind (chain s q) (\<lambda>rs. Some (r # rs)))"

partial_function (option) find_in_chain :: "rbac_db \<Rightarrow> string \<Rightarrow> role \<Rightarrow> permission option option" where
  "find_in_chain s slug r =
     (case List.find (\<lambda>p. pm_slug p = slug) (perms_of s (ro_id r)) of
        Some p \<Rightarrow> Some (Some p)
      | None \<Rightarrow> (case parent_of s r of None \<Rightarrow> Some None | Some q \<Rightarrow> find_in_chain s slug q))"

text \<open>A dictionary keyed by slug keeps the first permission of each.\<close>

definition first_by_slug :: "permission list \<Rightarrow> permission list" where
  "first_by_slug ps = fold (\<lambda>p acc. if pm_slug p \<in> set (map pm_slug acc) then acc else acc @ [p]) ps []"

record role_permissions_response =
  direct_permissions :: "permission list"
  inherited_permissions :: "(int \<times> permission list) list"
  all_permissions :: "permission list"

definition get_role_permissions :: "int \<Rightarrow> rbac_db \<Rightarrow> role_permissions_response res option" where
  "get_role_permissions role_id s =
     (case get_row ro_id role_id (roles s) of
        None \<Rightarrow> Some (Inl (HTTPException 404 ''Role not found''))
      | Some role \<Rightarrow>
          Option.bind (chain s role) (\<lambda>rs.
            let direct = perms_of s role_id;
                inherited = filter (\<lambda>(i, ps). ps \<noteq> []) (map (\<lambda>q. (ro_id q, perms_of s (ro_id q))) (tl rs))
            in Some (Inr \<lparr>direct_permissions = direct, inherited_permissions = inherited,
                          all_permissions = first_by_slug (direct @ concat (map snd inherited))\<rparr>)))"

text \<open>
  \<open>User.roles\<close>: what authentication cached on the object of the caller; for any other user,
  \<open>cached\<close> is \<open>None\<close>, the role of the column \<open>role_id\<close>.
\<close>

definition roles_of_user :: "rbac_db \<Rightarrow> role list option \<Rightarrow> member \<Rightarrow> role list" where
  "roles_of_user s cached u =
     (case cached of
        Some rs \<Rightarrow> rs
      | None \<Rightarrow> (case us_role_id u of
                  None \<Rightarrow> []
                | Some i \<Rightarrow> (case get_row ro_id i (roles s) of None \<Rightarrow> [] | Some r \<Rightarrow> [r])))"

fun check_roles :: "rbac_db \<Rightarrow> string \<Rightarrow> role list \<Rightarrow> (string \<times> string) option option" where
  "check_roles s slug [] = Some None"
| "check_roles s slug (r # rs) =
     (case find_in_chain s slug r of
        None \<Rightarrow> None
      | Some (Some p) \<Rightarrow> Some (Some (ro_name r, pm_scope p))
      | Some None \<Rightarrow> check_roles s slug rs)"

definition check_user_permission ::
    "role list option \<Rightarrow> int \<Rightarrow> string \<Rightarrow> rbac_db \<Rightarrow> (string \<times> string) option res option" where
  "check_user_permission cached user_id slug s =
     (case get_row us_id user_id (members s) of
        None \<Rightarrow> Some (Inl (HTTPException 404 ''User not found''))
      | Some u \<Rightarrow> map_option Inr (check_roles s slug (roles_of_user s cached u)))"

fun chains :: "rbac_db \<Rightarrow> role list \<Rightarrow> role list option" where
  "chains s [] = Some []"
| "chains s (r # rs) =
     Option.bind (chain s r) (\<lambda>xs. Option.bind (chains s rs) (\<lambda>ys. Some (xs @ ys)))"

definition get_user_permissions ::
    "role list option \<Rightarrow> int \<Rightarrow> rbac_db \<Rightarrow> permission list res option" where
  "get_user_permissions cached user_id s =
     (case get_row us_id user_id (members s) of
        None \<Rightarrow> Some (Inl (HTTPException 404 ''User not found''))
      | Some u \<Rightarrow> Option.bind (chains s (roles_of_user s cached u)) (\<lambda>rs.
          Some (Inr (first_by_slug (concat (map (\<lambda>r. perms_of s (ro_id r)) rs))))))"

text \<open>\<open>User.all_permissions\<close> and \<open>User.has_permission\<close> of a caller who is no superuser.\<close>

definition has_permission :: "rbac_db \<Rightarrow> role list \<Rightarrow> string \<Rightarrow> bool" where
  "has_permission s rs slug \<longleftrightarrow> canonicalize_permission_slug slug
     \<in> canonicalize_permission_set (map pm_slug (concat (map (\<lambda>r. perms_of s (ro_id r)) rs)))"


text \<open>The tree of active roles: a role is a child when its parent is in it, a root otherwise.\<close>

definition hierarchy_links :: "rbac_db \<Rightarrow> (int \<times> int) list" where
  "hierarchy_links s =
     (let active = filter ro_is_active (roles s)
      in List.map_filter (\<lambda>r. case nonzero_id (ro_parent_id r) of
             None \<Rightarrow> None
           | Some p \<Rightarrow> if p \<in> set (map ro_id active) then Some (p, ro_id r) else None) active)"

definition hierarchy_roots :: "rbac_db \<Rightarrow> role list" where
  "hierarchy_roots s =
     (let active = filter ro_is_active (roles s)
      in filter (\<lambda>r. case nonzero_id (ro_parent_id r) of
             None \<Rightarrow> True | Some p \<Rightarrow> p \<notin> set (map ro_id active)) active)"

section \<open>Assignments\<close>

definition linked :: "int \<Rightarrow> int \<Rightarrow> user_role \<Rightarrow> bool" where
  "linked user_id role_id x \<longleftrightarrow> ur_user_id x = user_id \<and> ur_role_id x = role_id"

definition set_primary :: "int \<Rightarrow> int option \<Rightarrow> rbac_db \<Rightarrow> rbac_db" where
  "set_primary user_id role_id s = s\<lparr>members := map (\<lambda>u. if us_id u = user_id then u\<lparr>us_role_id := role_id\<rparr> else u)
     (members s)\<rparr>"

record role_assign =
  ra_role_id :: int
  ra_effective_from :: "datetime option"
  ra_expires_at :: "datetime option"
  ra_notes :: "string option"

definition assign_link ::
    "datetime \<Rightarrow> int option \<Rightarrow> int \<Rightarrow> role_assign \<Rightarrow> user_role list \<Rightarrow> user_role list" where
  "assign_link now assigned_by user_id a links =
     (if list_ex (linked user_id (ra_role_id a)) links then
        map (\<lambda>x. if linked user_id (ra_role_id a) x
                 then x\<lparr>ur_assigned_by := (case assigned_by of None \<Rightarrow> ur_assigned_by x | Some b \<Rightarrow> Some b),
                        ur_notes := ra_notes a,
                        ur_expires_at := (case ra_expires_at a of None \<Rightarrow> ur_expires_at x | Some e \<Rightarrow> Some e),
                        ur_effective_from := keep_or (ra_effective_from a) (ur_effective_from x)\<rparr>
                 else x) links
      else links @ [\<lparr>ur_user_id = user_id, ur_role_id = ra_role_id a, ur_assigned_by = assigned_by,
             ur_notes = ra_notes a, ur_effective_from = keep_or (ra_effective_from a) now,
             ur_expires_at = ra_expires_at a\<rparr>])"

definition assign_roles_to_user ::
    "datetime \<Rightarrow> int option \<Rightarrow> int \<Rightarrow> role_assign \<Rightarrow> rbac_db \<Rightarrow> rbac_db res" where
  "assign_roles_to_user now assigned_by user_id a s =
     (case get_row us_id user_id (members s) of
        None \<Rightarrow> Inl (HTTPException 404 ''User not found'')
      | Some u \<Rightarrow>
     (case get_row ro_id (ra_role_id a) (roles s) of
        None \<Rightarrow> Inl (HTTPException 404 ''Role not found'')
      | Some role \<Rightarrow>
          let s1 = set_primary user_id (Some (ra_role_id a)) s
          in Inr (revoke_all_user_sessions now user_id
                (s1\<lparr>user_roles := assign_link now assigned_by user_id a (user_roles s1)\<rparr>))))"

text \<open>A primary role that is taken away is replaced by another assignment, if there is one.\<close>

definition replace_primary :: "int \<Rightarrow> int \<Rightarrow> rbac_db \<Rightarrow> rbac_db" where
  "replace_primary user_id role_id s =
     (case get_row us_id user_id (members s) of
        None \<Rightarrow> s
      | Some u \<Rightarrow>
          if us_role_id u \<noteq> Some role_id then s
          else set_primary user_id (map_option ur_role_id
                 (List.find (\<lambda>x. ur_user_id x = user_id \<and> ur_role_id x \<noteq> role_id) (user_roles s))) s)"

definition remove_role_from_user :: "int \<Rightarrow> int \<Rightarrow> rbac_db \<Rightarrow> rbac_db res" where
  "remove_role_from_user user_id role_id s =
     (if get_row us_id user_id (members s) = None then Inl (HTTPException 404 ''User not found'')
      else if get_row ro_id role_id (roles s) = None then Inl (HTTPException 404 ''Role not found'')
      else if \<not> list_ex (linked user_id role_id) (user_roles s) then
        Inl (HTTPException 404 ''Role not assigned to user'')
      else if length (filter (\<lambda>x. ur_user_id x = user_id) (user_roles s)) \<le> 1 then
        Inl (HTTPException 400 ''Cannot remove the last role from a user'')
      else Inr (end_sessions {user_id} (replace_primary user_id role_id
             (s\<lparr>user_roles := filter (\<lambda>x. \<not> linked user_id role_id x) (user_roles s)\<rparr>))))"

definition transfer_link ::
    "datetime \<Rightarrow> int option \<Rightarrow> int \<Rightarrow> int \<Rightarrow> int \<Rightarrow> string option \<Rightarrow> user_role" where
  "transfer_link now assigned_by source_id target_id role_id reason =
     \<lparr>ur_user_id = target_id, ur_role_id = role_id, ur_assigned_by = assigned_by,
      ur_notes = Some (''Transferred from User '' @ show_int source_id @ ''. Reason: ''
        @ (case reason of None \<Rightarrow> ''No reason provided''
           | Some r \<Rightarrow> if r = [] then ''No reason provided'' else r)),
      ur_effective_from = now, ur_expires_at = None\<rparr>"

definition transfer_role_assignment ::
    "datetime \<Rightarrow> int option \<Rightarrow> int \<Rightarrow> int \<Rightarrow> int \<Rightarrow> string option \<Rightarrow> rbac_db \<Rightarrow> rbac_db res" where
  "transfer_role_assignment now assigned_by source_id target_id role_id reason s =
     (if get_row us_id source_id (members s) = None then Inl (HTTPException 404 ''Source user not found'')
      else if get_row us_id target_id (members s) = None then Inl (HTTPException 404 ''Target user not found'')
      else if get_row ro_id role_id (roles s) = None then Inl (HTTPException 404 ''Role not found'')
      else if \<not> list_ex (linked source_id role_id) (user_roles s) then
        Inl (HTTPException 400 ''Source user does not have this role'')
      else if list_ex (linked target_id role_id) (user_roles s) then
        Inl (HTTPException 400 ''Target user already has this role'')
      else
        let link = transfer_link now assigned_by source_id target_id role_id reason;
            s1 = s\<lparr>user_roles := filter (\<lambda>x. \<not> linked source_id role_id x) (user_roles s) @ [link]\<rparr>;
            s2 = replace_primary source_id role_id (set_primary target_id (Some role_id) s1)
        in Inr (revoke_all_user_sessions now target_id (revoke_all_user_sessions now source_id s2)))"

text \<open>
  One user of a batch. \<open>linked_before\<close> is the set of users read before the loop: a user named
  twice is inserted twice, and the second insert violates the primary key.
\<close>

definition bulk_assign_one ::
    "datetime \<Rightarrow> int option \<Rightarrow> int \<Rightarrow> int set \<Rightarrow> int \<Rightarrow> (int \<times> bool) list \<times> rbac_db \<Rightarrow>
     (int \<times> bool) list \<times> rbac_db" where
  "bulk_assign_one now assigned_by role_id linked_before user_id = (\<lambda>(results, s).
     if get_row us_id user_id (members s) = None then (results @ [(user_id, False)], s)
     else if user_id \<in> linked_before then
       (results @ [(user_id, True)],
        revoke_all_user_sessions now user_id (set_primary user_id (Some role_id) s))
     else if list_ex (linked user_id role_id) (user_roles s) then (results @ [(user_id, False)], s)
     else (results @ [(user_id, True)],
        revoke_all_user_sessions now user_id (set_primary user_id (Some role_id)
          (s\<lparr>user_roles := user_roles s @ [\<lparr>ur_user_id = user_id, ur_role_id = role_id,
              ur_assigned_by = assigned_by, ur_notes = None, ur_effective_from = now,
              ur_expires_at = None\<rparr>]\<rparr>))))"

definition bulk_assign_roles ::
    "datetime \<Rightarrow> int option \<Rightarrow> int \<Rightarrow> int list \<Rightarrow> rbac_db \<Rightarrow> ((int \<times> bool) list \<times> rbac_db) res" where
  "bulk_assign_roles now assigned_by role_id user_ids s =
     (if get_row ro_id role_id (roles s) = None then Inl (HTTPException 404 ''Role not found'')
      else Inr (fold (bulk_assign_one now assigned_by role_id
             (set (map ur_user_id (filter (\<lambda>x. ur_role_id x = role_id \<and> ur_user_id x \<in> set user_ids) (user_roles s)))))
           user_ids ([], s)))"

text \<open>
  The listing of a user's roles compares the naive columns of an assignment with an aware
  clock, which raises as soon as an assignment of an active role is looked at.
\<close>

definition get_user_roles :: "int \<Rightarrow> rbac_db \<Rightarrow> (int \<times> bool) list res" where
  "get_user_roles user_id s =
     (if get_row us_id user_id (members s) = None then Inl (HTTPException 404 ''User not found'')
      else map_res (\<lambda>(x, r). if \<not> ro_is_active r then Inr (ro_id r, False)
                    else Inl (TypeError ''can't compare offset-naive and offset-aware datetimes''))
             (List.map_filter (\<lambda>x. map_option (Pair x) (get_row ro_id (ur_role_id x) (roles s)))
                (filter (\<lambda>x. ur_user_id x = user_id) (user_roles s))))"

section \<open>The roles a request runs with\<close>

definition in_force :: "datetime \<Rightarrow> user_role \<Rightarrow> bool" where
  "in_force now x \<longleftrightarrow> ur_effective_from x \<le> now
     \<and> (case ur_expires_at x of None \<Rightarrow> True | Some e \<Rightarrow> now \<le> e)"

definition get_active_roles_for_user_id :: "datetime \<Rightarrow> int \<Rightarrow> rbac_db \<Rightarrow> role list" where
  "get_active_roles_for_user_id now user_id s =
     sort_key (\<lambda>r. - ro_level r) (sort_key ro_name
       (List.map_filter (\<lambda>x. if ur_user_id x = user_id \<and> in_force now x
            then (case get_row ro_id (ur_role_id x) (roles s) of
                    None \<Rightarrow> None | Some r \<Rightarrow> if ro_is_active r then Some r else None)
            else None) (user_roles s)))"

text \<open>
  The part of \<open>get_user_from_token\<close> behind the token: the roles of the caller, and the primary
  role brought in line with them.
\<close>

definition roles_of_caller :: "datetime \<Rightarrow> member \<Rightarrow> rbac_db \<Rightarrow> role list \<times> rbac_db" where
  "roles_of_caller now u s =
     (let found = get_active_roles_for_user_id now (us_id u) s;
          active = (if found = [] then roles_of_user s None u else found)
      in case active of
           [] \<Rightarrow> ([], s)
         | best # _ \<Rightarrow>
             if us_role_id u \<in> Some ` set (map ro_id active) then (active, s)
             else (active, set_primary (us_id u) (Some (ro_id best)) s))"

section \<open>Access paths\<close>

definition valid_access_levels :: "string set" where
  "valid_access_levels = {''view'', ''manage'', ''admin''}"

definition assign_access_path ::
    "int \<Rightarrow> int \<Rightarrow> string \<Rightarrow> string \<Rightarrow> rbac_db \<Rightarrow> (access_path \<times> rbac_db) res" where
  "assign_access_path by user_id pattern access_level s =
     (if get_row us_id user_id (members s) = None then Inl (HTTPException 404 ''User not found'')
      else if access_level \<notin> valid_access_levels then
        Inl (HTTPException 422 ''Invalid access level. Must be view, manage, or admin.'')
      else let p = \<lparr>ap_id = fresh_id ap_id (access_paths s), ap_user_id = user_id,
                    ap_path_pattern = pattern, ap_access_level = access_level, ap_created_by = by\<rparr>
           in Inr (p, s\<lparr>access_paths := access_paths s @ [p]\<rparr>))"

definition get_user_access_paths :: "int \<Rightarrow> rbac_db \<Rightarrow> access_path list res" where
  "get_user_access_paths user_id s =
     (if get_row us_id user_id (members s) = None then Inl (HTTPException 404 ''User not found'')
      else Inr (filter (\<lambda>p. ap_user_id p = user_id) (access_paths s)))"

definition find_access_path :: "int \<Rightarrow> int \<Rightarrow> rbac_db \<Rightarrow> access_path res" where
  "find_access_path user_id path_id s =
     (case get_row ap_id path_id (access_paths s) of
        None \<Rightarrow> Inl (HTTPException 404 ''Access path not found'')
      | Some p \<Rightarrow> if ap_user_id p \<noteq> user_id then
                    Inl (HTTPException 400 ''Access path does not belong to this user'')
                  else Inr p)"

definition remove_access_path :: "int \<Rightarrow> int \<Rightarrow> rbac_db \<Rightarrow> rbac_db res" where
  "remove_access_path user_id path_id s =
     (case find_access_path user_id path_id s of
        Inl e \<Rightarrow> Inl e
      | Inr p \<Rightarrow> Inr (s\<lparr>access_paths := filter (\<lambda>q. ap_id q \<noteq> path_id) (access_paths s)\<rparr>))"

text \<open>A level that is left out is None, which is no valid level.\<close>

definition update_access_path ::
    "int \<Rightarrow> int \<Rightarrow> string option \<Rightarrow> rbac_db \<Rightarrow> (access_path \<times> rbac_db) res" where
  "update_access_path user_id path_id access_level s =
     (case find_access_path user_id path_id s of
        Inl e \<Rightarrow> Inl e
      | Inr p \<Rightarrow>
          (case access_level of
             None \<Rightarrow> Inl (HTTPException 422 ''Invalid access level. Must be view, manage, or admin.'')
           | Some level \<Rightarrow>
               if level \<notin> valid_access_levels then
                 Inl (HTTPException 422 ''Invalid access level. Must be view, manage, or admin.'')
               else let q = p\<lparr>ap_access_level := level\<rparr>
                    in Inr (q, s\<lparr>access_paths := put_row ap_id q (access_paths s)\<rparr>)))"

section \<open>The role API\<close>

datatype rbac_request =
    CreateRole role_create
  | UpdateRole int role_update
  | DeleteRole int
  | DuplicateRole int string "string option"
  | SetPermissions int "string list" string
  | AssignRole int role_assign
  | RemoveRole int int
  | TransferRole int int int "string option"
  | BulkAssign int "int list"
  | Authenticate int

text \<open>
  What a request of an administrator leaves in the tables; \<open>by\<close> is the id that
  \<open>_resolve_assigned_by_admin_id\<close> finds for the caller.
\<close>

definition kept :: "rbac_db \<Rightarrow> ('a \<times> rbac_db) res \<Rightarrow> rbac_db" where
  "kept s out = (case out of Inl e \<Rightarrow> s | Inr (x, s') \<Rightarrow> s')"

definition kept_tables :: "rbac_db \<Rightarrow> rbac_db res \<Rightarrow> rbac_db" where
  "kept_tables s out = (case out of Inl e \<Rightarrow> s | Inr s' \<Rightarrow> s')"

fun serve_rbac ::
    "(int option \<Rightarrow> int option) \<Rightarrow> datetime \<times> int option \<times> rbac_request \<Rightarrow> rbac_db \<Rightarrow> rbac_db" where
  "serve_rbac kw (now, by, CreateRole c) s = kept s (create_role c s)"
| "serve_rbac kw (now, by, UpdateRole i c) s = kept s (update_role i c s)"
| "serve_rbac kw (now, by, DeleteRole i) s = kept_tables s (delete_role i s)"
| "serve_rbac kw (now, by, DuplicateRole i n d) s = kept s (duplicate_role kw i n d s)"
| "serve_rbac kw (now, by, SetPermissions i ps m) s = kept_tables s (assign_permissions_to_role now i ps m s)"
| "serve_rbac kw (now, by, AssignRole u a) s = kept_tables s (assign_roles_to_user now by u a s)"
| "serve_rbac kw (now, by, RemoveRole u i) s = kept_tables s (remove_role_from_user u i s)"
| "serve_rbac kw (now, by, TransferRole u v i r) s = kept_tables s (transfer_role_assignment now by u v i r s)"
| "serve_rbac kw (now, by, BulkAssign i us) s = kept s (bulk_assign_roles now by i us s)"
| "serve_rbac kw (now, by, Authenticate i) s =
     (case get_row us_id i (members s) of None \<Rightarrow> s | Some u \<Rightarrow> snd (roles_of_caller now u s))"

end
