(* ===== verification/RolesInv.thy ===== *)
theory RolesInv
  imports Roles
begin

text \<open>
  What access control promises: the walks up the hierarchy end as long as no role is put below
  itself, and then the check of a permission, the listing of permissions and the ancestors of the
  roles agree; a primary role is always an assigned one. And what it does not: a role can be made
  its own parent, and an assignment counts outside its period.
\<close>

section \<open>The walks end\<close>

text \<open>The hierarchy as a relation on ids: a role and its parent, both in the table.\<close>

definition parent_ids :: "rbac_db \<Rightarrow> (int \<times> int) set" where
  "parent_ids s = {(ro_id r, p) | r p. r \<in> set (roles s) \<and> nonzero_id (ro_parent_id r) = Some p
     \<and> p \<in> ro_id ` set (roles s)}"

definition parent_rel :: "rbac_db \<Rightarrow> (role \<times> role) set" where
  "parent_rel s = {(r, q). parent_of s r = Some q}"

lemma parent_of_row: "parent_of s r = Some q \<Longrightarrow> q \<in> set (roles s) \<and> ro_parent_id r = Some (ro_id q)"
  by (auto simp: parent_of_def nonzero_id_def dest!: get_row_Some split: option.splits if_splits)

lemma parent_ids_Un: "parent_ids s = (\<Union>r \<in> set (roles s). case nonzero_id (ro_parent_id r) of
    None \<Rightarrow> {} | Some p \<Rightarrow> if p \<in> ro_id ` set (roles s) then {(ro_id r, p)} else {})"
  by (auto simp: parent_ids_def split: option.splits if_splits)

lemma parent_of_ids:
  "parent_of s r = Some q \<Longrightarrow> r \<in> set (roles s) \<Longrightarrow> (ro_id r, ro_id q) \<in> parent_ids s \<and> q \<in> set (roles s)"
  by (auto simp: parent_ids_def parent_of_def dest!: get_row_Some split: option.splits)

lemma finite_parent_ids: "finite (parent_ids s)"
proof (rule finite_subset)
  show "parent_ids s \<subseteq> ro_id ` set (roles s) \<times> ro_id ` set (roles s)" by (auto simp: parent_ids_def)
qed simp

lemma chain_ends_row:
  assumes "acyclic (parent_ids s)" "r \<in> set (roles s)"
  shows "\<exists>rs. chain s r = Some rs"
proof -
  have wf: "wf ((parent_ids s)\<inverse>)" by (rule finite_acyclic_wf_converse [OF finite_parent_ids assms(1)])
  have "\<exists>rs. chain s q = Some rs" if "q \<in> set (roles s)" "ro_id q = i" for q i
    using wf that
  proof (induction i arbitrary: q rule: wf_induct_rule)
    case (less i)
    show ?case
    proof (cases "parent_of s q")
      case None
      then show ?thesis by (subst chain.simps) simp
    next
      case (Some p)
      with less obtain rs where "chain s p = Some rs" using parent_of_ids [OF Some less.prems(1)] by auto
      with Some show ?thesis by (subst chain.simps) simp
    qed
  qed
  with assms(2) show ?thesis by blast
qed

text \<open>A role that authentication cached need not be in the table any more; its parent is.\<close>

lemma chain_ends:
  assumes "acyclic (parent_ids s)"
  shows "\<exists>rs. chain s r = Some rs"
proof (cases "parent_of s r")
  case None
  then show ?thesis by (subst chain.simps) simp
next
  case (Some q)
  then show ?thesis using chain_ends_row [OF assms, of q] parent_of_row [OF Some] by (subst chain.simps) auto
qed

text \<open>The loop visits exactly the ancestors.\<close>

definition ancestors :: "rbac_db \<Rightarrow> role \<Rightarrow> role set" where
  "ancestors s r = {q. (r, q) \<in> (parent_rel s)\<^sup>*}"

lemma ancestors_None: "parent_of s r = None \<Longrightarrow> ancestors s r = {r}"
  by (auto simp: ancestors_def parent_rel_def elim: converse_rtranclE)

lemma ancestors_Some:
  assumes "parent_of s r = Some q"
  shows "ancestors s r = insert r (ancestors s q)"
proof -
  have step: "(r, y) \<in> parent_rel s \<longleftrightarrow> y = q" for y using assms by (auto simp: parent_rel_def)
  have "(r, x) \<in> (parent_rel s)\<^sup>* \<longleftrightarrow> x = r \<or> (q, x) \<in> (parent_rel s)\<^sup>*" for x
    using step by (metis converse_rtranclE converse_rtrancl_into_rtrancl rtrancl.rtrancl_refl)
  then show ?thesis by (auto simp: ancestors_def)
qed

lemma chain_ancestors: "chain s r = Some rs \<Longrightarrow> set rs = ancestors s r"
proof (induction rule: chain.raw_induct[rotated, consumes 1, case_names step])
  case (step chain' s r rs)
  show ?case
  proof (cases "parent_of s r")
    case None
    then show ?thesis using step(2) by (simp add: ancestors_None) (metis list.set(1,2))
  next
    case (Some q)
    then obtain xs where "chain' s q = Some xs" "rs = r # xs"
      using step(2) by (auto split: bind_splits)
    then show ?thesis using step(1) Some by (simp add: ancestors_Some)
  qed
qed

lemma chain_step: "parent_of s r = Some q \<Longrightarrow> chain s r = map_option ((#) r) (chain s q)"
  by (subst chain.simps) (auto split: bind_splits option.splits)

lemma chain_shorter:
  "(r, q) \<in> (parent_rel s)\<^sup>+ \<Longrightarrow> chain s r = Some rs \<Longrightarrow> \<exists>xs. chain s q = Some xs \<and> length xs < length rs"
proof (induction rule: trancl_induct)
  case (base q)
  then show ?case by (auto simp: parent_rel_def chain_step)
next
  case (step q q')
  then obtain xs where "chain s q = Some xs" "length xs < length rs" by blast
  then show ?case using step(2) by (auto simp: parent_rel_def chain_step)
qed

lemma cycle_never_returns: "(r, r) \<in> (parent_rel s)\<^sup>+ \<Longrightarrow> chain s r = None"
  using chain_shorter[of r r s] by (cases "chain s r") auto

text \<open>The search that stops at the first hit agrees with the whole walk.\<close>

lemma find_in_chain_walk:
  "chain s r = Some rs \<Longrightarrow>
   find_in_chain s slug r = Some (List.find (\<lambda>p. pm_slug p = slug) (concat (map (\<lambda>q. perms_of s (ro_id q)) rs)))"
proof (induction rs arbitrary: r)
  case Nil
  then show ?case by (subst (asm) chain.simps) (auto split: option.splits bind_splits)
next
  case (Cons x xs)
  have app: "List.find P (ys @ zs) = (case List.find P ys of None \<Rightarrow> List.find P zs | Some y \<Rightarrow> Some y)" for P ys zs
    by (induction ys) auto
  show ?case
  proof (cases "parent_of s r")
    case None
    then have "x = r" "xs = []" using Cons.prems by (subst (asm) chain.simps, simp)+
    then show ?thesis using None by (subst find_in_chain.simps) (auto split: option.splits)
  next
    case (Some q)
    then have x: "x = r" "chain s q = Some xs" using Cons.prems by (auto simp: chain_step)
    show ?thesis using Some x(1) Cons.IH[OF x(2)]
      by (subst find_in_chain.simps) (auto simp: app split: option.splits)
  qed
qed

lemma find_slug: "List.find (\<lambda>p. pm_slug p = slug) ps \<noteq> None \<longleftrightarrow> slug \<in> pm_slug ` set ps"
  by (auto simp: find_None)

lemma first_by_slug_set: "pm_slug ` set (first_by_slug ps) = pm_slug ` set ps"
proof -
  have "pm_slug ` set (fold (\<lambda>p acc. if pm_slug p \<in> set (map pm_slug acc) then acc else acc @ [p]) ps acc)
      = pm_slug ` set acc \<union> pm_slug ` set ps" for acc
    by (induction ps arbitrary: acc) auto
  from this[of "[]"] show ?thesis by (simp add: first_by_slug_def)
qed

lemma check_roles_walk:
  assumes "\<forall>r \<in> set rs. \<exists>xs. chain s r = Some xs"
  shows "\<exists>g xs. check_roles s slug rs = Some g \<and> chains s rs = Some xs
    \<and> (g \<noteq> None \<longleftrightarrow> slug \<in> pm_slug ` set (concat (map (\<lambda>q. perms_of s (ro_id q)) xs)))
    \<and> set xs = (\<Union>r \<in> set rs. ancestors s r)"
  using assms
proof (induction rs)
  case Nil
  then show ?case by simp
next
  case (Cons r rs)
  then have "\<forall>r \<in> set rs. \<exists>xs. chain s r = Some xs" by simp
  from Cons.IH[OF this] obtain g ys where ih: "check_roles s slug rs = Some g" "chains s rs = Some ys"
    "g \<noteq> None \<longleftrightarrow> slug \<in> pm_slug ` set (concat (map (\<lambda>q. perms_of s (ro_id q)) ys))"
    "set ys = (\<Union>r \<in> set rs. ancestors s r)"
    by (elim exE conjE) (rule that)
  obtain xs where xs: "chain s r = Some xs" using Cons.prems by auto
  let ?hit = "List.find (\<lambda>p. pm_slug p = slug) (concat (map (\<lambda>q. perms_of s (ro_id q)) xs))"
  have "\<exists>g'. check_roles s slug (r # rs) = Some g' \<and> (g' \<noteq> None \<longleftrightarrow> ?hit \<noteq> None \<or> g \<noteq> None)"
    using find_in_chain_walk[OF xs, of slug] ih(1) by (cases ?hit) auto
  moreover have "chains s (r # rs) = Some (xs @ ys)" using xs ih(2) by simp
  moreover have "set (xs @ ys) = (\<Union>r \<in> set (r # rs). ancestors s r)"
    using chain_ancestors[OF xs] ih(4) by auto
  ultimately show ?case unfolding ih(3) find_slug by fastforce
qed

section \<open>Re-parenting\<close>

lemma put_parent_path:
  assumes d: "distinct (map ro_id (roles s))" and r: "r \<in> set (roles s)"
    and s': "roles s' = put_row ro_id r' (roles s)" "ro_id r' = ro_id r"
    and path: "(x, r) \<in> (parent_rel s)\<^sup>*" "x \<in> set (roles s)"
  shows "((if ro_id x = ro_id r then r' else x), r') \<in> (parent_rel s')\<^sup>*"
  using path
proof (induction rule: converse_rtrancl_induct)
  case base
  then show ?case by simp
next
  case (step x y)
  have y: "y \<in> set (roles s)" "parent_of s x = Some y"
    using step(1) parent_of_row by (auto simp: parent_rel_def)
  show ?case
  proof (cases "ro_id x = ro_id r")
    case True
    then show ?thesis by simp
  next
    case False
    obtain i where i: "nonzero_id (ro_parent_id x) = Some i" "get_row ro_id i (roles s) = Some y"
      using y(2) by (auto simp: parent_of_def split: option.splits)
    then have "i = ro_id y" using get_row_Some by fastforce
    then have "parent_of s' x = Some (if ro_id y = ro_id r then r' else y)"
      using i s' by (simp add: parent_of_def get_put)
    then show ?thesis using step(3)[OF y(1)] False
      by (auto simp: parent_rel_def intro: converse_rtrancl_into_rtrancl)
  qed
qed

section \<open>Which tables a request touches\<close>

lemma end_sessions_tables [simp]:
  "roles (end_sessions us s) = roles s" "members (end_sessions us s) = members s"
  "user_roles (end_sessions us s) = user_roles s" "permissions (end_sessions us s) = permissions s"
  by (simp_all add: end_sessions_def)

lemma set_primary_tables [simp]:
  "roles (set_primary u i s) = roles s" "user_roles (set_primary u i s) = user_roles s"
  "map us_id (members (set_primary u i s)) = map us_id (members s)"
  by (auto simp: set_primary_def)

lemma revoke_tables [simp]:
  "roles (revoke_all_user_sessions now u s) = roles s"
  "user_roles (revoke_all_user_sessions now u s) = user_roles s"
  "map us_id (members (revoke_all_user_sessions now u s)) = map us_id (members s)"
  by (auto simp: revoke_all_user_sessions_def split: option.splits)

lemma replace_primary_tables [simp]:
  "roles (replace_primary u i s) = roles s" "user_roles (replace_primary u i s) = user_roles s"
  "map us_id (members (replace_primary u i s)) = map us_id (members s)"
  by (auto simp: replace_primary_def split: option.splits)

lemma bulk_tables:
  "roles (snd (fold (bulk_assign_one now b i l) us x)) = roles (snd x)
   \<and> map us_id (members (snd (fold (bulk_assign_one now b i l) us x))) = map us_id (members (snd x))"
proof (induction us arbitrary: x)
  case (Cons u us)
  have "roles (snd (bulk_assign_one now b i l u x)) = roles (snd x)"
    "map us_id (members (snd (bulk_assign_one now b i l u x))) = map us_id (members (snd x))"
    by (auto simp: bulk_assign_one_def split: prod.splits)
  then show ?case using Cons by simp
qed simp

lemma fold_revoke_tables:
  "roles (fold (\<lambda>u. revoke_all_user_sessions now (us_id u)) us s) = roles s"
  "user_roles (fold (\<lambda>u. revoke_all_user_sessions now (us_id u)) us s) = user_roles s"
  by (induction us arbitrary: s) simp_all

lemma kept_Inr [simp]: "kept s (Inr x) = snd x" "kept s (Inl e) = s"
  by (simp_all add: kept_def split: prod.splits)

section \<open>Requests keep the hierarchy\<close>

text \<open>Ids are unique, every parent is in the table, and no role is above itself.\<close>

definition hierarchy_ok :: "rbac_db \<Rightarrow> bool" where
  "hierarchy_ok s \<longleftrightarrow> distinct (map ro_id (roles s)) \<and> acyclic (parent_ids s)
     \<and> (\<forall>r \<in> set (roles s). \<forall>p. nonzero_id (ro_parent_id r) = Some p \<longrightarrow> p \<in> ro_id ` set (roles s))"

text \<open>The request that would put a role below itself or below a role that is below it.\<close>

fun closes_cycle :: "rbac_request \<Rightarrow> rbac_db \<Rightarrow> bool" where
  "closes_cycle (UpdateRole i c) s =
     (case ru_parent_role_id c of None \<Rightarrow> False | Some p \<Rightarrow> (p, i) \<in> (parent_ids s)\<^sup>*)"
| "closes_cycle q s = False"

lemma hierarchy_ok_kept: "hierarchy_ok s \<Longrightarrow> roles s' = roles s \<Longrightarrow> hierarchy_ok s'"
  by (simp add: hierarchy_ok_def parent_ids_def)

lemma acyclic_new_source:
  assumes "acyclic R" "x \<notin> Range (R \<union> {x} \<times> A)"
  shows "acyclic (R \<union> {x} \<times> A)"
proof -
  let ?S = "R \<union> {x} \<times> A"
  have old: "(a, b) \<in> R\<^sup>+" if "(a, b) \<in> ?S\<^sup>+" "a \<noteq> x" for a b
    using that
  proof (induction rule: converse_trancl_induct)
    case (base a)
    then show ?case by auto
  next
    case (step a c)
    then have "(a, c) \<in> R" "c \<noteq> x" using assms(2) by auto
    then show ?case using step(3) by (blast intro: trancl_into_trancl2)
  qed
  have "(a, a) \<notin> ?S\<^sup>+" for a
  proof
    assume cyc: "(a, a) \<in> ?S\<^sup>+"
    then have "a \<in> Range ?S" by (auto elim: tranclE)
    then have "a \<noteq> x" using assms(2) by auto
    from old [OF cyc this] show False using assms(1) by (simp add: acyclic_def)
  qed
  then show ?thesis by (simp add: acyclic_def)
qed

lemma hierarchy_ok_add:
  assumes ok: "hierarchy_ok s" and s': "roles s' = roles s @ [r]" and id: "ro_id r = fresh_id ro_id (roles s)"
    and parent: "\<And>p. nonzero_id (ro_parent_id r) = Some p \<Longrightarrow> p \<in> ro_id ` set (roles s)"
  shows "hierarchy_ok s'"
proof -
  have new: "ro_id r \<notin> ro_id ` set (roles s)" using fresh_id_notin [of ro_id "roles s"] id by simp
  have sub: "parent_ids s' \<subseteq> parent_ids s \<union> {ro_id r} \<times> ro_id ` set (roles s)"
    using ok parent by (auto simp: parent_ids_def s' hierarchy_ok_def)
  have "ro_id r \<notin> Range (parent_ids s \<union> {ro_id r} \<times> ro_id ` set (roles s))"
    using new by (auto simp: parent_ids_def)
  then have "acyclic (parent_ids s \<union> {ro_id r} \<times> ro_id ` set (roles s))"
    using ok new by (intro acyclic_new_source) (auto simp: hierarchy_ok_def)
  then have "acyclic (parent_ids s')" by (rule acyclic_subset [OF _ sub])
  then show ?thesis using ok parent new by (auto simp: hierarchy_ok_def s')
qed

lemma hierarchy_ok_put:
  assumes ok: "hierarchy_ok s" and s': "roles s' = put_row ro_id r' (roles s)"
    and r: "r \<in> set (roles s)" "ro_id r' = ro_id r"
    and parent: "\<And>p. nonzero_id (ro_parent_id r') = Some p \<Longrightarrow> p \<in> ro_id ` set (roles s)
       \<and> ((ro_id r, p) \<in> parent_ids s \<or> (p, ro_id r) \<notin> (parent_ids s)\<^sup>*)"
  shows "hierarchy_ok s'"
proof -
  have ids: "ro_id ` set (roles s') = ro_id ` set (roles s)"
  proof -
    have "set (map ro_id (roles s')) = set (map ro_id (roles s))" unfolding s' put_row_keys by (rule refl)
    then show ?thesis by (simp only: set_map)
  qed
  have new: "(x, p) \<in> parent_ids s \<or> x = ro_id r \<and> nonzero_id (ro_parent_id r') = Some p"
    if "(x, p) \<in> parent_ids s'" for x p
    using that r(2) unfolding parent_ids_def ids by (auto simp: s' dest!: in_put_row)
  have acy: "acyclic (parent_ids s)" using ok by (simp add: hierarchy_ok_def)
  have "acyclic (parent_ids s')"
  proof (cases "nonzero_id (ro_parent_id r')")
    case None
    then have "parent_ids s' \<subseteq> parent_ids s" using new by auto
    then show ?thesis by (rule acyclic_subset [OF acy])
  next
    case (Some p)
    then have sub: "parent_ids s' \<subseteq> insert (ro_id r, p) (parent_ids s)" using new by auto
    have "acyclic (insert (ro_id r, p) (parent_ids s))"
    proof (cases "(ro_id r, p) \<in> parent_ids s")
      case True
      then show ?thesis using acy by (simp only: insert_absorb)
    next
      case False
      then show ?thesis using acy parent [OF Some] by simp
    qed
    then show ?thesis by (rule acyclic_subset [OF _ sub])
  qed
  moreover have "p \<in> ro_id ` set (roles s')" if "q \<in> set (roles s')" "nonzero_id (ro_parent_id q) = Some p" for q p
    using that in_put_row [of q ro_id r' "roles s"] parent ok unfolding ids by (auto simp: s' hierarchy_ok_def)
  ultimately show ?thesis using ok by (auto simp: hierarchy_ok_def s')
qed

lemma parent_ids_member:
  "r \<in> set (roles s) \<Longrightarrow> hierarchy_ok s \<Longrightarrow> nonzero_id (ro_parent_id r) = Some p \<Longrightarrow>
   (ro_id r, p) \<in> parent_ids s \<and> p \<in> ro_id ` set (roles s)"
  by (auto simp: parent_ids_def hierarchy_ok_def)

lemma update_role_parent:
  assumes "update_role i c s = Inr (r', s')" "get_row ro_id i (roles s) = Some r"
  shows "roles s' = put_row ro_id r' (roles s) \<and> ro_id r' = ro_id r
    \<and> ro_parent_id r' = (case ru_parent_role_id c of None \<Rightarrow> ro_parent_id r | Some p \<Rightarrow> Some p)
    \<and> (\<forall>p. ru_parent_role_id c = Some p \<longrightarrow> Some p = ro_parent_id r \<or> get_row ro_id p (roles s) \<noteq> None)"
  using assms(1) unfolding update_role_def Let_def assms(2) option.case
  by (cases "ru_parent_role_id c"; cases "ru_permissions c"; simp add: end_sessions_def split: if_split_asm; elim conjE; hypsubst; simp; blast)

lemma duplicate_role_parent:
  assumes "duplicate_role kw i n d s = Inr (r, s')"
  shows "roles s' = roles s @ [r] \<and> ro_id r = fresh_id ro_id (roles s)
    \<and> (\<exists>q \<in> set (roles s). ro_parent_id r = kw (ro_parent_id q))"
proof -
  from assms obtain q where q: "get_row ro_id i (roles s) = Some q"
    by (auto simp: duplicate_role_def split: option.splits)
  have "roles s' = roles s @ [r] \<and> ro_id r = fresh_id ro_id (roles s) \<and> ro_parent_id r = kw (ro_parent_id q)"
    using assms unfolding duplicate_role_def Let_def q option.case
    by (simp split: if_split_asm; elim conjE; hypsubst; simp)
  with get_row_Some [OF q] show ?thesis by blast
qed

lemma create_role_parent:
  assumes "create_role c s = Inr (r, s')"
  shows "roles s' = roles s @ [r] \<and> ro_id r = fresh_id ro_id (roles s)
    \<and> (\<forall>p. nonzero_id (ro_parent_id r) = Some p \<longrightarrow> p \<in> ro_id ` set (roles s))"
  using assms unfolding create_role_def Let_def
  by (auto simp: nonzero_id_def dest!: get_row_Some split: option.splits if_splits)
lemma update_role_hierarchy:
  assumes ok: "hierarchy_ok s" and upd: "update_role i c s = Inr (r', s')"
    and orderly: "\<not> closes_cycle (UpdateRole i c) s"
  shows "hierarchy_ok s'"
proof -
  from upd obtain r where r: "get_row ro_id i (roles s) = Some r"
    by (auto simp: update_role_def split: option.splits)
  note r' = update_role_parent [OF upd r]
  have row: "r \<in> set (roles s)" "ro_id r = i" using get_row_Some [OF r] by auto
  show ?thesis
  proof (rule hierarchy_ok_put [OF ok _ row(1)])
    show "roles s' = put_row ro_id r' (roles s)" using r' by blast
    show "ro_id r' = ro_id r" using r' by simp
    show "p \<in> ro_id ` set (roles s) \<and> ((ro_id r, p) \<in> parent_ids s \<or> (p, ro_id r) \<notin> (parent_ids s)\<^sup>*)"
      if p: "nonzero_id (ro_parent_id r') = Some p" for p
    proof (cases "nonzero_id (ro_parent_id r) = Some p")
      case True
      then show ?thesis using parent_ids_member [OF row(1) ok] by blast
    next
      case False
      with p r' have c: "ru_parent_role_id c = Some p" "Some p \<noteq> ro_parent_id r"
        by (auto simp: nonzero_id_def split: option.splits if_splits)
      with r' c have "get_row ro_id p (roles s) \<noteq> None" by blast
      then have "p \<in> ro_id ` set (roles s)"
        by (force dest!: get_row_Some)
      then show ?thesis using orderly c(1) row(2) by simp
    qed
  qed
qed

lemma serve_keeps_hierarchy:
  assumes ok: "hierarchy_ok s" and orderly: "\<not> closes_cycle q s" and kw: "\<And>i. kw i = None \<or> kw i = i"
  shows "hierarchy_ok (serve_rbac kw (now, b, q) s)"
proof (cases q)
  case (CreateRole c)
  show ?thesis
  proof (cases "create_role c s")
    case (Inr x)
    obtain r s' where x: "x = (r, s')" by force
    note add = create_role_parent [OF Inr [unfolded x]]
    have "hierarchy_ok s'" by (rule hierarchy_ok_add [OF ok, of s' r]) (use add in simp_all)
    then show ?thesis using Inr x by (simp add: CreateRole)
  qed (simp add: CreateRole ok)
next
  case (UpdateRole i c)
  show ?thesis
  proof (cases "update_role i c s")
    case (Inr x)
    then show ?thesis using update_role_hierarchy [OF ok, of i c "fst x" "snd x"] orderly
      by (simp add: UpdateRole)
  qed (simp add: UpdateRole ok)
next
  case (DeleteRole i)
  show ?thesis
  proof (cases "delete_role i s")
    case (Inr s')
    then obtain r where r: "get_row ro_id i (roles s) = Some r"
      "roles s' = put_row ro_id (r\<lparr>ro_is_active := False\<rparr>) (roles s)"
      by (auto simp: delete_role_def split: option.splits if_splits)
    have "r \<in> set (roles s)" using get_row_Some [OF r(1)] by simp
    with hierarchy_ok_put [OF ok r(2) this] parent_ids_member [OF this ok] have "hierarchy_ok s'" by simp
    with Inr show ?thesis by (simp add: DeleteRole kept_tables_def)
  qed (simp add: DeleteRole ok kept_tables_def)
next
  case (DuplicateRole i n d)
  show ?thesis
  proof (cases "duplicate_role kw i n d s")
    case (Inr x)
    obtain r s' where x: "x = (r, s')" by force
    from duplicate_role_parent [OF Inr [unfolded x]] obtain q where q: "q \<in> set (roles s)"
      "ro_parent_id r = kw (ro_parent_id q)" "roles s' = roles s @ [r]" "ro_id r = fresh_id ro_id (roles s)"
      by blast
    have "p \<in> ro_id ` set (roles s)" if "nonzero_id (ro_parent_id r) = Some p" for p
    proof -
      have "nonzero_id (ro_parent_id q) = Some p"
        using that kw [of "ro_parent_id q"] by (auto simp: q(2) nonzero_id_def)
      then show ?thesis using parent_ids_member [OF q(1) ok] by blast
    qed
    from hierarchy_ok_add [OF ok q(3,4) this] show ?thesis using Inr x by (simp add: DuplicateRole)
  qed (simp add: DuplicateRole ok)
next
  case (SetPermissions i ps m)
  have "roles (kept_tables s (assign_permissions_to_role now i ps m s)) = roles s"
    by (simp add: assign_permissions_to_role_def kept_tables_def Let_def fold_revoke_tables
        split: option.split if_split)
  then show ?thesis unfolding SetPermissions serve_rbac.simps by (rule hierarchy_ok_kept [OF ok])
next
  case (AssignRole u a)
  have "roles (kept_tables s (assign_roles_to_user now b u a s)) = roles s"
    by (auto simp: assign_roles_to_user_def kept_tables_def Let_def split: option.splits)
  then show ?thesis unfolding AssignRole serve_rbac.simps by (rule hierarchy_ok_kept [OF ok])
next
  case (RemoveRole u i)
  have "roles (kept_tables s (remove_role_from_user u i s)) = roles s"
    by (auto simp: remove_role_from_user_def kept_tables_def split: option.splits)
  then show ?thesis unfolding RemoveRole serve_rbac.simps by (rule hierarchy_ok_kept [OF ok])
next
  case (TransferRole u v i r)
  have "roles (kept_tables s (transfer_role_assignment now b u v i r s)) = roles s"
    by (auto simp: transfer_role_assignment_def kept_tables_def Let_def split: option.splits)
  then show ?thesis unfolding TransferRole serve_rbac.simps by (rule hierarchy_ok_kept [OF ok])
next
  case (BulkAssign i us)
  have "roles (kept s (bulk_assign_roles now b i us s)) = roles s"
    using bulk_tables [THEN conjunct1] by (simp add: bulk_assign_roles_def)
  then show ?thesis unfolding BulkAssign serve_rbac.simps by (rule hierarchy_ok_kept [OF ok])
next
  case (Authenticate i)
  have "roles (serve_rbac kw (now, b, Authenticate i) s) = roles s"
    by (auto simp: roles_of_caller_def Let_def split: option.splits list.splits)
  then show ?thesis unfolding Authenticate by (rule hierarchy_ok_kept [OF ok])
qed

text \<open>A history in which no request puts a role below itself.\<close>

fun orderly_requests ::
    "(int option \<Rightarrow> int option) \<Rightarrow> (datetime \<times> int option \<times> rbac_request) list \<Rightarrow> rbac_db \<Rightarrow> bool" where
  "orderly_requests kw [] s = True"
| "orderly_requests kw (x # xs) s =
     (\<not> closes_cycle (snd (snd x)) s \<and> orderly_requests kw xs (serve_rbac kw x s))"

lemma run_keeps_hierarchy:
  assumes "\<And>i. kw i = None \<or> kw i = i"
  shows "hierarchy_ok s \<Longrightarrow> orderly_requests kw xs s \<Longrightarrow> hierarchy_ok (fold (serve_rbac kw) xs s)"
proof (induction xs arbitrary: s)
  case (Cons x xs)
  obtain now b q where x: "x = (now, b, q)" by (cases x) auto
  then show ?case using Cons serve_keeps_hierarchy[OF Cons.prems(1) _ assms, of q now b] by simp
qed simp

section \<open>A primary role is an assigned one\<close>

definition primary_ok :: "rbac_db \<Rightarrow> bool" where
  "primary_ok s \<longleftrightarrow> distinct (map us_id (members s))
     \<and> (\<forall>u \<in> set (members s). \<forall>i. us_role_id u = Some i \<longrightarrow> (\<exists>x \<in> set (user_roles s). linked (us_id u) i x))"

lemma primary_ok_tables:
  "primary_ok s \<Longrightarrow> members s' = members s \<Longrightarrow> user_roles s' = user_roles s \<Longrightarrow> primary_ok s'"
  by (simp add: primary_ok_def)

lemma primary_ok_more:
  "primary_ok s \<Longrightarrow> members s' = members s \<Longrightarrow>
   (\<And>x u i. x \<in> set (user_roles s) \<Longrightarrow> linked u i x \<Longrightarrow> \<exists>y \<in> set (user_roles s'). linked u i y) \<Longrightarrow> primary_ok s'"
  unfolding primary_ok_def by metis

lemma primary_ok_revoke [simp]:
  assumes "primary_ok s"
  shows "primary_ok (revoke_all_user_sessions now u s)" "primary_ok (end_sessions us s)"
proof -
  show "primary_ok (end_sessions us s)" using assms by (simp add: primary_ok_def)
  show "primary_ok (revoke_all_user_sessions now u s)"
    using assms by (auto simp: revoke_all_user_sessions_def primary_ok_def
        dest!: in_put_row get_row_Some split: option.splits)
qed

text \<open>The primary role of one user is set to an assigned role, or to none.\<close>

lemma primary_ok_set:
  assumes "distinct (map us_id (members s))"
    and "\<And>x i. x \<in> set (members s) \<Longrightarrow> us_id x \<noteq> u \<Longrightarrow> us_role_id x = Some i \<Longrightarrow>
          \<exists>y \<in> set (user_roles s). linked (us_id x) i y"
    and "\<And>i. p = Some i \<Longrightarrow> \<exists>y \<in> set (user_roles s). linked u i y"
  shows "primary_ok (set_primary u p s)"
proof -
  have "distinct (map us_id (members (set_primary u p s)))" using assms(1) by simp
  then show ?thesis using assms(2,3) by (auto simp: primary_ok_def set_primary_def split: if_splits)
qed

lemma primary_linked:
  "primary_ok s \<Longrightarrow> x \<in> set (members s) \<Longrightarrow> us_role_id x = Some i \<Longrightarrow> \<exists>y \<in> set (user_roles s). linked (us_id x) i y"
  by (auto simp: primary_ok_def)

definition pairs :: "user_role list \<Rightarrow> (int \<times> int) set" where
  "pairs ls = (\<lambda>x. (ur_user_id x, ur_role_id x)) ` set ls"

lemma linked_pairs: "(\<exists>y \<in> set ls. linked v i y) \<longleftrightarrow> (v, i) \<in> pairs ls"
  by (auto simp: pairs_def linked_def)

lemma assign_link_pairs: "pairs (assign_link now b u a ls) = insert (u, ra_role_id a) (pairs ls)"
proof (cases "list_ex (linked u (ra_role_id a)) ls")
  case True
  then have "(u, ra_role_id a) \<in> pairs ls" by (simp add: list_ex_iff flip: linked_pairs)
  moreover have "pairs (assign_link now b u a ls) = pairs ls"
    unfolding pairs_def assign_link_def if_P[OF True] set_map image_image
    by (rule image_cong) simp_all
  ultimately show ?thesis by (simp add: insert_absorb)
qed (simp add: assign_link_def pairs_def)

lemma set_primary_links: "set_primary u p s\<lparr>user_roles := l\<rparr> = set_primary u p (s\<lparr>user_roles := l\<rparr>)"
  by (cases s) (simp add: set_primary_def)

lemma primary_ok_assign:
  assumes ok: "primary_ok s" and "assign_roles_to_user now b u a s = Inr s'"
  shows "primary_ok s'"
proof -
  let ?ls = "assign_link now b u a (user_roles s)"
  have s': "s' = revoke_all_user_sessions now u (set_primary u (Some (ra_role_id a)) (s\<lparr>user_roles := ?ls\<rparr>))"
    using assms(2) by (auto simp: assign_roles_to_user_def Let_def set_primary_links split: option.splits)
  have "primary_ok (set_primary u (Some (ra_role_id a)) (s\<lparr>user_roles := ?ls\<rparr>))"
  proof (rule primary_ok_set)
    show "distinct (map us_id (members (s\<lparr>user_roles := ?ls\<rparr>)))" using ok by (simp add: primary_ok_def)
  next
    fix x i assume "x \<in> set (members (s\<lparr>user_roles := ?ls\<rparr>))" "us_role_id x = Some i"
    then show "\<exists>y \<in> set (user_roles (s\<lparr>user_roles := ?ls\<rparr>)). linked (us_id x) i y"
      using primary_linked[OF ok, of x i] by (simp add: linked_pairs assign_link_pairs)
  qed (simp add: linked_pairs assign_link_pairs)
  then show ?thesis by (simp add: s')
qed

lemma linked_other: "linked a i y \<Longrightarrow> a \<noteq> u \<or> i \<noteq> r \<Longrightarrow> \<not> linked u r y"
  by (auto simp: linked_def)

lemma replace_primary_ok:
  assumes d: "distinct (map us_id (members s))"
    and other: "\<And>x i. x \<in> set (members s) \<Longrightarrow> us_role_id x = Some i \<Longrightarrow>
        us_id x \<noteq> u \<or> i \<noteq> r \<Longrightarrow> \<exists>y \<in> set (user_roles s). linked (us_id x) i y"
  shows "primary_ok (replace_primary u r s)"
proof (cases "get_row us_id u (members s)")
  case None
  then have "\<forall>x \<in> set (members s). us_id x \<noteq> u" by (simp add: get_row_None)
  then have "primary_ok s" using d other by (simp add: primary_ok_def)
  then show ?thesis using None by (simp add: replace_primary_def)
next
  case (Some v)
  note v = get_row_Some[OF Some]
  show ?thesis
  proof (cases "us_role_id v = Some r")
    case True
    let ?l = "List.find (\<lambda>x. ur_user_id x = u \<and> ur_role_id x \<noteq> r) (user_roles s)"
    have "\<exists>y \<in> set (user_roles s). linked u i y" if "map_option ur_role_id ?l = Some i" for i
      using that find_Some[of _ "user_roles s"] by (fastforce simp: linked_def)
    then have "primary_ok (set_primary u (map_option ur_role_id ?l) s)"
      using other by (intro primary_ok_set[OF d]) auto
    then show ?thesis using True Some by (simp add: replace_primary_def)
  next
    case False
    have "v = x" if "x \<in> set (members s)" "us_id x = u" for x
      using get_row_member[OF d that(1)] that(2) Some by simp
    then have "us_id x \<noteq> u \<or> i \<noteq> r" if "x \<in> set (members s)" "us_role_id x = Some i" for x i
      using that False by blast
    then have "primary_ok s" using d other by (simp add: primary_ok_def)
    then show ?thesis using False Some by (simp add: replace_primary_def)
  qed
qed

lemma primary_ok_remove:
  assumes ok: "primary_ok s" and "remove_role_from_user u r s = Inr s'"
  shows "primary_ok s'"
proof -
  have s': "s' = end_sessions {u} (replace_primary u r
      (s\<lparr>user_roles := filter (\<lambda>x. \<not> linked u r x) (user_roles s)\<rparr>))"
    using assms(2) by (auto simp: remove_role_from_user_def split: if_splits)
  have "primary_ok (replace_primary u r (s\<lparr>user_roles := filter (\<lambda>x. \<not> linked u r x) (user_roles s)\<rparr>))"
  proof (rule replace_primary_ok)
    show "distinct (map us_id (members (s\<lparr>user_roles := filter (\<lambda>x. \<not> linked u r x) (user_roles s)\<rparr>)))"
      using ok by (simp add: primary_ok_def)
  next
    fix x i assume "x \<in> set (members (s\<lparr>user_roles := filter (\<lambda>x. \<not> linked u r x) (user_roles s)\<rparr>))"
      "us_role_id x = Some i" "us_id x \<noteq> u \<or> i \<noteq> r"
    then show "\<exists>y \<in> set (user_roles (s\<lparr>user_roles := filter (\<lambda>x. \<not> linked u r x) (user_roles s)\<rparr>)). linked (us_id x) i y"
      using primary_linked[OF ok, of x i] linked_other[of "us_id x" i _ u r] by auto
  qed
  then show ?thesis by (simp add: s')
qed

lemma primary_ok_transfer:
  assumes ok: "primary_ok s" and "transfer_role_assignment now b u v r why s = Inr s'"
  shows "primary_ok s'"
proof -
  define l where "l = transfer_link now b u v r why"
  have l: "linked v r l" by (simp add: l_def linked_def transfer_link_def)
  have s': "s' = revoke_all_user_sessions now v (revoke_all_user_sessions now u
      (replace_primary u r (set_primary v (Some r) (s\<lparr>user_roles := filter (\<lambda>x. \<not> linked u r x) (user_roles s) @ [l]\<rparr>))))"
    using assms(2) by (auto simp: transfer_role_assignment_def Let_def l_def split: if_splits)
  let ?s = "s\<lparr>user_roles := filter (\<lambda>x. \<not> linked u r x) (user_roles s) @ [l]\<rparr>"
  have "primary_ok (replace_primary u r (set_primary v (Some r) ?s))"
  proof (rule replace_primary_ok)
    show "distinct (map us_id (members (set_primary v (Some r) ?s)))" using ok by (simp add: primary_ok_def)
  next
    fix x i assume x: "x \<in> set (members (set_primary v (Some r) ?s))" "us_role_id x = Some i" "us_id x \<noteq> u \<or> i \<noteq> r"
    show "\<exists>y \<in> set (user_roles (set_primary v (Some r) ?s)). linked (us_id x) i y"
    proof (cases "us_id x = v \<and> i = r")
      case True
      then show ?thesis using l by simp
    next
      case False
      then have "\<exists>z \<in> set (members s). us_id z = us_id x \<and> us_role_id z = Some i"
        using x by (auto simp: set_primary_def split: if_splits)
      then obtain y where "y \<in> set (user_roles s)" "linked (us_id x) i y" using primary_linked[OF ok] by metis
      then show ?thesis using x(3) by (auto simp: linked_def)
    qed
  qed
  then show ?thesis by (simp add: s')
qed

lemma primary_ok_bulk_one:
  assumes ok: "primary_ok s" and l: "\<forall>v \<in> l. \<exists>y \<in> set (user_roles s). linked v r y"
  shows "primary_ok (snd (bulk_assign_one now b r l u (rs, s)))
    \<and> (\<forall>v \<in> l. \<exists>y \<in> set (user_roles (snd (bulk_assign_one now b r l u (rs, s)))). linked v r y)"
proof -
  define n where "n = \<lparr>ur_user_id = u, ur_role_id = r, ur_assigned_by = b, ur_notes = None,
    ur_effective_from = now, ur_expires_at = None\<rparr>"
  have d: "distinct (map us_id (members s))" using ok by (simp add: primary_ok_def)
  have "primary_ok (set_primary u (Some r) s)" if "u \<in> l"
    using primary_linked[OF ok] l that by (intro primary_ok_set[OF d]) auto
  moreover have "primary_ok (set_primary u (Some r) (s\<lparr>user_roles := user_roles s @ [n]\<rparr>))"
    using d primary_linked[OF ok] by (intro primary_ok_set) (auto simp: n_def linked_def)
  ultimately show ?thesis using ok l
    by (auto simp: bulk_assign_one_def n_def split: if_splits)
qed

lemma primary_ok_bulk:
  "primary_ok s \<Longrightarrow> \<forall>v \<in> l. \<exists>y \<in> set (user_roles s). linked v r y \<Longrightarrow>
   primary_ok (snd (fold (bulk_assign_one now b r l) us (rs, s)))"
proof (induction us arbitrary: rs s)
  case (Cons u us)
  obtain rs' s' where one: "bulk_assign_one now b r l u (rs, s) = (rs', s')" by force
  show ?case using primary_ok_bulk_one[OF Cons.prems, where now = now and b = b and u = u and rs = rs] Cons.IH[of s' rs'] one by simp
qed simp

lemma in_map_filter: "y \<in> set (List.map_filter f xs) \<longleftrightarrow> (\<exists>x \<in> set xs. f x = Some y)"
  by (force simp: List.map_filter_def)

lemma active_roles_linked:
  "r \<in> set (get_active_roles_for_user_id now u s) \<Longrightarrow> \<exists>y \<in> set (user_roles s). linked u (ro_id r) y"
proof -
  assume "r \<in> set (get_active_roles_for_user_id now u s)"
  then obtain x where x: "x \<in> set (user_roles s)" "ur_user_id x = u" "get_row ro_id (ur_role_id x) (roles s) = Some r"
    by (auto simp: get_active_roles_for_user_id_def in_map_filter split: if_splits option.splits)
  then show ?thesis using get_row_Some[OF x(3)] by (auto simp: linked_def)
qed

lemma primary_ok_caller:
  assumes ok: "primary_ok s" and u: "get_row us_id i (members s) = Some u"
  shows "primary_ok (snd (roles_of_caller now u s))"
proof -
  have rows: "u \<in> set (members s)" "us_id u = i" using get_row_Some[OF u] by auto
  have "\<exists>y \<in> set (user_roles s). linked (us_id u) (ro_id r) y" if "r \<in> set (roles_of_user s None u)" for r
    using that primary_linked[OF ok rows(1)]
    by (auto simp: roles_of_user_def dest: get_row_Some[OF sym] split: option.splits)
  then have best: "\<exists>y \<in> set (user_roles s). linked (us_id u) (ro_id r) y"
    if "r \<in> set (if get_active_roles_for_user_id now (us_id u) s = [] then roles_of_user s None u
        else get_active_roles_for_user_id now (us_id u) s)" for r
    using that active_roles_linked by (auto split: if_splits)
  have "primary_ok (set_primary (us_id u) (Some (ro_id r)) s)"
    if "\<exists>y \<in> set (user_roles s). linked (us_id u) (ro_id r) y" for r
    using that ok primary_linked[OF ok] by (intro primary_ok_set) (auto simp: primary_ok_def)
  then have set: "primary_ok (set_primary (us_id u) (Some (ro_id r)) s)"
    if "r \<in> set (if get_active_roles_for_user_id now (us_id u) s = [] then roles_of_user s None u
        else get_active_roles_for_user_id now (us_id u) s)" for r
    using best[OF that] by blast
  show ?thesis
  proof (cases "if get_active_roles_for_user_id now (us_id u) s = [] then roles_of_user s None u
      else get_active_roles_for_user_id now (us_id u) s")
    case Nil
    then show ?thesis using ok unfolding roles_of_caller_def Let_def Nil by simp
  next
    case (Cons r rs)
    then show ?thesis using ok set[of r] unfolding roles_of_caller_def Let_def Cons by auto
  qed
qed

lemma kept_ok: "primary_ok s \<Longrightarrow> (\<And>s'. out = Inr s' \<Longrightarrow> primary_ok s') \<Longrightarrow> primary_ok (kept_tables s out)"
  by (auto simp: kept_tables_def split: sum.splits)

text \<open>The requests on roles leave the members and the assignments alone.\<close>

lemma role_requests_frame:
  "members (kept s (create_role c s)) = members s \<and> user_roles (kept s (create_role c s)) = user_roles s"
  "members (kept s (update_role i d s)) = members s \<and> user_roles (kept s (update_role i d s)) = user_roles s"
  "members (kept_tables s (delete_role i s)) = members s \<and> user_roles (kept_tables s (delete_role i s)) = user_roles s"
  "members (kept s (duplicate_role kw i n e s)) = members s \<and> user_roles (kept s (duplicate_role kw i n e s)) = user_roles s"
  by (auto simp: create_role_def update_role_def delete_role_def duplicate_role_def kept_tables_def Let_def
      split: option.splits)

lemma primary_ok_fold_revoke:
  "primary_ok s \<Longrightarrow> primary_ok (fold (\<lambda>u. revoke_all_user_sessions now (us_id u)) us s)"
  by (induction us arbitrary: s) simp_all

lemma serve_rbac_primary:
  assumes ok: "primary_ok s"
  shows "primary_ok (serve_rbac kw (now, b, q) s)"
proof (cases q)
  case (SetPermissions i ps m)
  have "primary_ok (s\<lparr>role_permissions := l\<rparr>)" for l using ok by (simp add: primary_ok_def)
  then show ?thesis unfolding SetPermissions
    by (auto simp: assign_permissions_to_role_def Let_def intro!: kept_ok ok primary_ok_fold_revoke
        split: option.splits if_splits)
next
  case (BulkAssign i us)
  let ?l = "set (map ur_user_id (filter (\<lambda>x. ur_role_id x = i \<and> ur_user_id x \<in> set us) (user_roles s)))"
  have "\<forall>v \<in> ?l. \<exists>y \<in> set (user_roles s). linked v i y" by (auto simp: linked_def)
  then show ?thesis using primary_ok_bulk[OF ok] ok by (simp add: BulkAssign bulk_assign_roles_def)
next
  case (Authenticate i)
  then show ?thesis using ok primary_ok_caller[OF ok] by (auto split: option.splits)
qed (use ok role_requests_frame in \<open>auto intro: primary_ok_tables[OF ok] kept_ok primary_ok_assign primary_ok_remove
    primary_ok_transfer\<close>)

lemma run_primary: "primary_ok s \<Longrightarrow> primary_ok (fold (serve_rbac kw) xs s)"
proof (induction xs arbitrary: s)
  case (Cons x xs)
  obtain now b q where "x = (now, b, q)" by (cases x) auto
  then show ?case using Cons serve_rbac_primary by simp
qed simp

section \<open>Properties\<close>

definition sample_role :: "int \<Rightarrow> string \<Rightarrow> int option \<Rightarrow> role" where
  "sample_role i n p = \<lparr>ro_id = i, ro_name = n, ro_description = None, ro_category = ''system'',
     ro_level = 0, ro_parent_id = p, ro_is_system_role = False, ro_is_custom_role = True,
     ro_is_active = True, ro_scope_owner = ''global'', ro_dealer_id = None\<rparr>"

definition sample_rbac :: rbac_db where
  "sample_rbac = \<lparr>roles = [sample_role 1 ''dealer_owner'' None, sample_role 2 ''shop'' (Some 1)],
     permissions = [\<lparr>pm_id = 1, pm_slug = ''battery:view:global'', pm_module = ''battery'',
       pm_action = ''view'', pm_scope = ''global''\<rparr>],
     role_permissions = [(1, 1)],
     user_roles = [\<lparr>ur_user_id = 7, ur_role_id = 2, ur_assigned_by = None, ur_notes = None,
       ur_effective_from = 0, ur_expires_at = Some 5\<rparr>],
     members = [\<lparr>us_id = 7, us_role_id = Some 2, us_last_global_logout_at = None\<rparr>],
     login_sessions = [], access_paths = []\<rparr>"

lemma sample_parent_ids: "parent_ids sample_rbac = {(2, 1)}"
  by (simp add: parent_ids_Un sample_rbac_def sample_role_def nonzero_id_def)

lemma sample_hierarchy: "hierarchy_ok sample_rbac"
proof -
  have "acyclic (parent_ids sample_rbac)" by (simp add: sample_parent_ids) (simp add: acyclic_def)
  then show ?thesis by (simp add: hierarchy_ok_def) (simp add: sample_rbac_def sample_role_def nonzero_id_def)
qed

lemma sample_acyclic: "acyclic (parent_ids sample_rbac)"
  using sample_hierarchy by (simp add: hierarchy_ok_def)



text \<open>
  C13: Whatever administrators do to roles and assignments, re-parenting included, as long as no
  request puts a role below itself, the three walks up the hierarchy return: the listing of the
  permissions of every role, and the check and the listing of the permissions of every user.
\<close>

theorem role_walks_end:
  assumes "hierarchy_ok s" "orderly_requests keyword xs s" "\<forall>i. keyword i = None \<or> keyword i = i"
  shows "(\<exists>out. get_role_permissions i (fold (serve_rbac keyword) xs s) = Some out)
    \<and> (\<exists>out. check_user_permission cached u slug (fold (serve_rbac keyword) xs s) = Some out)
    \<and> (\<exists>out. get_user_permissions cached u (fold (serve_rbac keyword) xs s) = Some out)"
proof -
  let ?s = "fold (serve_rbac keyword) xs s"
  have "hierarchy_ok ?s" by (rule run_keeps_hierarchy) (use assms in auto)
  then have ends: "\<exists>rs. chain ?s r = Some rs" for r using chain_ends by (simp add: hierarchy_ok_def)
  have "\<exists>out. get_role_permissions i ?s = Some out"
  proof (cases "get_row ro_id i (roles ?s)")
    case (Some r)
    then show ?thesis using ends [of r] by (auto simp: get_role_permissions_def Let_def)
  qed (simp add: get_role_permissions_def)
  moreover have walk: "\<exists>g xs. check_roles ?s slug rs = Some g \<and> chains ?s rs = Some xs" for rs
    using check_roles_walk [of rs ?s slug] ends by blast
  have "(\<exists>out. check_user_permission cached u slug ?s = Some out)
    \<and> (\<exists>out. get_user_permissions cached u ?s = Some out)"
  proof (cases "get_row us_id u (members ?s)")
    case (Some m)
    from walk [of "roles_of_user ?s cached m"] obtain g xs where
      "check_roles ?s slug (roles_of_user ?s cached m) = Some g" "chains ?s (roles_of_user ?s cached m) = Some xs"
      by blast
    with Some show ?thesis by (simp add: check_user_permission_def get_user_permissions_def)
  qed (simp add: check_user_permission_def get_user_permissions_def)
  ultimately show ?thesis by blast
qed

definition sample_duplicated :: rbac_db where
  "sample_duplicated = serve_rbac (\<lambda>i. None) (0, None, DuplicateRole 2 ''copy'' None) sample_rbac"

lemma sample_duplicated_roles:
  "roles sample_duplicated = [sample_role 1 ''dealer_owner'' None, sample_role 2 ''shop'' (Some 1),
     (sample_role 3 ''copy'' None)\<lparr>ro_is_custom_role := False\<rparr>]"
  by (simp add: sample_duplicated_def sample_rbac_def sample_role_def duplicate_role_def Let_def)

lemma role_walks_end_witness:
  "\<exists>s out. s = fold (serve_rbac (\<lambda>i. None))
     [(0, None, DuplicateRole 2 ''copy'' None),
      (1, None, UpdateRole 3 \<lparr>ru_name = None, ru_description = None, ru_category = None,
         ru_level = None, ru_permissions = None, ru_parent_role_id = Some 2\<rparr>)] sample_rbac
    \<and> map ro_parent_id (roles s) = [None, Some 1, Some 2] \<and> get_role_permissions 3 s = Some out"
proof -
  let ?c = "\<lparr>ru_name = None, ru_description = None, ru_category = None,
         ru_level = None, ru_permissions = None, ru_parent_role_id = Some 2\<rparr>"
  let ?xs = "[(0, None, DuplicateRole 2 ''copy'' None), (1, None, UpdateRole 3 ?c)]"
  have ids: "parent_ids sample_duplicated = {(2, 1)}"
    by (simp add: parent_ids_Un sample_duplicated_roles sample_role_def nonzero_id_def)
  have "(2, 3) \<notin> {(2::int, 1)}\<^sup>*"
  proof
    assume "(2, 3) \<in> {(2::int, 1)}\<^sup>*"
    then show False by (cases rule: rtranclE) auto
  qed
  then have "orderly_requests (\<lambda>i. None) ?xs sample_rbac"
    by (simp add: ids del: serve_rbac.simps flip: sample_duplicated_def)
  from role_walks_end [OF sample_hierarchy this, of 3] obtain out where
    "get_role_permissions 3 (fold (serve_rbac (\<lambda>i. None)) ?xs sample_rbac) = Some out" by blast
  moreover have "fold (serve_rbac (\<lambda>i. None)) ?xs sample_rbac
      = serve_rbac (\<lambda>i. None) (1, None, UpdateRole 3 ?c) sample_duplicated"
    by (simp only: sample_duplicated_def fold.simps comp_def id_def)
  moreover have "map ro_parent_id (roles (serve_rbac (\<lambda>i. None) (1, None, UpdateRole 3 ?c) sample_duplicated))
      = [None, Some 1, Some 2]"
    by (simp add: sample_duplicated_roles update_role_def sample_role_def keep_or_def Let_def)
  ultimately show ?thesis by metis
qed

text \<open>
  The update endpoint lets a role become a child of itself or of one of its
  descendants; from then on the listing of its permissions never returns.
\<close>

lemma reparented_role_hangs:
  assumes d: "distinct (map ro_id (roles s))" and i: "get_row ro_id i (roles s) = Some r"
    and p: "get_row ro_id p (roles s) = Some q" "p \<noteq> 0" and path: "(q, r) \<in> (parent_rel s)\<^sup>*"
  shows "\<exists>r' s'. update_role i \<lparr>ru_name = None, ru_description = None, ru_category = None,
      ru_level = None, ru_permissions = None, ru_parent_role_id = Some p\<rparr> s = Inr (r', s')
    \<and> get_role_permissions i s' = None"
proof -
  let ?r = "r\<lparr>ro_parent_id := Some p\<rparr>"
  let ?s = "s\<lparr>roles := put_row ro_id ?r (roles s)\<rparr>"
  have r: "r \<in> set (roles s)" "ro_id r = i" and q: "q \<in> set (roles s)" "ro_id q = p"
    using get_row_Some[OF i] get_row_Some[OF p(1)] by auto
  have upd: "update_role i \<lparr>ru_name = None, ru_description = None, ru_category = None,
      ru_level = None, ru_permissions = None, ru_parent_role_id = Some p\<rparr> s = Inr (?r, ?s)"
    using i p by (simp add: update_role_def keep_or_def Let_def)
  have row: "get_row ro_id i (roles ?s) = Some ?r" using i r(2) by (simp add: get_put)
  have "parent_of ?s ?r = Some (if ro_id q = ro_id r then ?r else q)"
    using p q(2) r(2) by (simp add: parent_of_def nonzero_id_def get_put)
  then have "(?r, if ro_id q = ro_id r then ?r else q) \<in> parent_rel ?s" by (simp add: parent_rel_def)
  moreover have "((if ro_id q = ro_id r then ?r else q), ?r) \<in> (parent_rel ?s)\<^sup>*"
    by (rule put_parent_path[OF d r(1) _ _ path q(1)]) simp_all
  ultimately have "(?r, ?r) \<in> (parent_rel ?s)\<^sup>+" by (rule rtrancl_into_trancl2)
  then have "get_role_permissions i ?s = None"
    using row cycle_never_returns by (simp add: get_role_permissions_def)
  then show ?thesis using upd by blast
qed

lemma reparented_role_hangs_witness:
  "\<exists>r' s'. update_role 1 \<lparr>ru_name = None, ru_description = None, ru_category = None,
      ru_level = None, ru_permissions = None, ru_parent_role_id = Some 2\<rparr> sample_rbac = Inr (r', s')
    \<and> get_role_permissions 1 s' = None"
proof (rule reparented_role_hangs)
  show "get_row ro_id 1 (roles sample_rbac) = Some (sample_role 1 ''dealer_owner'' None)"
    "get_row ro_id 2 (roles sample_rbac) = Some (sample_role 2 ''shop'' (Some 1))"
    by (simp_all add: sample_rbac_def sample_role_def)
  show "(sample_role 2 ''shop'' (Some 1), sample_role 1 ''dealer_owner'' None) \<in> (parent_rel sample_rbac)\<^sup>*"
    by (intro r_into_rtrancl) (simp add: parent_rel_def parent_of_def nonzero_id_def sample_rbac_def sample_role_def)
qed (simp_all add: sample_rbac_def sample_role_def)

text \<open>
  The primary role of a user is always one that is assigned to the user, whatever
  requests administrators make and whoever signs in.
\<close>

lemma primary_role_is_assigned:
  assumes "primary_ok s" "u \<in> set (members (fold (serve_rbac keyword) xs s))" "us_role_id u = Some i"
  shows "\<exists>x \<in> set (user_roles (fold (serve_rbac keyword) xs s)). ur_user_id x = us_id u \<and> ur_role_id x = i"
  using primary_linked[OF run_primary[OF assms(1)] assms(2,3)] by (simp add: linked_def)

lemma sample_primary_ok: "primary_ok sample_rbac"
  by (simp add: primary_ok_def sample_rbac_def linked_def)

lemma primary_role_is_assigned_witness:
  "\<exists>u \<in> set (members (fold (serve_rbac (\<lambda>i. i)) [(6, None, Authenticate 7)] sample_rbac)).
     \<exists>x \<in> set (user_roles (fold (serve_rbac (\<lambda>i. i)) [(6, None, Authenticate 7)] sample_rbac)).
       ur_user_id x = us_id u"
proof -
  let ?u = "\<lparr>us_id = 7, us_role_id = Some 2, us_last_global_logout_at = None\<rparr>"
  have m: "?u \<in> set (members (fold (serve_rbac (\<lambda>i. i)) [(6, None, Authenticate 7)] sample_rbac))"
    by (simp add: sample_rbac_def sample_role_def roles_of_caller_def get_active_roles_for_user_id_def
        in_force_def roles_of_user_def List.map_filter_def Let_def)
  show ?thesis using primary_role_is_assigned[OF sample_primary_ok m, of 2] by (intro bexI[OF _ m]) auto
qed

text \<open>
  An assignment counts outside its period: a user whose only assignment has expired,
  or has not begun, still makes requests with that role.
\<close>

lemma assignment_counts_outside_period:
  assumes "get_row us_id i (members s) = Some u" "us_role_id u = Some r"
    and "get_row ro_id r (roles s) = Some role"
    and "\<forall>x \<in> set (user_roles s). ur_user_id x = i \<longrightarrow> \<not> in_force now x"
  shows "roles_of_caller now u s = ([role], s)"
proof -
  have "us_id u = i" "ro_id role = r" using get_row_Some[OF assms(1)] get_row_Some[OF assms(3)] by auto
  moreover have "get_active_roles_for_user_id now i s = []"
  proof -
    have "x \<notin> set (get_active_roles_for_user_id now i s)" for x
      using assms(4) by (auto simp: get_active_roles_for_user_id_def in_map_filter split: if_splits option.splits)
    then show ?thesis by (cases "get_active_roles_for_user_id now i s") auto
  qed
  ultimately show ?thesis using assms(2,3) by (simp add: roles_of_caller_def roles_of_user_def Let_def)
qed

lemma assignment_counts_outside_period_witness:
  "\<exists>r. fst (roles_of_caller 6 \<lparr>us_id = 7, us_role_id = Some 2, us_last_global_logout_at = None\<rparr> sample_rbac) = [r]"
  using assignment_counts_outside_period[of 7 sample_rbac
      "\<lparr>us_id = 7, us_role_id = Some 2, us_last_global_logout_at = None\<rparr>" 2 _ 6]
  by (simp add: sample_rbac_def sample_role_def in_force_def)

text \<open>The listing of a user's roles raises for every user who has an active role assigned.\<close>

lemma user_roles_never_listed:
  assumes "get_row us_id i (members s) \<noteq> None" "x \<in> set (user_roles s)" "ur_user_id x = i"
    and "get_row ro_id (ur_role_id x) (roles s) = Some r" "ro_is_active r"
  shows "\<exists>d. get_user_roles i s = Inl (TypeError d)"
proof -
  have raises: "\<exists>d. map_res g ys = Inl (TypeError d)"
    if "\<And>y. y \<in> set ys \<Longrightarrow> (\<exists>v. g y = Inr v) \<or> (\<exists>d. g y = Inl (TypeError d))"
      "y \<in> set ys" "\<exists>d. g y = Inl (TypeError d)"
    for g :: "user_role \<times> role \<Rightarrow> (int \<times> bool) res" and ys y
    using that
  proof (induction ys)
    case (Cons z zs)
    show ?case
    proof (cases "g z")
      case (Inl e)
      then show ?thesis using Cons.prems(1)[of z] by auto
    next
      case (Inr v)
      then have "y \<in> set zs" using Cons.prems(2,3) by auto
      then obtain d where "map_res g zs = Inl (TypeError d)" using Cons by (meson list.set_intros(2))
      then show ?thesis using Inr by simp
    qed
  qed simp
  show ?thesis
    unfolding get_user_roles_def if_not_P[OF assms(1)]
    by (rule raises[where y = "(x, r)"]) (use assms in \<open>auto simp: in_map_filter\<close>)
qed

end
