(* ===== verification/SwapClaims.thy ===== *)
theory SwapClaims
  imports RentalInv
begin

text \<open>
  Properties of the swaps: what a completed session does to the rental and the two batteries,
  why no session is ever opened, and how the downtimes of a station are kept apart.
\<close>

section \<open>Completing a session\<close>

lemma complete_swapE:
  assumes "complete_swap now u operator i c s = Inr (x', s')"
  obtains x rid r new rs where "get_row ss_id i (swaps s) = Some x" "ss_rental_id x = Some rid"
    "get_row rn_id rid (rentals (sw_rentals s)) = Some r" "rn_status r = ''active''"
    "execute_swap now rid new (ss_station_id x) (sw_rentals s) = Inr rs"
    "ss_user_id x = u \<or> operator" "ss_status x \<noteq> ''completed''"
    "x' = x\<lparr>ss_new_battery_id := Some new, ss_old_battery_soc := sc_old_battery_soc c,
       ss_new_battery_soc := sc_new_battery_soc c, ss_swap_amount := 0, ss_status := ''completed'',
       ss_payment_status := ''paid'', ss_completed_at := Some now\<rparr>"
    "s' = s\<lparr>sw_rentals := rs, swaps := put_row ss_id x' (swaps s)\<rparr>"
  using assms by (auto simp: complete_swap_def calculate_swap_fee_def Let_def
      split: option.splits sum.splits exn.splits if_splits)

text \<open>The rental of a swap goes on with the new battery; the old one is back at the station.\<close>

lemma execute_swap_exchange:
  assumes inv: "rental_inv cfg s" and ok: "execute_swap now i bid st s = Inr s'"
  obtains r where "get_row rn_id i (rentals s) = Some r" "bid \<noteq> rn_battery_id r"
    "get_row rn_id i (rentals s') = Some (r\<lparr>rn_battery_id := bid\<rparr>)"
    "\<exists>b. get_row b_id (rn_battery_id r) (batteries (rn_fleet s')) = Some b \<and> b_status b = ''available''
       \<and> station_battery st b"
    "\<exists>b. get_row b_id bid (batteries (rn_fleet s')) = Some b \<and> b_status b = ''deployed''
       \<and> b_location_type b = Some ''customer''"
  using ok
proof (cases rule: execute_swapE)
  case (1 r old b f1 b1 t1 t2)
  have r: "r \<in> set (rentals s)" "rn_id r = i" using get_row_Some[OF 1(1)] by auto
  have old: "old \<in> set (batteries (rn_fleet s))" "b_id old = rn_battery_id r" using get_row_Some[OF 1(3)] by auto
  have b1: "b1 \<in> set (batteries f1)" "b_id b1 = bid" using get_row_Some[OF 1(9)] by auto
  have "occupied (rn_fleet s) (rn_battery_id r)" using inv r 1(2) by (simp add: rental_inv_def is_open_def)
  then have ne: "bid \<noteq> rn_battery_id r" using 1(4,5) by (auto simp: occupied_def)
  note g1 = transition_get[OF 1(8) old(1)] and g2 = transition_get[OF 1(11) b1(1)]
  have "get_row b_id (rn_battery_id r) (batteries (rn_fleet s')) = Some (moved_battery old t1 (serial_key old) now)"
    using g1[of "rn_battery_id r"] g2[of "rn_battery_id r"] old(2) b1(2) ne by simp
  then have returned: "\<exists>b. get_row b_id (rn_battery_id r) (batteries (rn_fleet s')) = Some b \<and> b_status b = ''available''
       \<and> station_battery st b"
    by (simp add: 1(7) station_battery_def transition_to_def target_status_def target_location_type_def
        target_location_id_def location_types_without_id_def)
  have out: "\<exists>b. get_row b_id bid (batteries (rn_fleet s')) = Some b \<and> b_status b = ''deployed''
       \<and> b_location_type b = Some ''customer''"
    using g2[of bid] b1(2) by (simp add: 1(10) transition_to_def target_status_def target_location_type_def)
  have "get_row rn_id i (rentals s') = Some (r\<lparr>rn_battery_id := bid\<rparr>)"
    using get_put_same[of rn_id "r\<lparr>rn_battery_id := bid\<rparr>" "rentals s"] 1(1,12) r(2) by simp
  with returned out ne 1(1) show thesis using that by blast
qed

section \<open>Downtimes\<close>

text \<open>Two downtimes of a station, both with an end, that have an instant in common.\<close>

definition clash :: "downtime \<Rightarrow> downtime \<Rightarrow> bool" where
  "clash d e \<longleftrightarrow> dt_station_id d = dt_station_id e \<and>
     (case (dt_end_time d, dt_end_time e) of
        (Some de, Some ee) \<Rightarrow> dt_start_time d < ee \<and> dt_start_time e < de
      | _ \<Rightarrow> False)"

definition apart :: "swap_db \<Rightarrow> bool" where
  "apart s \<longleftrightarrow> sorted_wrt (\<lambda>d e. \<not> clash d e) (downtimes s)"

lemma schedule_keeps_apart:
  assumes "apart s" "schedule_maintenance st dealer t1 t2 why s = Inr s'"
  shows "apart s'"
proof -
  have "\<not> list_ex (overlaps st t1 t2) (downtimes s)"
    and s': "downtimes s' = downtimes s @ [\<lparr>dt_station_id = st, dt_start_time = t1, dt_end_time = t2, dt_reason = why\<rparr>]"
    using assms(2) by (auto simp: schedule_maintenance_def split: sum.splits if_splits)
  then have "\<not> clash d \<lparr>dt_station_id = st, dt_start_time = t1, dt_end_time = t2, dt_reason = why\<rparr>"
    if "d \<in> set (downtimes s)" for d
    using that by (auto simp: list_ex_iff clash_def overlaps_def split: option.splits)
  then show ?thesis using assms(1) by (simp add: apart_def s' sorted_wrt_append)
qed

text \<open>A request to a dealer's calendar: the station, the dealer, start, end and reason.\<close>

definition schedule_request ::
    "int \<times> int \<times> datetime \<times> datetime option \<times> string \<Rightarrow> swap_db \<Rightarrow> swap_db" where
  "schedule_request = (\<lambda>(st, dealer, t1, t2, why) s.
     case schedule_maintenance st dealer t1 t2 why s of Inl e \<Rightarrow> s | Inr s' \<Rightarrow> s')"

lemma schedule_run: "apart s \<Longrightarrow> apart (fold schedule_request qs s)"
proof (induction qs arbitrary: s)
  case (Cons q qs)
  have "apart (schedule_request q s)" using Cons.prems
    by (auto simp: schedule_request_def intro: schedule_keeps_apart split: sum.splits prod.splits)
  then show ?case using Cons.IH by simp
qed simp

text \<open>The gap of the check: a downtime without an end is overlapped by any later one.\<close>

lemma open_ended_downtime_is_overlapped:
  assumes "get_dealer_station st dealer s = Inr t" "downtimes s = [d]" "dt_station_id d = st" "dt_end_time d = None"
  shows "\<exists>s'. schedule_maintenance st dealer t1 (Some t2) why s = Inr s'"
  using assms by (simp add: schedule_maintenance_def overlaps_def)

section \<open>A concrete swap\<close>

definition sample_swap :: swap_db where
  "sample_swap = \<lparr>sw_rentals = sample_start\<lparr>
       rn_fleet := sample_fleet\<lparr>batteries :=
         [(sample_battery 1 ''A'')\<lparr>b_status := ''deployed'', b_location_type := Some ''customer'', b_location_id := None\<rparr>,
          (sample_battery 2 ''B'')\<lparr>b_location_type := Some ''station'', b_location_id := Some 1, b_station_id := Some 1\<rparr>],
         stations := [\<lparr>st_id = 1, st_status = ''active'', st_is_deleted = False, st_dealer_id = Some 5\<rparr>]\<rparr>,
       rentals := [\<lparr>rn_id = 4, rn_user_id = 7, rn_battery_id = 1, rn_start_station_id = 1, rn_end_station_id = None,
         rn_start_time = 0, rn_expected_end_time = 9, rn_end_time = None, rn_total_amount = 0,
         rn_security_deposit = 0, rn_status = ''active'', rn_created_at = 0\<rparr>]\<rparr>,
     swaps = [\<lparr>ss_id = 3, ss_rental_id = Some 4, ss_user_id = 7, ss_station_id = 1, ss_old_battery_id = Some 1,
       ss_new_battery_id = Some 2, ss_old_battery_soc = 10, ss_new_battery_soc = 0, ss_swap_amount = 0,
       ss_status = ''initiated'', ss_payment_status = ''pending'', ss_created_at = 0, ss_completed_at = None\<rparr>],
     downtimes = []\<rparr>"

definition sample_complete :: swap_complete where
  "sample_complete = \<lparr>sc_new_battery_id = 0, sc_new_battery_soc = 95, sc_old_battery_soc = 12\<rparr>"

lemma sample_swap_inv: "rental_inv sample_cfg_rentals (sw_rentals sample_swap)"
  by (simp add: rental_inv_def fleet_eval sample_start_def sample_swap_def sample_cfg_rentals_def open_of_user_def
      is_open_def occupied_def)

lemma sample_completed: "\<exists>x s'. complete_swap 5 7 False 3 sample_complete sample_swap = Inr (x, s')"
proof -
  have "(case complete_swap 5 7 False 3 sample_complete sample_swap of Inl e \<Rightarrow> False | Inr xs \<Rightarrow> True)" by code_simp
  then show ?thesis by (auto split: sum.splits)
qed

section \<open>Properties\<close>

text \<open>
  C17: A completed swap exchanges exactly the two batteries: the rental goes on with another
  battery, which is with the customer, the one it had is available at the station of the
  session, and the invariant of the rentals is kept.
\<close>

theorem completed_swap_exchanges_batteries:
  assumes "rental_inv cfg (sw_rentals s)" "complete_swap now u operator i c s = Inr (x, s')"
  shows "\<exists>r new. ss_rental_id x = Some (rn_id r) \<and> get_row rn_id (rn_id r) (rentals (sw_rentals s)) = Some r
    \<and> ss_new_battery_id x = Some new \<and> new \<noteq> rn_battery_id r
    \<and> get_row rn_id (rn_id r) (rentals (sw_rentals s')) = Some (r\<lparr>rn_battery_id := new\<rparr>)
    \<and> (\<exists>b. get_row b_id (rn_battery_id r) (batteries (rn_fleet (sw_rentals s'))) = Some b
         \<and> b_status b = ''available'' \<and> station_battery (ss_station_id x) b)
    \<and> (\<exists>b. get_row b_id new (batteries (rn_fleet (sw_rentals s'))) = Some b
         \<and> b_status b = ''deployed'' \<and> b_location_type b = Some ''customer'')
    \<and> rental_inv cfg (sw_rentals s') \<and> get_row ss_id i (swaps s') = Some x \<and> ss_status x = ''completed''"
  using assms(2)
proof (cases rule: complete_swapE)
  case (1 x0 rid r new rs)
  have x: "ss_id x0 = i" "get_row ss_id i (put_row ss_id x (swaps s)) = Some x"
    using get_row_Some[OF 1(1)] get_put_same[of ss_id x "swaps s"] 1(1,8) by auto
  obtain q where "get_row rn_id rid (rentals (sw_rentals s)) = Some q" "new \<noteq> rn_battery_id q"
    "get_row rn_id rid (rentals rs) = Some (q\<lparr>rn_battery_id := new\<rparr>)"
    "\<exists>b. get_row b_id (rn_battery_id q) (batteries (rn_fleet rs)) = Some b \<and> b_status b = ''available''
       \<and> station_battery (ss_station_id x0) b"
    "\<exists>b. get_row b_id new (batteries (rn_fleet rs)) = Some b \<and> b_status b = ''deployed''
       \<and> b_location_type b = Some ''customer''"
    by (rule execute_swap_exchange[OF assms(1) 1(5)])
  moreover have "rental_inv cfg rs" by (rule execute_swap_inv[OF assms(1) 1(5)])
  moreover have "rn_id q = rid" using get_row_Some[OF calculation(1)] by simp
  ultimately show ?thesis using 1(2,8,9) x(2) by (intro exI[of _ q] exI[of _ new]) simp
qed

lemma completed_swap_exchanges_batteries_witness:
  "\<exists>x s' r. complete_swap 5 7 False 3 sample_complete sample_swap = Inr (x, s')
     \<and> get_row rn_id (rn_id r) (rentals (sw_rentals sample_swap)) = Some r
     \<and> rental_inv sample_cfg_rentals (sw_rentals s') \<and> ss_status x = ''completed''"
  using sample_completed completed_swap_exchanges_batteries[OF sample_swap_inv] by blast

text \<open>
  No swap is ever opened: the guard reads a column that the model of a station does not
  have, so that the request of a station that is up raises, and every other is refused.
\<close>

lemma swap_never_opens:
  "\<exists>e. initiate_swap now u c s = Inl e \<and>
     (get_row st_id (si_station_id c) (stations (rn_fleet (sw_rentals s))) \<noteq> None \<and>
      List.find (down_now now (si_station_id c)) (downtimes s) = None
      \<longrightarrow> e = AttributeError ''opening_hours'')"
  by (auto simp: initiate_swap_def is_station_operational_def split: option.splits)

lemma swap_never_opens_witness:
  "initiate_swap 5 7 \<lparr>si_station_id = 1, si_rental_id = None, si_new_battery_id = Some 2, si_preferred_battery_type = None\<rparr>
     sample_swap = Inl (AttributeError ''opening_hours'')"
proof -
  let ?c = "\<lparr>si_station_id = 1, si_rental_id = None, si_new_battery_id = Some 2, si_preferred_battery_type = None\<rparr>"
  have "get_row st_id (si_station_id ?c) (stations (rn_fleet (sw_rentals sample_swap))) \<noteq> None"
    "List.find (down_now 5 (si_station_id ?c)) (downtimes sample_swap) = None"
    by (simp_all add: sample_swap_def)
  with swap_never_opens[of 5 7 ?c sample_swap] show ?thesis by blast
qed

text \<open>
  However the dealers schedule maintenance, no two downtimes of a station that have an
  end overlap.
\<close>

lemma downtimes_stay_apart:
  assumes "apart s"
  shows "sorted_wrt (\<lambda>d e. \<not> clash d e) (downtimes (fold schedule_request qs s))"
  using schedule_run[OF assms] by (simp add: apart_def)

lemma downtimes_stay_apart_witness:
  "sorted_wrt (\<lambda>d e. \<not> clash d e) (downtimes (fold schedule_request [(1, 5, 0, Some 10, ''x''), (1, 5, 8, Some 12, ''y'')] sample_swap))
   \<and> length (downtimes (fold schedule_request [(1, 5, 0, Some 10, ''x''), (1, 5, 8, Some 12, ''y'')] sample_swap)) = 1"
proof -
  have "apart sample_swap" by (simp add: apart_def sample_swap_def)
  from downtimes_stay_apart[OF this] show ?thesis
    by (simp add: schedule_request_def schedule_maintenance_def get_dealer_station_def overlaps_def sample_swap_def)
qed

end
