(* ===== verification/Idempotency.thy ===== *)
theory Idempotency
  imports PyStr
begin

text \<open>
  Idempotency keys (\<open>app/services/idempotency_service.py\<close>, \<open>app/models/idempotency.py\<close>) and the
  way every endpoint uses them: look for a recorded answer, else run, record the answer in the
  same transaction, commit. The codec of JSON is a parameter: \<open>enc\<close> writes a response into the
  column, \<open>dec\<close> reads it back; the fingerprint of a request (a SHA-256 of its canonical JSON)
  is computed by the caller. The branch of a concurrent insert is left out: requests are
  served one at a time.
\<close>

section \<open>The service\<close>

record 'j idem_row =
  ik_user_id :: int
  ik_key :: string
  ik_request_method :: string
  ik_request_path :: string
  ik_request_fingerprint :: string
  ik_response_status_code :: int
  ik_response_payload :: 'j
  ik_expires_at :: datetime

type_synonym scope = "int \<times> string \<times> string \<times> string"

definition scope_of :: "'j idem_row \<Rightarrow> scope" where
  "scope_of x = (ik_user_id x, ik_key x, ik_request_method x, ik_request_path x)"

definition normalize_idempotency_key :: "string option \<Rightarrow> string option res" where
  "normalize_idempotency_key raw_key =
     (case raw_key of
        None \<Rightarrow> Inr None
      | Some raw \<Rightarrow>
          let key = py_strip raw
          in if key = [] then Inr None
             else if 128 < length key then
               Inl (HTTPException 400 ''Idempotency-Key too long (max 128 chars)'')
             else Inr (Some key))"

definition reuse_error :: exn where
  "reuse_error = HTTPException 409 ''Idempotency-Key reuse with different request payload is not allowed''"

text \<open>An expired record is deleted and the deletion committed at once.\<close>

definition get_idempotent_replay ::
    "('j \<Rightarrow> 'r option) \<Rightarrow> datetime \<Rightarrow> scope \<Rightarrow> string \<Rightarrow> 'j idem_row list \<Rightarrow>
     'r option res \<times> 'j idem_row list" where
  "get_idempotent_replay dec now sc request_fingerprint rows =
     (case List.find (\<lambda>x. scope_of x = sc) rows of
        None \<Rightarrow> (Inr None, rows)
      | Some x \<Rightarrow>
          if ik_expires_at x \<le> now then (Inr None, remove1 x rows)
          else if ik_request_fingerprint x \<noteq> request_fingerprint then (Inl reuse_error, rows)
          else case dec (ik_response_payload x) of
                 None \<Rightarrow> (Inl (HTTPException 500 ''Stored idempotent response is corrupted''), rows)
               | Some r \<Rightarrow> (Inr (Some r), rows))"

definition record_idempotent_response ::
    "('r \<Rightarrow> 'j) \<Rightarrow> datetime \<Rightarrow> scope \<Rightarrow> string \<Rightarrow> int \<Rightarrow> 'r \<Rightarrow> 'j idem_row list \<Rightarrow> 'j idem_row list res" where
  "record_idempotent_response enc now sc request_fingerprint response_status_code response rows =
     (case List.find (\<lambda>x. scope_of x = sc) rows of
        Some x \<Rightarrow> if ik_request_fingerprint x \<noteq> request_fingerprint then Inl reuse_error else Inr rows
      | None \<Rightarrow>
          (case sc of (user_id, key, request_method, request_path) \<Rightarrow>
             Inr (rows @ [\<lparr>ik_user_id = user_id, ik_key = key, ik_request_method = request_method,
               ik_request_path = request_path, ik_request_fingerprint = request_fingerprint,
               ik_response_status_code = response_status_code, ik_response_payload = enc response,
               ik_expires_at = now + 48 * hour\<rparr>])))"

section \<open>An endpoint with a key\<close>

text \<open>
  What an endpoint does around its own work \<open>run\<close>: an exception of the work, or of the recording,
  rolls back what the work has written; a deletion by the replay stays. Most endpoints look for the
  replay before anything else. Two ask the database first, \<open>receive_manifest\<close> for its warehouse and
  the assignment to a shelf for the shelf and its warehouse, and refuse before the replay when what
  they look for is not there: what follows describes them from the replay on.
\<close>

definition idempotent ::
    "('j \<Rightarrow> 'r option) \<Rightarrow> ('r \<Rightarrow> 'j) \<Rightarrow> datetime \<Rightarrow> int \<Rightarrow> string option \<Rightarrow> string \<Rightarrow> string \<Rightarrow> string \<Rightarrow>
     ('s \<Rightarrow> ('r \<times> 's) res) \<Rightarrow> 'j idem_row list \<times> 's \<Rightarrow> 'r res \<times> 'j idem_row list \<times> 's" where
  "idempotent dec enc now user_id raw_key request_method request_path fingerprint run = (\<lambda>(rows, s).
     case normalize_idempotency_key raw_key of
       Inl e \<Rightarrow> (Inl e, rows, s)
     | Inr None \<Rightarrow> (case run s of Inl e \<Rightarrow> (Inl e, rows, s) | Inr (r, s') \<Rightarrow> (Inr r, rows, s'))
     | Inr (Some key) \<Rightarrow>
         let sc = (user_id, key, request_method, request_path)
         in case get_idempotent_replay dec now sc fingerprint rows of
              (Inl e, rows1) \<Rightarrow> (Inl e, rows1, s)
            | (Inr (Some r), rows1) \<Rightarrow> (Inr r, rows1, s)
            | (Inr None, rows1) \<Rightarrow>
                (case run s of
                   Inl e \<Rightarrow> (Inl e, rows1, s)
                 | Inr (r, s') \<Rightarrow>
                     (case record_idempotent_response enc now sc fingerprint 200 r rows1 of
                        Inl e \<Rightarrow> (Inl e, rows1, s)
                      | Inr rows2 \<Rightarrow> (Inr r, rows2, s'))))"

section \<open>The specification: at most one run for a key\<close>

text \<open>
  The ledger of answers: for a scope, the fingerprint of the request that was answered and the
  answer. A request runs when its scope has no answer, and is answered from the ledger, or
  refused for another fingerprint, when it has.
\<close>

type_synonym 'r ledger = "scope \<Rightarrow> (string \<times> 'r) option"

definition once ::
    "scope \<Rightarrow> string \<Rightarrow> ('s \<Rightarrow> ('r \<times> 's) res) \<Rightarrow> 'r ledger \<times> 's \<Rightarrow> 'r res \<times> 'r ledger \<times> 's" where
  "once sc f run = (\<lambda>(l, s).
     case l sc of
       Some (f', r) \<Rightarrow> if f' = f then (Inr r, l, s) else (Inl reuse_error, l, s)
     | None \<Rightarrow> (case run s of Inl e \<Rightarrow> (Inl e, l, s) | Inr (r, s') \<Rightarrow> (Inr r, l(sc \<mapsto> (f, r)), s')))"

text \<open>The ledger that the table stands for at a time.\<close>

definition ledger_of :: "('j \<Rightarrow> 'r option) \<Rightarrow> datetime \<Rightarrow> 'j idem_row list \<Rightarrow> 'r ledger" where
  "ledger_of dec now rows sc =
     (case List.find (\<lambda>x. scope_of x = sc) rows of
        None \<Rightarrow> None
      | Some x \<Rightarrow> if ik_expires_at x \<le> now then None
                  else map_option (Pair (ik_request_fingerprint x)) (dec (ik_response_payload x)))"

definition idem_inv :: "('j \<Rightarrow> 'r option) \<Rightarrow> 'j idem_row list \<Rightarrow> bool" where
  "idem_inv dec rows \<longleftrightarrow> distinct (map scope_of rows) \<and> (\<forall>x \<in> set rows. dec (ik_response_payload x) \<noteq> None)"

lemma find_scope: "List.find (\<lambda>x. scope_of x = sc) rows = get_row scope_of sc rows"
  by (simp add: get_row_def)

lemma get_remove1:
  assumes "distinct (map scope_of rows)" "get_row scope_of sc rows = Some x"
  shows "get_row scope_of sc' (remove1 x rows) = (if sc' = sc then None else get_row scope_of sc' rows)"
  using assms
proof (induction rows)
  case (Cons y ys)
  show ?case
  proof (cases "y = x")
    case True
    then have "scope_of x = sc" "sc \<notin> scope_of ` set ys"
      using Cons.prems(1) get_row_Some[OF Cons.prems(2)] by auto
    then show ?thesis using True by (auto simp: get_row_None image_iff)
  next
    case False
    then have "scope_of y \<noteq> sc" using Cons.prems(2) by (auto split: if_splits)
    then show ?thesis using Cons False by auto
  qed
qed simp

lemma distinct_scopes_remove1: "distinct (map scope_of xs) \<Longrightarrow> distinct (map scope_of (remove1 a xs))"
  using set_remove1_subset[of a] by (induction xs) (auto simp: image_iff)

lemma replay_cases [consumes 2, case_names found reused run]:
  assumes "idem_inv dec rows" "get_idempotent_replay dec now sc f rows = (out, rows')"
  obtains r where "ledger_of dec now rows sc = Some (f, r)" "out = Inr (Some r)" "rows' = rows"
  | f' r where "ledger_of dec now rows sc = Some (f', r)" "f' \<noteq> f" "out = Inl reuse_error" "rows' = rows"
  | "ledger_of dec now rows sc = None" "out = Inr None" "idem_inv dec rows'"
    "get_row scope_of sc rows' = None" "ledger_of dec now rows' = ledger_of dec now rows"
    "\<And>sc'. sc' \<noteq> sc \<Longrightarrow> get_row scope_of sc' rows' = get_row scope_of sc' rows"
proof (cases "get_row scope_of sc rows")
  case None
  then show thesis using that(3) assms by (simp add: get_idempotent_replay_def ledger_of_def find_scope)
next
  case (Some x)
  have x: "x \<in> set rows" "scope_of x = sc" using get_row_Some[OF Some] by auto
  have d: "distinct (map scope_of rows)" using assms(1) by (simp add: idem_inv_def)
  note rem = get_remove1[OF d Some]
  show thesis
  proof (cases "ik_expires_at x \<le> now")
    case True
    have "idem_inv dec (remove1 x rows)"
      using assms(1) set_remove1_subset[of x rows] by (auto simp: idem_inv_def distinct_scopes_remove1)
    moreover have "ledger_of dec now (remove1 x rows) = ledger_of dec now rows"
      using True Some by (auto simp: fun_eq_iff ledger_of_def find_scope rem)
    ultimately show ?thesis using that(3) True Some assms(2) rem
      by (simp add: get_idempotent_replay_def ledger_of_def find_scope)
  next
    case False
    obtain r where "dec (ik_response_payload x) = Some r" using assms(1) x(1) by (auto simp: idem_inv_def)
    then show ?thesis using that(1,2) False Some assms(2)
      by (cases "ik_request_fingerprint x = f") (simp_all add: get_idempotent_replay_def ledger_of_def find_scope)
  qed
qed

lemma record_fresh:
  assumes "get_row scope_of sc rows = None"
  obtains x where "record_idempotent_response enc now sc f 200 r rows = Inr (rows @ [x])" "scope_of x = sc"
    "ik_request_fingerprint x = f" "ik_response_payload x = enc r" "ik_expires_at x = now + 48 * hour"
proof -
  obtain u k m p where sc: "sc = (u, k, m, p)" by (cases sc) auto
  have "List.find (\<lambda>x. scope_of x = sc) rows = None" using assms by (simp add: find_scope)
  then show thesis
    by (intro that[of "\<lparr>ik_user_id = u, ik_key = k, ik_request_method = m, ik_request_path = p,
        ik_request_fingerprint = f, ik_response_status_code = 200, ik_response_payload = enc r,
        ik_expires_at = now + 48 * hour\<rparr>"])
      (simp_all add: record_idempotent_response_def sc, simp add: scope_of_def)
qed

end
