(* ===== verification/Manifests.thy ===== *)
theory Manifests
  imports Fleet Idempotency
begin

text \<open>
  Manifests (\<open>app/api/v1/manifests.py\<close>): the list of batteries that a factory ships, received item
  by item at a warehouse. Receiving an item moves its battery into the warehouse, and creates the
  battery when its serial is unknown; a manifest is processed once nothing is outstanding. The
  three endpoints that write are guarded by an idempotency key; \<open>fingerprint\<close> is the SHA-256 of
  the canonical JSON of the normalised request. The QR identity of a battery is left out.
\<close>

section \<open>Tables\<close>

record manifest =
  mf_id :: string
  mf_source :: string
  mf_date :: datetime
  mf_status :: string
  mf_created_at :: datetime

record manifest_item =
  mi_id :: int
  mi_manifest_id :: string
  mi_battery_id :: string
  mi_battery_table_id :: "int option"
  mi_type :: string
  mi_status :: string

record intake_db =
  in_fleet :: fleet
  manifests :: "manifest list"
  manifest_items :: "manifest_item list"

section \<open>Normalising a request\<close>

definition manifest_id_char :: "char \<Rightarrow> bool" where
  "manifest_id_char c \<longleftrightarrow> (let n = of_char c :: nat in 65 \<le> n \<and> n \<le> 90) \<or> digit_char c"

definition valid_manifest_id :: "string \<Rightarrow> bool" where
  "valid_manifest_id s \<longleftrightarrow> (case s of
      [] \<Rightarrow> False
    | c # cs \<Rightarrow> manifest_id_char c \<and> length cs \<le> 127
        \<and> list_all (\<lambda>d. manifest_id_char d \<or> d \<in> set ''._:-'') cs)"

definition normalize_manifest_id :: "string \<Rightarrow> string res" where
  "normalize_manifest_id raw =
     (let manifest_id = py_upper (py_strip raw)
      in if manifest_id = [] then Inl (HTTPException 400 ''{field_name} must be a non-empty string'')
         else if \<not> valid_manifest_id manifest_id then
           Inl (HTTPException 400 ''{field_name} has invalid format'')
         else Inr manifest_id)"

definition bounded_text :: "int \<Rightarrow> string \<Rightarrow> string res" where
  "bounded_text limit raw =
     (let s = py_strip raw
      in if s = [] then Inl (HTTPException 400 ''{field_name} is required'')
         else if limit < int (length s) then Inl (HTTPException 400 ''{field_name} is too long'')
         else Inr s)"

definition normalize_manifest_source :: "string \<Rightarrow> string res" where
  "normalize_manifest_source raw_source = bounded_text 255 raw_source"

definition normalize_manifest_item_type :: "string \<Rightarrow> string res" where
  "normalize_manifest_item_type raw_type = bounded_text 120 raw_type"

text \<open>\<open>' '.join(s.split())\<close>: runs of blanks become one.\<close>

fun split_words :: "string \<Rightarrow> string \<Rightarrow> string list" where
  "split_words word [] = (if word = [] then [] else [word])"
| "split_words word (c # cs) =
     (if is_space c then (if word = [] then split_words [] cs else word # split_words [] cs)
      else split_words (word @ [c]) cs)"

fun join_blank :: "string list \<Rightarrow> string" where
  "join_blank [] = []"
| "join_blank [w] = w"
| "join_blank (w # ws) = w @ '' '' @ join_blank ws"

definition manifest_status_canonical_map :: "(string \<times> string) list" where
  "manifest_status_canonical_map =
     [(''IN TRANSIT'', ''In Transit''), (''IN PROGRESS'', ''In Progress''),
      (''RECEIVED'', ''Received''), (''PROCESSED'', ''Processed'')]"

definition normalize_manifest_status :: "string \<Rightarrow> string res" where
  "normalize_manifest_status raw_status =
     (let normalized = join_blank (split_words []
            (py_upper (replace_char CHR ''-'' '' '' (replace_char CHR ''_'' '' '' (py_strip raw_status)))))
      in case map_of manifest_status_canonical_map normalized of
           None \<Rightarrow> Inl (HTTPException 400 ''Invalid {field_name}'')
         | Some s \<Rightarrow> Inr s)"

definition allowed_manifest_item_statuses :: "string set" where
  "allowed_manifest_item_statuses = {''pending'', ''scanned'', ''missing'', ''damaged'', ''extra''}"

definition normalize_manifest_item_status :: "bool \<Rightarrow> string \<Rightarrow> string res" where
  "normalize_manifest_item_status allow_extra raw_status =
     (let status = py_lower (py_strip raw_status)
      in if status \<notin> allowed_manifest_item_statuses then
           Inl (HTTPException 400 ''Invalid {field_name}'')
         else if \<not> allow_extra \<and> status = ''extra'' then
           Inl (HTTPException 400 ''{field_name} cannot be 'extra' at manifest creation time'')
         else Inr status)"

definition initial_manifest_statuses :: "string set" where
  "initial_manifest_statuses = {''In Transit'', ''In Progress''}"

section \<open>Loading\<close>

definition items_of :: "string \<Rightarrow> intake_db \<Rightarrow> manifest_item list" where
  "items_of i s = filter (\<lambda>x. mi_manifest_id x = i) (manifest_items s)"

definition find_manifests_by_normalized_id :: "string \<Rightarrow> intake_db \<Rightarrow> manifest list" where
  "find_manifests_by_normalized_id i s = filter (\<lambda>m. py_upper (mf_id m) = i) (manifests s)"

definition load_manifest_by_id :: "string \<Rightarrow> intake_db \<Rightarrow> manifest res" where
  "load_manifest_by_id i s =
     (case find_manifests_by_normalized_id i s of
        [] \<Rightarrow> Inl (HTTPException 404 ''Manifest not found'')
      | [m] \<Rightarrow> Inr m
      | _ \<Rightarrow> Inl (HTTPException 409 ''Data integrity violation: multiple manifests found''))"

type_synonym manifest_view = "manifest \<times> manifest_item list"

definition get_manifest :: "string \<Rightarrow> intake_db \<Rightarrow> manifest_view res" where
  "get_manifest manifest_id s =
     (case normalize_manifest_id manifest_id of Inl e \<Rightarrow> Inl e | Inr i \<Rightarrow>
     (case load_manifest_by_id i s of Inl e \<Rightarrow> Inl e | Inr m \<Rightarrow> Inr (m, items_of (mf_id m) s)))"

definition get_manifests :: "int \<Rightarrow> int \<Rightarrow> string option \<Rightarrow> intake_db \<Rightarrow> manifest list res" where
  "get_manifests skip limit status s =
     (if skip < 0 then Inl (HTTPException 400 ''skip must be >= 0'')
      else if limit \<le> 0 \<or> 500 < limit then Inl (HTTPException 400 ''limit must be between 1 and 500'')
      else
        let page = (\<lambda>ms. take (nat limit) (drop (nat skip) (sort_key (\<lambda>m. - mf_date m) ms)))
        in case status of
             None \<Rightarrow> Inr (page (manifests s))
           | Some raw \<Rightarrow>
               if raw = [] then Inr (page (manifests s))
               else case normalize_manifest_status raw of
                      Inl e \<Rightarrow> Inl e
                    | Inr st \<Rightarrow> Inr (page (filter (\<lambda>m. mf_status m = st) (manifests s))))"

section \<open>Creating a manifest\<close>

record item_create =
  ic_battery_id :: string
  ic_type :: string
  ic_status :: string

record manifest_create =
  mc_id :: string
  mc_source :: string
  mc_date :: datetime
  mc_status :: string
  mc_items :: "item_create list"

text \<open>What is fingerprinted: the request after its normalisation.\<close>

datatype receive_update = ReceiveUpdate string string "string option" "string option"

datatype intake_payload =
    CreatePayload string string datetime string "(string \<times> string \<times> string) list"
  | ReceivePayload string int "receive_update list"
  | ProcessPayload string

definition item_payload :: "item_create \<times> string \<Rightarrow> (string \<times> string \<times> string) res" where
  "item_payload = (\<lambda>(c, serial).
     case normalize_manifest_item_status False (ic_status c) of Inl e \<Rightarrow> Inl e | Inr st \<Rightarrow>
    (case normalize_manifest_item_type (ic_type c) of Inl e \<Rightarrow> Inl e | Inr ty \<Rightarrow> Inr (serial, ty, st)))"

definition create_payload :: "manifest_create \<Rightarrow> intake_payload res" where
  "create_payload c =
     (case normalize_manifest_id (mc_id c) of Inl e \<Rightarrow> Inl e | Inr i \<Rightarrow>
     (case normalize_manifest_source (mc_source c) of Inl e \<Rightarrow> Inl e | Inr src \<Rightarrow>
     (case normalize_manifest_status (mc_status c) of Inl e \<Rightarrow> Inl e | Inr st \<Rightarrow>
      if st \<notin> initial_manifest_statuses then
        Inl (HTTPException 400 ''Manifest can only be created as one of ['In Progress', 'In Transit']'')
      else if mc_items c = [] then Inl (HTTPException 400 ''Manifest must include at least one item'')
      else
     (case normalize_battery_serials (map ic_battery_id (mc_items c)) True of Inl e \<Rightarrow> Inl e | Inr serials \<Rightarrow>
     (case map_res item_payload (zip (mc_items c) serials) of Inl e \<Rightarrow> Inl e | Inr items \<Rightarrow>
        Inr (CreatePayload i src (mc_date c)
          (if st = ''In Transit'' \<and> list_ex (\<lambda>(b, ty, x). x \<noteq> ''pending'') items then ''In Progress'' else st)
          items))))))"

definition add_manifest_item :: "string \<Rightarrow> string \<times> string \<times> string \<Rightarrow> intake_db \<Rightarrow> intake_db res" where
  "add_manifest_item i = (\<lambda>(serial, ty, st) s.
     case get_battery_by_serial (in_fleet s) serial of
       Inl e \<Rightarrow> Inl e
     | Inr known \<Rightarrow> Inr (s\<lparr>manifest_items := manifest_items s @
         [\<lparr>mi_id = fresh_id mi_id (manifest_items s), mi_manifest_id = i, mi_battery_id = serial,
           mi_battery_table_id = map_option b_id known, mi_type = ty, mi_status = st\<rparr>]\<rparr>))"

fun store_manifest ::
    "datetime \<Rightarrow> intake_payload \<Rightarrow> intake_db \<Rightarrow> (manifest_view \<times> intake_db) res" where
  "store_manifest now (CreatePayload i src date st items) s =
     (if find_manifests_by_normalized_id i s \<noteq> [] then
        Inl (HTTPException 409 ''Manifest ID already exists (case-insensitive match)'')
      else
        let m = \<lparr>mf_id = i, mf_source = src, mf_date = date, mf_status = st, mf_created_at = now\<rparr>
        in case fold_res (add_manifest_item i) items (s\<lparr>manifests := manifests s @ [m]\<rparr>) of
             Inl e \<Rightarrow> Inl e
           | Inr s' \<Rightarrow> Inr ((m, items_of i s'), s'))"
| "store_manifest now _ s = Inl (HTTPException 400 '''')"

section \<open>Receiving\<close>

record item_update =
  iu_battery_id :: string
  iu_status :: string
  iu_damage_report :: "string option"
  iu_damage_photo_path :: "string option"

definition blank_to_none :: "string option \<Rightarrow> string option" where
  "blank_to_none v = (case v of
      None \<Rightarrow> None | Some s \<Rightarrow> let t = py_strip s in if t = [] then None else Some t)"

definition update_payload :: "item_update \<times> string \<Rightarrow> receive_update res" where
  "update_payload = (\<lambda>(c, serial).
     case normalize_manifest_item_status True (iu_status c) of
       Inl e \<Rightarrow> Inl e
     | Inr st \<Rightarrow> Inr (ReceiveUpdate serial st (blank_to_none (iu_damage_report c))
                        (blank_to_none (iu_damage_photo_path c))))"

definition receive_payload :: "string \<Rightarrow> int option \<Rightarrow> item_update list \<Rightarrow> fleet \<Rightarrow> intake_payload res" where
  "receive_payload manifest_id warehouse_id updates f =
     (case normalize_manifest_id manifest_id of Inl e \<Rightarrow> Inl e | Inr i \<Rightarrow>
      if updates = [] then Inl (HTTPException 400 ''At least one manifest item update is required'')
      else
     (case normalize_battery_serials (map iu_battery_id updates) True of Inl e \<Rightarrow> Inl e | Inr serials \<Rightarrow>
     (case resolve_intake_warehouse_id f warehouse_id of Inl e \<Rightarrow> Inl e | Inr wid \<Rightarrow>
     (case map_res update_payload (zip updates serials) of Inl e \<Rightarrow> Inl e | Inr us \<Rightarrow>
        Inr (ReceivePayload i wid us)))))"

definition assert_manifest_receivable :: "manifest \<Rightarrow> string res" where
  "assert_manifest_receivable m =
     (case normalize_manifest_status (mf_status m) of
        Inl e \<Rightarrow> Inl e
      | Inr current \<Rightarrow>
          if current = ''Processed'' then
            Inl (HTTPException 409 ''Manifest is Processed and cannot be modified via receive flow'')
          else Inr current)"

text \<open>The dictionary from serial to item: the ids of the rows, in the order of insertion.\<close>

fun build_manifest_item_map :: "manifest_item list \<Rightarrow> (string \<times> int) list \<Rightarrow> (string \<times> int) list res" where
  "build_manifest_item_map [] item_map = Inr item_map"
| "build_manifest_item_map (x # xs) item_map =
     (case normalize_battery_serial (mi_battery_id x) of
        Inl e \<Rightarrow> Inl e
      | Inr serial \<Rightarrow>
          (case map_of item_map serial of
             Some j \<Rightarrow>
               if j \<noteq> mi_id x then
                 Inl (HTTPException 409 ''Data integrity violation: manifest contains duplicate item rows'')
               else build_manifest_item_map xs item_map
           | None \<Rightarrow> build_manifest_item_map xs (item_map @ [(serial, mi_id x)])))"

definition new_stock :: "datetime \<Rightarrow> int \<Rightarrow> string \<Rightarrow> fleet \<Rightarrow> battery" where
  "new_stock now warehouse_id serial f =
     \<lparr>b_id = fresh_id b_id (batteries f), serial_number = serial, b_status = ''available'',
      b_location_type = Some ''warehouse'', b_location_id = Some warehouse_id, b_station_id = None,
      current_charge = 100, b_health_percentage = 100, b_battery_type = Some ''48V/30Ah'',
      b_sku_id = None, purchase_cost = 0, retirement_date = None, decommissioned_at = None,
      decommissioned_by = None, decommission_reason = None, b_updated_at = now\<rparr>"

definition get_or_create_battery ::
    "datetime \<Rightarrow> int \<Rightarrow> int \<Rightarrow> string \<Rightarrow> fleet \<Rightarrow> (battery \<times> fleet) res" where
  "get_or_create_battery now warehouse_id actor_id serial f =
     (case normalize_battery_serial serial of
        Inl e \<Rightarrow> Inl e
      | Inr n \<Rightarrow>
          (case get_battery_by_serial f n of
             Inl e \<Rightarrow> Inl e
           | Inr (Some b) \<Rightarrow>
               let b' = b\<lparr>serial_number := n\<rparr>
               in Inr (b', f\<lparr>batteries := put_row b_id b' (batteries f)\<rparr>)
           | Inr None \<Rightarrow>
               let b = new_stock now warehouse_id n f
               in Inr (b, log_battery_event now (b_id b) ''created''
                    (''Created from manifest processing at warehouse #'' @ show_int warehouse_id)
                    (Some actor_id) (f\<lparr>batteries := batteries f @ [b]\<rparr>))))"

text \<open>The row an update names: listed before, or a new extra row.\<close>

definition resolve_item ::
    "string \<Rightarrow> string list \<Rightarrow> string \<Rightarrow> string \<Rightarrow> (string \<times> int) list \<times> intake_db \<Rightarrow>
     (manifest_item \<times> (string \<times> int) list \<times> intake_db) res" where
  "resolve_item i known_at_start serial st = (\<lambda>(item_map, s).
     case map_of item_map serial of
       None \<Rightarrow>
         if st \<noteq> ''extra'' then
           Inl (HTTPException 400 ''Battery is not part of manifest. Unknown items can only be submitted as status 'extra'.'')
         else
           let x = \<lparr>mi_id = fresh_id mi_id (manifest_items s), mi_manifest_id = i, mi_battery_id = serial,
                    mi_battery_table_id = None, mi_type = ''Unknown'', mi_status = st\<rparr>
           in Inr (x, item_map @ [(serial, mi_id x)], s\<lparr>manifest_items := manifest_items s @ [x]\<rparr>)
     | Some j \<Rightarrow>
         (case get_row mi_id j (manifest_items s) of
            None \<Rightarrow> Inl (AttributeError ''status'')
          | Some x \<Rightarrow>
              if st = ''extra'' \<and> serial \<in> set known_at_start \<and> mi_status x \<noteq> ''extra'' then
                Inl (HTTPException 400 ''Battery already exists in manifest'')
              else Inr (x\<lparr>mi_battery_id := serial\<rparr>, item_map, s)))"

definition receipt_transition ::
    "string \<Rightarrow> int \<Rightarrow> int \<Rightarrow> receive_update \<Rightarrow> transition" where
  "receipt_transition i warehouse_id actor_id u =
     (case u of ReceiveUpdate serial st report photo \<Rightarrow>
        if st = ''scanned'' then
          transition_to ''available'' ''warehouse'' (Some warehouse_id) ''manifest_scanned''
            (''Received via manifest '' @ i) (Some actor_id)
        else if st = ''damaged'' then
          transition_to ''maintenance'' ''warehouse'' (Some warehouse_id) ''damage_report''
            (''Damage report via manifest '' @ i @ '': ''
              @ (case report of None \<Rightarrow> ''Not provided'' | Some r \<Rightarrow> r) @ '' | Photo: ''
              @ (case photo of None \<Rightarrow> ''None'' | Some p \<Rightarrow> p)) (Some actor_id)
        else
          transition_to ''available'' ''warehouse'' (Some warehouse_id) ''manifest_extra''
            (''Extra battery found during manifest '' @ i @ '' receipt'') (Some actor_id))"

definition receive_item ::
    "datetime \<Rightarrow> string \<Rightarrow> int \<Rightarrow> int \<Rightarrow> string list \<Rightarrow> receive_update \<Rightarrow>
     (string \<times> int) list \<times> intake_db \<Rightarrow> ((string \<times> int) list \<times> intake_db) res" where
  "receive_item now i warehouse_id actor_id known_at_start u st0 =
     (case u of ReceiveUpdate serial st report photo \<Rightarrow>
     (case resolve_item i known_at_start serial st st0 of
        Inl e \<Rightarrow> Inl e
      | Inr (x, item_map, s) \<Rightarrow>
          if st \<in> {''scanned'', ''damaged'', ''extra''} then
            (case get_or_create_battery now warehouse_id actor_id serial (in_fleet s) of
               Inl e \<Rightarrow> Inl e
             | Inr (b, f) \<Rightarrow>
                 (case apply_battery_transition now b (receipt_transition i warehouse_id actor_id u) f of
                    Inl e \<Rightarrow> Inl e
                  | Inr f' \<Rightarrow> Inr (item_map, s\<lparr>in_fleet := f', manifest_items := put_row mi_id
                        (x\<lparr>mi_battery_table_id := Some (b_id b), mi_status := st\<rparr>) (manifest_items s)\<rparr>)))
          else
            let items = put_row mi_id (x\<lparr>mi_status := st\<rparr>) (manifest_items s);
                known = (case mi_battery_table_id x of
                    None \<Rightarrow> None | Some j \<Rightarrow> get_row b_id j (batteries (in_fleet s)));
                f' = (case known of
                    None \<Rightarrow> in_fleet s
                  | Some b \<Rightarrow>
                      if st = ''missing'' then log_battery_event now (b_id b) ''manifest_missing''
                        (''Marked missing during manifest '' @ i @ '' receipt'') (Some actor_id) (in_fleet s)
                      else log_battery_event now (b_id b) ''manifest_pending''
                        (''Marked pending in manifest '' @ i @ '' receipt'') (Some actor_id) (in_fleet s))
            in Inr (item_map, s\<lparr>in_fleet := f', manifest_items := items\<rparr>)))"

definition compute_manifest_status :: "string list \<Rightarrow> string" where
  "compute_manifest_status statuses =
     (if statuses = [] then ''In Transit''
      else if ''pending'' \<in> set statuses \<or> ''missing'' \<in> set statuses then ''In Progress''
      else ''Received'')"

text \<open>
  The answer lists the rows that were loaded with the manifest: an extra row is not among them
  until the manifest is read again.
\<close>

fun receive_items ::
    "datetime \<Rightarrow> int \<Rightarrow> intake_payload \<Rightarrow> intake_db \<Rightarrow> (manifest_view \<times> intake_db) res" where
  "receive_items now actor_id (ReceivePayload i warehouse_id updates) s =
     (case load_manifest_by_id i s of Inl e \<Rightarrow> Inl e | Inr m \<Rightarrow>
     (case assert_manifest_receivable m of Inl e \<Rightarrow> Inl e | Inr _ \<Rightarrow>
     (case build_manifest_item_map (items_of (mf_id m) s) [] of Inl e \<Rightarrow> Inl e | Inr item_map \<Rightarrow>
     (case fold_res (receive_item now (mf_id m) warehouse_id actor_id (map fst item_map)) updates (item_map, s) of
        Inl e \<Rightarrow> Inl e
      | Inr (item_map', s1) \<Rightarrow>
          let statuses = List.map_filter (\<lambda>(serial, j). map_option mi_status (get_row mi_id j (manifest_items s1)))
                item_map';
              m' = m\<lparr>mf_status := compute_manifest_status statuses\<rparr>;
              s2 = s1\<lparr>manifests := put_row mf_id m' (manifests s1)\<rparr>;
              loaded = map mi_id (items_of (mf_id m) s)
          in Inr ((m', filter (\<lambda>x. mi_id x \<in> set loaded) (manifest_items s2)), s2)))))"
| "receive_items now actor_id _ s = Inl (HTTPException 400 '''')"

section \<open>Closing a manifest\<close>

fun close_manifest :: "intake_payload \<Rightarrow> intake_db \<Rightarrow> (manifest_view \<times> intake_db) res" where
  "close_manifest (ProcessPayload i) s =
     (case load_manifest_by_id i s of Inl e \<Rightarrow> Inl e | Inr m \<Rightarrow>
     (case normalize_manifest_status (mf_status m) of Inl e \<Rightarrow> Inl e | Inr current \<Rightarrow>
        let items = items_of (mf_id m) s;
            stored = (\<lambda>st. let m' = m\<lparr>mf_status := st\<rparr>
               in Inr ((m', items), s\<lparr>manifests := put_row mf_id m' (manifests s)\<rparr>))
        in if current = ''Processed'' then stored current
           else if current \<noteq> ''Received'' then
             Inl (HTTPException 409 ''Manifest must be 'Received' before processing'')
           else if list_ex (\<lambda>x. mi_status x \<in> {''pending'', ''missing''}) items then
             Inl (HTTPException 409 ''Manifest still has pending or missing items'')
           else stored ''Processed''))"
| "close_manifest _ s = Inl (HTTPException 400 '''')"

section \<open>The endpoints\<close>

datatype intake_request =
    CreateManifest manifest_create
  | ReceiveManifest string "int option" "item_update list"
  | ProcessManifest string

text \<open>What a request is after its normalisation, the path its key is bound to, and its work.\<close>

fun intake_payload_of :: "intake_request \<Rightarrow> intake_db \<Rightarrow> intake_payload res" where
  "intake_payload_of (CreateManifest c) s = create_payload c"
| "intake_payload_of (ReceiveManifest i w us) s = receive_payload i w us (in_fleet s)"
| "intake_payload_of (ProcessManifest i) s =
     (case normalize_manifest_id i of Inl e \<Rightarrow> Inl e | Inr n \<Rightarrow> Inr (ProcessPayload n))"

fun intake_path :: "intake_payload \<Rightarrow> string" where
  "intake_path (CreatePayload i src d st items) = ''/manifests''"
| "intake_path (ReceivePayload i w us) = ''/manifests/'' @ i @ ''/receive''"
| "intake_path (ProcessPayload i) = ''/manifests/'' @ i @ ''/process''"

definition intake_work ::
    "datetime \<Rightarrow> int \<Rightarrow> intake_payload \<Rightarrow> intake_db \<Rightarrow> (manifest_view \<times> intake_db) res" where
  "intake_work now user_id p s =
     (case p of
        CreatePayload _ _ _ _ _ \<Rightarrow> store_manifest now p s
      | ReceivePayload _ _ _ \<Rightarrow> receive_items now user_id p s
      | ProcessPayload _ \<Rightarrow> close_manifest p s)"

definition serve_intake ::
    "('j \<Rightarrow> manifest_view option) \<Rightarrow> (manifest_view \<Rightarrow> 'j) \<Rightarrow> (intake_payload \<Rightarrow> string) \<Rightarrow>
     datetime \<times> int \<times> string option \<times> intake_request \<Rightarrow> 'j idem_row list \<times> intake_db \<Rightarrow>
     manifest_view res \<times> 'j idem_row list \<times> intake_db" where
  "serve_intake dec enc fingerprint = (\<lambda>(now, user_id, raw_key, q) (rows, s).
     case intake_payload_of q s of
       Inl e \<Rightarrow> (Inl e, rows, s)
     | Inr p \<Rightarrow> idempotent dec enc now user_id raw_key ''POST'' (intake_path p) (fingerprint p)
                  (intake_work now user_id p) (rows, s))"

end
