(* ===== verification/IdempotencyInv.thy ===== *)
theory IdempotencyInv
  imports Idempotency
begin

text \<open>
  An endpoint with an idempotency key refines the specification \<open>once\<close>: at most one run for a
  key. Hence a retried request is answered as the first time and changes nothing.
\<close>

lemma ledger_append:
  assumes "get_row scope_of sc rows = None" "scope_of x = sc" "now < ik_expires_at x"
    "dec (ik_response_payload x) = Some r" "ik_request_fingerprint x = f"
  shows "ledger_of dec now (rows @ [x]) = (ledger_of dec now rows)(sc \<mapsto> (f, r))"
  using assms by (auto simp: fun_eq_iff ledger_of_def find_scope get_append split: option.splits)

lemma idem_inv_append:
  "idem_inv dec rows \<Longrightarrow> get_row scope_of (scope_of x) rows = None \<Longrightarrow> dec (ik_response_payload x) \<noteq> None \<Longrightarrow>
   idem_inv dec (rows @ [x])"
  by (auto simp: idem_inv_def get_row_None)

text \<open>The tables of the work change only by a run of the work.\<close>

lemma idempotent_state:
  "idempotent dec enc now u raw m p f run (rows, s) = (out, rows', s') \<Longrightarrow>
   s' = s \<or> (\<exists>r. run s = Inr (r, s'))"
  by (auto simp: idempotent_def Let_def split: sum.splits prod.splits option.splits)

text \<open>What one request does to the rows of the other scopes.\<close>

lemma idempotent_rows:
  assumes codec: "\<forall>r. dec (enc r) = Some r" and inv: "idem_inv dec rows"
    and st: "idempotent dec enc now u raw m p f run (rows, s) = (out, rows', s')"
  shows "idem_inv dec rows'"
    and "get_row scope_of sc rows = Some x \<Longrightarrow> now < ik_expires_at x \<Longrightarrow> get_row scope_of sc rows' = Some x"
proof -
  have "idem_inv dec rows' \<and> (get_row scope_of sc rows = Some x \<and> now < ik_expires_at x \<longrightarrow>
      get_row scope_of sc rows' = Some x)"
  proof (cases "normalize_idempotency_key raw")
    case (Inl e)
    then show ?thesis using st inv by (simp add: idempotent_def)
  next
    case (Inr k)
    show ?thesis
    proof (cases k)
      case None
      then show ?thesis using st inv Inr by (auto simp: idempotent_def split: sum.splits prod.splits)
    next
      case (Some key)
      let ?sc = "(u, key, m, p)"
      obtain o1 rows1 where g: "get_idempotent_replay dec now ?sc f rows = (o1, rows1)" by force
      have live: "ledger_of dec now rows sc \<noteq> None" if "get_row scope_of sc rows = Some x" "now < ik_expires_at x"
      proof -
        have "dec (ik_response_payload x) \<noteq> None"
          using inv get_row_Some[OF that(1)] by (auto simp: idem_inv_def)
        then show ?thesis using that by (simp add: ledger_of_def find_scope)
      qed
      show ?thesis using inv g
      proof (cases rule: replay_cases)
        case (found r)
        then show ?thesis using st inv Inr Some g by (simp add: idempotent_def Let_def)
      next
        case (reused f' r)
        then show ?thesis using st inv Inr Some g by (simp add: idempotent_def Let_def)
      next
        case run
        have keep: "get_row scope_of sc rows1 = Some x"
          if "get_row scope_of sc rows = Some x" "now < ik_expires_at x"
          using run(6)[of sc] live[OF that] run(1) that by (cases "sc = ?sc") auto
        show ?thesis
        proof (cases "run s")
          case (Inl e)
          then show ?thesis using st Inr Some g run(2,3) keep by (simp add: idempotent_def Let_def)
        next
          case r: (Inr rs)
          obtain r1 s1 where rs: "rs = (r1, s1)" by force
          obtain y where y: "record_idempotent_response enc now ?sc f 200 r1 rows1 = Inr (rows1 @ [y])"
            "scope_of y = ?sc" "ik_response_payload y = enc r1"
            by (rule record_fresh[OF run(4)])
          have "rows' = rows1 @ [y]" using st Inr Some g run(2) r rs y(1) by (simp add: idempotent_def Let_def)
          then show ?thesis using keep codec run(3,4) y(2,3) idem_inv_append[of dec rows1 y]
            by (simp add: get_append)
        qed
      qed
    qed
  qed
  then show "idem_inv dec rows'"
    "get_row scope_of sc rows = Some x \<Longrightarrow> now < ik_expires_at x \<Longrightarrow> get_row scope_of sc rows' = Some x"
    by auto
qed

section \<open>Properties\<close>

text \<open>
  C14: An endpoint with an idempotency key refines at most one run for a key: what it
  answers and leaves, seen through the ledger of unexpired answers, is what the specification
  does.
\<close>

theorem idempotent_refines_once:
  assumes codec: "\<forall>r. dec (enc r) = Some r" and inv: "idem_inv dec rows"
    and key: "normalize_idempotency_key raw = Inr (Some k)"
    and st: "idempotent dec enc now u raw m p f run (rows, s) = (out, rows', s')"
  shows "once (u, k, m, p) f run (ledger_of dec now rows, s) = (out, ledger_of dec now rows', s')"
proof -
  let ?sc = "(u, k, m, p)"
  obtain o1 rows1 where g: "get_idempotent_replay dec now ?sc f rows = (o1, rows1)" by force
  show ?thesis using inv g
  proof (cases rule: replay_cases)
    case (found r)
    then show ?thesis using st key g by (simp add: idempotent_def once_def Let_def)
  next
    case (reused f' r)
    then show ?thesis using st key g by (simp add: idempotent_def once_def Let_def)
  next
    case run
    show ?thesis
    proof (cases "run s")
      case (Inl e)
      then show ?thesis using st key g run(1,2,5) by (simp add: idempotent_def once_def Let_def)
    next
      case r: (Inr rs)
      obtain r1 s1 where rs: "rs = (r1, s1)" by force
      obtain y where y: "record_idempotent_response enc now ?sc f 200 r1 rows1 = Inr (rows1 @ [y])"
        "scope_of y = ?sc" "ik_request_fingerprint y = f" "ik_response_payload y = enc r1"
        "ik_expires_at y = now + 48 * hour"
        by (rule record_fresh[OF run(4)])
      have "rows' = rows1 @ [y]" "out = Inr r1" "s' = s1"
        using st key g run(2) r rs y(1) by (simp_all add: idempotent_def Let_def)
      moreover have "ledger_of dec now (rows1 @ [y]) = (ledger_of dec now rows)(?sc \<mapsto> (f, r1))"
        using ledger_append[OF run(4) y(2), of now dec r1 f] y codec run(5) by simp
      ultimately show ?thesis using run(1) r rs by (simp add: once_def)
    qed
  qed
qed

lemma idempotent_refines_once_witness:
  "\<exists>out rows' s'. once (7, ''k'', ''POST'', ''/x'') ''f'' (\<lambda>s. Inr (s, s + 1)) (ledger_of Some 0 [], 3 :: int)
     = (out, ledger_of Some 0 rows', s')"
proof -
  obtain out st' where st': "idempotent Some id 0 7 (Some '' k '') ''POST'' ''/x'' ''f'' (\<lambda>s. Inr (s, s + 1)) ([], 3 :: int)
      = (out, st')" by (rule that[OF prod.collapse[symmetric]])
  obtain rows' s' where "st' = (rows', s')" by (rule that[OF prod.collapse[symmetric]])
  note st = st'[unfolded this]
  have "once (7, ''k'', ''POST'', ''/x'') ''f'' (\<lambda>s. Inr (s, s + 1)) (ledger_of Some 0 [], 3)
      = (out, ledger_of Some 0 rows', s')"
    by (rule idempotent_refines_once[OF _ _ _ st])
      (simp_all add: idem_inv_def normalize_idempotency_key_def py_strip_def is_space_def)
  then show ?thesis by blast
qed

text \<open>A call of some endpoint: the clock, the caller, the header, the route and its work.\<close>

type_synonym ('r, 's) call =
  "datetime \<times> int \<times> string option \<times> string \<times> string \<times> string \<times> ('s \<Rightarrow> ('r \<times> 's) res)"

definition serve_call ::
    "('j \<Rightarrow> 'r option) \<Rightarrow> ('r \<Rightarrow> 'j) \<Rightarrow> ('r, 's) call \<Rightarrow> 'j idem_row list \<times> 's \<Rightarrow> 'j idem_row list \<times> 's" where
  "serve_call dec enc = (\<lambda>(now, u, raw, m, p, f, run) st. snd (idempotent dec enc now u raw m p f run st))"

lemma calls_keep_row:
  assumes "\<forall>r. dec (enc r) = Some r"
  shows "idem_inv dec (fst st) \<Longrightarrow> get_row scope_of sc (fst st) = Some x \<Longrightarrow>
    \<forall>c \<in> set calls. fst c < ik_expires_at x \<Longrightarrow>
    idem_inv dec (fst (fold (serve_call dec enc) calls st))
      \<and> get_row scope_of sc (fst (fold (serve_call dec enc) calls st)) = Some x"
proof (induction calls arbitrary: st)
  case (Cons c calls)
  obtain now u raw m p f run where c: "c = (now, u, raw, m, p, f, run)" by (cases c) auto
  obtain rows s where st: "st = (rows, s)" by force
  obtain out rows' s' where step: "idempotent dec enc now u raw m p f run (rows, s) = (out, rows', s')"
    by (metis prod_cases3)
  have "serve_call dec enc c st = (rows', s')" by (simp add: serve_call_def c st step)
  moreover have "idem_inv dec rows'" "get_row scope_of sc rows' = Some x"
    using idempotent_rows[OF assms _ step] Cons.prems by (simp_all add: c st)
  ultimately show ?case using Cons.IH[of "(rows', s')"] Cons.prems(3) by simp
qed simp



end
