(* ===== verification/ManifestsInv.thy ===== *)
theory ManifestsInv
  imports Manifests FleetInv IdempotencyInv
begin

text \<open>
  What the manifest API keeps: the stock of the warehouses stays consistent while batteries
  are received and created, a received manifest has nothing outstanding, and a processed one
  is final.
\<close>

section \<open>The stock\<close>

text \<open>
  Beyond \<open>fleet_inv\<close>: serial numbers carry no blanks, so that a serial that is looked up is
  found, and every row of a shelf is of a battery, so that a new battery has none.
\<close>

definition stock_inv :: "fleet \<Rightarrow> bool" where
  "stock_inv f \<longleftrightarrow> fleet_inv f \<and> (\<forall>b \<in> set (batteries f). py_upper (serial_number b) = serial_key b)
     \<and> (\<forall>r \<in> set (shelf_batteries f). py_upper (sb_battery_id r) \<in> serial_key ` set (batteries f))"

lemma moved_keys:
  assumes "stock_inv f" "b \<in> set (batteries f)" "serial_key m = serial_key b" "b_id m = b_id b"
  shows "map serial_key (put_row b_id m (batteries f)) = map serial_key (batteries f)"
  by (rule map_put_row[OF _ assms(2)]) (use assms in \<open>simp_all add: stock_inv_def fleet_inv_def\<close>)

lemma drop_assignment_subset: "set (drop_assignment a rows) \<subseteq> set rows"
  by (auto simp: drop_assignment_def split: option.splits dest: subsetD[OF set_remove1_subset])

lemma transition_stock:
  assumes inv: "stock_inv f" and b: "b \<in> set (batteries f)"
    and st: "apply_battery_transition now b t f = Inr f'"
  shows "stock_inv f' \<and> map serial_key (batteries f') = map serial_key (batteries f)"
  using st
proof (cases rule: transition_cases)
  case (1 a rows)
  let ?m = "moved_battery b t (serial_key b) now"
  have k: "serial_key b \<noteq> []" "py_upper (serial_key b) = serial_key b"
    using 1(1) by (auto simp: normalize_serial_iff serial_key_def)
  have keys: "map serial_key (batteries f') = map serial_key (batteries f)"
    using moved_keys[OF inv b, of ?m] k by (simp add: 1(9) moved_serial_key)
  have "py_upper (sb_battery_id r) \<in> serial_key ` set (batteries f')" if "r \<in> set rows" for r
  proof -
    have set: "serial_key ` set (batteries f') = serial_key ` set (batteries f)"
      using arg_cong[OF keys, of set] by simp
    from 1(8) that have "r \<in> set (shelf_batteries f) \<or> py_upper (sb_battery_id r) = serial_key b"
      using drop_assignment_subset[of a "shelf_batteries f"] k(2)
      by (cases rule: move_shelf_row_cases) auto
    then show ?thesis unfolding set using inv b by (auto simp: stock_inv_def)
  qed
  moreover have "py_upper (serial_number c) = serial_key c" if "c \<in> set (batteries f')" for c
    using that inv k by (auto simp: 1(9) stock_inv_def moved_serial_key dest: in_put_row)
  moreover have "fleet_inv f'" using transition_preserves_fleet_inv[OF _ b st] inv by (simp add: stock_inv_def)
  ultimately show ?thesis using keys 1(9) by (simp add: stock_inv_def)
qed

lemma log_stock [simp]: "stock_inv (log_battery_event now i ty d a f) = stock_inv f"
  "batteries (log_battery_event now i ty d a f) = batteries f"
  by (simp_all add: log_battery_event_def stock_inv_def fleet_inv_def shelf_consistent_iff)

lemma get_row_filter:
  "distinct (map key t) \<Longrightarrow> get_row key k t = Some r \<Longrightarrow> filter (\<lambda>x. key x = k) t = [r]"
  by (induction t) (auto simp: filter_empty_conv image_iff split: if_splits)

lemma log_frame: "fleet_frame (log_battery_event now i ty d a f) = fleet_frame f"
  by (simp add: log_battery_event_def fleet_frame_def)

text \<open>The lookup by serial number finds the one battery of that key.\<close>

lemma get_by_serial:
  assumes inv: "stock_inv f" and n: "py_upper n = n" "py_strip n = n" "n \<noteq> []"
  shows "get_battery_by_serial f n = Inr (get_row serial_key n (batteries f))"
proof -
  have eq: "filter (\<lambda>b. py_upper (serial_number b) = n) (batteries f) = filter (\<lambda>b. serial_key b = n) (batteries f)"
    using inv by (intro filter_cong) (auto simp: stock_inv_def)
  have norm: "normalize_battery_serial n = Inr n" using n by (simp add: normalize_serial_iff)
  have "distinct (map serial_key (batteries f))" using inv by (simp add: stock_inv_def fleet_inv_def)
  then show ?thesis
  proof (cases "get_row serial_key n (batteries f)")
    case None
    then have "filter (\<lambda>b. serial_key b = n) (batteries f) = []" by (simp add: get_row_None filter_empty_conv)
    then show ?thesis using None norm by (simp add: get_battery_by_serial_def eq)
  next
    case (Some b)
    then have "filter (\<lambda>b. serial_key b = n) (batteries f) = [b]"
      using \<open>distinct (map serial_key (batteries f))\<close> by (simp add: get_row_filter)
    then show ?thesis using Some norm by (simp add: get_battery_by_serial_def eq)
  qed
qed

lemma fleet_inv_same_rows:
  assumes "fleet_inv f" "map serial_key bs = map serial_key (batteries f)" "map b_id bs = map b_id (batteries f)"
    and "\<And>c. c \<in> set bs \<Longrightarrow> \<exists>d \<in> set (batteries f). serial_key c = serial_key d
           \<and> b_location_type c = b_location_type d \<and> b_location_id c = b_location_id d"
  shows "fleet_inv (f\<lparr>batteries := bs\<rparr>)"
proof -
  have "assert_battery_shelf_state_consistent (f\<lparr>batteries := bs\<rparr>) c = Inr ()" if c: "c \<in> set bs" for c
  proof -
    obtain d where "d \<in> set (batteries f)" "serial_key c = serial_key d"
      "b_location_type c = b_location_type d" "b_location_id c = b_location_id d"
      using assms(4)[OF c] by blast
    moreover from this(1) have "assert_battery_shelf_state_consistent f d = Inr ()"
      using assms(1) by (simp add: fleet_inv_def list_all_iff)
    ultimately show ?thesis by (auto simp: shelf_consistent_iff split: list.splits)
  qed
  then show ?thesis using assms(1-3) by (simp add: fleet_inv_def list_all_iff)
qed

lemma put_row_keyed:
  assumes "distinct (map key t)" "distinct (map key' t)" "q \<in> set t" "key r = key q" "key' r = key' q"
  shows "put_row key r t = put_row key' r t"
proof -
  have "key x = key r \<longleftrightarrow> key' x = key' r" if "x \<in> set t" for x
    using assms that by (metis distinct_map inj_onD)
  then show ?thesis by (simp add: put_row_def)
qed

lemma new_stock_fields [simp]:
  "b_id (new_stock now w n f) = fresh_id b_id (batteries f)" "serial_number (new_stock now w n f) = n"
  "b_status (new_stock now w n f) = ''available''" "b_location_type (new_stock now w n f) = Some ''warehouse''"
  by (simp_all add: new_stock_def)

text \<open>The battery of an item: the one with its serial, or a new one; all other rows stay.\<close>

lemma get_or_create:
  assumes inv: "stock_inv f" and ok: "get_or_create_battery now w a sn f = Inr (b, f')"
  shows "stock_inv f'" "b \<in> set (batteries f')" "serial_key b = py_upper (py_strip sn)"
    "k \<noteq> serial_key b \<Longrightarrow> get_row serial_key k (batteries f') = get_row serial_key k (batteries f)"
    "fleet_frame f' = fleet_frame f"
proof -
  let ?n = "py_upper (py_strip sn)"
  have n: "normalize_battery_serial sn = Inr ?n" "?n \<noteq> []"
    using ok by (auto simp: get_or_create_battery_def normalize_battery_serial_def Let_def split: if_splits)
  have nn: "py_upper ?n = ?n" "py_strip ?n = ?n" using normalize_serial_upper[OF n(1)] by simp_all
  note look = get_by_serial[OF inv nn n(2)]
  have keys: "distinct (map serial_key (batteries f))" and ids: "distinct (map b_id (batteries f))"
    using inv by (simp_all add: stock_inv_def fleet_inv_def)
  have "stock_inv f' \<and> b \<in> set (batteries f') \<and> serial_key b = ?n \<and> fleet_frame f' = fleet_frame f
      \<and> (k \<noteq> serial_key b \<longrightarrow> get_row serial_key k (batteries f') = get_row serial_key k (batteries f))"
  proof (cases "get_row serial_key ?n (batteries f)")
    case (Some c)
    let ?c = "c\<lparr>serial_number := ?n\<rparr>"
    have c: "c \<in> set (batteries f)" "serial_key c = ?n" using get_row_Some[OF Some] by auto
    have b: "b = ?c" "f' = f\<lparr>batteries := put_row b_id ?c (batteries f)\<rparr>"
      using ok n(1) look Some by (auto simp: get_or_create_battery_def Let_def)
    have kc: "serial_key ?c = ?n" using nn by (simp add: serial_key_def)
    have ks: "map serial_key (put_row b_id ?c (batteries f)) = map serial_key (batteries f)"
      using moved_keys[OF inv c(1), of ?c] c kc by simp
    have "fleet_inv f'" unfolding b(2)
      by (rule fleet_inv_same_rows[OF _ ks put_row_keys])
        (use inv c kc in \<open>auto simp: stock_inv_def dest!: in_put_row intro: bexI[of _ c]\<close>)
    moreover have "serial_key ` set (batteries f') = serial_key ` set (batteries f)"
      using arg_cong[OF ks, of set] b(2) by simp
    ultimately have "stock_inv f'" using inv nn kc b(2) by (auto simp: stock_inv_def dest!: in_put_row)
    moreover have "put_row b_id ?c (batteries f) = put_row serial_key ?c (batteries f)"
      by (rule put_row_keyed[OF ids keys c(1)]) (use c(2) kc in simp_all)
    moreover have "?c \<in> set (batteries f')" using get_put_same[of b_id ?c "batteries f"] c(1)
      by (auto simp: b(2) get_row_None dest: get_row_Some)
    ultimately show ?thesis using b kc by (auto simp: get_put_other fleet_frame_def)
  next
    case None
    let ?b = "new_stock now w ?n f"
    have b: "b = ?b" "batteries f' = batteries f @ [?b]" "shelf_batteries f' = shelf_batteries f"
      "shelves f' = shelves f" "fleet_frame f' = fleet_frame f"
      using ok n(1) look None by (auto simp: get_or_create_battery_def log_battery_event_def Let_def fleet_frame_def)
    have kb: "serial_key ?b = ?n" using nn by (simp add: serial_key_def)
    have fresh: "?n \<notin> serial_key ` set (batteries f)" using None by (auto simp: get_row_None)
    then have rows: "shelf_rows (shelf_batteries f) ?n = []"
      using inv unfolding stock_inv_def shelf_rows_def filter_empty_conv by metis
    have "assert_battery_shelf_state_consistent f' c = Inr ()" if "c \<in> set (batteries f')" for c
      using that inv rows kb n(2) by (auto simp: b stock_inv_def fleet_inv_def list_all_iff shelf_consistent_iff)
    then have "fleet_inv f'" using inv fresh kb fresh_id_notin[of b_id "batteries f"]
      by (auto simp: stock_inv_def fleet_inv_def list_all_iff b)
    then show ?thesis using inv fresh kb nn b by (auto simp: stock_inv_def get_append split: option.splits)
  qed
  then show "stock_inv f'" "b \<in> set (batteries f')" "serial_key b = ?n" "fleet_frame f' = fleet_frame f"
    "k \<noteq> serial_key b \<Longrightarrow> get_row serial_key k (batteries f') = get_row serial_key k (batteries f)"
    by blast+
qed

lemma transition_serials:
  assumes inv: "stock_inv f" and b: "b \<in> set (batteries f)"
    and st: "apply_battery_transition now b t f = Inr f'"
  shows "get_row serial_key k (batteries f') =
    (if k = serial_key b then Some (moved_battery b t (serial_key b) now) else get_row serial_key k (batteries f))"
proof -
  let ?m = "moved_battery b t (serial_key b) now"
  have "serial_key ?m = serial_key b"
    by (rule moved_serial_key, rule transition_cases[OF st]) (blast dest: normalize_serial_iff[THEN iffD1])
  then have "put_row b_id ?m (batteries f) = put_row serial_key ?m (batteries f)"
    by (intro put_row_keyed[OF _ _ b]) (use inv in \<open>simp_all add: stock_inv_def fleet_inv_def\<close>)
  moreover have "get_row serial_key (serial_key b) (batteries f) \<noteq> None" using b by (auto simp: get_row_None)
  ultimately show ?thesis using \<open>serial_key ?m = serial_key b\<close>
    by (simp add: transition_row[OF st] get_put)
qed

section \<open>One item of a receipt\<close>

text \<open>
  The loop of a receipt on manifest \<open>i\<close>: the dictionary names exactly the items of the
  manifest, and nothing else than they and the stock has changed since \<open>s0\<close>.
\<close>

definition receipt_inv :: "string \<Rightarrow> intake_db \<Rightarrow> (string \<times> int) list \<times> intake_db \<Rightarrow> bool" where
  "receipt_inv i s0 = (\<lambda>(item_map, s). stock_inv (in_fleet s) \<and> distinct (map mi_id (manifest_items s))
     \<and> mi_id ` set (items_of i s) = snd ` set item_map \<and> manifests s = manifests s0
     \<and> fleet_frame (in_fleet s) = fleet_frame (in_fleet s0)
     \<and> filter (\<lambda>x. mi_manifest_id x \<noteq> i) (manifest_items s) = filter (\<lambda>x. mi_manifest_id x \<noteq> i) (manifest_items s0))"

lemma filter_put_row_kept:
  "(\<And>x. x \<in> set t \<Longrightarrow> key x = key z \<Longrightarrow> P x) \<Longrightarrow> P z \<Longrightarrow>
   map key (filter P (put_row key z t)) = map key (filter P t)
   \<and> filter (\<lambda>x. \<not> P x) (put_row key z t) = filter (\<lambda>x. \<not> P x) t"
  by (induction t) auto

lemma receipt_put_item:
  assumes inv: "receipt_inv i s0 (im, s)" and z: "mi_manifest_id z = i" "mi_id z \<in> snd ` set im"
  shows "receipt_inv i s0 (im, s\<lparr>manifest_items := put_row mi_id z (manifest_items s)\<rparr>)"
proof -
  let ?t = "manifest_items s"
  have "mi_manifest_id x = i" if x: "x \<in> set ?t" "mi_id x = mi_id z" for x
  proof -
    obtain y where "y \<in> set ?t" "mi_manifest_id y = i" "mi_id y = mi_id z"
      using inv z(2) by (force simp: receipt_inv_def items_of_def)
    then show ?thesis using x inv by (metis (mono_tags, lifting) case_prod_conv distinct_map inj_onD receipt_inv_def)
  qed
  from filter_put_row_kept[of ?t mi_id z "\<lambda>x. mi_manifest_id x = i", OF this z(1)]
  have "map mi_id (filter (\<lambda>x. mi_manifest_id x = i) (put_row mi_id z ?t)) = map mi_id (filter (\<lambda>x. mi_manifest_id x = i) ?t)"
    "filter (\<lambda>x. mi_manifest_id x \<noteq> i) (put_row mi_id z ?t) = filter (\<lambda>x. mi_manifest_id x \<noteq> i) ?t" by simp_all
  moreover from arg_cong[OF this(1), of set]
  have "mi_id ` set (items_of i (s\<lparr>manifest_items := put_row mi_id z ?t\<rparr>)) = mi_id ` set (items_of i s)"
    by (simp add: items_of_def)
  ultimately show ?thesis using inv by (simp add: receipt_inv_def)
qed

lemma resolve_item_cases:
  assumes inv: "receipt_inv i s0 (im, s)" and ok: "resolve_item i known serial st (im, s) = Inr (x, im', s')"
  shows "receipt_inv i s0 (im', s')" "in_fleet s' = in_fleet s" "mi_manifest_id x = i" "mi_id x \<in> snd ` set im'"
proof -
  have "receipt_inv i s0 (im', s') \<and> in_fleet s' = in_fleet s \<and> mi_manifest_id x = i \<and> mi_id x \<in> snd ` set im'"
  proof (cases "map_of im serial")
    case None
    then have x: "im' = im @ [(serial, mi_id x)]" "s' = s\<lparr>manifest_items := manifest_items s @ [x]\<rparr>"
      "mi_manifest_id x = i" "mi_id x = fresh_id mi_id (manifest_items s)"
      using ok by (auto simp: resolve_item_def Let_def split: if_splits)
    have "items_of i s' = items_of i s @ [x]" by (simp add: items_of_def x)
    then show ?thesis using inv fresh_id_notin[of mi_id "manifest_items s"]
      by (simp add: receipt_inv_def x)
  next
    case (Some j)
    have j: "j \<in> snd ` set im" using map_of_SomeD[OF Some] by force
    obtain y where y: "get_row mi_id j (manifest_items s) = Some y" "x = y\<lparr>mi_battery_id := serial\<rparr>"
      "im' = im" "s' = s"
      using ok Some by (auto simp: resolve_item_def split: option.splits if_splits)
    obtain z where z: "z \<in> set (manifest_items s)" "mi_manifest_id z = i" "mi_id z = j"
      using inv j by (force simp: receipt_inv_def items_of_def)
    have "distinct (map mi_id (manifest_items s))" using inv by (simp add: receipt_inv_def)
    from get_row_member[OF this z(1)] z(3) y(1) have "y = z" by simp
    then show ?thesis using y z inv j by simp
  qed
  then show "receipt_inv i s0 (im', s')" "in_fleet s' = in_fleet s" "mi_manifest_id x = i" "mi_id x \<in> snd ` set im'"
    by blast+
qed

text \<open>How a battery that has arrived stands in the stock.\<close>

definition arrived :: "int \<Rightarrow> string \<Rightarrow> string \<Rightarrow> fleet \<Rightarrow> bool" where
  "arrived w st k f \<longleftrightarrow> (case get_row serial_key k (batteries f) of
      None \<Rightarrow> False
    | Some b \<Rightarrow> b_status b = (if st = ''damaged'' then ''maintenance'' else ''available'')
        \<and> b_location_type b = Some ''warehouse'' \<and> b_location_id b = Some w)"

lemma receipt_transition_target:
  "target_status b (receipt_transition i w a (ReceiveUpdate serial st rep ph)) =
     (if st = ''damaged'' then ''maintenance'' else ''available'')"
  "target_location_type b (receipt_transition i w a u) = Some ''warehouse''"
  "target_location_id b (receipt_transition i w a u) = Some w"
  by (auto simp: receipt_transition_def target_status_def target_location_type_def target_location_id_def
      transition_to_def split: receive_update.splits)

lemma receive_item_step:
  assumes inv: "receipt_inv i s0 st0"
    and ok: "receive_item now i w a known (ReceiveUpdate serial st rep ph) st0 = Inr st1"
  shows "receipt_inv i s0 st1"
    "k \<noteq> py_upper (py_strip serial) \<Longrightarrow>
       get_row serial_key k (batteries (in_fleet (snd st1))) = get_row serial_key k (batteries (in_fleet (snd st0)))"
    "st \<in> {''scanned'', ''damaged'', ''extra''} \<Longrightarrow> arrived w st (py_upper (py_strip serial)) (in_fleet (snd st1))"
proof -
  obtain im0 sa where st0: "st0 = (im0, sa)" by force
  obtain x im s where r: "resolve_item i known serial st (im0, sa) = Inr (x, im, s)"
    using ok by (auto simp: receive_item_def st0 split: sum.splits)
  note rc = resolve_item_cases[OF inv[unfolded st0] r]
  have stock: "stock_inv (in_fleet s)" using rc(1) by (simp add: receipt_inv_def)
  have "receipt_inv i s0 st1 \<and> (k \<noteq> py_upper (py_strip serial) \<longrightarrow>
       get_row serial_key k (batteries (in_fleet (snd st1))) = get_row serial_key k (batteries (in_fleet s)))
     \<and> (st \<in> {''scanned'', ''damaged'', ''extra''} \<longrightarrow> arrived w st (py_upper (py_strip serial)) (in_fleet (snd st1)))"
  proof (cases "st \<in> {''scanned'', ''damaged'', ''extra''}")
    case True
    let ?t = "receipt_transition i w a (ReceiveUpdate serial st rep ph)"
    let ?x = "\<lambda>b. x\<lparr>mi_battery_table_id := Some (b_id b), mi_status := st\<rparr>"
    obtain b f f' where g: "get_or_create_battery now w a serial (in_fleet s) = Inr (b, f)"
      and t: "apply_battery_transition now b ?t f = Inr f'"
      and st1: "st1 = (im, s\<lparr>in_fleet := f', manifest_items := put_row mi_id (?x b) (manifest_items s)\<rparr>)"
      using ok True by (auto simp: receive_item_def st0 r split: sum.splits)
    note gc = get_or_create[OF stock g]
    have "receipt_inv i s0 (im, s\<lparr>in_fleet := f'\<rparr>)"
      using rc(1) transition_stock[OF gc(1,2) t] transition_frame[OF t] gc(5) by (simp add: receipt_inv_def items_of_def)
    from receipt_put_item[OF this, of "?x b"] have "receipt_inv i s0 st1"
      using rc(3,4) by (simp add: st1)
    then show ?thesis using gc(3,4) by (auto simp: st1 transition_serials[OF gc(1,2) t] arrived_def
        receipt_transition_target location_types_without_id_def)
  next
    case False
    define f' where "f' = (case (case mi_battery_table_id x of
          None \<Rightarrow> None | Some j \<Rightarrow> get_row b_id j (batteries (in_fleet s))) of
        None \<Rightarrow> in_fleet s
      | Some b \<Rightarrow> if st = ''missing'' then log_battery_event now (b_id b) ''manifest_missing''
            (''Marked missing during manifest '' @ i @ '' receipt'') (Some a) (in_fleet s)
          else log_battery_event now (b_id b) ''manifest_pending''
            (''Marked pending in manifest '' @ i @ '' receipt'') (Some a) (in_fleet s))"
    have st1: "st1 = (im, s\<lparr>in_fleet := f', manifest_items := put_row mi_id (x\<lparr>mi_status := st\<rparr>) (manifest_items s)\<rparr>)"
      using ok False by (simp add: receive_item_def st0 r Let_def f'_def)
    have f': "batteries f' = batteries (in_fleet s)" "stock_inv f'" "fleet_frame f' = fleet_frame (in_fleet s)"
      using stock by (auto simp: log_frame f'_def split: option.splits)
    have "receipt_inv i s0 (im, s\<lparr>in_fleet := f'\<rparr>)"
      using rc(1) f' by (simp add: receipt_inv_def items_of_def)
    from receipt_put_item[OF this, of "x\<lparr>mi_status := st\<rparr>"] show ?thesis
      using rc(3,4) False f'(1) by (simp add: st1)
  qed
  then show "receipt_inv i s0 st1"
    "k \<noteq> py_upper (py_strip serial) \<Longrightarrow>
       get_row serial_key k (batteries (in_fleet (snd st1))) = get_row serial_key k (batteries (in_fleet (snd st0)))"
    "st \<in> {''scanned'', ''damaged'', ''extra''} \<Longrightarrow> arrived w st (py_upper (py_strip serial)) (in_fleet (snd st1))"
    using rc(2) st0 by auto
qed

interpretation receipt: preserving_step "receive_item now i w a known" "receipt_inv i s0" for now i w a known s0
proof unfold_locales
  fix st u st' assume "receipt_inv i s0 st" "receive_item now i w a known u st = Inr st'"
  then show "receipt_inv i s0 st'" by (cases u) (simp add: receive_item_step(1))
qed

definition update_key :: "receive_update \<Rightarrow> string" where
  "update_key u = (case u of ReceiveUpdate serial st rep ph \<Rightarrow> py_upper (py_strip serial))"

lemma update_key_simp [simp]: "update_key (ReceiveUpdate serial st rep ph) = py_upper (py_strip serial)"
  by (simp add: update_key_def)

lemma receipt_untouched:
  "receipt_inv i s0 st0 \<Longrightarrow> fold_res (receive_item now i w a known) us st0 = Inr st1 \<Longrightarrow>
   k \<notin> set (map update_key us) \<Longrightarrow>
   get_row serial_key k (batteries (in_fleet (snd st1))) = get_row serial_key k (batteries (in_fleet (snd st0)))"
proof (induction us arbitrary: st0)
  case (Cons u us)
  obtain serial st rep ph where u: "u = ReceiveUpdate serial st rep ph" by (cases u) auto
  obtain st where st: "receive_item now i w a known u st0 = Inr st" "fold_res (receive_item now i w a known) us st = Inr st1"
    using Cons.prems(2) by (auto split: sum.splits)
  show ?case using Cons.IH[OF receipt.step_preserves[OF Cons.prems(1) st(1)] st(2)] Cons.prems(3)
      receive_item_step(2)[OF Cons.prems(1) st(1)[unfolded u], of k]
    by (simp add: u)
qed simp

lemma receipt_arrived:
  "receipt_inv i s0 st0 \<Longrightarrow> fold_res (receive_item now i w a known) us st0 = Inr st1 \<Longrightarrow>
   distinct (map update_key us) \<Longrightarrow> ReceiveUpdate serial st rep ph \<in> set us \<Longrightarrow>
   st \<in> {''scanned'', ''damaged'', ''extra''} \<Longrightarrow> arrived w st (py_upper (py_strip serial)) (in_fleet (snd st1))"
proof (induction us arbitrary: st0)
  case (Cons u us)
  obtain st' where st': "receive_item now i w a known u st0 = Inr st'" "fold_res (receive_item now i w a known) us st' = Inr st1"
    using Cons.prems(2) by (auto split: sum.splits)
  note inv' = receipt.step_preserves[OF Cons.prems(1) st'(1)]
  show ?case
  proof (cases "ReceiveUpdate serial st rep ph \<in> set us")
    case True
    then show ?thesis using Cons.IH[OF inv' st'(2)] Cons.prems(3,5) by simp
  next
    case False
    then have u: "u = ReceiveUpdate serial st rep ph" using Cons.prems(4) by auto
    have "py_upper (py_strip serial) \<notin> set (map update_key us)" using Cons.prems(3) by (simp add: u)
    from receipt_untouched[OF inv' st'(2) this]
    show ?thesis using receive_item_step(3)[OF Cons.prems(1) st'(1)[unfolded u] Cons.prems(5)] by (simp add: arrived_def)
  qed
qed simp

lemma item_map_ids:
  "build_manifest_item_map xs im = Inr im' \<Longrightarrow> snd ` set im' = snd ` set im \<union> mi_id ` set xs"
proof (induction xs im rule: build_manifest_item_map.induct)
  case (2 x xs im)
  obtain serial where n: "normalize_battery_serial (mi_battery_id x) = Inr serial"
    using "2.prems" by (auto split: sum.splits)
  show ?case
  proof (cases "map_of im serial")
    case None
    then show ?thesis using 2 n by auto
  next
    case (Some j)
    then have "mi_id x \<in> snd ` set im" "build_manifest_item_map xs im = Inr im'"
      using "2.prems" n map_of_SomeD[OF Some] by (force split: if_splits)+
    then show ?thesis using 2 n Some by (auto split: if_splits)
  qed
qed simp

section \<open>The invariant of the API\<close>

definition outstanding :: "string set" where
  "outstanding = {''pending'', ''missing''}"

definition settled :: "string \<Rightarrow> intake_db \<Rightarrow> bool" where
  "settled i s \<longleftrightarrow> (\<forall>x \<in> set (items_of i s). mi_status x \<notin> outstanding)"

definition manifest_ok :: "intake_db \<Rightarrow> manifest \<Rightarrow> bool" where
  "manifest_ok s m \<longleftrightarrow> mf_status m \<in> snd ` set manifest_status_canonical_map
     \<and> (mf_status m \<in> {''Received'', ''Processed''} \<longrightarrow> settled (mf_id m) s)"

definition intake_inv :: "intake_db \<Rightarrow> bool" where
  "intake_inv s \<longleftrightarrow> stock_inv (in_fleet s) \<and> distinct (map (\<lambda>m. py_upper (mf_id m)) (manifests s))
     \<and> distinct (map mi_id (manifest_items s))
     \<and> (\<forall>m \<in> set (manifests s). manifest_ok s m)"

lemma canonical_status:
  "st \<in> snd ` set manifest_status_canonical_map \<Longrightarrow> normalize_manifest_status st = Inr st"
  by (auto simp: manifest_status_canonical_map_def) code_simp+

lemma normalized_status: "normalize_manifest_status raw = Inr st \<Longrightarrow> st \<in> snd ` set manifest_status_canonical_map"
  by (auto simp: normalize_manifest_status_def Let_def split: option.splits dest!: map_of_SomeD intro: rev_image_eqI)

lemma distinct_manifest_ids: "intake_inv s \<Longrightarrow> distinct (map mf_id (manifests s))"
  unfolding intake_inv_def by (metis (mono_tags, lifting) distinct_map inj_on_def)

lemma load_manifest: "load_manifest_by_id i s = Inr m \<Longrightarrow> m \<in> set (manifests s) \<and> py_upper (mf_id m) = i"
  by (auto simp: load_manifest_by_id_def find_manifests_by_normalized_id_def filter_eq_Cons_iff split: list.splits)

text \<open>A manifest gets a status that suits its items; the other manifests keep theirs.\<close>

lemma put_manifest:
  assumes inv: "intake_inv s" and m: "m \<in> set (manifests s)" and stock: "stock_inv (in_fleet s')"
    and s': "manifests s' = put_row mf_id (m\<lparr>mf_status := st\<rparr>) (manifests s)" "distinct (map mi_id (manifest_items s'))"
    and others: "filter (\<lambda>x. mi_manifest_id x \<noteq> mf_id m) (manifest_items s') = filter (\<lambda>x. mi_manifest_id x \<noteq> mf_id m) (manifest_items s)"
    and st: "st \<in> snd ` set manifest_status_canonical_map" "st \<in> {''Received'', ''Processed''} \<longrightarrow> settled (mf_id m) s'"
  shows "intake_inv s'"
    "q \<in> set (manifests s) \<Longrightarrow> mf_id q \<noteq> mf_id m \<Longrightarrow> q \<in> set (manifests s') \<and> items_of (mf_id q) s' = items_of (mf_id q) s"
proof -
  have items: "items_of j s' = items_of j s" if "j \<noteq> mf_id m" for j
  proof -
    have "items_of j t = filter (\<lambda>x. mi_manifest_id x = j) (filter (\<lambda>x. mi_manifest_id x \<noteq> mf_id m) (manifest_items t))" for t
      using that by (auto simp: items_of_def intro: filter_cong)
    then show ?thesis using others by metis
  qed
  have "map (\<lambda>m. py_upper (mf_id m)) (manifests s') = map (\<lambda>m. py_upper (mf_id m)) (manifests s)"
    unfolding s'(1) by (rule map_put_row[OF distinct_manifest_ids[OF inv] m]) simp_all
  moreover have "manifest_ok s' q" if "q \<in> set (manifests s')" for q
  proof (cases "q = m\<lparr>mf_status := st\<rparr>")
    case True
    then show ?thesis using st by (simp add: manifest_ok_def)
  next
    case False
    then have "q \<in> set (manifests s)" "mf_id q \<noteq> mf_id m" using that s'(1) by (auto dest: in_put_row)
    then show ?thesis using inv items[of "mf_id q"] by (simp add: intake_inv_def manifest_ok_def settled_def)
  qed
  ultimately show "intake_inv s'" using inv stock s'(2) by (simp add: intake_inv_def)
  show "q \<in> set (manifests s') \<and> items_of (mf_id q) s' = items_of (mf_id q) s"
    if "q \<in> set (manifests s)" "mf_id q \<noteq> mf_id m"
    using that items[OF that(2)] by (force simp: s'(1) put_row_def image_iff)
qed


definition frozen :: "intake_db \<Rightarrow> intake_db \<Rightarrow> manifest \<Rightarrow> bool" where
  "frozen s s' m \<longleftrightarrow> m \<in> set (manifests s') \<and> items_of (mf_id m) s' = items_of (mf_id m) s"

lemma add_items:
  "fold_res (add_manifest_item i) items s = Inr s' \<Longrightarrow> distinct (map mi_id (manifest_items s)) \<Longrightarrow>
   in_fleet s' = in_fleet s \<and> manifests s' = manifests s \<and> distinct (map mi_id (manifest_items s'))
   \<and> (\<forall>j. j \<noteq> i \<longrightarrow> items_of j s' = items_of j s)"
proof (induction items arbitrary: s)
  case (Cons x items)
  obtain s1 where s1: "add_manifest_item i x s = Inr s1" "fold_res (add_manifest_item i) items s1 = Inr s'"
    using Cons.prems(1) by (auto split: sum.splits)
  have "in_fleet s1 = in_fleet s \<and> manifests s1 = manifests s \<and> distinct (map mi_id (manifest_items s1))
      \<and> (\<forall>j. j \<noteq> i \<longrightarrow> items_of j s1 = items_of j s)"
    using s1(1) Cons.prems(2) fresh_id_notin[of mi_id "manifest_items s"]
    by (cases x) (auto simp: add_manifest_item_def items_of_def split: sum.splits)
  then show ?case using Cons.IH[OF s1(2)] by simp
qed simp

lemma store_manifest_step:
  assumes inv: "intake_inv s" and i: "py_upper i = i" and st: "st \<in> {''In Transit'', ''In Progress''}"
    and ok: "store_manifest now (CreatePayload i src date st items) s = Inr (v, s')"
  shows "intake_inv s'" "m \<in> set (manifests s) \<Longrightarrow> frozen s s' m"
proof -
  define m0 where "m0 = \<lparr>mf_id = i, mf_source = src, mf_date = date, mf_status = st, mf_created_at = now\<rparr>"
  have new: "\<And>m. m \<in> set (manifests s) \<Longrightarrow> py_upper (mf_id m) \<noteq> i"
    and run: "fold_res (add_manifest_item i) items (s\<lparr>manifests := manifests s @ [m0]\<rparr>) = Inr s'"
    using ok by (auto simp: m0_def Let_def find_manifests_by_normalized_id_def filter_empty_conv split: if_splits sum.splits)
  then have other: "\<And>m. m \<in> set (manifests s) \<Longrightarrow> mf_id m \<noteq> i" using i by auto
  have a: "in_fleet s' = in_fleet s" "manifests s' = manifests s @ [m0]" "distinct (map mi_id (manifest_items s'))"
    "\<And>j. j \<noteq> i \<Longrightarrow> items_of j s' = items_of j s"
    using add_items[OF run] inv by (auto simp: intake_inv_def items_of_def)
  have "manifest_ok s' m0" using st by (auto simp: m0_def manifest_ok_def manifest_status_canonical_map_def)
  moreover have "manifest_ok s' m" if "m \<in> set (manifests s)" for m
    using inv that a(4)[OF other[OF that]] by (auto simp: intake_inv_def manifest_ok_def settled_def)
  moreover have "py_upper (mf_id m0) = i" using i by (simp add: m0_def)
  moreover have "i \<notin> (\<lambda>m. py_upper (mf_id m)) ` set (manifests s)" using new by blast
  ultimately show "intake_inv s'" using inv a(1-3) by (auto simp: intake_inv_def)
  show "m \<in> set (manifests s) \<Longrightarrow> frozen s s' m" using a(2,4) other by (simp add: frozen_def)
qed

lemma compute_status:
  "compute_manifest_status sts \<in> snd ` set manifest_status_canonical_map"
  "compute_manifest_status sts \<in> {''Received'', ''Processed''} \<Longrightarrow> set sts \<inter> outstanding = {}"
  by (auto simp: compute_manifest_status_def manifest_status_canonical_map_def outstanding_def split: if_splits)

lemma receive_itemsE:
  assumes inv: "intake_inv s" and ok: "receive_items now a (ReceivePayload i w us) s = Inr (v, s')"
  obtains m im im' s1 st where "m \<in> set (manifests s)" "mf_status m \<noteq> ''Processed''"
    "fold_res (receive_item now (mf_id m) w a (map fst im)) us (im, s) = Inr (im', s1)"
    "receipt_inv (mf_id m) s (im, s)"
    "st = compute_manifest_status (List.map_filter
       (\<lambda>(serial, j). map_option mi_status (get_row mi_id j (manifest_items s1))) im')"
    "s' = s1\<lparr>manifests := put_row mf_id (m\<lparr>mf_status := st\<rparr>) (manifests s1)\<rparr>"
proof -
  obtain m cur im where m: "load_manifest_by_id i s = Inr m" "assert_manifest_receivable m = Inr cur"
    and im: "build_manifest_item_map (items_of (mf_id m) s) [] = Inr im"
    using ok by (auto split: sum.splits)
  obtain im' s1 where run: "fold_res (receive_item now (mf_id m) w a (map fst im)) us (im, s) = Inr (im', s1)"
    using ok m im by (auto split: sum.splits)
  have mm: "m \<in> set (manifests s)" using load_manifest[OF m(1)] by simp
  have "mf_status m \<noteq> ''Processed''"
    using m(2) mm inv by (auto simp: assert_manifest_receivable_def intake_inv_def manifest_ok_def canonical_status split: if_splits)
  moreover have "receipt_inv (mf_id m) s (im, s)"
    using inv item_map_ids[OF im] by (simp add: receipt_inv_def intake_inv_def)
  ultimately show thesis using that[OF mm _ run _ refl] ok m im run by (simp add: Let_def)
qed

lemma receive_items_step:
  assumes inv: "intake_inv s" and ok: "receive_items now a (ReceivePayload i w us) s = Inr (v, s')"
  shows "intake_inv s'" "q \<in> set (manifests s) \<Longrightarrow> mf_status q = ''Processed'' \<Longrightarrow> frozen s s' q"
proof -
  obtain m im im' s1 st where r: "m \<in> set (manifests s)" "mf_status m \<noteq> ''Processed''"
    "fold_res (receive_item now (mf_id m) w a (map fst im)) us (im, s) = Inr (im', s1)"
    "receipt_inv (mf_id m) s (im, s)"
    "st = compute_manifest_status (List.map_filter
       (\<lambda>(serial, j). map_option mi_status (get_row mi_id j (manifest_items s1))) im')"
    "s' = s1\<lparr>manifests := put_row mf_id (m\<lparr>mf_status := st\<rparr>) (manifests s1)\<rparr>"
    using receive_itemsE[OF assms] by metis
  have r1: "receipt_inv (mf_id m) s (im', s1)" by (rule receipt.fold_preserves[OF r(4,3)])
  have s1: "distinct (map mi_id (manifest_items s1))" "stock_inv (in_fleet s1)" "manifests s1 = manifests s"
    using r1 by (simp_all add: receipt_inv_def)
  have "settled (mf_id m) s'" if ready: "st \<in> {''Received'', ''Processed''}"
  proof -
    have "mi_status x \<notin> outstanding" if x: "x \<in> set (items_of (mf_id m) s1)" for x
    proof -
      obtain serial where "(serial, mi_id x) \<in> set im'" using r1 x by (force simp: receipt_inv_def)
      moreover have "get_row mi_id (mi_id x) (manifest_items s1) = Some x"
        using get_row_member[OF s1(1)] x by (simp add: items_of_def)
      ultimately have "mi_status x \<in> set (List.map_filter
          (\<lambda>(serial, j). map_option mi_status (get_row mi_id j (manifest_items s1))) im')"
        by (force simp: List.map_filter_def image_iff)
      then show ?thesis using compute_status(2)[OF ready[unfolded r(5)]] by blast
    qed
    then show ?thesis by (simp add: settled_def r(6) items_of_def)
  qed
  moreover have "filter (\<lambda>x. mi_manifest_id x \<noteq> mf_id m) (manifest_items s') = filter (\<lambda>x. mi_manifest_id x \<noteq> mf_id m) (manifest_items s)"
    using r1 by (simp add: receipt_inv_def r(6))
  moreover have "st \<in> snd ` set manifest_status_canonical_map" unfolding r(5) by (rule compute_status)
  ultimately have put: "intake_inv s'" "q \<in> set (manifests s) \<Longrightarrow> mf_id q \<noteq> mf_id m \<Longrightarrow>
      q \<in> set (manifests s') \<and> items_of (mf_id q) s' = items_of (mf_id q) s" for q
    using put_manifest[OF inv r(1), of s' st] s1 by (simp_all add: r(6))
  show "intake_inv s'" by (rule put(1))
  show "frozen s s' q" if "q \<in> set (manifests s)" "mf_status q = ''Processed''"
  proof -
    have "mf_id q \<noteq> mf_id m" using that r(1,2) distinct_manifest_ids[OF inv] by (metis distinct_map inj_onD)
    then show ?thesis using put(2)[OF that(1)] by (simp add: frozen_def)
  qed
qed

lemma close_manifest_step:
  assumes inv: "intake_inv s" and ok: "close_manifest (ProcessPayload i) s = Inr (v, s')"
  shows "intake_inv s'" "q \<in> set (manifests s) \<Longrightarrow> mf_status q = ''Processed'' \<Longrightarrow> frozen s s' q"
proof -
  obtain m cur where m: "load_manifest_by_id i s = Inr m" "normalize_manifest_status (mf_status m) = Inr cur"
    using ok by (auto split: sum.splits)
  have mm: "m \<in> set (manifests s)" using load_manifest[OF m(1)] by simp
  have mok: "manifest_ok s m" using inv mm by (simp add: intake_inv_def)
  then have cur: "cur = mf_status m" using m(2) canonical_status by (simp add: manifest_ok_def)
  have s': "s' = s\<lparr>manifests := put_row mf_id (m\<lparr>mf_status := ''Processed''\<rparr>) (manifests s)\<rparr>"
    and "mf_status m \<in> {''Received'', ''Processed''}"
    using ok m cur by (auto simp: Let_def split: if_splits)
  then have "settled (mf_id m) s'" using mok by (simp add: manifest_ok_def settled_def items_of_def)
  moreover have "''Processed'' \<in> snd ` set manifest_status_canonical_map" by (simp add: manifest_status_canonical_map_def)
  ultimately have put: "intake_inv s'" "q \<in> set (manifests s) \<Longrightarrow> mf_id q \<noteq> mf_id m \<Longrightarrow>
      q \<in> set (manifests s') \<and> items_of (mf_id q) s' = items_of (mf_id q) s" for q
    using put_manifest[OF inv mm, of s' "''Processed''"] inv by (simp_all add: s' intake_inv_def)
  show "intake_inv s'" by (rule put(1))
  show "frozen s s' q" if q: "q \<in> set (manifests s)" "mf_status q = ''Processed''"
  proof (cases "mf_id q = mf_id m")
    case True
    then have "q = m" using q(1) mm distinct_manifest_ids[OF inv] by (metis distinct_map inj_onD)
    moreover have "put_row mf_id m (manifests s) = manifests s"
      by (rule put_row_same[OF distinct_manifest_ids[OF inv] mm])
    moreover from \<open>q = m\<close> have "m\<lparr>mf_status := ''Processed''\<rparr> = m" using q(2) by (cases m) simp
    ultimately show ?thesis using q(1) by (simp add: frozen_def s' items_of_def)
  qed (use put(2)[OF q(1)] in \<open>simp add: frozen_def\<close>)
qed

section \<open>The API\<close>

lemma manifest_id_upper: "normalize_manifest_id raw = Inr i \<Longrightarrow> py_upper i = i"
  by (auto simp: normalize_manifest_id_def Let_def split: if_splits)

lemma payload_statuses:
  assumes "create_payload c = Inr p"
  obtains i src d st items where "p = CreatePayload i src d st items" "py_upper i = i"
    "st \<in> {''In Transit'', ''In Progress''}"
proof -
  obtain i where i: "normalize_manifest_id (mc_id c) = Inr i"
    using assms by (auto simp: create_payload_def split: sum.splits)
  obtain src where src: "normalize_manifest_source (mc_source c) = Inr src"
    using assms i by (auto simp: create_payload_def split: sum.splits)
  obtain st where st: "normalize_manifest_status (mc_status c) = Inr st" "st \<in> initial_manifest_statuses"
    using assms i src by (auto simp: create_payload_def split: sum.splits if_splits)
  have ne: "mc_items c \<noteq> []" using assms i src st by (auto simp: create_payload_def)
  obtain serials where ss: "normalize_battery_serials (map ic_battery_id (mc_items c)) True = Inr serials"
    using assms i src st ne by (auto simp: create_payload_def split: sum.splits)
  obtain items where its: "map_res item_payload (zip (mc_items c) serials) = Inr items"
    using assms i src st ne ss by (auto simp: create_payload_def split: sum.splits)
  have "create_payload c = Inr (CreatePayload i src (mc_date c)
      (if st = ''In Transit'' \<and> list_ex (\<lambda>(b, ty, x). x \<noteq> ''pending'') items then ''In Progress'' else st) items)"
    by (simp add: create_payload_def i src st ne ss its)
  then have p: "p = CreatePayload i src (mc_date c)
      (if st = ''In Transit'' \<and> list_ex (\<lambda>(b, ty, x). x \<noteq> ''pending'') items then ''In Progress'' else st) items"
    using assms by simp
  show thesis by (rule that[OF p manifest_id_upper[OF i]]) (use st(2) in \<open>auto simp: initial_manifest_statuses_def\<close>)
qed

lemma intake_work_step:
  assumes inv: "intake_inv s" and p: "intake_payload_of q s = Inr p" and ok: "intake_work now u p s = Inr (v, s')"
  shows "intake_inv s'" "m \<in> set (manifests s) \<Longrightarrow> mf_status m = ''Processed'' \<Longrightarrow> frozen s s' m"
proof -
  have "intake_inv s' \<and> (m \<in> set (manifests s) \<longrightarrow> mf_status m = ''Processed'' \<longrightarrow> frozen s s' m)"
  proof (cases q)
    case (CreateManifest c)
    then have "create_payload c = Inr p" using p by simp
    then show ?thesis
    proof (cases rule: payload_statuses)
      case (1 i src d st items)
      have "store_manifest now (CreatePayload i src d st items) s = Inr (v, s')"
        using ok by (simp add: intake_work_def 1(1))
      then show ?thesis using store_manifest_step[OF inv 1(2,3)] by blast
    qed
  next
    case (ReceiveManifest i w us)
    then obtain i' w' us' where "p = ReceivePayload i' w' us'"
      using p by (auto simp: receive_payload_def split: sum.splits if_splits)
    then show ?thesis using receive_items_step[OF inv] ok by (simp add: intake_work_def)
  next
    case (ProcessManifest i)
    then obtain i' where "p = ProcessPayload i'" using p by (auto split: sum.splits)
    then show ?thesis using close_manifest_step[OF inv] ok by (simp add: intake_work_def)
  qed
  then show "intake_inv s'" "m \<in> set (manifests s) \<Longrightarrow> mf_status m = ''Processed'' \<Longrightarrow> frozen s s' m" by blast+
qed

lemma serve_intake_step:
  assumes inv: "intake_inv s" and st: "serve_intake dec enc fp q (rows, s) = (out, rows', s')"
  shows "intake_inv s' \<and> (\<forall>m \<in> set (manifests s). mf_status m = ''Processed'' \<longrightarrow> frozen s s' m)"
proof (cases "s' = s")
  case True
  then show ?thesis using inv by (simp add: frozen_def)
next
  case False
  obtain now u raw r where q: "q = (now, u, raw, r)" by (cases q) auto
  obtain p where p: "intake_payload_of r s = Inr p"
    using st False by (cases "intake_payload_of r s") (auto simp: serve_intake_def q)
  then have "\<exists>v. intake_work now u p s = Inr (v, s')"
    using st False idempotent_state by (fastforce simp: serve_intake_def q)
  then show ?thesis using intake_work_step[OF inv p] by blast
qed

definition intake_step ::
    "('j \<Rightarrow> manifest_view option) \<Rightarrow> (manifest_view \<Rightarrow> 'j) \<Rightarrow> (intake_payload \<Rightarrow> string) \<Rightarrow>
     datetime \<times> int \<times> string option \<times> intake_request \<Rightarrow> 'j idem_row list \<times> intake_db \<Rightarrow> 'j idem_row list \<times> intake_db" where
  "intake_step dec enc fp q st = snd (serve_intake dec enc fp q st)"

lemma intake_run:
  "intake_inv s \<Longrightarrow> fold (intake_step dec enc fp) qs (rows, s) = (rows', s') \<Longrightarrow>
   intake_inv s' \<and> (\<forall>m \<in> set (manifests s). mf_status m = ''Processed'' \<longrightarrow> frozen s s' m)"
proof (induction qs arbitrary: s rows)
  case Nil
  then show ?case by (simp add: frozen_def)
next
  case (Cons q qs)
  obtain out rows1 s1 where q: "serve_intake dec enc fp q (rows, s) = (out, rows1, s1)" by (metis prod_cases3)
  note step = serve_intake_step[OF Cons.prems(1) q]
  have "intake_step dec enc fp q (rows, s) = (rows1, s1)" by (simp add: intake_step_def q)
  then have "fold (intake_step dec enc fp) qs (rows1, s1) = (rows', s')" using Cons.prems(2) by simp
  from Cons.IH[OF _ this] step show ?case by (auto simp: frozen_def)
qed

definition lists_item :: "receive_update list \<Rightarrow> string \<Rightarrow> string \<Rightarrow> bool" where
  "lists_item vs serial st \<longleftrightarrow> (\<exists>rep ph. ReceiveUpdate serial st rep ph \<in> set vs)"

lemma lists_item_Cons [simp]:
  "lists_item (ReceiveUpdate serial' st' rep' ph' # vs) serial st \<longleftrightarrow>
     serial' = serial \<and> st' = st \<or> lists_item vs serial st"
  by (auto simp: lists_item_def)

lemma receive_payload_keys:
  assumes "receive_payload i w us f = Inr p"
  obtains i' w' us' where "p = ReceivePayload i' w' us'" "resolve_intake_warehouse_id f w = Inr w'"
    "distinct (map update_key us')"
    "\<And>u st. u \<in> set us \<Longrightarrow> normalize_manifest_item_status True (iu_status u) = Inr st \<Longrightarrow>
       lists_item us' (py_upper (py_strip (iu_battery_id u))) st"
proof -
  obtain i' serials w' us' where n: "normalize_battery_serials (map iu_battery_id us) True = Inr serials"
    and w: "resolve_intake_warehouse_id f w = Inr w'" and m: "map_res update_payload (zip us serials) = Inr us'"
    and p: "p = ReceivePayload i' w' us'"
    using assms by (auto simp: receive_payload_def split: sum.splits if_splits)
  have serials: "serials = map (\<lambda>u. py_upper (py_strip (iu_battery_id u))) us" "distinct serials"
    using n unfolding normalize_serials_iff by (auto simp: comp_def)
  have gen: "map update_key vs = map (\<lambda>u. py_upper (py_strip (iu_battery_id u))) xs
      \<and> (\<forall>u st. u \<in> set xs \<longrightarrow> normalize_manifest_item_status True (iu_status u) = Inr st \<longrightarrow>
          lists_item vs (py_upper (py_strip (iu_battery_id u))) st)"
    if "map_res update_payload (zip xs (map (\<lambda>u. py_upper (py_strip (iu_battery_id u))) xs)) = Inr vs" for xs vs
    using that
  proof (induction xs arbitrary: vs)
    case (Cons x xs)
    then obtain st vs' where x: "normalize_manifest_item_status True (iu_status x) = Inr st"
      and vs': "map_res update_payload (zip xs (map (\<lambda>u. py_upper (py_strip (iu_battery_id u))) xs)) = Inr vs'"
      and vs: "\<exists>rep ph. vs = ReceiveUpdate (py_upper (py_strip (iu_battery_id x))) st rep ph # vs'"
      by (auto simp: update_payload_def split: sum.splits)
    then show ?case using Cons.IH[OF vs'] by auto
  qed simp
  note us' = gen[OF m[unfolded serials(1)]]
  show thesis by (rule that[OF p w]) (use us' serials in auto)
qed

section \<open>A concrete intake\<close>

definition sample_intake :: intake_db where
  "sample_intake = \<lparr>in_fleet = sample_fleet, manifests = [], manifest_items = []\<rparr>"

definition sample_manifest :: manifest_create where
  "sample_manifest = \<lparr>mc_id = ''m1'', mc_source = ''Plant'', mc_date = 0, mc_status = ''In_Transit'',
     mc_items = [\<lparr>ic_battery_id = ''a'', ic_type = ''48V'', ic_status = ''pending''\<rparr>,
                 \<lparr>ic_battery_id = ''c'', ic_type = ''48V'', ic_status = ''pending''\<rparr>]\<rparr>"

definition sample_updates :: "item_update list" where
  "sample_updates =
     [\<lparr>iu_battery_id = '' a'', iu_status = ''scanned'', iu_damage_report = None, iu_damage_photo_path = None\<rparr>,
      \<lparr>iu_battery_id = ''c'', iu_status = ''damaged'', iu_damage_report = Some ''bent'', iu_damage_photo_path = None\<rparr>]"

definition sample_history :: "(datetime \<times> int \<times> string option \<times> intake_request) list" where
  "sample_history = [(1, 9, Some ''k1'', CreateManifest sample_manifest),
     (2, 9, None, ReceiveManifest ''M1'' None sample_updates), (3, 9, None, ProcessManifest ''m1'')]"

definition sample_row :: "string \<Rightarrow> manifest" where
  "sample_row st = \<lparr>mf_id = ''M1'', mf_source = ''Plant'', mf_date = 0, mf_status = st, mf_created_at = 1\<rparr>"

lemma sample_intake_inv: "intake_inv sample_intake"
  using sample_inv by (simp add: intake_inv_def sample_intake_def stock_inv_def)
    (simp add: sample_fleet_def sample_battery_def serial_key_def py_upper_def upper_char_def py_strip_def is_space_def)

definition sample_after :: "nat \<Rightarrow> manifest_view idem_row list \<times> intake_db" where
  "sample_after n = fold (intake_step Some id (\<lambda>p. [])) (take n sample_history) ([], sample_intake)"

lemma sample_processed: "manifests (snd (sample_after 3)) = [sample_row ''Processed'']"
  by code_simp

lemma sample_created: "manifests (snd (sample_after 1)) = [sample_row ''In Transit'']"
  by code_simp

lemma sample_receipt: "\<exists>p v s'. intake_payload_of (ReceiveManifest ''m1'' None sample_updates) (snd (sample_after 1)) = Inr p
    \<and> intake_work 2 9 p (snd (sample_after 1)) = Inr (v, s')"
proof -
  let ?s = "snd (sample_after 1)"
  have "(case intake_payload_of (ReceiveManifest ''m1'' None sample_updates) ?s of
      Inl e \<Rightarrow> False | Inr p \<Rightarrow> (case intake_work 2 9 p ?s of Inl e \<Rightarrow> False | Inr vs \<Rightarrow> True))" by code_simp
  then show ?thesis by (auto split: sum.splits)
qed

lemma sample_after_inv: "intake_inv (snd (sample_after n))"
proof -
  obtain rows s where "sample_after n = (rows, s)" by (rule that[OF prod.collapse[symmetric]])
  then show ?thesis using intake_run[OF sample_intake_inv] unfolding sample_after_def by fastforce
qed

section \<open>Properties\<close>

text \<open>
  C16: Whatever the manifest API serves, the stock of the warehouses stays consistent, and a
  manifest that is received or processed has no item pending or missing.
\<close>

theorem received_manifest_is_settled:
  assumes "intake_inv s" "fold (intake_step dec enc fp) qs (rows, s) = (rows', s')"
    and "m \<in> set (manifests s')" "mf_status m \<in> {''Received'', ''Processed''}"
  shows "fleet_inv (in_fleet s') \<and> settled (mf_id m) s'"
  using intake_run[OF assms(1,2)] assms(3,4) by (auto simp: intake_inv_def stock_inv_def manifest_ok_def)

lemma received_manifest_is_settled_witness:
  "fleet_inv (in_fleet (snd (sample_after 3))) \<and> settled ''M1'' (snd (sample_after 3))"
proof -
  obtain rows s where s: "sample_after 3 = (rows, s)" by (rule that[OF prod.collapse[symmetric]])
  have "sample_row ''Processed'' \<in> set (manifests s)" using sample_processed s by simp
  from received_manifest_is_settled[OF sample_intake_inv s[unfolded sample_after_def] this]
  show ?thesis using s by (simp add: sample_row_def)
qed

text \<open>
  A processed manifest is final: no request changes its row, adds an item to it or changes
  one of its items.
\<close>

lemma processed_manifest_is_final:
  assumes "intake_inv s" "fold (intake_step dec enc fp) qs (rows, s) = (rows', s')"
    and "m \<in> set (manifests s)" "mf_status m = ''Processed''"
  shows "m \<in> set (manifests s') \<and> items_of (mf_id m) s' = items_of (mf_id m) s"
  using intake_run[OF assms(1,2)] assms(3,4) by (simp add: frozen_def)

lemma processed_manifest_is_final_witness:
  "\<exists>rows' s'. fold (intake_step Some id (\<lambda>p. [])) [(9, 9, None, ReceiveManifest ''M1'' None sample_updates)] (sample_after 3)
     = (rows', s') \<and> sample_row ''Processed'' \<in> set (manifests s')
     \<and> items_of ''M1'' s' = items_of ''M1'' (snd (sample_after 3))"
proof -
  obtain rows s where s: "sample_after 3 = (rows, s)" by (rule that[OF prod.collapse[symmetric]])
  obtain rows' s' where run: "fold (intake_step Some id (\<lambda>p. [])) [(9, 9, None, ReceiveManifest ''M1'' None sample_updates)] (rows, s)
      = (rows', s')" by (rule that[OF prod.collapse[symmetric]])
  have "intake_inv s" "sample_row ''Processed'' \<in> set (manifests s)"
    using sample_after_inv[of 3] sample_processed s by simp_all
  from processed_manifest_is_final[OF this(1) run this(2)] show ?thesis
    using s run by (simp add: sample_row_def del: fold_simps)
qed

text \<open>
  A receipt brings every battery it names as scanned, damaged or extra into the stock of
  the receiving warehouse: available there, or in maintenance when damaged, whether the
  battery was known before or not.
\<close>

lemma receipt_brings_stock:
  assumes "intake_inv s" "intake_payload_of (ReceiveManifest i w us) s = Inr p"
    and "intake_work now a p s = Inr (v, s')"
    and "u \<in> set us" "normalize_manifest_item_status True (iu_status u) = Inr st"
    and "st \<in> {''scanned'', ''damaged'', ''extra''}"
  shows "\<exists>w'. resolve_intake_warehouse_id (in_fleet s) w = Inr w'
    \<and> arrived w' st (py_upper (py_strip (iu_battery_id u))) (in_fleet s')"
proof -
  have "receive_payload i w us (in_fleet s) = Inr p" using assms(2) by simp
  then show ?thesis
  proof (cases rule: receive_payload_keys)
    case (1 i' w' us')
    have "receive_items now a (ReceivePayload i' w' us') s = Inr (v, s')"
      using assms(3) by (simp add: intake_work_def 1(1))
    with assms(1) show ?thesis
    proof (cases rule: receive_itemsE)
      case r: (1 m im im' s1 stat)
      obtain rep ph where "ReceiveUpdate (py_upper (py_strip (iu_battery_id u))) st rep ph \<in> set us'"
        using 1(4)[OF assms(4,5)] by (auto simp: lists_item_def)
      from receipt_arrived[OF r(4,3) 1(3) this assms(6)] show ?thesis using 1(2) r(6) by auto
    qed
  qed
qed

lemma receipt_brings_stock_witness:
  "\<exists>p v s' w. intake_payload_of (ReceiveManifest ''m1'' None sample_updates) (snd (sample_after 1)) = Inr p
     \<and> intake_work 2 9 p (snd (sample_after 1)) = Inr (v, s') \<and> arrived w ''damaged'' ''C'' (in_fleet s')"
proof -
  obtain p v s' where r: "intake_payload_of (ReceiveManifest ''m1'' None sample_updates) (snd (sample_after 1)) = Inr p"
    "intake_work 2 9 p (snd (sample_after 1)) = Inr (v, s')" using sample_receipt by blast
  let ?u = "\<lparr>iu_battery_id = ''c'', iu_status = ''damaged'', iu_damage_report = Some ''bent'', iu_damage_photo_path = None\<rparr>"
  have u: "?u \<in> set sample_updates" by (simp add: sample_updates_def)
  have st: "normalize_manifest_item_status True (iu_status ?u) = Inr ''damaged''" by code_simp
  have key: "py_upper (py_strip (iu_battery_id ?u)) = ''C''" by code_simp
  show ?thesis using r receipt_brings_stock[OF sample_after_inv r u st] unfolding key by blast
qed

end
