(* ===== verification/PyDate.thy ===== *)
theory PyDate
  imports PyStr
begin

text \<open>
  The calendar of Python's \<open>datetime\<close> as far as the payout code uses it: the first instant of a
  month as microseconds since 1970, the year and month of an instant, \<open>int\<close> of a string, and
  the month strings \<open>YYYY-MM\<close> that the settlement tables use as keys.
\<close>

section \<open>Days before a year and a month\<close>

definition leap :: "int \<Rightarrow> bool" where
  "leap y \<longleftrightarrow> y mod 4 = 0 \<and> (y mod 100 \<noteq> 0 \<or> y mod 400 = 0)"

text \<open>Days between 1 January of the year 1 and 1 January of the year \<open>y\<close>.\<close>

definition days_before_year :: "int \<Rightarrow> int" where
  "days_before_year y = (y - 1) * 365 + (y - 1) div 4 - (y - 1) div 100 + (y - 1) div 400"

definition days_before_month :: "int \<Rightarrow> int \<Rightarrow> int" where
  "days_before_month y m =
     [0, 0, 31, 59, 90, 120, 151, 181, 212, 243, 273, 304, 334, 365] ! nat m
       + (if 2 < m \<and> leap y then 1 else 0)"

definition epoch_days :: int where
  "epoch_days = 719162"

definition month_start :: "int \<Rightarrow> int \<Rightarrow> datetime" where
  "month_start y m = (days_before_year y + days_before_month y m - epoch_days) * day"

text \<open>
  \<open>datetime(y, m, 1)\<close>. A year beyond the C int range raises OverflowError in Python; here it is
  out of range like the others.
\<close>

definition py_month_start :: "int \<Rightarrow> int \<Rightarrow> datetime res" where
  "py_month_start y m =
     (if y < 1 \<or> 9999 < y then Inl (ValueError (''year '' @ show_int y @ '' is out of range''))
      else if m < 1 \<or> 12 < m then Inl (ValueError ''month must be in 1..12'')
      else Inr (month_start y m))"

section \<open>The year and the month of an instant\<close>

lemma div_pred:
  assumes "0 < n"
  shows "(y :: int) div n = (y - 1) div n + (if y mod n = 0 then 1 else 0)"
proof (cases "y mod n = 0")
  case True
  then obtain k where y: "y = n * k" by (auto simp: mod_eq_0_iff_dvd)
  moreover have "(n * k - 1) div n = k - 1"
    by (rule int_div_pos_eq[where r = "n - 1"]) (use assms in \<open>auto simp: algebra_simps\<close>)
  ultimately show ?thesis using assms by simp
next
  case False
  have "(y - 1) div n = y div n"
    by (rule int_div_pos_eq[where r = "y mod n - 1"])
      (use False assms pos_mod_bound[OF assms, of y] pos_mod_sign[OF assms, of y] in
        \<open>auto simp: order.order_iff_strict\<close>)
  with False show ?thesis by simp
qed

lemma days_before_year_step:
  "days_before_year (y + 1) = days_before_year y + (if leap y then 366 else 365)"
proof -
  have four: "y div 4 = (y - 1) div 4 + (if y mod 4 = 0 then 1 else 0)" by (rule div_pred) simp
  have cent: "y div 100 = (y - 1) div 100 + (if y mod 100 = 0 then 1 else 0)" by (rule div_pred) simp
  have era: "y div 400 = (y - 1) div 400 + (if y mod 400 = 0 then 1 else 0)" by (rule div_pred) simp
  have "y mod 100 = 0 \<Longrightarrow> y mod 4 = 0" "y mod 400 = 0 \<Longrightarrow> y mod 100 = 0" by presburger+
  then show ?thesis
    unfolding days_before_year_def leap_def add_diff_cancel_right' four cent era
    by (cases "y mod 4 = 0"; cases "y mod 100 = 0"; cases "y mod 400 = 0") (simp_all add: left_diff_distrib)
qed

lemma days_before_year_mono_step: "days_before_year y < days_before_year (y + 1)"
  by (simp add: days_before_year_step)

function year_from :: "int \<Rightarrow> int \<Rightarrow> int" where
  "year_from y d = (if d < days_before_year (y + 1) then y else year_from (y + 1) d)"
  by auto
termination
proof (relation "measure (\<lambda>(y, d). nat (d + 1 - days_before_year y))")
  fix y d assume "\<not> d < days_before_year (y + 1)"
  with days_before_year_mono_step[of y]
  show "((y + 1, d), y, d) \<in> measure (\<lambda>(y, d). nat (d + 1 - days_before_year y))"
    by simp
qed simp

declare year_from.simps [simp del]

definition year_of_day :: "int \<Rightarrow> int" where
  "year_of_day d = year_from (d div 366 + 1) d"

fun month_from :: "int \<Rightarrow> int \<Rightarrow> int list \<Rightarrow> int" where
  "month_from y d [] = 12"
| "month_from y d (m # ms) = (if d < days_before_month y (m + 1) then m else month_from y d ms)"

definition year_month :: "datetime \<Rightarrow> int \<times> int" where
  "year_month t =
     (let d = t div day + epoch_days; y = year_of_day d
      in (y, month_from y (d - days_before_year y) [1..11]))"

section \<open>Month strings\<close>

definition int_body :: "string \<Rightarrow> nat option" where
  "int_body s =
     (let parts = split_on (CHR ''_'') s
      in if list_all py_isdigit parts then Some (read_nat (concat parts)) else None)"

definition py_int :: "string \<Rightarrow> int res" where
  "py_int s =
     (case py_strip s of
        [] \<Rightarrow> Inl (ValueError ''invalid literal for int() with base 10'')
      | c # body \<Rightarrow>
          (case int_body (if c = CHR ''+'' \<or> c = CHR ''-'' then body else c # body) of
             None \<Rightarrow> Inl (ValueError ''invalid literal for int() with base 10'')
           | Some n \<Rightarrow> Inr (if c = CHR ''-'' then - int n else int n)))"

text \<open>
  \<open>year, mon = map(int, month.split("-"))\<close>: the unpacking takes two values and asks for a third
  before it complains.
\<close>

definition parse_month :: "string \<Rightarrow> (int \<times> int) res" where
  "parse_month month =
     (case map_res py_int (take 3 (split_on (CHR ''-'') month)) of
        Inl e \<Rightarrow> Inl e
      | Inr [y, m] \<Rightarrow> Inr (y, m)
      | Inr (_ # _ # _ # _) \<Rightarrow> Inl (ValueError ''too many values to unpack (expected 2)'')
      | Inr _ \<Rightarrow> Inl (ValueError ''not enough values to unpack (expected 2, got 1)''))"

definition show_month :: "int \<times> int \<Rightarrow> string" where
  "show_month ym =
     show_int (fst ym) @ ''-'' @ (if snd ym < 10 then ''0'' else []) @ show_int (snd ym)"

end
