(* ===== verification/Settlements.thy ===== *)
theory Settlements
  imports PyDate Swaps "HOL-Library.List_Lexorder" "HOL-Library.Char_ord"
begin

text \<open>
  Dealer payouts: commission rates and commission records
  (\<open>app/services/commission_service.py\<close>), the monthly settlements and their payment
  (\<open>settlement_service.py\<close>), disputes (\<open>dispute_service.py\<close>), the endpoints of
  \<open>app/api/v1/dealer_commission.py\<close> and \<open>settlements.py\<close> and the monthly jobs that drive them.
  Amounts are floats: rationals, in rupees, rounded where the code rounds. The payout gateway is a
  parameter; the PDF statement and the audit record are left out.
\<close>

section \<open>Tables\<close>

record commission_config =
  cc_id :: int
  cc_dealer_id :: "int option"
  cc_transaction_type :: string
  cc_percentage :: rat
  cc_flat_fee :: rat
  cc_effective_from :: datetime
  cc_effective_until :: "datetime option"
  cc_is_active :: bool

record commission_tier =
  ct_id :: int
  ct_config_id :: int
  ct_min_volume :: int
  ct_max_volume :: "int option"
  ct_percentage :: rat
  ct_flat_fee :: rat

record commission_log =
  cl_id :: int
  cl_transaction_id :: int
  cl_dealer_id :: "int option"
  cl_vendor_id :: "int option"
  cl_amount :: rat
  cl_status :: string
  cl_settlement_id :: "int option"
  cl_created_at :: datetime

record chargeback =
  cb_id :: int
  cb_dealer_id :: int
  cb_amount :: rat
  cb_reason :: string
  cb_status :: string
  cb_settlement_id :: "int option"
  cb_created_at :: datetime

record settlement =
  sm_id :: int
  sm_dealer_id :: "int option"
  sm_month :: string
  sm_start_date :: datetime
  sm_end_date :: datetime
  sm_due_date :: "datetime option"
  sm_total_revenue :: rat
  sm_total_commission :: rat
  sm_chargeback_amount :: rat
  sm_tax_amount :: rat
  sm_net_payable :: rat
  sm_status :: string
  sm_failure_reason :: "string option"
  sm_transaction_reference :: "string option"
  sm_payment_proof_url :: "string option"
  sm_created_at :: datetime
  sm_paid_at :: "datetime option"

record dispute =
  sd_id :: int
  sd_settlement_id :: int
  sd_dealer_id :: int
  sd_reason :: string
  sd_status :: string
  sd_resolution_notes :: "string option"
  sd_adjustment_amount :: "rat option"
  sd_created_at :: datetime
  sd_resolved_at :: "datetime option"

record dealer_profile =
  dp_id :: int
  dp_user_id :: int
  dp_is_active :: bool

record pay_txn =
  pt_id :: int
  pt_amount :: rat
  pt_type :: "string option"
  pt_rental_id :: "int option"
  pt_status :: string
  pt_created_at :: datetime

record pay_db =
  configs :: "commission_config list"
  tiers :: "commission_tier list"
  commissions :: "commission_log list"
  chargebacks :: "chargeback list"
  settlements :: "settlement list"
  disputes :: "dispute list"
  dealers :: "dealer_profile list"
  pay_stations :: "station list"
  pay_swaps :: "swap_session list"
  pay_rentals :: "rental list"
  pay_txns :: "pay_txn list"
  failure_alerts :: "(string \<times> int) list"

section \<open>Commission rates\<close>

definition no_rate :: "rat \<times> rat" where
  "no_rate = (0, 0)"

definition rate_candidates :: "string \<Rightarrow> datetime \<Rightarrow> pay_db \<Rightarrow> commission_config list" where
  "rate_candidates transaction_type now db =
     filter (\<lambda>c. cc_transaction_type c = transaction_type \<and> cc_is_active c \<and> cc_effective_from c \<le> now)
       (configs db)"

text \<open>
  Without an \<open>as_of_date\<close> the clock is an aware datetime, which Python refuses to compare with the
  naive \<open>effective_until\<close> of a row; an \<open>as_of_date\<close> that a caller passes is naive. A dealer id
  of 0 is no dealer.
\<close>

definition unexpired ::
    "datetime \<Rightarrow> datetime option \<Rightarrow> commission_config list \<Rightarrow> commission_config list res" where
  "unexpired now as_of_date cs =
     (if as_of_date = None \<and> (\<exists>c \<in> set cs. cc_effective_until c \<noteq> None)
      then Inl (TypeError ''can't compare offset-naive and offset-aware datetimes'')
      else Inr (filter (\<lambda>c. case cc_effective_until c of None \<Rightarrow> True
                            | Some u \<Rightarrow> (case as_of_date of None \<Rightarrow> now \<le> u | Some d \<Rightarrow> d \<le> u)) cs))"

definition chosen_config :: "int option \<Rightarrow> commission_config list \<Rightarrow> commission_config option" where
  "chosen_config dealer_id cs =
     (let own = (if dealer_id = None \<or> dealer_id = Some 0 then []
                 else filter (\<lambda>c. cc_dealer_id c = dealer_id) cs)
      in case own of c # _ \<Rightarrow> Some c
         | [] \<Rightarrow> (case cs of c # _ \<Rightarrow> Some c | [] \<Rightarrow> None))"

definition tier_covers :: "int \<Rightarrow> commission_tier \<Rightarrow> bool" where
  "tier_covers volume t \<longleftrightarrow>
     ct_min_volume t \<le> volume \<and> (case ct_max_volume t of None \<Rightarrow> True | Some m \<Rightarrow> volume \<le> m)"

definition config_rate :: "int \<Rightarrow> commission_config \<Rightarrow> pay_db \<Rightarrow> rat \<times> rat" where
  "config_rate volume chosen db =
     (case List.find (tier_covers volume)
             (sort_key ct_min_volume (filter (\<lambda>t. ct_config_id t = cc_id chosen) (tiers db))) of
        Some t \<Rightarrow> (ct_percentage t, ct_flat_fee t)
      | None \<Rightarrow> (cc_percentage chosen, cc_flat_fee chosen))"

definition get_applicable_rate ::
    "datetime \<Rightarrow> string \<Rightarrow> int option \<Rightarrow> int \<Rightarrow> datetime option \<Rightarrow> pay_db \<Rightarrow> (rat \<times> rat) res" where
  "get_applicable_rate now transaction_type dealer_id monthly_volume as_of_date db =
     (let moment = (case as_of_date of None \<Rightarrow> now | Some d \<Rightarrow> d)
      in case unexpired now as_of_date (rate_candidates transaction_type moment db) of
           Inl e \<Rightarrow> Inl e
         | Inr cs \<Rightarrow>
             (case chosen_config dealer_id cs of
                None \<Rightarrow> Inr no_rate
              | Some chosen \<Rightarrow> Inr (config_rate monthly_volume chosen db)))"

section \<open>Commission records\<close>

definition commission_amount :: "rat \<times> rat \<Rightarrow> rat \<Rightarrow> rat" where
  "commission_amount rate amount =
     round2 ((if 0 < fst rate then \<bar>amount\<bar> * (fst rate / 100) else 0)
             + (if 0 < snd rate then snd rate else 0))"

definition new_commission :: "datetime \<Rightarrow> int \<Rightarrow> rat \<Rightarrow> pay_db \<Rightarrow> commission_log" where
  "new_commission now transaction_id amount db =
     \<lparr>cl_id = fresh_id cl_id (commissions db), cl_transaction_id = transaction_id, cl_dealer_id = None,
      cl_vendor_id = None, cl_amount = amount, cl_status = ''pending'', cl_settlement_id = None,
      cl_created_at = now\<rparr>"

definition calculate_and_log ::
    "datetime \<Rightarrow> pay_txn \<Rightarrow> pay_db \<Rightarrow> (commission_log option \<times> pay_db) res" where
  "calculate_and_log now transaction db =
     (case get_applicable_rate now
             (case pt_type transaction of None \<Rightarrow> ''unknown'' | Some t \<Rightarrow> t) None 0 None db of
        Inl e \<Rightarrow> Inl e
      | Inr rate \<Rightarrow>
          (let amount = commission_amount rate (pt_amount transaction)
           in if amount \<le> 0 then Inr (None, db)
              else if get_row pt_id (pt_id transaction) (pay_txns db) = None then Inr (None, db)
              else case List.find (\<lambda>c. cl_transaction_id c = pt_id transaction
                                    \<and> cl_status c \<in> {''pending'', ''paid''}) (commissions db) of
                     Some existing \<Rightarrow> Inr (Some existing, db)
                   | None \<Rightarrow>
                       (let entry = new_commission now (pt_id transaction) amount db
                        in Inr (Some entry, db\<lparr>commissions := commissions db @ [entry]\<rparr>))))"

text \<open>\<open>CommissionService.process_payout\<close>.\<close>

definition process_commission_payout :: "int \<Rightarrow> pay_db \<Rightarrow> commission_log option \<times> pay_db" where
  "process_commission_payout log_id db =
     (case get_row cl_id log_id (commissions db) of
        None \<Rightarrow> (None, db)
      | Some entry \<Rightarrow>
          (let entry' = entry\<lparr>cl_status := ''paid''\<rparr>
           in (Some entry', db\<lparr>commissions := put_row cl_id entry' (commissions db)\<rparr>)))"

section \<open>The period of a settlement\<close>

text \<open>From the first instant of the month to one second before the next month begins.\<close>

definition settlement_period :: "string \<Rightarrow> (datetime \<times> datetime) res" where
  "settlement_period month =
     (case parse_month month of
        Inl e \<Rightarrow> Inl e
      | Inr (year, mon) \<Rightarrow>
          (case py_month_start year mon of
             Inl e \<Rightarrow> Inl e
           | Inr start_date \<Rightarrow>
               (case (if mon = 12 then py_month_start (year + 1) 1 else py_month_start year (mon + 1)) of
                  Inl e \<Rightarrow> Inl e
                | Inr next_month \<Rightarrow> Inr (start_date, next_month - second))))"

definition in_period :: "datetime \<times> datetime \<Rightarrow> datetime \<Rightarrow> bool" where
  "in_period period t \<longleftrightarrow> fst period \<le> t \<and> t \<le> snd period"

definition due_commission :: "int \<Rightarrow> datetime \<times> datetime \<Rightarrow> commission_log \<Rightarrow> bool" where
  "due_commission dealer_id period c \<longleftrightarrow>
     cl_dealer_id c = Some dealer_id \<and> cl_status c = ''pending'' \<and> in_period period (cl_created_at c)"

definition due_chargeback :: "int \<Rightarrow> datetime \<times> datetime \<Rightarrow> chargeback \<Rightarrow> bool" where
  "due_chargeback dealer_id period b \<longleftrightarrow>
     cb_dealer_id b = dealer_id \<and> cb_status b = ''pending'' \<and> in_period period (cb_created_at b)"

text \<open>Here the stations are found by the profile's id, not by the user's.\<close>

definition swap_revenue :: "int \<Rightarrow> datetime \<times> datetime \<Rightarrow> pay_db \<Rightarrow> rat" where
  "swap_revenue dealer_id period db =
     (case List.find (\<lambda>d. dp_user_id d = dealer_id) (dealers db) of
        None \<Rightarrow> 0
      | Some profile \<Rightarrow>
          (let station_ids = map st_id (filter (\<lambda>st. st_dealer_id st = Some (dp_id profile)) (pay_stations db))
           in round2 (sum_list (map ss_swap_amount
                (filter (\<lambda>sw. ss_station_id sw \<in> set station_ids \<and> ss_status sw = ''completed''
                     \<and> ss_payment_status sw = ''paid''
                     \<and> (case ss_completed_at sw of None \<Rightarrow> False | Some t \<Rightarrow> in_period period t))
                   (pay_swaps db))))))"

definition find_settlement :: "int \<Rightarrow> string \<Rightarrow> pay_db \<Rightarrow> settlement option" where
  "find_settlement dealer_id month db =
     List.find (\<lambda>s. sm_dealer_id s = Some dealer_id \<and> sm_month s = month) (settlements db)"

definition net_amount :: "rat \<Rightarrow> rat \<Rightarrow> rat" where
  "net_amount total_commission chargeback_amount =
     (let net_payable = round2 (total_commission - chargeback_amount)
      in if net_payable < 0 then 0 else net_payable)"

definition commission_total :: "(commission_log \<Rightarrow> bool) \<Rightarrow> pay_db \<Rightarrow> rat" where
  "commission_total P db = round2 (sum_list (map cl_amount (filter P (commissions db))))"

definition chargeback_total :: "(chargeback \<Rightarrow> bool) \<Rightarrow> pay_db \<Rightarrow> rat" where
  "chargeback_total P db = round2 (sum_list (map cb_amount (filter P (chargebacks db))))"

definition new_settlement ::
    "datetime \<Rightarrow> int \<Rightarrow> string \<Rightarrow> datetime \<times> datetime \<Rightarrow> pay_db \<Rightarrow> settlement" where
  "new_settlement now dealer_id month period db =
     (let total_commission = commission_total (due_commission dealer_id period) db;
          chargeback_amount = chargeback_total (due_chargeback dealer_id period) db
      in \<lparr>sm_id = fresh_id sm_id (settlements db), sm_dealer_id = Some dealer_id, sm_month = month,
          sm_start_date = fst period, sm_end_date = snd period,
          sm_due_date = Some (snd period + second + 9 * day),
          sm_total_revenue = swap_revenue dealer_id period db,
          sm_total_commission = total_commission, sm_chargeback_amount = chargeback_amount,
          sm_tax_amount = round2 (total_commission * (18 / 100)),
          sm_net_payable = net_amount total_commission chargeback_amount,
          sm_status = ''generated'', sm_failure_reason = None, sm_transaction_reference = None,
          sm_payment_proof_url = None, sm_created_at = now, sm_paid_at = None\<rparr>)"

definition link_commissions ::
    "(commission_log \<Rightarrow> bool) \<Rightarrow> int \<Rightarrow> commission_log list \<Rightarrow> commission_log list" where
  "link_commissions P sid =
     map (\<lambda>c. if P c then c\<lparr>cl_settlement_id := Some sid, cl_status := ''processing''\<rparr> else c)"

definition deduct_chargebacks :: "(chargeback \<Rightarrow> bool) \<Rightarrow> int \<Rightarrow> chargeback list \<Rightarrow> chargeback list" where
  "deduct_chargebacks P sid =
     map (\<lambda>b. if P b then b\<lparr>cb_settlement_id := Some sid, cb_status := ''deducted''\<rparr> else b)"

text \<open>
  The foreign key of \<open>Settlement.dealer_id\<close> points to \<open>dealer_profiles.id\<close>, while every other
  comparison of this id is with \<open>users.id\<close>: the insert fails unless some profile has that id.
\<close>

definition generate_monthly_settlement ::
    "datetime \<Rightarrow> int \<Rightarrow> string \<Rightarrow> pay_db \<Rightarrow> (settlement \<times> pay_db) res" where
  "generate_monthly_settlement now dealer_id month db =
     (case settlement_period month of
        Inl e \<Rightarrow> Inl e
      | Inr period \<Rightarrow>
          (case find_settlement dealer_id month db of
             Some existing \<Rightarrow> Inr (existing, db)
           | None \<Rightarrow>
               (let s = new_settlement now dealer_id month period db
                in if get_row dp_id dealer_id (dealers db) = None then Inl IntegrityError
                   else Inr (s, db\<lparr>settlements := settlements db @ [s],
                       commissions := link_commissions (due_commission dealer_id period) (sm_id s) (commissions db),
                       chargebacks := deduct_chargebacks (due_chargeback dealer_id period) (sm_id s) (chargebacks db)\<rparr>))))"

section \<open>Payment\<close>

text \<open>
  The payout gateway answers with a reference and a receipt, or raises with a message. The
  interim body of the code always answers; \<open>uid\<close> is the random part of its reference.
\<close>

definition execute_payout :: "(settlement \<Rightarrow> string) \<Rightarrow> settlement \<Rightarrow> string + string \<times> string" where
  "execute_payout uid s =
     Inr (''PAY-'' @ sm_month s @ ''-'' @ uid s,
          ''https://s3.wezu.com/settlements/'' @ show_int (sm_id s) @ ''/receipt.pdf'')"

definition mark_linked_paid :: "int \<Rightarrow> commission_log list \<Rightarrow> commission_log list" where
  "mark_linked_paid sid =
     map (\<lambda>c. if cl_settlement_id c = Some sid then c\<lparr>cl_status := ''paid''\<rparr> else c)"

definition paid_settlement :: "datetime \<Rightarrow> string \<times> string \<Rightarrow> settlement \<Rightarrow> settlement" where
  "paid_settlement now receipt s =
     s\<lparr>sm_status := ''paid'', sm_transaction_reference := Some (fst receipt),
       sm_payment_proof_url := Some (snd receipt), sm_paid_at := Some now\<rparr>"

definition failed_settlement :: "string \<Rightarrow> settlement \<Rightarrow> settlement" where
  "failed_settlement reason s = s\<lparr>sm_status := ''failed'', sm_failure_reason := Some reason\<rparr>"

definition settle_paid :: "datetime \<Rightarrow> settlement \<Rightarrow> pay_db \<Rightarrow> pay_db" where
  "settle_paid now s db =
     db\<lparr>settlements := put_row sm_id s (settlements db),
        commissions := mark_linked_paid (sm_id s) (commissions db)\<rparr>"

fun pay_each ::
    "(settlement \<Rightarrow> string + string \<times> string) \<Rightarrow> datetime \<Rightarrow> settlement list \<Rightarrow> pay_db
       \<Rightarrow> int \<times> int \<times> pay_db" where
  "pay_each payout now [] db = (0, 0, db)"
| "pay_each payout now (s # ss) db =
     (case payout s of
        Inr receipt \<Rightarrow>
          (case pay_each payout now ss (settle_paid now (paid_settlement now receipt s) db) of
             (processed, failed, db') \<Rightarrow> (processed + 1, failed, db'))
      | Inl reason \<Rightarrow>
          (case pay_each payout now ss
                  (db\<lparr>settlements := put_row sm_id (failed_settlement reason s) (settlements db)\<rparr>) of
             (processed, failed, db') \<Rightarrow> (processed, failed + 1, db')))"

definition payable :: "string \<Rightarrow> settlement \<Rightarrow> bool" where
  "payable month s \<longleftrightarrow> sm_month s = month \<and> sm_status s = ''generated''"

record batch_result =
  br_month :: string
  br_total :: int
  br_processed :: int
  br_failed :: int

definition process_batch_payments ::
    "(settlement \<Rightarrow> string + string \<times> string) \<Rightarrow> datetime \<Rightarrow> string \<Rightarrow> pay_db \<Rightarrow> batch_result \<times> pay_db" where
  "process_batch_payments payout now month db =
     (let ss = filter (payable month) (settlements db)
      in case pay_each payout now ss db of
           (processed, failed, db') \<Rightarrow>
             (\<lparr>br_month = month, br_total = int (length ss), br_processed = processed, br_failed = failed\<rparr>, db'))"

definition process_single_payment ::
    "(settlement \<Rightarrow> string + string \<times> string) \<Rightarrow> datetime \<Rightarrow> int \<Rightarrow> pay_db \<Rightarrow> settlement res \<times> pay_db" where
  "process_single_payment payout now settlement_id db =
     (case get_row sm_id settlement_id (settlements db) of
        None \<Rightarrow> (Inl (ValueError ''Settlement not found''), db)
      | Some s \<Rightarrow>
          if sm_status s \<notin> {''failed'', ''generated''}
          then (Inl (ValueError (''Cannot process settlement with status '' @ sm_status s)), db)
          else case payout s of
                 Inr receipt \<Rightarrow>
                   (let s' = paid_settlement now receipt s \<lparr>sm_failure_reason := None\<rparr>
                    in (Inr s', settle_paid now s' db))
               | Inl reason \<Rightarrow>
                   (Inl (ValueError (''Payment processing failed: '' @ reason)),
                    db\<lparr>settlements := put_row sm_id (failed_settlement reason s) (settlements db)\<rparr>))"

section \<open>Disputes\<close>

definition open_dispute :: "dispute \<Rightarrow> bool" where
  "open_dispute d \<longleftrightarrow> sd_status d \<in> {''open'', ''under_review''}"

definition new_dispute :: "datetime \<Rightarrow> int \<Rightarrow> int \<Rightarrow> string \<Rightarrow> pay_db \<Rightarrow> dispute" where
  "new_dispute now settlement_id dealer_id reason db =
     \<lparr>sd_id = fresh_id sd_id (disputes db), sd_settlement_id = settlement_id, sd_dealer_id = dealer_id,
      sd_reason = reason, sd_status = ''open'', sd_resolution_notes = None, sd_adjustment_amount = None,
      sd_created_at = now, sd_resolved_at = None\<rparr>"

definition create_dispute ::
    "datetime \<Rightarrow> int \<Rightarrow> int \<Rightarrow> string \<Rightarrow> pay_db \<Rightarrow> (dispute \<times> pay_db) res" where
  "create_dispute now settlement_id dealer_id reason db =
     (case get_row sm_id settlement_id (settlements db) of
        None \<Rightarrow> Inl (ValueError ''Settlement not found'')
      | Some s \<Rightarrow>
          if sm_dealer_id s \<noteq> Some dealer_id
          then Inl (PermissionError ''You can only dispute your own settlements'')
          else if List.find (\<lambda>d. sd_settlement_id d = settlement_id \<and> open_dispute d) (disputes db) \<noteq> None
          then Inl (ValueError ''An open dispute already exists for this settlement'')
          else (let d = new_dispute now settlement_id dealer_id reason db
                in Inr (d, db\<lparr>disputes := disputes db @ [d]\<rparr>)))"

definition adjust_settlement :: "int \<Rightarrow> rat \<Rightarrow> settlement list \<Rightarrow> settlement list" where
  "adjust_settlement settlement_id adjustment ss =
     (case get_row sm_id settlement_id ss of
        None \<Rightarrow> ss
      | Some s \<Rightarrow> put_row sm_id (s\<lparr>sm_net_payable := round2 (sm_net_payable s + adjustment)\<rparr>) ss)"

definition closed_dispute :: "datetime \<Rightarrow> string \<Rightarrow> dispute \<Rightarrow> dispute" where
  "closed_dispute now notes d = d\<lparr>sd_resolution_notes := Some notes, sd_resolved_at := Some now\<rparr>"

definition resolve_dispute ::
    "datetime \<Rightarrow> int \<Rightarrow> string \<Rightarrow> string \<Rightarrow> rat \<Rightarrow> pay_db \<Rightarrow> (dispute \<times> pay_db) res" where
  "resolve_dispute now dispute_id action notes adjustment_amount db =
     (case get_row sd_id dispute_id (disputes db) of
        None \<Rightarrow> Inl (ValueError ''Dispute not found'')
      | Some d \<Rightarrow>
          if \<not> open_dispute d then Inl (ValueError ''Dispute is already resolved'')
          else if action = ''approve''
          then (let d' = closed_dispute now notes
                      (d\<lparr>sd_status := ''resolved'', sd_adjustment_amount := Some (round2 adjustment_amount)\<rparr>)
                in Inr (d', db\<lparr>disputes := put_row sd_id d' (disputes db),
                             settlements := adjust_settlement (sd_settlement_id d) adjustment_amount
                                              (settlements db)\<rparr>))
          else if action = ''reject''
          then (let d' = closed_dispute now notes (d\<lparr>sd_status := ''rejected''\<rparr>)
                in Inr (d', db\<lparr>disputes := put_row sd_id d' (disputes db)\<rparr>))
          else Inl (ValueError (''action must be 'approve' or 'reject'' @ [CHR 0x27])))"

definition list_open_disputes :: "pay_db \<Rightarrow> dispute list" where
  "list_open_disputes db = filter open_dispute (disputes db)"

section \<open>The endpoints\<close>

definition as_http :: "'a res \<Rightarrow> 'a res" where
  "as_http r = (case r of Inl (ValueError m) \<Rightarrow> Inl (HTTPException 400 m)
                | Inl (PermissionError m) \<Rightarrow> Inl (HTTPException 403 m) | _ \<Rightarrow> r)"

record tier_create =
  tc_min_volume :: int
  tc_max_volume :: "int option"
  tc_percentage :: rat
  tc_flat_fee :: rat

record rate_create =
  rc_dealer_id :: "int option"
  rc_transaction_type :: string
  rc_percentage :: rat
  rc_flat_fee :: rat
  rc_effective_from :: "datetime option"
  rc_effective_until :: "datetime option"
  rc_tiers :: "tier_create list"

definition add_tier :: "int \<Rightarrow> tier_create \<Rightarrow> commission_tier list \<Rightarrow> commission_tier list" where
  "add_tier config_id t ts =
     ts @ [\<lparr>ct_id = fresh_id ct_id ts, ct_config_id = config_id, ct_min_volume = tc_min_volume t,
            ct_max_volume = tc_max_volume t, ct_percentage = tc_percentage t,
            ct_flat_fee = tc_flat_fee t\<rparr>]"

definition create_commission_rate ::
    "datetime \<Rightarrow> rate_create \<Rightarrow> pay_db \<Rightarrow> commission_config \<times> pay_db" where
  "create_commission_rate now request db =
     (let config = \<lparr>cc_id = fresh_id cc_id (configs db), cc_dealer_id = rc_dealer_id request,
            cc_transaction_type = rc_transaction_type request, cc_percentage = rc_percentage request,
            cc_flat_fee = rc_flat_fee request,
            cc_effective_from = (case rc_effective_from request of None \<Rightarrow> now | Some t \<Rightarrow> t),
            cc_effective_until = rc_effective_until request, cc_is_active = True\<rparr>
      in (config, db\<lparr>configs := configs db @ [config],
                    tiers := fold (add_tier (cc_id config)) (rc_tiers request) (tiers db)\<rparr>))"

text \<open>
  A field of the update is unset (\<open>None\<close>), or set to a value or to null: only the end of the
  period may be null in the table.
\<close>

record rate_update =
  ru_percentage :: "rat option option"
  ru_flat_fee :: "rat option option"
  ru_effective_from :: "datetime option option"
  ru_effective_until :: "datetime option option"
  ru_is_active :: "bool option option"

definition update_commission_rate ::
    "int \<Rightarrow> rate_update \<Rightarrow> pay_db \<Rightarrow> (commission_config \<times> pay_db) res" where
  "update_commission_rate config_id request db =
     (case get_row cc_id config_id (configs db) of
        None \<Rightarrow> Inl (HTTPException 404 ''Config not found'')
      | Some c \<Rightarrow>
          if ru_percentage request = Some None \<or> ru_flat_fee request = Some None
             \<or> ru_effective_from request = Some None \<or> ru_is_active request = Some None
          then Inl IntegrityError
          else (let c' = c\<lparr>
                  cc_percentage := (case ru_percentage request of Some (Some x) \<Rightarrow> x | _ \<Rightarrow> cc_percentage c),
                  cc_flat_fee := (case ru_flat_fee request of Some (Some x) \<Rightarrow> x | _ \<Rightarrow> cc_flat_fee c),
                  cc_effective_from :=
                    (case ru_effective_from request of Some (Some x) \<Rightarrow> x | _ \<Rightarrow> cc_effective_from c),
                  cc_effective_until :=
                    (case ru_effective_until request of Some x \<Rightarrow> x | None \<Rightarrow> cc_effective_until c),
                  cc_is_active := (case ru_is_active request of Some (Some x) \<Rightarrow> x | _ \<Rightarrow> cc_is_active c)\<rparr>
                in Inr (c', db\<lparr>configs := put_row cc_id c' (configs db)\<rparr>)))"

text \<open>
  The loop over the dealers commits for each; the first exception ends the request and keeps
  what was committed.
\<close>

fun generate_each ::
    "datetime \<Rightarrow> string \<Rightarrow> dealer_profile list \<Rightarrow> pay_db \<Rightarrow> settlement list res \<times> pay_db" where
  "generate_each now month [] db = (Inr [], db)"
| "generate_each now month (d # ds) db =
     (case generate_monthly_settlement now (dp_user_id d) month db of
        Inl e \<Rightarrow> (Inl e, db)
      | Inr (s, db1) \<Rightarrow>
          (case generate_each now month ds db1 of
             (Inl e, db2) \<Rightarrow> (Inl e, db2)
           | (Inr ss, db2) \<Rightarrow> (Inr (s # ss), db2)))"

definition admin_generate_settlements ::
    "datetime \<Rightarrow> string \<Rightarrow> pay_db \<Rightarrow> settlement list res \<times> pay_db" where
  "admin_generate_settlements now month db = generate_each now month (filter dp_is_active (dealers db)) db"

definition admin_retry_settlement ::
    "(settlement \<Rightarrow> string + string \<times> string) \<Rightarrow> datetime \<Rightarrow> int \<Rightarrow> pay_db \<Rightarrow> settlement res \<times> pay_db" where
  "admin_retry_settlement payout now settlement_id db =
     (case process_single_payment payout now settlement_id db of (r, db') \<Rightarrow> (as_http r, db'))"

definition admin_resolve_dispute ::
    "datetime \<Rightarrow> int \<Rightarrow> string \<Rightarrow> string \<Rightarrow> rat \<Rightarrow> pay_db \<Rightarrow> (dispute \<times> pay_db) res" where
  "admin_resolve_dispute now dispute_id action notes adjustment_amount db =
     as_http (resolve_dispute now dispute_id action notes adjustment_amount db)"

definition dealer_create_dispute ::
    "datetime \<Rightarrow> int \<Rightarrow> int \<Rightarrow> string \<Rightarrow> pay_db \<Rightarrow> (dispute \<times> pay_db) res" where
  "dealer_create_dispute now user_id settlement_id reason db =
     as_http (create_dispute now settlement_id user_id reason db)"

definition dealer_list_settlements :: "int \<Rightarrow> pay_db \<Rightarrow> settlement list" where
  "dealer_list_settlements user_id db =
     rev (sort_key sm_month (filter (\<lambda>s. sm_dealer_id s = Some user_id) (settlements db)))"

text \<open>\<open>settlements.py\<close>: the update of a settlement, which asks for no user at all, and the
  generation, whose row has no \<open>settlement_month\<close>. A vendor id of 0 counts as missing, and the
  request has no \<open>dealer_id\<close>.\<close>

definition update_settlement_status ::
    "datetime \<Rightarrow> int \<Rightarrow> string \<Rightarrow> string option \<Rightarrow> pay_db \<Rightarrow> (settlement \<times> pay_db) res" where
  "update_settlement_status now settlement_id status transaction_reference db =
     (case get_row sm_id settlement_id (settlements db) of
        None \<Rightarrow> Inl (HTTPException 404 ''Settlement not found'')
      | Some s \<Rightarrow>
          (let s' = s\<lparr>sm_status := status,
                sm_transaction_reference :=
                  (if transaction_reference = None \<or> transaction_reference = Some []
                   then sm_transaction_reference s else transaction_reference),
                sm_paid_at := (if status = ''paid'' \<and> sm_paid_at s = None then Some now else sm_paid_at s)\<rparr>
           in Inr (s', db\<lparr>settlements := put_row sm_id s' (settlements db)\<rparr>)))"

text \<open>
  \<open>PUT /settlements/{settlement_id}/approve\<close> of \<open>app/api/admin/finance.py\<close>: the status is not looked
  at, so a settlement that is paid or failed becomes approved as well.
\<close>

definition approve_settlement :: "int \<Rightarrow> pay_db \<Rightarrow> (settlement \<times> pay_db) res" where
  "approve_settlement settlement_id db =
     (case get_row sm_id settlement_id (settlements db) of
        None \<Rightarrow> Inl (HTTPException 404 ''Settlement not found'')
      | Some s \<Rightarrow>
          let s' = s\<lparr>sm_status := ''approved''\<rparr>
          in Inr (s', db\<lparr>settlements := put_row sm_id s' (settlements db)\<rparr>))"

definition generate_vendor_settlement ::
    "int \<Rightarrow> datetime \<Rightarrow> datetime \<Rightarrow> pay_db \<Rightarrow> (settlement \<times> pay_db) res" where
  "generate_vendor_settlement vendor_id start_date end_date db =
     (if vendor_id = 0
      then Inl (HTTPException 400 ''Either vendor_id or dealer_id must be provided'')
      else if filter (\<lambda>c. cl_status c = ''pending'' \<and> in_period (start_date, end_date) (cl_created_at c)
                      \<and> cl_vendor_id c = Some vendor_id) (commissions db) = []
      then Inl (HTTPException 400 ''No pending commissions found for this period'')
      else Inl IntegrityError)"

section \<open>The views of the dealer\<close>

record settlement_detail =
  de_settlement_id :: int
  de_month :: string
  de_commission_items :: "commission_log list"
  de_chargeback_items :: "chargeback list"
  de_total_commission :: rat
  de_total_chargebacks :: rat
  de_net_payable :: rat
  de_status :: string

definition get_transaction_detail :: "int \<Rightarrow> pay_db \<Rightarrow> settlement_detail option" where
  "get_transaction_detail settlement_id db =
     (case get_row sm_id settlement_id (settlements db) of
        None \<Rightarrow> None
      | Some s \<Rightarrow> Some
          \<lparr>de_settlement_id = sm_id s, de_month = sm_month s,
           de_commission_items = filter (\<lambda>c. cl_settlement_id c = Some settlement_id) (commissions db),
           de_chargeback_items = filter (\<lambda>b. cb_settlement_id b = Some settlement_id) (chargebacks db),
           de_total_commission = sm_total_commission s, de_total_chargebacks = sm_chargeback_amount s,
           de_net_payable = sm_net_payable s, de_status = sm_status s\<rparr>)"

definition dealer_settlement_details :: "int \<Rightarrow> int \<Rightarrow> pay_db \<Rightarrow> settlement_detail res" where
  "dealer_settlement_details settlement_id user_id db =
     (case get_row sm_id settlement_id (settlements db) of
        None \<Rightarrow> Inl (HTTPException 404 ''Settlement not found'')
      | Some s \<Rightarrow>
          if sm_dealer_id s \<noteq> Some user_id then Inl (HTTPException 404 ''Settlement not found'')
          else (case get_transaction_detail settlement_id db of
                  None \<Rightarrow> Inl (HTTPException 404 ''Settlement not found'')
                | Some d \<Rightarrow> Inr d))"

record dashboard =
  db_current_month :: string
  db_current_month_earnings :: rat
  db_history :: "settlement list"
  db_pending :: "int \<times> rat"
  db_paid :: "int \<times> rat"

definition count_and_amount :: "settlement list \<Rightarrow> int \<times> rat" where
  "count_and_amount ss = (int (length ss), round2 (sum_list (map sm_net_payable ss)))"

definition unpaid :: "settlement \<Rightarrow> bool" where
  "unpaid s \<longleftrightarrow> sm_status s \<in> {''pending'', ''generated''}"

definition get_dealer_dashboard :: "datetime \<Rightarrow> int \<Rightarrow> pay_db \<Rightarrow> dashboard" where
  "get_dealer_dashboard now dealer_id db =
     (let ym = year_month now;
          month_begin = month_start (fst ym) (snd ym);
          ss = rev (sort_key sm_month (filter (\<lambda>s. sm_dealer_id s = Some dealer_id
                 \<and> now - 365 * day \<le> sm_start_date s) (settlements db)))
      in \<lparr>db_current_month = show_month ym,
          db_current_month_earnings = commission_total (\<lambda>c. cl_dealer_id c = Some dealer_id
             \<and> cl_status c = ''pending'' \<and> month_begin \<le> cl_created_at c) db,
          db_history = ss,
          db_pending = count_and_amount (filter unpaid ss),
          db_paid = count_and_amount (filter (\<lambda>s. sm_status s = ''paid'') ss)\<rparr>)"

record payouts =
  py_interval :: string
  py_min_amount :: rat
  py_next_date :: datetime
  py_days :: int
  py_hours :: int
  py_total_seconds :: int
  py_current_cycle_pending :: rat
  py_status_summary :: "(string \<times> int) list"
  py_payouts :: "settlement list"

fun count_status :: "string \<Rightarrow> (string \<times> int) list \<Rightarrow> (string \<times> int) list" where
  "count_status s [] = [(s, 1)]"
| "count_status s ((t, n) # counts) =
     (if t = s then (t, n + 1) # counts else (t, n) # count_status s counts)"

text \<open>
  The end of the payout cycle in which \<open>now\<close> lies; the cycles of \<open>days_in_cycle\<close> days start over
  on the first of a month.
\<close>

definition next_payout_date :: "datetime \<Rightarrow> int \<Rightarrow> datetime" where
  "next_payout_date now days_in_cycle =
     (let ym = year_month now; cycle_start = month_start (fst ym) (snd ym);
          cycles_passed = ((now - cycle_start) div day) div days_in_cycle
      in cycle_start + (cycles_passed + 1) * days_in_cycle * day)"

text \<open>\<open>DealerProfile\<close> declares no \<open>payout_interval\<close>: the view of a dealer with a profile raises.\<close>

definition get_dealer_payouts :: "datetime \<Rightarrow> int \<Rightarrow> pay_db \<Rightarrow> payouts res" where
  "get_dealer_payouts now dealer_id db =
     (if List.find (\<lambda>d. dp_user_id d = dealer_id) (dealers db) \<noteq> None
      then Inl (AttributeError ''payout_interval'')
      else let next_date = next_payout_date now 7;
               countdown = max 0 (next_date - now) div second;
               ss = rev (sort_key sm_created_at
                      (filter (\<lambda>s. sm_dealer_id s = Some dealer_id) (settlements db)))
           in Inr \<lparr>py_interval = ''Weekly'', py_min_amount = 0, py_next_date = next_date,
                py_days = countdown div 86400, py_hours = (countdown mod 86400) div 3600,
                py_total_seconds = countdown,
                py_current_cycle_pending = round2 (sum_list (map sm_net_payable
                   (filter (\<lambda>s. unpaid s \<and> sm_month s = show_month (year_month now)) ss))),
                py_status_summary = fold (\<lambda>s. count_status (sm_status s)) ss [],
                py_payouts = ss\<rparr>)"

section \<open>The jobs\<close>

text \<open>The month before the one in which \<open>now\<close> lies: the day before its first one.\<close>

definition last_month :: "datetime \<Rightarrow> string" where
  "last_month now =
     (let ym = year_month now in show_month (year_month (month_start (fst ym) (snd ym) - day)))"

definition commission_settlement ::
    "datetime \<Rightarrow> pay_db \<Rightarrow> settlement list res \<times> pay_db" where
  "commission_settlement now db =
     generate_each now (last_month now) (filter dp_is_active (dealers db)) db"

definition result_fields :: "batch_result \<Rightarrow> (string \<times> int) list" where
  "result_fields r =
     [(''total'', br_total r), (''processed'', br_processed r), (''failed'', br_failed r)]"

text \<open>The job reads \<open>failed_count\<close> from the result and raises an alert when it is positive.\<close>

definition batch_payment_processing ::
    "(settlement \<Rightarrow> string + string \<times> string) \<Rightarrow> datetime \<Rightarrow> pay_db \<Rightarrow> batch_result \<times> pay_db" where
  "batch_payment_processing payout now db =
     (case process_batch_payments payout now (last_month now) db of
        (r, db') \<Rightarrow>
          (let failed_count = (case map_of (result_fields r) ''failed_count'' of None \<Rightarrow> 0 | Some n \<Rightarrow> n)
           in (r, if 0 < failed_count
                  then db'\<lparr>failure_alerts := failure_alerts db' @ [(last_month now, failed_count)]\<rparr>
                  else db')))"

text \<open>
  \<open>commission_accrual\<close>: the sum of yesterday's successful transactions for rentals that started at
  a station of the dealer. A positive volume adds a record without the transaction id that the
  table demands, so that the commit fails and nothing is stored.
\<close>

definition daily_volume :: "datetime \<Rightarrow> dealer_profile \<Rightarrow> pay_db \<Rightarrow> rat" where
  "daily_volume now d db =
     (let yesterday_start = (now - day) div day * day
      in sum_list (map pt_amount (filter (\<lambda>t. yesterday_start \<le> pt_created_at t
           \<and> pt_created_at t < yesterday_start + day \<and> pt_status t = ''SUCCESS''
           \<and> (case pt_rental_id t of None \<Rightarrow> False
              | Some rid \<Rightarrow>
                  (case get_row rn_id rid (pay_rentals db) of None \<Rightarrow> False
                   | Some r \<Rightarrow>
                       (case get_row st_id (rn_start_station_id r) (pay_stations db) of None \<Rightarrow> False
                        | Some st \<Rightarrow> st_dealer_id st = Some (dp_id d))))) (pay_txns db))))"

definition commission_accrual :: "datetime \<Rightarrow> pay_db \<Rightarrow> int res" where
  "commission_accrual now db =
     (if \<exists>d \<in> set (dealers db). 0 < daily_volume now d db then Inl IntegrityError
      else Inr (int (length (dealers db))))"

section \<open>Requests\<close>

text \<open>
  What changes the payout tables: the service calls, the endpoints and the jobs. A request that
  raises leaves what was committed before.
\<close>

datatype pay_request =
    CreateRate rate_create
  | UpdateRate int rate_update
  | LogCommission pay_txn
  | PayCommission int
  | Generate int string
  | GenerateAll string
  | GenerateVendor int datetime datetime
  | PayBatch string
  | RetryPayment int
  | OpenDispute int int string
  | ResolveDispute int string string rat
  | PutStatus int string "string option"
  | ApproveSettlement int
  | SettlementJob
  | PaymentJob
  | AccrualJob

definition kept :: "('a \<times> pay_db) res \<Rightarrow> pay_db \<Rightarrow> pay_db" where
  "kept r db = (case r of Inl _ \<Rightarrow> db | Inr (_, db') \<Rightarrow> db')"

fun pay_step ::
    "(settlement \<Rightarrow> string + string \<times> string) \<Rightarrow> datetime \<times> pay_request \<Rightarrow> pay_db \<Rightarrow> pay_db" where
  "pay_step payout (now, CreateRate r) db = snd (create_commission_rate now r db)"
| "pay_step payout (now, UpdateRate i r) db = kept (update_commission_rate i r db) db"
| "pay_step payout (now, LogCommission t) db = kept (calculate_and_log now t db) db"
| "pay_step payout (now, PayCommission i) db = snd (process_commission_payout i db)"
| "pay_step payout (now, Generate d m) db = kept (generate_monthly_settlement now d m db) db"
| "pay_step payout (now, GenerateAll m) db = snd (admin_generate_settlements now m db)"
| "pay_step payout (now, GenerateVendor v a b) db = kept (generate_vendor_settlement v a b db) db"
| "pay_step payout (now, PayBatch m) db = snd (process_batch_payments payout now m db)"
| "pay_step payout (now, RetryPayment i) db = snd (admin_retry_settlement payout now i db)"
| "pay_step payout (now, OpenDispute u s r) db = kept (dealer_create_dispute now u s r db) db"
| "pay_step payout (now, ResolveDispute i a n x) db = kept (admin_resolve_dispute now i a n x db) db"
| "pay_step payout (now, PutStatus i s r) db = kept (update_settlement_status now i s r db) db"
| "pay_step payout (now, ApproveSettlement i) db = kept (approve_settlement i db) db"
| "pay_step payout (now, SettlementJob) db = snd (commission_settlement now db)"
| "pay_step payout (now, PaymentJob) db = snd (batch_payment_processing payout now db)"
| "pay_step payout (now, AccrualJob) db = db"

definition pay_run ::
    "(settlement \<Rightarrow> string + string \<times> string) \<Rightarrow> (datetime \<times> pay_request) list \<Rightarrow> pay_db \<Rightarrow> pay_db" where
  "pay_run payout = fold (pay_step payout)"

end
