(* ===== verification/SettlementsInv.thy ===== *)
theory SettlementsInv
  imports Settlements
begin

text \<open>
  The accounts of the payout tables: every settlement holds the rounded sum of the commissions and
  chargebacks linked to it, a linked row is linked for good, a paid settlement is not paid again,
  and the status columns keep to their values.
\<close>

section \<open>What the accounts are\<close>

definition linked_to :: "int \<Rightarrow> commission_log \<Rightarrow> bool" where
  "linked_to sid c \<longleftrightarrow> cl_settlement_id c = Some sid"

definition deducted_in :: "int \<Rightarrow> chargeback \<Rightarrow> bool" where
  "deducted_in sid b \<longleftrightarrow> cb_settlement_id b = Some sid"

definition settlement_ok :: "pay_db \<Rightarrow> settlement \<Rightarrow> bool" where
  "settlement_ok db s \<longleftrightarrow>
     sm_total_commission s = commission_total (linked_to (sm_id s)) db \<and>
     sm_chargeback_amount s = chargeback_total (deducted_in (sm_id s)) db \<and>
     (\<forall>c \<in> set (commissions db). linked_to (sm_id s) c \<longrightarrow>
        cl_dealer_id c = sm_dealer_id s \<and> in_period (sm_start_date s, sm_end_date s) (cl_created_at c))"

definition settled_status :: "string \<Rightarrow> bool" where
  "settled_status st \<longleftrightarrow> st = ''processing'' \<or> st = ''paid''"

definition commission_ok :: "pay_db \<Rightarrow> commission_log \<Rightarrow> bool" where
  "commission_ok db c \<longleftrightarrow>
     (case cl_settlement_id c of None \<Rightarrow> True
      | Some sid \<Rightarrow> sid \<in> sm_id ` set (settlements db) \<and> settled_status (cl_status c))"

definition chargeback_ok :: "pay_db \<Rightarrow> chargeback \<Rightarrow> bool" where
  "chargeback_ok db b \<longleftrightarrow>
     (case cb_settlement_id b of None \<Rightarrow> True
      | Some sid \<Rightarrow> sid \<in> sm_id ` set (settlements db) \<and> cb_status b = ''deducted'')"

definition dealer_month :: "settlement \<Rightarrow> int option \<times> string" where
  "dealer_month s = (sm_dealer_id s, sm_month s)"

definition accounts_ok :: "pay_db \<Rightarrow> bool" where
  "accounts_ok db \<longleftrightarrow>
     distinct (map sm_id (settlements db)) \<and> distinct (map cl_id (commissions db)) \<and>
     distinct (map dealer_month (settlements db)) \<and>
     list_all (settlement_ok db) (settlements db) \<and> list_all (commission_ok db) (commissions db) \<and>
     list_all (chargeback_ok db) (chargebacks db)"

text \<open>
  What the accounts read of a settlement and of a commission: an operation that keeps these
  columns, and the status of the linked rows, keeps the accounts.
\<close>

definition settlement_key where
  "settlement_key s = (sm_id s, sm_dealer_id s, sm_month s, sm_start_date s, sm_end_date s,
     sm_total_commission s, sm_chargeback_amount s)"

definition commission_key where
  "commission_key c = (cl_id c, cl_dealer_id c, cl_amount c, cl_settlement_id c, cl_created_at c)"

lemma settled_statuses: "settled_status ''paid''" "settled_status ''processing''" "\<not> settled_status ''pending''"
  by (simp_all add: settled_status_def)

definition status_kept :: "commission_log \<Rightarrow> commission_log \<Rightarrow> bool" where
  "status_kept c c' \<longleftrightarrow> cl_status c' = cl_status c \<or> cl_status c' = ''paid''"

definition same_accounts :: "pay_db \<Rightarrow> pay_db \<Rightarrow> bool" where
  "same_accounts db db' \<longleftrightarrow>
     map settlement_key (settlements db') = map settlement_key (settlements db) \<and>
     map commission_key (commissions db') = map commission_key (commissions db) \<and>
     list_all2 status_kept (commissions db) (commissions db') \<and> chargebacks db' = chargebacks db"

lemma map_eq_list_all2: "map key xs' = map key xs \<longleftrightarrow> list_all2 (\<lambda>x y. key x = key y) xs' xs"
  by (simp add: list_all2_conv_all_nth list_eq_iff_nth_eq cong: conj_cong)

lemma map_key_eq:
  assumes "map key xs' = map key xs" "\<And>x y. key x = key y \<Longrightarrow> g x = g y"
  shows "map g xs' = map g xs"
  using assms(1) unfolding map_eq_list_all2 by (rule list_all2_mono) (rule assms(2))

lemma filter_key_eq:
  assumes "map key xs' = map key xs" and P: "\<And>x y. key x = key y \<Longrightarrow> P x = P y"
  shows "map key (filter P xs') = map key (filter P xs)"
  using assms(1) unfolding map_eq_list_all2
  by (induction rule: list_all2_induct) (auto dest: P)

lemma commission_total_key:
  assumes "map commission_key (commissions db') = map commission_key (commissions db)"
  shows "commission_total (linked_to sid) db' = commission_total (linked_to sid) db"
proof -
  have "map commission_key (filter (linked_to sid) (commissions db'))
      = map commission_key (filter (linked_to sid) (commissions db))"
    using assms by (rule filter_key_eq) (simp add: commission_key_def linked_to_def)
  then have "map cl_amount (filter (linked_to sid) (commissions db'))
      = map cl_amount (filter (linked_to sid) (commissions db))"
    by (rule map_key_eq) (simp add: commission_key_def)
  then show ?thesis by (simp add: commission_total_def)
qed

lemma find_append:
  "List.find P (xs @ ys) = (case List.find P xs of None \<Rightarrow> List.find P ys | Some x \<Rightarrow> Some x)"
  by (induction xs) auto

lemma list_all_transfer:
  "list_all2 R xs ys \<Longrightarrow> list_all P xs \<Longrightarrow> (\<And>x y. P x \<Longrightarrow> R x y \<Longrightarrow> Q y) \<Longrightarrow> list_all Q ys"
  by (induction rule: list_all2_induct) auto

lemma key_member:
  assumes "map key xs' = map key xs" "x' \<in> set xs'"
  obtains x where "x \<in> set xs" "key x' = key x"
proof -
  from assms(2) have "key x' \<in> set (map key xs')" by simp
  then have "key x' \<in> key ` set xs" unfolding assms(1) by simp
  then show ?thesis using that by (auto elim: imageE)
qed

lemma settlement_ok_key:
  assumes same: "same_accounts db db'" and ok: "settlement_ok db s" and key: "settlement_key s' = settlement_key s"
  shows "settlement_ok db' s'"
proof -
  have k: "sm_id s' = sm_id s" "sm_dealer_id s' = sm_dealer_id s" "sm_start_date s' = sm_start_date s"
    "sm_end_date s' = sm_end_date s" "sm_total_commission s' = sm_total_commission s"
    "sm_chargeback_amount s' = sm_chargeback_amount s"
    using key by (auto simp: settlement_key_def)
  have "commission_total (linked_to sid) db' = commission_total (linked_to sid) db"
    and "chargebacks db' = chargebacks db" for sid
    using same by (auto simp: same_accounts_def intro: commission_total_key)
  moreover have "cl_dealer_id c = sm_dealer_id s \<and> in_period (sm_start_date s, sm_end_date s) (cl_created_at c)"
    if c: "c \<in> set (commissions db')" "linked_to (sm_id s) c" for c
  proof -
    from same have "map commission_key (commissions db') = map commission_key (commissions db)"
      by (simp add: same_accounts_def)
    then obtain c0 where "c0 \<in> set (commissions db)" "commission_key c = commission_key c0"
      using c(1) by (rule key_member)
    with ok c show ?thesis by (auto simp: settlement_ok_def commission_key_def linked_to_def)
  qed
  ultimately show ?thesis using ok by (simp add: settlement_ok_def k chargeback_total_def)
qed

lemma same_ids:
  assumes "map settlement_key (settlements db') = map settlement_key (settlements db)"
  shows "map sm_id (settlements db') = map sm_id (settlements db)"
    and "map dealer_month (settlements db') = map dealer_month (settlements db)"
  using assms by (auto intro: map_key_eq simp: settlement_key_def dealer_month_def)

lemma same_accounts_ok:
  assumes same: "same_accounts db db'" and ok: "accounts_ok db"
  shows "accounts_ok db'"
proof -
  have key: "map settlement_key (settlements db') = map settlement_key (settlements db)"
    and ckey: "map commission_key (commissions db') = map commission_key (commissions db)"
    and cb: "chargebacks db' = chargebacks db"
    using same by (auto simp: same_accounts_def)
  note ids = same_ids[OF key]
  have ids': "sm_id ` set (settlements db') = sm_id ` set (settlements db)"
    using ids(1) by (metis list.set_map)
  have cids: "map cl_id (commissions db') = map cl_id (commissions db)"
    using ckey by (rule map_key_eq) (simp add: commission_key_def)
  have sok: "settlement_ok db' s'" if s': "s' \<in> set (settlements db')" for s'
  proof -
    from key s' obtain s where "s \<in> set (settlements db)" "settlement_key s' = settlement_key s"
      by (rule key_member)
    with ok show ?thesis by (auto simp: accounts_ok_def list_all_iff intro: settlement_ok_key[OF same])
  qed
  have "list_all2 (\<lambda>c c'. commission_key c' = commission_key c \<and> status_kept c c')
      (commissions db) (commissions db')"
  proof -
    have "list_all2 (\<lambda>c' c. commission_key c' = commission_key c) (commissions db') (commissions db)"
      using ckey unfolding map_eq_list_all2 .
    moreover have "list_all2 status_kept (commissions db) (commissions db')"
      using same by (simp add: same_accounts_def)
    ultimately show ?thesis by (simp add: list_all2_conv_all_nth)
  qed
  moreover have "list_all (commission_ok db) (commissions db)" using ok by (simp add: accounts_ok_def)
  ultimately have "list_all (commission_ok db') (commissions db')"
    by (rule list_all_transfer)
      (auto simp: commission_ok_def commission_key_def status_kept_def ids' settled_statuses split: option.splits)
  moreover have "chargeback_ok db' = chargeback_ok db"
    unfolding chargeback_ok_def[abs_def] ids' ..
  ultimately show ?thesis
    using ok sok by (simp add: accounts_ok_def list_all_iff ids cids cb)
qed

section \<open>Operations that keep the accounts\<close>

lemma same_accounts_refl: "same_accounts db db"
  by (simp add: same_accounts_def list_all2_refl status_kept_def)

lemma status_kept_trans: "status_kept c d \<Longrightarrow> status_kept d e \<Longrightarrow> status_kept c e"
  by (auto simp: status_kept_def)

lemma same_accounts_trans: "same_accounts a b \<Longrightarrow> same_accounts b c \<Longrightarrow> same_accounts a c"
  unfolding same_accounts_def using list_all2_trans[OF status_kept_trans] by auto

lemma put_settlement_key:
  assumes "get_row sm_id (sm_id s') ss = Some s" "settlement_key s' = settlement_key s"
    "distinct (map sm_id ss)"
  shows "map settlement_key (put_row sm_id s' ss) = map settlement_key ss"
  using get_row_Some[OF assms(1)] assms(2,3) by (auto intro: map_put_row)



text \<open>The rows that the operations write back keep their columns.\<close>

lemma keys_kept [simp]:
  "settlement_key (paid_settlement now receipt s) = settlement_key s"
  "settlement_key (failed_settlement reason s) = settlement_key s"
  "settlement_key (s\<lparr>sm_failure_reason := f\<rparr>) = settlement_key s"
  "settlement_key (s\<lparr>sm_net_payable := x\<rparr>) = settlement_key s"
  "settlement_key (s\<lparr>sm_status := st, sm_transaction_reference := r, sm_paid_at := t\<rparr>) = settlement_key s"
  "commission_key (c\<lparr>cl_status := st\<rparr>) = commission_key c"
  by (simp_all add: settlement_key_def commission_key_def paid_settlement_def failed_settlement_def)

lemma key_id: "settlement_key s' = settlement_key s \<Longrightarrow> sm_id s' = sm_id s"
  by (simp add: settlement_key_def)

lemma put_settlement_accounts:
  assumes ids: "distinct (map sm_id (settlements db))"
    and s: "get_row sm_id sid (settlements db) = Some s" and key: "settlement_key s' = settlement_key s"
  shows "same_accounts db (db\<lparr>settlements := put_row sm_id s' (settlements db)\<rparr>)"
proof -
  from get_row_Some[OF s] key have "s \<in> set (settlements db)" "sm_id s' = sm_id s"
    by (auto dest: key_id)
  with ids key have "map settlement_key (put_row sm_id s' (settlements db)) = map settlement_key (settlements db)"
    by (intro map_put_row) auto
  then show ?thesis by (simp add: same_accounts_def list_all2_refl status_kept_def)
qed

lemma mark_linked_accounts: "same_accounts db (db\<lparr>commissions := mark_linked_paid sid (commissions db)\<rparr>)"
  by (auto simp: same_accounts_def mark_linked_paid_def list_all2_map2 status_kept_def settled_statuses
      intro!: list_all2_refl)

lemma settle_paid_accounts:
  assumes "distinct (map sm_id (settlements db))" "get_row sm_id sid (settlements db) = Some s"
    "settlement_key s' = settlement_key s"
  shows "same_accounts db (settle_paid now s' db)"
proof -
  have "same_accounts db (db\<lparr>settlements := put_row sm_id s' (settlements db)\<rparr>)"
    by (rule put_settlement_accounts[OF assms])
  from same_accounts_trans[OF this mark_linked_accounts[where sid = "sm_id s'"]]
  show ?thesis by (simp add: settle_paid_def)
qed

lemma same_accounts_ids:
  "same_accounts db db' \<Longrightarrow> distinct (map sm_id (settlements db)) \<Longrightarrow> distinct (map sm_id (settlements db'))"
  unfolding same_accounts_def using same_ids(1) by metis

text \<open>
  The batch pays rows that it loaded before: each is still in the table with its key, whatever
  the earlier ones of the batch have changed.
\<close>

lemma pay_each_accounts:
  assumes "distinct (map sm_id (settlements db))" "settlement_key ` set ss \<subseteq> settlement_key ` set (settlements db)"
    "pay_each payout now ss db = (p, f, db')"
  shows "same_accounts db db'"
  using assms
proof (induction ss arbitrary: db p f db')
  case Nil
  then show ?case by (simp add: same_accounts_refl)
next
  case (Cons s ss)
  from Cons.prems(2) obtain t where t: "t \<in> set (settlements db)" "settlement_key t = settlement_key s"
    by (auto simp: image_iff)
  then have row: "get_row sm_id (sm_id t) (settlements db) = Some t"
    using Cons.prems(1) by (intro get_row_member)
  have rest: "same_accounts db db'"
    if same: "same_accounts db db1" and run: "pay_each payout now ss db1 = (p1, f1, db')" for db1 p1 f1
  proof (rule same_accounts_trans[OF same Cons.IH[OF _ _ run]])
    show "distinct (map sm_id (settlements db1))" using same Cons.prems(1) by (rule same_accounts_ids)
    have "settlement_key ` set (settlements db1) = settlement_key ` set (settlements db)"
      using same by (metis same_accounts_def list.set_map)
    then show "settlement_key ` set ss \<subseteq> settlement_key ` set (settlements db1)"
      using Cons.prems(2) by simp
  qed
  show ?case
  proof (cases "payout s")
    case (Inl reason)
    with Cons.prems(3) obtain f1 where run: "pay_each payout now ss
        (db\<lparr>settlements := put_row sm_id (failed_settlement reason s) (settlements db)\<rparr>) = (p, f1, db')"
      by (auto split: prod.splits)
    show ?thesis
      by (rule rest[OF put_settlement_accounts[OF Cons.prems(1) row] run]) (simp add: t)
  next
    case (Inr receipt)
    with Cons.prems(3) obtain p1 where run: "pay_each payout now ss
        (settle_paid now (paid_settlement now receipt s) db) = (p1, f, db')"
      by (auto split: prod.splits)
    show ?thesis
      by (rule rest[OF settle_paid_accounts[OF Cons.prems(1) row] run]) (simp add: t)
  qed
qed


lemma process_batch_accounts:
  assumes "distinct (map sm_id (settlements db))"
  shows "same_accounts db (snd (process_batch_payments payout now month db))"
proof -
  obtain p f db' where run: "pay_each payout now (filter (payable month) (settlements db)) db = (p, f, db')"
    by (cases "pay_each payout now (filter (payable month) (settlements db)) db" rule: prod_cases3)
  then have "same_accounts db db'" by (intro pay_each_accounts[OF assms]) auto
  with run show ?thesis by (simp add: process_batch_payments_def Let_def)
qed

lemma process_single_accounts:
  assumes ids: "distinct (map sm_id (settlements db))"
  shows "same_accounts db (snd (process_single_payment payout now sid db))"
proof (cases "get_row sm_id sid (settlements db)")
  case None
  then show ?thesis by (simp add: process_single_payment_def same_accounts_refl)
next
  case (Some s)
  show ?thesis
    using put_settlement_accounts[OF ids Some] settle_paid_accounts[OF ids Some]
    by (simp add: process_single_payment_def Some Let_def same_accounts_refl split: sum.split)
qed


section \<open>The other writes\<close>

lemma unlinked_commission_appended:
  assumes "accounts_ok db" "cl_settlement_id c = None" "cl_id c \<notin> cl_id ` set (commissions db)"
  shows "accounts_ok (db\<lparr>commissions := commissions db @ [c]\<rparr>)"
  using assms
  by (auto simp: accounts_ok_def list_all_iff settlement_ok_def commission_ok_def chargeback_ok_def
      commission_total_def chargeback_total_def linked_to_def cong: option.case_cong)

text \<open>
  Generation: the linked rows are those that were due, and no row was linked to the new id
  before; the rows of the other settlements were not pending.
\<close>

lemma pending_not_linked: "commission_ok db c \<Longrightarrow> cl_status c = ''pending'' \<Longrightarrow> cl_settlement_id c = None"
  by (auto simp: commission_ok_def settled_status_def split: option.splits)

lemma pending_not_deducted: "chargeback_ok db b \<Longrightarrow> cb_status b = ''pending'' \<Longrightarrow> cb_settlement_id b = None"
  by (auto simp: chargeback_ok_def split: option.splits)

lemma filter_linked_new:
  assumes "\<And>c. c \<in> set cs \<Longrightarrow> cl_settlement_id c \<noteq> Some sid"
  shows "map cl_amount (filter (linked_to sid) (link_commissions P sid cs)) = map cl_amount (filter P cs)"
  using assms by (induction cs) (auto simp: link_commissions_def linked_to_def)

lemma filter_linked_old:
  assumes "\<And>c. c \<in> set cs \<Longrightarrow> P c \<Longrightarrow> cl_settlement_id c = None" "sid' \<noteq> sid"
  shows "filter (linked_to sid') (link_commissions P sid cs) = filter (linked_to sid') cs"
  using assms by (induction cs) (auto simp: link_commissions_def linked_to_def)

lemma filter_deducted_new:
  assumes "\<And>b. b \<in> set bs \<Longrightarrow> cb_settlement_id b \<noteq> Some sid"
  shows "map cb_amount (filter (deducted_in sid) (deduct_chargebacks P sid bs)) = map cb_amount (filter P bs)"
  using assms by (induction bs) (auto simp: deduct_chargebacks_def deducted_in_def)

lemma filter_deducted_old:
  assumes "\<And>b. b \<in> set bs \<Longrightarrow> P b \<Longrightarrow> cb_settlement_id b = None" "sid' \<noteq> sid"
  shows "filter (deducted_in sid') (deduct_chargebacks P sid bs) = filter (deducted_in sid') bs"
  using assms by (induction bs) (auto simp: deduct_chargebacks_def deducted_in_def)

lemma find_settlement_None:
  "find_settlement dealer_id month db = None \<longleftrightarrow> (Some dealer_id, month) \<notin> dealer_month ` set (settlements db)"
  unfolding find_settlement_def find_None dealer_month_def by force

definition settled_db ::
    "datetime \<Rightarrow> int \<Rightarrow> string \<Rightarrow> datetime \<times> datetime \<Rightarrow> pay_db \<Rightarrow> pay_db" where
  "settled_db now dealer_id month period db =
     (let s = new_settlement now dealer_id month period db
      in db\<lparr>settlements := settlements db @ [s],
            commissions := link_commissions (due_commission dealer_id period) (sm_id s) (commissions db),
            chargebacks := deduct_chargebacks (due_chargeback dealer_id period) (sm_id s) (chargebacks db)\<rparr>)"

lemma generateE:
  assumes "generate_monthly_settlement now dealer_id month db = Inr (s, db')"
  obtains (existing) "find_settlement dealer_id month db = Some s" "db' = db"
  | (created) period where "settlement_period month = Inr period"
      "find_settlement dealer_id month db = None" "get_row dp_id dealer_id (dealers db) \<noteq> None"
      "s = new_settlement now dealer_id month period db" "db' = settled_db now dealer_id month period db"
  using assms
  by (auto simp: generate_monthly_settlement_def settled_db_def Let_def
      split: sum.splits option.splits if_splits)

lemma new_settlement_simps [simp]:
  "sm_id (new_settlement now d m p db) = fresh_id sm_id (settlements db)"
  "sm_dealer_id (new_settlement now d m p db) = Some d"
  "sm_month (new_settlement now d m p db) = m"
  "sm_start_date (new_settlement now d m p db) = fst p"
  "sm_end_date (new_settlement now d m p db) = snd p"
  "sm_total_commission (new_settlement now d m p db) = commission_total (due_commission d p) db"
  "sm_chargeback_amount (new_settlement now d m p db) = chargeback_total (due_chargeback d p) db"
  "sm_net_payable (new_settlement now d m p db) =
     net_amount (commission_total (due_commission d p) db) (chargeback_total (due_chargeback d p) db)"
  "sm_status (new_settlement now d m p db) = ''generated''"
  "sm_paid_at (new_settlement now d m p db) = None"
  "sm_transaction_reference (new_settlement now d m p db) = None"
  "sm_failure_reason (new_settlement now d m p db) = None"
  by (simp_all add: new_settlement_def Let_def)


lemma in_linked:
  "c' \<in> set (link_commissions P sid cs) \<longleftrightarrow>
     (\<exists>c \<in> set cs. c' = (if P c then c\<lparr>cl_settlement_id := Some sid, cl_status := ''processing''\<rparr> else c))"
  by (auto simp: link_commissions_def)

lemma in_deducted:
  "b' \<in> set (deduct_chargebacks P sid bs) \<longleftrightarrow>
     (\<exists>b \<in> set bs. b' = (if P b then b\<lparr>cb_settlement_id := Some sid, cb_status := ''deducted''\<rparr> else b))"
  by (auto simp: deduct_chargebacks_def)

lemma map_linked_ids [simp]: "map cl_id (link_commissions P sid cs) = map cl_id cs"
  by (simp add: link_commissions_def)

lemma not_linked_fresh:
  assumes ok: "accounts_ok db"
  shows "c \<in> set (commissions db) \<Longrightarrow> cl_settlement_id c \<noteq> Some (fresh_id sm_id (settlements db))"
  using ok fresh_id_notin[of sm_id "settlements db"]
  by (auto simp: accounts_ok_def list_all_iff commission_ok_def split: option.splits)

lemma not_deducted_fresh:
  assumes ok: "accounts_ok db"
  shows "b \<in> set (chargebacks db) \<Longrightarrow> cb_settlement_id b \<noteq> Some (fresh_id sm_id (settlements db))"
  using ok fresh_id_notin[of sm_id "settlements db"]
  by (auto simp: accounts_ok_def list_all_iff chargeback_ok_def split: option.splits)

lemma due_not_linked:
  assumes ok: "accounts_ok db"
  shows "c \<in> set (commissions db) \<Longrightarrow> due_commission dealer_id period c \<Longrightarrow> cl_settlement_id c = None"
  using ok by (auto simp: accounts_ok_def list_all_iff due_commission_def intro: pending_not_linked)

lemma due_not_deducted:
  assumes ok: "accounts_ok db"
  shows "b \<in> set (chargebacks db) \<Longrightarrow> due_chargeback dealer_id period b \<Longrightarrow> cb_settlement_id b = None"
  using ok by (auto simp: accounts_ok_def list_all_iff due_chargeback_def intro: pending_not_deducted)

lemma settled_db_new_ok:
  assumes ok: "accounts_ok db"
  shows "settlement_ok (settled_db now dealer_id month period db) (new_settlement now dealer_id month period db)"
proof -
  let ?sid = "fresh_id sm_id (settlements db)" and ?due = "due_commission dealer_id period"
  have "cl_dealer_id c' = Some dealer_id \<and> in_period period (cl_created_at c')"
    if "c' \<in> set (link_commissions ?due ?sid (commissions db))" "linked_to ?sid c'" for c'
  proof -
    from that(1) obtain c where c: "c \<in> set (commissions db)"
      "c' = (if ?due c then c\<lparr>cl_settlement_id := Some ?sid, cl_status := ''processing''\<rparr> else c)"
      unfolding in_linked by blast
    have due: "?due c" using that(2) not_linked_fresh[OF ok c(1)] c(2) by (auto simp: linked_to_def split: if_splits)
    then have "cl_dealer_id c = Some dealer_id \<and> in_period period (cl_created_at c)"
      by (simp add: due_commission_def)
    with c(2) due show ?thesis by simp
  qed
  then show ?thesis
    using filter_linked_new[of "commissions db", OF not_linked_fresh[OF ok]]
      filter_deducted_new[of "chargebacks db", OF not_deducted_fresh[OF ok]]
    by (simp add: settlement_ok_def settled_db_def Let_def commission_total_def chargeback_total_def)
qed

lemma settled_db_old_ok:
  assumes ok: "accounts_ok db" and s: "s \<in> set (settlements db)"
  shows "settlement_ok (settled_db now dealer_id month period db) s"
proof -
  let ?sid = "fresh_id sm_id (settlements db)" and ?db = "settled_db now dealer_id month period db"
  have other: "sm_id s \<noteq> ?sid" using fresh_id_above[OF s, of sm_id] by simp
  have c: "filter (linked_to (sm_id s)) (commissions ?db) = filter (linked_to (sm_id s)) (commissions db)"
    using filter_linked_old[OF _ other, of "commissions db" "due_commission dealer_id period"] due_not_linked[OF ok]
    by (simp add: settled_db_def Let_def)
  have b: "filter (deducted_in (sm_id s)) (chargebacks ?db) = filter (deducted_in (sm_id s)) (chargebacks db)"
    using filter_deducted_old[OF _ other, of "chargebacks db" "due_chargeback dealer_id period"]
      due_not_deducted[OF ok]
    by (simp add: settled_db_def Let_def)
  have "settlement_ok db s" using ok s by (simp add: accounts_ok_def list_all_iff)
  moreover have "c' \<in> set (commissions db)" if "c' \<in> set (commissions ?db)" "linked_to (sm_id s) c'" for c'
    using arg_cong[OF c, of set] that by (auto simp: set_eq_iff)
  ultimately show ?thesis
    by (auto simp: settlement_ok_def commission_total_def chargeback_total_def c b)
qed

lemma settled_db_commissions_ok:
  assumes ok: "accounts_ok db"
  shows "list_all (commission_ok (settled_db now dealer_id month period db))
     (commissions (settled_db now dealer_id month period db))"
  using ok
  by (auto simp: list_all_iff accounts_ok_def settled_db_def Let_def in_linked commission_ok_def
      settled_statuses split: option.splits if_splits)

lemma settled_db_chargebacks_ok:
  assumes ok: "accounts_ok db"
  shows "list_all (chargeback_ok (settled_db now dealer_id month period db))
     (chargebacks (settled_db now dealer_id month period db))"
  using ok
  by (auto simp: list_all_iff accounts_ok_def settled_db_def Let_def in_deducted chargeback_ok_def
      split: option.splits if_splits)

lemma settled_db_ok:
  assumes ok: "accounts_ok db" and "find_settlement dealer_id month db = None"
  shows "accounts_ok (settled_db now dealer_id month period db)"
proof -
  have "settlements (settled_db now dealer_id month period db)
      = settlements db @ [new_settlement now dealer_id month period db]"
    by (simp add: settled_db_def Let_def)
  moreover have "map cl_id (commissions (settled_db now dealer_id month period db)) = map cl_id (commissions db)"
    by (simp add: settled_db_def Let_def)
  moreover have "dealer_month (new_settlement now dealer_id month period db) = (Some dealer_id, month)"
    by (simp add: dealer_month_def)
  ultimately show ?thesis
    unfolding accounts_ok_def
    using ok assms settled_db_new_ok[OF ok] settled_db_old_ok[OF ok] settled_db_commissions_ok[OF ok]
      settled_db_chargebacks_ok[OF ok]
      fresh_id_notin[of sm_id "settlements db"]
    by (auto simp: accounts_ok_def find_settlement_None list_all_iff)
qed

lemma commission_paid_accounts:
  assumes "distinct (map cl_id (commissions db))" "get_row cl_id i (commissions db) = Some c"
  shows "same_accounts db (db\<lparr>commissions := put_row cl_id (c\<lparr>cl_status := ''paid''\<rparr>) (commissions db)\<rparr>)"
proof -
  from get_row_Some[OF assms(2)] have c: "c \<in> set (commissions db)" by simp
  then have "map commission_key (put_row cl_id (c\<lparr>cl_status := ''paid''\<rparr>) (commissions db))
      = map commission_key (commissions db)"
    using assms(1) by (intro map_put_row) auto
  then show ?thesis
    by (auto simp: same_accounts_def status_kept_def settled_statuses put_row_def list_all2_map2
        intro!: list_all2_refl)
qed

lemma only_tables_accounts:
  "settlements db' = settlements db \<Longrightarrow> commissions db' = commissions db \<Longrightarrow>
     chargebacks db' = chargebacks db \<Longrightarrow> same_accounts db db'"
  by (simp add: same_accounts_def list_all2_refl status_kept_def)

lemma kept_simps [simp]: "kept (Inl e) db = db" "kept (Inr (x, db')) db = db'"
  by (simp_all add: kept_def)

lemma kept_as_http [simp]: "kept (as_http r) db = kept r db"
  by (auto simp: kept_def as_http_def split: sum.splits exn.splits)

lemma kept_cases:
  assumes "\<And>x db'. r = Inr (x, db') \<Longrightarrow> Q db'" "Q db"
  shows "Q (kept r db)"
  using assms by (cases r) (auto simp: kept_def)

lemma calculate_and_logE:
  assumes "calculate_and_log now t db = Inr (r, db')"
  obtains (unchanged) "db' = db"
  | (logged) amount where "0 < amount" "db' = db\<lparr>commissions := commissions db @ [new_commission now (pt_id t) amount db]\<rparr>"
      "\<forall>c \<in> set (commissions db). cl_transaction_id c = pt_id t \<longrightarrow> cl_status c \<notin> {''pending'', ''paid''}"
  using assms
  by (auto simp: calculate_and_log_def Let_def find_None not_le split: sum.splits option.splits if_splits)

lemma resolve_accounts:
  assumes "distinct (map sm_id (settlements db))"
  shows "same_accounts db (kept (resolve_dispute now i a n x db) db)"
proof (rule kept_cases)
  fix d db' assume "resolve_dispute now i a n x db = Inr (d, db')"
  then consider "settlements db' = settlements db" "commissions db' = commissions db" "chargebacks db' = chargebacks db"
    | sid where "settlements db' = adjust_settlement sid x (settlements db)" "commissions db' = commissions db"
        "chargebacks db' = chargebacks db"
    by (auto simp: resolve_dispute_def Let_def split: option.splits if_splits)
  then show "same_accounts db db'"
  proof cases
    case 2
    have "same_accounts db (db\<lparr>settlements := adjust_settlement sid x (settlements db)\<rparr>)"
      using put_settlement_accounts[OF assms, of sid] only_tables_accounts[of db db]
      by (auto simp: adjust_settlement_def split: option.splits)
    with 2 show ?thesis by (simp add: same_accounts_def)
  qed (rule only_tables_accounts)
qed (rule same_accounts_refl)

lemma update_status_accounts:
  "distinct (map sm_id (settlements db)) \<Longrightarrow>
     same_accounts db (kept (update_settlement_status now i st r db) db)"
  by (rule kept_cases)
    (auto simp: update_settlement_status_def Let_def same_accounts_refl split: option.splits
      intro: put_settlement_accounts)

lemma approve_accounts:
  "distinct (map sm_id (settlements db)) \<Longrightarrow> same_accounts db (kept (approve_settlement i db) db)"
  by (rule kept_cases)
    (auto simp: approve_settlement_def Let_def same_accounts_refl settlement_key_def split: option.splits
      intro!: put_settlement_accounts)

section \<open>The history of the payout tables\<close>

text \<open>
  Every write of the component is one of three: it keeps the accounts, it appends a commission
  that is not linked, or it creates the settlement of a dealer and month that had none.
\<close>

inductive grows :: "pay_db \<Rightarrow> pay_db \<Rightarrow> bool" where
  keep: "same_accounts db db' \<Longrightarrow> grows db db'"
| log: "0 < amount \<Longrightarrow>
    \<forall>c \<in> set (commissions db). cl_transaction_id c = tid \<longrightarrow> cl_status c \<notin> {''pending'', ''paid''} \<Longrightarrow>
    grows db (db\<lparr>commissions := commissions db @ [new_commission now tid amount db]\<rparr>)"
| settle: "settlement_period month = Inr period \<Longrightarrow> find_settlement d month db = None \<Longrightarrow>
    grows db (settled_db now d month period db)"
| further: "grows db db1 \<Longrightarrow> grows db1 db2 \<Longrightarrow> grows db db2"

lemma grows_refl: "grows db db"
  by (rule grows.keep[OF same_accounts_refl])

lemma grows_accounts: "grows db db' \<Longrightarrow> accounts_ok db \<Longrightarrow> accounts_ok db'"
proof (induction rule: grows.induct)
  case (log amount db tid now)
  have "cl_settlement_id (new_commission now tid amount db) = None"
    "cl_id (new_commission now tid amount db) \<notin> cl_id ` set (commissions db)"
    by (simp_all add: new_commission_def fresh_id_notin)
  with log show ?case by (simp add: unlinked_commission_appended)
qed (auto intro: same_accounts_ok settled_db_ok)

lemma generate_grows: "generate_monthly_settlement now d m db = Inr (s, db') \<Longrightarrow> grows db db'"
  by (erule generateE) (auto intro: grows.settle grows_refl)

lemma generate_kept_grows: "grows db (kept (generate_monthly_settlement now d m db) db)"
  by (rule kept_cases) (auto intro: generate_grows grows_refl)

lemma generate_each_grows: "grows db (snd (generate_each now month ds db))"
proof (induction ds arbitrary: db)
  case (Cons d ds)
  show ?case
  proof (cases "generate_monthly_settlement now (dp_user_id d) month db")
    case (Inr r)
    obtain s db1 where r: "r = (s, db1)" by (cases r)
    have "grows db db1" by (rule generate_grows) (use Inr r in simp)
    from grows.further[OF this Cons.IH] show ?thesis
      by (auto simp: Inr r split: prod.splits sum.splits)
  qed (simp add: grows_refl)
qed (simp add: grows_refl)

lemma calculate_grows: "grows db (kept (calculate_and_log now t db) db)"
proof (rule kept_cases)
  fix r db' assume "calculate_and_log now t db = Inr (r, db')"
  then show "grows db db'"
    by (cases rule: calculate_and_logE) (auto intro: grows.log grows_refl)
qed (rule grows_refl)

lemma pay_step_grows: "accounts_ok db \<Longrightarrow> grows db (pay_step payout (now, req) db)"
proof -
  assume ok: "accounts_ok db"
  then have ids: "distinct (map sm_id (settlements db))" "distinct (map cl_id (commissions db))"
    by (simp_all add: accounts_ok_def)
  note same = grows.keep
  show ?thesis
  proof (cases req)
    case (CreateRate r)
    show ?thesis by (rule same, rule only_tables_accounts) (simp_all add: CreateRate create_commission_rate_def Let_def)
  next
    case (UpdateRate i r)
    have "same_accounts db (kept (update_commission_rate i r db) db)"
      by (rule kept_cases) (auto simp: update_commission_rate_def Let_def same_accounts_refl
          split: option.splits if_splits intro: only_tables_accounts)
    then show ?thesis by (simp add: UpdateRate same)
  next
    case (LogCommission t)
    then show ?thesis using calculate_grows by simp
  next
    case (PayCommission i)
    show ?thesis
      using same[OF commission_paid_accounts[OF ids(2)]] grows_refl
      by (auto simp: PayCommission process_commission_payout_def Let_def split: option.splits)
  next
    case (Generate d m)
    then show ?thesis by (simp add: generate_kept_grows)
  next
    case (GenerateAll m)
    then show ?thesis using generate_each_grows by (simp add: admin_generate_settlements_def)
  next
    case (GenerateVendor v a b)
    then show ?thesis by (simp add: generate_vendor_settlement_def grows_refl)
  next
    case (PayBatch m)
    then show ?thesis using same[OF process_batch_accounts[OF ids(1)]] by simp
  next
    case (RetryPayment i)
    then show ?thesis
      using same[OF process_single_accounts[OF ids(1)]]
      by (simp add: admin_retry_settlement_def case_prod_beta)
  next
    case (OpenDispute u s r)
    have "same_accounts db (kept (create_dispute now s u r db) db)"
      by (rule kept_cases) (auto simp: create_dispute_def Let_def same_accounts_refl
          split: option.splits if_splits intro: only_tables_accounts)
    then show ?thesis by (simp add: OpenDispute dealer_create_dispute_def same)
  next
    case (ResolveDispute i a n x)
    then show ?thesis using same[OF resolve_accounts[OF ids(1)]] by (simp add: admin_resolve_dispute_def)
  next
    case (PutStatus i s r)
    then show ?thesis using same[OF update_status_accounts[OF ids(1)]] by simp
  next
    case (ApproveSettlement i)
    then show ?thesis using same[OF approve_accounts[OF ids(1)]] by simp
  next
    case SettlementJob
    then show ?thesis using generate_each_grows by (simp add: commission_settlement_def)
  next
    case PaymentJob
    have "same_accounts db (snd (batch_payment_processing payout now db))"
      using process_batch_accounts[OF ids(1), of payout now "last_month now"]
      by (auto simp: batch_payment_processing_def Let_def case_prod_beta same_accounts_def)
    then show ?thesis by (simp add: PaymentJob same)
  next
    case AccrualJob
    then show ?thesis by (simp add: grows_refl)
  qed
qed

end
