(* ===== verification/PyDateInv.thy ===== *)
theory PyDateInv
  imports PyDate
begin

text \<open>
  The calendar is right: months follow each other without gap or overlap, every instant lies in
  the month that \<open>year_month\<close> names, and a month string is read back as its year and month.
\<close>

section \<open>Months follow each other\<close>

definition next_month :: "int \<Rightarrow> int \<Rightarrow> int \<times> int" where
  "next_month y m = (if m = 12 then (y + 1, 1) else (y, m + 1))"

definition month_end :: "int \<Rightarrow> int \<Rightarrow> datetime" where
  "month_end y m = (case next_month y m of (y', m') \<Rightarrow> month_start y' m')"

lemma month_cases:
  assumes "1 \<le> m" "m \<le> (12 :: int)"
  obtains "m = 1" | "m = 2" | "m = 3" | "m = 4" | "m = 5" | "m = 6" | "m = 7" | "m = 8" | "m = 9"
    | "m = 10" | "m = 11" | "m = 12"
proof -
  have "m = 1 \<or> m = 2 \<or> m = 3 \<or> m = 4 \<or> m = 5 \<or> m = 6 \<or> m = 7 \<or> m = 8 \<or> m = 9 \<or> m = 10
      \<or> m = 11 \<or> m = 12"
    using assms by presburger
  with that show ?thesis by blast
qed

lemma days_before_month_step: "1 \<le> m \<Longrightarrow> m < 12 \<Longrightarrow> days_before_month y m < days_before_month y (m + 1)"
  by (rule month_cases[of m]) (auto simp: days_before_month_def)

lemma days_before_month_bounds:
  "1 \<le> m \<Longrightarrow> m \<le> 12 \<Longrightarrow> 0 \<le> days_before_month y m \<and> days_before_month y m \<le> (if leap y then 335 else 334)"
  by (rule month_cases[of m]) (auto simp: days_before_month_def)

lemma days_before_month_1 [simp]: "days_before_month y 1 = 0"
  by (simp add: days_before_month_def)

lemma month_start_less_end: "1 \<le> m \<Longrightarrow> m \<le> 12 \<Longrightarrow> month_start y m < month_end y m"
  using days_before_month_step[of m y] days_before_year_step[of y] days_before_month_bounds[of m y]
  by (auto simp: month_end_def next_month_def month_start_def split: if_splits)

lemma month_start_gap:
  assumes "month_start y m < month_start y' m'"
  shows "month_start y m + day \<le> month_start y' m'"
proof -
  define a b where "a = days_before_year y + days_before_month y m - epoch_days"
    and "b = days_before_year y' + days_before_month y' m' - epoch_days"
  have ab: "month_start y m = a * day" "month_start y' m' = b * day"
    by (simp_all only: a_def b_def month_start_def)
  with assms have "a < b" by simp
  then have "(a + 1) * day \<le> b * day" by (intro mult_right_mono) simp_all
  then show ?thesis unfolding ab by (simp add: distrib_right)
qed

text \<open>The months in one sequence.\<close>

definition nth_month :: "int \<Rightarrow> datetime" where
  "nth_month k = month_start (k div 12) (k mod 12 + 1)"

lemma nth_month_at: "1 \<le> m \<Longrightarrow> m \<le> 12 \<Longrightarrow> nth_month (12 * y + (m - 1)) = month_start y m"
  by (simp add: nth_month_def)

lemma nth_month_after: "1 \<le> m \<Longrightarrow> m \<le> 12 \<Longrightarrow> nth_month (12 * y + m) = month_end y m"
proof (cases "m = 12")
  case True
  then have "12 * y + m = 12 * (y + 1) + (1 - 1)" by simp
  then show ?thesis using nth_month_at[of 1 "y + 1"] True by (simp add: month_end_def next_month_def)
next
  case False
  assume "1 \<le> m" "m \<le> 12"
  with False nth_month_at[of "m + 1" y] show ?thesis by (simp add: month_end_def next_month_def)
qed

lemma nth_month_step: "nth_month k < nth_month (k + 1)"
proof -
  have "1 \<le> k mod 12 + 1" "k mod 12 + 1 \<le> 12" by simp_all
  from month_start_less_end[OF this, of "k div 12"] nth_month_after[OF this, of "k div 12"]
  show ?thesis by (simp add: nth_month_def mult_div_mod_eq)
qed

lemma nth_month_mono: "j \<le> k \<Longrightarrow> nth_month j \<le> nth_month k"
proof (induction k rule: int_ge_induct)
  case (step k)
  with nth_month_step[of k] show ?case by linarith
qed simp

section \<open>The month of an instant\<close>

lemma year_from_upper: "d < days_before_year (year_from y d + 1)"
  by (induction y d rule: year_from.induct) (subst year_from.simps, auto)

lemma year_from_lower: "days_before_year y \<le> d \<Longrightarrow> days_before_year (year_from y d) \<le> d"
  by (induction y d rule: year_from.induct) (subst year_from.simps, auto)

lemma year_of_day_bounds:
  assumes "0 \<le> d"
  shows "days_before_year (year_of_day d) \<le> d" "d < days_before_year (year_of_day d + 1)"
proof -
  let ?q = "d div 366"
  have "0 \<le> d mod 366" by simp
  then have q: "0 \<le> ?q" "366 * ?q \<le> d"
    using assms mult_div_mod_eq[of 366 d] by (simp_all only: pos_imp_zdiv_nonneg_iff zero_less_numeral)
  have "?q div 4 \<le> ?q div 1" "?q div 400 \<le> ?q div 100"
    using q(1) by (intro zdiv_mono2; simp)+
  then have "days_before_year (?q + 1) \<le> d"
    using q by (simp add: days_before_year_def)
  then show "days_before_year (year_of_day d) \<le> d"
    unfolding year_of_day_def by (rule year_from_lower)
  show "d < days_before_year (year_of_day d + 1)"
    unfolding year_of_day_def by (rule year_from_upper)
qed

lemma month_from_bounds:
  assumes "0 \<le> d"
  shows "1 \<le> month_from y d [1..11] \<and> month_from y d [1..11] \<le> 12 \<and>
     days_before_month y (month_from y d [1..11]) \<le> d \<and>
     (month_from y d [1..11] < 12 \<longrightarrow> d < days_before_month y (month_from y d [1..11] + 1))"
proof -
  have "[1..11] = [1, 2, 3, 4, 5, 6, 7, 8, 9, 10, 11 :: int]" by (simp add: upto.simps)
  then show ?thesis using assms by auto
qed

lemma year_month_bounds:
  assumes "month_start 1 1 \<le> t"
  shows "1 \<le> snd (year_month t)" "snd (year_month t) \<le> 12"
    "month_start (fst (year_month t)) (snd (year_month t)) \<le> t"
    "t < month_end (fst (year_month t)) (snd (year_month t))"
proof -
  define d where "d = t div day + epoch_days"
  have t: "day * (d - epoch_days) \<le> t" "t < day * (d - epoch_days + 1)" unfolding d_def by simp_all
  have "0 \<le> d" using assms by (simp add: d_def month_start_def days_before_year_def epoch_days_def)
  from year_of_day_bounds[OF this] obtain y where y: "y = year_of_day d"
    and yb: "days_before_year y \<le> d" "d < days_before_year (y + 1)" by simp
  define m where "m = month_from y (d - days_before_year y) [1..11]"
  have ym: "year_month t = (y, m)" by (simp add: year_month_def d_def m_def y Let_def)
  have m: "1 \<le> m" "m \<le> 12" "days_before_month y m \<le> d - days_before_year y"
    "m < 12 \<Longrightarrow> d - days_before_year y < days_before_month y (m + 1)"
    using month_from_bounds[of "d - days_before_year y" y] yb unfolding m_def by auto
  show "1 \<le> snd (year_month t)" "snd (year_month t) \<le> 12" using m by (simp_all add: ym)
  show "month_start (fst (year_month t)) (snd (year_month t)) \<le> t"
    using t(1) m(3) by (simp add: ym month_start_def)
  show "t < month_end (fst (year_month t)) (snd (year_month t))"
    using t(2) m yb(2)
    by (cases "m = 12") (auto simp: ym month_end_def next_month_def month_start_def)
qed

lemma month_unique:
  assumes "1 \<le> m" "m \<le> 12" "1 \<le> m'" "m' \<le> 12"
    and "month_start y m \<le> t" "t < month_end y m" "month_start y' m' \<le> t" "t < month_end y' m'"
  shows "y = y' \<and> m = m'"
proof -
  let ?j = "12 * y + (m - 1)" and ?k = "12 * y' + (m' - 1)"
  have "nth_month ?j < nth_month (12 * y' + m')" "nth_month ?k < nth_month (12 * y + m)"
    using assms by (simp_all only: nth_month_at nth_month_after)
  then have "\<not> 12 * y' + m' \<le> ?j" "\<not> 12 * y + m \<le> ?k"
    using nth_month_mono[of "12 * y' + m'" ?j] nth_month_mono[of "12 * y + m" ?k] by linarith+
  then have eq: "?j = ?k" by linarith
  have "?j div 12 = y" "?k div 12 = y'" using assms(1-4) by simp_all
  with eq have "y = y'" by simp
  with eq show ?thesis by simp
qed


section \<open>Month strings are read back\<close>

lemma split_on_none: "c \<notin> set s \<Longrightarrow> split_on c s = [s]"
  by (induction s) auto

lemma split_on_two: "c \<notin> set s \<Longrightarrow> split_on c (s @ c # t) = s # split_on c t"
  by (induction s) auto

lemma digit_not_char: "digit_char c \<Longrightarrow> c \<noteq> CHR ''-'' \<and> c \<noteq> CHR ''_'' \<and> c \<noteq> CHR ''+''"
  by (auto simp: digit_char_def Let_def)

lemma digits_free:
  assumes "list_all digit_char s"
  shows "CHR ''-'' \<notin> set s" "CHR ''_'' \<notin> set s" "CHR ''+'' \<notin> set s"
  using assms digit_not_char by (auto simp: list_all_iff)

lemma py_int_digits:
  assumes "list_all digit_char s" "s \<noteq> []"
  shows "py_int s = Inr (int (read_nat s))"
proof -
  have strip: "py_strip s = s"
    using assms by (intro py_strip_id) (auto simp: list_all_iff)
  obtain c body where s: "s = c # body" using assms(2) by (cases s) auto
  then have "c \<noteq> CHR ''+''" "c \<noteq> CHR ''-''" using digits_free[OF assms(1)] by auto
  moreover have "int_body s = Some (read_nat s)"
    using assms digits_free(2)[OF assms(1)] by (simp add: int_body_def split_on_none py_isdigit_def)
  ultimately show ?thesis using strip unfolding s by (simp add: py_int_def)
qed

lemma read_nat_zero: "read_nat (CHR ''0'' # s) = read_nat s"
  by (simp add: read_nat_def digit_val_def)

lemma show_month_parts:
  assumes "0 \<le> y" "0 \<le> m"
  obtains ms where "show_month (y, m) = show_nat (nat y) @ CHR ''-'' # ms" "list_all digit_char ms" "ms \<noteq> []"
    "read_nat ms = nat m"
proof -
  let ?ms = "(if m < 10 then ''0'' else []) @ show_nat (nat m)"
  have "show_month (y, m) = show_nat (nat y) @ CHR ''-'' # ?ms" "list_all digit_char ?ms" "?ms \<noteq> []"
    "read_nat ?ms = nat m"
    using assms show_nat_digits[of "nat m"]
    by (auto simp: show_month_def show_int_def read_nat_zero digit_char_def Let_def)
  then show ?thesis by (rule that)
qed

lemma month_roundtrip: "0 \<le> y \<Longrightarrow> 0 \<le> m \<Longrightarrow> parse_month (show_month (y, m)) = Inr (y, m)"
proof -
  assume ym: "0 \<le> y" "0 \<le> m"
  then obtain ms where ms: "show_month (y, m) = show_nat (nat y) @ CHR ''-'' # ms" "list_all digit_char ms"
    "ms \<noteq> []" "read_nat ms = nat m"
    by (rule show_month_parts)
  have "split_on CHR ''-'' (show_month (y, m)) = [show_nat (nat y), ms]"
    using digits_free(1)[OF show_nat_digits] digits_free(1)[OF ms(2)] by (simp add: ms(1) split_on_two split_on_none)
  then show ?thesis
    using ym ms py_int_digits[OF ms(2,3)] py_int_digits[OF show_nat_digits show_nat_nonempty, of "nat y"]
    by (simp add: parse_month_def)
qed

end
