(* ===== verification/SettlementClaims.thy ===== *)
theory SettlementClaims
  imports SettlementsInv PyDateInv
begin

text \<open>The properties of the dealer payouts.\<close>

section \<open>The accounts\<close>

text \<open>What is linked stays linked, with its amount, and what is paid stays paid.\<close>

definition links_later :: "pay_db \<Rightarrow> pay_db \<Rightarrow> bool" where
  "links_later db db' \<longleftrightarrow>
     (\<forall>c \<in> set (commissions db). cl_settlement_id c \<noteq> None \<longrightarrow>
        (\<exists>c' \<in> set (commissions db'). commission_key c' = commission_key c
            \<and> (cl_status c = ''paid'' \<longrightarrow> cl_status c' = ''paid'')))"

lemma links_later_trans: "links_later a b \<Longrightarrow> links_later b c \<Longrightarrow> links_later a c"
proof -
  assume ab: "links_later a b" and bc: "links_later b c"
  show ?thesis
    unfolding links_later_def
  proof (intro ballI impI)
    fix x assume x: "x \<in> set (commissions a)" "cl_settlement_id x \<noteq> None"
    with ab obtain y where y: "y \<in> set (commissions b)" "commission_key y = commission_key x"
      "cl_status x = ''paid'' \<longrightarrow> cl_status y = ''paid''"
      by (auto simp: links_later_def)
    then have "cl_settlement_id y \<noteq> None" using x by (simp add: commission_key_def)
    with bc y(1) obtain z where "z \<in> set (commissions c)" "commission_key z = commission_key y"
      "cl_status y = ''paid'' \<longrightarrow> cl_status z = ''paid''"
      by (auto simp: links_later_def)
    with y show "\<exists>z \<in> set (commissions c). commission_key z = commission_key x
        \<and> (cl_status x = ''paid'' \<longrightarrow> cl_status z = ''paid'')"
      by (metis (no_types))
  qed
qed

lemma same_accounts_links: "same_accounts db db' \<Longrightarrow> links_later db db'"
proof -
  assume same: "same_accounts db db'"
  show ?thesis
    unfolding links_later_def
  proof (intro ballI impI)
    fix c assume "c \<in> set (commissions db)"
    then obtain i where i: "i < length (commissions db)" "c = commissions db ! i"
      by (auto simp: in_set_conv_nth)
    have key: "map commission_key (commissions db') = map commission_key (commissions db)"
      and st: "list_all2 status_kept (commissions db) (commissions db')"
      using same by (simp_all add: same_accounts_def)
    have len: "length (commissions db') = length (commissions db)"
      using key by (rule map_eq_imp_length_eq)
    have "commission_key (commissions db' ! i) = commission_key c"
      using arg_cong[OF key, of "\<lambda>l. l ! i"] i len by simp
    moreover have "status_kept c (commissions db' ! i)"
      using st i by (simp add: list_all2_conv_all_nth)
    moreover have "commissions db' ! i \<in> set (commissions db')" using i len by simp
    ultimately show "\<exists>c' \<in> set (commissions db'). commission_key c' = commission_key c
        \<and> (cl_status c = ''paid'' \<longrightarrow> cl_status c' = ''paid'')"
      unfolding status_kept_def by (metis (no_types))
  qed
qed

lemma links_later_kept: "set (filter (\<lambda>c. cl_settlement_id c \<noteq> None) (commissions db)) \<subseteq> set (commissions db') \<Longrightarrow>
    links_later db db'"
  by (fastforce simp: links_later_def)

lemma settled_db_links: "accounts_ok db \<Longrightarrow> links_later db (settled_db now d m p db)"
proof (rule links_later_kept, rule subsetI)
  fix c assume ok: "accounts_ok db" and "c \<in> set (filter (\<lambda>c. cl_settlement_id c \<noteq> None) (commissions db))"
  then have c: "c \<in> set (commissions db)" "cl_settlement_id c \<noteq> None" by auto
  with due_not_linked[OF ok c(1), of d p] have "\<not> due_commission d p c" by auto
  with c(1) show "c \<in> set (commissions (settled_db now d m p db))"
    by (auto simp: settled_db_def Let_def in_linked)
qed

lemma grows_links: "grows db db' \<Longrightarrow> accounts_ok db \<Longrightarrow> links_later db db'"
proof (induction rule: grows.induct)
  case (further db db1 db2)
  then show ?case by (auto intro: links_later_trans dest: grows_accounts)
qed (auto intro: same_accounts_links settled_db_links links_later_kept)

interpretation payout_history: evolving_step "pay_step payout" "\<lambda>_. True" accounts_ok links_later for payout
proof
  fix x :: "datetime \<times> pay_request" and s assume ok: "accounts_ok s"
  obtain now req where x: "x = (now, req)" by (cases x)
  from pay_step_grows[OF ok] show "accounts_ok (pay_step payout x s)" "links_later s (pay_step payout x s)"
    unfolding x by (auto intro: grows_accounts[OF _ ok] grows_links[OF _ ok])
qed (auto intro: links_later_trans same_accounts_links same_accounts_refl)

lemma all_allowed: "list_all (\<lambda>_. True) xs"
  by (simp add: list_all_iff)


text \<open>An example: a dealer whose profile has the id of its user, and two commissions.\<close>

definition example_commission :: "int \<Rightarrow> rat \<Rightarrow> datetime \<Rightarrow> commission_log" where
  "example_commission i amount t =
     \<lparr>cl_id = i, cl_transaction_id = 100 + i, cl_dealer_id = Some 7, cl_vendor_id = None,
      cl_amount = amount, cl_status = ''pending'', cl_settlement_id = None, cl_created_at = t\<rparr>"

definition example_db :: pay_db where
  "example_db =
     \<lparr>configs = [], tiers = [],
      commissions = [example_commission 1 (41 / 2) (month_start 2025 1 + 5 * day),
                     example_commission 2 10 (month_start 2025 1 + 6 * day)],
      chargebacks = [\<lparr>cb_id = 1, cb_dealer_id = 7, cb_amount = 4, cb_reason = ''fraud'',
         cb_status = ''pending'', cb_settlement_id = None, cb_created_at = month_start 2025 1 + 7 * day\<rparr>],
      settlements = [], disputes = [],
      dealers = [\<lparr>dp_id = 7, dp_user_id = 7, dp_is_active = True\<rparr>],
      pay_stations = [], pay_swaps = [], pay_rentals = [], pay_txns = [], failure_alerts = []\<rparr>"

abbreviation example_gateway :: "settlement \<Rightarrow> string + string \<times> string" where
  "example_gateway \<equiv> execute_payout (\<lambda>_. ''AB12CD34'')"

definition example_requests :: "(datetime \<times> pay_request) list" where
  "example_requests =
     [(month_start 2025 2 + hour, Generate 7 ''2025-01''), (month_start 2025 2 + 4 * day, PayBatch ''2025-01'')]"

text \<open>C18: From tables whose accounts are in order, any history of requests and jobs, whatever the
  gateway answers, keeps them in order: one settlement per dealer and month, every settlement holds
  the rounded sums of the commissions and chargebacks linked to it, and these are rows of its
  dealer from its period.\<close>

theorem settlement_accounts:
  assumes "accounts_ok db"
  shows "accounts_ok (pay_run payout reqs db)"
  unfolding pay_run_def using payout_history.fold_stable[OF all_allowed assms] .

lemma example_ok: "accounts_ok example_db"
  by code_simp

theorem settlement_accounts_witness:
  "accounts_ok (pay_run example_gateway example_requests example_db) \<and>
   map (\<lambda>s. (sm_month s, sm_total_commission s, sm_net_payable s, sm_status s))
     (settlements (pay_run example_gateway example_requests example_db))
     = [(''2025-01'', 61 / 2, 53 / 2, ''paid'')]"
proof
  show "accounts_ok (pay_run example_gateway example_requests example_db)"
    by (rule settlement_accounts[OF example_ok])
qed code_simp

text \<open>A commission that is linked to a settlement stays linked to it through any history, with
  its dealer and its amount, and once paid it stays paid: no commission is settled twice.\<close>

lemma settled_commission_stays:
  assumes "accounts_ok db" "c \<in> set (commissions db)" "cl_settlement_id c = Some sid"
  shows "\<exists>c' \<in> set (commissions (pay_run payout reqs db)).
           cl_id c' = cl_id c \<and> cl_settlement_id c' = Some sid \<and> cl_dealer_id c' = cl_dealer_id c \<and>
           cl_amount c' = cl_amount c \<and> (cl_status c = ''paid'' \<longrightarrow> cl_status c' = ''paid'')"
proof -
  have "links_later db (pay_run payout reqs db)"
    unfolding pay_run_def using payout_history.fold_later[OF all_allowed assms(1)] .
  with assms(2,3) obtain c' where "c' \<in> set (commissions (pay_run payout reqs db))"
    "commission_key c' = commission_key c" "cl_status c = ''paid'' \<longrightarrow> cl_status c' = ''paid''"
    by (auto simp: links_later_def)
  with assms(3) show ?thesis by (auto simp: commission_key_def intro!: bexI[of _ c'])
qed

definition settled_example :: pay_db where
  "settled_example =
     pay_step example_gateway (month_start 2025 2 + hour, Generate 7 ''2025-01'') example_db"

theorem settled_commission_stays_witness:
  "\<exists>c' \<in> set (commissions (pay_run example_gateway
       [(month_start 2025 2 + 2 * hour, Generate 7 ''2025-1''), (month_start 2025 2 + 4 * day, PayBatch ''2025-01'')]
       settled_example)).
     cl_id c' = 2 \<and> cl_settlement_id c' = Some 1 \<and> cl_dealer_id c' = Some 7 \<and> cl_amount c' = 10"
proof -
  have ok: "accounts_ok settled_example"
    unfolding settled_example_def by (rule payout_history.step_stable[OF TrueI example_ok])
  let ?c = "example_commission 2 10 (month_start 2025 1 + 6 * day)
    \<lparr>cl_settlement_id := Some 1, cl_status := ''processing''\<rparr>"
  have "?c \<in> set (commissions settled_example)" "cl_settlement_id ?c = Some 1"
    by code_simp+
  from settled_commission_stays[OF ok this] show ?thesis
    by (auto simp: example_commission_def)
qed

section \<open>What a generation does\<close>



section \<open>Paid once\<close>

definition receipt_of where
  "receipt_of s = (sm_status s, sm_transaction_reference s, sm_payment_proof_url s, sm_paid_at s)"

definition is_paid :: "settlement \<Rightarrow> bool" where
  "is_paid s \<longleftrightarrow> sm_status s = ''paid''"

definition paid_kept :: "settlement list \<Rightarrow> settlement list \<Rightarrow> bool" where
  "paid_kept ss ss' \<longleftrightarrow>
     (\<forall>s \<in> set ss. is_paid s \<longrightarrow> (\<exists>s' \<in> set ss'. sm_id s' = sm_id s \<and> receipt_of s' = receipt_of s))"

lemma paid_kept_refl: "paid_kept ss ss"
  by (auto simp: paid_kept_def)

lemma paid_kept_more: "paid_kept ss (ss @ ss2)"
  by (auto simp: paid_kept_def)

lemma is_paid_receipt: "receipt_of s' = receipt_of s \<Longrightarrow> is_paid s' = is_paid s"
  by (simp add: receipt_of_def is_paid_def)

lemma paid_kept_trans: "paid_kept a b \<Longrightarrow> paid_kept b c \<Longrightarrow> paid_kept a c"
proof -
  assume ab: "paid_kept a b" and bc: "paid_kept b c"
  show ?thesis
    unfolding paid_kept_def
  proof (intro ballI impI)
    fix s assume "s \<in> set a" "is_paid s"
    with ab obtain t where t: "t \<in> set b" "sm_id t = sm_id s" "receipt_of t = receipt_of s"
      by (auto simp: paid_kept_def)
    then have "is_paid t" using \<open>is_paid s\<close> is_paid_receipt[OF t(3)] by simp
    with bc t(1) obtain u where u: "u \<in> set c" "sm_id u = sm_id t" "receipt_of u = receipt_of t"
      by (auto simp: paid_kept_def)
    show "\<exists>u \<in> set c. sm_id u = sm_id s \<and> receipt_of u = receipt_of s"
      by (rule bexI[OF _ u(1)]) (simp add: u t)
  qed
qed

lemma put_row_others: "t \<in> set ss \<Longrightarrow> key t \<noteq> key r \<Longrightarrow> t \<in> set (put_row key r ss)"
  by (auto simp: put_row_def image_iff intro!: bexI[of _ t])

lemma paid_kept_put:
  assumes "distinct (map sm_id ss)" "s \<in> set ss" "sm_id s' = sm_id s"
    "is_paid s \<Longrightarrow> receipt_of s' = receipt_of s"
  shows "paid_kept ss (put_row sm_id s' ss)"
  unfolding paid_kept_def
proof (intro ballI impI)
  fix t assume t: "t \<in> set ss" "is_paid t"
  show "\<exists>u \<in> set (put_row sm_id s' ss). sm_id u = sm_id t \<and> receipt_of u = receipt_of t"
  proof (cases "sm_id t = sm_id s")
    case True
    then have "t = s" using assms(1,2) t(1) by (auto simp: distinct_map dest: inj_onD)
    with t assms show ?thesis by (auto simp: put_row_def image_iff intro!: bexI[of _ s'])
  next
    case False
    then have "t \<in> set (put_row sm_id s' ss)" using t(1) assms(3) by (intro put_row_others) simp_all
    then show ?thesis by auto
  qed
qed

lemma settle_paid_settlements [simp]:
  "settlements (settle_paid now s db) = put_row sm_id s (settlements db)"
  by (simp add: settle_paid_def)

lemma pay_each_paid:
  assumes "distinct (map sm_id (settlements db))" "set ss \<subseteq> set (settlements db)" "distinct (map sm_id ss)"
    "\<forall>s \<in> set ss. \<not> is_paid s" "pay_each payout now ss db = (p, f, db')"
  shows "paid_kept (settlements db) (settlements db')"
  using assms
proof (induction ss arbitrary: db p f)
  case Nil
  then show ?case by (simp add: paid_kept_refl)
next
  case (Cons s ss)
  have rest: "paid_kept (settlements db) (settlements db')"
    if set1: "settlements db1 = put_row sm_id s' (settlements db)" and id: "sm_id s' = sm_id s"
      and run: "pay_each payout now ss db1 = (p1, f1, db')" for s' db1 p1 f1
  proof (rule paid_kept_trans)
    show "paid_kept (settlements db) (settlements db1)"
      unfolding set1 by (rule paid_kept_put[of _ s]) (use Cons.prems id in auto)
    show "paid_kept (settlements db1) (settlements db')"
    proof (rule Cons.IH[OF _ _ _ _ run])
      show "set ss \<subseteq> set (settlements db1)"
      proof
        fix t assume t: "t \<in> set ss"
        then have "sm_id t \<noteq> sm_id s'" using Cons.prems(3) id by (auto simp: image_iff)
        then show "t \<in> set (settlements db1)" using t Cons.prems(2) by (auto simp: set1 intro: put_row_others)
      qed
    qed (use Cons.prems in \<open>auto simp: set1\<close>)
  qed
  show ?case
  proof (cases "payout s")
    case (Inl reason)
    with Cons.prems(5) obtain f1 where run: "pay_each payout now ss
        (db\<lparr>settlements := put_row sm_id (failed_settlement reason s) (settlements db)\<rparr>) = (p, f1, db')"
      by (auto split: prod.splits)
    show ?thesis by (rule rest[OF _ _ run, where s' = "failed_settlement reason s"]) (simp_all add: failed_settlement_def)
  next
    case (Inr receipt)
    with Cons.prems(5) obtain p1 where run: "pay_each payout now ss
        (settle_paid now (paid_settlement now receipt s) db) = (p1, f, db')"
      by (auto split: prod.splits)
    show ?thesis by (rule rest[OF settle_paid_settlements _ run]) (simp add: paid_settlement_def)
  qed
qed

lemma batch_paid:
  assumes "distinct (map sm_id (settlements db))"
  shows "paid_kept (settlements db) (settlements (snd (process_batch_payments payout now month db)))"
proof -
  obtain p f db' where run: "pay_each payout now (filter (payable month) (settlements db)) db = (p, f, db')"
    by (cases "pay_each payout now (filter (payable month) (settlements db)) db" rule: prod_cases3)
  have "paid_kept (settlements db) (settlements db')"
    by (rule pay_each_paid[OF assms _ _ _ run])
      (use assms in \<open>auto simp: payable_def is_paid_def distinct_map_filter\<close>)
  with run show ?thesis by (simp add: process_batch_payments_def Let_def)
qed

lemma single_paid:
  assumes "distinct (map sm_id (settlements db))"
  shows "paid_kept (settlements db) (settlements (snd (process_single_payment payout now i db)))"
proof (cases "get_row sm_id i (settlements db)")
  case None
  then show ?thesis by (simp add: process_single_payment_def paid_kept_refl)
next
  case (Some s)
  note row = get_row_Some[OF Some]
  show ?thesis
  proof (cases "sm_status s \<in> {''failed'', ''generated''}")
    case True
    then have "\<not> is_paid s" by (auto simp: is_paid_def)
    then have "paid_kept (settlements db) (put_row sm_id s' (settlements db))" if "sm_id s' = sm_id s" for s'
      using row that by (intro paid_kept_put[OF assms, of s]) auto
    with True Some show ?thesis
      by (auto simp: process_single_payment_def Let_def paid_settlement_def failed_settlement_def
          split: sum.split)
  next
    case False
    with Some show ?thesis by (simp add: process_single_payment_def paid_kept_refl)
  qed
qed

lemma resolve_paid:
  assumes "distinct (map sm_id (settlements db))"
  shows "paid_kept (settlements db) (settlements (kept (resolve_dispute now i a n x db) db))"
proof (rule kept_cases)
  have "paid_kept (settlements db) (adjust_settlement sid x (settlements db))" for sid
    using paid_kept_put[OF assms] get_row_Some
    by (fastforce simp: adjust_settlement_def paid_kept_refl receipt_of_def split: option.splits)
  then show "paid_kept (settlements db) (settlements db')" if "resolve_dispute now i a n x db = Inr (d, db')" for d db'
    using that by (auto simp: resolve_dispute_def Let_def paid_kept_refl split: option.splits if_splits)
qed (rule paid_kept_refl)

lemma generate_each_paid:
  "paid_kept (settlements db) (settlements (snd (generate_each now month ds db)))"
proof (induction ds arbitrary: db)
  case (Cons d ds)
  show ?case
  proof (cases "generate_monthly_settlement now (dp_user_id d) month db")
    case (Inr r)
    obtain s db1 where r: "r = (s, db1)" by (cases r)
    have "paid_kept (settlements db) (settlements db1)"
      using Inr[unfolded r]
      by (cases rule: generateE) (simp_all add: settled_db_def Let_def paid_kept_refl paid_kept_more)
    from paid_kept_trans[OF this Cons.IH] show ?thesis
      by (auto simp: Inr r split: prod.splits sum.splits)
  qed (simp add: paid_kept_refl)
qed (simp add: paid_kept_refl)

text \<open>The two endpoints that write a status without looking at the one that is there.\<close>

fun puts_status :: "datetime \<times> pay_request \<Rightarrow> bool" where
  "puts_status (now, PutStatus i st r) = True"
| "puts_status (now, ApproveSettlement i) = True"
| "puts_status _ = False"

lemma pay_step_paid:
  assumes ids: "distinct (map sm_id (settlements db))" and no: "\<not> puts_status (now, req)"
  shows "paid_kept (settlements db) (settlements (pay_step payout (now, req) db))"
proof -
  have other: "paid_kept (settlements db) (settlements db')" if "settlements db' = settlements db" for db' :: pay_db
    by (simp add: that paid_kept_refl)
  show ?thesis
  proof (cases req)
    case (UpdateRate i r)
    have "settlements (kept (update_commission_rate i r db) db) = settlements db"
      by (rule kept_cases) (auto simp: update_commission_rate_def Let_def split: option.splits if_splits)
    then show ?thesis by (simp add: UpdateRate other)
  next
    case (LogCommission t)
    have "settlements (kept (calculate_and_log now t db) db) = settlements db"
      by (rule kept_cases) (auto elim: calculate_and_logE)
    then show ?thesis by (simp add: LogCommission other)
  next
    case (Generate d m)
    have "paid_kept (settlements db) (settlements (kept (generate_monthly_settlement now d m db) db))"
      by (rule kept_cases)
        (auto elim!: generateE simp: settled_db_def Let_def paid_kept_refl paid_kept_more)
    then show ?thesis by (simp add: Generate)
  next
    case (OpenDispute u s r)
    have "settlements (kept (create_dispute now s u r db) db) = settlements db"
      by (rule kept_cases) (auto simp: create_dispute_def Let_def split: option.splits if_splits)
    then show ?thesis by (simp add: OpenDispute dealer_create_dispute_def other)
  next
    case (PutStatus i s r)
    then show ?thesis using no by simp
  next
    case (ApproveSettlement i)
    then show ?thesis using no by simp
  next
    case PaymentJob
    then show ?thesis
      using batch_paid[OF ids, of payout now "last_month now"]
      by (simp add: batch_payment_processing_def case_prod_beta Let_def)
  qed (use batch_paid[OF ids] single_paid[OF ids] resolve_paid[OF ids] generate_each_paid in
      \<open>simp_all add: other create_commission_rate_def Let_def process_commission_payout_def
         admin_generate_settlements_def generate_vendor_settlement_def admin_retry_settlement_def
         case_prod_beta admin_resolve_dispute_def commission_settlement_def split: option.split\<close>)
qed

definition paid_later :: "pay_db \<Rightarrow> pay_db \<Rightarrow> bool" where
  "paid_later db db' \<longleftrightarrow> paid_kept (settlements db) (settlements db')"

interpretation paid_history: evolving_step "pay_step payout" "\<lambda>x. \<not> puts_status x" accounts_ok paid_later
  for payout
proof
  fix x :: "datetime \<times> pay_request" and s
  assume allowed: "\<not> puts_status x" and ok: "accounts_ok s"
  obtain now req where x: "x = (now, req)" by (cases x)
  from ok have "distinct (map sm_id (settlements s))" by (simp add: accounts_ok_def)
  with allowed show "paid_later s (pay_step payout x s)"
    unfolding x paid_later_def by (rule pay_step_paid[rotated])
qed (auto simp: paid_later_def paid_kept_refl intro: payout_history.step_stable paid_kept_trans)

text \<open>A paid settlement is never paid again: through any history of the services, their endpoints
  and the jobs it stays paid with the same reference, receipt and time. The one request excluded is
  the update endpoint in settlements.py, which sets any status and asks for no user.\<close>

lemma settlement_paid_once:
  assumes "accounts_ok db" "s \<in> set (settlements db)" "sm_status s = ''paid''"
    and "\<forall>x \<in> set reqs. \<not> puts_status x"
  shows "\<exists>s' \<in> set (settlements (pay_run payout reqs db)).
           sm_id s' = sm_id s \<and> sm_status s' = ''paid'' \<and>
           sm_transaction_reference s' = sm_transaction_reference s \<and>
           sm_payment_proof_url s' = sm_payment_proof_url s \<and> sm_paid_at s' = sm_paid_at s"
proof -
  have "list_all (\<lambda>x. \<not> puts_status x) reqs" using assms(4) by (simp add: list_all_iff)
  from paid_history.fold_later[OF this assms(1)]
  have "paid_kept (settlements db) (settlements (pay_run payout reqs db))"
    by (simp add: pay_run_def paid_later_def)
  with assms(2,3) obtain s' where "s' \<in> set (settlements (pay_run payout reqs db))"
    "sm_id s' = sm_id s" "receipt_of s' = receipt_of s"
    by (auto simp: paid_kept_def is_paid_def)
  with assms(3) show ?thesis by (auto simp: receipt_of_def intro!: bexI[of _ s'])
qed

text \<open>After the payment of the example: a second payment run and a dispute that is approved.\<close>

definition paid_example :: pay_db where
  "paid_example =
     pay_run example_gateway example_requests example_db"

definition after_payment :: "(datetime \<times> pay_request) list" where
  "after_payment =
     [(month_start 2025 2 + 5 * day, PayBatch ''2025-01''), (month_start 2025 2 + 5 * day, RetryPayment 1),
      (month_start 2025 2 + 6 * day, OpenDispute 7 1 ''missing swap''),
      (month_start 2025 2 + 7 * day, ResolveDispute 1 ''approve'' ''checked'' 12),
      (month_start 2025 2 + 8 * day, PayBatch ''2025-01'')]"

lemma paid_example_ok: "accounts_ok paid_example"
  unfolding paid_example_def pay_run_def using payout_history.fold_stable[OF all_allowed example_ok] .

theorem settlement_paid_once_witness:
  "\<exists>s' \<in> set (settlements (pay_run (\<lambda>_. Inr (''AGAIN'', ''X'')) after_payment paid_example)).
     sm_id s' = 1 \<and> sm_status s' = ''paid'' \<and> sm_transaction_reference s' = Some ''PAY-2025-01-AB12CD34''"
proof -
  let ?s = "hd (settlements paid_example)"
  have "?s \<in> set (settlements paid_example)" "sm_status ?s = ''paid''"
    "\<forall>x \<in> set after_payment. \<not> puts_status x"
    and s: "sm_id ?s = 1" "sm_transaction_reference ?s = Some ''PAY-2025-01-AB12CD34''"
    by code_simp+
  from settlement_paid_once[OF paid_example_ok this(1-3), of "\<lambda>_. Inr (''AGAIN'', ''X'')"] show ?thesis
    unfolding s by blast
qed

section \<open>The values of the status columns\<close>

definition settlement_typed :: "settlement \<Rightarrow> bool" where
  "settlement_typed s \<longleftrightarrow>
     (sm_status s = ''generated'' \<and> sm_transaction_reference s = None \<and> sm_paid_at s = None) \<or>
     (sm_status s = ''failed'' \<and> sm_failure_reason s \<noteq> None \<and> sm_paid_at s = None) \<or>
     (sm_status s = ''paid'' \<and> sm_transaction_reference s \<noteq> None \<and> sm_payment_proof_url s \<noteq> None
        \<and> sm_paid_at s \<noteq> None)"

definition commission_typed :: "commission_log \<Rightarrow> bool" where
  "commission_typed c \<longleftrightarrow>
     (cl_status c = ''pending'' \<and> cl_settlement_id c = None) \<or>
     (cl_status c = ''processing'' \<and> cl_settlement_id c \<noteq> None) \<or> cl_status c = ''paid''"

definition chargeback_typed :: "chargeback \<Rightarrow> bool" where
  "chargeback_typed b \<longleftrightarrow>
     (cb_status b = ''pending'' \<and> cb_settlement_id b = None) \<or>
     (cb_status b = ''deducted'' \<and> cb_settlement_id b \<noteq> None)"

definition dispute_typed :: "dispute \<Rightarrow> bool" where
  "dispute_typed d \<longleftrightarrow>
     (sd_status d = ''open'' \<and> sd_adjustment_amount d = None \<and> sd_resolved_at d = None) \<or>
     (sd_status d = ''resolved'' \<and> sd_adjustment_amount d \<noteq> None \<and> sd_resolution_notes d \<noteq> None
        \<and> sd_resolved_at d \<noteq> None) \<or>
     (sd_status d = ''rejected'' \<and> sd_adjustment_amount d = None \<and> sd_resolution_notes d \<noteq> None
        \<and> sd_resolved_at d \<noteq> None)"

definition rows_typed :: "pay_db \<Rightarrow> bool" where
  "rows_typed db \<longleftrightarrow>
     list_all settlement_typed (settlements db) \<and> list_all commission_typed (commissions db) \<and>
     list_all chargeback_typed (chargebacks db) \<and> list_all dispute_typed (disputes db)"

lemma list_all_put_row: "list_all P t \<Longrightarrow> P r \<Longrightarrow> list_all P (put_row key r t)"
  by (auto simp: list_all_iff dest: in_put_row)

lemma paid_typed: "settlement_typed (paid_settlement now receipt s)"
  by (simp add: settlement_typed_def paid_settlement_def)

lemma paid_retry_typed: "settlement_typed (paid_settlement now receipt s \<lparr>sm_failure_reason := None\<rparr>)"
  by (simp add: settlement_typed_def paid_settlement_def)

lemma failed_typed: "sm_paid_at s = None \<Longrightarrow> settlement_typed (failed_settlement reason s)"
  by (simp add: settlement_typed_def failed_settlement_def)

lemma unpaid_at: "settlement_typed s \<Longrightarrow> \<not> is_paid s \<Longrightarrow> sm_paid_at s = None"
  by (auto simp: settlement_typed_def is_paid_def)

lemma new_typed: "settlement_typed (new_settlement now d m p db)"
  by (simp add: settlement_typed_def)

lemma new_commission_typed: "commission_typed (new_commission now i x db)"
  by (simp add: commission_typed_def new_commission_def)

lemma commission_paid_typed: "commission_typed (c\<lparr>cl_status := ''paid''\<rparr>)"
  by (simp add: commission_typed_def)

lemma processing_typed: "commission_typed (c\<lparr>cl_settlement_id := Some sid, cl_status := ''processing''\<rparr>)"
  by (simp add: commission_typed_def)

lemma deduction_typed: "chargeback_typed (b\<lparr>cb_settlement_id := Some sid, cb_status := ''deducted''\<rparr>)"
  by (simp add: chargeback_typed_def)

lemma linked_typed: "list_all commission_typed cs \<Longrightarrow> list_all commission_typed (link_commissions P sid cs)"
  by (auto simp: list_all_iff in_linked processing_typed)

lemma deducted_typed: "list_all chargeback_typed bs \<Longrightarrow> list_all chargeback_typed (deduct_chargebacks P sid bs)"
  by (auto simp: list_all_iff in_deducted deduction_typed)

lemma mark_linked_typed: "list_all commission_typed cs \<Longrightarrow> list_all commission_typed (mark_linked_paid sid cs)"
  by (auto simp: list_all_iff mark_linked_paid_def commission_paid_typed)

lemma adjusted_typed: "list_all settlement_typed ss \<Longrightarrow> list_all settlement_typed (adjust_settlement sid x ss)"
proof -
  assume ss: "list_all settlement_typed ss"
  have "settlement_typed (s\<lparr>sm_net_payable := y\<rparr>)" if "get_row sm_id sid ss = Some s" for s y
    using ss get_row_Some[OF that] by (simp add: list_all_iff settlement_typed_def)
  with ss show ?thesis
    by (auto simp: adjust_settlement_def intro: list_all_put_row split: option.split)
qed

lemma dispute_closed_typed:
  "dispute_typed (closed_dispute now notes (d\<lparr>sd_status := ''resolved'', sd_adjustment_amount := Some x\<rparr>))"
  "dispute_typed d \<Longrightarrow> open_dispute d \<Longrightarrow> dispute_typed (closed_dispute now notes (d\<lparr>sd_status := ''rejected''\<rparr>))"
  by (auto simp: dispute_typed_def closed_dispute_def open_dispute_def)

lemmas typed_rows = rows_typed_def list_all_put_row paid_typed paid_retry_typed failed_typed new_typed
  new_commission_typed commission_paid_typed linked_typed deducted_typed mark_linked_typed adjusted_typed

lemma settled_db_typed: "rows_typed db \<Longrightarrow> rows_typed (settled_db now d m p db)"
  by (simp add: settled_db_def Let_def typed_rows)

lemma generate_typed: "rows_typed db \<Longrightarrow> rows_typed (kept (generate_monthly_settlement now d m db) db)"
  by (rule kept_cases) (auto elim: generateE intro: settled_db_typed)

lemma generate_each_typed: "rows_typed db \<Longrightarrow> rows_typed (snd (generate_each now month ds db))"
proof (induction ds arbitrary: db)
  case (Cons d ds)
  show ?case
  proof (cases "generate_monthly_settlement now (dp_user_id d) month db")
    case (Inr r)
    obtain s db1 where r: "r = (s, db1)" by (cases r)
    have "rows_typed db1"
      using generate_typed[OF Cons.prems, of now "dp_user_id d" month] Inr r by simp
    from Cons.IH[OF this] show ?thesis
      by (auto simp: Inr r split: prod.splits sum.splits)
  qed (use Cons.prems in simp)
qed simp

lemma settle_paid_typed:
  "rows_typed db \<Longrightarrow> settlement_typed s \<Longrightarrow> rows_typed (settle_paid now s db)"
  by (simp add: settle_paid_def typed_rows)

lemma pay_each_typed:
  "rows_typed db \<Longrightarrow> \<forall>s \<in> set ss. sm_paid_at s = None \<Longrightarrow> pay_each payout now ss db = (p, f, db') \<Longrightarrow>
     rows_typed db'"
proof (induction ss arbitrary: db p f)
  case Nil
  then show ?case by simp
next
  case (Cons s ss)
  show ?case
  proof (cases "payout s")
    case (Inl reason)
    have "rows_typed (db\<lparr>settlements := put_row sm_id (failed_settlement reason s) (settlements db)\<rparr>)"
      using Cons.prems(1,2) by (simp add: typed_rows)
    from Cons.IH[OF this] show ?thesis
      using Cons.prems Inl by (auto split: prod.splits)
  next
    case (Inr receipt)
    have "rows_typed (settle_paid now (paid_settlement now receipt s) db)"
      using Cons.prems(1) by (simp add: settle_paid_typed paid_typed)
    from Cons.IH[OF this] show ?thesis
      using Cons.prems Inr by (auto split: prod.splits)
  qed
qed

lemma batch_typed:
  assumes "rows_typed db"
  shows "rows_typed (snd (process_batch_payments payout now month db))"
proof -
  obtain p f db' where run: "pay_each payout now (filter (payable month) (settlements db)) db = (p, f, db')"
    by (cases "pay_each payout now (filter (payable month) (settlements db)) db" rule: prod_cases3)
  have "rows_typed db'"
    by (rule pay_each_typed[OF assms _ run])
      (use assms in \<open>auto simp: rows_typed_def list_all_iff payable_def is_paid_def intro!: unpaid_at\<close>)
  with run show ?thesis by (simp add: process_batch_payments_def Let_def)
qed

lemma single_typed:
  assumes "rows_typed db"
  shows "rows_typed (snd (process_single_payment payout now i db))"
proof (cases "get_row sm_id i (settlements db)")
  case None
  then show ?thesis using assms by (simp add: process_single_payment_def)
next
  case (Some s)
  show ?thesis
  proof (cases "sm_status s \<in> {''failed'', ''generated''}")
    case True
    then have "\<not> is_paid s" by (auto simp: is_paid_def)
    then have "sm_paid_at s = None"
      using assms get_row_Some[OF Some] by (intro unpaid_at) (auto simp: rows_typed_def list_all_iff)
    then have "rows_typed (db\<lparr>settlements := put_row sm_id (failed_settlement reason s) (settlements db)\<rparr>)" for reason
      using assms by (simp add: typed_rows)
    moreover have "rows_typed (settle_paid now (paid_settlement now receipt s \<lparr>sm_failure_reason := None\<rparr>) db)" for receipt
      by (rule settle_paid_typed[OF assms paid_retry_typed])
    ultimately show ?thesis
      using True Some by (simp add: process_single_payment_def Let_def split: sum.split)
  next
    case False
    with Some assms show ?thesis by (simp add: process_single_payment_def)
  qed
qed

lemma create_dispute_Inr:
  "create_dispute now s u r db = Inr (d, db') \<Longrightarrow> db' = db\<lparr>disputes := disputes db @ [new_dispute now s u r db]\<rparr>"
  by (auto simp: create_dispute_def Let_def split: option.splits if_splits)

lemma resolve_disputeE:
  assumes "resolve_dispute now i a n x db = Inr (r, db')"
  obtains (approved) d where "get_row sd_id i (disputes db) = Some d" "open_dispute d" "a = ''approve''"
      "r = closed_dispute now n (d\<lparr>sd_status := ''resolved'', sd_adjustment_amount := Some (round2 x)\<rparr>)"
      "db' = db\<lparr>disputes := put_row sd_id r (disputes db),
                 settlements := adjust_settlement (sd_settlement_id d) x (settlements db)\<rparr>"
  | (rejected) d where "get_row sd_id i (disputes db) = Some d" "open_dispute d" "a = ''reject''"
      "r = closed_dispute now n (d\<lparr>sd_status := ''rejected''\<rparr>)"
      "db' = db\<lparr>disputes := put_row sd_id r (disputes db)\<rparr>"
  using assms
  by (fastforce simp: resolve_dispute_def Let_def split: option.splits if_splits)

lemma pay_step_typed:
  assumes typed: "rows_typed db" and no: "\<not> puts_status (now, req)"
  shows "rows_typed (pay_step payout (now, req) db)"
proof (cases req)
  case (CreateRate r)
  then show ?thesis using typed by (simp add: create_commission_rate_def Let_def rows_typed_def)
next
  case (UpdateRate i r)
  have "rows_typed (kept (update_commission_rate i r db) db)"
    by (rule kept_cases) (use typed in
      \<open>auto simp: update_commission_rate_def Let_def rows_typed_def split: option.splits if_splits\<close>)
  then show ?thesis by (simp add: UpdateRate)
next
  case (LogCommission t)
  have "rows_typed (kept (calculate_and_log now t db) db)"
    by (rule kept_cases) (use typed in \<open>auto elim!: calculate_and_logE simp: rows_typed_def new_commission_typed\<close>)
  then show ?thesis by (simp add: LogCommission)
next
  case (PayCommission i)
  then show ?thesis
    using typed by (simp add: process_commission_payout_def Let_def typed_rows split: option.split)
next
  case (Generate d m)
  then show ?thesis using generate_typed[OF typed] by simp
next
  case (GenerateAll m)
  then show ?thesis using generate_each_typed[OF typed] by (simp add: admin_generate_settlements_def)
next
  case (GenerateVendor v a b)
  then show ?thesis using typed by (simp add: generate_vendor_settlement_def)
next
  case (PayBatch m)
  then show ?thesis using batch_typed[OF typed] by simp
next
  case (RetryPayment i)
  then show ?thesis using single_typed[OF typed] by (simp add: admin_retry_settlement_def case_prod_beta)
next
  case (OpenDispute u s r)
  have "dispute_typed (new_dispute now s u r db)" by (simp add: dispute_typed_def new_dispute_def)
  moreover have "db' = db\<lparr>disputes := disputes db @ [new_dispute now s u r db]\<rparr>"
    if "create_dispute now s u r db = Inr (d, db')" for d db'
    using that by (rule create_dispute_Inr)
  ultimately have "rows_typed (kept (create_dispute now s u r db) db)"
    using typed by (intro kept_cases[where Q = rows_typed]) (simp_all add: rows_typed_def)
  then show ?thesis by (simp add: OpenDispute dealer_create_dispute_def)
next
  case (ResolveDispute i a n x)
  have d: "dispute_typed d" if "get_row sd_id i (disputes db) = Some d" for d
    using typed get_row_Some[OF that] by (simp add: rows_typed_def list_all_iff)
  have "rows_typed db'" if "resolve_dispute now i a n x db = Inr (r, db')" for r db'
    using that
  proof (cases rule: resolve_disputeE)
    case approved
    then have "dispute_typed r" by (simp add: dispute_closed_typed)
    with approved(5) typed show ?thesis by (simp add: rows_typed_def adjusted_typed list_all_put_row)
  next
    case rejected
    then have "dispute_typed r" using d by (simp add: dispute_closed_typed)
    with rejected(5) typed show ?thesis by (simp add: rows_typed_def list_all_put_row)
  qed
  then have "rows_typed (kept (resolve_dispute now i a n x db) db)"
    by (rule kept_cases) (auto intro: typed)
  then show ?thesis by (simp add: ResolveDispute admin_resolve_dispute_def)
next
  case (PutStatus i s r)
  then show ?thesis using no by simp
next
  case (ApproveSettlement i)
  then show ?thesis using no by simp
next
  case SettlementJob
  then show ?thesis using generate_each_typed[OF typed] by (simp add: commission_settlement_def)
next
  case PaymentJob
  then show ?thesis
    using batch_typed[OF typed, of payout now "last_month now"]
    by (simp add: batch_payment_processing_def case_prod_beta Let_def rows_typed_def)
next
  case AccrualJob
  then show ?thesis using typed by simp
qed

interpretation typed_history: stable_step "pay_step payout" "\<lambda>x. \<not> puts_status x" rows_typed for payout
proof
  fix x :: "datetime \<times> pay_request" and s
  assume "\<not> puts_status x" "rows_typed s"
  then show "rows_typed (pay_step payout x s)" by (cases x) (simp add: pay_step_typed)
qed


definition paid_row :: settlement where
  "paid_row = paid_settlement 0 (''PAY-1'', ''receipt'')
     (new_settlement 0 7 ''2025-01'' (0, 0) example_db)"

definition dispute_example :: pay_db where
  "dispute_example = example_db\<lparr>settlements := [paid_row], commissions := [], chargebacks := []\<rparr>"

definition dispute_requests :: "(datetime \<times> pay_request) list" where
  "dispute_requests =
     [(1, OpenDispute 7 1 ''missing swap''), (2, ResolveDispute 1 ''approve'' ''checked'' 12)]"


section \<open>Commissions never reach a dealer\<close>

definition unowned :: "pay_db \<Rightarrow> bool" where
  "unowned db \<longleftrightarrow>
     list_all (\<lambda>c. cl_dealer_id c = None \<and> cl_settlement_id c = None) (commissions db) \<and>
     list_all (\<lambda>s. sm_total_commission s = 0) (settlements db)"

lemma round2_0 [simp]: "round2 0 = 0"
  by (simp add: round2_def round_half_even_def)

lemma same_accounts_unowned: "same_accounts db db' \<Longrightarrow> unowned db \<Longrightarrow> unowned db'"
proof -
  assume same: "same_accounts db db'" and un: "unowned db"
  then have sk: "map settlement_key (settlements db') = map settlement_key (settlements db)"
    and ck: "map commission_key (commissions db') = map commission_key (commissions db)"
    by (simp_all add: same_accounts_def)
  have "sm_total_commission s' = 0" if "s' \<in> set (settlements db')" for s'
  proof -
    from sk that obtain s where "s \<in> set (settlements db)" "settlement_key s' = settlement_key s"
      by (rule key_member)
    with un show ?thesis by (auto simp: unowned_def list_all_iff settlement_key_def)
  qed
  moreover have "cl_dealer_id c' = None \<and> cl_settlement_id c' = None" if "c' \<in> set (commissions db')" for c'
  proof -
    from ck that obtain c where "c \<in> set (commissions db)" "commission_key c' = commission_key c"
      by (rule key_member)
    with un show ?thesis by (auto simp: unowned_def list_all_iff commission_key_def)
  qed
  ultimately show "unowned db'" by (simp add: unowned_def list_all_iff)
qed

lemma settled_db_unowned: "unowned db \<Longrightarrow> unowned (settled_db now d m p db)"
proof -
  assume un: "unowned db"
  then have none: "\<not> due_commission d p c" if "c \<in> set (commissions db)" for c
    using that by (auto simp: unowned_def list_all_iff due_commission_def)
  then have "filter (due_commission d p) (commissions db) = []" by (simp add: filter_empty_conv)
  then have "commission_total (due_commission d p) db = 0" by (simp add: commission_total_def)
  moreover have "link_commissions (due_commission d p) sid (commissions db) = commissions db" for sid
    unfolding link_commissions_def using none by (intro map_idI) simp
  ultimately show ?thesis using un by (simp add: unowned_def settled_db_def Let_def)
qed

lemma grows_unowned: "grows db db' \<Longrightarrow> unowned db \<Longrightarrow> unowned db'"
proof (induction rule: grows.induct)
  case (log amount db tid now)
  then show ?case by (simp add: unowned_def new_commission_def)
qed (auto intro: same_accounts_unowned settled_db_unowned)

interpretation unowned_history: stable_step "pay_step payout" "\<lambda>_. True" "\<lambda>db. accounts_ok db \<and> unowned db"
  for payout
proof
  fix x :: "datetime \<times> pay_request" and s assume s: "accounts_ok s \<and> unowned s"
  obtain now req where x: "x = (now, req)" by (cases x)
  show "accounts_ok (pay_step payout x s) \<and> unowned (pay_step payout x s)"
    using pay_step_grows[of s payout now req] s
    unfolding x by (auto intro: grows_accounts grows_unowned)
qed

text \<open>The code creates every commission without a dealer, so that no settlement ever holds one:
  started without commissions and settlements, any history of requests and jobs leaves every
  commission unlinked and every settlement with a total of 0.\<close>

lemma settlements_hold_no_commission:
  assumes "accounts_ok db" "commissions db = []" "settlements db = []"
  shows "(\<forall>s \<in> set (settlements (pay_run payout reqs db)). sm_total_commission s = 0) \<and>
    (\<forall>c \<in> set (commissions (pay_run payout reqs db)). cl_dealer_id c = None \<and> cl_settlement_id c = None)"
proof -
  have "accounts_ok db \<and> unowned db" using assms by (simp add: unowned_def)
  from unowned_history.fold_stable[OF all_allowed this]
  have "unowned (pay_run payout reqs db)" by (simp add: pay_run_def)
  then show ?thesis by (simp add: unowned_def list_all_iff)
qed

definition unowned_requests :: "(datetime \<times> pay_request) list" where
  "unowned_requests =
     [(0, LogCommission \<lparr>pt_id = 3, pt_amount = 200, pt_type = Some ''RENTAL'', pt_rental_id = None,
                         pt_status = ''SUCCESS'', pt_created_at = 0\<rparr>), (1, Generate 7 ''2025-01'')]"

theorem settlements_hold_no_commission_witness:
  "list_all (\<lambda>s. sm_total_commission s = 0)
     (settlements (pay_run example_gateway unowned_requests (example_db\<lparr>commissions := []\<rparr>))) \<and>
   map sm_id (settlements (pay_run example_gateway unowned_requests (example_db\<lparr>commissions := []\<rparr>))) = [1]"
proof
  let ?db = "example_db\<lparr>commissions := []\<rparr>"
  have "accounts_ok ?db" "commissions ?db = []" "settlements ?db = []" by code_simp+
  from settlements_hold_no_commission[OF this]
  show "list_all (\<lambda>s. sm_total_commission s = 0) (settlements (pay_run example_gateway unowned_requests ?db))"
    by (simp add: list_all_iff)
qed code_simp

section \<open>Periods\<close>

lemma settlement_periodE:
  assumes "settlement_period month = Inr p"
  obtains y m where "1 \<le> m" "m \<le> 12" "p = (month_start y m, month_end y m - second)"
proof -
  obtain y m where "parse_month month = Inr (y, m)"
    using assms by (auto simp: settlement_period_def split: sum.splits)
  then have "1 \<le> m" "m \<le> 12" "p = (month_start y m, month_end y m - second)"
    using assms
    by (auto simp: settlement_period_def py_month_start_def month_end_def next_month_def
        split: sum.splits if_splits)
  then show ?thesis by (rule that)
qed

text \<open>The instants that are left over between the periods: the last second of a month.\<close>

definition in_last_second :: "datetime \<Rightarrow> bool" where
  "in_last_second t \<longleftrightarrow>
     (case year_month t of (y, m) \<Rightarrow> month_end y m - second < t)"

lemma last_second_not_in_period:
  assumes t: "month_start 1 1 \<le> t" "in_last_second t" and p: "settlement_period month = Inr p"
  shows "\<not> in_period p t"
proof
  assume inp: "in_period p t"
  obtain y m where ym: "year_month t = (y, m)" by (cases "year_month t")
  note b = year_month_bounds[OF t(1), unfolded ym fst_conv snd_conv]
  from p obtain y' m' where m': "1 \<le> m'" "m' \<le> 12"
    and p': "p = (month_start y' m', month_end y' m' - second)"
    by (rule settlement_periodE)
  have "month_start y' m' \<le> t" "t \<le> month_end y' m' - second"
    using inp by (simp_all add: in_period_def p')
  moreover have "y = y' \<and> m = m'"
    by (rule month_unique[OF b(1,2) m' b(3,4)]) (use calculation in simp_all)
  ultimately show False using t(2) by (simp add: in_last_second_def ym)
qed

definition left_over :: "pay_db \<Rightarrow> pay_db \<Rightarrow> bool" where
  "left_over db db' \<longleftrightarrow>
     (\<forall>c \<in> set (commissions db). cl_settlement_id c = None \<longrightarrow> month_start 1 1 \<le> cl_created_at c \<longrightarrow>
        in_last_second (cl_created_at c) \<longrightarrow>
        (\<exists>c' \<in> set (commissions db'). commission_key c' = commission_key c))"

lemma left_over_refl: "left_over db db"
  by (auto simp: left_over_def)

lemma left_over_trans: "left_over a b \<Longrightarrow> left_over b c \<Longrightarrow> left_over a c"
proof -
  assume ab: "left_over a b" and bc: "left_over b c"
  show ?thesis
    unfolding left_over_def
  proof (intro ballI impI)
    fix x assume x: "x \<in> set (commissions a)" "cl_settlement_id x = None"
      "month_start 1 1 \<le> cl_created_at x" "in_last_second (cl_created_at x)"
    with ab obtain y where y: "y \<in> set (commissions b)" "commission_key y = commission_key x"
      by (auto simp: left_over_def)
    with x have "cl_settlement_id y = None" "cl_created_at y = cl_created_at x"
      by (auto simp: commission_key_def)
    with bc y(1) x obtain z where "z \<in> set (commissions c)" "commission_key z = commission_key y"
      by (auto simp: left_over_def)
    with y show "\<exists>z \<in> set (commissions c). commission_key z = commission_key x" by auto
  qed
qed

lemma grows_left_over: "grows db db' \<Longrightarrow> left_over db db'"
proof (induction rule: grows.induct)
  case (keep db db')
  then have "map commission_key (commissions db) = map commission_key (commissions db')"
    by (simp add: same_accounts_def)
  then show ?case
    unfolding left_over_def by (metis (no_types) key_member)
next
  case (log amount db tid now)
  show ?case by (auto simp: left_over_def)
next
  case (settle month period d db now)
  have "c \<in> set (commissions (settled_db now d month period db))"
    if "c \<in> set (commissions db)" "month_start 1 1 \<le> cl_created_at c" "in_last_second (cl_created_at c)" for c
    using that last_second_not_in_period[OF that(2,3) settle(1)]
    by (auto simp: settled_db_def Let_def in_linked due_commission_def intro!: bexI[of _ c])
  then show ?case by (auto simp: left_over_def)
next
  case (further db db1 db2)
  then show ?case by (blast intro: left_over_trans)
qed

interpretation left_over_history: evolving_step "pay_step payout" "\<lambda>_. True" accounts_ok left_over for payout
proof
  fix x :: "datetime \<times> pay_request" and s assume "accounts_ok s"
  then show "left_over s (pay_step payout x s)" by (cases x) (auto intro: grows_left_over pay_step_grows)
qed (auto intro: left_over_refl left_over_trans payout_history.step_stable)

text \<open>A commission that was created in the last second of a month (after the second began) is
  never settled: no period of any month string contains it, so that it stays unlinked through any
  history.\<close>

lemma last_second_commission_lost:
  assumes "accounts_ok db" "c \<in> set (commissions db)" "cl_settlement_id c = None"
    and "month_start 1 1 \<le> cl_created_at c" "in_last_second (cl_created_at c)"
  shows "\<exists>c' \<in> set (commissions (pay_run payout reqs db)).
           cl_id c' = cl_id c \<and> cl_amount c' = cl_amount c \<and> cl_settlement_id c' = None"
proof -
  have "left_over db (pay_run payout reqs db)"
    unfolding pay_run_def by (rule left_over_history.fold_later[OF all_allowed assms(1)])
  with assms(2-5) obtain c' where "c' \<in> set (commissions (pay_run payout reqs db))"
    "commission_key c' = commission_key c"
    by (auto simp: left_over_def)
  with assms(3) show ?thesis by (auto simp: commission_key_def intro!: bexI[of _ c'])
qed

theorem last_second_commission_lost_witness:
  "\<exists>c' \<in> set (commissions (pay_run example_gateway
       [(0, Generate 7 ''2025-01''), (0, Generate 7 ''2025-02''), (0, Generate 7 ''2025-1'')]
       (example_db\<lparr>commissions := [example_commission 1 10 (month_start 2025 2 - 1)]\<rparr>))).
     cl_id c' = 1 \<and> cl_amount c' = 10 \<and> cl_settlement_id c' = None"
proof -
  let ?c = "example_commission 1 10 (month_start 2025 2 - 1)"
  let ?db = "example_db\<lparr>commissions := [?c]\<rparr>"
  have "accounts_ok ?db" "?c \<in> set (commissions ?db)" "cl_settlement_id ?c = None"
    "month_start 1 1 \<le> cl_created_at ?c" "in_last_second (cl_created_at ?c)"
    by code_simp+
  from last_second_commission_lost[OF this] show ?thesis by (simp add: example_commission_def)
qed

lemma settlement_period_of:
  assumes "parse_month month = Inr (y, m)" "1 \<le> y" "y \<le> 9999" "1 \<le> m" "m \<le> 12" "y = 9999 \<Longrightarrow> m \<noteq> 12"
  shows "settlement_period month = Inr (month_start y m, month_end y m - second)"
  using assms by (auto simp: settlement_period_def py_month_start_def month_end_def next_month_def)

lemma prev_month_bounds:
  assumes "1 \<le> m" "m \<le> 12" "month_start 1 1 < month_start y m"
  shows "year_month (month_start y m - day) = (if m = 1 then (y - 1, 12) else (y, m - 1))"
proof -
  define y' m' where "y' = (if m = 1 then y - 1 else y)" and "m' = (if m = 1 then 12 else m - 1)"
  have m': "1 \<le> m'" "m' \<le> 12" and e: "month_end y' m' = month_start y m"
    using assms(1,2) by (auto simp: y'_def m'_def month_end_def next_month_def)
  have step: "month_start y' m' + day \<le> month_start y m"
    using month_start_less_end[OF m', of y'] unfolding e by (rule month_start_gap)
  have low: "month_start 1 1 \<le> month_start y m - day"
    using month_start_gap[OF assms(3)] by simp
  obtain a b where ab: "year_month (month_start y m - day) = (a, b)"
    by (cases "year_month (month_start y m - day)")
  note bb = year_month_bounds[OF low, unfolded ab fst_conv snd_conv]
  have "a = y' \<and> b = m'"
    by (rule month_unique[OF bb(1,2) m' bb(3,4)]) (use step in \<open>simp_all add: e\<close>)
  then show ?thesis unfolding ab y'_def m'_def by auto
qed

text \<open>The monthly job settles the month before the current one: its period begins with the first
  instant of a month and ends one second before the month of the clock begins.\<close>

lemma job_settles_previous_month:
  assumes "month_start 1 2 \<le> now" "now < month_start 9999 12"
  shows "\<exists>y m. settlement_period (last_month now) =
             Inr (month_start y m, month_start (fst (year_month now)) (snd (year_month now)) - second) \<and>
           month_start y m < month_start (fst (year_month now)) (snd (year_month now)) \<and>
           month_start (fst (year_month now)) (snd (year_month now)) \<le> now"
proof -
  obtain y m where ym: "year_month now = (y, m)" by (cases "year_month now")
  have "month_start 1 1 \<le> now" using assms(1) by (simp add: month_start_def days_before_month_def)
  note b = year_month_bounds[OF this, unfolded ym fst_conv snd_conv]
  have y: "nth_month (12 * 1 + (2 - 1)) \<le> now" "now < nth_month (12 * 9999 + (12 - 1))"
    using assms nth_month_at[of 2 1] nth_month_at[of 12 9999] by simp_all
  have "nth_month (12 * 1 + (2 - 1)) < nth_month (12 * y + m)"
    "nth_month (12 * y + (m - 1)) < nth_month (12 * 9999 + (12 - 1))"
    using y b nth_month_at[OF b(1,2), of y] nth_month_after[OF b(1,2), of y] by simp_all
  then have "\<not> 12 * y + m \<le> 12 * 1 + (2 - 1)" "\<not> 12 * 9999 + (12 - 1) \<le> 12 * y + (m - 1)"
    using nth_month_mono[of "12 * y + m" "12 * 1 + (2 - 1)"]
      nth_month_mono[of "12 * 9999 + (12 - 1)" "12 * y + (m - 1)"] by linarith+
  then have idx: "13 < 12 * y + m" "12 * y + m < 120000" by simp_all
  define y' m' where "y' = (if m = 1 then y - 1 else y)" and "m' = (if m = 1 then 12 else m - 1)"
  have m': "1 \<le> m'" "m' \<le> 12" and e: "month_end y' m' = month_start y m"
    using b(1,2) by (auto simp: y'_def m'_def month_end_def next_month_def)
  have y': "1 \<le> y'" "y' \<le> 9999" "y' = 9999 \<Longrightarrow> m' \<noteq> 12"
    using idx b(1,2) by (auto simp: y'_def m'_def)
  have "month_start 1 1 < month_start y m"
    using nth_month_step[of 12] nth_month_mono[of 13 "12 * y + (m - 1)"] idx
      nth_month_at[OF b(1,2), of y] nth_month_at[of 1 1] by simp
  then have "year_month (month_start y m - day) = (y', m')"
    using prev_month_bounds[OF b(1,2)] by (simp add: y'_def m'_def)
  then have "last_month now = show_month (y', m')" by (simp add: last_month_def ym)
  then have "settlement_period (last_month now) = Inr (month_start y' m', month_end y' m' - second)"
    using y' m' by (intro settlement_period_of) (simp_all add: month_roundtrip)
  then show ?thesis
    using month_start_less_end[OF m', of y'] b(3) by (auto simp: ym e)
qed

theorem job_settles_previous_month_witness:
  "\<exists>y m. settlement_period (last_month (month_start 2025 3 + 5)) = Inr (month_start y m, month_start 2025 3 - second)"
proof -
  have "month_start 1 2 \<le> month_start 2025 3 + 5" "month_start 2025 3 + 5 < month_start 9999 12"
    "year_month (month_start 2025 3 + 5) = (2025, 3)" by code_simp+
  with job_settles_previous_month[of "month_start 2025 3 + 5"] show ?thesis by auto
qed

end
