(* ===== verification/Catalog.thy ===== *)
theory Catalog
  imports PyStr "HOL-Library.Product_Lexorder"
begin

text \<open>
  The product catalogue as the customer reads it: \<open>app/services/catalog_service.py\<close> and the
  product endpoints of \<open>app/api/v1/catalog.py\<close>. Prices and ratings are floats: rationals. Images and
  the columns that no code of the repository decides on are left out.
\<close>

section \<open>Tables\<close>

record product =
  pr_id :: int
  pr_name :: string
  pr_description :: string
  pr_category :: string
  pr_brand :: string
  pr_sku :: string
  pr_price :: rat
  pr_capacity_mah :: "int option"
  pr_warranty_months :: int
  pr_stock_quantity :: int
  pr_status :: string
  pr_is_featured :: bool
  pr_is_bestseller :: bool
  pr_tags :: "string option"
  pr_average_rating :: rat
  pr_review_count :: int
  pr_created_at :: datetime
  pr_updated_at :: datetime

record variant =
  va_id :: int
  va_product_id :: int
  va_name :: string
  va_sku :: string
  va_price :: "rat option"
  va_stock_quantity :: int
  va_is_active :: bool

section \<open>Search\<close>

text \<open>
  \<open>column.ilike(pattern)\<close>: \<open>%\<close> stands for any text, \<open>_\<close> for one character, a backslash takes the
  next character as it is, and the case of letters does not count. A null column never matches.
\<close>

fun like_match :: "string \<Rightarrow> string \<Rightarrow> bool" where
  "like_match [] s = (s = [])"
| "like_match (c # p) s =
     (if c = CHR ''%'' then like_match p s \<or> (case s of [] \<Rightarrow> False | _ # s' \<Rightarrow> like_match (c # p) s')
      else case s of [] \<Rightarrow> False
           | d # s' \<Rightarrow>
               if c = CHR ''_'' then like_match p s'
               else if c = CHR 0x5C \<and> p \<noteq> [] then d = hd p \<and> like_match (tl p) s'
               else d = c \<and> like_match p s')"

definition ilike :: "string option \<Rightarrow> string \<Rightarrow> bool" where
  "ilike v pattern =
     (case v of None \<Rightarrow> False | Some s \<Rightarrow> like_match (py_lower pattern) (py_lower s))"

record search_request =
  sq_query :: "string option"
  sq_category :: "string option"
  sq_brand :: "string option"
  sq_min_price :: "rat option"
  sq_max_price :: "rat option"
  sq_min_capacity :: "int option"
  sq_max_capacity :: "int option"
  sq_min_rating :: "rat option"
  sq_in_stock_only :: bool
  sq_sort_by :: string

text \<open>A filter that is not given, or the empty text, filters nothing.\<close>

definition unless_given :: "string option \<Rightarrow> (string \<Rightarrow> bool) \<Rightarrow> bool" where
  "unless_given q P = (case q of None \<Rightarrow> True | Some s \<Rightarrow> s = [] \<or> P s)"

definition at_least :: "'a::linorder option \<Rightarrow> 'a option \<Rightarrow> bool" where
  "at_least bound v = (case bound of None \<Rightarrow> True
     | Some b \<Rightarrow> (case v of None \<Rightarrow> False | Some x \<Rightarrow> b \<le> x))"

definition at_most :: "'a::linorder option \<Rightarrow> 'a option \<Rightarrow> bool" where
  "at_most bound v = (case bound of None \<Rightarrow> True
     | Some b \<Rightarrow> (case v of None \<Rightarrow> False | Some x \<Rightarrow> x \<le> b))"

definition text_matches :: "string \<Rightarrow> product \<Rightarrow> bool" where
  "text_matches q p =
     (let pattern = ''%'' @ q @ ''%''
      in ilike (Some (pr_name p)) pattern \<or> ilike (Some (pr_description p)) pattern
         \<or> ilike (Some (pr_brand p)) pattern \<or> ilike (pr_tags p) pattern)"

definition search_matches :: "search_request \<Rightarrow> product \<Rightarrow> bool" where
  "search_matches r p \<longleftrightarrow>
     pr_status p = ''ACTIVE''
     \<and> unless_given (sq_query r) (\<lambda>q. text_matches q p)
     \<and> unless_given (sq_category r) (\<lambda>c. pr_category p = c)
     \<and> unless_given (sq_brand r) (\<lambda>b. pr_brand p = b)
     \<and> at_least (sq_min_price r) (Some (pr_price p)) \<and> at_most (sq_max_price r) (Some (pr_price p))
     \<and> at_least (sq_min_capacity r) (pr_capacity_mah p) \<and> at_most (sq_max_capacity r) (pr_capacity_mah p)
     \<and> at_least (sq_min_rating r) (Some (pr_average_rating p))
     \<and> (sq_in_stock_only r \<longrightarrow> 0 < pr_stock_quantity p)"

text \<open>
  What the \<open>ORDER BY\<close> compares, a descending column with its sign turned; the default has two columns.
\<close>

definition sort_value :: "string \<Rightarrow> product \<Rightarrow> bool \<times> rat" where
  "sort_value sort_by p =
     (if sort_by = ''price_asc'' then (False, pr_price p)
      else if sort_by = ''price_desc'' then (False, - pr_price p)
      else if sort_by = ''rating'' then (False, - pr_average_rating p)
      else if sort_by = ''popularity'' then (False, - of_int (pr_review_count p))
      else if sort_by = ''newest'' then (False, - of_int (pr_created_at p))
      else (\<not> pr_is_featured p, - of_int (pr_created_at p)))"

text \<open>
  SQL leaves the order of rows that compare equal open. Here they keep the order in which the table
  is given: a database that orders them otherwise, and perhaps otherwise for every query, is one
  that reads the rows in another order.
\<close>

definition search_order :: "string \<Rightarrow> product list \<Rightarrow> product list" where
  "search_order sort_by ps = sort_key (sort_value sort_by) ps"

text \<open>A negative limit or offset is an error of the database.\<close>

definition search_products ::
    "search_request \<Rightarrow> int \<Rightarrow> int \<Rightarrow> product list \<Rightarrow> (product list \<times> int) res" where
  "search_products r limit offset ps =
     (let matching = filter (search_matches r) ps
      in if limit < 0 \<or> offset < 0 then Inl DatabaseError
         else Inr (take (nat limit) (drop (nat offset) (search_order (sq_sort_by r) matching)),
                   int (length matching)))"

record search_page =
  sp_items :: "product list"
  sp_total_count :: int
  sp_total_pages :: int

definition as_page :: "int \<Rightarrow> product list \<times> int \<Rightarrow> search_page res" where
  "as_page page_size found =
     (if page_size = 0 then Inl ZeroDivisionError
      else Inr \<lparr>sp_items = fst found, sp_total_count = snd found,
             sp_total_pages = (snd found + page_size - 1) div page_size\<rparr>)"

text \<open>\<open>POST /products/search\<close>: the framework refuses a request outside the declared bounds.\<close>

definition api_search_products ::
    "search_request \<Rightarrow> int \<Rightarrow> int \<Rightarrow> product list \<Rightarrow> search_page res" where
  "api_search_products r page page_size ps =
     (if page < 1 \<or> page_size < 1 \<or> 100 < page_size
         \<or> (case sq_min_rating r of None \<Rightarrow> False | Some m \<Rightarrow> m < 0 \<or> 5 < m)
      then Inl (HTTPException 422 [])
      else case search_products r page_size ((page - 1) * page_size) ps of
             Inl e \<Rightarrow> Inl e | Inr found \<Rightarrow> as_page page_size found)"

text \<open>\<open>GET /products\<close>: only products in stock, and no bound on the page.\<close>

definition get_products ::
    "string option \<Rightarrow> string option \<Rightarrow> string option \<Rightarrow> rat option \<Rightarrow> rat option \<Rightarrow> string \<Rightarrow>
     int \<Rightarrow> int \<Rightarrow> product list \<Rightarrow> search_page res" where
  "get_products q category brand min_price max_price sort_by page page_size ps =
     (case search_products \<lparr>sq_query = q, sq_category = category, sq_brand = brand, sq_min_price = min_price,
             sq_max_price = max_price, sq_min_capacity = None, sq_max_capacity = None,
             sq_min_rating = None, sq_in_stock_only = True, sq_sort_by = sort_by\<rparr>
             page_size ((page - 1) * page_size) ps of
        Inl e \<Rightarrow> Inl e | Inr found \<Rightarrow> as_page page_size found)"

section \<open>Other readings\<close>

record product_details =
  pd_product :: product
  pd_variants :: "variant list"
  pd_in_stock :: bool

definition get_product_details ::
    "int \<Rightarrow> product list \<Rightarrow> variant list \<Rightarrow> product_details option" where
  "get_product_details product_id ps vs =
     (case get_row pr_id product_id ps of
        None \<Rightarrow> None
      | Some product \<Rightarrow>
          (let variants = filter (\<lambda>v. va_product_id v = product_id \<and> va_is_active v) vs
           in Some \<lparr>pd_product = product, pd_variants = variants,
                pd_in_stock = (0 < pr_stock_quantity product
                               \<or> list_ex (\<lambda>v. 0 < va_stock_quantity v) variants)\<rparr>))"

definition get_featured_products :: "nat \<Rightarrow> product list \<Rightarrow> product list" where
  "get_featured_products limit ps =
     take limit (sort_key (\<lambda>p. - pr_created_at p)
       (filter (\<lambda>p. pr_is_featured p \<and> pr_status p = ''ACTIVE'') ps))"

definition get_bestsellers :: "nat \<Rightarrow> product list \<Rightarrow> product list" where
  "get_bestsellers limit ps =
     take limit (sort_key (\<lambda>p. - pr_review_count p)
       (filter (\<lambda>p. pr_is_bestseller p \<and> pr_status p = ''ACTIVE'') ps))"

record catalog_metadata =
  cm_categories :: "string list"
  cm_brands :: "string list"
  cm_min_price :: rat
  cm_max_price :: rat
  cm_capacities :: "int list"

definition get_catalog_metadata :: "product list \<Rightarrow> catalog_metadata" where
  "get_catalog_metadata ps =
     \<lparr>cm_categories = filter (\<lambda>c. c \<noteq> []) (remdups (map pr_category ps)),
      cm_brands = filter (\<lambda>b. b \<noteq> []) (remdups (map pr_brand ps)),
      cm_min_price = (if ps = [] then 0 else Min (set (map pr_price ps))),
      cm_max_price = (if ps = [] then 0 else Max (set (map pr_price ps))),
      cm_capacities = concat (map (\<lambda>c. case c of None \<Rightarrow> [] | Some cap \<Rightarrow> if cap = 0 then [] else [cap])
        (remdups (map pr_capacity_mah (filter (\<lambda>p. pr_category p = ''BATTERY'') ps))))\<rparr>"

section \<open>What a search returns\<close>

lemma search_order_set [simp]: "set (search_order sort_by ps) = set ps"
  by (simp add: search_order_def)

lemma search_order_length [simp]: "length (search_order sort_by ps) = length ps"
  by (simp add: search_order_def)

text \<open>The pages of a list, cut every \<open>n\<close> elements.\<close>

definition slice :: "nat \<Rightarrow> 'a list \<Rightarrow> nat \<Rightarrow> 'a list" where
  "slice n xs k = take n (drop (k * n) xs)"

lemma concat_slices: "concat (map (slice n xs) [0..<k]) = take (k * n) xs"
proof (induction k)
  case 0
  then show ?case by simp
next
  case (Suc k)
  have "take (Suc k * n) xs = take (k * n) xs @ take n (drop (k * n) xs)"
    by (metis take_add mult_Suc add.commute)
  with Suc show ?case by (simp add: slice_def)
qed

lemma like_any: "like_match (CHR ''%'' # p) s \<longleftrightarrow> (\<exists>u v. s = u @ v \<and> like_match p v)"
proof (induction s)
  case Nil
  then show ?case by simp
next
  case (Cons d s)
  have "like_match (CHR ''%'' # p) (d # s) \<longleftrightarrow> like_match p (d # s) \<or> (\<exists>u v. s = u @ v \<and> like_match p v)"
    using Cons.IH by simp
  also have "\<dots> \<longleftrightarrow> (\<exists>u v. d # s = u @ v \<and> like_match p v)"
    by (metis append_Cons append_Nil neq_Nil_conv list.inject)
  finally show ?case .
qed

lemma like_plain:
  "list_all (\<lambda>c. c \<notin> {CHR ''%'', CHR ''_'', CHR 0x5C}) q \<Longrightarrow>
   like_match (q @ p) s \<longleftrightarrow> (\<exists>v. s = q @ v \<and> like_match p v)"
  by (induction q arbitrary: s) (auto split: list.splits)

lemma like_rest: "like_match [CHR ''%''] s"
  by (induction s) simp_all

lemma starts_with_iff: "starts_with p s \<longleftrightarrow> (\<exists>v. s = p @ v)"
  by (induction p s rule: starts_with.induct) auto

lemma is_infix_append: "is_infix p s \<longleftrightarrow> (\<exists>u v. s = u @ p @ v)"
proof (induction s)
  case Nil
  then show ?case by auto
next
  case (Cons d s)
  have "is_infix p (d # s) \<longleftrightarrow> (\<exists>v. d # s = p @ v) \<or> (\<exists>u v. s = u @ p @ v)"
    using Cons.IH by (simp add: starts_with_iff)
  also have "\<dots> \<longleftrightarrow> (\<exists>u v. d # s = u @ p @ v)"
    by (metis append_Cons append_Nil neq_Nil_conv list.inject)
  finally show ?case .
qed

text \<open>A text without wildcards is searched for as it is, whatever the case of its letters.\<close>

definition plain_text :: "string \<Rightarrow> bool" where
  "plain_text q \<longleftrightarrow> list_all (\<lambda>c. c \<notin> {CHR ''%'', CHR ''_'', CHR 0x5C}) q"

definition wild :: "char \<Rightarrow> bool" where
  "wild c \<longleftrightarrow> c \<in> {CHR ''%'', CHR ''_'', CHR 0x5C}"

lemma wild_lower: "wild (lower_char c) \<Longrightarrow> wild c"
proof (rule ccontr)
  assume w: "wild (lower_char c)" and "\<not> wild c"
  then have "lower_char c \<noteq> c" by metis
  then have "97 \<le> (of_char (lower_char c) :: nat)"
    by (auto simp: of_char_lower lower_char_def Let_def split: if_splits)
  moreover have "(of_char (lower_char c) :: nat) \<le> 95"
    using w by (auto simp: wild_def)
  ultimately show False by simp
qed

lemma plain_lower: "plain_text q \<Longrightarrow> plain_text (py_lower q)"
  unfolding plain_text_def py_lower_def list.pred_map wild_def [symmetric]
  by (erule list.pred_mono_strong) (auto dest: wild_lower)

lemma like_infix:
  assumes "plain_text q"
  shows "like_match (CHR ''%'' # q @ ''%'') s \<longleftrightarrow> is_infix q s"
proof -
  have "like_match (q @ ''%'') v \<longleftrightarrow> (\<exists>w. v = q @ w)" for v
    using like_plain [OF assms [unfolded plain_text_def], of "''%''" v] like_rest by metis
  then show ?thesis unfolding like_any is_infix_append by auto
qed

lemma lower_wild: "py_lower (''%'' @ q @ ''%'') = CHR ''%'' # py_lower q @ ''%''"
  by (simp add: py_lower_def lower_char_def)

lemma ilike_plain:
  assumes "plain_text q"
  shows "ilike v (''%'' @ q @ ''%'') \<longleftrightarrow>
     (case v of None \<Rightarrow> False | Some s \<Rightarrow> is_infix (py_lower q) (py_lower s))"
  unfolding ilike_def lower_wild like_infix [OF plain_lower [OF assms]] ..

end
