(* ===== verification/Shop.thy ===== *)
theory Shop
  imports Wallet Catalog
begin

text \<open>
  The shop: products with a stock (\<open>app/services/catalog_service.py\<close>), orders that take from it
  (\<open>order_service.py\<close>), the cart (\<open>cart_service.py\<close>) and their endpoints
  (\<open>app/api/v1/catalog.py\<close>, \<open>purchases_enhanced.py\<close>). Prices are floats: rationals. The number of
  an order and of a tracking, which hold a date and random digits, are parameters. Images,
  invoices and warranty tickets are left out.
\<close>

section \<open>Tables\<close>

record address =
  ad_address :: string
  ad_city :: string
  ad_state :: string
  ad_pincode :: string
  ad_phone :: string

record shop_order =
  so_id :: int
  so_number :: string
  so_user_id :: int
  so_subtotal :: rat
  so_tax_amount :: rat
  so_shipping_fee :: rat
  so_total_amount :: rat
  so_address :: address
  so_payment_method :: string
  so_payment_status :: string
  so_payment_id :: "string option"
  so_status :: string
  so_created_at :: datetime
  so_confirmed_at :: "datetime option"
  so_delivered_at :: "datetime option"
  so_cancelled_at :: "datetime option"
  so_admin_notes :: "string option"

record shop_item =
  si_id :: int
  si_order_id :: int
  si_product_id :: int
  si_variant_id :: "int option"
  si_product_name :: string
  si_sku :: string
  si_quantity :: int
  si_unit_price :: rat
  si_total_price :: rat
  si_warranty_months :: int

record delivery_tracking =
  dt_id :: int
  dt_order_id :: int
  dt_number :: string
  dt_courier_name :: string
  dt_current_status :: string
  dt_current_location :: "string option"
  dt_actual_delivery_date :: "datetime option"
  dt_updated_at :: datetime

record delivery_event =
  dv_tracking_id :: int
  dv_status :: string
  dv_location :: "string option"
  dv_description :: string
  dv_timestamp :: datetime

record cart_item =
  ci_id :: int
  ci_user_id :: int
  ci_product_id :: int
  ci_variant_id :: "int option"
  ci_quantity :: int
  ci_updated_at :: datetime

record shop_db =
  products :: "product list"
  variants :: "variant list"
  shop_orders :: "shop_order list"
  shop_items :: "shop_item list"
  trackings :: "delivery_tracking list"
  delivery_events :: "delivery_event list"
  cart_items :: "cart_item list"
  shop_wallets :: wallet_db

section \<open>Stock\<close>

text \<open>The code tests \<open>if variant_id\<close>: an id of 0 means the product itself.\<close>

definition variant_key :: "int option \<Rightarrow> int option" where
  "variant_key variant_id = (if variant_id = Some 0 then None else variant_id)"

definition check_stock_availability :: "int \<Rightarrow> int option \<Rightarrow> int \<Rightarrow> shop_db \<Rightarrow> bool" where
  "check_stock_availability product_id variant_id quantity db =
     (case variant_key variant_id of
        Some v \<Rightarrow> (case get_row va_id v (variants db) of None \<Rightarrow> False
                  | Some variant \<Rightarrow> quantity \<le> va_stock_quantity variant)
      | None \<Rightarrow> (case get_row pr_id product_id (products db) of None \<Rightarrow> False
                 | Some product \<Rightarrow> quantity \<le> pr_stock_quantity product))"

definition reserve_stock :: "int \<Rightarrow> int option \<Rightarrow> int \<Rightarrow> shop_db \<Rightarrow> bool \<times> shop_db" where
  "reserve_stock product_id variant_id quantity db =
     (case variant_key variant_id of
        Some v \<Rightarrow>
          (case get_row va_id v (variants db) of None \<Rightarrow> (False, db)
           | Some variant \<Rightarrow>
               if va_stock_quantity variant < quantity then (False, db)
               else (True, db\<lparr>variants := put_row va_id
                       (variant\<lparr>va_stock_quantity := va_stock_quantity variant - quantity\<rparr>) (variants db)\<rparr>))
      | None \<Rightarrow>
          (case get_row pr_id product_id (products db) of None \<Rightarrow> (False, db)
           | Some product \<Rightarrow>
               if pr_stock_quantity product < quantity then (False, db)
               else (True, db\<lparr>products := put_row pr_id
                       (product\<lparr>pr_stock_quantity := pr_stock_quantity product - quantity\<rparr>) (products db)\<rparr>)))"

definition release_stock :: "int \<Rightarrow> int option \<Rightarrow> int \<Rightarrow> shop_db \<Rightarrow> shop_db" where
  "release_stock product_id variant_id quantity db =
     (case variant_key variant_id of
        Some v \<Rightarrow>
          (case get_row va_id v (variants db) of None \<Rightarrow> db
           | Some variant \<Rightarrow> db\<lparr>variants := put_row va_id
               (variant\<lparr>va_stock_quantity := va_stock_quantity variant + quantity\<rparr>) (variants db)\<rparr>)
      | None \<Rightarrow>
          (case get_row pr_id product_id (products db) of None \<Rightarrow> db
           | Some product \<Rightarrow> db\<lparr>products := put_row pr_id
               (product\<lparr>pr_stock_quantity := pr_stock_quantity product + quantity\<rparr>) (products db)\<rparr>))"

section \<open>Products\<close>

record variant_create =
  vc_name :: string
  vc_sku :: string
  vc_price :: "rat option"
  vc_stock_quantity :: int

record product_create =
  pc_name :: string
  pc_description :: string
  pc_category :: string
  pc_brand :: string
  pc_sku :: string
  pc_price :: rat
  pc_capacity_mah :: "int option"
  pc_warranty_months :: int
  pc_stock_quantity :: int
  pc_status :: string
  pc_is_featured :: bool
  pc_variants :: "variant_create list"

definition add_variant :: "int \<Rightarrow> variant_create \<Rightarrow> variant list \<Rightarrow> variant list res" where
  "add_variant product_id v vs =
     (if vc_sku v \<in> va_sku ` set vs then Inl IntegrityError
      else Inr (vs @ [\<lparr>va_id = fresh_id va_id vs, va_product_id = product_id, va_name = vc_name v,
                      va_sku = vc_sku v, va_price = vc_price v, va_stock_quantity = vc_stock_quantity v,
                      va_is_active = True\<rparr>]))"

definition new_product :: "datetime \<Rightarrow> product_create \<Rightarrow> product list \<Rightarrow> product" where
  "new_product now p ps =
     \<lparr>pr_id = fresh_id pr_id ps, pr_name = pc_name p, pr_description = pc_description p,
      pr_category = pc_category p, pr_brand = pc_brand p, pr_sku = pc_sku p, pr_price = pc_price p,
      pr_capacity_mah = pc_capacity_mah p, pr_warranty_months = pc_warranty_months p,
      pr_stock_quantity = pc_stock_quantity p, pr_status = pc_status p,
      pr_is_featured = pc_is_featured p, pr_is_bestseller = False, pr_tags = None,
      pr_average_rating = 0, pr_review_count = 0, pr_created_at = now, pr_updated_at = now\<rparr>"

definition create_product :: "datetime \<Rightarrow> product_create \<Rightarrow> shop_db \<Rightarrow> (product \<times> shop_db) res" where
  "create_product now p db =
     (if pc_sku p \<in> pr_sku ` set (products db) then Inl IntegrityError
      else let product = new_product now p (products db)
           in case fold_res (add_variant (pr_id product)) (pc_variants p) (variants db) of
                Inl e \<Rightarrow> Inl e
              | Inr vs \<Rightarrow> Inr (product, db\<lparr>products := products db @ [product], variants := vs\<rparr>))"

text \<open>A field of the update is unset (\<open>None\<close>), or set to a value or to null, which no column allows.\<close>

record product_update =
  pu_name :: "string option option"
  pu_description :: "string option option"
  pu_price :: "rat option option"
  pu_stock_quantity :: "int option option"
  pu_status :: "string option option"
  pu_is_featured :: "bool option option"

definition set_or :: "'a option option \<Rightarrow> 'a \<Rightarrow> 'a" where
  "set_or f x = (case f of Some (Some y) \<Rightarrow> y | _ \<Rightarrow> x)"

definition sets_null :: "product_update \<Rightarrow> bool" where
  "sets_null u \<longleftrightarrow> pu_name u = Some None \<or> pu_description u = Some None \<or> pu_price u = Some None
     \<or> pu_stock_quantity u = Some None \<or> pu_status u = Some None \<or> pu_is_featured u = Some None"

definition updated_product :: "datetime \<Rightarrow> product_update \<Rightarrow> product \<Rightarrow> product" where
  "updated_product now u p =
     p\<lparr>pr_name := set_or (pu_name u) (pr_name p),
       pr_description := set_or (pu_description u) (pr_description p),
       pr_price := set_or (pu_price u) (pr_price p),
       pr_stock_quantity := set_or (pu_stock_quantity u) (pr_stock_quantity p),
       pr_status := set_or (pu_status u) (pr_status p),
       pr_is_featured := set_or (pu_is_featured u) (pr_is_featured p), pr_updated_at := now\<rparr>"

definition update_product ::
    "datetime \<Rightarrow> int \<Rightarrow> product_update \<Rightarrow> shop_db \<Rightarrow> (product option \<times> shop_db) res" where
  "update_product now product_id u db =
     (case get_row pr_id product_id (products db) of
        None \<Rightarrow> Inr (None, db)
      | Some p \<Rightarrow>
          if sets_null u then Inl IntegrityError
          else Inr (Some (updated_product now u p),
                    db\<lparr>products := put_row pr_id (updated_product now u p) (products db)\<rparr>))"

definition delete_product :: "datetime \<Rightarrow> int \<Rightarrow> shop_db \<Rightarrow> bool \<times> shop_db" where
  "delete_product now product_id db =
     (case get_row pr_id product_id (products db) of
        None \<Rightarrow> (False, db)
      | Some p \<Rightarrow> (True, db\<lparr>products := put_row pr_id
                     (p\<lparr>pr_status := ''INACTIVE'', pr_updated_at := now\<rparr>) (products db)\<rparr>))"

section \<open>Orders\<close>

text \<open>A line of an order: product, variant and quantity.\<close>

type_synonym line = "int \<times> int option \<times> int"

text \<open>
  The line is checked on its own against the stock. A variant may belong to any product; without
  a price of its own, or with 0, it has the price of the product that the line names.
\<close>

definition variant_price :: "product \<Rightarrow> variant \<Rightarrow> rat" where
  "variant_price p v = (case va_price v of None \<Rightarrow> pr_price p | Some x \<Rightarrow> if x = 0 then pr_price p else x)"

definition price_line :: "shop_db \<Rightarrow> line \<Rightarrow> shop_item res" where
  "price_line db item =
     (case item of (product_id, variant_id, quantity) \<Rightarrow>
        if \<not> check_stock_availability product_id variant_id quantity db
        then Inl (ValueError (''Insufficient stock for product '' @ show_int product_id))
        else case get_row pr_id product_id (products db) of
               None \<Rightarrow> Inl (ValueError (''Product '' @ show_int product_id @ '' not found''))
             | Some product \<Rightarrow>
                 (let variant = (case variant_key variant_id of None \<Rightarrow> None
                                 | Some v \<Rightarrow> get_row va_id v (variants db));
                      unit_price = (case variant of Some v \<Rightarrow> variant_price product v | None \<Rightarrow> pr_price product);
                      sku = (case variant of Some v \<Rightarrow> va_sku v | None \<Rightarrow> pr_sku product)
                  in Inr \<lparr>si_id = 0, si_order_id = 0, si_product_id = product_id, si_variant_id = variant_id,
                       si_product_name = pr_name product, si_sku = sku, si_quantity = quantity,
                       si_unit_price = unit_price, si_total_price = unit_price * of_int quantity,
                       si_warranty_months = pr_warranty_months product\<rparr>))"

definition shipping_fee :: "rat \<Rightarrow> rat" where
  "shipping_fee subtotal = (if 500 < subtotal then 0 else 50)"

definition new_order ::
    "datetime \<Rightarrow> int \<Rightarrow> shop_item list \<Rightarrow> address \<Rightarrow> string \<Rightarrow> string \<Rightarrow> shop_db \<Rightarrow> shop_order" where
  "new_order now user_id items shipping_address payment_method order_number db =
     (let subtotal = sum_list (map si_total_price items); tax_amount = subtotal * (18 / 100)
      in \<lparr>so_id = fresh_id so_id (shop_orders db), so_number = order_number, so_user_id = user_id,
          so_subtotal = subtotal, so_tax_amount = tax_amount, so_shipping_fee = shipping_fee subtotal,
          so_total_amount = subtotal + tax_amount + shipping_fee subtotal, so_address = shipping_address,
          so_payment_method = payment_method, so_payment_status = ''PENDING'', so_payment_id = None,
          so_status = ''PENDING'', so_created_at = now, so_confirmed_at = None, so_delivered_at = None,
          so_cancelled_at = None, so_admin_notes = None\<rparr>)"

text \<open>
  The line is stored, and its stock reserved; whether that succeeds is not looked at. Variant 0
  breaks the foreign key of the line: \<open>reserve_stock\<close>, which commits, catches the error and rolls
  the line back.
\<close>

definition store_item :: "int \<Rightarrow> shop_item \<Rightarrow> shop_db \<Rightarrow> shop_db" where
  "store_item order_id item db =
     (if si_variant_id item = Some 0 then db
      else let item' = item\<lparr>si_id := fresh_id si_id (shop_items db), si_order_id := order_id\<rparr>
           in snd (reserve_stock (si_product_id item) (si_variant_id item) (si_quantity item)
                     (db\<lparr>shop_items := shop_items db @ [item']\<rparr>)))"

text \<open>
  Every exception is caught and answered with \<open>None\<close>. Those of the lines precede any write, and
  the order itself is rolled back with its first line.
\<close>

definition create_shop_order ::
    "datetime \<Rightarrow> int \<Rightarrow> line list \<Rightarrow> address \<Rightarrow> string \<Rightarrow> string \<Rightarrow> shop_db \<Rightarrow> shop_order option \<times> shop_db" where
  "create_shop_order now user_id items shipping_address payment_method order_number db =
     (case map_res (price_line db) items of
        Inl e \<Rightarrow> (None, db)
      | Inr order_items \<Rightarrow>
          (let order = new_order now user_id order_items shipping_address payment_method order_number db
           in if order_number \<in> so_number ` set (shop_orders db)
                 \<or> (order_items \<noteq> [] \<and> si_variant_id (hd order_items) = Some 0) then (None, db)
              else (Some order, fold (store_item (so_id order)) order_items
                      (db\<lparr>shop_orders := shop_orders db @ [order]\<rparr>))))"

definition order_items_of :: "int \<Rightarrow> shop_db \<Rightarrow> shop_item list" where
  "order_items_of order_id db = filter (\<lambda>i. si_order_id i = order_id) (shop_items db)"

definition release_item :: "shop_item \<Rightarrow> shop_db \<Rightarrow> shop_db" where
  "release_item i db = release_stock (si_product_id i) (si_variant_id i) (si_quantity i) db"

definition cancel_order :: "datetime \<Rightarrow> int \<Rightarrow> string \<Rightarrow> shop_db \<Rightarrow> bool \<times> shop_db" where
  "cancel_order now order_id reason db =
     (case get_row so_id order_id (shop_orders db) of
        None \<Rightarrow> (False, db)
      | Some order \<Rightarrow>
          if so_status order \<notin> {''PENDING'', ''CONFIRMED''} then (False, db)
          else (let db1 = fold release_item (order_items_of order_id db) db;
                    order' = order\<lparr>so_status := ''CANCELLED'', so_cancelled_at := Some now,
                                   so_admin_notes := Some reason\<rparr>
                in (True, db1\<lparr>shop_orders := put_row so_id order' (shop_orders db1)\<rparr>)))"

section \<open>Confirmation and delivery\<close>

text \<open>\<open>order_id\<close> is unique among the trackings: a second one is refused, and \<open>None\<close> answered.\<close>

definition create_delivery_tracking ::
    "datetime \<Rightarrow> int \<Rightarrow> string \<Rightarrow> shop_db \<Rightarrow> delivery_tracking option \<times> shop_db" where
  "create_delivery_tracking now order_id tracking_number db =
     (if get_row so_id order_id (shop_orders db) = None \<or> order_id \<in> dt_order_id ` set (trackings db)
         \<or> tracking_number \<in> dt_number ` set (trackings db) then (None, db)
      else let tracking = \<lparr>dt_id = fresh_id dt_id (trackings db), dt_order_id = order_id,
                 dt_number = tracking_number, dt_courier_name = ''BlueDart'', dt_current_status = ''PENDING'',
                 dt_current_location = None, dt_actual_delivery_date = None, dt_updated_at = now\<rparr>
           in (Some tracking, db\<lparr>trackings := trackings db @ [tracking],
                delivery_events := delivery_events db @
                  [\<lparr>dv_tracking_id = dt_id tracking, dv_status = ''PENDING'', dv_location = None,
                    dv_description = ''Order confirmed, preparing for shipment'', dv_timestamp = now\<rparr>]\<rparr>))"

definition confirmed_order :: "datetime \<Rightarrow> string \<Rightarrow> shop_order \<Rightarrow> shop_order" where
  "confirmed_order now payment_id order =
     order\<lparr>so_status := ''CONFIRMED'', so_payment_status := ''PAID'', so_payment_id := Some payment_id,
           so_confirmed_at := Some now\<rparr>"

definition cashback :: "datetime \<Rightarrow> shop_order \<Rightarrow> wallet_db \<Rightarrow> wallet_db" where
  "cashback now order s =
     (case apply_cashback now (so_user_id order) (Some (Finite (so_total_amount order * (5 / 100))))
             (''Cashback for Order '' @ so_number order) s of
        Inl e \<Rightarrow> s | Inr (w, s') \<Rightarrow> s')"

definition confirm_order :: "datetime \<Rightarrow> int \<Rightarrow> string \<Rightarrow> string \<Rightarrow> shop_db \<Rightarrow> bool \<times> shop_db" where
  "confirm_order now order_id payment_id tracking_number db =
     (case get_row so_id order_id (shop_orders db) of
        None \<Rightarrow> (False, db)
      | Some order \<Rightarrow>
          (let order' = confirmed_order now payment_id order;
               db1 = db\<lparr>shop_orders := put_row so_id order' (shop_orders db),
                       shop_wallets := cashback now order' (shop_wallets db)\<rparr>
           in (True, snd (create_delivery_tracking now order_id tracking_number db1))))"

definition deliver_order :: "datetime \<Rightarrow> delivery_tracking \<Rightarrow> shop_db \<Rightarrow> shop_db" where
  "deliver_order now tracking db =
     (case get_row so_id (dt_order_id tracking) (shop_orders db) of
        None \<Rightarrow> db
      | Some order \<Rightarrow>
          db\<lparr>shop_orders := put_row so_id
                (order\<lparr>so_status := ''DELIVERED'', so_delivered_at := Some now\<rparr>) (shop_orders db),
             trackings := put_row dt_id (tracking\<lparr>dt_actual_delivery_date := Some now\<rparr>) (trackings db)\<rparr>)"

definition update_delivery_status ::
    "datetime \<Rightarrow> int \<Rightarrow> string \<Rightarrow> string option \<Rightarrow> string \<Rightarrow> shop_db \<Rightarrow> bool \<times> shop_db" where
  "update_delivery_status now tracking_id status location description db =
     (case get_row dt_id tracking_id (trackings db) of
        None \<Rightarrow> (False, db)
      | Some t \<Rightarrow>
          (let t' = t\<lparr>dt_current_status := status,
                 dt_current_location := (if location = None \<or> location = Some [] then dt_current_location t
                                         else location), dt_updated_at := now\<rparr>;
               db1 = db\<lparr>trackings := put_row dt_id t' (trackings db),
                 delivery_events := delivery_events db @ [\<lparr>dv_tracking_id = tracking_id, dv_status = status,
                   dv_location = location, dv_description = description, dv_timestamp = now\<rparr>]\<rparr>
           in (True, if status = ''DELIVERED'' then deliver_order now t' db1 else db1)))"

definition initiate_shop_return :: "int \<Rightarrow> string \<Rightarrow> shop_db \<Rightarrow> bool \<times> shop_db" where
  "initiate_shop_return order_id reason db =
     (case get_row so_id order_id (shop_orders db) of
        None \<Rightarrow> (False, db)
      | Some order \<Rightarrow>
          if so_status order \<noteq> ''DELIVERED'' then (False, db)
          else (True, db\<lparr>shop_orders := put_row so_id (order\<lparr>so_status := ''RETURN_REQUESTED'',
                  so_admin_notes := Some (''Return initiated: '' @ reason)\<rparr>) (shop_orders db)\<rparr>))"

definition get_admin_orders :: "string option \<Rightarrow> int option \<Rightarrow> nat \<Rightarrow> nat \<Rightarrow> shop_db \<Rightarrow> shop_order list" where
  "get_admin_orders status user_id skip limit db =
     take limit (drop skip (filter (\<lambda>o'.
        (status = None \<or> status = Some [] \<or> Some (so_status o') = status) \<and>
        (user_id = None \<or> user_id = Some 0 \<or> Some (so_user_id o') = user_id)) (shop_orders db)))"

section \<open>The cart\<close>

record cart_line =
  cv_id :: int
  cv_product_id :: int
  cv_variant_id :: "int option"
  cv_quantity :: int
  cv_name :: string
  cv_price :: rat
  cv_brand :: string
  cv_variant :: "(int \<times> string \<times> rat) option"

definition show_cart_item :: "variant list \<Rightarrow> cart_item \<Rightarrow> product \<Rightarrow> cart_line" where
  "show_cart_item vs item p =
     \<lparr>cv_id = ci_id item, cv_product_id = ci_product_id item, cv_variant_id = ci_variant_id item,
      cv_quantity = ci_quantity item, cv_name = pr_name p, cv_price = pr_price p, cv_brand = pr_brand p,
      cv_variant = (case variant_key (ci_variant_id item) of None \<Rightarrow> None
        | Some i \<Rightarrow> (case get_row va_id i vs of None \<Rightarrow> None
                   | Some v \<Rightarrow> Some (va_id v, va_name v, variant_price p v)))\<rparr>"

text \<open>The cart joined with the products.\<close>

definition get_cart :: "int \<Rightarrow> shop_db \<Rightarrow> cart_line list" where
  "get_cart user_id db =
     concat (map (\<lambda>item. case get_row pr_id (ci_product_id item) (products db) of
                    None \<Rightarrow> [] | Some p \<Rightarrow> [show_cart_item (variants db) item p])
       (filter (\<lambda>i. ci_user_id i = user_id) (cart_items db)))"

definition in_cart :: "int \<Rightarrow> int \<Rightarrow> int option \<Rightarrow> cart_item \<Rightarrow> bool" where
  "in_cart user_id product_id variant_id i \<longleftrightarrow>
     ci_user_id i = user_id \<and> ci_product_id i = product_id \<and> ci_variant_id i = variant_id"

text \<open>The product and the variant are foreign keys.\<close>

definition add_to_cart ::
    "datetime \<Rightarrow> int \<Rightarrow> int \<Rightarrow> int option \<Rightarrow> int \<Rightarrow> shop_db \<Rightarrow> (cart_item \<times> shop_db) res" where
  "add_to_cart now user_id product_id variant_id quantity db =
     (case List.find (in_cart user_id product_id variant_id) (cart_items db) of
        Some item \<Rightarrow>
          (let item' = item\<lparr>ci_quantity := ci_quantity item + quantity, ci_updated_at := now\<rparr>
           in Inr (item', db\<lparr>cart_items := put_row ci_id item' (cart_items db)\<rparr>))
      | None \<Rightarrow>
          if get_row pr_id product_id (products db) = None
             \<or> (case variant_id of None \<Rightarrow> False | Some v \<Rightarrow> get_row va_id v (variants db) = None)
          then Inl IntegrityError
          else (let item = \<lparr>ci_id = fresh_id ci_id (cart_items db), ci_user_id = user_id,
                      ci_product_id = product_id, ci_variant_id = variant_id, ci_quantity = quantity,
                      ci_updated_at = now\<rparr>
                in Inr (item, db\<lparr>cart_items := cart_items db @ [item]\<rparr>)))"

definition delete_item :: "int \<Rightarrow> shop_db \<Rightarrow> shop_db" where
  "delete_item item_id db = db\<lparr>cart_items := filter (\<lambda>i. ci_id i \<noteq> item_id) (cart_items db)\<rparr>"

definition update_quantity ::
    "datetime \<Rightarrow> int \<Rightarrow> int \<Rightarrow> int \<Rightarrow> shop_db \<Rightarrow> cart_item option \<times> shop_db" where
  "update_quantity now user_id item_id quantity db =
     (case get_row ci_id item_id (cart_items db) of
        None \<Rightarrow> (None, db)
      | Some item \<Rightarrow>
          if ci_user_id item \<noteq> user_id then (None, db)
          else if quantity \<le> 0 then (None, delete_item item_id db)
          else (let item' = item\<lparr>ci_quantity := quantity, ci_updated_at := now\<rparr>
                in (Some item', db\<lparr>cart_items := put_row ci_id item' (cart_items db)\<rparr>)))"

definition remove_from_cart :: "int \<Rightarrow> int \<Rightarrow> shop_db \<Rightarrow> bool \<times> shop_db" where
  "remove_from_cart user_id item_id db =
     (case get_row ci_id item_id (cart_items db) of
        None \<Rightarrow> (False, db)
      | Some item \<Rightarrow> if ci_user_id item \<noteq> user_id then (False, db) else (True, delete_item item_id db))"

definition clear_cart :: "int \<Rightarrow> shop_db \<Rightarrow> shop_db" where
  "clear_cart user_id db = db\<lparr>cart_items := filter (\<lambda>i. ci_user_id i \<noteq> user_id) (cart_items db)\<rparr>"

section \<open>Endpoints\<close>

text \<open>
  The framework checks the declared types before an endpoint runs; 422 stands for its refusal.
  The pincode is six digits; the phone number an optional plus and ten to fifteen digits, the
  first not 0.
\<close>

definition valid_pincode :: "string \<Rightarrow> bool" where
  "valid_pincode s \<longleftrightarrow> length s = 6 \<and> list_all digit_char s"

definition valid_phone :: "string \<Rightarrow> bool" where
  "valid_phone s \<longleftrightarrow>
     (let d = (if s \<noteq> [] \<and> hd s = CHR ''+'' then tl s else s)
      in 10 \<le> length d \<and> length d \<le> 15 \<and> list_all digit_char d \<and> hd d \<noteq> CHR ''0'')"

definition valid_address :: "address \<Rightarrow> bool" where
  "valid_address a \<longleftrightarrow> valid_pincode (ad_pincode a) \<and> valid_phone (ad_phone a)"

definition valid_lines :: "line list \<Rightarrow> bool" where
  "valid_lines items \<longleftrightarrow> list_all (\<lambda>(p, v, q). 0 < q) items"

definition answer_order :: "shop_order option \<times> shop_db \<Rightarrow> (shop_order \<times> shop_db) res" where
  "answer_order r = (case r of (None, _) \<Rightarrow> Inl (HTTPException 400 ''Failed to create order'')
                     | (Some order, db) \<Rightarrow> Inr (order, db))"

definition api_create_order ::
    "datetime \<Rightarrow> int \<Rightarrow> line list \<Rightarrow> address \<Rightarrow> string \<Rightarrow> string \<Rightarrow> shop_db \<Rightarrow> (shop_order \<times> shop_db) res" where
  "api_create_order now user_id items addr payment_method order_number db =
     (if \<not> valid_lines items \<or> \<not> valid_address addr then Inl (HTTPException 422 [])
      else answer_order (create_shop_order now user_id items addr payment_method order_number db))"

text \<open>The order of the caller; that of another customer is answered like one that is not there.\<close>

definition own_order :: "int \<Rightarrow> int \<Rightarrow> shop_db \<Rightarrow> shop_order res" where
  "own_order user_id order_id db =
     (case get_row so_id order_id (shop_orders db) of
        None \<Rightarrow> Inl (HTTPException 404 ''Order not found'')
      | Some order \<Rightarrow> if so_user_id order \<noteq> user_id then Inl (HTTPException 404 ''Order not found'')
                     else Inr order)"

definition get_order_details :: "int \<Rightarrow> int \<Rightarrow> shop_db \<Rightarrow> (shop_order \<times> shop_item list) res" where
  "get_order_details user_id order_id db =
     (case own_order user_id order_id db of Inl e \<Rightarrow> Inl e | Inr order \<Rightarrow> Inr (order, order_items_of order_id db))"

definition get_user_orders :: "int \<Rightarrow> shop_db \<Rightarrow> shop_order list" where
  "get_user_orders user_id db =
     sort_key (\<lambda>r. - so_created_at r) (filter (\<lambda>r. so_user_id r = user_id) (shop_orders db))"

definition api_cancel_order :: "datetime \<Rightarrow> int \<Rightarrow> int \<Rightarrow> shop_db \<Rightarrow> (bool \<times> shop_db) res" where
  "api_cancel_order now user_id order_id db =
     (case own_order user_id order_id db of
        Inl e \<Rightarrow> Inl e
      | Inr order \<Rightarrow>
          (case cancel_order now order_id ''Cancelled by customer'' db of
             (False, _) \<Rightarrow> Inl (HTTPException 400 ''Order cannot be cancelled'')
           | (True, db') \<Rightarrow> Inr (True, db')))"

definition initiate_order_return :: "int \<Rightarrow> int \<Rightarrow> string \<Rightarrow> shop_db \<Rightarrow> (bool \<times> shop_db) res" where
  "initiate_order_return user_id order_id reason db =
     (case own_order user_id order_id db of
        Inl e \<Rightarrow> Inl e
      | Inr order \<Rightarrow>
          (case initiate_shop_return order_id reason db of
             (False, _) \<Rightarrow> Inl (HTTPException 400 ''Order is not eligible for return'')
           | (True, db') \<Rightarrow> Inr (True, db')))"

definition get_order_tracking ::
    "int \<Rightarrow> int \<Rightarrow> shop_db \<Rightarrow> (delivery_tracking \<times> delivery_event list) res" where
  "get_order_tracking user_id order_id db =
     (case own_order user_id order_id db of
        Inl e \<Rightarrow> Inl e
      | Inr order \<Rightarrow>
          (case List.find (\<lambda>t. dt_order_id t = order_id) (trackings db) of
             None \<Rightarrow> Inl (HTTPException 404 ''Tracking information not available'')
           | Some t \<Rightarrow> Inr (t, sort_key (\<lambda>e. - dv_timestamp e)
                         (filter (\<lambda>e. dv_tracking_id e = dt_id t) (delivery_events db)))))"

text \<open>\<open>purchases_enhanced.py\<close> looks for statuses in lower case.\<close>

definition enhanced_cancel_order :: "int \<Rightarrow> int \<Rightarrow> shop_db \<Rightarrow> (shop_order \<times> shop_db) res" where
  "enhanced_cancel_order user_id order_id db =
     (case own_order user_id order_id db of
        Inl e \<Rightarrow> Inl e
      | Inr order \<Rightarrow>
          if so_status order \<notin> {''pending'', ''confirmed''}
          then Inl (HTTPException 400 ''Order cannot be cancelled in current status'')
          else (let order' = order\<lparr>so_status := ''cancelled''\<rparr>
                in Inr (order', db\<lparr>shop_orders := put_row so_id order' (shop_orders db)\<rparr>)))"

definition api_add_to_cart ::
    "datetime \<Rightarrow> int \<Rightarrow> int \<Rightarrow> int option \<Rightarrow> int \<Rightarrow> shop_db \<Rightarrow> (cart_item \<times> shop_db) res" where
  "api_add_to_cart now user_id product_id variant_id quantity db =
     (if quantity \<le> 0 then Inl (HTTPException 422 [])
      else add_to_cart now user_id product_id variant_id quantity db)"

definition update_cart_item ::
    "datetime \<Rightarrow> int \<Rightarrow> int \<Rightarrow> int \<Rightarrow> shop_db \<Rightarrow> (bool \<times> shop_db) res" where
  "update_cart_item now user_id item_id quantity db =
     (if quantity \<le> 0 then Inl (HTTPException 422 [])
      else case update_quantity now user_id item_id quantity db of
             (None, _) \<Rightarrow> Inl (HTTPException 404 ''Cart item not found'')
           | (Some item, db') \<Rightarrow> Inr (True, db'))"

definition remove_cart_item :: "int \<Rightarrow> int \<Rightarrow> shop_db \<Rightarrow> (bool \<times> shop_db) res" where
  "remove_cart_item user_id item_id db =
     (case remove_from_cart user_id item_id db of
        (False, _) \<Rightarrow> Inl (HTTPException 404 ''Cart item not found'')
      | (True, db') \<Rightarrow> Inr (True, db'))"

definition cart_order_line :: "cart_line \<Rightarrow> line" where
  "cart_order_line c = (cv_product_id c, cv_variant_id c, cv_quantity c)"

definition checkout_cart ::
    "datetime \<Rightarrow> int \<Rightarrow> address \<Rightarrow> string \<Rightarrow> string \<Rightarrow> shop_db \<Rightarrow> (shop_order \<times> shop_db) res" where
  "checkout_cart now user_id addr payment_method order_number db =
     (if \<not> valid_address addr then Inl (HTTPException 422 [])
      else if get_cart user_id db = [] then Inl (HTTPException 400 ''Cart is empty'')
      else case answer_order (create_shop_order now user_id (map cart_order_line (get_cart user_id db)) addr
                    payment_method order_number db) of
             Inl e \<Rightarrow> Inl e
           | Inr (order, db') \<Rightarrow> Inr (order, clear_cart user_id db'))"

definition admin_update_product ::
    "datetime \<Rightarrow> int \<Rightarrow> product_update \<Rightarrow> shop_db \<Rightarrow> (product \<times> shop_db) res" where
  "admin_update_product now product_id u db =
     (case update_product now product_id u db of
        Inl e \<Rightarrow> Inl e
      | Inr (None, _) \<Rightarrow> Inl (HTTPException 404 ''Product not found'')
      | Inr (Some p, db') \<Rightarrow> Inr (p, db'))"

definition admin_delete_product :: "datetime \<Rightarrow> int \<Rightarrow> shop_db \<Rightarrow> (bool \<times> shop_db) res" where
  "admin_delete_product now product_id db =
     (case delete_product now product_id db of
        (False, _) \<Rightarrow> Inl (HTTPException 404 ''Product not found'')
      | (True, db') \<Rightarrow> Inr (True, db'))"

section \<open>Requests\<close>

text \<open>What the API can change. A request that raises changes nothing.\<close>

datatype shop_request =
    PlaceOrder "line list" address string string
  | CancelOrder int
  | ReturnOrder int string
  | EnhancedCancel int
  | AddToCart int "int option" int
  | UpdateCart int int
  | RemoveFromCart int
  | ClearCart
  | Checkout address string string
  | AdminCreate product_create
  | AdminUpdate int product_update
  | AdminDelete int

definition shop_kept :: "('a \<times> shop_db) res \<Rightarrow> shop_db \<Rightarrow> shop_db" where
  "shop_kept r db = (case r of Inl _ \<Rightarrow> db | Inr (_, db') \<Rightarrow> db')"

fun shop_step :: "datetime \<times> int \<times> shop_request \<Rightarrow> shop_db \<Rightarrow> shop_db" where
  "shop_step (now, u, PlaceOrder items a m n) db = shop_kept (api_create_order now u items a m n db) db"
| "shop_step (now, u, CancelOrder i) db = shop_kept (api_cancel_order now u i db) db"
| "shop_step (now, u, ReturnOrder i r) db = shop_kept (initiate_order_return u i r db) db"
| "shop_step (now, u, EnhancedCancel i) db = shop_kept (enhanced_cancel_order u i db) db"
| "shop_step (now, u, AddToCart p v q) db = shop_kept (api_add_to_cart now u p v q db) db"
| "shop_step (now, u, UpdateCart i q) db = shop_kept (update_cart_item now u i q db) db"
| "shop_step (now, u, RemoveFromCart i) db = shop_kept (remove_cart_item u i db) db"
| "shop_step (now, u, ClearCart) db = clear_cart u db"
| "shop_step (now, u, Checkout a m n) db = shop_kept (checkout_cart now u a m n db) db"
| "shop_step (now, u, AdminCreate p) db = shop_kept (create_product now p db) db"
| "shop_step (now, u, AdminUpdate i p) db = shop_kept (admin_update_product now i p db) db"
| "shop_step (now, u, AdminDelete i) db = shop_kept (admin_delete_product now i db) db"

definition shop_run :: "(datetime \<times> int \<times> shop_request) list \<Rightarrow> shop_db \<Rightarrow> shop_db" where
  "shop_run = fold shop_step"

end
