(* ===== verification/ShopInv.thy ===== *)
theory ShopInv
  imports Shop
begin

text \<open>
  The stock of the shop. \<open>stock\<close> reads the stock of a product or a variant, \<open>held\<close> what the open
  orders have of it; each operation is described by its effect on the two. \<open>shop_inv\<close> is what
  every history of requests keeps; \<open>shop_later\<close> is the order along which the requests of customers move.
\<close>

section \<open>Stock and lines\<close>

definition key_of :: "int \<Rightarrow> int option \<Rightarrow> int + int" where
  "key_of product_id variant_id =
     (case variant_key variant_id of Some v \<Rightarrow> Inr v | None \<Rightarrow> Inl product_id)"

definition stock :: "int + int \<Rightarrow> shop_db \<Rightarrow> int" where
  "stock k db =
     (case k of
        Inl p \<Rightarrow> (case get_row pr_id p (products db) of None \<Rightarrow> 0 | Some r \<Rightarrow> pr_stock_quantity r)
      | Inr v \<Rightarrow> (case get_row va_id v (variants db) of None \<Rightarrow> 0 | Some r \<Rightarrow> va_stock_quantity r))"

definition has_key :: "int + int \<Rightarrow> shop_db \<Rightarrow> bool" where
  "has_key k db =
     (case k of Inl p \<Rightarrow> get_row pr_id p (products db) \<noteq> None | Inr v \<Rightarrow> get_row va_id v (variants db) \<noteq> None)"

text \<open>How much of a key some lines ask for.\<close>

fun need :: "line list \<Rightarrow> int + int \<Rightarrow> int" where
  "need [] k = 0"
| "need ((p, v, q) # ls) k = (if key_of p v = k then q else 0) + need ls k"

definition line_of :: "shop_item \<Rightarrow> line" where
  "line_of i = (si_product_id i, si_variant_id i, si_quantity i)"

abbreviation line_key :: "line \<Rightarrow> int + int" where
  "line_key l \<equiv> key_of (fst l) (fst (snd l))"

lemma need_append [simp]: "need (ls @ ms) k = need ls k + need ms k"
  by (induction ls) auto

lemma need_Cons: "need (l # ls) k = need [l] k + need ls k"
  by (cases l) simp

lemma need_nonneg: "valid_lines ls \<Longrightarrow> 0 \<le> need ls k"
  by (induction ls) (auto simp: valid_lines_def)

lemma need_notin: "k \<notin> line_key ` set ls \<Longrightarrow> need ls k = 0"
  by (induction ls) auto

section \<open>What reserving and releasing do\<close>

definition only_stock :: "shop_db \<Rightarrow> shop_db \<Rightarrow> bool" where
  "only_stock db db' \<longleftrightarrow> shop_orders db' = shop_orders db \<and> shop_items db' = shop_items db
     \<and> trackings db' = trackings db \<and> delivery_events db' = delivery_events db
     \<and> cart_items db' = cart_items db \<and> shop_wallets db' = shop_wallets db
     \<and> map pr_id (products db') = map pr_id (products db)
     \<and> map va_id (variants db') = map va_id (variants db)"

lemma only_stock_refl: "only_stock db db"
  by (simp add: only_stock_def)

lemma only_stock_trans: "only_stock a b \<Longrightarrow> only_stock b c \<Longrightarrow> only_stock a c"
  by (simp add: only_stock_def)

lemma get_row_keys: "map key t = map key u \<Longrightarrow> (get_row key k t = None) = (get_row key k u = None)"
proof -
  have "get_row key k w = None \<longleftrightarrow> k \<notin> set (map key w)" for w
    by (auto simp: get_row_None)
  then show "map key t = map key u \<Longrightarrow> ?thesis" by metis
qed

lemma only_stock_keys:
  assumes "only_stock db db'"
  shows "has_key k db' = has_key k db"
  using assms get_row_keys [of pr_id "products db'" "products db"]
    get_row_keys [of va_id "variants db'" "variants db"]
  by (simp add: only_stock_def has_key_def split: sum.split)

lemma available_stock:
  "check_stock_availability p v q db \<longleftrightarrow> has_key (key_of p v) db \<and> q \<le> stock (key_of p v) db"
  by (auto simp: check_stock_availability_def key_of_def has_key_def stock_def split: option.split)

lemma reserve_ok: "fst (reserve_stock p v q db) = check_stock_availability p v q db"
  by (auto simp: reserve_stock_def check_stock_availability_def split: option.split)

lemma reserve_stock_effect:
  "stock k (snd (reserve_stock p v q db)) =
     (if check_stock_availability p v q db \<and> k = key_of p v then stock k db - q else stock k db)"
  by (auto simp: reserve_stock_def check_stock_availability_def key_of_def stock_def get_put
      split: option.split sum.split dest: get_row_Some)

lemma release_stock_effect:
  "stock k (release_stock p v q db) =
     (if has_key k db \<and> k = key_of p v then stock k db + q else stock k db)"
  by (auto simp: release_stock_def has_key_def key_of_def stock_def get_put
      split: option.split sum.split dest: get_row_Some)

lemma reserve_only_stock: "only_stock db (snd (reserve_stock p v q db))"
  by (auto simp: reserve_stock_def only_stock_def split: option.split)

lemma release_only_stock: "only_stock db (release_stock p v q db)"
  by (auto simp: release_stock_def only_stock_def split: option.split)

section \<open>Releasing the lines of an order\<close>

lemma release_item_effect:
  "only_stock db (release_item i db)"
  "stock k (release_item i db) = stock k db + (if has_key k db then need [line_of i] k else 0)"
  by (auto simp: release_item_def release_only_stock release_stock_effect line_of_def)

lemma release_items_only: "only_stock db (fold release_item is db)"
  by (induction "is" arbitrary: db)
    (auto intro: only_stock_refl only_stock_trans release_item_effect(1))

lemma release_items_stock:
  "stock k (fold release_item is db) = stock k db + (if has_key k db then need (map line_of is) k else 0)"
proof (induction "is" arbitrary: db)
  case Nil
  then show ?case by simp
next
  case (Cons i "is")
  have "has_key k (release_item i db) = has_key k db"
    by (rule only_stock_keys) (rule release_item_effect(1))
  with Cons[of "release_item i db"] show ?case
    by (simp add: release_item_effect(2) line_of_def)
qed

section \<open>Storing the lines of an order\<close>

lemma only_stock_stock:
  "stock k (db\<lparr>shop_items := x\<rparr>) = stock k db" "stock k (db\<lparr>shop_orders := y\<rparr>) = stock k db"
  "has_key k (db\<lparr>shop_items := x\<rparr>) = has_key k db" "has_key k (db\<lparr>shop_orders := y\<rparr>) = has_key k db"
  "check_stock_availability p v q (db\<lparr>shop_items := x\<rparr>) = check_stock_availability p v q db"
  "check_stock_availability p v q (db\<lparr>shop_orders := y\<rparr>) = check_stock_availability p v q db"
  by (simp_all add: stock_def has_key_def check_stock_availability_def split: sum.split option.split)

lemma only_stock_items:
  "only_stock (db\<lparr>shop_items := x\<rparr>) db' \<Longrightarrow>
     shop_items db' = x \<and> only_stock db (db'\<lparr>shop_items := shop_items db\<rparr>)"
  by (simp add: only_stock_def)

text \<open>
  The lines that are stored; a line is left out that names variant 0, which is none.
\<close>

abbreviation real_lines :: "line list \<Rightarrow> line list" where
  "real_lines ls \<equiv> filter (\<lambda>l. fst (snd l) \<noteq> Some 0) ls"

lemma store_item_effect:
  assumes "si_variant_id i \<noteq> Some 0"
  obtains i' where "shop_items (store_item oid i db) = shop_items db @ [i']"
    "line_of i' = line_of i" "si_order_id i' = oid"
    "only_stock db ((store_item oid i db)\<lparr>shop_items := shop_items db\<rparr>)"
    "\<And>k. stock k (store_item oid i db) =
       (if check_stock_availability (si_product_id i) (si_variant_id i) (si_quantity i) db
        then stock k db - need [line_of i] k else stock k db)"
proof
  let ?i = "i\<lparr>si_id := fresh_id si_id (shop_items db), si_order_id := oid\<rparr>"
  let ?m = "db\<lparr>shop_items := shop_items db @ [?i]\<rparr>"
  have e: "store_item oid i db = snd (reserve_stock (si_product_id i) (si_variant_id i) (si_quantity i) ?m)"
    using assms by (simp add: store_item_def)
  have "only_stock ?m (store_item oid i db)" unfolding e by (rule reserve_only_stock)
  note o = only_stock_items [OF this]
  show "shop_items (store_item oid i db) = shop_items db @ [?i]"
    "only_stock db ((store_item oid i db)\<lparr>shop_items := shop_items db\<rparr>)"
    using o by simp_all
  show "line_of ?i = line_of i" "si_order_id ?i = oid" by (simp_all add: line_of_def)
  show "stock k (store_item oid i db) =
       (if check_stock_availability (si_product_id i) (si_variant_id i) (si_quantity i) db
        then stock k db - need [line_of i] k else stock k db)" for k
    by (simp add: e reserve_stock_effect only_stock_stock line_of_def)
qed

definition stored :: "int \<Rightarrow> line list \<Rightarrow> shop_db \<Rightarrow> shop_db \<Rightarrow> bool" where
  "stored oid ls db db' \<longleftrightarrow> only_stock db (db'\<lparr>shop_items := shop_items db\<rparr>)
     \<and> (\<exists>new. shop_items db' = shop_items db @ new \<and> map line_of new = real_lines ls
              \<and> list_all (\<lambda>i. si_order_id i = oid) new)"

lemma stored_Nil: "stored oid [] db db"
  by (auto simp: stored_def only_stock_refl)

lemma stored_trans: "stored oid ls a b \<Longrightarrow> stored oid ms b c \<Longrightarrow> stored oid (ls @ ms) a c"
  by (auto simp: stored_def only_stock_def)

lemma store_item_stored: "stored oid [line_of i] db (store_item oid i db)"
proof (cases "si_variant_id i = Some 0")
  case True
  then show ?thesis by (auto simp: store_item_def stored_def only_stock_refl line_of_def)
next
  case False
  then obtain i' where "shop_items (store_item oid i db) = shop_items db @ [i']"
    "line_of i' = line_of i" "si_order_id i' = oid"
    "only_stock db ((store_item oid i db)\<lparr>shop_items := shop_items db\<rparr>)"
    by (rule store_item_effect)
  with False show ?thesis by (auto simp: stored_def line_of_def)
qed

lemma store_items_stored: "stored oid (map line_of is) db (fold (store_item oid) is db)"
proof (induction "is" arbitrary: db)
  case Nil
  then show ?case by (simp add: stored_Nil)
next
  case (Cons i "is")
  from stored_trans [OF store_item_stored Cons] show ?case by simp
qed

text \<open>Storing never takes more than the lines ask for, and never below zero.\<close>

lemma store_item_stock:
  assumes "0 \<le> si_quantity i"
  shows "stock k db - need (real_lines [line_of i]) k \<le> stock k (store_item oid i db)"
    and "stock k (store_item oid i db) \<le> stock k db"
    and "0 \<le> stock k db \<Longrightarrow> 0 \<le> stock k (store_item oid i db)"
proof -
  show "stock k db - need (real_lines [line_of i]) k \<le> stock k (store_item oid i db)"
    "stock k (store_item oid i db) \<le> stock k db"
    "0 \<le> stock k db \<Longrightarrow> 0 \<le> stock k (store_item oid i db)"
    using assms
    by (auto simp: store_item_def reserve_stock_effect only_stock_stock line_of_def available_stock)
qed

lemma store_items_stock:
  assumes "list_all (\<lambda>i. 0 \<le> si_quantity i) is"
  shows "stock k db - need (real_lines (map line_of is)) k \<le> stock k (fold (store_item oid) is db)
    \<and> (0 \<le> stock k db \<longrightarrow> 0 \<le> stock k (fold (store_item oid) is db))"
  using assms
proof (induction "is" arbitrary: db)
  case Nil
  then show ?case by simp
next
  case (Cons i "is")
  let ?d = "store_item oid i db"
  have q: "0 \<le> si_quantity i" using Cons.prems by simp
  have r: "need (real_lines (map line_of (i # is))) k
    = need (real_lines [line_of i]) k + need (real_lines (map line_of is)) k"
    by (simp add: need_Cons [of "line_of i" "real_lines (map line_of is)" k])
  from Cons.prems have "list_all (\<lambda>i. 0 \<le> si_quantity i) is" by simp
  from Cons.IH [OF this, of ?d] store_item_stock(1,3) [OF q, where k = k and db = db and oid = oid] show ?case
    unfolding r fold_Cons o_apply by linarith
qed

section \<open>Placing and cancelling\<close>

lemma price_line_Inr:
  assumes "price_line db l = Inr i"
  shows "line_of i = l" "check_stock_availability (si_product_id i) (si_variant_id i) (si_quantity i) db"
    "get_row pr_id (si_product_id i) (products db) \<noteq> None"
  using assms by (auto simp: price_line_def line_of_def Let_def split: prod.splits if_splits option.splits)

definition available :: "shop_db \<Rightarrow> shop_item \<Rightarrow> bool" where
  "available db i \<longleftrightarrow> check_stock_availability (si_product_id i) (si_variant_id i) (si_quantity i) db"

lemma price_lines_Inr:
  "map_res (price_line db) ls = Inr is \<Longrightarrow> map line_of is = ls \<and> list_all (available db) is"
  by (induction ls arbitrary: "is") (auto simp: available_def dest: price_line_Inr split: sum.splits)

lemma create_order_Some:
  assumes "create_shop_order now u ls a m n db = (Some order, db')"
  obtains "is" where "map_res (price_line db) ls = Inr is" "map line_of is = ls"
    "list_all (available db) is" "order = new_order now u is a m n db"
    "n \<notin> so_number ` set (shop_orders db)"
    "db' = fold (store_item (so_id order)) is (db\<lparr>shop_orders := shop_orders db @ [order]\<rparr>)"
proof -
  from assms obtain "is" where e: "map_res (price_line db) ls = Inr is"
    by (auto simp: create_shop_order_def split: sum.splits)
  moreover from assms e have "order = new_order now u is a m n db" "n \<notin> so_number ` set (shop_orders db)"
    "db' = fold (store_item (so_id order)) is (db\<lparr>shop_orders := shop_orders db @ [order]\<rparr>)"
    by (auto simp: create_shop_order_def Let_def split: if_splits)
  ultimately show ?thesis using price_lines_Inr that by blast
qed

lemma create_order_None: "create_shop_order now u ls a m n db = (None, db') \<Longrightarrow> db' = db"
  by (auto simp: create_shop_order_def Let_def split: sum.splits if_splits)

lemma new_order_so_id: "so_id (new_order now u is a m n db) = fresh_id so_id (shop_orders db)"
  by (simp add: new_order_def Let_def)

lemma new_order_fields:
  "so_user_id (new_order now u is a m n db) = u" "so_status (new_order now u is a m n db) = ''PENDING''"
  "so_number (new_order now u is a m n db) = n"
  by (simp_all add: new_order_def Let_def)

text \<open>What an order that is placed writes.\<close>

definition placed :: "shop_order \<Rightarrow> line list \<Rightarrow> shop_db \<Rightarrow> shop_db \<Rightarrow> bool" where
  "placed order ls db db' \<longleftrightarrow> so_id order = fresh_id so_id (shop_orders db)
     \<and> stored (so_id order) ls (db\<lparr>shop_orders := shop_orders db @ [order]\<rparr>) db'"

lemma placed_frame:
  assumes "placed order ls db db'"
  shows "shop_orders db' = shop_orders db @ [order]" "cart_items db' = cart_items db"
    "trackings db' = trackings db" "shop_wallets db' = shop_wallets db" "has_key k db' = has_key k db"
    "map pr_id (products db') = map pr_id (products db)"
    "map va_id (variants db') = map va_id (variants db)"
proof -
  from assms have o: "only_stock (db\<lparr>shop_orders := shop_orders db @ [order]\<rparr>)
      (db'\<lparr>shop_items := shop_items db\<rparr>)"
    by (simp add: placed_def stored_def)
  then show "shop_orders db' = shop_orders db @ [order]" "cart_items db' = cart_items db"
    "trackings db' = trackings db" "shop_wallets db' = shop_wallets db"
    "map pr_id (products db') = map pr_id (products db)"
    "map va_id (variants db') = map va_id (variants db)"
    by (simp_all add: only_stock_def)
  from only_stock_keys [OF o] show "has_key k db' = has_key k db"
    by (simp add: only_stock_stock)
qed

lemma placed_items:
  assumes "placed order ls db db'"
  obtains new where "shop_items db' = shop_items db @ new" "map line_of new = real_lines ls"
    "list_all (\<lambda>i. si_order_id i = so_id order) new"
  using assms by (auto simp: placed_def stored_def)

lemma create_order_placed:
  assumes "create_shop_order now u ls a m n db = (Some order, db')"
  shows "placed order ls db db'" and "so_user_id order = u" and "so_status order = ''PENDING''"
    and "list_all (\<lambda>l. has_key (line_key l) db) ls"
proof -
  from assms obtain "is" where e: "map line_of is = ls" "list_all (available db) is"
    "order = new_order now u is a m n db"
    "db' = fold (store_item (so_id order)) is (db\<lparr>shop_orders := shop_orders db @ [order]\<rparr>)"
    by (rule create_order_Some)
  from store_items_stored [of "so_id order" "is" "db\<lparr>shop_orders := shop_orders db @ [order]\<rparr>"]
  show "placed order ls db db'" by (simp add: placed_def e new_order_so_id)
  show "so_user_id order = u" "so_status order = ''PENDING''" by (simp_all add: e new_order_fields)
  show "list_all (\<lambda>l. has_key (line_key l) db) ls"
    using e(2) unfolding e(1) [symmetric]
    by (auto simp: list_all_iff available_def available_stock line_of_def)
qed

lemma create_order_stock:
  assumes "create_shop_order now u ls a m n db = (Some order, db')" "valid_lines ls"
  shows "stock k db - need (real_lines ls) k \<le> stock k db'" "0 \<le> stock k db \<Longrightarrow> 0 \<le> stock k db'"
proof -
  from assms(1) obtain "is" where e: "map line_of is = ls"
    "db' = fold (store_item (so_id order)) is (db\<lparr>shop_orders := shop_orders db @ [order]\<rparr>)"
    by (rule create_order_Some)
  have "list_all (\<lambda>i. 0 \<le> si_quantity i) is"
    using assms(2) by (auto simp: e(1) [symmetric] valid_lines_def list_all_iff line_of_def)
  from store_items_stock [OF this, of k "db\<lparr>shop_orders := shop_orders db @ [order]\<rparr>" "so_id order"]
  show "stock k db - need (real_lines ls) k \<le> stock k db'" "0 \<le> stock k db \<Longrightarrow> 0 \<le> stock k db'"
    by (simp_all add: e(1) only_stock_stock flip: e(2))
qed

lemma cancel_order_True:
  assumes "cancel_order now oid r db = (True, db')"
  obtains order where "get_row so_id oid (shop_orders db) = Some order"
    "so_status order \<in> {''PENDING'', ''CONFIRMED''}"
    "db' = (fold release_item (order_items_of oid db) db)\<lparr>shop_orders := put_row so_id
       (order\<lparr>so_status := ''CANCELLED'', so_cancelled_at := Some now, so_admin_notes := Some r\<rparr>) (shop_orders db)\<rparr>"
proof -
  from assms obtain order where o: "get_row so_id oid (shop_orders db) = Some order"
    "so_status order \<in> {''PENDING'', ''CONFIRMED''}"
    by (auto simp: cancel_order_def split: option.splits if_splits)
  have "shop_orders (fold release_item (order_items_of oid db) db) = shop_orders db"
    using release_items_only by (simp add: only_stock_def)
  with assms o that [OF o] show ?thesis by (auto simp: cancel_order_def Let_def)
qed

lemma cancel_order_False: "cancel_order now oid r db = (False, db') \<Longrightarrow> db' = db"
  by (auto simp: cancel_order_def Let_def split: option.splits if_splits)

lemma cancelled_stock:
  assumes "cancel_order now oid r db = (True, db')"
  shows "stock k db' = stock k db + (if has_key k db then need (map line_of (order_items_of oid db)) k else 0)"
    and "only_stock db (db'\<lparr>shop_orders := shop_orders db\<rparr>)"
proof -
  from assms obtain order where e: "db' = (fold release_item (order_items_of oid db) db)\<lparr>shop_orders := put_row so_id
       (order\<lparr>so_status := ''CANCELLED'', so_cancelled_at := Some now, so_admin_notes := Some r\<rparr>) (shop_orders db)\<rparr>"
    by (rule cancel_order_True)
  show "stock k db' = stock k db + (if has_key k db then need (map line_of (order_items_of oid db)) k else 0)"
    by (simp add: e only_stock_stock release_items_stock)
  from release_items_only [of db "order_items_of oid db"] show "only_stock db (db'\<lparr>shop_orders := shop_orders db\<rparr>)"
    by (simp add: e only_stock_def)
qed

section \<open>The invariant\<close>

definition open_status :: "shop_order \<Rightarrow> bool" where
  "open_status r \<longleftrightarrow> so_status r = ''PENDING''"

definition open_order :: "shop_db \<Rightarrow> int \<Rightarrow> bool" where
  "open_order db oid =
     (case get_row so_id oid (shop_orders db) of None \<Rightarrow> False | Some r \<Rightarrow> open_status r)"

text \<open>What the open orders have taken of a key.\<close>

definition held :: "int + int \<Rightarrow> shop_db \<Rightarrow> int" where
  "held k db = need (map line_of (filter (\<lambda>i. open_order db (si_order_id i)) (shop_items db))) k"

definition stocked :: "shop_db \<Rightarrow> bool" where
  "stocked db \<longleftrightarrow> list_all (\<lambda>p. 0 \<le> stock (Inl (pr_id p)) db) (products db)
     \<and> list_all (\<lambda>v. 0 \<le> stock (Inr (va_id v)) db) (variants db)"

definition item_ok :: "shop_db \<Rightarrow> shop_item \<Rightarrow> bool" where
  "item_ok db i \<longleftrightarrow> 0 < si_quantity i \<and> has_key (line_key (line_of i)) db
     \<and> get_row so_id (si_order_id i) (shop_orders db) \<noteq> None"

definition shop_inv :: "shop_db \<Rightarrow> bool" where
  "shop_inv db \<longleftrightarrow> distinct (map so_id (shop_orders db)) \<and> distinct (map ci_id (cart_items db))
     \<and> list_all (\<lambda>r. open_status r \<or> so_status r = ''CANCELLED'') (shop_orders db)
     \<and> list_all (item_ok db) (shop_items db) \<and> list_all (\<lambda>c. 0 < ci_quantity c) (cart_items db)
     \<and> stocked db"

lemma stocked_iff: "stocked db \<longleftrightarrow> (\<forall>k. 0 \<le> stock k db)"
proof
  assume s: "stocked db"
  show "\<forall>k. 0 \<le> stock k db"
  proof
    fix k
    show "0 \<le> stock k db"
    proof (cases k)
      case (Inl p)
      show ?thesis
      proof (cases "get_row pr_id p (products db)")
        case None
        with Inl show ?thesis by (simp add: stock_def)
      next
        case (Some r)
        then have "r \<in> set (products db)" "pr_id r = p" by (auto dest: get_row_Some)
        with s Inl show ?thesis by (auto simp: stocked_def list_all_iff)
      qed
    next
      case (Inr v)
      show ?thesis
      proof (cases "get_row va_id v (variants db)")
        case None
        with Inr show ?thesis by (simp add: stock_def)
      next
        case (Some r)
        then have "r \<in> set (variants db)" "va_id r = v" by (auto dest: get_row_Some)
        with s Inr show ?thesis by (auto simp: stocked_def list_all_iff)
      qed
    qed
  qed
qed (simp add: stocked_def list_all_iff)

text \<open>
  The moves of the shop under its invariant: an order is placed or cancelled by its customer,
  a cart is changed by its customer, the catalogue grows.
\<close>

inductive shop_moves :: "int \<Rightarrow> shop_db \<Rightarrow> shop_db \<Rightarrow> bool" for u where
  Stay: "shop_moves u db db"
| Place: "create_shop_order now u ls a m n db = (Some order, db') \<Longrightarrow> valid_lines ls \<Longrightarrow> shop_moves u db db'"
| Cancel: "get_row so_id oid (shop_orders db) = Some order \<Longrightarrow> so_user_id order = u \<Longrightarrow>
     cancel_order now oid r db = (True, db') \<Longrightarrow> shop_moves u db db'"
| Basket: "list_all (\<lambda>c. 0 < ci_quantity c) cs \<Longrightarrow> distinct (map ci_id cs) \<Longrightarrow>
     (\<And>w. w \<noteq> u \<Longrightarrow> filter (\<lambda>c. ci_user_id c = w) cs = filter (\<lambda>c. ci_user_id c = w) (cart_items db)) \<Longrightarrow>
     shop_moves u db (db\<lparr>cart_items := cs\<rparr>)"
| Stock: "(\<And>k. has_key k db \<Longrightarrow> has_key k (db\<lparr>products := ps, variants := vs\<rparr>)) \<Longrightarrow>
     (\<And>k. stock k db \<le> stock k (db\<lparr>products := ps, variants := vs\<rparr>)) \<Longrightarrow>
     shop_moves u db (db\<lparr>products := ps, variants := vs\<rparr>)"

text \<open>An order stays as it is until it is cancelled, which is final.\<close>

definition order_later :: "shop_order \<Rightarrow> shop_order \<Rightarrow> bool" where
  "order_later r r' \<longleftrightarrow> r' = r \<or> (open_status r \<and> (\<exists>t n. r' = r\<lparr>so_status := ''CANCELLED'',
     so_cancelled_at := t, so_admin_notes := n\<rparr>))"

definition shop_later :: "shop_db \<Rightarrow> shop_db \<Rightarrow> bool" where
  "shop_later db db' \<longleftrightarrow> (\<forall>k. stock k db + held k db \<le> stock k db' + held k db')
     \<and> (\<forall>r \<in> set (shop_orders db). \<exists>r' \<in> set (shop_orders db'). order_later r r')"

lemma order_later_refl: "order_later r r"
  by (simp add: order_later_def)

lemma order_later_trans: "order_later a b \<Longrightarrow> order_later b c \<Longrightarrow> order_later a c"
  by (auto simp: order_later_def open_status_def)

lemma shop_later_refl: "shop_later db db"
  by (auto simp: shop_later_def intro: order_later_refl)

lemma shop_later_trans: "shop_later a b \<Longrightarrow> shop_later b c \<Longrightarrow> shop_later a c"
  unfolding shop_later_def by (meson order_trans order_later_trans)

text \<open>What a customer has.\<close>

definition user_orders :: "int \<Rightarrow> shop_db \<Rightarrow> shop_order list" where
  "user_orders w db = filter (\<lambda>r. so_user_id r = w) (shop_orders db)"

definition customer_view :: "int \<Rightarrow> shop_db \<Rightarrow> shop_order list \<times> shop_item list \<times> cart_item list" where
  "customer_view w db =
     (user_orders w db,
      filter (\<lambda>i. si_order_id i \<in> so_id ` set (user_orders w db)) (shop_items db),
      filter (\<lambda>c. ci_user_id c = w) (cart_items db))"

section \<open>What a placed order changes\<close>

lemma need_split:
  assumes "\<And>i. i \<in> set is \<Longrightarrow> P i = (Q i \<or> R i)" "\<And>i. i \<in> set is \<Longrightarrow> \<not> (Q i \<and> R i)"
  shows "need (map line_of (filter P is)) k
    = need (map line_of (filter Q is)) k + need (map line_of (filter R is)) k"
  using assms
proof (induction "is")
  case Nil
  then show ?case by simp
next
  case (Cons i "is")
  then show ?case
    by (simp add: need_Cons [of "line_of i" "map line_of xs" k for xs])
qed

lemma placed_open:
  assumes "placed order ls db db'" "open_status order"
  shows "open_order db' (so_id order)"
    and "get_row so_id oid (shop_orders db) \<noteq> None \<Longrightarrow> open_order db' oid = open_order db oid"
  using assms by (auto simp: open_order_def placed_frame [OF assms(1)] placed_def get_append get_fresh)

lemma placed_held:
  assumes "shop_inv db" "placed order ls db db'" "open_status order"
  shows "held k db' = held k db + need (real_lines ls) k"
proof -
  from assms(2) obtain new where new: "shop_items db' = shop_items db @ new"
    "map line_of new = real_lines ls" "list_all (\<lambda>i. si_order_id i = so_id order) new"
    by (rule placed_items)
  have "filter (\<lambda>i. open_order db' (si_order_id i)) (shop_items db)
      = filter (\<lambda>i. open_order db (si_order_id i)) (shop_items db)"
    using assms placed_open(2) [OF assms(2,3)]
    by (intro filter_cong) (auto simp: shop_inv_def item_ok_def list_all_iff)
  moreover have "filter (\<lambda>i. open_order db' (si_order_id i)) new = new"
    using new(3) placed_open(1) [OF assms(2,3)] by (auto simp: list_all_iff intro: filter_True)
  ultimately show ?thesis by (simp add: held_def new(1) flip: new(2))
qed

lemma placed_item_ok:
  assumes "shop_inv db" "placed order ls db db'" "valid_lines ls"
    "list_all (\<lambda>l. has_key (line_key l) db) ls"
  shows "list_all (item_ok db') (shop_items db')"
proof -
  from assms(2) obtain new where new: "shop_items db' = shop_items db @ new"
    "map line_of new = real_lines ls" "list_all (\<lambda>i. si_order_id i = so_id order) new"
    by (rule placed_items)
  note f = placed_frame [OF assms(2)]
  have "list_all (item_ok db') (shop_items db)"
    using assms(1) by (auto simp: shop_inv_def item_ok_def list_all_iff f get_append split: option.split)
  moreover have "item_ok db' i" if "i \<in> set new" for i
  proof -
    have "line_of i \<in> set (map line_of new)" using that by simp
    then have "line_of i \<in> set ls" unfolding new(2) by simp
    then have "0 < si_quantity i" "has_key (line_key (line_of i)) db"
      using assms(3,4) by (auto simp: valid_lines_def list_all_iff line_of_def)
    moreover have "si_order_id i = so_id order" using that new(3) by (simp add: list_all_iff)
    ultimately show ?thesis by (simp add: item_ok_def f get_append split: option.split)
  qed
  ultimately show ?thesis by (auto simp: new(1) list_all_iff)
qed

section \<open>What a cancelled order changes\<close>

definition cancelled :: "datetime \<Rightarrow> string \<Rightarrow> shop_order \<Rightarrow> shop_order" where
  "cancelled now reason r = r\<lparr>so_status := ''CANCELLED'', so_cancelled_at := Some now, so_admin_notes := Some reason\<rparr>"

lemma cancelled_fields [simp]:
  "so_id (cancelled now reason r) = so_id r" "so_user_id (cancelled now reason r) = so_user_id r"
  "\<not> open_status (cancelled now reason r)" "so_status (cancelled now reason r) = ''CANCELLED''"
  by (simp_all add: cancelled_def open_status_def)

lemma cancelled_later: "open_status r \<Longrightarrow> order_later r (cancelled now reason r)"
  by (auto simp: order_later_def cancelled_def)

lemma inv_open:
  assumes "shop_inv db" "r \<in> set (shop_orders db)" "so_status r \<noteq> ''CANCELLED''"
  shows "open_status r"
  using assms by (auto simp: shop_inv_def list_all_iff)

lemma cancel_cases:
  assumes "shop_inv db" "cancel_order now oid reason db = (True, db')"
  obtains order where "get_row so_id oid (shop_orders db) = Some order" "open_status order"
    "shop_orders db' = put_row so_id (cancelled now reason order) (shop_orders db)"
    "only_stock db (db'\<lparr>shop_orders := shop_orders db\<rparr>)"
proof -
  from assms(2) obtain order where o: "get_row so_id oid (shop_orders db) = Some order"
    "so_status order \<in> {''PENDING'', ''CONFIRMED''}"
    "db' = (fold release_item (order_items_of oid db) db)\<lparr>shop_orders := put_row so_id
       (order\<lparr>so_status := ''CANCELLED'', so_cancelled_at := Some now, so_admin_notes := Some reason\<rparr>) (shop_orders db)\<rparr>"
    by (rule cancel_order_True)
  from o(2) have "so_status order \<noteq> ''CANCELLED''" by auto
  with inv_open [OF assms(1)] get_row_Some [OF o(1)] have "open_status order" by blast
  moreover have "shop_orders db' = put_row so_id (cancelled now reason order) (shop_orders db)"
    unfolding o(3) cancelled_def by simp
  ultimately show ?thesis using o(1) cancelled_stock(2) [OF assms(2)] that by blast
qed

lemma cancel_open:
  assumes "get_row so_id oid (shop_orders db) = Some order" "open_status order"
    "shop_orders db' = put_row so_id (cancelled now reason order) (shop_orders db)"
  shows "open_order db x \<longleftrightarrow> open_order db' x \<or> x = oid" "\<not> open_order db' oid"
  using assms get_row_Some [OF assms(1)]
  by (auto simp: open_order_def get_put split: option.splits)

lemma cancel_held:
  assumes "shop_inv db" "cancel_order now oid reason db = (True, db')"
  shows "stock k db' + held k db' = stock k db + held k db"
proof -
  from assms obtain order where o: "get_row so_id oid (shop_orders db) = Some order" "open_status order"
    "shop_orders db' = put_row so_id (cancelled now reason order) (shop_orders db)"
    "only_stock db (db'\<lparr>shop_orders := shop_orders db\<rparr>)"
    by (rule cancel_cases)
  have same: "shop_items db' = shop_items db" using o(4) by (simp add: only_stock_def)
  have "held k db = held k db' + need (map line_of (order_items_of oid db)) k"
    unfolding held_def same order_items_of_def using cancel_open [OF o(1-3)] by (intro need_split) auto
  moreover have "need (map line_of (order_items_of oid db)) k = 0" if "\<not> has_key k db"
    using assms(1) that
    by (intro need_notin) (auto simp: shop_inv_def item_ok_def order_items_of_def list_all_iff)
  ultimately show ?thesis using cancelled_stock(1) [OF assms(2), of k] by auto
qed

section \<open>The moves keep the invariant\<close>

lemma distinct_snoc_fresh:
  "distinct (map key t) \<Longrightarrow> key r = fresh_id key t \<Longrightarrow> distinct (map key (t @ [r]))"
  using fresh_id_notin [of key t] by simp

lemma place_inv:
  assumes "shop_inv db" "create_shop_order now u ls a m n db = (Some order, db')" "valid_lines ls"
  shows "shop_inv db'"
proof -
  note p = create_order_placed [OF assms(2)]
  note f = placed_frame [OF p(1)]
  from p(3) have "open_status order" by (simp add: open_status_def)
  moreover have "stocked db'"
    using assms(1) create_order_stock(2) [OF assms(2,3)] unfolding shop_inv_def stocked_iff by blast
  moreover have "distinct (map so_id (shop_orders db @ [order]))"
    using assms(1) p(1) by (intro distinct_snoc_fresh) (simp_all add: shop_inv_def placed_def)
  moreover have "list_all (item_ok db') (shop_items db')"
    by (rule placed_item_ok [OF assms(1) p(1) assms(3) p(4)])
  ultimately show ?thesis using assms(1) by (simp add: shop_inv_def f)
qed

lemma put_row_members: "r \<in> set (put_row key q t) \<Longrightarrow> r = q \<or> r \<in> set t"
  by (auto dest: in_put_row)

lemma cancel_inv:
  assumes "shop_inv db" "cancel_order now oid reason db = (True, db')"
  shows "shop_inv db'"
proof -
  from assms obtain order where o: "get_row so_id oid (shop_orders db) = Some order" "open_status order"
    "shop_orders db' = put_row so_id (cancelled now reason order) (shop_orders db)"
    "only_stock db (db'\<lparr>shop_orders := shop_orders db\<rparr>)"
    by (rule cancel_cases)
  have frame: "shop_items db' = shop_items db" "cart_items db' = cart_items db"
    using o(4) by (simp_all add: only_stock_def)
  have keys: "has_key k db' = has_key k db" for k
    using only_stock_keys [OF o(4), of k] by (simp add: only_stock_stock)
  have "0 \<le> stock k db'" for k
  proof -
    have "list_all (\<lambda>l. 0 < snd (snd l)) (map line_of (order_items_of oid db))"
      using assms(1) by (auto simp: shop_inv_def item_ok_def order_items_of_def line_of_def list_all_iff)
    then have "valid_lines (map line_of (order_items_of oid db))"
      by (simp add: valid_lines_def case_prod_unfold)
    from need_nonneg [OF this, of k] assms(1) cancelled_stock(1) [OF assms(2), of k]
    show ?thesis by (simp add: shop_inv_def stocked_iff)
  qed
  moreover have "list_all (\<lambda>r. open_status r \<or> so_status r = ''CANCELLED'') (shop_orders db')"
    using assms(1) unfolding o(3) by (auto simp: shop_inv_def list_all_iff dest!: put_row_members)
  moreover have "list_all (item_ok db') (shop_items db')"
    using assms(1) by (auto simp: shop_inv_def item_ok_def frame keys list_all_iff o(3) get_put)
  ultimately show ?thesis using assms(1) by (simp add: shop_inv_def frame o(3) stocked_iff)
qed

lemma basket_frame:
  "stock k (db\<lparr>cart_items := cs\<rparr>) = stock k db" "has_key k (db\<lparr>cart_items := cs\<rparr>) = has_key k db"
  "held k (db\<lparr>cart_items := cs\<rparr>) = held k db"
  by (simp_all add: stock_def has_key_def held_def open_order_def split: sum.split option.split)

lemma moves_inv: "shop_moves u db db' \<Longrightarrow> shop_inv db \<Longrightarrow> shop_inv db'"
proof (induction rule: shop_moves.induct)
  case (Place now ls a m n db order db')
  then show ?case by (auto intro: place_inv)
next
  case (Cancel oid db order now r db')
  then show ?case by (auto intro: cancel_inv)
next
  case (Basket cs db)
  moreover have "item_ok (db\<lparr>cart_items := cs\<rparr>) = item_ok db"
    by (simp add: fun_eq_iff item_ok_def basket_frame)
  ultimately show ?case by (simp add: shop_inv_def stocked_iff basket_frame)
next
  case (Stock db vs ps)
  from Stock.prems Stock.hyps(2) have "stocked (db\<lparr>products := ps, variants := vs\<rparr>)"
    unfolding shop_inv_def stocked_iff by (meson order_trans)
  moreover from Stock.prems Stock.hyps(1)
  have "list_all (item_ok (db\<lparr>products := ps, variants := vs\<rparr>)) (shop_items db)"
    by (simp add: shop_inv_def item_ok_def list_all_iff)
  ultimately show ?case using Stock.prems by (simp add: shop_inv_def)
qed

lemma moves_later: "shop_moves u db db' \<Longrightarrow> shop_inv db \<Longrightarrow> shop_later db db'"
proof (induction rule: shop_moves.induct)
  case (Stay db)
  then show ?case by (simp add: shop_later_refl)
next
  case (Place now ls a m n db order db')
  note p = create_order_placed [OF Place.hyps(1)]
  from p(3) have "open_status order" by (simp add: open_status_def)
  note h = placed_held [OF Place.prems p(1) this]
  have "stock k db + held k db \<le> stock k db' + held k db'" for k
    using h [of k] create_order_stock(1) [OF Place.hyps, of k] by simp
  then show ?case
    by (auto simp: shop_later_def placed_frame [OF p(1)] intro: order_later_refl)
next
  case (Cancel oid db order now r db')
  from Cancel.prems Cancel.hyps(3) obtain ord where o:
    "get_row so_id oid (shop_orders db) = Some ord" "open_status ord"
    "shop_orders db' = put_row so_id (cancelled now r ord) (shop_orders db)"
    by (rule cancel_cases)
  have "\<exists>q' \<in> set (shop_orders db'). order_later q q'" if "q \<in> set (shop_orders db)" for q
  proof (cases "so_id q = oid")
    case True
    have "distinct (map so_id (shop_orders db))" using Cancel.prems by (simp add: shop_inv_def)
    from get_row_member [OF this that] True o(1) have "q = ord" by simp
    moreover have "cancelled now r ord \<in> set (shop_orders db')"
      unfolding o(3) put_row_def set_map
      by (rule image_eqI [OF _ that]) (simp add: \<open>q = ord\<close>)
    ultimately show ?thesis using cancelled_later [OF o(2)] by blast
  next
    case False
    with get_row_Some [OF o(1)] have "q \<in> set (shop_orders db')"
      unfolding o(3) put_row_def set_map by (intro image_eqI [OF _ that]) simp
    then show ?thesis using order_later_refl by blast
  qed
  then show ?case
    using cancel_held [OF Cancel.prems Cancel.hyps(3)] by (simp add: shop_later_def)
next
  case (Basket cs db)
  show ?case by (auto simp: shop_later_def basket_frame intro: order_later_refl)
next
  case (Stock db vs ps)
  have "held k (db\<lparr>products := ps, variants := vs\<rparr>) = held k db" for k
    by (simp add: held_def open_order_def)
  with Stock show ?case by (auto simp: shop_later_def intro: order_later_refl)
qed

section \<open>What the other customers see\<close>

lemma filter_put_row:
  assumes "distinct (map key t)" "q \<in> set t" "key r = key q" "\<not> P q" "\<not> P r"
  shows "filter P (put_row key r t) = filter P t"
  using assms
proof (induction t)
  case Nil
  then show ?case by simp
next
  case (Cons x t)
  show ?case
  proof (cases "key x = key r")
    case True
    then have "x = q" using Cons.prems by auto
    moreover have "put_row key r t = t"
      using Cons.prems True by (intro put_row_notin) simp
    ultimately show ?thesis using True Cons.prems by simp
  next
    case False
    with Cons show ?thesis by auto
  qed
qed

lemma customer_view_items:
  assumes "user_orders w db' = user_orders w db" "shop_items db' = shop_items db @ new"
    "\<And>i. i \<in> set new \<Longrightarrow> si_order_id i \<notin> so_id ` set (user_orders w db)"
    "filter (\<lambda>c. ci_user_id c = w) (cart_items db') = filter (\<lambda>c. ci_user_id c = w) (cart_items db)"
  shows "customer_view w db' = customer_view w db"
  using assms by (auto simp: customer_view_def filter_empty_conv)

lemma place_view:
  assumes "create_shop_order now u ls a m n db = (Some order, db')" "w \<noteq> u"
  shows "customer_view w db' = customer_view w db"
proof -
  note p = create_order_placed [OF assms(1)]
  from p(1) obtain new where new: "shop_items db' = shop_items db @ new"
    "list_all (\<lambda>i. si_order_id i = so_id order) new"
    by (rule placed_items)
  have "so_id order \<notin> so_id ` set (user_orders w db)"
    using p(1) fresh_id_notin [of so_id "shop_orders db"] by (auto simp: placed_def user_orders_def)
  then show ?thesis
    using new(2) p(2) assms(2)
    by (intro customer_view_items [OF _ new(1)])
      (auto simp: placed_frame [OF p(1)] user_orders_def list_all_iff)
qed

lemma cancel_view:
  assumes "shop_inv db" "get_row so_id oid (shop_orders db) = Some order" "so_user_id order = u" "w \<noteq> u"
    "cancel_order now oid reason db = (True, db')"
  shows "customer_view w db' = customer_view w db"
proof -
  from assms(1,5) obtain ord where o: "get_row so_id oid (shop_orders db) = Some ord"
    "shop_orders db' = put_row so_id (cancelled now reason ord) (shop_orders db)"
    "only_stock db (db'\<lparr>shop_orders := shop_orders db\<rparr>)"
    by (rule cancel_cases)
  have d: "distinct (map so_id (shop_orders db))" using assms(1) by (simp add: shop_inv_def)
  from o(1) assms(2) have "ord = order" by simp
  with get_row_Some [OF o(1)] assms(3,4) have "user_orders w db' = user_orders w db"
    unfolding user_orders_def o(2) by (intro filter_put_row [OF d]) auto
  with o(3) show ?thesis by (simp add: customer_view_def only_stock_def)
qed

lemma moves_view: "shop_moves u db db' \<Longrightarrow> shop_inv db \<Longrightarrow> w \<noteq> u \<Longrightarrow> customer_view w db' = customer_view w db"
proof (induction rule: shop_moves.induct)
  case (Place now ls a m n db order db')
  then show ?case by (auto intro: place_view)
next
  case (Cancel oid db order now r db')
  then show ?case by (auto intro: cancel_view)
qed (simp_all add: customer_view_def user_orders_def)

text \<open>The same for runs of moves.\<close>

lemma star_inv: "(shop_moves u)\<^sup>*\<^sup>* db db' \<Longrightarrow> shop_inv db \<Longrightarrow> shop_inv db'"
  by (induction rule: rtranclp_induct) (auto intro: moves_inv)

lemma star_later: "(shop_moves u)\<^sup>*\<^sup>* db db' \<Longrightarrow> shop_inv db \<Longrightarrow> shop_later db db'"
  by (induction rule: rtranclp_induct)
    (auto intro: shop_later_refl shop_later_trans moves_later star_inv)

lemma star_view:
  "(shop_moves u)\<^sup>*\<^sup>* db db' \<Longrightarrow> shop_inv db \<Longrightarrow> w \<noteq> u \<Longrightarrow> customer_view w db' = customer_view w db"
  by (induction rule: rtranclp_induct) (auto simp: moves_view star_inv)

section \<open>Every request is a run of moves\<close>

lemma add_variant_Inr:
  assumes "add_variant pid c vs = Inr vs'"
  obtains v where "vs' = vs @ [v]" "va_stock_quantity v = vc_stock_quantity c"
  using assms by (auto simp: add_variant_def split: if_splits)

lemma add_variants_append:
  "fold_res (add_variant pid) cs vs = Inr vs' \<Longrightarrow> list_all (\<lambda>c. 0 \<le> vc_stock_quantity c) cs \<Longrightarrow>
   \<exists>new. vs' = vs @ new \<and> list_all (\<lambda>v. 0 \<le> va_stock_quantity v) new"
proof (induction cs arbitrary: vs)
  case Nil
  then show ?case by simp
next
  case (Cons c cs)
  from Cons.prems(1) obtain ws where ws: "add_variant pid c vs = Inr ws"
    "fold_res (add_variant pid) cs ws = Inr vs'" by (auto split: sum.splits)
  from ws(1) obtain v where "ws = vs @ [v]" "va_stock_quantity v = vc_stock_quantity c"
    by (rule add_variant_Inr)
  with ws have v: "add_variant pid c vs = Inr (vs @ [v])"
    "fold_res (add_variant pid) cs (vs @ [v]) = Inr vs'" "va_stock_quantity v = vc_stock_quantity c"
    by simp_all
  from Cons.IH [OF v(2)] Cons.prems(2) obtain new where
    "vs' = vs @ v # new" "list_all (\<lambda>v. 0 \<le> va_stock_quantity v) new" by auto
  with v(3) Cons.prems(2) show ?case by (intro exI [of _ "v # new"]) simp
qed

lemma get_row_append_stock:
  assumes "list_all (\<lambda>r. 0 \<le> f r) new"
  shows "(case get_row key k t of None \<Rightarrow> (0::int) | Some r \<Rightarrow> f r)
    \<le> (case get_row key k (t @ new) of None \<Rightarrow> 0 | Some r \<Rightarrow> f r)"
  using assms by (auto simp: get_append list_all_iff split: option.split dest: get_row_Some)

lemma create_product_move:
  assumes "create_product now p db = Inr (pr, db')" "0 \<le> pc_stock_quantity p"
    "list_all (\<lambda>c. 0 \<le> vc_stock_quantity c) (pc_variants p)"
  shows "shop_moves u db db'"
proof -
  from assms(1) obtain vs where vs: "fold_res (add_variant (pr_id (new_product now p (products db)))) (pc_variants p)
      (variants db) = Inr vs"
    "db' = db\<lparr>products := products db @ [new_product now p (products db)], variants := vs\<rparr>"
    by (auto simp: create_product_def Let_def split: if_splits sum.splits)
  from add_variants_append [OF vs(1) assms(3)] obtain new where
    new: "vs = variants db @ new" "list_all (\<lambda>v. 0 \<le> va_stock_quantity v) new" by blast
  have "0 \<le> pr_stock_quantity (new_product now p (products db))"
    using assms(2) by (simp add: new_product_def)
  then show ?thesis unfolding vs(2) new(1)
    using get_row_append_stock [of pr_stock_quantity "[new_product now p (products db)]" pr_id _ "products db"]
      get_row_append_stock [OF new(2), of va_id _ "variants db"]
    by (intro shop_moves.Stock) (auto simp: stock_def has_key_def get_append split: sum.splits option.splits)
qed

lemma put_product_move:
  assumes "get_row pr_id i (products db) = Some p" "pr_id p' = i" "pr_stock_quantity p' = pr_stock_quantity p"
  shows "shop_moves u db (db\<lparr>products := put_row pr_id p' (products db)\<rparr>)"
proof -
  have "shop_moves u db (db\<lparr>products := put_row pr_id p' (products db), variants := variants db\<rparr>)"
    using assms by (intro shop_moves.Stock)
      (auto simp: stock_def has_key_def get_put split: sum.splits option.splits)
  then show ?thesis by simp
qed

text \<open>A customer's item is changed to one that is still his, or deleted.\<close>

lemma put_cart_move:
  assumes "shop_inv db" "i \<in> set (cart_items db)" "ci_user_id i = u" "ci_id i' = ci_id i"
    "ci_user_id i' = u" "0 < ci_quantity i'"
  shows "shop_moves u db (db\<lparr>cart_items := put_row ci_id i' (cart_items db)\<rparr>)"
proof (rule shop_moves.Basket)
  have d: "distinct (map ci_id (cart_items db))" using assms(1) by (simp add: shop_inv_def)
  then show "distinct (map ci_id (put_row ci_id i' (cart_items db)))" by simp
  show "list_all (\<lambda>c. 0 < ci_quantity c) (put_row ci_id i' (cart_items db))"
    using assms(1,6) by (auto simp: shop_inv_def list_all_iff dest: put_row_members)
  show "filter (\<lambda>c. ci_user_id c = w) (put_row ci_id i' (cart_items db))
      = filter (\<lambda>c. ci_user_id c = w) (cart_items db)" if "w \<noteq> u" for w
    using that assms by (intro filter_put_row [OF d assms(2)]) auto
qed

lemma sub_cart_move:
  assumes "shop_inv db" "\<And>c. c \<in> set (cart_items db) \<Longrightarrow> ci_user_id c \<noteq> u \<Longrightarrow> P c"
  shows "shop_moves u db (db\<lparr>cart_items := filter P (cart_items db)\<rparr>)"
proof (rule shop_moves.Basket)
  show "distinct (map ci_id (filter P (cart_items db)))"
    using assms(1) by (simp add: shop_inv_def distinct_map_filter)
  show "list_all (\<lambda>c. 0 < ci_quantity c) (filter P (cart_items db))"
    using assms(1) by (simp add: shop_inv_def list_all_iff)
  show "filter (\<lambda>c. ci_user_id c = w) (filter P (cart_items db))
      = filter (\<lambda>c. ci_user_id c = w) (cart_items db)" if "w \<noteq> u" for w
    unfolding filter_filter using that assms(2) by (intro filter_cong) auto
qed

lemma new_cart_move:
  assumes "shop_inv db" "ci_id i = fresh_id ci_id (cart_items db)" "ci_user_id i = u" "0 < ci_quantity i"
  shows "shop_moves u db (db\<lparr>cart_items := cart_items db @ [i]\<rparr>)"
  using assms distinct_snoc_fresh [of ci_id "cart_items db" i]
  by (intro shop_moves.Basket) (simp_all add: shop_inv_def)

lemma delete_item_move:
  assumes "shop_inv db" "get_row ci_id i (cart_items db) = Some item" "ci_user_id item = u"
  shows "shop_moves u db (delete_item i db)"
  unfolding delete_item_def
proof (rule sub_cart_move [OF assms(1)])
  have d: "distinct (map ci_id (cart_items db))" using assms(1) by (simp add: shop_inv_def)
  fix c
  assume "c \<in> set (cart_items db)" "ci_user_id c \<noteq> u"
  with get_row_member [OF d, of c] assms(2,3) show "ci_id c \<noteq> i" by auto
qed

lemma add_to_cart_move:
  assumes "shop_inv db" "0 < q" "add_to_cart now u p v q db = Inr (item, db')"
  shows "shop_moves u db db'"
proof (cases "List.find (in_cart u p v) (cart_items db)")
  case None
  with assms(3) have "db' = db\<lparr>cart_items := cart_items db @ [item]\<rparr>"
    "ci_id item = fresh_id ci_id (cart_items db)" "ci_user_id item = u" "ci_quantity item = q"
    by (auto simp: add_to_cart_def Let_def split: if_splits option.splits)
  with assms(1,2) show ?thesis by (simp add: new_cart_move)
next
  case (Some old)
  with assms(3) have e: "db' = db\<lparr>cart_items := put_row ci_id item (cart_items db)\<rparr>"
    "item = old\<lparr>ci_quantity := ci_quantity old + q, ci_updated_at := now\<rparr>"
    by (auto simp: add_to_cart_def Let_def)
  from find_Some [OF Some] have old: "old \<in> set (cart_items db)" "ci_user_id old = u"
    by (auto simp: in_cart_def)
  with assms(1) have "0 < ci_quantity old" by (auto simp: shop_inv_def list_all_iff)
  with assms(1,2) old show ?thesis unfolding e(1) by (intro put_cart_move [of _ old]) (simp_all add: e(2))
qed

lemma update_quantity_move:
  assumes "shop_inv db" "update_quantity now u i q db = (Some item, db')"
  shows "shop_moves u db db'"
proof -
  from assms(2) obtain old where old: "get_row ci_id i (cart_items db) = Some old" "ci_user_id old = u"
    "0 < q" "item = old\<lparr>ci_quantity := q, ci_updated_at := now\<rparr>"
    "db' = db\<lparr>cart_items := put_row ci_id item (cart_items db)\<rparr>"
    by (auto simp: update_quantity_def Let_def split: option.splits if_splits)
  with get_row_Some [OF old(1)] assms(1) show ?thesis
    unfolding old(5) by (intro put_cart_move [of _ old]) simp_all
qed

text \<open>Requests that do not take stock away.\<close>

fun customer_request :: "shop_request \<Rightarrow> bool" where
  "customer_request (AdminCreate p) =
     (0 \<le> pc_stock_quantity p \<and> list_all (\<lambda>v. 0 \<le> vc_stock_quantity v) (pc_variants p))"
| "customer_request (AdminUpdate i x) = (pu_stock_quantity x = None)"
| "customer_request _ = True"

lemma own_order_Inr: "own_order u oid db = Inr order \<Longrightarrow>
    get_row so_id oid (shop_orders db) = Some order \<and> so_user_id order = u"
  by (auto simp: own_order_def split: option.splits if_splits)

lemma inv_status:
  assumes "shop_inv db" "get_row so_id oid (shop_orders db) = Some order"
  shows "so_status order = ''PENDING'' \<or> so_status order = ''CANCELLED''"
  using assms get_row_Some [OF assms(2)] by (auto simp: shop_inv_def list_all_iff open_status_def)

lemma no_return:
  assumes "shop_inv db"
  shows "initiate_order_return u oid r db \<noteq> Inr x"
  using inv_status [OF assms, of oid]
  by (auto simp: initiate_order_return_def initiate_shop_return_def split: sum.splits option.splits if_splits dest!: own_order_Inr)

lemma no_enhanced_cancel:
  assumes "shop_inv db"
  shows "enhanced_cancel_order u oid db \<noteq> Inr x"
  using inv_status [OF assms, of oid]
  by (auto simp: enhanced_cancel_order_def split: sum.splits dest!: own_order_Inr)

lemma api_cancel_Inr:
  assumes "api_cancel_order now u oid db = Inr (b, db')"
  obtains order where "get_row so_id oid (shop_orders db) = Some order" "so_user_id order = u"
    "cancel_order now oid ''Cancelled by customer'' db = (True, db')"
  using assms by (auto simp: api_cancel_order_def split: sum.splits prod.splits bool.splits dest!: own_order_Inr)

lemma answer_order_Inr: "answer_order r = Inr (order, db') \<longleftrightarrow> r = (Some order, db')"
  by (auto simp: answer_order_def split: option.splits prod.splits)

lemma shop_step_kept: "(\<And>x db'. r = Inr (x, db') \<Longrightarrow> P db') \<Longrightarrow> P db \<Longrightarrow> P (shop_kept r db)"
  by (auto simp: shop_kept_def split: sum.splits)

lemma shown_line: "cart_order_line (show_cart_item vs i p) = (ci_product_id i, ci_variant_id i, ci_quantity i)"
  by (simp add: cart_order_line_def show_cart_item_def)

lemma kept_moves:
  "(\<And>x db'. r = Inr (x, db') \<Longrightarrow> (shop_moves u)\<^sup>*\<^sup>* db db') \<Longrightarrow> (shop_moves u)\<^sup>*\<^sup>* db (shop_kept r db)"
  by (cases r) (auto simp: shop_kept_def)

lemma kept_move:
  "(\<And>x db'. r = Inr (x, db') \<Longrightarrow> shop_moves u db db') \<Longrightarrow> (shop_moves u)\<^sup>*\<^sup>* db (shop_kept r db)"
  by (rule kept_moves) (rule r_into_rtranclp)

lemma api_create_move:
  "api_create_order now u ls a m n db = Inr (x, db') \<Longrightarrow> shop_moves u db db'"
  by (auto simp: api_create_order_def answer_order_Inr split: if_splits dest: shop_moves.Place)

lemma cart_lines_valid:
  assumes "list_all (\<lambda>c. 0 < ci_quantity c) (cart_items db)"
  shows "valid_lines (map cart_order_line (get_cart u db))"
  using assms by (auto simp: valid_lines_def get_cart_def list_all_iff shown_line split: option.splits)

lemma checkout_Inr:
  assumes "checkout_cart now u a m n db = Inr (order, db')"
  obtains mid where "create_shop_order now u (map cart_order_line (get_cart u db)) a m n db = (Some order, mid)"
    "db' = clear_cart u mid" "get_cart u db \<noteq> []"
  using assms by (auto simp: checkout_cart_def answer_order_Inr split: if_splits sum.splits)

lemma clear_cart_move: "shop_inv db \<Longrightarrow> shop_moves u db (clear_cart u db)"
  unfolding clear_cart_def by (rule sub_cart_move) auto

lemma update_product_Inr:
  assumes "admin_update_product now i x db = Inr (p', db')"
  obtains p where "get_row pr_id i (products db) = Some p" "p' = updated_product now x p" "\<not> sets_null x"
    "db' = db\<lparr>products := put_row pr_id p' (products db)\<rparr>"
  using assms by (auto simp: admin_update_product_def update_product_def split: option.splits if_splits)

lemma delete_product_Inr:
  assumes "admin_delete_product now i db = Inr (b, db')"
  obtains p where "get_row pr_id i (products db) = Some p"
    "db' = db\<lparr>products := put_row pr_id (p\<lparr>pr_status := ''INACTIVE'', pr_updated_at := now\<rparr>) (products db)\<rparr>"
  using assms by (auto simp: admin_delete_product_def delete_product_def split: option.splits)

lemma api_cancel_move:
  assumes "api_cancel_order now u oid db = Inr (x, db')"
  shows "shop_moves u db db'"
proof -
  from assms obtain order where "get_row so_id oid (shop_orders db) = Some order" "so_user_id order = u"
    "cancel_order now oid ''Cancelled by customer'' db = (True, db')"
    by (rule api_cancel_Inr)
  then show ?thesis by (rule shop_moves.Cancel)
qed

lemma api_add_to_cart_move:
  "shop_inv db \<Longrightarrow> api_add_to_cart now u p v q db = Inr (x, db') \<Longrightarrow> shop_moves u db db'"
  unfolding api_add_to_cart_def using add_to_cart_move [of db q now u p v x db']
  by (cases "0 < q") simp_all

lemma update_cart_move:
  "shop_inv db \<Longrightarrow> update_cart_item now u i q db = Inr (x, db') \<Longrightarrow> shop_moves u db db'"
  by (auto simp: update_cart_item_def split: if_splits prod.splits option.splits intro: update_quantity_move)

lemma remove_cart_move:
  "shop_inv db \<Longrightarrow> remove_cart_item u i db = Inr (x, db') \<Longrightarrow> shop_moves u db db'"
  by (auto simp: remove_cart_item_def remove_from_cart_def split: if_splits option.splits intro: delete_item_move)

lemma checkout_moves:
  assumes "shop_inv db" "checkout_cart now u a m n db = Inr (order, db')"
  shows "(shop_moves u)\<^sup>*\<^sup>* db db'"
proof -
  from assms(2) obtain mid where
    o: "create_shop_order now u (map cart_order_line (get_cart u db)) a m n db = (Some order, mid)"
    and e: "db' = clear_cart u mid"
    by (rule checkout_Inr)
  have v: "valid_lines (map cart_order_line (get_cart u db))"
    using assms(1) by (intro cart_lines_valid) (simp add: shop_inv_def)
  then have p: "shop_moves u db mid" by (rule shop_moves.Place [OF o])
  from clear_cart_move [OF place_inv [OF assms(1) o v], of u] p show ?thesis unfolding e by auto
qed

lemma admin_update_move:
  assumes "pu_stock_quantity x = None" "admin_update_product now i x db = Inr (y, db')"
  shows "shop_moves u db db'"
proof -
  from assms(2) obtain p where p: "get_row pr_id i (products db) = Some p" "y = updated_product now x p"
    "db' = db\<lparr>products := put_row pr_id y (products db)\<rparr>"
    by (rule update_product_Inr)
  have "pr_id y = i" "pr_stock_quantity y = pr_stock_quantity p"
    using assms(1) get_row_Some [OF p(1)] by (simp_all add: p(2) updated_product_def set_or_def)
  with p(1) show ?thesis unfolding p(3) by (blast intro: put_product_move)
qed

lemma admin_delete_move:
  assumes "admin_delete_product now i db = Inr (b, db')"
  shows "shop_moves u db db'"
proof -
  from assms obtain p where p: "get_row pr_id i (products db) = Some p"
    "db' = db\<lparr>products := put_row pr_id (p\<lparr>pr_status := ''INACTIVE'', pr_updated_at := now\<rparr>) (products db)\<rparr>"
    by (rule delete_product_Inr)
  with get_row_Some [OF p(1)] show ?thesis unfolding p(2) by (intro put_product_move) auto
qed

lemma step_moves:
  assumes "shop_inv db" "customer_request req"
  shows "(shop_moves u)\<^sup>*\<^sup>* db (shop_step (now, u, req) db)"
proof (cases req)
  case (PlaceOrder ls a m n)
  show ?thesis unfolding PlaceOrder shop_step.simps by (rule kept_move) (rule api_create_move)
next
  case (CancelOrder oid)
  show ?thesis unfolding CancelOrder shop_step.simps by (rule kept_move) (rule api_cancel_move)
next
  case (ReturnOrder oid r)
  then show ?thesis using no_return [OF assms(1)] by (auto simp: shop_kept_def split: sum.split)
next
  case (EnhancedCancel oid)
  then show ?thesis using no_enhanced_cancel [OF assms(1)] by (auto simp: shop_kept_def split: sum.split)
next
  case (AddToCart p v q)
  show ?thesis unfolding AddToCart shop_step.simps
    by (rule kept_move) (rule api_add_to_cart_move [OF assms(1)])
next
  case (UpdateCart i q)
  show ?thesis unfolding UpdateCart shop_step.simps by (rule kept_move) (rule update_cart_move [OF assms(1)])
next
  case (RemoveFromCart i)
  show ?thesis unfolding RemoveFromCart shop_step.simps
    by (rule kept_move) (rule remove_cart_move [OF assms(1)])
next
  case ClearCart
  then show ?thesis using clear_cart_move [OF assms(1)] by auto
next
  case (Checkout a m n)
  show ?thesis unfolding Checkout shop_step.simps by (rule kept_moves) (rule checkout_moves [OF assms(1)])
next
  case (AdminCreate p)
  with assms(2) show ?thesis by (auto intro!: kept_move create_product_move)
next
  case (AdminUpdate i x)
  with assms(2) show ?thesis by (auto intro!: kept_move admin_update_move)
next
  case (AdminDelete i)
  show ?thesis unfolding AdminDelete shop_step.simps by (rule kept_move) (rule admin_delete_move)
qed

section \<open>Histories\<close>

text \<open>
  An administrator may also set a stock, to what is not negative: the invariant holds, though no
  longer the account of the stock.
\<close>

fun sane_request :: "shop_request \<Rightarrow> bool" where
  "sane_request (AdminUpdate i x) =
     (case pu_stock_quantity x of Some (Some n) \<Rightarrow> 0 \<le> n | _ \<Rightarrow> True)"
| "sane_request req = customer_request req"

lemma customer_sane: "customer_request req \<Longrightarrow> sane_request req"
  by (cases req) auto

lemma admin_update_inv:
  assumes "shop_inv db" "sane_request (AdminUpdate i x)" "admin_update_product now i x db = Inr (y, db')"
  shows "shop_inv db'"
proof -
  from assms(3) obtain p where p: "get_row pr_id i (products db) = Some p" "y = updated_product now x p"
    "db' = db\<lparr>products := put_row pr_id y (products db)\<rparr>"
    by (rule update_product_Inr)
  have i: "pr_id y = i" using get_row_Some [OF p(1)] by (simp add: p(2) updated_product_def)
  have "0 \<le> stock (Inl i) db" using assms(1) by (simp add: shop_inv_def stocked_iff)
  with assms(2) p(1) have "0 \<le> pr_stock_quantity y"
    by (auto simp: p(2) updated_product_def set_or_def stock_def split: option.splits)
  then have "stock k db' = (if k = Inl i then pr_stock_quantity y else stock k db)" for k
    using p(1) i by (auto simp: p(3) stock_def get_put split: sum.split)
  with \<open>0 \<le> pr_stock_quantity y\<close> assms(1) have s: "stocked db'"
    by (simp add: shop_inv_def stocked_iff)
  have "has_key k db' = has_key k db" for k
    using p(1) i by (auto simp: p(3) has_key_def get_put split: sum.split)
  then have "item_ok db' = item_ok db" by (simp add: fun_eq_iff item_ok_def p(3))
  with s assms(1) show ?thesis by (simp add: shop_inv_def p(3))
qed

lemma step_inv:
  assumes "shop_inv db" "sane_request req"
  shows "shop_inv (shop_step (now, u, req) db)"
proof (cases "customer_request req")
  case True
  then show ?thesis by (rule star_inv [OF step_moves [OF assms(1)] assms(1)])
next
  case False
  with assms(2) obtain i x where "req = AdminUpdate i x" by (cases req) auto
  with assms show ?thesis by (auto simp: shop_kept_def split: sum.split intro: admin_update_inv)
qed

definition sane :: "datetime \<times> int \<times> shop_request \<Rightarrow> bool" where
  "sane x \<longleftrightarrow> sane_request (snd (snd x))"

definition by_customer :: "datetime \<times> int \<times> shop_request \<Rightarrow> bool" where
  "by_customer x \<longleftrightarrow> customer_request (snd (snd x))"

interpretation shop_service: stable_step shop_step sane shop_inv
  by unfold_locales (auto simp: sane_def intro: step_inv)

interpretation shop_account: evolving_step shop_step by_customer shop_inv shop_later
proof
  show "shop_inv (shop_step x s)" if "by_customer x" "shop_inv s" for x s
    using that by (cases x) (auto simp: by_customer_def intro: step_inv customer_sane)
  show "shop_later s (shop_step x s)" if "by_customer x" "shop_inv s" for x s
    using that by (cases x) (auto simp: by_customer_def intro: star_later step_moves)
qed (rule shop_later_refl, rule shop_later_trans)

lemma step_view:
  assumes "shop_inv db" "w \<noteq> u" "customer_request req"
  shows "customer_view w (shop_step (now, u, req) db) = customer_view w db"
  by (rule star_view [OF step_moves [OF assms(1,3)] assms(1,2)])

end
