(* ===== verification/ShopClaims.thy ===== *)
theory ShopClaims
  imports ShopInv "HOL-Library.Multiset"
begin

text \<open>
  The properties of the shop: the stock over histories of requests, what placing, cancelling and
  checking out do, what a search returns. Each has a witness on small concrete tables.
\<close>

section \<open>Lines of different products\<close>

lemma store_item_exact:
  assumes "available db i" "si_variant_id i \<noteq> Some 0"
  shows "stock k (store_item oid i db) = stock k db - need [line_of i] k"
    and "line_key (line_of j) \<noteq> line_key (line_of i) \<Longrightarrow> available (store_item oid i db) j = available db j"
proof -
  show s: "stock k (store_item oid i db) = stock k db - need [line_of i] k" for k
    using assms by (simp add: store_item_def reserve_stock_effect only_stock_stock available_def line_of_def)
  have e: "only_stock db ((store_item oid i db)\<lparr>shop_items := shop_items db\<rparr>)"
    using store_item_stored [of oid i db] by (simp add: stored_def)
  have h: "has_key k (store_item oid i db) = has_key k db" for k
    using only_stock_keys [OF e, of k] by (simp add: only_stock_stock)
  show "available (store_item oid i db) j = available db j" if "line_key (line_of j) \<noteq> line_key (line_of i)"
    using that by (auto simp: available_def available_stock h s line_of_def)
qed

lemma store_items_exact:
  assumes "list_all (available db) is" "distinct (map (\<lambda>i. line_key (line_of i)) is)"
    "list_all (\<lambda>i. si_variant_id i \<noteq> Some 0) is"
  shows "stock k (fold (store_item oid) is db) = stock k db - need (map line_of is) k"
  using assms
proof (induction "is" arbitrary: db)
  case Nil
  then show ?case by simp
next
  case (Cons i "is")
  then have i: "available db i" "si_variant_id i \<noteq> Some 0" by simp_all
  have "available (store_item oid i db) j" if j: "j \<in> set is" for j
  proof -
    have "line_key (line_of i) \<notin> (\<lambda>i. line_key (line_of i)) ` set is" using Cons.prems(2) by simp
    moreover have "line_key (line_of j) \<in> (\<lambda>i. line_key (line_of i)) ` set is" using j by (rule imageI)
    ultimately have "line_key (line_of j) \<noteq> line_key (line_of i)" by (auto simp only:)
    from store_item_exact(2) [OF i this] Cons.prems(1) j show ?thesis by (simp add: list_all_iff)
  qed
  then have "list_all (available (store_item oid i db)) is" by (simp add: list_all_iff)
  from Cons.IH [OF this] Cons.prems show ?case
    by (simp add: store_item_exact(1) [OF i] need_Cons [of "line_of i" "map line_of is"])
qed

definition names_variants :: "line list \<Rightarrow> bool" where
  "names_variants ls \<longleftrightarrow> list_all (\<lambda>l. fst (snd l) \<noteq> Some 0) ls"

lemma real_names: "names_variants ls \<Longrightarrow> real_lines ls = ls"
  by (simp add: names_variants_def list_all_iff filter_id_conv)

lemma create_order_exact:
  assumes "create_shop_order now u ls a m n db = (Some order, db')" "distinct (map line_key ls)" "names_variants ls"
  shows "stock k db' = stock k db - need ls k"
proof -
  from assms(1) obtain "is" where e: "map line_of is = ls" "list_all (available db) is"
    "db' = fold (store_item (so_id order)) is (db\<lparr>shop_orders := shop_orders db @ [order]\<rparr>)"
    by (rule create_order_Some)
  have "available (db\<lparr>shop_orders := shop_orders db @ [order]\<rparr>) = available db"
    by (simp add: fun_eq_iff available_def only_stock_stock)
  with e(2) have "list_all (available (db\<lparr>shop_orders := shop_orders db @ [order]\<rparr>)) is" by simp
  moreover have "distinct (map (\<lambda>i. line_key (line_of i)) is)"
    using assms(2) unfolding e(1) [symmetric] by (simp add: comp_def)
  moreover have "list_all (\<lambda>i. si_variant_id i \<noteq> Some 0) is"
    using assms(3) unfolding e(1) [symmetric] by (simp add: names_variants_def list_all_iff line_of_def)
  ultimately show ?thesis
    by (simp add: e(3) store_items_exact e(1) only_stock_stock)
qed

lemma placed_items_of:
  assumes "shop_inv db" "placed order ls db db'"
  shows "map line_of (order_items_of (so_id order) db') = real_lines ls"
proof -
  from assms(2) obtain new where new: "shop_items db' = shop_items db @ new" "map line_of new = real_lines ls"
    "list_all (\<lambda>i. si_order_id i = so_id order) new"
    by (rule placed_items)
  have "filter (\<lambda>i. si_order_id i = so_id order) (shop_items db) = []"
    using assms by (auto simp: filter_empty_conv shop_inv_def item_ok_def list_all_iff placed_def get_fresh)
  with new(3) have "order_items_of (so_id order) db' = new"
    by (simp add: order_items_of_def new(1) list_all_iff)
  with new(2) show ?thesis by simp
qed

lemma cancel_placed:
  assumes "shop_inv db" "create_shop_order now u ls a m n db = (Some order, db')" "valid_lines ls"
  shows "\<exists>db''. cancel_order t (so_id order) reason db' = (True, db'')
    \<and> shop_orders db'' = shop_orders db @ [cancelled t reason order]
    \<and> (\<forall>k. stock k db'' = stock k db' + need (real_lines ls) k)"
proof -
  note p = create_order_placed [OF assms(2)]
  have inv: "shop_inv db'" by (rule place_inv [OF assms])
  have id: "so_id order = fresh_id so_id (shop_orders db)" using p(1) by (simp add: placed_def)
  have g: "get_row so_id (so_id order) (shop_orders db') = Some order"
    by (simp add: placed_frame [OF p(1)] get_append id get_fresh)
  obtain db'' where c: "cancel_order t (so_id order) reason db' = (True, db'')"
    using g p(3) by (auto simp: cancel_order_def Let_def)
  from inv c obtain ord where o: "get_row so_id (so_id order) (shop_orders db') = Some ord"
    "shop_orders db'' = put_row so_id (cancelled t reason ord) (shop_orders db')"
    by (rule cancel_cases)
  have "put_row so_id (cancelled t reason order) (shop_orders db) = shop_orders db"
    using fresh_id_notin [of so_id "shop_orders db"] by (intro put_row_notin) (simp add: id)
  with o g have "shop_orders db'' = shop_orders db @ [cancelled t reason order]"
    by (simp add: placed_frame [OF p(1)])
  moreover have "stock k db'' = stock k db' + need (real_lines ls) k" for k
  proof -
    have "need (real_lines ls) k = 0" if "\<not> has_key k db'"
      using p(4) that placed_frame(5) [OF p(1)] by (intro need_notin) (auto simp: list_all_iff)
    then show ?thesis
      using cancelled_stock(1) [OF c, of k] by (auto simp: placed_items_of [OF assms(1) p(1)])
  qed
  ultimately show ?thesis using c by blast
qed

section \<open>Prices\<close>

definition shown_price :: "cart_line \<Rightarrow> rat" where
  "shown_price c = (case cv_variant c of None \<Rightarrow> cv_price c | Some (i, n, x) \<Rightarrow> x)"

lemma shown_fields:
  "cv_price (show_cart_item vs i p) = pr_price p" "cv_quantity (show_cart_item vs i p) = ci_quantity i"
  "cv_variant (show_cart_item vs i p) = (case variant_key (ci_variant_id i) of None \<Rightarrow> None
     | Some k \<Rightarrow> (case get_row va_id k vs of None \<Rightarrow> None
                | Some v \<Rightarrow> Some (va_id v, va_name v, variant_price p v)))"
  by (simp_all add: show_cart_item_def)

lemma priced_as_shown:
  assumes "get_row pr_id (ci_product_id i) (products db) = Some p"
    "price_line db (cart_order_line (show_cart_item (variants db) i p)) = Inr item"
  shows "si_total_price item = shown_price (show_cart_item (variants db) i p) * of_int (ci_quantity i)"
  using assms(2) by (auto simp: shown_line price_line_def assms(1) shown_price_def shown_fields Let_def
      check_stock_availability_def split: if_splits option.splits)

lemma cart_member:
  assumes "c \<in> set (get_cart u db)"
  obtains i p where "get_row pr_id (ci_product_id i) (products db) = Some p"
    "c = show_cart_item (variants db) i p" "cv_quantity c = ci_quantity i"
  using assms by (auto simp: get_cart_def shown_fields split: option.splits) metis

lemma map_res_total:
  assumes "\<And>c i. c \<in> set cs \<Longrightarrow> g (h c) = Inr i \<Longrightarrow> f i = e c"
  shows "map_res g (map h cs) = Inr is \<Longrightarrow> map f is = map e cs"
  using assms by (induction cs arbitrary: "is") (auto split: sum.splits)

lemma cart_charged:
  assumes "map_res (price_line db) (map cart_order_line (get_cart u db)) = Inr is"
  shows "map si_total_price is = map (\<lambda>c. shown_price c * of_int (cv_quantity c)) (get_cart u db)"
proof (rule map_res_total [OF _ assms])
  fix c item
  assume "c \<in> set (get_cart u db)" and p: "price_line db (cart_order_line c) = Inr item"
  then obtain i p where "get_row pr_id (ci_product_id i) (products db) = Some p"
    "c = show_cart_item (variants db) i p" "cv_quantity c = ci_quantity i"
    by (blast elim: cart_member)
  with p show "si_total_price item = shown_price c * of_int (cv_quantity c)"
    by (simp add: priced_as_shown)
qed

lemma get_cart_cleared: "get_cart u (clear_cart u db) = []"
  by (simp add: get_cart_def clear_cart_def filter_empty_conv)

section \<open>Example tables\<close>

definition ex_product :: "int \<Rightarrow> string \<Rightarrow> rat \<Rightarrow> int \<Rightarrow> product" where
  "ex_product i name price qty =
     \<lparr>pr_id = i, pr_name = name, pr_description = ''Swappable pack'', pr_category = ''BATTERY'',
      pr_brand = ''Wezu'', pr_sku = name, pr_price = price, pr_capacity_mah = Some 30000,
      pr_warranty_months = 12, pr_stock_quantity = qty, pr_status = ''ACTIVE'', pr_is_featured = False,
      pr_is_bestseller = False, pr_tags = None, pr_average_rating = 4, pr_review_count = 0,
      pr_created_at = i, pr_updated_at = i\<rparr>"

definition ex_shop :: shop_db where
  "ex_shop = \<lparr>products = [ex_product 1 ''Pack-30'' 600 3, ex_product 2 ''Charger'' 100 5],
     variants = [\<lparr>va_id = 1, va_product_id = 1, va_name = ''Red'', va_sku = ''Pack-30-R'',
       va_price = Some 650, va_stock_quantity = 4, va_is_active = True\<rparr>],
     shop_orders = [], shop_items = [], trackings = [], delivery_events = [],
     cart_items = [\<lparr>ci_id = 1, ci_user_id = 7, ci_product_id = 1, ci_variant_id = Some 1, ci_quantity = 2,
       ci_updated_at = 0\<rparr>, \<lparr>ci_id = 2, ci_user_id = 8, ci_product_id = 2, ci_variant_id = None,
       ci_quantity = 1, ci_updated_at = 0\<rparr>],
     shop_wallets = \<lparr>wallets = [], txns = [], withdrawals = [], refunds = [], accounts = [],
       mail = \<lparr>notifications = [], outbox = [], user_ids = []\<rparr>, security_events = [], notices = []\<rparr>\<rparr>"

definition ex_address :: address where
  "ex_address = \<lparr>ad_address = ''1 Main Road'', ad_city = ''Hyderabad'', ad_state = ''TS'',
     ad_pincode = ''500001'', ad_phone = ''+919876543210''\<rparr>"

lemma ex_shop_inv: "shop_inv ex_shop"
  by code_simp

section \<open>Properties\<close>


definition ex_requests :: "(datetime \<times> int \<times> shop_request) list" where
  "ex_requests = [(1, 8, PlaceOrder [(1, None, 3)] ex_address ''UPI'' ''A''),
                  (2, 7, Checkout ex_address ''UPI'' ''B'')]"

lemma ex_requests_ok: "list_all sane ex_requests" "list_all by_customer ex_requests"
  by (simp_all add: ex_requests_def sane_def by_customer_def)





definition ex_lines :: "line list" where
  "ex_lines = [(1, None, 2), (1, Some 1, 4)]"

definition ex_placed :: "shop_order option \<times> shop_db" where
  "ex_placed = create_shop_order 5 7 ex_lines ex_address ''UPI'' ''A'' ex_shop"


lemma repeated_order:
  assumes "get_row pr_id p (products db) = Some r" "0 < q" "q \<le> pr_stock_quantity r"
    "pr_stock_quantity r < 2 * q" "n \<notin> so_number ` set (shop_orders db)"
  shows "\<exists>order db'. create_shop_order now u [(p, None, q), (p, None, q)] a m n db = (Some order, db')
    \<and> stock (Inl p) db' = stock (Inl p) db - q"
proof -
  let ?l = "(p, None, q)"
  have s: "stock (Inl p) db = pr_stock_quantity r" using assms(1) by (simp add: stock_def)
  obtain i where i: "price_line db ?l = Inr i"
    using assms(1,3) by (auto simp: price_line_def check_stock_availability_def variant_key_def Let_def)
  then have l: "line_of i = ?l" and av: "available db i"
    using price_line_Inr [OF i] by (simp_all add: available_def)
  then have f: "si_product_id i = p" "si_variant_id i = None" "si_quantity i = q"
    by (simp_all add: line_of_def)
  let ?o = "new_order now u [i, i] a m n db"
  let ?d = "db\<lparr>shop_orders := shop_orders db @ [?o]\<rparr>"
  have k: "key_of p None = Inl p" by (simp add: key_of_def variant_key_def)
  have e: "create_shop_order now u [?l, ?l] a m n db = (Some ?o, fold (store_item (so_id ?o)) [i, i] ?d)"
    using i assms(5) by (simp add: create_shop_order_def Let_def f)
  have d: "stock (Inl p) ?d = pr_stock_quantity r" "has_key (Inl p) ?d"
    using s av by (simp_all add: only_stock_stock available_def available_stock f k)
  have one: "stock (Inl p) (store_item oid i ?d) = pr_stock_quantity r - q" for oid
    using d assms(3)
    by (simp add: store_item_def reserve_stock_effect only_stock_stock available_stock f k)
  have two: "stock (Inl p) (store_item oid i x) = stock (Inl p) x" if "stock (Inl p) x < q" for oid x
    using that by (simp add: store_item_def reserve_stock_effect only_stock_stock available_stock f k)
  have "stock (Inl p) (fold (store_item (so_id ?o)) [i, i] ?d) = pr_stock_quantity r - q"
    using one two assms(4) by simp
  with e s show ?thesis by auto
qed

text \<open>
  an order that names the same product twice is accepted although the stock covers only one of
  its lines; both are charged, one is reserved, and cancelling the order returns both: the shop then
  has more of the product than before.
\<close>

lemma repeated_line_mints_stock:
  assumes "shop_inv db" "get_row pr_id p (products db) = Some r" "0 < q" "q \<le> pr_stock_quantity r"
    "pr_stock_quantity r < 2 * q" "n \<notin> so_number ` set (shop_orders db)"
  shows "\<exists>order db' db''. create_shop_order now u [(p, None, q), (p, None, q)] a m n db = (Some order, db')
    \<and> cancel_order t (so_id order) reason db' = (True, db'')
    \<and> stock (Inl p) db'' = stock (Inl p) db + q"
proof -
  let ?ls = "[(p, None, q), (p, None, q)]"
  obtain order db' where c: "create_shop_order now u ?ls a m n db = (Some order, db')"
    "stock (Inl p) db' = stock (Inl p) db - q"
    using repeated_order [OF assms(2-6)] by blast
  have "valid_lines ?ls" using assms(3) by (simp add: valid_lines_def)
  from cancel_placed [OF assms(1) c(1) this, of t reason] obtain db'' where
    x: "cancel_order t (so_id order) reason db' = (True, db'')"
    "stock (Inl p) db'' = stock (Inl p) db' + need (real_lines ?ls) (Inl p)" by blast
  have "need (real_lines ?ls) (Inl p) = 2 * q" by (simp add: key_of_def variant_key_def)
  with c x show ?thesis by auto
qed

lemma repeated_line_mints_stock_witness:
  "\<exists>order db' db''. create_shop_order 5 7 [(1, None, 2), (1, None, 2)] ex_address ''UPI'' ''A'' ex_shop = (Some order, db')
    \<and> cancel_order 6 (so_id order) ''no'' db' = (True, db'') \<and> stock (Inl 1) db'' = stock (Inl 1) ex_shop + 2"
  by (rule repeated_line_mints_stock [OF ex_shop_inv, where r = "ex_product 1 ''Pack-30'' 600 3"])
    (simp_all add: ex_shop_def ex_product_def)

text \<open>
  C24: a request of one customer leaves the orders, the order lines and the cart of every other
  customer as they are.
\<close>

theorem customers_are_apart:
  assumes "shop_inv db" "customer_request request" "w \<noteq> u"
  shows "customer_view w (shop_step (now, u, request) db) = customer_view w db"
  by (rule step_view [OF assms(1,3,2)])

lemma customers_are_apart_witness:
  "customer_view 8 (shop_step (3, 7, RemoveFromCart 2) ex_shop) = customer_view 8 ex_shop"
  by (rule customers_are_apart [OF ex_shop_inv]) simp_all

text \<open>
  C25: a checkout charges what the cart shows: the subtotal of the order is the sum of the prices
  shown times the quantities, 18 percent tax and the shipping come on top, and the cart is empty
  afterwards.
\<close>

theorem checkout_charges_the_cart:
  assumes "checkout_cart now u a m n db = Inr (order, db')"
  shows "so_subtotal order = sum_list (map (\<lambda>c. shown_price c * of_int (cv_quantity c)) (get_cart u db))
    \<and> so_total_amount order = so_subtotal order * (118 / 100) + shipping_fee (so_subtotal order)
    \<and> so_user_id order = u \<and> get_cart u db' = []"
proof -
  from assms obtain mid where c:
    "create_shop_order now u (map cart_order_line (get_cart u db)) a m n db = (Some order, mid)"
    "db' = clear_cart u mid"
    by (rule checkout_Inr)
  from c(1) obtain "is" where i: "map_res (price_line db) (map cart_order_line (get_cart u db)) = Inr is"
    "order = new_order now u is a m n db"
    by (rule create_order_Some)
  have "so_subtotal order = sum_list (map si_total_price is)"
    "so_total_amount order = so_subtotal order * (118 / 100) + shipping_fee (so_subtotal order)"
    by (simp_all add: i(2) new_order_def Let_def)
  then show ?thesis by (simp add: cart_charged [OF i(1)] i(2) new_order_fields c(2) get_cart_cleared)
qed

definition ex_checkout :: "(shop_order \<times> shop_db) res" where
  "ex_checkout = checkout_cart 5 7 ex_address ''UPI'' ''A'' ex_shop"

lemma checkout_charges_the_cart_witness:
  "so_subtotal (fst (projr ex_checkout)) = sum_list (map (\<lambda>c. shown_price c * of_int (cv_quantity c)) (get_cart 7 ex_shop))
    \<and> so_total_amount (fst (projr ex_checkout))
        = so_subtotal (fst (projr ex_checkout)) * (118 / 100) + shipping_fee (so_subtotal (fst (projr ex_checkout)))
    \<and> so_user_id (fst (projr ex_checkout)) = 7 \<and> get_cart 7 (snd (projr ex_checkout)) = []"
proof (rule checkout_charges_the_cart)
  have "isl ex_checkout = False" by code_simp
  then show "checkout_cart 5 7 ex_address ''UPI'' ''A'' ex_shop = Inr (fst (projr ex_checkout), snd (projr ex_checkout))"
    unfolding ex_checkout_def [symmetric] by (cases ex_checkout) simp_all
qed

section \<open>Search\<close>

definition search_total :: "search_request \<Rightarrow> product list \<Rightarrow> int" where
  "search_total r ps = int (length (filter (search_matches r) ps))"

definition page_count :: "int \<Rightarrow> int \<Rightarrow> int" where
  "page_count found n = (found + n - 1) div n"

definition rating_ok :: "search_request \<Rightarrow> bool" where
  "rating_ok r = (case sq_min_rating r of None \<Rightarrow> True | Some x \<Rightarrow> 0 \<le> x \<and> x \<le> 5)"

lemma page_count_enough:
  assumes "0 < n" "0 \<le> found"
  shows "found \<le> page_count found n * n" "0 \<le> page_count found n"
proof -
  have "(found + n - 1) mod n \<le> n - 1" using assms pos_mod_bound [of n "found + n - 1"] by simp
  moreover have "page_count found n * n + (found + n - 1) mod n = found + n - 1"
    by (simp add: page_count_def)
  ultimately show "found \<le> page_count found n * n" by linarith
  show "0 \<le> page_count found n" using assms by (simp add: page_count_def pos_imp_zdiv_nonneg_iff)
qed

lemma api_search_page:
  assumes "1 \<le> n" "n \<le> 100" "rating_ok r"
  shows "api_search_products r (int k + 1) n ps =
    Inr \<lparr>sp_items = slice (nat n) (search_order (sq_sort_by r) (filter (search_matches r) ps)) k,
         sp_total_count = search_total r ps, sp_total_pages = page_count (search_total r ps) n\<rparr>"
proof -
  have "nat (int k * n) = k * nat n" using assms(1) by (simp add: nat_mult_distrib)
  with assms show ?thesis
    by (auto simp: api_search_products_def search_products_def as_page_def slice_def search_total_def
        page_count_def rating_ok_def Let_def not_less mult_less_0_iff split: option.splits)
qed

text \<open>Without ties the order of the result does not depend on the order in which rows are read.\<close>

definition no_ties :: "search_request \<Rightarrow> product list \<Rightarrow> bool" where
  "no_ties r ps \<longleftrightarrow> distinct (map (sort_value (sq_sort_by r)) (filter (search_matches r) ps))"

lemma search_order_scan:
  assumes "mset qs = mset ps" "no_ties r ps"
  shows "search_order (sq_sort_by r) (filter (search_matches r) qs)
    = search_order (sq_sort_by r) (filter (search_matches r) ps)"
proof -
  have m: "mset (filter (search_matches r) qs) = mset (filter (search_matches r) ps)"
    using assms(1) by (simp add: mset_filter)
  then have "set (filter (search_matches r) qs) = set (filter (search_matches r) ps)"
    by (rule mset_eq_setD)
  then have "inj_on (sort_value (sq_sort_by r)) (set (filter (search_matches r) qs))"
    using assms(2) by (simp add: no_ties_def distinct_map)
  with m show ?thesis unfolding search_order_def
    by (intro sort_key_inj_key_eq) (simp_all only: mset_sort sorted_sort_key)
qed

lemma search_total_scan: "mset qs = mset ps \<Longrightarrow> search_total r qs = search_total r ps"
  unfolding search_total_def by (metis mset_filter size_mset)


definition ex_search :: search_request where
  "ex_search = \<lparr>sq_query = Some ''PACK'', sq_category = None, sq_brand = None, sq_min_price = None,
     sq_max_price = Some 700, sq_min_capacity = None, sq_max_capacity = None, sq_min_rating = None,
     sq_in_stock_only = True, sq_sort_by = ''price_asc''\<rparr>"

text \<open>The rows are read backwards for every other page.\<close>

definition ex_scan :: "nat \<Rightarrow> product list" where
  "ex_scan k = (if even k then products ex_shop else rev (products ex_shop))"

lemma ex_search_no_ties: "no_ties ex_search (products ex_shop)"
  by code_simp


text \<open>
  A query without wildcards finds the products in whose name, description, brand or tags it
  occurs, whatever the case of the letters: the database's pattern match is that reference.
\<close>

lemma search_is_substring:
  assumes "plain_text q"
  shows "text_matches q p \<longleftrightarrow>
    list_ex (\<lambda>s. is_infix (py_lower q) (py_lower s))
      ([pr_name p, pr_description p, pr_brand p] @ (case pr_tags p of None \<Rightarrow> [] | Some s \<Rightarrow> [s]))"
  unfolding text_matches_def Let_def ilike_plain [OF assms] by (simp split: option.split)

lemma search_is_substring_witness:
  "text_matches ''pACK'' (ex_product 1 ''Pack-30'' 600 3) \<longleftrightarrow>
    list_ex (\<lambda>s. is_infix (py_lower ''pACK'') (py_lower s))
      ([pr_name (ex_product 1 ''Pack-30'' 600 3), pr_description (ex_product 1 ''Pack-30'' 600 3),
        pr_brand (ex_product 1 ''Pack-30'' 600 3)]
       @ (case pr_tags (ex_product 1 ''Pack-30'' 600 3) of None \<Rightarrow> [] | Some s \<Rightarrow> [s]))"
  by (rule search_is_substring) (simp add: plain_text_def)

end
