(* ===== verification/LateFees.thy ===== *)
theory LateFees
  imports Rentals Wallet
begin

text \<open>
  Late fees: \<open>app/services/late_fee_service.py\<close>, the endpoint that shows a fee
  (\<open>app/api/v1/rentals.py\<close>) and the jobs that charge them (\<open>workers/rental_worker.py\<close>,
  \<open>workers/daily_jobs.py\<close>). The tables are those of the rentals and of the wallets. The hours,
  rates and fees are floats: rationals, rounded where the code rounds.
\<close>

record fee_settings =
  cfg_grace_period_hours :: int
  cfg_late_fee_multiplier :: rat

record fee_db =
  fe_rentals :: rental_db
  fe_wallet :: wallet_db

section \<open>The fee of a rental\<close>

record fee_details =
  fd_late_fee :: rat
  fd_hours_late :: rat
  fd_chargeable_hours :: "rat option"
  fd_hourly_rate :: "rat option"
  fd_is_late :: bool

definition not_late :: fee_details where
  "not_late = \<lparr>fd_late_fee = 0, fd_hours_late = 0, fd_chargeable_hours = None, fd_hourly_rate = None,
               fd_is_late = False\<rparr>"

definition hours :: "int \<Rightarrow> rat" where
  "hours d = of_int d / of_int hour"

text \<open>\<open>((expected_end - start_time).total_seconds() / 3600) or 24\<close>\<close>

definition rental_hourly_rate :: "rental \<Rightarrow> rat" where
  "rental_hourly_rate r =
     (let h = hours (rn_expected_end_time r - rn_start_time r)
      in rn_total_amount r / (if h = 0 then 24 else h))"

text \<open>The details at the time the rental ended, or now when it has not.\<close>

definition fee_at :: "fee_settings \<Rightarrow> datetime \<Rightarrow> rental \<Rightarrow> fee_details" where
  "fee_at cfg at_time r =
     (if at_time \<le> rn_expected_end_time r then not_late
      else
        let hours_late = hours (at_time - rn_expected_end_time r);
            grace = of_int (cfg_grace_period_hours cfg)
        in if hours_late \<le> grace
           then \<lparr>fd_late_fee = 0, fd_hours_late = round2 hours_late, fd_chargeable_hours = None,
                 fd_hourly_rate = None, fd_is_late = True\<rparr>
           else
             let chargeable_hours = hours_late - grace;
                 rate = rental_hourly_rate r;
                 late_fee = chargeable_hours * rate * cfg_late_fee_multiplier cfg
             in \<lparr>fd_late_fee = round2 late_fee, fd_hours_late = round2 hours_late,
                 fd_chargeable_hours = Some (round2 chargeable_hours), fd_hourly_rate = Some (round2 rate),
                 fd_is_late = True\<rparr>)"

definition fee_of :: "fee_settings \<Rightarrow> datetime \<Rightarrow> rental \<Rightarrow> fee_details" where
  "fee_of cfg now r = fee_at cfg (case rn_end_time r of None \<Rightarrow> now | Some e \<Rightarrow> e) r"

definition calculate_late_fee :: "fee_settings \<Rightarrow> datetime \<Rightarrow> int \<Rightarrow> rental_db \<Rightarrow> fee_details" where
  "calculate_late_fee cfg now rental_id s =
     (case get_row rn_id rental_id (rentals s) of None \<Rightarrow> not_late | Some r \<Rightarrow> fee_of cfg now r)"

text \<open>\<open>GET /rentals/{id}/late-fees\<close>\<close>

definition get_late_fees ::
    "fee_settings \<Rightarrow> datetime \<Rightarrow> int \<Rightarrow> bool \<Rightarrow> int \<Rightarrow> rental_db \<Rightarrow> fee_details res" where
  "get_late_fees cfg now user_id is_superuser rental_id s =
     (case get_row rn_id rental_id (rentals s) of
        None \<Rightarrow> Inl (HTTPException 404 ''Rental not found'')
      | Some r \<Rightarrow>
          if rn_user_id r \<noteq> user_id \<and> \<not> is_superuser
          then Inl (HTTPException 404 ''Rental not found'')
          else Inr (calculate_late_fee cfg now rental_id s))"

section \<open>Charging\<close>

text \<open>\<open>int(hours_late // 24)\<close>\<close>

definition overdue_days :: "fee_details \<Rightarrow> int" where
  "overdue_days d = \<lfloor>fd_hours_late d / 24\<rfloor>"

definition updated_fee :: "datetime \<Rightarrow> fee_details \<Rightarrow> late_fee \<Rightarrow> late_fee" where
  "updated_fee now d fee =
     fee\<lparr>lf_days_overdue := overdue_days d, lf_total_late_fee := fd_late_fee d,
         lf_amount_outstanding := fd_late_fee d - lf_amount_paid fee - lf_amount_waived fee,
         lf_updated_at := now\<rparr>"

definition new_fee :: "datetime \<Rightarrow> datetime \<Rightarrow> fee_details \<Rightarrow> rental \<Rightarrow> late_fee list \<Rightarrow> late_fee" where
  "new_fee now end_time d r fees =
     \<lparr>lf_id = fresh_id lf_id fees, lf_rental_id = rn_id r, lf_user_id = rn_user_id r,
      lf_original_end_date = end_time, lf_days_overdue = overdue_days d,
      lf_daily_rate = (case fd_hourly_rate d of None \<Rightarrow> 0 | Some x \<Rightarrow> x * 24),
      lf_base_late_fee = fd_late_fee d, lf_total_late_fee = fd_late_fee d, lf_amount_paid = 0,
      lf_amount_waived = 0, lf_amount_outstanding = fd_late_fee d, lf_payment_status = ''PENDING'',
      lf_updated_at = now\<rparr>"

text \<open>The transaction that shows the fee; it belongs to no wallet.\<close>

definition fee_txn :: "datetime \<Rightarrow> fee_details \<Rightarrow> rental \<Rightarrow> wallet_db \<Rightarrow> txn" where
  "fee_txn now d r s =
     \<lparr>tx_id = fresh_id tx_id (txns s), tx_user_id = rn_user_id r, tx_wallet_id = None,
      tx_amount = round_half_even (100 * fd_late_fee d), tx_balance_after = None, tx_type = None,
      tx_category = None, tx_status = ''PENDING'',
      tx_description = ''Late fee for {fee_details['hours_late']:.1f} hours overdue'',
      tx_payment_id = None, tx_reference_type = None, tx_reference_id = None, tx_created_at = now\<rparr>"

text \<open>
  \<open>original_end_date=rental.end_time\<close> may not be null: the insert for a rental that has not ended
  fails, the exception is caught, and \<open>None\<close> is returned.
\<close>

definition apply_late_fee ::
    "fee_settings \<Rightarrow> datetime \<Rightarrow> int \<Rightarrow> fee_db \<Rightarrow> late_fee option \<times> fee_db" where
  "apply_late_fee cfg now rental_id db =
     (let s = fe_rentals db
      in case get_row rn_id rental_id (rentals s) of
           None \<Rightarrow> (None, db)
         | Some r \<Rightarrow>
             let d = calculate_late_fee cfg now rental_id s
             in if fd_late_fee d \<le> 0 then (None, db)
                else
                  case List.find (\<lambda>l. lf_rental_id l = rental_id) (late_fees s) of
                    Some fee \<Rightarrow>
                      let fee' = updated_fee now d fee
                      in (Some fee', db\<lparr>fe_rentals := s\<lparr>late_fees := put_row lf_id fee' (late_fees s)\<rparr>\<rparr>)
                  | None \<Rightarrow>
                      (case rn_end_time r of
                         None \<Rightarrow> (None, db)
                       | Some e \<Rightarrow>
                           let fee = new_fee now e d r (late_fees s)
                           in (Some fee,
                               \<lparr>fe_rentals = s\<lparr>late_fees := late_fees s @ [fee]\<rparr>,
                                fe_wallet = add_txn (fee_txn now d r (fe_wallet db)) (fe_wallet db)\<rparr>)))"

definition is_overdue :: "datetime \<Rightarrow> rental \<Rightarrow> bool" where
  "is_overdue now r \<longleftrightarrow> rn_status r = ''active'' \<and> rn_expected_end_time r < now"

definition get_overdue_rentals :: "fee_settings \<Rightarrow> datetime \<Rightarrow> rental_db \<Rightarrow> (int \<times> fee_details) list" where
  "get_overdue_rentals cfg now s =
     map (\<lambda>r. (rn_id r, calculate_late_fee cfg now (rn_id r) s)) (filter (is_overdue now) (rentals s))"

text \<open>\<open>late_fee_calculation\<close>: the number of overdue rentals, of fees, and their sum.\<close>

definition charge_next ::
    "fee_settings \<Rightarrow> datetime \<Rightarrow> int \<times> fee_details \<Rightarrow> (int \<times> rat) \<times> fee_db \<Rightarrow> (int \<times> rat) \<times> fee_db" where
  "charge_next cfg now item st =
     (case st of ((fees_applied, total_fees), db) \<Rightarrow>
        (case apply_late_fee cfg now (fst item) db of
           (None, db') \<Rightarrow> ((fees_applied, total_fees), db')
         | (Some fee, db') \<Rightarrow> ((fees_applied + 1, total_fees + lf_total_late_fee fee), db')))"

definition late_fee_calculation ::
    "fee_settings \<Rightarrow> datetime \<Rightarrow> fee_db \<Rightarrow> (int \<times> int \<times> rat) \<times> fee_db" where
  "late_fee_calculation cfg now db =
     (let overdue = get_overdue_rentals cfg now (fe_rentals db)
      in case fold (charge_next cfg now) overdue ((0, 0), db) of
           ((fees_applied, total_fees), db') \<Rightarrow> ((int (length overdue), fees_applied, total_fees), db'))"

text \<open>\<open>process_overdue_rentals\<close> counts a fee as applied whatever the service returned.\<close>

definition process_overdue_rentals ::
    "fee_settings \<Rightarrow> datetime \<Rightarrow> fee_db \<Rightarrow> (int \<times> int) \<times> fee_db" where
  "process_overdue_rentals cfg now db =
     (let overdue = get_overdue_rentals cfg now (fe_rentals db)
      in ((int (length overdue), int (length overdue)),
          fold (\<lambda>item d. snd (apply_late_fee cfg now (fst item) d)) overdue db))"

section \<open>Paying\<close>

text \<open>
  The fee is marked as paid, and the deduction commits both; when it raises, neither is kept.
\<close>

definition pay_late_fee :: "datetime \<Rightarrow> int \<Rightarrow> fee_db \<Rightarrow> (bool \<times> fee_db) res" where
  "pay_late_fee now rental_id db =
     (let s = fe_rentals db
      in case List.find (\<lambda>l. lf_rental_id l = rental_id) (late_fees s) of
           None \<Rightarrow> Inr (False, db)
         | Some fee \<Rightarrow>
             if lf_amount_outstanding fee \<le> 0 then Inr (False, db)
             else
               let outstanding = lf_amount_outstanding fee;
                   fee' = fee\<lparr>lf_amount_paid := lf_amount_paid fee + outstanding,
                              lf_amount_outstanding := 0, lf_payment_status := ''PAID'',
                              lf_updated_at := now\<rparr>
               in case deduct_balance now (lf_user_id fee) (Some (Finite outstanding))
                         (''Late Fee Payment for Rental '' @ show_int rental_id) (fe_wallet db) of
                    Inl e \<Rightarrow> Inl e
                  | Inr (w, ws) \<Rightarrow>
                      Inr (True, \<lparr>fe_rentals = s\<lparr>late_fees := put_row lf_id fee' (late_fees s)\<rparr>,
                                  fe_wallet = ws\<rparr>))"

end
