(* ===== verification/LateFeesInv.thy ===== *)
theory LateFeesInv
  imports LateFees RentalInv WalletInv
begin

text \<open>
  Late fees: how the fee grows with the delay, that charging, waiving and paying keep the account of
  a fee, what a payment does to the wallet, and that no fee is ever created for a rental that is
  still open.
\<close>

section \<open>The fee over time\<close>

lemma hours_mono: "a \<le> b \<Longrightarrow> hours a \<le> hours b"
  by (simp add: hours_def divide_right_mono)

lemma hours_nonneg: "0 \<le> a \<Longrightarrow> 0 \<le> hours a"
  by (simp add: hours_def)

lemma rate_nonneg:
  assumes "rn_start_time r \<le> rn_expected_end_time r" "0 \<le> rn_total_amount r"
  shows "0 \<le> rental_hourly_rate r"
  using hours_nonneg [of "rn_expected_end_time r - rn_start_time r"] assms
  by (simp add: rental_hourly_rate_def Let_def)

text \<open>What is charged for a delay of \<open>h\<close> hours, before it is rounded.\<close>

definition charge :: "fee_settings \<Rightarrow> rental \<Rightarrow> rat \<Rightarrow> rat" where
  "charge cfg r h = max 0 (h - of_int (cfg_grace_period_hours cfg)) * (rental_hourly_rate r * cfg_late_fee_multiplier cfg)"

lemma round_half_even_0 [simp]: "round_half_even 0 = 0"
  using round_half_even_of_int [of 0] by simp

lemma fee_at_charge:
  assumes "0 \<le> cfg_grace_period_hours cfg"
  shows "fd_late_fee (fee_at cfg t r) = round2 (charge cfg r (hours (t - rn_expected_end_time r)))"
proof (cases "t \<le> rn_expected_end_time r")
  case True
  then have "hours (t - rn_expected_end_time r) \<le> 0"
    using hours_mono [of "t - rn_expected_end_time r" 0] by (simp add: hours_def)
  with assms have "charge cfg r (hours (t - rn_expected_end_time r)) = 0"
    by (simp add: charge_def max_def)
  with True show ?thesis
    using round_half_even_of_int [of 0] by (simp add: fee_at_def not_late_def round2_def)
next
  case False
  then show ?thesis
    by (auto simp: fee_at_def Let_def charge_def max_def round2_def mult.assoc)
qed

definition chargeable :: "fee_settings \<Rightarrow> rental \<Rightarrow> bool" where
  "chargeable cfg r \<longleftrightarrow> 0 \<le> cfg_grace_period_hours cfg \<and> 0 \<le> cfg_late_fee_multiplier cfg
     \<and> rn_start_time r \<le> rn_expected_end_time r \<and> 0 \<le> rn_total_amount r"

lemma charge_mono:
  assumes "chargeable cfg r" "a \<le> b"
  shows "charge cfg r a \<le> charge cfg r b"
  unfolding charge_def using assms rate_nonneg [of r]
  by (intro mult_right_mono mult_nonneg_nonneg) (auto simp: chargeable_def)

lemma charge_nonneg: "chargeable cfg r \<Longrightarrow> 0 \<le> charge cfg r h"
  unfolding charge_def using rate_nonneg [of r]
  by (intro mult_nonneg_nonneg) (auto simp: chargeable_def)

section \<open>The account of a fee\<close>

definition is_paise :: "rat \<Rightarrow> bool" where
  "is_paise x \<longleftrightarrow> of_int \<lfloor>100 * x\<rfloor> = 100 * x"

lemma is_paise_iff: "is_paise x \<longleftrightarrow> (\<exists>c. x = of_int c / 100)"
proof
  assume "is_paise x"
  moreover have "x = (100 * x) / 100" by simp
  ultimately have "x = of_int \<lfloor>100 * x\<rfloor> / 100" unfolding is_paise_def by argo
  then show "\<exists>c. x = of_int c / 100" by blast
next
  assume "\<exists>c. x = of_int c / 100"
  then obtain c where "x = of_int c / 100" by blast
  then have "100 * x = of_int c" by simp
  then show "is_paise x" by (simp only: is_paise_def floor_of_int)
qed

lemma is_paise_round2: "is_paise (round2 x)"
  by (auto simp: is_paise_iff round2_def)

lemma is_paise_of_int: "is_paise (of_int c / 100)"
  by (auto simp: is_paise_iff)

lemma is_paise_0: "is_paise 0"
  by (simp add: is_paise_def)

lemma is_paise_diff: "is_paise x \<Longrightarrow> is_paise y \<Longrightarrow> is_paise (x - y)"
  by (auto simp: is_paise_iff simp flip: diff_divide_distrib of_int_diff)

lemma is_paise_add: "is_paise x \<Longrightarrow> is_paise y \<Longrightarrow> is_paise (x + y)"
  by (auto simp: is_paise_iff simp flip: add_divide_distrib of_int_add)

definition fee_ok :: "late_fee \<Rightarrow> bool" where
  "fee_ok l \<longleftrightarrow> lf_total_late_fee l = lf_amount_paid l + lf_amount_waived l + lf_amount_outstanding l
     \<and> is_paise (lf_amount_paid l) \<and> is_paise (lf_amount_waived l) \<and> is_paise (lf_amount_outstanding l)"

definition fees_ok :: "rental_db \<Rightarrow> bool" where
  "fees_ok s \<longleftrightarrow> distinct (map lf_id (late_fees s)) \<and> distinct (map lf_rental_id (late_fees s))
     \<and> list_all fee_ok (late_fees s)"

lemma fee_at_paise: "is_paise (fd_late_fee (fee_at cfg t r))"
  by (auto simp: fee_at_def Let_def not_late_def is_paise_0 is_paise_round2)

lemma calculate_paise: "is_paise (fd_late_fee (calculate_late_fee cfg now i s))"
  by (auto simp: calculate_late_fee_def fee_of_def fee_at_paise not_late_def is_paise_0 split: option.split)

lemma updated_fee_ok:
  "fee_ok l \<Longrightarrow> is_paise (fd_late_fee d) \<Longrightarrow> fee_ok (updated_fee now d l)"
  by (simp add: fee_ok_def updated_fee_def is_paise_diff)

lemma new_fee_ok: "is_paise (fd_late_fee d) \<Longrightarrow> fee_ok (new_fee now e d r fees)"
  by (simp add: fee_ok_def new_fee_def is_paise_0)

lemma fees_ok_put:
  assumes "fees_ok s" "l \<in> set (late_fees s)" "lf_id l' = lf_id l" "lf_rental_id l' = lf_rental_id l" "fee_ok l'"
  shows "fees_ok (s\<lparr>late_fees := put_row lf_id l' (late_fees s)\<rparr>)"
  using assms map_put_row [of lf_id "late_fees s" l l' lf_rental_id]
  by (auto simp: fees_ok_def list_all_iff dest: in_put_row)

lemma apply_late_fee_cases:
  assumes "apply_late_fee cfg now i db = (f, db')"
  obtains (nothing) "f = None" "db' = db"
  | (update) l d where "l \<in> set (late_fees (fe_rentals db))" "lf_rental_id l = i" "is_paise (fd_late_fee d)"
      "f = Some (updated_fee now d l)" "fe_wallet db' = fe_wallet db"
      "fe_rentals db' = (fe_rentals db)\<lparr>late_fees := put_row lf_id (updated_fee now d l) (late_fees (fe_rentals db))\<rparr>"
  | (insert) r e d where "get_row rn_id i (rentals (fe_rentals db)) = Some r" "rn_end_time r = Some e"
      "i \<notin> lf_rental_id ` set (late_fees (fe_rentals db))" "is_paise (fd_late_fee d)"
      "f = Some (new_fee now e d r (late_fees (fe_rentals db)))"
      "fe_wallet db' = add_txn (fee_txn now d r (fe_wallet db)) (fe_wallet db)"
      "fe_rentals db' = (fe_rentals db)\<lparr>late_fees := late_fees (fe_rentals db)
         @ [new_fee now e d r (late_fees (fe_rentals db))]\<rparr>"
proof (cases "get_row rn_id i (rentals (fe_rentals db))")
  case None
  with assms have "f = None" "db' = db" by (auto simp: apply_late_fee_def)
  then show ?thesis by (rule nothing)
next
  case (Some r)
  let ?d = "calculate_late_fee cfg now i (fe_rentals db)"
  show ?thesis
  proof (cases "fd_late_fee ?d \<le> 0")
    case True
    with Some assms have "f = None" "db' = db" by (auto simp: apply_late_fee_def)
    then show ?thesis by (rule nothing)
  next
    case pos: False
    show ?thesis
    proof (cases "List.find (\<lambda>l. lf_rental_id l = i) (late_fees (fe_rentals db))")
      case found: (Some l)
      from find_Some [OF found] have l: "l \<in> set (late_fees (fe_rentals db))" "lf_rental_id l = i"
        by simp_all
      show ?thesis
        by (rule update [OF l calculate_paise [of cfg now i "fe_rentals db"]])
          (use Some pos found assms in \<open>auto simp: apply_late_fee_def Let_def\<close>)
    next
      case none: None
      then have new: "i \<notin> lf_rental_id ` set (late_fees (fe_rentals db))" by (auto simp: find_None)
      show ?thesis
      proof (cases "rn_end_time r")
        case None
        with Some pos none assms have "f = None" "db' = db" by (auto simp: apply_late_fee_def)
        then show ?thesis by (rule nothing)
      next
        case e: (Some e)
        show ?thesis
          by (rule insert [OF Some e new calculate_paise [of cfg now i "fe_rentals db"]])
            (use Some pos none e assms in \<open>auto simp: apply_late_fee_def Let_def\<close>)
      qed
    qed
  qed
qed

lemma apply_late_fee_ok:
  assumes "fees_ok (fe_rentals db)" "apply_late_fee cfg now i db = (f, db')"
  shows "fees_ok (fe_rentals db')"
  using assms(2)
proof (cases rule: apply_late_fee_cases)
  case nothing
  with assms(1) show ?thesis by simp
next
  case (update l d)
  have "fee_ok l" using assms(1) update(1) by (simp add: fees_ok_def list_all_iff)
  then show ?thesis unfolding update(6) using assms(1) update(1,3)
    by (intro fees_ok_put [of _ l]) (simp_all add: updated_fee_ok, simp_all add: updated_fee_def)
next
  case (insert r e d)
  have "rn_id r = i" using get_row_Some [OF insert(1)] by simp
  with insert(3) fresh_id_notin [of lf_id "late_fees (fe_rentals db)"] assms(1) new_fee_ok [OF insert(4)]
  show ?thesis by (simp add: insert(7) fees_ok_def) (simp add: new_fee_def)
qed

lemma pay_late_fee_cases:
  assumes "pay_late_fee now i db = Inr (b, db')"
  obtains (refused) "b = False" "db' = db"
  | (paid) l w where "l \<in> set (late_fees (fe_rentals db))" "lf_rental_id l = i" "0 < lf_amount_outstanding l"
      "List.find (\<lambda>l. lf_rental_id l = i) (late_fees (fe_rentals db)) = Some l"
      "b = True" "deduct_balance now (lf_user_id l) (Some (Finite (lf_amount_outstanding l)))
         (''Late Fee Payment for Rental '' @ show_int i) (fe_wallet db) = Inr (w, fe_wallet db')"
      "fe_rentals db' = (fe_rentals db)\<lparr>late_fees := put_row lf_id
         (l\<lparr>lf_amount_paid := lf_amount_paid l + lf_amount_outstanding l, lf_amount_outstanding := 0,
            lf_payment_status := ''PAID'', lf_updated_at := now\<rparr>) (late_fees (fe_rentals db))\<rparr>"
proof (cases "List.find (\<lambda>l. lf_rental_id l = i) (late_fees (fe_rentals db))")
  case None
  with assms have "b = False" "db' = db" by (auto simp: pay_late_fee_def)
  then show ?thesis by (rule refused)
next
  case (Some l)
  from find_Some [OF Some] have l: "l \<in> set (late_fees (fe_rentals db))" "lf_rental_id l = i" by simp_all
  show ?thesis
  proof (cases "lf_amount_outstanding l \<le> 0")
    case True
    with Some assms have "b = False" "db' = db" by (auto simp: pay_late_fee_def)
    then show ?thesis by (rule refused)
  next
    case False
    with Some assms obtain w ws where w: "deduct_balance now (lf_user_id l) (Some (Finite (lf_amount_outstanding l)))
         (''Late Fee Payment for Rental '' @ show_int i) (fe_wallet db) = Inr (w, ws)"
      by (auto simp: pay_late_fee_def Let_def split: sum.splits)
    show ?thesis
      by (rule paid [OF l _ Some, of w]) (use False Some assms w in \<open>auto simp: pay_late_fee_def Let_def\<close>)
  qed
qed

lemma pay_late_fee_ok:
  assumes "fees_ok (fe_rentals db)" "pay_late_fee now i db = Inr (b, db')"
  shows "fees_ok (fe_rentals db')"
  using assms(2)
proof (cases rule: pay_late_fee_cases)
  case refused
  with assms(1) show ?thesis by simp
next
  case (paid l w)
  have "fee_ok l" using assms(1) paid(1) by (simp add: fees_ok_def list_all_iff)
  then show ?thesis unfolding paid(7) using assms(1) paid(1)
    by (intro fees_ok_put [of _ l]) (simp_all add: fee_ok_def is_paise_0 is_paise_add)
qed

lemma rental_money_exact:
  assumes "is_paise x" "rental_money x = Inr c"
  shows "x = of_int c / 100"
proof -
  from assms(1) obtain k where k: "x = of_int k / 100" by (auto simp: is_paise_iff)
  with assms(2) have "c = k"
    by (auto simp: rental_money_def rental_to_money_def Let_def split: if_splits)
  with k show ?thesis by simp
qed

lemma review_waiver_ok:
  assumes "fees_ok s" "review_late_fee_waiver now i who ok a notes s = Inr (v, s')"
  shows "fees_ok s'"
proof (cases ok)
  case False
  with assms(2) have "late_fees s' = late_fees s"
    by (auto simp: review_late_fee_waiver_def Let_def split: option.splits if_splits)
  with assms(1) show ?thesis by (simp add: fees_ok_def)
next
  case True
  with assms(2) have "review_late_fee_waiver now i who True a notes s = Inr (v, s')" by simp
  then show ?thesis
  proof (cases rule: review_waiverE)
    case (1 w fee waived due t fee')
    have fee: "fee \<in> set (late_fees s)" using get_row_Some [OF 1(3)] by simp
    then have ok: "fee_ok fee" using assms(1) by (simp add: fees_ok_def list_all_iff)
    have "lf_amount_waived fee = of_int waived / 100" "lf_amount_outstanding fee = of_int due / 100"
      by (rule rental_money_exact [OF _ 1(4)] rental_money_exact [OF _ 1(5)], use ok in \<open>simp add: fee_ok_def\<close>)+
    then have "lf_amount_waived fee + lf_amount_outstanding fee = of_int (waived + t) / 100 + of_int (due - t) / 100"
      by (simp add: field_simps)
    moreover have sel: "lf_amount_waived fee' = of_int (waived + t) / 100"
      "lf_amount_outstanding fee' = of_int (due - t) / 100" "lf_amount_paid fee' = lf_amount_paid fee"
      "lf_total_late_fee fee' = lf_total_late_fee fee"
      unfolding 1(8) by simp_all
    ultimately have "fee_ok fee'"
      using ok is_paise_of_int [of "waived + t"] is_paise_of_int [of "due - t"]
      unfolding fee_ok_def sel by (elim conjE, intro conjI) (linarith | assumption)+
    with fees_ok_put [OF assms(1) fee, of fee'] have "fees_ok (s\<lparr>late_fees := put_row lf_id fee' (late_fees s)\<rparr>)"
      by (simp add: 1(8))
    then show ?thesis by (simp add: fees_ok_def 1(9))
  qed
qed

section \<open>What the administrators' endpoint keeps\<close>

text \<open>
  The endpoint for waivers checks no amount: it may waive more than is due. What is outstanding is
  what neither a payment nor a waiver covers, or nothing where they cover more than the total.
\<close>

definition fee_balanced :: "late_fee \<Rightarrow> bool" where
  "fee_balanced l \<longleftrightarrow> lf_amount_outstanding l = lf_total_late_fee l - lf_amount_paid l - lf_amount_waived l
     \<or> lf_amount_outstanding l = 0 \<and> lf_total_late_fee l < lf_amount_paid l + lf_amount_waived l"

definition fees_balanced :: "rental_db \<Rightarrow> bool" where
  "fees_balanced s \<longleftrightarrow> distinct (map lf_id (late_fees s)) \<and> distinct (map lf_rental_id (late_fees s))
     \<and> list_all fee_balanced (late_fees s)"

lemma fees_ok_balanced: "fees_ok s \<Longrightarrow> fees_balanced s"
  by (auto simp: fees_ok_def fees_balanced_def list_all_iff fee_ok_def fee_balanced_def)

lemma updated_fee_balanced: "fee_balanced (updated_fee now d l)"
  by (simp add: fee_balanced_def updated_fee_def)

lemma new_fee_balanced: "fee_balanced (new_fee now e d r fees)"
  by (simp add: fee_balanced_def new_fee_def)

lemma granted_fee_balanced: "fee_balanced (granted_fee a l)"
  by (auto simp: fee_balanced_def granted_fee_def Let_def max_def)

lemma fees_balanced_put:
  assumes "fees_balanced s" "l \<in> set (late_fees s)" "lf_id l' = lf_id l" "lf_rental_id l' = lf_rental_id l"
    "fee_balanced l'"
  shows "fees_balanced (s\<lparr>late_fees := put_row lf_id l' (late_fees s)\<rparr>)"
  using assms map_put_row [of lf_id "late_fees s" l l' lf_rental_id]
  by (auto simp: fees_balanced_def list_all_iff dest: in_put_row)

lemma apply_late_fee_balanced:
  assumes "fees_balanced (fe_rentals db)" "apply_late_fee cfg now i db = (f, db')"
  shows "fees_balanced (fe_rentals db')"
  using assms(2)
proof (cases rule: apply_late_fee_cases)
  case nothing
  with assms(1) show ?thesis by simp
next
  case (update l d)
  show ?thesis unfolding update(6)
    by (rule fees_balanced_put [OF assms(1) update(1) _ _ updated_fee_balanced]) (simp_all add: updated_fee_def)
next
  case (insert r e d)
  have "rn_id r = i" using get_row_Some [OF insert(1)] by simp
  with insert(3) fresh_id_notin [of lf_id "late_fees (fe_rentals db)"] assms(1) new_fee_balanced
  show ?thesis by (simp add: insert(7) fees_balanced_def) (simp add: new_fee_def)
qed

lemma pay_late_fee_balanced:
  assumes "fees_balanced (fe_rentals db)" "pay_late_fee now i db = Inr (b, db')"
  shows "fees_balanced (fe_rentals db')"
  using assms(2)
proof (cases rule: pay_late_fee_cases)
  case refused
  with assms(1) show ?thesis by simp
next
  case (paid l w)
  have "fee_balanced l" using assms(1) paid(1) by (simp add: fees_balanced_def list_all_iff)
  with paid(3) have "lf_total_late_fee l = lf_amount_paid l + lf_amount_outstanding l + lf_amount_waived l"
    by (auto simp: fee_balanced_def)
  then show ?thesis unfolding paid(7)
    by (intro fees_balanced_put [OF assms(1) paid(1)]) (simp_all add: fee_balanced_def)
qed

lemma review_waiver_fees:
  assumes "review_waiver now u i st a notes s = Inr (v, s')"
  obtains (kept) "late_fees s' = late_fees s"
  | (granted) l x where "l \<in> set (late_fees s)" "a = Some x"
      "late_fees s' = put_row lf_id (granted_fee x l) (late_fees s)"
proof (cases "late_fees s' = late_fees s")
  case True
  then show ?thesis by (rule kept)
next
  case False
  with assms have "\<exists>l x. l \<in> set (late_fees s) \<and> a = Some x
      \<and> late_fees s' = put_row lf_id (granted_fee x l) (late_fees s)"
    by (auto simp: review_waiver_def Let_def dest!: get_row_Some split: option.splits if_splits)
  then show ?thesis by (elim exE conjE) (rule granted)
qed

lemma review_waiver_balanced:
  assumes "fees_balanced s" "review_waiver now u i st a notes s = Inr (v, s')"
  shows "fees_balanced s'"
  using assms(2)
proof (cases rule: review_waiver_fees)
  case kept
  with assms(1) show ?thesis by (simp add: fees_balanced_def)
next
  case (granted l x)
  have "fees_balanced (s\<lparr>late_fees := put_row lf_id (granted_fee x l) (late_fees s)\<rparr>)"
    by (rule fees_balanced_put [OF assms(1) granted(1) _ _ granted_fee_balanced])
      (simp_all add: granted_fee_def Let_def)
  then show ?thesis by (simp add: fees_balanced_def granted(3))
qed

section \<open>Runs\<close>

text \<open>
  What changes a fee: a charge, a job, a payment, the answer of an administrator to a waiver request.
  The service's own \<open>review_late_fee_waiver\<close> has no caller; it keeps \<open>fees_ok\<close> (\<open>review_waiver_ok\<close>).
\<close>

inductive fee_step :: "fee_settings \<Rightarrow> fee_db \<Rightarrow> fee_db \<Rightarrow> bool" for cfg where
  charge: "apply_late_fee cfg now i db = (f, db') \<Longrightarrow> fee_step cfg db db'"
| daily_job: "late_fee_calculation cfg now db = (n, db') \<Longrightarrow> fee_step cfg db db'"
| worker: "process_overdue_rentals cfg now db = (n, db') \<Longrightarrow> fee_step cfg db db'"
| pay: "pay_late_fee now i db = Inr (b, db') \<Longrightarrow> fee_step cfg db db'"
| waive: "review_waiver now u i st a notes (fe_rentals db) = Inr (v, s) \<Longrightarrow>
    fee_step cfg db (db\<lparr>fe_rentals := s\<rparr>)"

interpretation charging: stable_step "\<lambda>(cfg, now, i) db. snd (apply_late_fee cfg now i db)" "\<lambda>_. True"
  "\<lambda>db. fees_balanced (fe_rentals db)"
  by unfold_locales (auto intro: apply_late_fee_balanced simp: prod_eq_iff)

lemma charge_next_snd: "snd (fold (charge_next cfg now) items st)
    = fold (\<lambda>item d. snd (apply_late_fee cfg now (fst item) d)) items (snd st)"
  by (induction items arbitrary: st)
    (auto simp: charge_next_def split: prod.splits option.splits)

lemma charge_all: "fold (\<lambda>item d. snd (apply_late_fee cfg now (fst item) d)) items db
    = fold (\<lambda>(cfg, now, i) db. snd (apply_late_fee cfg now i db)) (map (\<lambda>item. (cfg, now, fst item)) items) db"
  by (simp add: fold_map comp_def)

lemma charge_all_balanced:
  assumes "fees_balanced (fe_rentals db)"
  shows "fees_balanced (fe_rentals (fold (\<lambda>item d. snd (apply_late_fee cfg now (fst item) d)) items db))"
  unfolding charge_all by (rule charging.fold_stable [OF _ assms]) (simp add: list_all_iff)

lemma late_fee_calculation_db:
  "snd (late_fee_calculation cfg now db) = fold (\<lambda>item d. snd (apply_late_fee cfg now (fst item) d))
     (get_overdue_rentals cfg now (fe_rentals db)) db"
  using charge_next_snd [of cfg now "get_overdue_rentals cfg now (fe_rentals db)" "((0, 0), db)"]
  by (cases "fold (charge_next cfg now) (get_overdue_rentals cfg now (fe_rentals db)) ((0, 0), db)")
    (auto simp: late_fee_calculation_def Let_def split: prod.split)

lemma fee_step_balanced:
  "fee_step cfg db db' \<Longrightarrow> fees_balanced (fe_rentals db) \<Longrightarrow> fees_balanced (fe_rentals db')"
proof (induction rule: fee_step.induct)
  case (daily_job now db n db')
  then show ?case using late_fee_calculation_db [of cfg now db] charge_all_balanced by simp
next
  case (worker now db n db')
  then show ?case by (auto simp: process_overdue_rentals_def Let_def intro: charge_all_balanced)
qed (auto intro: apply_late_fee_balanced pay_late_fee_balanced review_waiver_balanced)

lemma fee_run_balanced:
  "(fee_step cfg)\<^sup>*\<^sup>* db db' \<Longrightarrow> fees_balanced (fe_rentals db) \<Longrightarrow> fees_balanced (fe_rentals db')"
  by (induction rule: rtranclp_induct) (auto intro: fee_step_balanced)

section \<open>Rentals that have not ended\<close>

definition running_overdue :: "datetime \<Rightarrow> rental_db \<Rightarrow> bool" where
  "running_overdue now s \<longleftrightarrow>
     distinct (map rn_id (rentals s)) \<and> list_all (\<lambda>r. \<not> is_overdue now r \<or> rn_end_time r = None) (rentals s)"

lemma apply_running:
  assumes "get_row rn_id i (rentals (fe_rentals db)) = Some r" "rn_end_time r = None"
    "i \<notin> lf_rental_id ` set (late_fees (fe_rentals db))"
  shows "apply_late_fee cfg now i db = (None, db)"
proof -
  obtain f db' where a: "apply_late_fee cfg now i db = (f, db')" by (cases "apply_late_fee cfg now i db")
  then have "f = None \<and> db' = db" using assms by (cases rule: apply_late_fee_cases) auto
  with a show ?thesis by simp
qed

lemma charge_running:
  assumes "late_fees (fe_rentals db) = []"
    "\<And>item. item \<in> set items \<Longrightarrow> \<exists>r. get_row rn_id (fst item) (rentals (fe_rentals db)) = Some r \<and> rn_end_time r = None"
  shows "fold (charge_next cfg now) items (n, db) = (n, db)"
  using assms
proof (induction items arbitrary: n)
  case Nil
  then show ?case by simp
next
  case (Cons item items)
  from Cons.prems(2) [of item] obtain r where
    "get_row rn_id (fst item) (rentals (fe_rentals db)) = Some r" "rn_end_time r = None" by auto
  with Cons.prems(1) have "apply_late_fee cfg now (fst item) db = (None, db)"
    by (intro apply_running) auto
  then have "charge_next cfg now item (n, db) = (n, db)" by (cases n) (simp add: charge_next_def)
  with Cons show ?case by simp
qed

lemma find_put_self:
  assumes "distinct (map key t)" "List.find P t = Some q" "key r = key q" "P r"
  shows "List.find P (put_row key r t) = Some r"
  using assms
proof (induction t)
  case Nil
  then show ?case by simp
next
  case (Cons x t)
  show ?case
  proof (cases "P x")
    case True
    with Cons.prems show ?thesis by simp
  next
    case False
    with Cons.prems have "q \<in> set t" "List.find P t = Some q" using find_Some [of P t q] by simp_all
    with Cons False show ?thesis by (auto simp: image_iff)
  qed
qed

lemma deduct_debits:
  assumes "wallet_inv s" "to_money a = Inr v" "0 < v" "deduct_balance now u a d s = Inr (w, s')"
  shows "v \<le> balances s u \<and> balances s' = (balances s)(u := balances s u - v)"
  using deduct_balance_refines [OF assms(1-3), of now u d] assms(4) by auto

section \<open>Properties\<close>

text \<open>
  C28: the fee of a rental that has not been returned is never negative, never decreases as time
  passes, and is nothing within the grace period.
\<close>

theorem late_fee_grows:
  assumes "chargeable cfg r" "rn_end_time r = None" "now \<le> now'"
  shows "0 \<le> fd_late_fee (fee_of cfg now r)
    \<and> fd_late_fee (fee_of cfg now r) \<le> fd_late_fee (fee_of cfg now' r)
    \<and> (rn_expected_end_time r + cfg_grace_period_hours cfg * hour < now
       \<or> fd_late_fee (fee_of cfg now r) = 0)"
proof (intro conjI)
  let ?h = "\<lambda>t. hours (t - rn_expected_end_time r)"
  have f: "fd_late_fee (fee_of cfg t r) = round2 (charge cfg r (?h t))" for t
    using assms(1,2) by (simp add: fee_of_def fee_at_charge chargeable_def)
  show "0 \<le> fd_late_fee (fee_of cfg now r)"
    unfolding f by (rule round2_nonneg [OF charge_nonneg [OF assms(1)]])
  show "fd_late_fee (fee_of cfg now r) \<le> fd_late_fee (fee_of cfg now' r)"
    unfolding f using assms(3) by (intro round2_mono charge_mono [OF assms(1)] hours_mono) simp
  show "rn_expected_end_time r + cfg_grace_period_hours cfg * hour < now \<or> fd_late_fee (fee_of cfg now r) = 0"
  proof (cases "rn_expected_end_time r + cfg_grace_period_hours cfg * hour < now")
    case False
    then have "?h now \<le> hours (cfg_grace_period_hours cfg * hour)" by (intro hours_mono) simp
    then have "?h now \<le> of_int (cfg_grace_period_hours cfg)" by (simp add: hours_def)
    then have "charge cfg r (?h now) = 0" by (simp add: charge_def max_def)
    then show ?thesis by (simp add: f round2_def)
  qed simp
qed

definition sample_late :: rental where
  "sample_late = \<lparr>rn_id = 1, rn_user_id = 1, rn_battery_id = 1, rn_start_station_id = 1,
     rn_end_station_id = None, rn_start_time = 0, rn_expected_end_time = day, rn_end_time = None,
     rn_total_amount = 240, rn_security_deposit = 0, rn_status = ''active'', rn_created_at = 0\<rparr>"

definition sample_fees :: fee_settings where
  "sample_fees = \<lparr>cfg_grace_period_hours = 2, cfg_late_fee_multiplier = 3 / 2\<rparr>"

lemma late_fee_grows_witness:
  "0 \<le> fd_late_fee (fee_of sample_fees (day + 5 * hour) sample_late)
    \<and> fd_late_fee (fee_of sample_fees (day + 5 * hour) sample_late)
        \<le> fd_late_fee (fee_of sample_fees (2 * day) sample_late)
    \<and> (rn_expected_end_time sample_late + cfg_grace_period_hours sample_fees * hour < day + 5 * hour
       \<or> fd_late_fee (fee_of sample_fees (day + 5 * hour) sample_late) = 0)"
  by (rule late_fee_grows) (simp_all add: chargeable_def sample_fees_def sample_late_def)


definition sample_fee_db :: fee_db where
  "sample_fee_db = \<lparr>fe_rentals = sample_start\<lparr>rentals := [sample_late\<lparr>rn_user_id := 7\<rparr>]\<rparr>, fe_wallet = opened []\<rparr>"

lemma sample_fees_ok: "fees_ok (fe_rentals sample_fee_db)"
  by (simp add: fees_ok_def sample_fee_db_def sample_start_def fee_ok_def is_paise_def)

definition sample_charged :: "late_fee option \<times> fee_db" where
  "sample_charged = apply_late_fee sample_fees (2 * day) 1 sample_fee_db"

lemma sample_charge: "\<exists>l. late_fees (fe_rentals (snd sample_charged)) = [l] \<and> lf_amount_outstanding l = 330"
  by (simp add: sample_charged_def apply_late_fee_def sample_fee_db_def sample_start_def Let_def
      calculate_late_fee_def fee_of_def fee_at_def sample_late_def sample_fees_def hours_def
      rental_hourly_rate_def round2_def round_half_even_def updated_fee_def)

text \<open>The fee of 330 is charged, then an administrator waives 100.\<close>

definition sample_waived :: "(string \<times> rental_db) res" where
  "sample_waived = review_waiver (3 * day) 1 1 ''APPROVED'' (Some 100) None (fe_rentals (snd sample_charged))"

lemma sample_waive:
  "\<exists>s l. sample_waived = Inr (''APPROVED'', s) \<and> late_fees s = [l] \<and> lf_amount_waived l = 100
     \<and> lf_total_late_fee l = 330 \<and> lf_amount_paid l = 0"
  by (simp add: sample_waived_def review_waiver_def sample_charged_def apply_late_fee_def sample_fee_db_def
      sample_start_def Let_def calculate_late_fee_def fee_of_def fee_at_def sample_late_def sample_fees_def
      hours_def rental_hourly_rate_def round2_def round_half_even_def updated_fee_def granted_fee_def)


text \<open>
  When the endpoint waives more than the fee, the next charge makes what is outstanding negative.
\<close>

lemma excess_waiver_goes_negative:
  assumes "fd_late_fee d < lf_amount_paid l + a"
  shows "lf_amount_outstanding (updated_fee now d (granted_fee a l)) < 0"
  using assms by (simp add: updated_fee_def granted_fee_def Let_def)

text \<open>
  C29: a late fee that is paid costs its customer exactly what was outstanding, changes no other
  balance, and cannot be paid a second time.
\<close>

theorem late_fee_paid_once:
  assumes "wallet_inv (fe_wallet db)" "fees_ok (fe_rentals db)" "pay_late_fee now i db = Inr (True, db')"
  shows "\<exists>l \<in> set (late_fees (fe_rentals db)). \<exists>c. lf_rental_id l = i \<and> lf_amount_outstanding l = of_int c / 100 \<and> 0 < c
    \<and> balances (fe_wallet db') = (balances (fe_wallet db))(lf_user_id l := balances (fe_wallet db) (lf_user_id l) - c)
    \<and> 0 \<le> balances (fe_wallet db') (lf_user_id l)
    \<and> pay_late_fee now' i db' = Inr (False, db')"
  using assms(3)
proof (cases rule: pay_late_fee_cases)
  case (paid l w)
  have ok: "fee_ok l" using assms(2) paid(1) by (simp add: fees_ok_def list_all_iff)
  then obtain c where c: "lf_amount_outstanding l = of_int c / 100"
    by (auto simp: fee_ok_def is_paise_iff)
  with paid(3) have pos: "0 < c" by simp
  obtain v where v: "to_money (Some (Finite (lf_amount_outstanding l))) = Inr v"
    using paid(6) by (auto simp: deduct_balance_def split: sum.splits)
  then have "v = c" by (auto simp: to_money_def c Let_def split: if_splits)
  with deduct_debits [OF assms(1) v _ paid(6)] pos
  have b: "c \<le> balances (fe_wallet db) (lf_user_id l)"
    "balances (fe_wallet db') = (balances (fe_wallet db))(lf_user_id l := balances (fe_wallet db) (lf_user_id l) - c)"
    by simp_all
  let ?l = "l\<lparr>lf_amount_paid := lf_amount_paid l + lf_amount_outstanding l, lf_amount_outstanding := 0,
            lf_payment_status := ''PAID'', lf_updated_at := now\<rparr>"
  have d: "distinct (map lf_id (late_fees (fe_rentals db)))" using assms(2) by (simp add: fees_ok_def)
  have "List.find (\<lambda>l. lf_rental_id l = i) (put_row lf_id ?l (late_fees (fe_rentals db))) = Some ?l"
    using find_put_self [OF d paid(4), of ?l] paid(2) by simp
  then have "pay_late_fee now' i db' = Inr (False, db')"
    by (simp add: pay_late_fee_def paid(7))
  with paid(1,2) c pos b show ?thesis by (intro bexI [of _ l] exI [of _ c]) auto
qed simp

lemma late_fee_paid_once_witness:
  "\<exists>db db'. pay_late_fee 9 1 db = Inr (True, db')
    \<and> (\<exists>l \<in> set (late_fees (fe_rentals db)). \<exists>c. lf_rental_id l = 1 \<and> lf_amount_outstanding l = of_int c / 100 \<and> 0 < c
        \<and> balances (fe_wallet db') = (balances (fe_wallet db))(lf_user_id l := balances (fe_wallet db) (lf_user_id l) - c)
        \<and> 0 \<le> balances (fe_wallet db') (lf_user_id l)
        \<and> pay_late_fee 10 1 db' = Inr (False, db'))"
proof -
  define s where "s = serve_wallet sample_cfg
    (0, Recharge 7 (Some (Finite 500)) ''topup'' None ''deposit'' None None) (opened [])"
  define db where "db = \<lparr>fe_rentals = sample_start, fe_wallet = s\<rparr>"
  have "wallet_inv s" unfolding s_def by (rule serve_wallet_inv [OF opened_inv]) simp
  then have inv: "wallet_inv (fe_wallet db)" by (simp add: db_def)
  have ok: "fees_ok (fe_rentals db)"
    by (simp add: fees_ok_def db_def sample_start_def fee_ok_def is_paise_def)
  have t: "to_money (Some (Finite 50)) = Inr 5000" "to_money (Some (Finite 500)) = Inr 50000"
    using round_half_even_of_int [of 5000] round_half_even_of_int [of 50000]
    by (simp_all add: to_money_def fits28_def)
  have "lf_amount_outstanding (hd (late_fees (fe_rentals db))) = 50" by (simp add: db_def sample_start_def)
  obtain db' where run: "pay_late_fee 9 1 db = Inr (True, db')"
    by (simp add: pay_late_fee_def db_def s_def sample_start_def deduct_balance_def get_wallet_def t
        wallet_eval Let_def)
  from late_fee_paid_once [OF inv ok run, of 10] run show ?thesis by blast
qed

text \<open>
  C30: while a rental is running its late fee is never recorded: whatever is overdue, the daily job
  and the worker create no fee for it and change nothing, although the worker reports every overdue
  rental as charged.
\<close>

theorem running_rental_never_charged:
  assumes "running_overdue now (fe_rentals db)" "late_fees (fe_rentals db) = []"
  shows "late_fee_calculation cfg now db = ((int (length (get_overdue_rentals cfg now (fe_rentals db))), 0, 0), db)
    \<and> process_overdue_rentals cfg now db = ((int (length (get_overdue_rentals cfg now (fe_rentals db))),
         int (length (get_overdue_rentals cfg now (fe_rentals db)))), db)"
proof -
  let ?o = "get_overdue_rentals cfg now (fe_rentals db)"
  have "\<exists>r. get_row rn_id (fst item) (rentals (fe_rentals db)) = Some r \<and> rn_end_time r = None"
    if "item \<in> set ?o" for item
    using that assms(1) get_row_member [of rn_id "rentals (fe_rentals db)"]
    by (force simp: get_overdue_rentals_def running_overdue_def list_all_iff)
  then have f: "fold (charge_next cfg now) ?o ((0, 0), db) = ((0, 0), db)"
    by (rule charge_running [OF assms(2)])
  then have "late_fee_calculation cfg now db = ((int (length ?o), 0, 0), db)"
    by (simp add: late_fee_calculation_def Let_def)
  moreover from this have "process_overdue_rentals cfg now db = ((int (length ?o), int (length ?o)), db)"
    using late_fee_calculation_db [of cfg now db] by (simp add: process_overdue_rentals_def Let_def)
  ultimately show ?thesis by simp
qed

definition sample_running :: fee_db where
  "sample_running = \<lparr>fe_rentals = sample_start\<lparr>rentals := [sample_late], late_fees := []\<rparr>, fe_wallet = opened []\<rparr>"

lemma running_rental_never_charged_witness:
  "length (get_overdue_rentals sample_fees (2 * day) (fe_rentals sample_running)) = 1
    \<and> late_fee_calculation sample_fees (2 * day) sample_running
        = ((int (length (get_overdue_rentals sample_fees (2 * day) (fe_rentals sample_running))), 0, 0), sample_running)
    \<and> process_overdue_rentals sample_fees (2 * day) sample_running
        = ((int (length (get_overdue_rentals sample_fees (2 * day) (fe_rentals sample_running))),
            int (length (get_overdue_rentals sample_fees (2 * day) (fe_rentals sample_running)))), sample_running)"
proof (rule conjI)
  show "length (get_overdue_rentals sample_fees (2 * day) (fe_rentals sample_running)) = 1"
    by (simp add: get_overdue_rentals_def sample_running_def is_overdue_def sample_late_def)
qed (rule running_rental_never_charged, simp_all add: sample_running_def running_overdue_def sample_late_def)

end
