(* ===== verification/Dealers.thy ===== *)
theory Dealers
  imports Roles "HOL-Library.AList"
begin

text \<open>
  The onboarding of dealers: the profiles, applications and field visits of
  \<open>app/models/dealer.py\<close>, the stages of an application (\<open>dealer_onboarding.py\<close>,
  \<open>dealer_service.py\<close>, \<open>dealers.py\<close>, \<open>admin_dealers.py\<close>) and the versions of a document
  (\<open>dealer_documents.py\<close>). The caller's id is an argument; the check of the address of an email is
  a library's, \<open>email_ok\<close>, and so is the hash of a password.
\<close>

section \<open>Tables\<close>

record dealer =
  dl_id :: int
  dl_user_id :: int
  dl_business_name :: string
  dl_gst_number :: "string option"
  dl_pan_number :: "string option"
  dl_contact_person :: string
  dl_contact_email :: string
  dl_contact_phone :: string
  dl_address_line1 :: string
  dl_city :: string
  dl_state :: string
  dl_pincode :: string
  dl_is_active :: bool
  dl_created_at :: datetime

text \<open>An entry of \<open>status_history\<close>: \<open>log_stage\<close> writes \<open>notes\<close>, the service writes \<open>note\<close>.\<close>

record history_entry =
  he_stage :: string
  he_timestamp :: datetime
  he_note :: "string option"
  he_notes :: "string option"

record application =
  da_id :: int
  da_dealer_id :: int
  da_current_stage :: string
  da_risk_score :: rat
  da_status_history :: "history_entry list"
  da_created_at :: datetime
  da_updated_at :: datetime

record field_visit =
  fv_id :: int
  fv_application_id :: int
  fv_officer_id :: int
  fv_scheduled_date :: datetime
  fv_completed_date :: "datetime option"
  fv_status :: string
  fv_report_data :: "string option"
  fv_images :: "string list option"
  fv_created_at :: datetime

record dealer_document =
  dd_id :: int
  dd_dealer_id :: int
  dd_document_type :: string
  dd_category :: string
  dd_file_url :: string
  dd_version :: int
  dd_status :: string
  dd_valid_until :: "datetime option"
  dd_uploaded_at :: datetime
  dd_is_verified :: bool

text \<open>The columns of \<open>users\<close> that the dealers' code reads and writes.\<close>

record portal_user =
  au_id :: int
  au_email :: "string option"
  au_full_name :: "string option"
  au_hashed_password :: "string option"
  au_user_type :: string
  au_role_id :: "int option"
  au_created_by_dealer_id :: "int option"
  au_force_password_change :: bool

record dealer_db =
  dealers :: "dealer list"
  applications :: "application list"
  field_visits :: "field_visit list"
  dealer_documents :: "dealer_document list"
  portal_users :: "portal_user list"
  dealer_roles :: "role list"
  dealer_user_roles :: "user_role list"

section \<open>Profiles\<close>

definition get_dealer_by_user :: "int \<Rightarrow> dealer_db \<Rightarrow> dealer option" where
  "get_dealer_by_user user_id s = List.find (\<lambda>d. dl_user_id d = user_id) (dealers s)"

text \<open>The profile of a user, or of the dealer who created the user.\<close>

definition get_dealer_profile_for_user_id :: "int \<Rightarrow> dealer_db \<Rightarrow> dealer option" where
  "get_dealer_profile_for_user_id user_id s =
     (case get_dealer_by_user user_id s of
        Some d \<Rightarrow> Some d
      | None \<Rightarrow>
          (case Option.bind (get_row au_id user_id (portal_users s))
                  (\<lambda>u. nonzero_id (au_created_by_dealer_id u)) of
             None \<Rightarrow> None
           | Some i \<Rightarrow> get_row dl_id i (dealers s)))"

definition get_dealer_id :: "int \<Rightarrow> dealer_db \<Rightarrow> int res" where
  "get_dealer_id user_id s =
     (case get_dealer_profile_for_user_id user_id s of
        None \<Rightarrow> Inl (HTTPException 403 ''Not a dealer'')
      | Some d \<Rightarrow> Inr (dl_id d))"

record profile_create =
  pc_business_name :: string
  pc_contact_person :: string
  pc_contact_email :: string
  pc_contact_phone :: string
  pc_address_line1 :: string
  pc_city :: string
  pc_state :: string
  pc_pincode :: string
  pc_gst_number :: "string option"
  pc_pan_number :: "string option"

text \<open>The patterns of the fields, all of them anchored.\<close>

definition capital :: "char \<Rightarrow> bool" where
  "capital c \<longleftrightarrow> CHR ''A'' \<le> c \<and> c \<le> CHR ''Z''"

definition fits :: "(char \<Rightarrow> bool) list \<Rightarrow> string \<Rightarrow> bool" where
  "fits classes s = list_all2 (\<lambda>P c. P c) classes s"

definition contact_phone_ok :: "string \<Rightarrow> bool" where
  "contact_phone_ok s \<longleftrightarrow>
     (let d = (case s of [] \<Rightarrow> [] | c # cs \<Rightarrow> if c = CHR ''+'' then cs else s)
      in list_all digit_char d \<and> 10 \<le> length d \<and> length d \<le> 15 \<and> hd d \<noteq> CHR ''0'')"

definition gst_ok :: "string \<Rightarrow> bool" where
  "gst_ok = fits (replicate 2 digit_char @ replicate 5 capital @ replicate 4 digit_char
     @ [capital, \<lambda>c. capital c \<or> digit_char c \<and> c \<noteq> CHR ''0'', \<lambda>c. c = CHR ''Z'',
        \<lambda>c. capital c \<or> digit_char c])"

definition pan_ok :: "string \<Rightarrow> bool" where
  "pan_ok = fits (replicate 5 capital @ replicate 4 digit_char @ [capital])"

definition opt_all :: "('a \<Rightarrow> bool) \<Rightarrow> 'a option \<Rightarrow> bool" where
  "opt_all P x = (case x of None \<Rightarrow> True | Some y \<Rightarrow> P y)"

definition profile_ok :: "(string \<Rightarrow> bool) \<Rightarrow> profile_create \<Rightarrow> bool" where
  "profile_ok email_ok p \<longleftrightarrow>
     2 \<le> length (pc_business_name p) \<and> length (pc_business_name p) \<le> 200
     \<and> 2 \<le> length (pc_contact_person p) \<and> length (pc_contact_person p) \<le> 100
     \<and> email_ok (pc_contact_email p) \<and> contact_phone_ok (pc_contact_phone p)
     \<and> fits (replicate 6 digit_char) (pc_pincode p)
     \<and> opt_all gst_ok (pc_gst_number p) \<and> opt_all pan_ok (pc_pan_number p)"

definition new_dealer :: "datetime \<Rightarrow> int \<Rightarrow> profile_create \<Rightarrow> bool \<Rightarrow> dealer list \<Rightarrow> dealer" where
  "new_dealer now user_id p active t =
     \<lparr>dl_id = fresh_id dl_id t, dl_user_id = user_id, dl_business_name = pc_business_name p,
      dl_gst_number = pc_gst_number p, dl_pan_number = pc_pan_number p,
      dl_contact_person = pc_contact_person p, dl_contact_email = pc_contact_email p,
      dl_contact_phone = pc_contact_phone p, dl_address_line1 = pc_address_line1 p,
      dl_city = pc_city p, dl_state = pc_state p, dl_pincode = pc_pincode p,
      dl_is_active = active, dl_created_at = now\<rparr>"

text \<open>The profile of a registration is inactive; its application is created with it.\<close>

definition create_dealer_profile :: "datetime \<Rightarrow> int \<Rightarrow> profile_create \<Rightarrow> dealer_db \<Rightarrow> dealer \<times> dealer_db" where
  "create_dealer_profile now user_id p s =
     (let d = new_dealer now user_id p False (dealers s);
          a = \<lparr>da_id = fresh_id da_id (applications s), da_dealer_id = dl_id d,
               da_current_stage = ''SUBMITTED'', da_risk_score = 10,
               da_status_history = [\<lparr>he_stage = ''SUBMITTED'', he_timestamp = now,
                  he_note = Some ''Initial Submission'', he_notes = None\<rparr>],
               da_created_at = now, da_updated_at = now\<rparr>
      in (d, s\<lparr>dealers := dealers s @ [d], applications := applications s @ [a]\<rparr>))"

definition api_create_dealer_profile ::
    "(string \<Rightarrow> bool) \<Rightarrow> datetime \<Rightarrow> int \<Rightarrow> profile_create \<Rightarrow> dealer_db \<Rightarrow> (dealer \<times> dealer_db) res" where
  "api_create_dealer_profile email_ok now user_id p s =
     (if \<not> profile_ok email_ok p then Inl (HTTPException 422 [])
      else if get_dealer_by_user user_id s \<noteq> None
      then Inl (HTTPException 400 ''Dealer profile already exists'')
      else Inr (create_dealer_profile now user_id p s))"

definition get_registration_status :: "int \<Rightarrow> dealer_db \<Rightarrow> (string \<times> string \<times> datetime) res" where
  "get_registration_status user_id s =
     (case get_dealer_by_user user_id s of
        None \<Rightarrow> Inl (HTTPException 404 ''Dealer profile not found'')
      | Some d \<Rightarrow>
          Inr (dl_business_name d,
               (case List.find (\<lambda>a. da_dealer_id a = dl_id d) (applications s) of
                  None \<Rightarrow> ''NOT_STARTED'' | Some a \<Rightarrow> da_current_stage a),
               dl_created_at d))"

section \<open>The stages of an application\<close>

definition log_stage :: "datetime \<Rightarrow> string \<Rightarrow> string \<Rightarrow> application \<Rightarrow> application" where
  "log_stage now new_stage notes a =
     a\<lparr>da_current_stage := new_stage, da_updated_at := now,
       da_status_history := da_status_history a
         @ [\<lparr>he_stage = new_stage, he_timestamp = now, he_note = None, he_notes = Some notes\<rparr>]\<rparr>"

definition put_application :: "application \<Rightarrow> dealer_db \<Rightarrow> dealer_db" where
  "put_application a s = s\<lparr>applications := put_row da_id a (applications s)\<rparr>"

definition get_application :: "int \<Rightarrow> dealer_db \<Rightarrow> application res" where
  "get_application dealer_id s =
     (case List.find (\<lambda>a. da_dealer_id a = dealer_id) (applications s) of
        None \<Rightarrow> Inl (HTTPException 404 ''Application not found'')
      | Some a \<Rightarrow> Inr a)"

definition get_onboarding_status :: "int \<Rightarrow> dealer_db \<Rightarrow> (string \<times> history_entry list \<times> rat) res" where
  "get_onboarding_status user_id s =
     (case get_dealer_id user_id s of Inl e \<Rightarrow> Inl e
      | Inr dealer_id \<Rightarrow>
     (case get_application dealer_id s of Inl e \<Rightarrow> Inl e
      | Inr a \<Rightarrow> Inr (da_current_stage a, da_status_history a, da_risk_score a)))"

text \<open>The three steps that a dealer takes: each from one stage to the next.\<close>

definition dealer_stage ::
    "string \<Rightarrow> string \<Rightarrow> string \<Rightarrow> datetime \<Rightarrow> int \<Rightarrow> dealer_db \<Rightarrow> (string \<times> dealer_db) res" where
  "dealer_stage required new_stage notes now user_id s =
     (case get_dealer_id user_id s of Inl e \<Rightarrow> Inl e
      | Inr dealer_id \<Rightarrow>
     (case get_application dealer_id s of Inl e \<Rightarrow> Inl e
      | Inr a \<Rightarrow>
          if da_current_stage a \<noteq> required
          then Inl (HTTPException 400 ''Invalid stage transition from {app.current_stage}'')
          else Inr (new_stage, put_application (log_stage now new_stage notes a) s)))"

definition trigger_automated_checks :: "datetime \<Rightarrow> int \<Rightarrow> dealer_db \<Rightarrow> (string \<times> dealer_db) res" where
  "trigger_automated_checks = dealer_stage ''SUBMITTED'' ''AUTOMATED_CHECKS_PASSED''
     ''All basic validation checks passed automatically.''"

definition submit_kyc :: "datetime \<Rightarrow> int \<Rightarrow> dealer_db \<Rightarrow> (string \<times> dealer_db) res" where
  "submit_kyc = dealer_stage ''AUTOMATED_CHECKS_PASSED'' ''KYC_SUBMITTED''
     ''Dealer has submitted KYC for manual review.''"

definition complete_training :: "datetime \<Rightarrow> int \<Rightarrow> dealer_db \<Rightarrow> (string \<times> dealer_db) res" where
  "complete_training = dealer_stage ''APPROVED'' ''TRAINING_COMPLETED''
     ''Dealer marked training as complete.''"

text \<open>The steps of an administrator look at no stage.\<close>

definition with_application ::
    "string \<Rightarrow> int \<Rightarrow> (application \<Rightarrow> dealer_db res) \<Rightarrow> dealer_db \<Rightarrow> dealer_db res" where
  "with_application detail application_id act s =
     (case get_row da_id application_id (applications s) of
        None \<Rightarrow> Inl (HTTPException 404 detail)
      | Some a \<Rightarrow> act a)"

definition admin_manual_review ::
    "datetime \<Rightarrow> int \<Rightarrow> bool \<Rightarrow> string \<Rightarrow> dealer_db \<Rightarrow> dealer_db res" where
  "admin_manual_review now application_id approve notes s =
     with_application ''Application not found'' application_id
       (\<lambda>a. Inr (put_application
              (log_stage now (if approve then ''MANUAL_REVIEW_PASSED'' else ''REJECTED'') notes a) s)) s"

definition new_visit :: "datetime \<Rightarrow> int \<Rightarrow> int \<Rightarrow> datetime \<Rightarrow> field_visit list \<Rightarrow> field_visit" where
  "new_visit now application_id officer_id date t =
     \<lparr>fv_id = fresh_id fv_id t, fv_application_id = application_id, fv_officer_id = officer_id,
      fv_scheduled_date = date, fv_completed_date = None, fv_status = ''SCHEDULED'',
      fv_report_data = None, fv_images = None, fv_created_at = now\<rparr>"

definition admin_schedule_visit ::
    "datetime \<Rightarrow> int \<Rightarrow> datetime \<Rightarrow> int \<Rightarrow> dealer_db \<Rightarrow> dealer_db res" where
  "admin_schedule_visit now application_id scheduled_date officer_id s =
     with_application ''Application not found'' application_id
       (\<lambda>a. if get_row au_id officer_id (portal_users s) = None then Inl IntegrityError
             else Inr (put_application
              (log_stage now ''FIELD_VISIT_SCHEDULED'' ''Visit scheduled for {scheduled_date}'' a)
              (s\<lparr>field_visits := field_visits s
                  @ [new_visit now application_id officer_id scheduled_date (field_visits s)]\<rparr>))) s"

definition admin_complete_visit ::
    "datetime \<Rightarrow> int \<Rightarrow> int \<Rightarrow> string \<Rightarrow> dealer_db \<Rightarrow> dealer_db res" where
  "admin_complete_visit now application_id visit_id report_data s =
     (case (get_row da_id application_id (applications s), get_row fv_id visit_id (field_visits s)) of
        (Some a, Some v) \<Rightarrow>
          Inr (put_application (log_stage now ''FIELD_VISIT_COMPLETED'' ''Field verification successful.'' a)
            (s\<lparr>field_visits := put_row fv_id
                 (v\<lparr>fv_status := ''COMPLETED'', fv_completed_date := Some now,
                    fv_report_data := Some report_data\<rparr>) (field_visits s)\<rparr>))
      | _ \<Rightarrow> Inl (HTTPException 404 ''Record not found''))"

definition admin_final_approve :: "datetime \<Rightarrow> int \<Rightarrow> dealer_db \<Rightarrow> dealer_db res" where
  "admin_final_approve now application_id s =
     with_application ''Not Found'' application_id
       (\<lambda>a. Inr (put_application
              (log_stage now ''APPROVED'' ''Final admin approval granted. Ready for training.'' a) s)) s"

definition set_active :: "int \<Rightarrow> bool \<Rightarrow> dealer_db \<Rightarrow> dealer_db" where
  "set_active dealer_id active s =
     s\<lparr>dealers := map (\<lambda>d. if dl_id d = dealer_id then d\<lparr>dl_is_active := active\<rparr> else d) (dealers s)\<rparr>"

definition admin_handover_inventory :: "datetime \<Rightarrow> int \<Rightarrow> dealer_db \<Rightarrow> dealer_db res" where
  "admin_handover_inventory now application_id s =
     with_application ''Not Found'' application_id
       (\<lambda>a. if get_row dl_id (da_dealer_id a) (dealers s) = None then Inl (AttributeError ''is_active'')
             else Inr (put_application
               (log_stage now ''ACTIVE'' ''Inventory handed over. Dealer is fully active.'' a)
               (set_active (da_dealer_id a) True s))) s"

text \<open>\<open>PUT /admin/dealers/applications/{app_id}/stage\<close>\<close>

definition valid_stages :: "string list" where
  "valid_stages = [''SUBMITTED'', ''AUTOMATED_CHECKS_PASSED'', ''KYC_SUBMITTED'', ''MANUAL_REVIEW_PASSED'',
     ''FIELD_VISIT_SCHEDULED'', ''FIELD_VISIT_COMPLETED'', ''REJECTED'', ''APPROVED'',
     ''TRAINING_COMPLETED'', ''ACTIVE'']"

definition admin_update_stage ::
    "datetime \<Rightarrow> int \<Rightarrow> string \<Rightarrow> string option \<Rightarrow> dealer_db \<Rightarrow> dealer_db res" where
  "admin_update_stage now app_id stage notes s =
     with_application ''Application not found'' app_id
       (\<lambda>a. if stage \<notin> set valid_stages then Inl (HTTPException 400 ''Invalid stage. Valid: {VALID_STAGES}'')
             else
               let s1 = put_application
                     (log_stage now stage (case notes of None \<Rightarrow> [] | Some n \<Rightarrow> n) a) s
               in Inr (if stage = ''APPROVED'' \<or> stage = ''ACTIVE'' then set_active (da_dealer_id a) True s1
                       else if stage = ''REJECTED'' then set_active (da_dealer_id a) False s1
                       else s1)) s"

text \<open>
  \<open>DealerService.update_application_stage\<close>: the table of valid transitions is consulted, but a
  stage outside it is taken as well (the branch is \<open>pass\<close>).
\<close>

definition dealer_transitions :: "string \<Rightarrow> string list" where
  "dealer_transitions stage =
     (if stage = ''SUBMITTED'' then [''AUTO_VERIFIED'', ''REJECTED'']
      else if stage = ''AUTO_VERIFIED'' then [''KYC_SUBMITTED'', ''REJECTED'']
      else if stage = ''KYC_SUBMITTED'' then [''REVIEW_PENDING'']
      else if stage = ''REVIEW_PENDING'' then [''FIELD_VISIT_SCHEDULED'', ''REJECTED'', ''APPROVED'']
      else if stage = ''FIELD_VISIT_SCHEDULED'' then [''FIELD_VISIT_COMPLETED'']
      else if stage = ''FIELD_VISIT_COMPLETED'' then [''APPROVED'', ''REJECTED'']
      else if stage = ''APPROVED'' then [''ACTIVE'']
      else if stage = ''ACTIVE'' then [''SUSPENDED'']
      else [])"

definition dealer_role_link :: "datetime \<Rightarrow> int \<Rightarrow> dealer_db \<Rightarrow> dealer_db" where
  "dealer_role_link now user_id s =
     (case List.find (\<lambda>r. ro_name r = ''dealer'') (dealer_roles s) of
        None \<Rightarrow> s
      | Some r \<Rightarrow>
          if list_ex (linked user_id (ro_id r)) (dealer_user_roles s) then s
          else s\<lparr>dealer_user_roles := dealer_user_roles s
                   @ [\<lparr>ur_user_id = user_id, ur_role_id = ro_id r, ur_assigned_by = None, ur_notes = None,
                       ur_effective_from = now, ur_expires_at = None\<rparr>]\<rparr>)"

definition service_stage :: "datetime \<Rightarrow> string \<Rightarrow> string \<Rightarrow> application \<Rightarrow> application" where
  "service_stage now new_stage note a =
     a\<lparr>da_current_stage := new_stage,
       da_status_history := da_status_history a
         @ [\<lparr>he_stage = new_stage, he_timestamp = now, he_note = Some note, he_notes = None\<rparr>]\<rparr>"

definition update_application_stage ::
    "datetime \<Rightarrow> int \<Rightarrow> string \<Rightarrow> string \<Rightarrow> dealer_db \<Rightarrow> (application \<times> dealer_db) res" where
  "update_application_stage now application_id new_stage note s =
     (case get_row da_id application_id (applications s) of
        None \<Rightarrow> Inl (ValueError ''Application not found'')
      | Some a \<Rightarrow>
          let a' = (if new_stage \<notin> set (dealer_transitions (da_current_stage a)) then service_stage now new_stage note a
                    else service_stage now new_stage note a)
          in if new_stage = ''ACTIVE''
             then (case get_row dl_id (da_dealer_id a) (dealers s) of
                     None \<Rightarrow> Inl (AttributeError ''is_active'')
                   | Some d \<Rightarrow>
                       Inr (a', put_application a'
                         (dealer_role_link now (dl_user_id d) (set_active (da_dealer_id a) True s))))
             else Inr (a', put_application a' s))"

text \<open>\<open>POST /dealers/application/{app_id}/stage\<close>: the stages of \<open>DealerApplicationStage\<close>.\<close>

definition application_stages :: "string list" where
  "application_stages = [''SUBMITTED'', ''DOCUMENTS_PENDING'', ''UNDER_REVIEW'', ''FIELD_VISIT_SCHEDULED'',
     ''APPROVED'', ''REJECTED'']"

definition update_stage ::
    "datetime \<Rightarrow> int \<Rightarrow> string \<Rightarrow> string option \<Rightarrow> dealer_db \<Rightarrow> (application \<times> dealer_db) res" where
  "update_stage now app_id stage notes s =
     (if stage \<notin> set application_stages then Inl (HTTPException 422 [])
      else case update_application_stage now app_id stage (case notes of None \<Rightarrow> [] | Some n \<Rightarrow> n) s of
             Inl (ValueError e) \<Rightarrow> Inl (HTTPException 400 e)
           | out \<Rightarrow> out)"

text \<open>The visit is committed before the stage is changed.\<close>

definition schedule_field_visit ::
    "datetime \<Rightarrow> int \<Rightarrow> int \<Rightarrow> datetime \<Rightarrow> dealer_db \<Rightarrow> field_visit res \<times> dealer_db" where
  "schedule_field_visit now application_id officer_id date s =
     (if get_row da_id application_id (applications s) = None \<or> get_row au_id officer_id (portal_users s) = None
      then (Inl IntegrityError, s)
      else
        let v = new_visit now application_id officer_id date (field_visits s);
            s1 = s\<lparr>field_visits := field_visits s @ [v]\<rparr>
        in case update_application_stage now application_id ''FIELD_VISIT_SCHEDULED'' ''Visit scheduled'' s1 of
             Inl e \<Rightarrow> (Inl e, s1)
           | Inr (a, s2) \<Rightarrow> (Inr v, s2))"

text \<open>\<open>POST /dealers/visits/schedule\<close> reads a field that its request does not have.\<close>

definition schedule_visit :: "datetime \<Rightarrow> int \<Rightarrow> int \<Rightarrow> datetime \<Rightarrow> dealer_db \<Rightarrow> field_visit res \<times> dealer_db" where
  "schedule_visit now application_id officer_id scheduled_date s = (Inl (AttributeError ''date''), s)"

definition complete_field_visit ::
    "datetime \<Rightarrow> int \<Rightarrow> string \<Rightarrow> string list \<Rightarrow> dealer_db \<Rightarrow> unit res \<times> dealer_db" where
  "complete_field_visit now visit_id report images s =
     (case get_row fv_id visit_id (field_visits s) of
        None \<Rightarrow> (Inl (ValueError ''Visit not found''), s)
      | Some v \<Rightarrow>
          let s1 = s\<lparr>field_visits := put_row fv_id
                (v\<lparr>fv_status := ''COMPLETED'', fv_completed_date := Some now,
                   fv_report_data := Some report, fv_images := Some images\<rparr>) (field_visits s)\<rparr>
          in case update_application_stage now (fv_application_id v) ''FIELD_VISIT_COMPLETED''
                    ''Field visit done'' s1 of
               Inl e \<Rightarrow> (Inl e, s1)
             | Inr (a, s2) \<Rightarrow> (Inr (), s2))"

section \<open>Dealers created and edited by an administrator\<close>

record dealer_create =
  dc_email :: "string option"
  dc_full_name :: "string option"
  dc_password :: "string option"
  dc_business_name :: string
  dc_contact_person :: string
  dc_contact_email :: "string option"
  dc_contact_phone :: string
  dc_address_line1 :: string
  dc_city :: string
  dc_state :: string
  dc_pincode :: string
  dc_gst_number :: "string option"
  dc_pan_number :: "string option"

text \<open>Python's \<open>x or y\<close> on optional texts.\<close>

definition text_or :: "string option \<Rightarrow> string \<Rightarrow> string" where
  "text_or x y = (case x of None \<Rightarrow> y | Some t \<Rightarrow> if t = [] then y else t)"

definition dealer_email :: "dealer_create \<Rightarrow> string" where
  "dealer_email c = py_lower (py_strip (text_or (dc_email c) (text_or (dc_contact_email c) [])))"

definition dealer_full_name :: "dealer_create \<Rightarrow> string" where
  "dealer_full_name c =
     (let n = py_strip (text_or (dc_full_name c) (text_or (Some (dc_contact_person c)) (dc_business_name c)))
      in if n = [] then ''Dealer User'' else n)"

definition created_profile :: "dealer_create \<Rightarrow> profile_create" where
  "created_profile c =
     \<lparr>pc_business_name = dc_business_name c, pc_contact_person = dc_contact_person c,
      pc_contact_email = text_or (dc_contact_email c) (dealer_email c), pc_contact_phone = dc_contact_phone c,
      pc_address_line1 = dc_address_line1 c, pc_city = dc_city c, pc_state = dc_state c,
      pc_pincode = dc_pincode c, pc_gst_number = dc_gst_number c, pc_pan_number = dc_pan_number c\<rparr>"

text \<open>\<open>hash\<close> is \<open>get_password_hash\<close> and \<open>token\<close> the drawn password; it is returned once.\<close>

definition create_dealer ::
    "(string \<Rightarrow> string) \<Rightarrow> string \<Rightarrow> datetime \<Rightarrow> dealer_create \<Rightarrow> dealer_db
      \<Rightarrow> ((int \<times> int \<times> string option) \<times> dealer_db) res" where
  "create_dealer hash token now c s =
     (let email = dealer_email c;
          given = py_strip (text_or (dc_password c) []);
          password = (if given = [] then token else given)
      in if email = [] then Inl (HTTPException 422 ''Either email or contact_email is required'')
         else if List.find (\<lambda>u. au_email u = Some email) (portal_users s) \<noteq> None
         then Inl (HTTPException 400 ''User with this email already exists'')
         else
           let role = List.find (\<lambda>r. py_lower (ro_name r) = ''dealer'') (sort_key ro_id (dealer_roles s));
               u = \<lparr>au_id = fresh_id au_id (portal_users s), au_email = Some email,
                    au_full_name = Some (dealer_full_name c), au_hashed_password = Some (hash password),
                    au_user_type = ''DEALER'', au_role_id = map_option ro_id role,
                    au_created_by_dealer_id = None, au_force_password_change = (given = [])\<rparr>;
               d = new_dealer now (au_id u) (created_profile c) True (dealers s);
               a = log_stage now ''APPROVED'' ''Created by admin''
                     \<lparr>da_id = fresh_id da_id (applications s), da_dealer_id = dl_id d,
                      da_current_stage = ''APPROVED'', da_risk_score = 0, da_status_history = [],
                      da_created_at = now, da_updated_at = now\<rparr>
           in Inr ((dl_id d, au_id u, if given = [] then Some password else None),
                   s\<lparr>portal_users := portal_users s @ [u], dealers := dealers s @ [d],
                     applications := applications s @ [a]\<rparr>))"

text \<open>A field that is given as null violates the table.\<close>

record dealer_update =
  du_business_name :: "string option option"
  du_contact_person :: "string option option"
  du_contact_email :: "string option option"
  du_contact_phone :: "string option option"
  du_address_line1 :: "string option option"
  du_city :: "string option option"
  du_state :: "string option option"
  du_pincode :: "string option option"
  du_is_active :: "bool option option"

definition assigned :: "'a option option \<Rightarrow> 'a \<Rightarrow> 'a" where
  "assigned v old = (case v of Some (Some x) \<Rightarrow> x | _ \<Rightarrow> old)"

definition update_dealer :: "int \<Rightarrow> dealer_update \<Rightarrow> dealer_db \<Rightarrow> (dealer \<times> dealer_db) res" where
  "update_dealer dealer_id u s =
     (case get_row dl_id dealer_id (dealers s) of
        None \<Rightarrow> Inl (HTTPException 404 ''Dealer not found'')
      | Some d \<Rightarrow>
          if Some None \<in> {du_business_name u, du_contact_person u, du_contact_email u, du_contact_phone u,
               du_address_line1 u, du_city u, du_state u, du_pincode u} \<or> du_is_active u = Some None
          then Inl IntegrityError
          else
            let d' = d\<lparr>dl_business_name := assigned (du_business_name u) (dl_business_name d),
                       dl_contact_person := assigned (du_contact_person u) (dl_contact_person d),
                       dl_contact_email := assigned (du_contact_email u) (dl_contact_email d),
                       dl_contact_phone := assigned (du_contact_phone u) (dl_contact_phone d),
                       dl_address_line1 := assigned (du_address_line1 u) (dl_address_line1 d),
                       dl_city := assigned (du_city u) (dl_city d),
                       dl_state := assigned (du_state u) (dl_state d),
                       dl_pincode := assigned (du_pincode u) (dl_pincode d),
                       dl_is_active := assigned (du_is_active u) (dl_is_active d)\<rparr>
            in Inr (d', s\<lparr>dealers := put_row dl_id d' (dealers s)\<rparr>))"

section \<open>Documents\<close>

definition documents_of :: "int \<Rightarrow> dealer_db \<Rightarrow> dealer_document list" where
  "documents_of dealer_id s = filter (\<lambda>d. dd_dealer_id d = dealer_id) (dealer_documents s)"

text \<open>The newest document of each type; a dictionary keeps the place of a key that is set again.\<close>

definition latest_step ::
    "dealer_document \<Rightarrow> (string \<times> dealer_document) list \<Rightarrow> (string \<times> dealer_document) list" where
  "latest_step d latest =
     (case map_of latest (dd_document_type d) of
        None \<Rightarrow> AList.update (dd_document_type d) d latest
      | Some e \<Rightarrow> if dd_version d > dd_version e then AList.update (dd_document_type d) d latest else latest)"

definition list_documents :: "int \<Rightarrow> dealer_db \<Rightarrow> dealer_document list res" where
  "list_documents user_id s =
     (case get_dealer_id user_id s of Inl e \<Rightarrow> Inl e
      | Inr dealer_id \<Rightarrow>
          Inr (map snd (fold latest_step
                 (filter (\<lambda>d. dd_status d \<noteq> ''ARCHIVED'') (documents_of dealer_id s)) [])))"

definition get_document_history :: "int \<Rightarrow> string \<Rightarrow> dealer_db \<Rightarrow> dealer_document list res" where
  "get_document_history user_id document_type s =
     (case get_dealer_id user_id s of Inl e \<Rightarrow> Inl e
      | Inr dealer_id \<Rightarrow>
          Inr (sort_key (\<lambda>d. - dd_version d)
                 (filter (\<lambda>d. dd_document_type d = document_type) (documents_of dealer_id s))))"

text \<open>\<open>os.path.splitext\<close>: the last dot of the file name starts the extension, unless only dots precede it.\<close>

definition file_extension :: "string \<Rightarrow> string" where
  "file_extension name =
     (let base = rev (takeWhile (\<lambda>c. c \<noteq> CHR ''/'') (rev name));
          suffix = rev (takeWhile (\<lambda>c. c \<noteq> CHR ''.'') (rev base));
          stem = take (length base - length suffix) base
      in if CHR ''.'' \<in> set base \<and> \<not> list_all (\<lambda>c. c = CHR ''.'') stem then CHR ''.'' # suffix else [])"

definition upload_document_file :: "string \<Rightarrow> int \<Rightarrow> string option \<Rightarrow> nat \<Rightarrow> string res" where
  "upload_document_file token user_id filename bytes =
     (let ext = py_lower (file_extension (case filename of None \<Rightarrow> [] | Some f \<Rightarrow> f))
      in if ext \<notin> {''.pdf'', ''.jpg'', ''.jpeg'', ''.png''}
         then Inl (HTTPException 400 ''File type '{ext}' not allowed. Use PDF, JPG or PNG.'')
         else if bytes > 10 * 1024 * 1024 then Inl (HTTPException 413 ''File exceeds 10 MB limit.'')
         else Inr (''/uploads/documents/dealer'' @ show_int user_id @ ''_'' @ token @ ext))"

definition same_document :: "int \<Rightarrow> string \<Rightarrow> dealer_document \<Rightarrow> bool" where
  "same_document dealer_id document_type d \<longleftrightarrow> dd_dealer_id d = dealer_id \<and> dd_document_type d = document_type"

definition upload_document_version ::
    "datetime \<Rightarrow> int \<Rightarrow> string \<Rightarrow> string \<Rightarrow> string \<Rightarrow> datetime option \<Rightarrow> dealer_db
      \<Rightarrow> (dealer_document \<times> dealer_db) res" where
  "upload_document_version now user_id document_type category file_url valid_until s =
     (case get_dealer_id user_id s of Inl e \<Rightarrow> Inl e
      | Inr dealer_id \<Rightarrow>
          let existing = filter (same_document dealer_id document_type) (dealer_documents s);
              next_version = (if existing = [] then 1 else Max (set (map dd_version existing)) + 1);
              archived = map (\<lambda>d. if same_document dealer_id document_type d
                                   then d\<lparr>dd_status := ''ARCHIVED''\<rparr> else d) (dealer_documents s);
              d = \<lparr>dd_id = fresh_id dd_id (dealer_documents s), dd_dealer_id = dealer_id,
                   dd_document_type = document_type, dd_category = category, dd_file_url = file_url,
                   dd_version = next_version, dd_status = ''PENDING'', dd_valid_until = valid_until,
                   dd_uploaded_at = now, dd_is_verified = False\<rparr>
          in Inr (d, s\<lparr>dealer_documents := archived @ [d]\<rparr>))"

definition delete_document :: "int \<Rightarrow> int \<Rightarrow> dealer_db \<Rightarrow> dealer_db res" where
  "delete_document user_id document_id s =
     (case get_dealer_id user_id s of Inl e \<Rightarrow> Inl e
      | Inr dealer_id \<Rightarrow>
     (case get_row dd_id document_id (dealer_documents s) of
        None \<Rightarrow> Inl (HTTPException 404 ''Document not found'')
      | Some d \<Rightarrow>
          if dd_dealer_id d \<noteq> dealer_id then Inl (HTTPException 404 ''Document not found'')
          else Inr (s\<lparr>dealer_documents :=
                 put_row dd_id (d\<lparr>dd_status := ''ARCHIVED''\<rparr>) (dealer_documents s)\<rparr>)))"

definition verify_document :: "int \<Rightarrow> bool \<Rightarrow> dealer_db \<Rightarrow> dealer_db res" where
  "verify_document doc_id is_verified s =
     (case get_row dd_id doc_id (dealer_documents s) of
        None \<Rightarrow> Inl (HTTPException 404 ''Document not found'')
      | Some d \<Rightarrow>
          Inr (s\<lparr>dealer_documents := put_row dd_id
                 (d\<lparr>dd_is_verified := is_verified, dd_status := (if is_verified then ''VERIFIED'' else ''REJECTED'')\<rparr>)
                 (dealer_documents s)\<rparr>))"

section \<open>Requests\<close>

datatype dealer_request =
    Register profile_create
  | TriggerChecks
  | SubmitKyc
  | CompleteTraining
  | UploadDocument string string string "datetime option"
  | DeleteDocument int

datatype admin_request =
    Review int bool string
  | ScheduleVisit int datetime int
  | CompleteVisit int int string
  | FinalApprove int
  | Handover int
  | SetStage int string "string option"
  | ServiceStage int string "string option"
  | CreateDealer dealer_create
  | UpdateDealer int dealer_update
  | VerifyDocument int bool

definition tables_or :: "dealer_db \<Rightarrow> dealer_db res \<Rightarrow> dealer_db" where
  "tables_or s out = (case out of Inl e \<Rightarrow> s | Inr s' \<Rightarrow> s')"

definition second_or :: "dealer_db \<Rightarrow> ('a \<times> dealer_db) res \<Rightarrow> dealer_db" where
  "second_or s out = (case out of Inl e \<Rightarrow> s | Inr (x, s') \<Rightarrow> s')"

text \<open>What a request of a dealer, or of an administrator, leaves in the tables.\<close>

fun serve_dealer :: "(string \<Rightarrow> bool) \<Rightarrow> datetime \<Rightarrow> int \<Rightarrow> dealer_request \<Rightarrow> dealer_db \<Rightarrow> dealer_db" where
  "serve_dealer email_ok now u (Register p) s = second_or s (api_create_dealer_profile email_ok now u p s)"
| "serve_dealer email_ok now u TriggerChecks s = second_or s (trigger_automated_checks now u s)"
| "serve_dealer email_ok now u SubmitKyc s = second_or s (submit_kyc now u s)"
| "serve_dealer email_ok now u CompleteTraining s = second_or s (complete_training now u s)"
| "serve_dealer email_ok now u (UploadDocument t c f v) s = second_or s (upload_document_version now u t c f v s)"
| "serve_dealer email_ok now u (DeleteDocument i) s = tables_or s (delete_document u i s)"

fun serve_dealer_admin ::
    "(string \<Rightarrow> string) \<Rightarrow> string \<Rightarrow> datetime \<Rightarrow> admin_request \<Rightarrow> dealer_db \<Rightarrow> dealer_db" where
  "serve_dealer_admin hash token now (Review i ok n) s = tables_or s (admin_manual_review now i ok n s)"
| "serve_dealer_admin hash token now (ScheduleVisit i d w) s = tables_or s (admin_schedule_visit now i d w s)"
| "serve_dealer_admin hash token now (CompleteVisit i v r) s = tables_or s (admin_complete_visit now i v r s)"
| "serve_dealer_admin hash token now (FinalApprove i) s = tables_or s (admin_final_approve now i s)"
| "serve_dealer_admin hash token now (Handover i) s = tables_or s (admin_handover_inventory now i s)"
| "serve_dealer_admin hash token now (SetStage i g n) s = tables_or s (admin_update_stage now i g n s)"
| "serve_dealer_admin hash token now (ServiceStage i g n) s = second_or s (update_stage now i g n s)"
| "serve_dealer_admin hash token now (CreateDealer c) s = second_or s (create_dealer hash token now c s)"
| "serve_dealer_admin hash token now (UpdateDealer i u) s = second_or s (update_dealer i u s)"
| "serve_dealer_admin hash token now (VerifyDocument i v) s = tables_or s (verify_document i v s)"

end
