(* ===== verification/DealersInv.thy ===== *)
theory DealersInv
  imports Dealers
begin

text \<open>
  What holds of the onboarding of dealers after any history of requests: the history of an
  application, what a dealer can reach without an administrator, and the versions of documents.
\<close>

section \<open>Applications\<close>

definition app_ok :: "application \<Rightarrow> bool" where
  "app_ok a \<longleftrightarrow> da_status_history a \<noteq> [] \<and> he_stage (last (da_status_history a)) = da_current_stage a"

definition apps_ok :: "dealer_db \<Rightarrow> bool" where
  "apps_ok s \<longleftrightarrow> list_all app_ok (applications s) \<and> distinct (map da_id (applications s))
     \<and> distinct (map da_dealer_id (applications s)) \<and> distinct (map dl_id (dealers s))
     \<and> da_dealer_id ` set (applications s) \<subseteq> dl_id ` set (dealers s)"

text \<open>
  The ways in which a request changes the dealers and their applications: not at all, a new dealer
  with an application, an application that takes another stage, and other data of the dealers.
\<close>

inductive app_move :: "dealer_db \<Rightarrow> dealer_db \<Rightarrow> bool" where
  same: "applications s' = applications s \<Longrightarrow> dealers s' = dealers s \<Longrightarrow> app_move s s'"
| new: "applications s' = applications s @ [a] \<Longrightarrow> dealers s' = dealers s @ [d] \<Longrightarrow>
    da_id a = fresh_id da_id (applications s) \<Longrightarrow> dl_id d = fresh_id dl_id (dealers s) \<Longrightarrow>
    da_dealer_id a = dl_id d \<Longrightarrow> app_ok a \<Longrightarrow> app_move s s'"
| stage: "a \<in> set (applications s) \<Longrightarrow> da_id a' = da_id a \<Longrightarrow> da_dealer_id a' = da_dealer_id a \<Longrightarrow> app_ok a' \<Longrightarrow>
    applications s' = put_row da_id a' (applications s) \<Longrightarrow> map dl_id (dealers s') = map dl_id (dealers s) \<Longrightarrow>
    app_move s s'"
| data: "applications s' = applications s \<Longrightarrow> map dl_id (dealers s') = map dl_id (dealers s) \<Longrightarrow> app_move s s'"

lemma log_stage_ok [simp]: "app_ok (log_stage now g n a)"
  by (simp add: app_ok_def log_stage_def)

lemma service_stage_ok [simp]: "app_ok (service_stage now g n a)"
  by (simp add: app_ok_def service_stage_def)

lemma stage_ids [simp]:
  "da_id (log_stage now g n a) = da_id a" "da_dealer_id (log_stage now g n a) = da_dealer_id a"
  "da_current_stage (log_stage now g n a) = g"
  "da_id (service_stage now g n a) = da_id a" "da_dealer_id (service_stage now g n a) = da_dealer_id a"
  "da_current_stage (service_stage now g n a) = g"
  by (simp_all add: log_stage_def service_stage_def)

lemma dealer_frames [simp]:
  "applications (put_application a s) = put_row da_id a (applications s)" "dealers (put_application a s) = dealers s"
  "applications (set_active i b s) = applications s" "map dl_id (dealers (set_active i b s)) = map dl_id (dealers s)"
  "applications (dealer_role_link now u s) = applications s" "dealers (dealer_role_link now u s) = dealers s"
  by (auto simp: put_application_def set_active_def dealer_role_link_def split: option.splits)

lemma app_move_ok:
  assumes "app_move s s'" "apps_ok s"
  shows "apps_ok s'"
  using assms
proof cases
  case same
  then show ?thesis using assms(2) by (simp add: apps_ok_def)
next
  case (new a d)
  have "fresh_id dl_id (dealers s) \<notin> da_dealer_id ` set (applications s)"
    using fresh_id_notin [of dl_id "dealers s"] assms(2) by (auto simp: apps_ok_def)
  then show ?thesis
    using assms(2) fresh_id_notin [of da_id "applications s"] fresh_id_notin [of dl_id "dealers s"]
    by (auto simp: apps_ok_def new)
next
  case (stage a a')
  have d: "distinct (map da_id (applications s))" using assms(2) by (simp add: apps_ok_def)
  have "map da_dealer_id (put_row da_id a' (applications s)) = map da_dealer_id (applications s)"
    by (rule map_put_row [OF d stage(1-3)])
  moreover from this have "da_dealer_id ` set (put_row da_id a' (applications s)) = da_dealer_id ` set (applications s)"
    by (metis list.set_map)
  moreover from stage(6) have "dl_id ` set (dealers s') = dl_id ` set (dealers s)" by (metis list.set_map)
  moreover have "list_all app_ok (put_row da_id a' (applications s))"
    using assms(2) stage(4) in_put_row [of _ da_id a' "applications s"] by (auto simp: apps_ok_def list_all_iff)
  ultimately show ?thesis using assms(2) stage(6) by (simp add: apps_ok_def stage(5))
next
  case data
  from data(2) have "dl_id ` set (dealers s') = dl_id ` set (dealers s)" by (metis list.set_map)
  with assms(2) show ?thesis by (simp add: apps_ok_def data)
qed

lemma stage_move:
  assumes "get_row da_id i (applications s) = Some a" "applications s' = put_row da_id a' (applications s)"
    "da_id a' = da_id a" "da_dealer_id a' = da_dealer_id a" "app_ok a'" "map dl_id (dealers s') = map dl_id (dealers s)"
  shows "app_move s s'"
  using get_row_Some [OF assms(1)] assms(2-) by (intro app_move.stage [of a s a']) auto

lemma dealer_stageE:
  assumes "dealer_stage g h n now u s = Inr (x, s')"
  obtains a where "a \<in> set (applications s)" "da_current_stage a = g" "s' = put_application (log_stage now h n a) s"
  using assms
  by (auto simp: dealer_stage_def get_application_def split: sum.splits option.splits if_splits dest!: find_Some)

lemma dealer_stage_move:
  assumes "dealer_stage g h n now u s = Inr (x, s')"
  shows "app_move s s'"
  using assms
proof (rule dealer_stageE)
  fix a
  assume "a \<in> set (applications s)" "s' = put_application (log_stage now h n a) s"
  then show ?thesis by (intro app_move.stage [of a s "log_stage now h n a"]) simp_all
qed

lemma update_application_stage_move: "update_application_stage now i g n s = Inr (a, s') \<Longrightarrow> app_move s s'"
  by (auto simp: update_application_stage_def Let_def split: option.splits if_splits intro: stage_move)

lemma update_dealer_move: "update_dealer i u s = Inr (d, s') \<Longrightarrow> app_move s s'"
  by (auto simp: update_dealer_def Let_def split: option.splits if_splits intro!: app_move.data)

lemma create_dealer_move: "create_dealer hash token now c s = Inr (x, s') \<Longrightarrow> app_move s s'"
  by (auto simp: create_dealer_def Let_def new_dealer_def split: if_splits intro!: app_move.new)

lemma register_move: "api_create_dealer_profile ok now u p s = Inr (d, s') \<Longrightarrow> app_move s s'"
  by (auto simp: api_create_dealer_profile_def create_dealer_profile_def Let_def new_dealer_def app_ok_def
      split: if_splits intro!: app_move.new)

lemma document_moves:
  "upload_document_version now u t c f v s = Inr (d, s') \<Longrightarrow> app_move s s'"
  "delete_document u i s = Inr s' \<Longrightarrow> app_move s s'"
  "verify_document i b s = Inr s' \<Longrightarrow> app_move s s'"
  by (auto simp: upload_document_version_def delete_document_def verify_document_def Let_def
      split: sum.splits option.splits if_splits intro!: app_move.same)

lemma admin_moves:
  "admin_manual_review now i ok n s = Inr s' \<Longrightarrow> app_move s s'"
  "admin_schedule_visit now i d v s = Inr s' \<Longrightarrow> app_move s s'"
  "admin_complete_visit now i v r s = Inr s' \<Longrightarrow> app_move s s'"
  "admin_final_approve now i s = Inr s' \<Longrightarrow> app_move s s'"
  "admin_handover_inventory now i s = Inr s' \<Longrightarrow> app_move s s'"
  "admin_update_stage now i g m s = Inr s' \<Longrightarrow> app_move s s'"
  by (auto simp: admin_manual_review_def admin_schedule_visit_def admin_complete_visit_def
      admin_final_approve_def admin_handover_inventory_def admin_update_stage_def with_application_def Let_def
      split: option.splits if_splits elim!: stage_move)

lemma serve_dealer_move: "app_move s (serve_dealer ok now u q s)"
  by (cases q)
    (auto simp: second_or_def tables_or_def trigger_automated_checks_def submit_kyc_def complete_training_def
      split: sum.splits intro: app_move.same register_move dealer_stage_move document_moves)

lemma update_stage_move: "update_stage now i g n s = Inr (a, s') \<Longrightarrow> app_move s s'"
  by (auto simp: update_stage_def split: if_splits sum.splits exn.splits intro: update_application_stage_move)

lemma serve_dealer_admin_move: "app_move s (serve_dealer_admin hash token now q s)"
  by (cases q)
    (auto simp: second_or_def tables_or_def split: sum.splits
      intro: app_move.same admin_moves update_stage_move create_dealer_move update_dealer_move document_moves)

section \<open>Requests\<close>

fun serve_portal :: "(string \<Rightarrow> bool) \<times> (string \<Rightarrow> string) \<times> string \<Rightarrow>
    datetime \<times> (int \<times> dealer_request + admin_request) \<Rightarrow> dealer_db \<Rightarrow> dealer_db" where
  "serve_portal (ok, hash, token) (now, Inl (u, q)) s = serve_dealer ok now u q s"
| "serve_portal (ok, hash, token) (now, Inr q) s = serve_dealer_admin hash token now q s"

interpretation onboarding: stable_step "serve_portal env" "\<lambda>_. True" apps_ok for env
proof
  fix x s
  assume "apps_ok s"
  then show "apps_ok (serve_portal env x s)"
    by (cases "(env, x, s)" rule: serve_portal.cases)
      (auto intro: app_move_ok [OF serve_dealer_move] app_move_ok [OF serve_dealer_admin_move])
qed

text \<open>What a dealer reaches alone.\<close>

definition dealer_reach :: "string \<Rightarrow> string \<Rightarrow> bool" where
  "dealer_reach g h \<longleftrightarrow> g = h
     \<or> g = ''SUBMITTED'' \<and> (h = ''AUTOMATED_CHECKS_PASSED'' \<or> h = ''KYC_SUBMITTED'')
     \<or> g = ''AUTOMATED_CHECKS_PASSED'' \<and> h = ''KYC_SUBMITTED''
     \<or> g = ''APPROVED'' \<and> h = ''TRAINING_COMPLETED''"

lemma dealer_reach_trans: "dealer_reach g h \<Longrightarrow> dealer_reach h k \<Longrightarrow> dealer_reach g k"
  by (auto simp: dealer_reach_def)

definition dealer_later :: "dealer_db \<Rightarrow> dealer_db \<Rightarrow> bool" where
  "dealer_later s t \<longleftrightarrow> filter dl_is_active (dealers t) = filter dl_is_active (dealers s)
     \<and> (\<forall>a \<in> set (applications t). dealer_reach ''SUBMITTED'' (da_current_stage a)
         \<or> (\<exists>b \<in> set (applications s). da_id b = da_id a \<and> dealer_reach (da_current_stage b) (da_current_stage a)))"

lemma dealer_later_refl: "dealer_later s s"
  by (auto simp: dealer_later_def dealer_reach_def)

lemma dealer_laterD:
  assumes "dealer_later s t" "a \<in> set (applications t)"
  obtains "dealer_reach ''SUBMITTED'' (da_current_stage a)"
    | b where "b \<in> set (applications s)" "da_id b = da_id a" "dealer_reach (da_current_stage b) (da_current_stage a)"
  using assms by (auto simp: dealer_later_def)

lemma dealer_later_trans:
  assumes "dealer_later s t" "dealer_later t u"
  shows "dealer_later s u"
  unfolding dealer_later_def
proof (intro conjI ballI)
  show "filter dl_is_active (dealers u) = filter dl_is_active (dealers s)"
    using assms by (simp add: dealer_later_def)
next
  fix a
  assume "a \<in> set (applications u)"
  with assms(2) show "dealer_reach ''SUBMITTED'' (da_current_stage a)
    \<or> (\<exists>b \<in> set (applications s). da_id b = da_id a \<and> dealer_reach (da_current_stage b) (da_current_stage a))"
  proof (cases rule: dealer_laterD)
    case (2 b)
    from assms(1) 2(1) show ?thesis
    proof (cases rule: dealer_laterD)
      case 1
      with 2(3) show ?thesis by (blast intro: dealer_reach_trans)
    next
      case (2 c)
      with \<open>da_id b = da_id a\<close> \<open>dealer_reach (da_current_stage b) (da_current_stage a)\<close>
      show ?thesis by (metis dealer_reach_trans)
    qed
  qed simp
qed

lemma dealer_stage_later:
  assumes "dealer_stage g h n now u s = Inr (x, s')" "dealer_reach g h"
  shows "dealer_later s s'"
  using assms(1)
proof (rule dealer_stageE)
  fix a
  assume a: "a \<in> set (applications s)" "da_current_stage a = g" "s' = put_application (log_stage now h n a) s"
  have "dealer_reach ''SUBMITTED'' (da_current_stage c)
      \<or> (\<exists>b \<in> set (applications s). da_id b = da_id c \<and> dealer_reach (da_current_stage b) (da_current_stage c))"
    if "c \<in> set (put_row da_id (log_stage now h n a) (applications s))" for c
    using in_put_row [OF that] a(1,2) assms(2) by (auto simp: dealer_reach_def)
  with a(3) show ?thesis by (simp add: dealer_later_def)
qed

lemma document_frames:
  "upload_document_version now u t c f v s = Inr (d, s') \<Longrightarrow> applications s' = applications s \<and> dealers s' = dealers s"
  "delete_document u i s = Inr s' \<Longrightarrow> applications s' = applications s \<and> dealers s' = dealers s"
  by (auto simp: upload_document_version_def delete_document_def Let_def split: sum.splits option.splits if_splits)

lemma same_later: "applications s' = applications s \<and> dealers s' = dealers s \<Longrightarrow> dealer_later s s'"
  using dealer_later_refl [of s] by (simp add: dealer_later_def)

lemma register_later: "api_create_dealer_profile ok now u p s = Inr (d, s') \<Longrightarrow> dealer_later s s'"
  by (auto simp: api_create_dealer_profile_def create_dealer_profile_def Let_def new_dealer_def
      dealer_later_def dealer_reach_def split: if_splits)

lemma reaches:
  "dealer_reach ''SUBMITTED'' ''AUTOMATED_CHECKS_PASSED''" "dealer_reach ''AUTOMATED_CHECKS_PASSED'' ''KYC_SUBMITTED''"
  "dealer_reach ''APPROVED'' ''TRAINING_COMPLETED''"
  by (simp_all add: dealer_reach_def)

lemma second_later: "(\<And>x s'. out = Inr (x, s') \<Longrightarrow> dealer_later s s') \<Longrightarrow> dealer_later s (second_or s out)"
  by (auto simp: second_or_def dealer_later_refl split: sum.split)

lemma tables_later: "(\<And>s'. out = Inr s' \<Longrightarrow> dealer_later s s') \<Longrightarrow> dealer_later s (tables_or s out)"
  by (auto simp: tables_or_def dealer_later_refl split: sum.split)

lemma serve_dealer_later: "dealer_later s (serve_dealer ok now u q s)"
proof (cases q)
  case (Register p)
  then show ?thesis by (simp add: second_later register_later)
next
  case TriggerChecks
  then show ?thesis
    by simp (rule second_later, simp add: trigger_automated_checks_def, erule dealer_stage_later [OF _ reaches(1)])
next
  case SubmitKyc
  then show ?thesis
    by simp (rule second_later, simp add: submit_kyc_def, erule dealer_stage_later [OF _ reaches(2)])
next
  case CompleteTraining
  then show ?thesis
    by simp (rule second_later, simp add: complete_training_def, erule dealer_stage_later [OF _ reaches(3)])
next
  case (UploadDocument t c f v)
  then show ?thesis by simp (rule second_later, rule same_later, erule document_frames(1))
next
  case (DeleteDocument i)
  then show ?thesis by simp (rule tables_later, rule same_later, erule document_frames(2))
qed

interpretation dealers_alone: evolving_step "\<lambda>(now, u, q). serve_dealer ok now u q" "\<lambda>_. True" "\<lambda>_. True"
  dealer_later for ok
  by unfold_locales (auto intro: dealer_later_refl dealer_later_trans serve_dealer_later)

section \<open>Documents\<close>

lemma keys_latest: "distinct (map fst l) \<Longrightarrow> distinct (map fst (latest_step d l))"
  by (auto simp: latest_step_def distinct_update split: option.splits)

lemma update_filter_other:
  "k \<noteq> t \<Longrightarrow> filter (\<lambda>p. fst p \<noteq> t) (AList.update k v l) = AList.update k v (filter (\<lambda>p. fst p \<noteq> t) l)"
  by (induction l) auto

lemma update_filter_same: "filter (\<lambda>p. fst p \<noteq> t) (AList.update t v l) = filter (\<lambda>p. fst p \<noteq> t) l"
  by (induction l) auto

lemma map_of_filter_key: "map_of (filter (\<lambda>p. fst p \<noteq> t) l) k = (if k = t then None else map_of l k)"
  by (induction l) auto

lemma latest_filter:
  "filter (\<lambda>p. fst p \<noteq> t) (fold latest_step ds l)
     = fold latest_step (filter (\<lambda>d. dd_document_type d \<noteq> t) ds) (filter (\<lambda>p. fst p \<noteq> t) l)"
proof (induction ds arbitrary: l)
  case (Cons d ds)
  have "filter (\<lambda>p. fst p \<noteq> t) (latest_step d l)
      = (if dd_document_type d = t then filter (\<lambda>p. fst p \<noteq> t) l else latest_step d (filter (\<lambda>p. fst p \<noteq> t) l))"
    by (auto simp: latest_step_def map_of_filter_key update_filter_other update_filter_same split: option.splits)
  then show ?case by (auto simp: Cons.IH)
qed simp

lemma latest_keyed:
  "list_all (\<lambda>p. dd_document_type (snd p) = fst p) l \<Longrightarrow>
    list_all (\<lambda>p. dd_document_type (snd p) = fst p) (fold latest_step ds l)"
proof (induction ds arbitrary: l)
  case (Cons d ds)
  have upd: "list_all (\<lambda>p. dd_document_type (snd p) = fst p) (AList.update (dd_document_type d) d m)"
    if "list_all (\<lambda>p. dd_document_type (snd p) = fst p) m" for m
    using that by (induction m) auto
  from Cons.prems upd have "list_all (\<lambda>p. dd_document_type (snd p) = fst p) (latest_step d l)"
    by (auto simp: latest_step_def split: option.splits)
  with Cons.IH show ?case by simp
qed simp

lemma filter_snd_keyed:
  "list_all (\<lambda>p. dd_document_type (snd p) = fst p) l \<Longrightarrow>
    map snd (filter (\<lambda>p. fst p \<noteq> t) l) = filter (\<lambda>d. dd_document_type d \<noteq> t) (map snd l)"
  by (induction l) auto

lemma update_new_key: "k \<notin> fst ` set l \<Longrightarrow> AList.update k v l = l @ [(k, v)]"
  by (induction l) auto

lemma upload_unfold:
  assumes "upload_document_version now u t c f v s = Inr (d, s')"
  obtains i where "get_dealer_id u s = Inr i"
    "d = \<lparr>dd_id = fresh_id dd_id (dealer_documents s), dd_dealer_id = i, dd_document_type = t, dd_category = c,
       dd_file_url = f, dd_version = dd_version d, dd_status = ''PENDING'', dd_valid_until = v,
       dd_uploaded_at = now, dd_is_verified = False\<rparr>"
    "dd_version d = (let e = filter (same_document i t) (dealer_documents s)
       in if e = [] then 1 else Max (set (map dd_version e)) + 1)"
    "s' = s\<lparr>dealer_documents := map (\<lambda>x. if same_document i t x then x\<lparr>dd_status := ''ARCHIVED''\<rparr> else x)
       (dealer_documents s) @ [d]\<rparr>"
  using assms by (auto simp: upload_document_version_def Let_def split: sum.splits)

lemma get_dealer_id_documents [simp]: "get_dealer_id u (s\<lparr>dealer_documents := t\<rparr>) = get_dealer_id u s"
  by (simp add: get_dealer_id_def get_dealer_profile_for_user_id_def get_dealer_by_user_def cong: option.case_cong)

lemma archived_filter:
  "filter (\<lambda>d. dd_dealer_id d = i \<and> dd_status d \<noteq> ''ARCHIVED'')
     (map (\<lambda>x. if same_document i t x then x\<lparr>dd_status := ''ARCHIVED''\<rparr> else x) ds)
   = filter (\<lambda>d. dd_document_type d \<noteq> t) (filter (\<lambda>d. dd_dealer_id d = i \<and> dd_status d \<noteq> ''ARCHIVED'') ds)"
  by (induction ds) (auto simp: same_document_def)

lemma version_above:
  assumes "x \<in> set ds" "same_document i t x"
  shows "dd_version x < (let e = filter (same_document i t) ds in if e = [] then 1 else Max (set (map dd_version e)) + 1)"
proof -
  let ?e = "filter (same_document i t) ds"
  have "x \<in> set ?e" using assms by simp
  then have "?e \<noteq> []" "dd_version x \<le> Max (set (map dd_version ?e))" by (auto simp: filter_empty_conv)
  then show ?thesis by (simp add: Let_def)
qed

section \<open>Properties\<close>

definition sample_dealer_profile :: profile_create where
  "sample_dealer_profile = \<lparr>pc_business_name = ''Volt'', pc_contact_person = ''Ann'', pc_contact_email = ''a@b.c'',
     pc_contact_phone = ''+919876543210'', pc_address_line1 = ''1'', pc_city = ''Pune'', pc_state = ''MH'',
     pc_pincode = ''411001'', pc_gst_number = None, pc_pan_number = None\<rparr>"

definition sample_portal :: dealer_db where
  "sample_portal = \<lparr>dealers = [], applications = [], field_visits = [], dealer_documents = [],
     portal_users = [], dealer_roles = [], dealer_user_roles = []\<rparr>"

definition sample_applied :: dealer_db where
  "sample_applied = serve_dealer (\<lambda>e. True) 1 7 (Register sample_dealer_profile) sample_portal"

text \<open>
  C33: whatever dealers and administrators send, the stage of every application is the one that its
  history ends with, and a dealer has one application.
\<close>

theorem stage_ends_history:
  assumes "apps_ok s" "a \<in> set (applications (fold (serve_portal env) rs s))"
  shows "da_status_history a \<noteq> [] \<and> he_stage (last (da_status_history a)) = da_current_stage a
    \<and> distinct (map da_dealer_id (applications (fold (serve_portal env) rs s)))"
proof -
  have "apps_ok (fold (serve_portal env) rs s)"
    by (rule onboarding.fold_stable [OF _ assms(1)]) (simp add: list_all_iff)
  with assms(2) show ?thesis by (simp add: apps_ok_def list_all_iff app_ok_def)
qed

definition sample_env :: "(string \<Rightarrow> bool) \<times> (string \<Rightarrow> string) \<times> string" where
  "sample_env = (\<lambda>e. True, \<lambda>p. p, ''secret'')"

definition sample_portal_end :: dealer_db where
  "sample_portal_end = fold (serve_portal sample_env) [(1, Inl (7, Register sample_dealer_profile)),
     (2, Inl (7, TriggerChecks)), (3, Inr (SetStage 1 ''APPROVED'' None))] sample_portal"

lemma sample_portal_run:
  "\<exists>a \<in> set (applications sample_portal_end). (da_current_stage a, length (da_status_history a)) = (''APPROVED'', 3)"
  by (rule map_singleton) code_simp

lemma sample_portal_ok: "apps_ok sample_portal" by (simp add: apps_ok_def sample_portal_def)

lemma stage_ends_history_witness:
  "\<exists>a \<in> set (applications sample_portal_end). length (da_status_history a) = 3 \<and> da_status_history a \<noteq> []
    \<and> he_stage (last (da_status_history a)) = da_current_stage a
    \<and> distinct (map da_dealer_id (applications sample_portal_end))"
proof -
  from sample_portal_run obtain a where a: "a \<in> set (applications sample_portal_end)" "length (da_status_history a) = 3"
    by (elim bexE) simp
  from stage_ends_history [OF sample_portal_ok a(1) [unfolded sample_portal_end_def], folded sample_portal_end_def] a
  show ?thesis by blast
qed

text \<open>
  C34: whatever dealers send, no dealer becomes active, and no application gets further than the
  submission of its KYC, or from an approval to the completed training: the rest takes an
  administrator.
\<close>

theorem dealer_cannot_approve_itself:
  assumes "a \<in> set (applications (fold (\<lambda>(now, u, q). serve_dealer ok now u q) rs s))"
  shows "filter dl_is_active (dealers (fold (\<lambda>(now, u, q). serve_dealer ok now u q) rs s))
      = filter dl_is_active (dealers s)
    \<and> (dealer_reach ''SUBMITTED'' (da_current_stage a)
       \<or> (\<exists>b \<in> set (applications s). da_id b = da_id a \<and> dealer_reach (da_current_stage b) (da_current_stage a)))"
  using dealers_alone.fold_later [of rs s ok] assms by (simp add: list_all_iff dealer_later_def)

definition sample_alone :: dealer_db where
  "sample_alone = fold (\<lambda>(now, u, q). serve_dealer (\<lambda>e. True) now u q)
     [(2, 7, TriggerChecks), (3, 7, SubmitKyc), (4, 7, CompleteTraining)] sample_applied"

lemma sample_alone_run: "\<exists>a \<in> set (applications sample_alone). da_current_stage a = ''KYC_SUBMITTED''"
  by (rule map_singleton) code_simp

lemma dealer_cannot_approve_itself_witness:
  "\<exists>a \<in> set (applications sample_alone). da_current_stage a = ''KYC_SUBMITTED''
    \<and> filter dl_is_active (dealers sample_alone) = filter dl_is_active (dealers sample_applied)
    \<and> (dealer_reach ''SUBMITTED'' (da_current_stage a)
       \<or> (\<exists>b \<in> set (applications sample_applied). da_id b = da_id a
            \<and> dealer_reach (da_current_stage b) (da_current_stage a)))"
proof -
  from sample_alone_run obtain a where a: "a \<in> set (applications sample_alone)" "da_current_stage a = ''KYC_SUBMITTED''"
    by blast
  from dealer_cannot_approve_itself [OF a(1) [unfolded sample_alone_def], folded sample_alone_def] a
  show ?thesis by blast
qed

text \<open>
  an uploaded document replaces whatever was listed of its type, is pending and numbered above
  every version before it, and the listing of the other types stays as it was.
\<close>

lemma upload_becomes_current:
  assumes "upload_document_version now u t c f v s = Inr (d, s')" "list_documents u s = Inr ds"
  shows "list_documents u s' = Inr (filter (\<lambda>x. dd_document_type x \<noteq> t) ds @ [d])
    \<and> dd_document_type d = t \<and> dd_status d = ''PENDING''
    \<and> (\<forall>x \<in> set (dealer_documents s). same_document (dd_dealer_id d) t x \<longrightarrow> dd_version x < dd_version d)"
  using assms(1)
proof (rule upload_unfold)
  fix i
  assume i: "get_dealer_id u s = Inr i"
    and d: "d = \<lparr>dd_id = fresh_id dd_id (dealer_documents s), dd_dealer_id = i, dd_document_type = t, dd_category = c,
       dd_file_url = f, dd_version = dd_version d, dd_status = ''PENDING'', dd_valid_until = v,
       dd_uploaded_at = now, dd_is_verified = False\<rparr>"
    and n: "dd_version d = (let e = filter (same_document i t) (dealer_documents s)
       in if e = [] then 1 else Max (set (map dd_version e)) + 1)"
    and s': "s' = s\<lparr>dealer_documents := map (\<lambda>x. if same_document i t x then x\<lparr>dd_status := ''ARCHIVED''\<rparr> else x)
       (dealer_documents s) @ [d]\<rparr>"
  have sel: "dd_dealer_id d = i" "dd_document_type d = t" "dd_status d = ''PENDING''" by (subst d, simp)+
  let ?L = "filter (\<lambda>d. dd_dealer_id d = i \<and> dd_status d \<noteq> ''ARCHIVED'') (dealer_documents s)"
  let ?l = "fold latest_step ?L []"
  have ds: "ds = map snd ?l"
    using assms(2) by (simp add: list_documents_def i documents_of_def)
  have k: "list_all (\<lambda>p. dd_document_type (snd p) = fst p) ?l" by (rule latest_keyed) simp
  have "fold latest_step (filter (\<lambda>d. dd_document_type d \<noteq> t) ?L @ [d]) []
      = latest_step d (filter (\<lambda>p. fst p \<noteq> t) ?l)"
    using latest_filter [of t ?L "[]"] by simp
  also have "\<dots> = filter (\<lambda>p. fst p \<noteq> t) ?l @ [(t, d)]"
    by (simp add: latest_step_def sel map_of_filter_key) (rule update_new_key, auto)
  finally have "list_documents u s' = Inr (map snd (filter (\<lambda>p. fst p \<noteq> t) ?l @ [(t, d)]))"
    by (simp add: list_documents_def documents_of_def s' i archived_filter sel)
  then have "list_documents u s' = Inr (filter (\<lambda>x. dd_document_type x \<noteq> t) ds @ [d])"
    using filter_snd_keyed [OF k, of t] by (simp add: ds)
  then show ?thesis
    using version_above [of _ "dealer_documents s" i t] by (simp add: sel n)
qed

lemma upload_becomes_current_witness:
  "\<exists>d s' ds. upload_document_version 5 7 ''pan'' ''verification'' ''u'' None sample_applied = Inr (d, s')
    \<and> list_documents 7 s' = Inr (filter (\<lambda>x. dd_document_type x \<noteq> ''pan'') ds @ [d])"
proof -
  have "list_documents 7 sample_applied = Inr []" by code_simp
  moreover obtain d s' where up: "upload_document_version 5 7 ''pan'' ''verification'' ''u'' None sample_applied = Inr (d, s')"
  proof -
    have "\<not> isl (upload_document_version 5 7 ''pan'' ''verification'' ''u'' None sample_applied)" by code_simp
    then show ?thesis using that by (cases "upload_document_version 5 7 ''pan'' ''verification'' ''u'' None sample_applied") auto
  qed
  ultimately show ?thesis using upload_becomes_current [OF up] by blast
qed

end
