(* ===== verification/DealerKyc.thy ===== *)
theory DealerKyc
  imports PyStr
begin

text \<open>
  The KYC of dealers, \<open>dealer_kyc_service.py\<close> and \<open>dealer_kyc.py\<close>: an application is a state machine
  and every change of its state is logged. The storage of files is a parameter: \<open>put_object\<close> says
  whether the bucket took a key, \<open>uuid\<close> is what is drawn for a file.
\<close>

section \<open>Tables\<close>

datatype kyc_state = REGISTRATION | DOC_SUBMITTED | AUTO_CHECKS | MANUAL_REVIEW | APPROVED | ACTIVE | REJECTED

fun state_value :: "kyc_state \<Rightarrow> string" where
  "state_value REGISTRATION = ''REGISTRATION''"
| "state_value DOC_SUBMITTED = ''DOC_SUBMITTED''"
| "state_value AUTO_CHECKS = ''AUTO_CHECKS''"
| "state_value MANUAL_REVIEW = ''MANUAL_REVIEW''"
| "state_value APPROVED = ''APPROVED''"
| "state_value ACTIVE = ''ACTIVE''"
| "state_value REJECTED = ''REJECTED''"

record kyc_application =
  ka_id :: int
  ka_user_id :: int
  ka_company_name :: string
  ka_pan_number :: string
  ka_gst_number :: string
  ka_bank_details_json :: string
  ka_pan_doc_url :: "string option"
  ka_gst_doc_url :: "string option"
  ka_reg_cert_url :: "string option"
  ka_state :: kyc_state
  ka_admin_comments :: "string option"
  ka_rejection_reason :: "string option"
  ka_created_at :: datetime
  ka_updated_at :: datetime

record kyc_transition =
  kt_id :: int
  kt_application_id :: int
  kt_from_state :: string
  kt_to_state :: string
  kt_reason :: "string option"
  kt_changed_by_user_id :: "int option"
  kt_created_at :: datetime

record kyc_db =
  kyc_applications :: "kyc_application list"
  kyc_transitions :: "kyc_transition list"

definition log_transition ::
    "datetime \<Rightarrow> int \<Rightarrow> kyc_state \<Rightarrow> kyc_state \<Rightarrow> int \<Rightarrow> string \<Rightarrow> kyc_db \<Rightarrow> kyc_db" where
  "log_transition now app_id from_state to_state user_id reason s =
     s\<lparr>kyc_transitions := kyc_transitions s
         @ [\<lparr>kt_id = fresh_id kt_id (kyc_transitions s), kt_application_id = app_id,
             kt_from_state = state_value from_state, kt_to_state = state_value to_state,
             kt_reason = Some reason, kt_changed_by_user_id = Some user_id, kt_created_at = now\<rparr>]\<rparr>"

section \<open>Uploads\<close>

record storage_settings =
  st_bucket :: "string option"
  st_access_key :: bool
  st_region :: "string option"
  st_custom_domain :: "string option"
  st_local_path :: string

record upload_file =
  uf_filename :: string
  uf_content_type :: string

definition ends_with :: "string \<Rightarrow> string \<Rightarrow> bool" where
  "ends_with suffix s = starts_with (rev suffix) (rev s)"

definition given_text :: "string option \<Rightarrow> string option" where
  "given_text x = (case x of None \<Rightarrow> None | Some t \<Rightarrow> if t = [] then None else Some t)"

definition upload_to_s3 ::
    "storage_settings \<Rightarrow> (string \<Rightarrow> bool) \<Rightarrow> (string \<Rightarrow> string) \<Rightarrow> upload_file \<Rightarrow> string \<Rightarrow> string res" where
  "upload_to_s3 cfg put_object uuid file prefix =
     (if uf_content_type file \<notin> {''application/pdf'', ''image/jpeg'', ''image/jpg'', ''image/png''}
         \<and> \<not> list_ex (\<lambda>x. ends_with x (py_lower (uf_filename file))) [''.pdf'', ''.jpg'', ''.jpeg'', ''.png'']
      then Inl (ValueError ''Invalid file type for {file.filename}. Only PDF and images are allowed.'')
      else
        let ext = (if CHR ''.'' \<in> set (uf_filename file) then last (split_on (CHR ''.'') (uf_filename file))
                   else ''bin'');
            unique_filename = prefix @ ''_'' @ uuid prefix @ ''.'' @ ext
        in case (given_text (st_bucket cfg), st_access_key cfg) of
             (Some bucket, True) \<Rightarrow>
               if put_object (''kyc/'' @ unique_filename)
               then Inr (case given_text (st_custom_domain cfg) of
                           Some domain \<Rightarrow> ''https://'' @ domain @ ''/kyc/'' @ unique_filename
                         | None \<Rightarrow> ''https://'' @ bucket @ ''.s3.''
                             @ (case given_text (st_region cfg) of None \<Rightarrow> ''ap-south-1'' | Some r \<Rightarrow> r)
                             @ ''.amazonaws.com/kyc/'' @ unique_filename)
               else Inl (ValueError ''Failed to securely store document: {e}'')
           | _ \<Rightarrow> Inr (''file://'' @ st_local_path cfg @ ''/kyc/'' @ unique_filename))"

section \<open>The state machine\<close>

record kyc_form =
  kf_company_name :: string
  kf_pan_number :: string
  kf_gst_number :: string
  kf_bank_details_json :: string
  kf_pan_file :: upload_file
  kf_gst_file :: upload_file
  kf_reg_cert :: upload_file

definition put_kyc :: "kyc_application \<Rightarrow> kyc_db \<Rightarrow> kyc_db" where
  "put_kyc a s = s\<lparr>kyc_applications := put_row ka_id a (kyc_applications s)\<rparr>"

definition kyc_of_user :: "int \<Rightarrow> kyc_db \<Rightarrow> kyc_application option" where
  "kyc_of_user user_id s = List.find (\<lambda>a. ka_user_id a = user_id) (kyc_applications s)"

definition submit_documents ::
    "(upload_file \<Rightarrow> string \<Rightarrow> string res) \<Rightarrow> datetime \<Rightarrow> int \<Rightarrow> kyc_form \<Rightarrow> kyc_db \<Rightarrow> (kyc_application \<times> kyc_db) res" where
  "submit_documents upload now user_id f s =
     (let existing = kyc_of_user user_id s
      in if (case existing of None \<Rightarrow> False | Some a \<Rightarrow> ka_state a \<notin> {REJECTED, REGISTRATION})
         then Inl (ValueError ''KYC application already in progress.'')
         else
       case upload (kf_pan_file f) (show_int user_id @ ''_pan'') of Inl e \<Rightarrow> Inl e | Inr pan_url \<Rightarrow>
      (case upload (kf_gst_file f) (show_int user_id @ ''_gst'') of Inl e \<Rightarrow> Inl e | Inr gst_url \<Rightarrow>
      (case upload (kf_reg_cert f) (show_int user_id @ ''_reg'') of Inl e \<Rightarrow> Inl e | Inr reg_url \<Rightarrow>
       (case existing of
          Some a \<Rightarrow>
            let a' = a\<lparr>ka_company_name := kf_company_name f, ka_pan_number := kf_pan_number f,
                       ka_gst_number := kf_gst_number f, ka_bank_details_json := kf_bank_details_json f,
                       ka_pan_doc_url := Some pan_url, ka_gst_doc_url := Some gst_url,
                       ka_reg_cert_url := Some reg_url, ka_state := DOC_SUBMITTED, ka_updated_at := now\<rparr>
            in Inr (a', log_transition now (ka_id a) (ka_state a) DOC_SUBMITTED user_id
                          ''Documents re-submitted'' (put_kyc a' s))
        | None \<Rightarrow>
            let a = \<lparr>ka_id = fresh_id ka_id (kyc_applications s), ka_user_id = user_id,
                     ka_company_name = kf_company_name f, ka_pan_number = kf_pan_number f,
                     ka_gst_number = kf_gst_number f, ka_bank_details_json = kf_bank_details_json f,
                     ka_pan_doc_url = Some pan_url, ka_gst_doc_url = Some gst_url,
                     ka_reg_cert_url = Some reg_url, ka_state = DOC_SUBMITTED, ka_admin_comments = None,
                     ka_rejection_reason = None, ka_created_at = now, ka_updated_at = now\<rparr>
            in Inr (a, log_transition now (ka_id a) REGISTRATION DOC_SUBMITTED user_id
                         ''Initial form sumbitted''
                         (s\<lparr>kyc_applications := kyc_applications s @ [a]\<rparr>))))))"

definition move_kyc ::
    "datetime \<Rightarrow> kyc_application \<Rightarrow> kyc_application \<Rightarrow> int \<Rightarrow> string \<Rightarrow> kyc_db \<Rightarrow> kyc_db" where
  "move_kyc now a a' user_id reason s =
     log_transition now (ka_id a) (ka_state a) (ka_state a') user_id reason (put_kyc a' s)"

definition run_auto_checks :: "datetime \<Rightarrow> int \<Rightarrow> kyc_db \<Rightarrow> (kyc_application \<times> kyc_db) res" where
  "run_auto_checks now user_id s =
     (case kyc_of_user user_id s of
        None \<Rightarrow> Inl (ValueError ''No KYC application found.'')
      | Some a \<Rightarrow>
          if ka_state a \<noteq> DOC_SUBMITTED
          then Inl (ValueError ''Cannot run auto-checks from state {app.application_state}'')
          else
            let a1 = a\<lparr>ka_state := AUTO_CHECKS\<rparr>;
                s1 = move_kyc now a a1 user_id ''Started auto checks'' s
            in if ka_pan_number a = ''FAILED_PAN''
               then let a2 = a1\<lparr>ka_state := REJECTED,
                             ka_rejection_reason := Some ''Automated checks failed: Invalid PAN.''\<rparr>
                    in Inr (a2, move_kyc now a1 a2 user_id ''Automated checks failed'' s1)
               else let a2 = a1\<lparr>ka_state := MANUAL_REVIEW\<rparr>
                    in Inr (a2, move_kyc now a1 a2 user_id ''Automated checks passed'' s1))"

definition manual_review ::
    "datetime \<Rightarrow> int \<Rightarrow> int \<Rightarrow> bool \<Rightarrow> string \<Rightarrow> kyc_db \<Rightarrow> (kyc_application \<times> kyc_db) res" where
  "manual_review now app_id admin_user_id approve comments s =
     (case get_row ka_id app_id (kyc_applications s) of
        None \<Rightarrow> Inl (ValueError ''No such application.'')
      | Some a \<Rightarrow>
          if ka_state a \<noteq> MANUAL_REVIEW
          then Inl (ValueError ''Application is in {app.application_state}, not MANUAL_REVIEW.'')
          else
            let a1 = a\<lparr>ka_admin_comments := Some comments\<rparr>;
                a2 = (if approve then a1\<lparr>ka_state := APPROVED\<rparr>
                      else a1\<lparr>ka_state := REJECTED, ka_rejection_reason := Some comments\<rparr>)
            in Inr (a2, move_kyc now a a2 admin_user_id
                 (if approve then ''Admin Review: Approved'' else ''Admin Review: Rejected'') s))"

definition activate_dealer :: "datetime \<Rightarrow> int \<Rightarrow> int \<Rightarrow> kyc_db \<Rightarrow> (kyc_application \<times> kyc_db) res" where
  "activate_dealer now app_id admin_user_id s =
     (case get_row ka_id app_id (kyc_applications s) of
        None \<Rightarrow> Inl (ValueError ''No such application.'')
      | Some a \<Rightarrow>
          if ka_state a \<noteq> APPROVED
          then Inl (ValueError ''Application is in {app.application_state}, not APPROVED.'')
          else let a' = a\<lparr>ka_state := ACTIVE\<rparr>
               in Inr (a', move_kyc now a a' admin_user_id ''Dealer Activated'' s))"

section \<open>The endpoints\<close>

text \<open>\<open>except ValueError\<close>, \<open>except Exception\<close>: answered as 400 with the text of the exception.\<close>

definition bad_request :: "exn \<Rightarrow> exn" where
  "bad_request e = (case e of ValueError t \<Rightarrow> HTTPException 400 t | _ \<Rightarrow> e)"

definition api_submit_documents ::
    "(upload_file \<Rightarrow> string \<Rightarrow> string res) \<Rightarrow> datetime \<Rightarrow> int \<Rightarrow> kyc_form \<Rightarrow> kyc_db \<Rightarrow> (kyc_application \<times> kyc_db) res" where
  "api_submit_documents upload now user_id f s =
     (case submit_documents upload now user_id f s of Inl e \<Rightarrow> Inl (bad_request e) | Inr x \<Rightarrow> Inr x)"

definition trigger_auto_checks :: "datetime \<Rightarrow> int \<Rightarrow> kyc_db \<Rightarrow> (kyc_application \<times> kyc_db) res" where
  "trigger_auto_checks now user_id s =
     (case run_auto_checks now user_id s of Inl e \<Rightarrow> Inl (bad_request e) | Inr x \<Rightarrow> Inr x)"

text \<open>\<open>RoleEnum.ADMIN\<close> is an alias of the role \<open>operations_admin\<close>.\<close>

definition kyc_admin :: "string list \<Rightarrow> bool" where
  "kyc_admin role_names \<longleftrightarrow> ''operations_admin'' \<in> set role_names"

definition get_pending_dealers :: "string list \<Rightarrow> kyc_db \<Rightarrow> kyc_application list res" where
  "get_pending_dealers role_names s =
     (if \<not> kyc_admin role_names then Inl (HTTPException 403 ''Admin only'')
      else Inr (filter (\<lambda>a. ka_state a = MANUAL_REVIEW) (kyc_applications s)))"

text \<open>A review is committed before the dealer is activated; what is not an approval rejects.\<close>

definition review_dealer ::
    "datetime \<Rightarrow> int \<Rightarrow> string list \<Rightarrow> int \<Rightarrow> string \<Rightarrow> string \<Rightarrow> kyc_db \<Rightarrow> kyc_application res \<times> kyc_db" where
  "review_dealer now user_id role_names application_id action comments s =
     (if \<not> kyc_admin role_names then (Inl (HTTPException 403 ''Admin only''), s)
      else if action = ''approve'' then
        (case manual_review now application_id user_id True comments s of
           Inl e \<Rightarrow> (Inl (bad_request e), s)
         | Inr (a, s1) \<Rightarrow>
        (case activate_dealer now application_id user_id s1 of
           Inl e \<Rightarrow> (Inl (bad_request e), s1)
         | Inr (a', s2) \<Rightarrow> (Inr a', s2)))
      else
        (case manual_review now application_id user_id False comments s of
           Inl e \<Rightarrow> (Inl (bad_request e), s)
         | Inr (a, s1) \<Rightarrow> (Inr a, s1)))"

definition get_my_kyc_status :: "int \<Rightarrow> kyc_db \<Rightarrow> kyc_application option" where
  "get_my_kyc_status = kyc_of_user"

datatype kyc_request =
    SubmitDocuments kyc_form
  | TriggerAutoChecks
  | ReviewDealer int string string

text \<open>A request of a user with the names of the roles that the user has.\<close>

fun serve_kyc ::
    "(upload_file \<Rightarrow> string \<Rightarrow> string res) \<Rightarrow> datetime \<times> int \<times> string list \<times> kyc_request \<Rightarrow> kyc_db \<Rightarrow> kyc_db" where
  "serve_kyc upload (now, u, names, SubmitDocuments f) s =
     (case api_submit_documents upload now u f s of Inl e \<Rightarrow> s | Inr (a, s') \<Rightarrow> s')"
| "serve_kyc upload (now, u, names, TriggerAutoChecks) s =
     (case trigger_auto_checks now u s of Inl e \<Rightarrow> s | Inr (a, s') \<Rightarrow> s')"
| "serve_kyc upload (now, u, names, ReviewDealer i act c) s = snd (review_dealer now u names i act c s)"

end
