(* ===== verification/DealerKycInv.thy ===== *)
theory DealerKycInv
  imports DealerKyc
begin

text \<open>
  What holds of the KYC of dealers after any history of requests. \<open>kyc_move\<close> reduces every request
  to the two ways in which the tables change; \<open>kyc_inv\<close> says that the log of an application leads
  from the registration to its state by legal transitions.
\<close>

section \<open>The log is a path\<close>

fun kyc_next :: "kyc_state \<Rightarrow> kyc_state \<Rightarrow> bool" where
  "kyc_next REGISTRATION y \<longleftrightarrow> y = DOC_SUBMITTED"
| "kyc_next REJECTED y \<longleftrightarrow> y = DOC_SUBMITTED"
| "kyc_next DOC_SUBMITTED y \<longleftrightarrow> y = AUTO_CHECKS"
| "kyc_next AUTO_CHECKS y \<longleftrightarrow> y = MANUAL_REVIEW \<or> y = REJECTED"
| "kyc_next MANUAL_REVIEW y \<longleftrightarrow> y = APPROVED \<or> y = REJECTED"
| "kyc_next APPROVED y \<longleftrightarrow> y = ACTIVE"
| "kyc_next ACTIVE y \<longleftrightarrow> False"

inductive kyc_path :: "kyc_transition list \<Rightarrow> kyc_state \<Rightarrow> bool" where
  start: "kyc_path [] REGISTRATION"
| extend: "kyc_path ts x \<Longrightarrow> kyc_next x y \<Longrightarrow> kt_from_state t = state_value x \<Longrightarrow>
    kt_to_state t = state_value y \<Longrightarrow> kyc_path (ts @ [t]) y"

definition log_of :: "int \<Rightarrow> kyc_db \<Rightarrow> kyc_transition list" where
  "log_of i s = filter (\<lambda>t. kt_application_id t = i) (kyc_transitions s)"

definition kyc_inv :: "kyc_db \<Rightarrow> bool" where
  "kyc_inv s \<longleftrightarrow> distinct (map ka_id (kyc_applications s)) \<and> distinct (map ka_user_id (kyc_applications s))
     \<and> (\<forall>a \<in> set (kyc_applications s). kyc_path (log_of (ka_id a) s) (ka_state a))
     \<and> (\<forall>t \<in> set (kyc_transitions s). kt_application_id t \<in> ka_id ` set (kyc_applications s))"

text \<open>
  The two ways in which the tables change; a move to an approved state needs \<open>admin\<close> to hold of
  the application.
\<close>

definition approved_state :: "kyc_state \<Rightarrow> bool" where
  "approved_state x \<longleftrightarrow> x = APPROVED \<or> x = ACTIVE"

inductive kyc_move :: "(int \<Rightarrow> bool) \<Rightarrow> kyc_db \<Rightarrow> kyc_db \<Rightarrow> bool" for admin where
  new: "ka_id a = fresh_id ka_id (kyc_applications s) \<Longrightarrow> ka_user_id a \<notin> ka_user_id ` set (kyc_applications s) \<Longrightarrow>
    ka_state a = DOC_SUBMITTED \<Longrightarrow>
    s' = log_transition now (ka_id a) REGISTRATION DOC_SUBMITTED u r (s\<lparr>kyc_applications := kyc_applications s @ [a]\<rparr>) \<Longrightarrow>
    kyc_move admin s s'"
| move: "a \<in> set (kyc_applications s) \<Longrightarrow> ka_id a' = ka_id a \<Longrightarrow> ka_user_id a' = ka_user_id a \<Longrightarrow>
    kyc_next (ka_state a) (ka_state a') \<Longrightarrow> (approved_state (ka_state a') \<Longrightarrow> admin (ka_id a)) \<Longrightarrow>
    s' = move_kyc now a a' u r s \<Longrightarrow> kyc_move admin s s'"

lemma log_of_log_transition:
  "log_of i (log_transition now j x y u r s) =
     log_of i s @ (if i = j then [\<lparr>kt_id = fresh_id kt_id (kyc_transitions s), kt_application_id = j,
        kt_from_state = state_value x, kt_to_state = state_value y, kt_reason = Some r,
        kt_changed_by_user_id = Some u, kt_created_at = now\<rparr>] else [])"
  by (simp add: log_of_def log_transition_def)

lemma log_transition_applications [simp]:
  "kyc_applications (log_transition now j x y u r s) = kyc_applications s"
  by (simp add: log_transition_def)

lemma log_of_applications [simp]:
  "log_of i (s\<lparr>kyc_applications := t\<rparr>) = log_of i s" "log_of i (put_kyc a s) = log_of i s"
  by (simp_all add: log_of_def put_kyc_def)

lemma path_log_transition:
  "kyc_path (log_of i s) x \<Longrightarrow> kyc_next x y \<Longrightarrow> kyc_path (log_of i (log_transition now i x y u r s)) y"
  by (simp add: log_of_log_transition kyc_path.extend)

lemma kyc_move_inv:
  assumes "kyc_move admin s s'" "kyc_inv s"
  shows "kyc_inv s'"
  using assms
proof cases
  case (new a now u r)
  have fresh: "ka_id a \<notin> ka_id ` set (kyc_applications s)" by (simp add: new(1) fresh_id_notin)
  have "\<forall>t \<in> set (kyc_transitions s). kt_application_id t \<in> ka_id ` set (kyc_applications s)"
    using assms(2) by (simp add: kyc_inv_def)
  with fresh have "log_of (ka_id a) s = []" unfolding log_of_def filter_empty_conv by metis
  then have "kyc_path (log_of (ka_id a) (log_transition now (ka_id a) REGISTRATION DOC_SUBMITTED u r s)) DOC_SUBMITTED"
    by (intro path_log_transition) (simp_all add: kyc_path.start)
  moreover have "log_of (ka_id b) s' = log_of (ka_id b) s" if "b \<in> set (kyc_applications s)" for b
    using imageI [OF that, of ka_id] fresh by (auto simp: new(4) log_of_log_transition simp del: list.set_map)
  moreover have "log_of (ka_id a) s' = log_of (ka_id a) (log_transition now (ka_id a) REGISTRATION DOC_SUBMITTED u r s)"
    by (simp add: new(4) log_of_def log_transition_def)
  ultimately show ?thesis
    using assms(2) fresh new(2,3) by (auto simp: kyc_inv_def new(4) log_transition_def)
next
  case (move a a' now u r)
  have d: "distinct (map ka_id (kyc_applications s))" using assms(2) by (simp add: kyc_inv_def)
  have apps: "kyc_applications s' = put_row ka_id a' (kyc_applications s)"
    by (simp add: move(6) move_kyc_def put_kyc_def)
  have same: "map ka_user_id (put_row ka_id a' (kyc_applications s)) = map ka_user_id (kyc_applications s)"
    by (rule map_put_row [OF d move(1-3)])
  have log: "log_of i s' = log_of i (log_transition now (ka_id a) (ka_state a) (ka_state a') u r s)" for i
    by (simp add: move(6) move_kyc_def log_of_def log_transition_def put_kyc_def)
  have "kyc_path (log_of (ka_id b) s') (ka_state b)" if "b \<in> set (put_row ka_id a' (kyc_applications s))" for b
  proof (cases "ka_id b = ka_id a")
    case True
    with in_put_row [OF that] move(2) have "b = a'" by auto
    moreover have "kyc_path (log_of (ka_id a) s) (ka_state a)" using assms(2) move(1) by (simp add: kyc_inv_def)
    ultimately show ?thesis using move(2,4) by (simp add: log path_log_transition)
  next
    case False
    with in_put_row [OF that] move(2) have "b \<in> set (kyc_applications s)" by auto
    with False assms(2) show ?thesis by (simp add: log log_of_log_transition kyc_inv_def)
  qed
  moreover have "ka_id ` set (put_row ka_id a' (kyc_applications s)) = ka_id ` set (kyc_applications s)"
    by (metis list.set_map put_row_keys)
  moreover have "kt_application_id t \<in> ka_id ` set (kyc_applications s)" if "t \<in> set (kyc_transitions s')" for t
    using that assms(2) move(1) by (auto simp: kyc_inv_def move(6) move_kyc_def log_transition_def put_kyc_def)
  ultimately show ?thesis using d same assms(2) by (simp add: kyc_inv_def apps)
qed

lemma kyc_move_approved:
  assumes "kyc_move admin s s'" "a \<in> set (kyc_applications s')" "approved_state (ka_state a)"
  shows "admin (ka_id a) \<or> (\<exists>b \<in> set (kyc_applications s). ka_id b = ka_id a \<and> approved_state (ka_state b))"
  using assms
proof cases
  case (new b now u r)
  then show ?thesis using assms(2,3) by (auto simp: approved_state_def)
next
  case (move b b' now u r)
  then show ?thesis
    using assms(2,3) by (auto simp: move_kyc_def put_kyc_def put_row_def split: if_splits)
qed

section \<open>Requests\<close>

text \<open>The request of an administrator that approves application \<open>i\<close>.\<close>

definition approves :: "datetime \<times> int \<times> string list \<times> kyc_request \<Rightarrow> int \<Rightarrow> bool" where
  "approves x i \<longleftrightarrow> (case x of (now, u, names, q) \<Rightarrow>
     (case q of ReviewDealer j action c \<Rightarrow> j = i \<and> action = ''approve'' \<and> kyc_admin names | _ \<Rightarrow> False))"

lemma move_kyc_member:
  "a \<in> set (kyc_applications s) \<Longrightarrow> ka_id a' = ka_id a \<Longrightarrow>
    a' \<in> set (kyc_applications (move_kyc now a a' u r s))"
  by (auto simp: move_kyc_def put_kyc_def put_row_def image_iff)

lemma submit_moves:
  assumes "submit_documents upload now u f s = Inr (a, s')"
  shows "kyc_move admin s s'"
proof (cases "kyc_of_user u s")
  case None
  then have "u \<notin> ka_user_id ` set (kyc_applications s)" by (auto simp: kyc_of_user_def find_None)
  moreover from assms None obtain r where "ka_id a = fresh_id ka_id (kyc_applications s)" "ka_user_id a = u"
    "ka_state a = DOC_SUBMITTED"
    "s' = log_transition now (ka_id a) REGISTRATION DOC_SUBMITTED u r (s\<lparr>kyc_applications := kyc_applications s @ [a]\<rparr>)"
    by (auto simp: submit_documents_def Let_def split: sum.splits)
  ultimately show ?thesis by (intro kyc_move.new [of a s]) simp_all
next
  case (Some b)
  then have b: "b \<in> set (kyc_applications s)" by (auto simp: kyc_of_user_def dest: find_Some)
  from assms Some have "ka_id a = ka_id b \<and> ka_user_id a = ka_user_id b
      \<and> ka_state b \<in> {REJECTED, REGISTRATION} \<and> ka_state a = DOC_SUBMITTED
      \<and> s' = move_kyc now b a u ''Documents re-submitted'' s"
    by (auto simp: submit_documents_def move_kyc_def Let_def split: sum.splits if_splits)
  with b show ?thesis by (intro kyc_move.move [of b s a]) (auto simp: approved_state_def)
qed

lemma checks_moves:
  assumes "run_auto_checks now u s = Inr (a, s')"
  shows "(kyc_move admin)\<^sup>*\<^sup>* s s'"
proof -
  from assms obtain b where b: "kyc_of_user u s = Some b" "ka_state b = DOC_SUBMITTED"
    by (auto simp: run_auto_checks_def split: option.splits if_splits)
  let ?b = "b\<lparr>ka_state := AUTO_CHECKS\<rparr>"
  let ?s = "move_kyc now b ?b u ''Started auto checks'' s"
  from b(1) have m: "b \<in> set (kyc_applications s)" by (auto simp: kyc_of_user_def dest: find_Some)
  then have "kyc_move admin s ?s"
    by (rule kyc_move.move) (simp_all add: b(2) approved_state_def)
  moreover have c: "ka_id a = ka_id ?b" "ka_user_id a = ka_user_id ?b"
    "ka_state a = MANUAL_REVIEW \<or> ka_state a = REJECTED"
    "s' = move_kyc now ?b a u (if ka_pan_number b = ''FAILED_PAN'' then ''Automated checks failed''
       else ''Automated checks passed'') ?s"
    using assms b by (auto simp: run_auto_checks_def Let_def split: if_splits)
  have "kyc_move admin ?s s'"
    by (rule kyc_move.move [OF move_kyc_member [OF m] c(1,2) _ _ c(4)])
      (use c(3) in \<open>auto simp: approved_state_def\<close>)
  ultimately show ?thesis by (meson converse_rtranclp_into_rtranclp rtranclp.rtrancl_refl)
qed

lemma review_moves:
  assumes "manual_review now i u ok c s = Inr (a, s')" "ok \<Longrightarrow> admin i"
  shows "kyc_move admin s s'"
proof -
  from assms(1) obtain b where b: "get_row ka_id i (kyc_applications s) = Some b" "ka_state b = MANUAL_REVIEW"
    by (auto simp: manual_review_def split: option.splits if_splits)
  from get_row_Some [OF b(1)] have m: "b \<in> set (kyc_applications s)" "ka_id b = i" by auto
  have "ka_id a = ka_id b \<and> ka_user_id a = ka_user_id b \<and> ka_state a = (if ok then APPROVED else REJECTED)
      \<and> s' = move_kyc now b a u (if ok then ''Admin Review: Approved'' else ''Admin Review: Rejected'') s"
    using assms(1) b by (auto simp: manual_review_def Let_def)
  with m b(2) assms(2) show ?thesis by (intro kyc_move.move [of b s a]) (auto simp: approved_state_def split: if_splits)
qed

lemma activate_moves:
  assumes "activate_dealer now i u s = Inr (a, s')" "admin i"
  shows "kyc_move admin s s'"
proof -
  from assms(1) obtain b where b: "get_row ka_id i (kyc_applications s) = Some b" "ka_state b = APPROVED"
    by (auto simp: activate_dealer_def split: option.splits if_splits)
  from get_row_Some [OF b(1)] have m: "b \<in> set (kyc_applications s)" "ka_id b = i" by auto
  from assms(1) b have "s' = move_kyc now b (b\<lparr>ka_state := ACTIVE\<rparr>) u ''Dealer Activated'' s"
    by (auto simp: activate_dealer_def Let_def)
  with m b(2) assms(2) show ?thesis by (intro kyc_move.move [of b s]) (auto simp: approved_state_def)
qed

lemma review_dealer_moves:
  assumes "\<And>j. kyc_admin names \<Longrightarrow> action = ''approve'' \<Longrightarrow> j = i \<Longrightarrow> admin j"
  shows "(kyc_move admin)\<^sup>*\<^sup>* s (snd (review_dealer now u names i action c s))"
proof (cases "kyc_admin names")
  case False
  then show ?thesis by (simp add: review_dealer_def)
next
  case True
  show ?thesis
  proof (cases "action = ''approve''")
    case False
    with True show ?thesis
      by (auto simp: review_dealer_def split: sum.splits intro!: r_into_rtranclp review_moves)
  next
    case ok: True
    have adm: "admin i" by (rule assms [OF True ok refl])
    show ?thesis
    proof (cases "manual_review now i u True c s")
      case (Inl e)
      with True ok show ?thesis by (simp add: review_dealer_def)
    next
      case (Inr p)
      obtain a s1 where p: "p = (a, s1)" by (cases p)
      have 1: "kyc_move admin s s1" by (rule review_moves [of now i u True c]) (simp_all add: Inr p adm)
      show ?thesis
      proof (cases "activate_dealer now i u s1")
        case (Inl e)
        with True ok Inr p 1 show ?thesis by (auto simp: review_dealer_def)
      next
        case (Inr q)
        obtain a' s2 where q: "q = (a', s2)" by (cases q)
        have 2: "kyc_move admin s1 s2" by (rule activate_moves [of now i u]) (simp_all add: Inr q adm)
        from True ok \<open>manual_review now i u True c s = Inr p\<close> p Inr q
        have "snd (review_dealer now u names i action c s) = s2" by (simp add: review_dealer_def)
        with 1 2 show ?thesis by (meson converse_rtranclp_into_rtranclp rtranclp.rtrancl_refl)
      qed
    qed
  qed
qed

lemma serve_kyc_moves: "(kyc_move (approves x))\<^sup>*\<^sup>* s (serve_kyc upload x s)"
proof -
  obtain now u names q where x: "x = (now, u, names, q)" by (cases x)
  show ?thesis
  proof (cases q)
    case (SubmitDocuments f)
    then show ?thesis
      by (auto simp: x api_submit_documents_def split: sum.splits intro!: r_into_rtranclp submit_moves)
  next
    case TriggerAutoChecks
    then show ?thesis
      by (auto simp: x trigger_auto_checks_def split: sum.splits intro!: checks_moves)
  next
    case (ReviewDealer i action c)
    then show ?thesis by (simp add: x) (rule review_dealer_moves, simp add: approves_def)
  qed
qed

lemma kyc_moves_inv: "(kyc_move admin)\<^sup>*\<^sup>* s s' \<Longrightarrow> kyc_inv s \<Longrightarrow> kyc_inv s'"
  by (induction rule: rtranclp_induct) (auto intro: kyc_move_inv)

lemma kyc_moves_approved:
  assumes "(kyc_move admin)\<^sup>*\<^sup>* s s'" "a \<in> set (kyc_applications s')" "approved_state (ka_state a)"
  shows "admin (ka_id a) \<or> (\<exists>b \<in> set (kyc_applications s). ka_id b = ka_id a \<and> approved_state (ka_state b))"
  using assms
proof (induction arbitrary: a rule: rtranclp_induct)
  case base
  then show ?case by blast
next
  case (step t t')
  from kyc_move_approved [OF step.hyps(2) step.prems] show ?case
    using step.IH by metis
qed

interpretation kyc_service: stable_step "serve_kyc upload" "\<lambda>_. True" kyc_inv for upload
  by unfold_locales (rule kyc_moves_inv [OF serve_kyc_moves])

lemma kyc_run_approved:
  assumes "a \<in> set (kyc_applications (fold (serve_kyc upload) rs s))" "approved_state (ka_state a)"
    "\<forall>b \<in> set (kyc_applications s). \<not> approved_state (ka_state b)"
  shows "\<exists>x \<in> set rs. approves x (ka_id a)"
  using assms
proof (induction rs arbitrary: a rule: rev_induct)
  case Nil
  then show ?case by auto
next
  case (snoc x rs)
  have a: "a \<in> set (kyc_applications (serve_kyc upload x (fold (serve_kyc upload) rs s)))" using snoc.prems(1) by simp
  from kyc_moves_approved [OF serve_kyc_moves a snoc.prems(2)]
  consider "approves x (ka_id a)"
    | b where "b \<in> set (kyc_applications (fold (serve_kyc upload) rs s))" "ka_id b = ka_id a" "approved_state (ka_state b)"
    by blast
  then show ?case
  proof cases
    case 2
    from snoc.IH [OF 2(1,3) snoc.prems(3)] 2(2) show ?thesis by auto
  qed simp
qed

section \<open>Properties\<close>

definition sample_file :: upload_file where
  "sample_file = \<lparr>uf_filename = ''scan.pdf'', uf_content_type = ''application/pdf''\<rparr>"

definition sample_form :: kyc_form where
  "sample_form = \<lparr>kf_company_name = ''Volt'', kf_pan_number = ''ABCDE1234F'', kf_gst_number = ''29'',
     kf_bank_details_json = '''', kf_pan_file = sample_file, kf_gst_file = sample_file, kf_reg_cert = sample_file\<rparr>"

definition sample_storage :: storage_settings where
  "sample_storage = \<lparr>st_bucket = Some ''kyc'', st_access_key = True, st_region = None,
     st_custom_domain = None, st_local_path = ''/tmp''\<rparr>"

definition sample_upload :: "upload_file \<Rightarrow> string \<Rightarrow> string res" where
  "sample_upload = upload_to_s3 sample_storage (\<lambda>k. True) (\<lambda>p. ''a1'')"

definition sample_requests :: "(datetime \<times> int \<times> string list \<times> kyc_request) list" where
  "sample_requests = [(1, 7, [], SubmitDocuments sample_form), (2, 7, [], TriggerAutoChecks),
     (3, 9, [''operations_admin''], ReviewDealer 1 ''approve'' ''fine'')]"

definition sample_kyc :: kyc_db where
  "sample_kyc = \<lparr>kyc_applications = [], kyc_transitions = []\<rparr>"

lemma sample_kyc_run:
  "map (\<lambda>a. (ka_id a, ka_state a)) (kyc_applications (fold (serve_kyc sample_upload) sample_requests sample_kyc))
     = [(1, ACTIVE)]"
  by code_simp

lemma sample_active:
  "\<exists>a \<in> set (kyc_applications (fold (serve_kyc sample_upload) sample_requests sample_kyc)). (ka_id a, ka_state a) = (1, ACTIVE)"
  by (rule map_singleton [OF sample_kyc_run])

text \<open>
  C31: whatever is submitted, checked and reviewed, and by whom, a user has one KYC application, and
  its log leads step by step from the registration to the state it is in, each step a legal
  transition.
\<close>

theorem kyc_log_leads_to_state:
  assumes "kyc_inv s" "a \<in> set (kyc_applications (fold (serve_kyc upload) rs s))"
  shows "kyc_path (log_of (ka_id a) (fold (serve_kyc upload) rs s)) (ka_state a)
    \<and> distinct (map ka_user_id (kyc_applications (fold (serve_kyc upload) rs s)))"
proof -
  have "kyc_inv (fold (serve_kyc upload) rs s)"
    by (rule kyc_service.fold_stable [OF _ assms(1)]) (simp add: list_all_iff)
  with assms(2) show ?thesis by (simp add: kyc_inv_def)
qed

lemma kyc_log_leads_to_state_witness:
  "\<exists>a \<in> set (kyc_applications (fold (serve_kyc sample_upload) sample_requests sample_kyc)). ka_state a = ACTIVE
    \<and> kyc_path (log_of (ka_id a) (fold (serve_kyc sample_upload) sample_requests sample_kyc)) (ka_state a)
    \<and> distinct (map ka_user_id (kyc_applications (fold (serve_kyc sample_upload) sample_requests sample_kyc)))"
proof -
  have inv: "kyc_inv sample_kyc" by (simp add: kyc_inv_def sample_kyc_def)
  from sample_active obtain a where
    "a \<in> set (kyc_applications (fold (serve_kyc sample_upload) sample_requests sample_kyc))" "ka_state a = ACTIVE"
    by (elim bexE) simp
  with kyc_log_leads_to_state [OF inv this(1)] show ?thesis by blast
qed

text \<open>
  C32: an application that is approved or active was approved by a request of a user with the role of
  an administrator: dealers cannot approve themselves, whatever they send.
\<close>

theorem kyc_needs_an_admin:
  assumes "a \<in> set (kyc_applications (fold (serve_kyc upload) rs \<lparr>kyc_applications = [], kyc_transitions = []\<rparr>))"
    "ka_state a = APPROVED \<or> ka_state a = ACTIVE"
  shows "\<exists>x \<in> set rs. approves x (ka_id a)"
  using kyc_run_approved [OF assms(1)] assms(2) by (simp add: approved_state_def)

lemma kyc_needs_an_admin_witness:
  "\<exists>a \<in> set (kyc_applications (fold (serve_kyc sample_upload) sample_requests \<lparr>kyc_applications = [], kyc_transitions = []\<rparr>)).
    ka_state a = ACTIVE \<and> (\<exists>x \<in> set sample_requests. approves x (ka_id a))"
proof -
  from sample_active [unfolded sample_kyc_def] obtain a where
    "a \<in> set (kyc_applications (fold (serve_kyc sample_upload) sample_requests \<lparr>kyc_applications = [], kyc_transitions = []\<rparr>))"
    "ka_state a = ACTIVE"
    by (elim bexE) simp
  with kyc_needs_an_admin [OF this(1)] show ?thesis by blast
qed

end
