(* ===== verification/Campaigns.thy ===== *)
theory Campaigns
  imports Dealers Rentals
begin

text \<open>
  The campaigns of dealers, \<open>campaign_service.py\<close> and \<open>dealer_campaigns.py\<close>, and the coupons of
  \<open>promo_service.py\<close> and \<open>promo.py\<close>. Amounts are floats and so rationals. A datetime is naive or
  aware, and Python does not compare the two; a column gives back a naive one. The texts of the
  dates of a request are read by \<open>fromisoformat\<close> before the model begins.
\<close>

section \<open>Datetimes with and without a time zone\<close>

datatype stamp = Naive datetime | Aware datetime

fun stamp_less :: "stamp \<Rightarrow> stamp \<Rightarrow> bool res" where
  "stamp_less (Naive a) (Naive b) = Inr (a < b)"
| "stamp_less (Aware a) (Aware b) = Inr (a < b)"
| "stamp_less _ _ = Inl (TypeError ''can't compare offset-naive and offset-aware datetimes'')"

fun instant :: "stamp \<Rightarrow> datetime" where
  "instant (Naive a) = a"
| "instant (Aware a) = a"

definition read_back :: "stamp \<Rightarrow> stamp" where
  "read_back t = Naive (instant t)"

section \<open>Tables\<close>

text \<open>
  \<open>applicable_station_ids\<close> is a JSON text: \<open>None\<close> for a missing one, \<open>Some None\<close> for null.
\<close>

record campaign =
  cg_id :: int
  cg_dealer_id :: int
  cg_name :: string
  cg_description :: "string option"
  cg_promo_code :: string
  cg_discount_type :: string
  cg_discount_value :: rat
  cg_min_purchase_amount :: "rat option"
  cg_max_discount_amount :: "rat option"
  cg_budget_limit :: "rat option"
  cg_daily_cap :: "int option"
  cg_usage_limit_total :: "int option"
  cg_usage_limit_per_user :: int
  cg_usage_count :: int
  cg_total_discount_given :: rat
  cg_impressions :: int
  cg_applicable_to :: string
  cg_applicable_station_ids :: "int list option option"
  cg_start_date :: stamp
  cg_end_date :: stamp
  cg_is_active :: bool
  cg_requires_approval :: bool
  cg_approved_at :: "datetime option"

record promotion_usage =
  pg_id :: int
  pg_promotion_id :: int
  pg_user_id :: int
  pg_discount_applied :: rat
  pg_original_amount :: rat
  pg_final_amount :: rat
  pg_used_at :: datetime

record campaign_db =
  campaigns :: "campaign list"
  promotion_usages :: "promotion_usage list"

definition put_campaign :: "campaign \<Rightarrow> campaign_db \<Rightarrow> campaign_db" where
  "put_campaign c s = s\<lparr>campaigns := put_row cg_id c (campaigns s)\<rparr>"

definition by_code :: "string \<Rightarrow> campaign_db \<Rightarrow> campaign option" where
  "by_code code s = List.find (\<lambda>c. cg_promo_code c = code) (campaigns s)"

section \<open>Campaigns of a dealer\<close>

record campaign_in =
  ci_name :: string
  ci_description :: "string option"
  ci_promo_code :: string
  ci_discount_type :: string
  ci_discount_value :: rat
  ci_min_purchase_amount :: "rat option"
  ci_max_discount_amount :: "rat option"
  ci_budget_limit :: "rat option"
  ci_daily_cap :: "int option"
  ci_usage_limit_total :: "int option"
  ci_usage_limit_per_user :: int
  ci_applicable_to :: string
  ci_applicable_station_ids :: "int list option"
  ci_start_date :: stamp
  ci_end_date :: stamp
  ci_is_active :: bool

definition code_of :: "string \<Rightarrow> string" where
  "code_of t = py_strip (py_upper t)"

definition create_campaign ::
    "datetime \<Rightarrow> int \<Rightarrow> campaign_in \<Rightarrow> campaign_db \<Rightarrow> (campaign \<times> campaign_db) res" where
  "create_campaign now dealer_id c s =
     (let code = code_of (ci_promo_code c)
      in if by_code code s \<noteq> None then Inl (HTTPException 400 ''Promo code already exists'')
         else
           let p = \<lparr>cg_id = fresh_id cg_id (campaigns s), cg_dealer_id = dealer_id, cg_name = ci_name c,
                    cg_description = ci_description c, cg_promo_code = code,
                    cg_discount_type = ci_discount_type c, cg_discount_value = ci_discount_value c,
                    cg_min_purchase_amount = ci_min_purchase_amount c,
                    cg_max_discount_amount = ci_max_discount_amount c, cg_budget_limit = ci_budget_limit c,
                    cg_daily_cap = ci_daily_cap c, cg_usage_limit_total = ci_usage_limit_total c,
                    cg_usage_limit_per_user = ci_usage_limit_per_user c, cg_usage_count = 0,
                    cg_total_discount_given = 0, cg_impressions = 0, cg_applicable_to = ci_applicable_to c,
                    cg_applicable_station_ids = Some (ci_applicable_station_ids c),
                    cg_start_date = read_back (ci_start_date c), cg_end_date = read_back (ci_end_date c),
                    cg_is_active = ci_is_active c, cg_requires_approval = False, cg_approved_at = Some now\<rparr>
           in Inr (p, s\<lparr>campaigns := campaigns s @ [p]\<rparr>))"

definition get_campaign :: "int \<Rightarrow> int \<Rightarrow> campaign_db \<Rightarrow> campaign res" where
  "get_campaign promo_id dealer_id s =
     (case List.find (\<lambda>c. cg_id c = promo_id \<and> cg_dealer_id c = dealer_id) (campaigns s) of
        None \<Rightarrow> Inl (HTTPException 404 ''Campaign not found'')
      | Some c \<Rightarrow> Inr c)"

definition list_campaigns :: "int \<Rightarrow> bool \<Rightarrow> campaign_db \<Rightarrow> campaign list" where
  "list_campaigns dealer_id active_only s =
     filter (\<lambda>c. cg_dealer_id c = dealer_id \<and> (active_only \<longrightarrow> cg_is_active c)) (campaigns s)"

text \<open>The fields of \<open>CampaignUpdate\<close> that are not null.\<close>

record campaign_update =
  ce_name :: "string option"
  ce_description :: "string option"
  ce_promo_code :: "string option"
  ce_discount_value :: "rat option"
  ce_budget_limit :: "rat option"
  ce_daily_cap :: "int option"
  ce_is_active :: "bool option"

definition edited :: "campaign_update \<Rightarrow> campaign \<Rightarrow> campaign" where
  "edited u c =
     c\<lparr>cg_name := keep_or (ce_name u) (cg_name c),
       cg_description := (case ce_description u of None \<Rightarrow> cg_description c | Some d \<Rightarrow> Some d),
       cg_discount_value := keep_or (ce_discount_value u) (cg_discount_value c),
       cg_budget_limit := (case ce_budget_limit u of None \<Rightarrow> cg_budget_limit c | Some b \<Rightarrow> Some b),
       cg_daily_cap := (case ce_daily_cap u of None \<Rightarrow> cg_daily_cap c | Some d \<Rightarrow> Some d),
       cg_is_active := keep_or (ce_is_active u) (cg_is_active c)\<rparr>"

definition update_campaign ::
    "int \<Rightarrow> int \<Rightarrow> campaign_update \<Rightarrow> campaign_db \<Rightarrow> (campaign \<times> campaign_db) res" where
  "update_campaign promo_id dealer_id u s =
     (case get_campaign promo_id dealer_id s of
        Inl e \<Rightarrow> Inl e
      | Inr c \<Rightarrow>
          let code = (case ce_promo_code u of
                        None \<Rightarrow> cg_promo_code c
                      | Some t \<Rightarrow> if t = [] then cg_promo_code c else code_of t)
          in if code \<noteq> cg_promo_code c \<and> by_code code s \<noteq> None
             then Inl (HTTPException 400 ''Promo code already exists'')
             else let c' = edited u (c\<lparr>cg_promo_code := code\<rparr>)
                  in Inr (c', put_campaign c' s))"

definition toggle_active :: "int \<Rightarrow> int \<Rightarrow> bool \<Rightarrow> campaign_db \<Rightarrow> (campaign \<times> campaign_db) res" where
  "toggle_active promo_id dealer_id is_active s =
     (case get_campaign promo_id dealer_id s of
        Inl e \<Rightarrow> Inl e
      | Inr c \<Rightarrow> let c' = c\<lparr>cg_is_active := is_active\<rparr> in Inr (c', put_campaign c' s))"

text \<open>A copy starts inactive, with no use and no approval.\<close>

definition clone_campaign :: "int \<Rightarrow> int \<Rightarrow> string \<Rightarrow> campaign_db \<Rightarrow> (campaign \<times> campaign_db) res" where
  "clone_campaign promo_id dealer_id new_code s =
     (case get_campaign promo_id dealer_id s of
        Inl e \<Rightarrow> Inl e
      | Inr c \<Rightarrow>
          let code = code_of new_code
          in if by_code code s \<noteq> None then Inl (HTTPException 400 ''Promo code already exists'')
             else
               let p = c\<lparr>cg_id := fresh_id cg_id (campaigns s), cg_dealer_id := dealer_id,
                         cg_name := cg_name c @ '' (Copy)'', cg_promo_code := code, cg_usage_count := 0,
                         cg_total_discount_given := 0, cg_impressions := 0, cg_is_active := False,
                         cg_approved_at := None\<rparr>
               in Inr (p, s\<lparr>campaigns := campaigns s @ [p]\<rparr>))"

definition bulk_toggle :: "int \<Rightarrow> int list \<Rightarrow> bool \<Rightarrow> campaign_db \<Rightarrow> int \<times> campaign_db" where
  "bulk_toggle dealer_id promo_ids is_active s =
     (let hit = (\<lambda>c. cg_dealer_id c = dealer_id \<and> cg_id c \<in> set promo_ids)
      in (int (length (filter hit (campaigns s))),
          s\<lparr>campaigns := map (\<lambda>c. if hit c then c\<lparr>cg_is_active := is_active\<rparr> else c) (campaigns s)\<rparr>))"

section \<open>Checkout\<close>

text \<open>Python's truth of an optional number.\<close>

definition nonzero :: "'a::zero option \<Rightarrow> 'a option" where
  "nonzero x = (case x of None \<Rightarrow> None | Some v \<Rightarrow> if v = 0 then None else Some v)"

definition usages_of :: "int \<Rightarrow> campaign_db \<Rightarrow> promotion_usage list" where
  "usages_of promo_id s = filter (\<lambda>u. pg_promotion_id u = promo_id) (promotion_usages s)"

definition check_dates :: "datetime \<Rightarrow> campaign \<Rightarrow> unit res" where
  "check_dates now c =
     (case stamp_less (Aware now) (cg_start_date c) of
        Inl e \<Rightarrow> Inl e
      | Inr early \<Rightarrow>
          if early then Inl (HTTPException 400 ''Promo code not yet valid'')
          else
            (case stamp_less (cg_end_date c) (Aware now) of
               Inl e \<Rightarrow> Inl e
             | Inr late \<Rightarrow> if late then Inl (HTTPException 400 ''Promo code expired'') else Inr ()))"

definition station_allowed :: "int option \<Rightarrow> campaign \<Rightarrow> bool" where
  "station_allowed station_id c =
     (case (nonzero station_id, cg_applicable_station_ids c) of
        (Some i, Some (Some allowed)) \<Rightarrow> allowed = [] \<or> i \<in> set allowed
      | _ \<Rightarrow> True)"

definition start_of_day :: "datetime \<Rightarrow> datetime" where
  "start_of_day now = now - now mod day"

definition check_limits :: "datetime \<Rightarrow> rat \<Rightarrow> int \<Rightarrow> campaign \<Rightarrow> campaign_db \<Rightarrow> unit res" where
  "check_limits now order_amount user_id c s =
     (if (case nonzero (cg_min_purchase_amount c) of None \<Rightarrow> False | Some m \<Rightarrow> order_amount < m)
      then Inl (HTTPException 400 ''Minimum order amount is {promo.min_purchase_amount}'')
      else if (case nonzero (cg_usage_limit_total c) of None \<Rightarrow> False | Some l \<Rightarrow> l \<le> cg_usage_count c)
      then Inl (HTTPException 400 ''Promo code global usage limit reached'')
      else if (case nonzero (cg_budget_limit c) of None \<Rightarrow> False | Some b \<Rightarrow> b \<le> cg_total_discount_given c)
      then Inl (HTTPException 400 ''Promo code budget exhausted'')
      else if (case nonzero (cg_daily_cap c) of
                 None \<Rightarrow> False
               | Some d \<Rightarrow> d \<le> int (length (filter (\<lambda>u. start_of_day now \<le> pg_used_at u) (usages_of (cg_id c) s))))
      then Inl (HTTPException 400 ''Promo code daily usage cap reached'')
      else if cg_usage_limit_per_user c
                \<le> int (length (filter (\<lambda>u. pg_user_id u = user_id) (usages_of (cg_id c) s)))
      then Inl (HTTPException 400 ''You have reached your usage limit for this code'')
      else Inr ())"

definition min_with :: "rat option \<Rightarrow> rat \<Rightarrow> rat" where
  "min_with m x = (case m of None \<Rightarrow> x | Some v \<Rightarrow> min x v)"

definition raw_discount :: "campaign \<Rightarrow> rat \<Rightarrow> rat" where
  "raw_discount c order_amount =
     (let t = py_upper (cg_discount_type c)
      in if t = ''PERCENTAGE'' then cg_discount_value c / 100 * order_amount
         else if t = ''FIXED_AMOUNT'' then cg_discount_value c
         else if t = ''FREE_DELIVERY'' then min order_amount (cg_discount_value c)
         else 0)"

definition capped_discount :: "campaign \<Rightarrow> rat \<Rightarrow> rat" where
  "capped_discount c order_amount =
     min_with (map_option (\<lambda>b. b - cg_total_discount_given c) (nonzero (cg_budget_limit c)))
       (min_with (nonzero (cg_max_discount_amount c)) (raw_discount c order_amount))"

record quote =
  qt_code :: string
  qt_discount_applied :: rat
  qt_final_amount :: rat
  qt_promo_id :: int

definition validate_campaign ::
    "datetime \<Rightarrow> string \<Rightarrow> int option \<Rightarrow> rat \<Rightarrow> int \<Rightarrow> campaign_db \<Rightarrow> quote res" where
  "validate_campaign now code station_id order_amount user_id s =
     (case by_code code s of
        None \<Rightarrow> Inl (HTTPException 404 ''Invalid promo code'')
      | Some c \<Rightarrow>
          if \<not> cg_is_active c then Inl (HTTPException 400 ''Promo code is inactive'')
          else
            case check_dates now c of Inl e \<Rightarrow> Inl e
            | Inr _ \<Rightarrow>
                if \<not> station_allowed station_id c
                then Inl (HTTPException 400 ''Promo code not applicable at this station'')
                else
                  (case check_limits now order_amount user_id c s of Inl e \<Rightarrow> Inl e
                   | Inr _ \<Rightarrow>
                       let discount = capped_discount c order_amount
                       in Inr \<lparr>qt_code = cg_promo_code c, qt_discount_applied = round2 discount,
                               qt_final_amount = round2 (max 0 (order_amount - discount)), qt_promo_id = cg_id c\<rparr>))"

text \<open>The compare-and-set \<open>UPDATE\<close> of the counters; without a row that matches nothing is kept.\<close>

definition has_room :: "rat \<Rightarrow> campaign \<Rightarrow> bool" where
  "has_room discount_applied c \<longleftrightarrow>
     (case cg_usage_limit_total c of None \<Rightarrow> True | Some l \<Rightarrow> cg_usage_count c < l)
     \<and> (case cg_budget_limit c of None \<Rightarrow> True
        | Some b \<Rightarrow> cg_total_discount_given c + discount_applied \<le> b)"

definition apply_campaign ::
    "datetime \<Rightarrow> int \<Rightarrow> int \<Rightarrow> rat \<Rightarrow> rat \<Rightarrow> rat \<Rightarrow> campaign_db \<Rightarrow> (promotion_usage \<times> campaign_db) res" where
  "apply_campaign now promo_id user_id order_amount discount_applied final_amount s =
     (case get_row cg_id promo_id (campaigns s) of
        None \<Rightarrow> Inl (HTTPException 404 ''Promo not found'')
      | Some c \<Rightarrow>
          if \<not> has_room discount_applied c
          then Inl (HTTPException 400 ''Promo code usage limit or budget reached'')
          else
            let c' = c\<lparr>cg_usage_count := cg_usage_count c + 1,
                       cg_total_discount_given := cg_total_discount_given c + discount_applied\<rparr>;
                u = \<lparr>pg_id = fresh_id pg_id (promotion_usages s), pg_promotion_id = cg_id c, pg_user_id = user_id,
                     pg_discount_applied = discount_applied, pg_original_amount = order_amount,
                     pg_final_amount = final_amount, pg_used_at = now\<rparr>
            in Inr (u, (put_campaign c' s)\<lparr>promotion_usages := promotion_usages s @ [u]\<rparr>))"

definition record_impression :: "int \<Rightarrow> campaign_db \<Rightarrow> campaign_db" where
  "record_impression promo_id s =
     (case get_row cg_id promo_id (campaigns s) of
        None \<Rightarrow> s
      | Some c \<Rightarrow> put_campaign (c\<lparr>cg_impressions := cg_impressions c + 1\<rparr>) s)"

record campaign_analytics =
  ay_usage_count :: int
  ay_impressions :: int
  ay_conversion_rate_pct :: rat
  ay_total_discount_given :: rat
  ay_additional_revenue :: rat
  ay_roi_pct :: rat
  ay_status :: string
  ay_budget_used_pct :: "rat option"

text \<open>\<open>round(x, 1)\<close>\<close>

definition round1 :: "rat \<Rightarrow> rat" where
  "round1 x = of_int (round_half_even (10 * x)) / 10"

definition get_analytics :: "int \<Rightarrow> int \<Rightarrow> campaign_db \<Rightarrow> campaign_analytics res" where
  "get_analytics promo_id dealer_id s =
     (case get_campaign promo_id dealer_id s of
        Inl e \<Rightarrow> Inl e
      | Inr c \<Rightarrow>
          let us = usages_of (cg_id c) s;
              n = int (length us);
              total_discount = sum_list (map pg_discount_applied us);
              total_revenue = sum_list (map pg_final_amount us)
          in Inr \<lparr>ay_usage_count = n, ay_impressions = cg_impressions c,
                  ay_conversion_rate_pct =
                    (if 0 < cg_impressions c then round2 (of_int n / of_int (cg_impressions c) * 100) else 0),
                  ay_total_discount_given = round2 total_discount,
                  ay_additional_revenue = round2 total_revenue,
                  ay_roi_pct = (if 0 < total_discount
                    then round2 ((total_revenue - total_discount) / total_discount * 100) else 0),
                  ay_status = (if cg_is_active c then ''Active'' else ''Inactive''),
                  ay_budget_used_pct =
                    map_option (\<lambda>b. round1 (total_discount / b * 100)) (nonzero (cg_budget_limit c))\<rparr>)"

section \<open>Requests\<close>

datatype campaign_request =
    CreateCampaign campaign_in
  | UpdateCampaign int campaign_update
  | Deactivate int
  | CloneCampaign int string
  | BulkToggle "int list" bool

text \<open>What a request of a user leaves; the profile of the dealer is looked up first.\<close>

definition keep_campaigns :: "campaign_db \<Rightarrow> ('a \<times> campaign_db) res \<Rightarrow> campaign_db" where
  "keep_campaigns s out = (case out of Inl e \<Rightarrow> s | Inr (x, s') \<Rightarrow> s')"

fun serve_campaign :: "datetime \<Rightarrow> int \<Rightarrow> campaign_request \<Rightarrow> campaign_db \<Rightarrow> campaign_db" where
  "serve_campaign now dealer_id (CreateCampaign c) s = keep_campaigns s (create_campaign now dealer_id c s)"
| "serve_campaign now dealer_id (UpdateCampaign i u) s = keep_campaigns s (update_campaign i dealer_id u s)"
| "serve_campaign now dealer_id (Deactivate i) s = keep_campaigns s (toggle_active i dealer_id False s)"
| "serve_campaign now dealer_id (CloneCampaign i c) s = keep_campaigns s (clone_campaign i dealer_id c s)"
| "serve_campaign now dealer_id (BulkToggle is b) s = snd (bulk_toggle dealer_id is b s)"

definition api_campaign :: "datetime \<Rightarrow> int \<Rightarrow> campaign_request \<Rightarrow> dealer_db \<Rightarrow> campaign_db \<Rightarrow> campaign_db res" where
  "api_campaign now user_id q ds s =
     (case get_dealer_id user_id ds of Inl e \<Rightarrow> Inl e | Inr i \<Rightarrow> Inr (serve_campaign now i q s))"

section \<open>Coupons\<close>

text \<open>
  \<open>PromoService\<close>, on the promo codes of the rentals: the clock is aware and the columns are naive,
  so the first comparison with a date that is there raises.
\<close>

definition coupon_dates :: "datetime \<Rightarrow> promo_code \<Rightarrow> unit res" where
  "coupon_dates now p =
     (case (case pc_valid_until p of None \<Rightarrow> Inr False | Some d \<Rightarrow> stamp_less (Naive d) (Aware now)) of
        Inl e \<Rightarrow> Inl e
      | Inr True \<Rightarrow> Inl (HTTPException 400 ''Promo code expired'')
      | Inr False \<Rightarrow>
          (case stamp_less (Aware now) (Naive (pc_valid_from p)) of
             Inl e \<Rightarrow> Inl e
           | Inr early \<Rightarrow> if early then Inl (HTTPException 400 ''Promo code not yet valid'') else Inr ()))"

definition coupon_discount :: "promo_code \<Rightarrow> rat \<Rightarrow> rat" where
  "coupon_discount p order_amount =
     (if 0 < pc_discount_percentage p
      then min_with (nonzero (pc_max_discount_amount p)) (pc_discount_percentage p / 100 * order_amount)
      else pc_discount_amount p)"

definition validate_coupon :: "datetime \<Rightarrow> string \<Rightarrow> rat \<Rightarrow> promo_code list \<Rightarrow> (rat \<times> rat \<times> int) res" where
  "validate_coupon now code order_amount ps =
     (case List.find (\<lambda>p. pc_code p = code) ps of
        None \<Rightarrow> Inl (HTTPException 404 ''Invalid promo code'')
      | Some p \<Rightarrow>
          if \<not> pc_is_active p then Inl (HTTPException 400 ''Promo code is inactive'')
          else
            case coupon_dates now p of Inl e \<Rightarrow> Inl e
            | Inr _ \<Rightarrow>
                if 0 < pc_usage_limit p \<and> pc_usage_limit p \<le> pc_usage_count p
                then Inl (HTTPException 400 ''Promo code usage limit reached'')
                else if order_amount < pc_min_order_amount p
                then Inl (HTTPException 400 ''Minimum order amount is {promo.min_order_amount}'')
                else Inr (coupon_discount p order_amount, max 0 (order_amount - coupon_discount p order_amount),
                          pc_id p))"

text \<open>Any user may apply any coupon, as often as it has room; nothing is recorded but the count.\<close>

definition apply_coupon :: "int \<Rightarrow> promo_code list \<Rightarrow> promo_code list res" where
  "apply_coupon promo_id ps =
     (case take_promo_slot promo_id ps of
        None \<Rightarrow> Inl (HTTPException 400 ''Failed to apply promo'')
      | Some ps' \<Rightarrow> Inr ps')"

end
