(* ===== verification/CampaignsInv.thy ===== *)
theory CampaignsInv
  imports Campaigns
begin

text \<open>
  What holds of campaigns after any history of dealers' requests and checkouts: the counters are
  the sums of the recorded uses, the codes are unique, and dealers do not touch each other's
  campaigns. \<open>campaign_move\<close> reduces every event to three kinds of change.
\<close>

section \<open>Events\<close>

datatype campaign_event =
    DealerSends int campaign_request
  | Checkout int int rat rat rat
  | Impression int

fun campaign_step :: "datetime \<times> campaign_event \<Rightarrow> campaign_db \<Rightarrow> campaign_db" where
  "campaign_step (now, DealerSends d q) s = serve_campaign now d q s"
| "campaign_step (now, Checkout i u a x f) s = keep_campaigns s (apply_campaign now i u a x f s)"
| "campaign_step (now, Impression i) s = record_impression i s"

definition naive :: "stamp \<Rightarrow> bool" where
  "naive t \<longleftrightarrow> t = Naive (instant t)"

lemma naive_stored [simp]: "naive (read_back t)" by (simp add: naive_def read_back_def)

definition limit_kept :: "campaign \<Rightarrow> bool" where
  "limit_kept c \<longleftrightarrow> (case cg_usage_limit_total c of None \<Rightarrow> True | Some l \<Rightarrow> cg_usage_count c \<le> max 0 l)"

definition books_ok :: "campaign_db \<Rightarrow> campaign \<Rightarrow> bool" where
  "books_ok s c \<longleftrightarrow> cg_usage_count c = int (length (usages_of (cg_id c) s))
     \<and> cg_total_discount_given c = sum_list (map pg_discount_applied (usages_of (cg_id c) s))
     \<and> limit_kept c \<and> naive (cg_start_date c) \<and> naive (cg_end_date c)"

definition campaigns_ok :: "campaign_db \<Rightarrow> bool" where
  "campaigns_ok s \<longleftrightarrow> distinct (map cg_id (campaigns s)) \<and> distinct (map cg_promo_code (campaigns s))
     \<and> (\<forall>c \<in> set (campaigns s). books_ok s c)
     \<and> pg_promotion_id ` set (promotion_usages s) \<subseteq> cg_id ` set (campaigns s)"

text \<open>What a change of other columns keeps.\<close>

definition same_books :: "campaign \<Rightarrow> campaign \<Rightarrow> bool" where
  "same_books c c' \<longleftrightarrow> cg_id c' = cg_id c \<and> cg_usage_count c' = cg_usage_count c
     \<and> cg_total_discount_given c' = cg_total_discount_given c \<and> cg_usage_limit_total c' = cg_usage_limit_total c
     \<and> cg_start_date c' = cg_start_date c \<and> cg_end_date c' = cg_end_date c"

inductive campaign_move :: "bool \<Rightarrow> campaign_db \<Rightarrow> campaign_db \<Rightarrow> bool" for fixed where
  new: "campaigns s' = campaigns s @ [c] \<Longrightarrow> promotion_usages s' = promotion_usages s \<Longrightarrow>
    cg_id c = fresh_id cg_id (campaigns s) \<Longrightarrow> cg_promo_code c \<notin> cg_promo_code ` set (campaigns s) \<Longrightarrow>
    cg_usage_count c = 0 \<Longrightarrow> cg_total_discount_given c = 0 \<Longrightarrow>
    naive (cg_start_date c) \<Longrightarrow> naive (cg_end_date c) \<Longrightarrow> campaign_move fixed s s'"
| edit: "campaigns s' = map f (campaigns s) \<Longrightarrow> promotion_usages s' = promotion_usages s \<Longrightarrow>
    list_all (\<lambda>c. same_books c (f c)) (campaigns s) \<Longrightarrow>
    distinct (map (\<lambda>c. cg_promo_code (f c)) (campaigns s)) \<Longrightarrow>
    (fixed \<Longrightarrow> list_all (\<lambda>c. cg_budget_limit (f c) = cg_budget_limit c) (campaigns s)) \<Longrightarrow> campaign_move fixed s s'"
| use: "get_row cg_id i (campaigns s) = Some c \<Longrightarrow> has_room x c \<Longrightarrow> pg_promotion_id u = i \<Longrightarrow> pg_discount_applied u = x \<Longrightarrow>
    campaigns s' = put_row cg_id (c\<lparr>cg_usage_count := cg_usage_count c + 1,
      cg_total_discount_given := cg_total_discount_given c + x\<rparr>) (campaigns s) \<Longrightarrow>
    promotion_usages s' = promotion_usages s @ [u] \<Longrightarrow> campaign_move fixed s s'"

lemma usages_of_cong: "promotion_usages s' = promotion_usages s \<Longrightarrow> usages_of i s' = usages_of i s"
  by (simp add: usages_of_def)

lemma books_ok_new:
  assumes "campaigns_ok s" "cg_id c \<notin> cg_id ` set (campaigns s)" "cg_usage_count c = 0" "cg_total_discount_given c = 0"
    "naive (cg_start_date c)" "naive (cg_end_date c)" "promotion_usages s' = promotion_usages s"
  shows "books_ok s' c"
proof -
  have "cg_id c \<notin> pg_promotion_id ` set (promotion_usages s)"
    using assms(1,2) by (meson campaigns_ok_def subsetD)
  then have "usages_of (cg_id c) s = []" by (auto simp: usages_of_def filter_empty_conv image_iff)
  with assms(3-7) show ?thesis
    by (simp add: books_ok_def limit_kept_def usages_of_cong [OF assms(7)] split: option.split)
qed

lemma campaign_move_ok:
  assumes "campaign_move fixed s s'" "campaigns_ok s"
  shows "campaigns_ok s'"
  using assms
proof cases
  case (new c)
  have fresh: "cg_id c \<notin> cg_id ` set (campaigns s)" by (simp add: new(3) fresh_id_notin)
  have "books_ok s' b" if "b \<in> set (campaigns s)" for b
    using assms(2) that by (simp add: campaigns_ok_def books_ok_def usages_of_cong [OF new(2)])
  moreover have "books_ok s' c" by (rule books_ok_new [OF assms(2) fresh new(5-8,2)])
  ultimately show ?thesis
    using assms(2) fresh new(4) by (auto simp: campaigns_ok_def new(1,2))
next
  case (edit f)
  have ids: "map cg_id (campaigns s') = map cg_id (campaigns s)"
    using edit(3) by (simp add: edit(1) list_all_iff same_books_def)
  have "books_ok s' (f c)" if "c \<in> set (campaigns s)" for c
  proof -
    have "books_ok s c" "same_books c (f c)"
      using assms(2) edit(3) that by (simp_all add: campaigns_ok_def list_all_iff)
    then show ?thesis
      by (auto simp: books_ok_def same_books_def limit_kept_def usages_of_cong [OF edit(2)] split: option.splits)
  qed
  moreover from ids have "cg_id ` set (campaigns s') = cg_id ` set (campaigns s)" by (metis list.set_map)
  moreover have "distinct (map cg_id (campaigns s'))" using assms(2) by (simp only: ids campaigns_ok_def)
  moreover have "distinct (map cg_promo_code (campaigns s'))" using edit(4) by (simp add: edit(1) comp_def)
  moreover have "\<forall>b \<in> set (campaigns s'). books_ok s' b" using calculation(1) by (simp add: edit(1))
  ultimately show ?thesis using assms(2) by (simp only: campaigns_ok_def edit(2) simp_thms)
next
  case (use i c x u)
  let ?c = "c\<lparr>cg_usage_count := cg_usage_count c + 1, cg_total_discount_given := cg_total_discount_given c + x\<rparr>"
  have d: "distinct (map cg_id (campaigns s))" using assms(2) by (simp add: campaigns_ok_def)
  have c: "c \<in> set (campaigns s)" "cg_id c = i" using get_row_Some [OF use(1)] by auto
  have codes: "map cg_promo_code (put_row cg_id ?c (campaigns s)) = map cg_promo_code (campaigns s)"
    by (rule map_put_row [OF d c(1)]) simp_all
  have b: "books_ok s c" using assms(2) c(1) by (simp add: campaigns_ok_def)
  have us: "usages_of j s' = usages_of j s @ (if j = i then [u] else [])" for j
    by (simp add: usages_of_def use(6) use(3))
  have "limit_kept ?c"
    using use(2) by (auto simp: limit_kept_def has_room_def split: option.splits)
  with b have new: "books_ok s' ?c" by (simp add: books_ok_def us c(2) use(4))
  have "books_ok s' q" if "q \<in> set (put_row cg_id ?c (campaigns s))" for q
    using in_put_row [OF that]
  proof
    assume q: "q \<in> set (campaigns s) \<and> cg_id q \<noteq> cg_id ?c"
    then have "books_ok s q" using assms(2) by (simp add: campaigns_ok_def)
    with q c(2) show ?thesis by (simp add: books_ok_def us)
  qed (simp add: new)
  moreover have ids: "cg_id ` set (put_row cg_id ?c (campaigns s)) = cg_id ` set (campaigns s)"
    by (metis list.set_map put_row_keys)
  ultimately show ?thesis
    using assms(2) c use(3) by (auto simp: campaigns_ok_def use(5,6) codes ids)
qed

lemma edit_one:
  assumes "campaigns_ok s" "c \<in> set (campaigns s)" "same_books c c'"
    "cg_promo_code c' = cg_promo_code c \<or> cg_promo_code c' \<notin> cg_promo_code ` set (campaigns s)"
    "fixed \<Longrightarrow> cg_budget_limit c' = cg_budget_limit c"
  shows "campaign_move fixed s (put_campaign c' s)"
proof (rule campaign_move.edit)
  let ?f = "\<lambda>q. if cg_id q = cg_id c' then c' else q"
  have ids: "distinct (map cg_id (campaigns s))" and codes: "distinct (map cg_promo_code (campaigns s))"
    using assms(1) by (simp_all add: campaigns_ok_def)
  have id: "cg_id c' = cg_id c" using assms(3) by (simp add: same_books_def)
  have only: "q = c" if "q \<in> set (campaigns s)" "cg_id q = cg_id c'" for q
    using that assms(2) ids id by (auto simp: distinct_map inj_on_def)
  show "campaigns (put_campaign c' s) = map ?f (campaigns s)" by (simp add: put_campaign_def put_row_def)
  show "promotion_usages (put_campaign c' s) = promotion_usages s" by (simp add: put_campaign_def)
  show "list_all (\<lambda>q. same_books q (?f q)) (campaigns s)"
    using assms(3) only by (auto simp: list_all_iff same_books_def)
  show "list_all (\<lambda>q. cg_budget_limit (?f q) = cg_budget_limit q) (campaigns s)" if fixed
    using assms(5) [OF that] only by (auto simp: list_all_iff)
  show "distinct (map (\<lambda>q. cg_promo_code (?f q)) (campaigns s))"
    using assms(4)
  proof
    assume "cg_promo_code c' = cg_promo_code c"
    then have "map (\<lambda>q. cg_promo_code (?f q)) (campaigns s) = map cg_promo_code (campaigns s)"
      using only by auto
    then show ?thesis using codes by (simp only:)
  next
    assume new: "cg_promo_code c' \<notin> cg_promo_code ` set (campaigns s)"
    have "inj_on (\<lambda>q. cg_promo_code (?f q)) (set (campaigns s))"
    proof (rule inj_onI)
      fix a b
      assume ab: "a \<in> set (campaigns s)" "b \<in> set (campaigns s)" "cg_promo_code (?f a) = cg_promo_code (?f b)"
      show "a = b"
      proof (cases "cg_id a = cg_id c'")
        case True
        with ab(2,3) new have "cg_id b = cg_id c'" by (metis image_eqI)
        with True ab(1,2) only show ?thesis by metis
      next
        case False
        with ab(1,3) new have "cg_id b \<noteq> cg_id c'" by (metis image_eqI)
        with False ab codes show ?thesis by (simp add: distinct_map inj_on_def)
      qed
    qed
    moreover have "distinct (campaigns s)" using ids by (simp add: distinct_map)
    ultimately show ?thesis by (simp add: distinct_map)
  qed
qed

lemma campaign_same: "campaigns_ok s \<Longrightarrow> campaign_move fixed s s"
  by (rule campaign_move.edit [of _ "\<lambda>c. c"]) (simp_all add: list_all_iff same_books_def campaigns_ok_def)

lemma get_campaign_member: "get_campaign i d s = Inr c \<Longrightarrow> c \<in> set (campaigns s) \<and> cg_id c = i \<and> cg_dealer_id c = d"
  by (auto simp: get_campaign_def split: option.splits dest: find_Some)

lemma by_code_None: "by_code t s = None \<longleftrightarrow> t \<notin> cg_promo_code ` set (campaigns s)"
  by (auto simp: by_code_def find_None)

lemma create_move: "create_campaign now d c s = Inr (p, s') \<Longrightarrow> campaign_move fixed s s'"
  by (auto simp: create_campaign_def Let_def by_code_None split: if_splits intro!: campaign_move.new)

lemma clone_move:
  assumes "campaigns_ok s" "clone_campaign i d t s = Inr (p, s')"
  shows "campaign_move fixed s s'"
proof -
  from assms(2) obtain c where c: "get_campaign i d s = Inr c" "by_code (code_of t) s = None"
    by (auto simp: clone_campaign_def Let_def split: sum.splits if_splits)
  have "books_ok s c" using get_campaign_member [OF c(1)] assms(1) by (simp add: campaigns_ok_def)
  moreover have "campaigns s' = campaigns s @ [p]" "promotion_usages s' = promotion_usages s"
    "cg_id p = fresh_id cg_id (campaigns s)" "cg_promo_code p = code_of t" "cg_usage_count p = 0"
    "cg_total_discount_given p = 0" "cg_start_date p = cg_start_date c" "cg_end_date p = cg_end_date c"
    using assms(2) c by (auto simp: clone_campaign_def Let_def)
  ultimately show ?thesis
    using c(2) by (intro campaign_move.new [of s' s p]) (simp_all add: by_code_None books_ok_def)
qed

lemma update_move:
  assumes "campaigns_ok s" "update_campaign i d u s = Inr (p, s')" "fixed \<Longrightarrow> ce_budget_limit u = None"
  shows "campaign_move fixed s s'"
proof -
  from assms(2) obtain c code where c: "get_campaign i d s = Inr c"
    "code = cg_promo_code c \<or> by_code code s = None" "s' = put_campaign (edited u (c\<lparr>cg_promo_code := code\<rparr>)) s"
    by (auto simp: update_campaign_def Let_def split: sum.splits if_splits)
  have "c \<in> set (campaigns s)" using get_campaign_member [OF c(1)] by simp
  moreover have "same_books c (edited u (c\<lparr>cg_promo_code := code\<rparr>))"
    "cg_promo_code (edited u (c\<lparr>cg_promo_code := code\<rparr>)) = code"
    by (simp_all add: edited_def same_books_def)
  ultimately show ?thesis unfolding c(3)
    using c(2) assms(3) by (intro edit_one [OF assms(1)]) (simp_all add: by_code_None edited_def)
qed

lemma toggle_move:
  assumes "campaigns_ok s" "toggle_active i d b s = Inr (p, s')"
  shows "campaign_move fixed s s'"
proof -
  from assms(2) obtain c where c: "get_campaign i d s = Inr c" "s' = put_campaign (c\<lparr>cg_is_active := b\<rparr>) s"
    by (auto simp: toggle_active_def Let_def split: sum.splits)
  have "c \<in> set (campaigns s)" using get_campaign_member [OF c(1)] by simp
  then show ?thesis unfolding c(2) by (intro edit_one [OF assms(1)]) (simp_all add: same_books_def)
qed

lemma bulk_move: "campaigns_ok s \<Longrightarrow> campaign_move fixed s (snd (bulk_toggle d is b s))"
  by (rule campaign_move.edit [of _ "\<lambda>c. if cg_dealer_id c = d \<and> cg_id c \<in> set is then c\<lparr>cg_is_active := b\<rparr> else c"])
    (auto simp: bulk_toggle_def Let_def list_all_iff same_books_def campaigns_ok_def if_distrib cong: if_cong)

lemma impression_move:
  assumes "campaigns_ok s"
  shows "campaign_move fixed s (record_impression i s)"
proof (cases "get_row cg_id i (campaigns s)")
  case None
  then show ?thesis by (simp add: record_impression_def campaign_same [OF assms])
next
  case (Some c)
  with get_row_Some [OF Some] show ?thesis
    by (simp add: record_impression_def) (rule edit_one [OF assms], simp_all add: same_books_def)
qed

lemma apply_move: "apply_campaign now i u a x f s = Inr (v, s') \<Longrightarrow> campaign_move fixed s s'"
  by (auto simp: apply_campaign_def Let_def put_campaign_def split: option.splits if_splits
      dest: get_row_Some intro!: campaign_move.use)

lemma keep_move:
  assumes "campaigns_ok s" "\<And>x s'. out = Inr (x, s') \<Longrightarrow> campaign_move fixed s s'"
  shows "campaign_move fixed s (keep_campaigns s out)"
  using assms(2) campaign_same [OF assms(1)] by (auto simp: keep_campaigns_def split: sum.split)

text \<open>The requests that give a campaign another budget.\<close>

definition edits_budget :: "datetime \<times> campaign_event \<Rightarrow> bool" where
  "edits_budget x \<longleftrightarrow> (case snd x of DealerSends d q \<Rightarrow>
     (case q of UpdateCampaign i u \<Rightarrow> ce_budget_limit u \<noteq> None | _ \<Rightarrow> False) | _ \<Rightarrow> False)"

lemma campaign_step_move:
  assumes "campaigns_ok s" "fixed \<Longrightarrow> \<not> edits_budget x"
  shows "campaign_move fixed s (campaign_step x s)"
proof (cases "(x, s)" rule: campaign_step.cases)
  case (1 now d q t)
  then show ?thesis
    using assms by (cases q)
      (auto simp: edits_budget_def intro: keep_move create_move clone_move update_move toggle_move bulk_move)
next
  case (2 now i u a x' f t)
  then show ?thesis using assms by (auto intro: keep_move apply_move)
next
  case (3 now i t)
  then show ?thesis using assms by (auto intro: impression_move)
qed

interpretation campaign_service: stable_step campaign_step "\<lambda>_. True" campaigns_ok
  by unfold_locales (rule campaign_move_ok [OF campaign_step_move [of _ False]], simp_all)

definition within_budget :: "campaign_db \<Rightarrow> bool" where
  "within_budget s \<longleftrightarrow> list_all (\<lambda>c. case cg_budget_limit c of None \<Rightarrow> True
     | Some b \<Rightarrow> cg_total_discount_given c \<le> max 0 b) (campaigns s)"

lemma campaign_move_budget:
  assumes "campaign_move True s s'" "within_budget s"
  shows "within_budget s'"
  using assms
proof cases
  case (new c)
  then show ?thesis using assms(2) by (simp add: within_budget_def split: option.split)
next
  case (edit f)
  then show ?thesis using assms(2) by (auto simp: within_budget_def list_all_iff same_books_def split: option.splits)
next
  case (use i c x u)
  let ?c = "c\<lparr>cg_usage_count := cg_usage_count c + 1, cg_total_discount_given := cg_total_discount_given c + x\<rparr>"
  have "case cg_budget_limit ?c of None \<Rightarrow> True | Some b \<Rightarrow> cg_total_discount_given ?c \<le> max 0 b"
    using use(2) by (auto simp: has_room_def split: option.splits)
  moreover have "q = ?c \<or> q \<in> set (campaigns s)" if "q \<in> set (campaigns s')" for q
    using in_put_row [of q cg_id ?c] that unfolding use(5) by blast
  ultimately show ?thesis using assms(2) unfolding within_budget_def list_all_iff by metis
qed

interpretation budgeted: stable_step campaign_step "\<lambda>x. \<not> edits_budget x" "\<lambda>s. campaigns_ok s \<and> within_budget s"
  by unfold_locales
    (auto intro: campaign_move_ok [OF campaign_step_move [of _ False]] campaign_move_budget [OF campaign_step_move])

definition foreign :: "int \<Rightarrow> campaign_db \<Rightarrow> campaign list" where
  "foreign d s = filter (\<lambda>c. cg_dealer_id c \<noteq> d) (campaigns s)"

lemma foreign_put:
  assumes "distinct (map cg_id (campaigns s))" "c \<in> set (campaigns s)" "cg_dealer_id c = d"
    "cg_id c' = cg_id c" "cg_dealer_id c' = d"
  shows "foreign d (put_campaign c' s) = foreign d s"
proof -
  have "filter (\<lambda>c. cg_dealer_id c \<noteq> d) (put_row cg_id c' t) = filter (\<lambda>c. cg_dealer_id c \<noteq> d) t"
    if "\<forall>q \<in> set t. cg_id q = cg_id c' \<longrightarrow> cg_dealer_id q = d" for t
    using that by (induction t) (auto simp: assms(5))
  moreover have "cg_dealer_id q = d" if "q \<in> set (campaigns s)" "cg_id q = cg_id c'" for q
    using that assms by (auto simp: distinct_map inj_on_def)
  ultimately show ?thesis by (simp add: foreign_def put_campaign_def)
qed

lemma edited_dealer [simp]: "cg_dealer_id (edited u c) = cg_dealer_id c" "cg_id (edited u c) = cg_id c"
  by (simp_all add: edited_def)

lemma serve_foreign:
  assumes "distinct (map cg_id (campaigns s))"
  shows "foreign d (serve_campaign now d q s) = foreign d s"
proof (cases q)
  case (CreateCampaign c)
  then show ?thesis by (auto simp: keep_campaigns_def create_campaign_def Let_def foreign_def split: if_splits sum.splits)
next
  case (UpdateCampaign i u)
  then show ?thesis
    by (auto simp: keep_campaigns_def update_campaign_def Let_def split: sum.splits if_splits
        dest!: get_campaign_member intro!: foreign_put [OF assms])
next
  case (Deactivate i)
  then show ?thesis
    by (auto simp: keep_campaigns_def toggle_active_def Let_def split: sum.splits
        dest!: get_campaign_member intro!: foreign_put [OF assms])
next
  case (CloneCampaign i t)
  then show ?thesis
    by (auto simp: keep_campaigns_def clone_campaign_def Let_def foreign_def split: if_splits sum.splits)
next
  case (BulkToggle js b)
  have "filter (\<lambda>c. cg_dealer_id c \<noteq> d)
      (map (\<lambda>c. if cg_dealer_id c = d \<and> cg_id c \<in> set js then c\<lparr>cg_is_active := b\<rparr> else c) t)
    = filter (\<lambda>c. cg_dealer_id c \<noteq> d) t" for t
    by (induction t) auto
  with BulkToggle show ?thesis by (simp add: bulk_toggle_def Let_def foreign_def)
qed

lemma naive_dates_raise:
  "naive (cg_start_date c) \<Longrightarrow> check_dates now c = Inl (TypeError ''can't compare offset-naive and offset-aware datetimes'')"
  by (cases "cg_start_date c") (simp_all add: check_dates_def naive_def)

section \<open>Properties\<close>

definition sample_campaign_in :: campaign_in where
  "sample_campaign_in = \<lparr>ci_name = ''Diwali'', ci_description = None, ci_promo_code = '' diwali '',
     ci_discount_type = ''PERCENTAGE'', ci_discount_value = 10, ci_min_purchase_amount = None,
     ci_max_discount_amount = Some 50, ci_budget_limit = Some 100, ci_daily_cap = None,
     ci_usage_limit_total = Some 2, ci_usage_limit_per_user = 1, ci_applicable_to = ''ALL'',
     ci_applicable_station_ids = None, ci_start_date = Aware 0, ci_end_date = Aware 1000, ci_is_active = True\<rparr>"

definition no_campaigns :: campaign_db where
  "no_campaigns = \<lparr>campaigns = [], promotion_usages = []\<rparr>"

definition sample_campaign_events :: "(datetime \<times> campaign_event) list" where
  "sample_campaign_events = [(1, DealerSends 1 (CreateCampaign sample_campaign_in)), (2, Checkout 1 7 400 40 360),
     (3, Checkout 1 8 900 90 810), (4, Impression 1), (5, Checkout 1 8 300 30 270), (6, Checkout 1 9 300 30 270)]"

definition sample_campaigns :: campaign_db where
  "sample_campaigns = fold campaign_step sample_campaign_events no_campaigns"

lemma sample_campaigns_run:
  "\<exists>c \<in> set (campaigns sample_campaigns). (cg_id c, cg_promo_code c, cg_usage_count c, cg_total_discount_given c)
     = (1, ''DIWALI'', 2, 70)"
  by (rule map_singleton) code_simp

lemma no_campaigns_ok: "campaigns_ok no_campaigns" "within_budget no_campaigns"
  by (simp_all add: campaigns_ok_def within_budget_def no_campaigns_def)

text \<open>
  C35: whatever dealers send and customers redeem, the number of uses of every campaign and the
  discount it gave are those of its recorded redemptions, it is used no more often than its limit
  allows, and no two campaigns have the same code.
\<close>

theorem campaign_counters_match_uses:
  assumes "campaigns_ok s" "c \<in> set (campaigns (fold campaign_step xs s))"
  shows "cg_usage_count c = int (length (usages_of (cg_id c) (fold campaign_step xs s)))
    \<and> cg_total_discount_given c = sum_list (map pg_discount_applied (usages_of (cg_id c) (fold campaign_step xs s)))
    \<and> (case cg_usage_limit_total c of None \<Rightarrow> True | Some l \<Rightarrow> cg_usage_count c \<le> max 0 l)
    \<and> distinct (map cg_promo_code (campaigns (fold campaign_step xs s)))"
proof -
  have "campaigns_ok (fold campaign_step xs s)"
    by (rule campaign_service.fold_stable [OF _ assms(1)]) (simp add: list_all_iff)
  with assms(2) show ?thesis by (simp add: campaigns_ok_def books_ok_def limit_kept_def)
qed

lemma campaign_counters_match_uses_witness:
  "\<exists>c \<in> set (campaigns sample_campaigns). cg_usage_count c = 2
    \<and> cg_usage_count c = int (length (usages_of (cg_id c) sample_campaigns))
    \<and> cg_total_discount_given c = sum_list (map pg_discount_applied (usages_of (cg_id c) sample_campaigns))
    \<and> (case cg_usage_limit_total c of None \<Rightarrow> True | Some l \<Rightarrow> cg_usage_count c \<le> max 0 l)
    \<and> distinct (map cg_promo_code (campaigns sample_campaigns))"
proof -
  from sample_campaigns_run obtain c where c: "c \<in> set (campaigns sample_campaigns)" "cg_usage_count c = 2"
    by (elim bexE) simp
  from campaign_counters_match_uses [OF no_campaigns_ok(1) c(1) [unfolded sample_campaigns_def], folded sample_campaigns_def] c
  show ?thesis by blast
qed

text \<open>
  C36: as long as no dealer edits a budget, no campaign gives more discount than its budget, whatever
  the discounts that checkouts ask for.
\<close>

theorem campaign_stays_within_budget:
  assumes "campaigns_ok s" "within_budget s" "list_all (\<lambda>x. \<not> edits_budget x) xs"
    "c \<in> set (campaigns (fold campaign_step xs s))" "cg_budget_limit c = Some b"
  shows "cg_total_discount_given c \<le> max 0 b"
  using budgeted.fold_stable [OF assms(3), of s] assms(1,2,4,5) by (auto simp: within_budget_def list_all_iff)

lemma campaign_stays_within_budget_witness:
  "\<exists>c \<in> set (campaigns sample_campaigns). cg_budget_limit c = Some 100 \<and> cg_total_discount_given c \<le> max 0 100"
proof -
  have "\<exists>c \<in> set (campaigns sample_campaigns). cg_budget_limit c = Some 100"
    by (rule map_singleton) code_simp
  then obtain c where c: "c \<in> set (campaigns sample_campaigns)" "cg_budget_limit c = Some 100" by blast
  have "list_all (\<lambda>x. \<not> edits_budget x) sample_campaign_events"
    by (simp add: sample_campaign_events_def edits_budget_def)
  from campaign_stays_within_budget [OF no_campaigns_ok this c(1) [unfolded sample_campaigns_def] c(2)] c
  show ?thesis by blast
qed

text \<open>
  a promo code of a campaign can never be redeemed through its check: whatever dealers set up
  and whenever a customer asks, the check of any code ends in an exception, for the dates that
  a column gives back have no time zone and the clock has one.
\<close>

lemma campaign_code_never_validates:
  assumes "campaigns_ok s"
  shows "\<exists>e. validate_campaign now code station_id order_amount user_id (fold campaign_step xs s) = Inl e"
proof -
  have ok: "campaigns_ok (fold campaign_step xs s)"
    by (rule campaign_service.fold_stable [OF _ assms]) (simp add: list_all_iff)
  show ?thesis
  proof (cases "by_code code (fold campaign_step xs s)")
    case (Some c)
    then have "c \<in> set (campaigns (fold campaign_step xs s))" by (auto simp: by_code_def dest: find_Some)
    with ok have "naive (cg_start_date c)" by (simp add: campaigns_ok_def books_ok_def)
    with Some show ?thesis by (simp add: validate_campaign_def naive_dates_raise)
  qed (simp add: validate_campaign_def)
qed

lemma campaign_code_never_validates_witness:
  "validate_campaign 500 ''DIWALI'' None 400 11 sample_campaigns
      = Inl (TypeError ''can't compare offset-naive and offset-aware datetimes'')
    \<and> (\<exists>e. validate_campaign 500 ''DIWALI'' None 400 11 sample_campaigns = Inl e)"
proof
  show "validate_campaign 500 ''DIWALI'' None 400 11 sample_campaigns
      = Inl (TypeError ''can't compare offset-naive and offset-aware datetimes'')" by code_simp
  show "\<exists>e. validate_campaign 500 ''DIWALI'' None 400 11 sample_campaigns = Inl e"
    unfolding sample_campaigns_def by (rule campaign_code_never_validates [OF no_campaigns_ok(1)])
qed

text \<open>
  C37: a request of a dealer leaves the campaigns of every other dealer exactly as they are.
\<close>

theorem dealers_campaigns_are_apart:
  assumes "campaigns_ok s"
  shows "filter (\<lambda>c. cg_dealer_id c \<noteq> d) (campaigns (serve_campaign now d q s))
    = filter (\<lambda>c. cg_dealer_id c \<noteq> d) (campaigns s)"
  using serve_foreign [of s d now q] assms by (simp add: campaigns_ok_def foreign_def)

lemma dealers_campaigns_are_apart_witness:
  "filter (\<lambda>c. cg_dealer_id c \<noteq> 2) (campaigns (serve_campaign 9 2 (BulkToggle [1] False)
      (fold campaign_step sample_campaign_events no_campaigns)))
    = filter (\<lambda>c. cg_dealer_id c \<noteq> 2) (campaigns (fold campaign_step sample_campaign_events no_campaigns))"
proof -
  have "campaigns_ok (fold campaign_step sample_campaign_events no_campaigns)"
    by (rule campaign_service.fold_stable [OF _ no_campaigns_ok(1)]) (simp add: list_all_iff)
  then show ?thesis by (rule dealers_campaigns_are_apart)
qed

end
