(* ===== verification/Stocks.thy ===== *)
theory Stocks
  imports PyStr
begin

text \<open>
  The stock of the warehouses, \<open>services/stock.py\<close> and \<open>api/v1/stock.py\<close>: a row per warehouse and
  product, and a movement for every change. \<open>stock_batteries\<close> are the serial numbers of the
  table of batteries; \<open>stock_warehouses\<close> and \<open>stock_products\<close> the keys that a row may refer to.
\<close>

section \<open>Tables\<close>

record stock_row =
  sk_id :: int
  sk_warehouse_id :: int
  sk_product_id :: int
  sk_on_hand :: int
  sk_available :: int
  sk_reserved :: int
  sk_damaged :: int
  sk_in_transit :: int
  sk_reorder_level :: int

datatype movement_type = GRN | SALE | TRANSFER_IN | TRANSFER_OUT | ADJUSTMENT_ADD | ADJUSTMENT_SUB | DAMAGED | RETURN

datatype direction = IN | OUT

record movement =
  mv_id :: int
  mv_stock_id :: int
  mv_transaction_type :: movement_type
  mv_quantity :: int
  mv_direction :: direction
  mv_reference_type :: string
  mv_reference_id :: "string option"
  mv_notes :: "string option"
  mv_created_at :: datetime
  mv_created_by :: int

record stock_db =
  stock_rows :: "stock_row list"
  movements :: "movement list"
  stock_warehouses :: "int list"
  stock_products :: "int list"
  stock_batteries :: "string list"

definition get_stock :: "int \<Rightarrow> int \<Rightarrow> stock_db \<Rightarrow> stock_row option" where
  "get_stock warehouse_id product_id s =
     List.find (\<lambda>r. sk_warehouse_id r = warehouse_id \<and> sk_product_id r = product_id) (stock_rows s)"

definition read_warehouse_stock :: "int \<Rightarrow> stock_db \<Rightarrow> stock_row list" where
  "read_warehouse_stock warehouse_id s = take 100 (filter (\<lambda>r. sk_warehouse_id r = warehouse_id) (stock_rows s))"

definition read_product_stock :: "int \<Rightarrow> stock_db \<Rightarrow> stock_row list" where
  "read_product_stock product_id s = take 100 (filter (\<lambda>r. sk_product_id r = product_id) (stock_rows s))"

definition get_total_product_stock :: "int \<Rightarrow> stock_db \<Rightarrow> int" where
  "get_total_product_stock product_id s =
     sum_list (map sk_available (filter (\<lambda>r. sk_product_id r = product_id) (stock_rows s)))"

text \<open>\<open>stock_repo.create\<close> commits the new row at once.\<close>

definition create_stock :: "int \<Rightarrow> int \<Rightarrow> stock_db \<Rightarrow> (stock_row \<times> stock_db) res" where
  "create_stock warehouse_id product_id s =
     (if warehouse_id \<notin> set (stock_warehouses s) \<or> product_id \<notin> set (stock_products s) then Inl IntegrityError
      else let r = \<lparr>sk_id = fresh_id sk_id (stock_rows s), sk_warehouse_id = warehouse_id,
                    sk_product_id = product_id, sk_on_hand = 0, sk_available = 0, sk_reserved = 0,
                    sk_damaged = 0, sk_in_transit = 0, sk_reorder_level = 10\<rparr>
           in Inr (r, s\<lparr>stock_rows := stock_rows s @ [r]\<rparr>))"

definition get_or_create_stock :: "int \<Rightarrow> int \<Rightarrow> stock_db \<Rightarrow> (stock_row \<times> stock_db) res" where
  "get_or_create_stock warehouse_id product_id s =
     (case get_stock warehouse_id product_id s of
        Some r \<Rightarrow> Inr (r, s)
      | None \<Rightarrow> create_stock warehouse_id product_id s)"

definition put_stock :: "stock_row \<Rightarrow> stock_db \<Rightarrow> stock_db" where
  "put_stock r s = s\<lparr>stock_rows := put_row sk_id r (stock_rows s)\<rparr>"

definition add_movement ::
    "datetime \<Rightarrow> int \<Rightarrow> movement_type \<Rightarrow> int \<Rightarrow> direction \<Rightarrow> string \<Rightarrow> string option \<Rightarrow> string option \<Rightarrow> int
      \<Rightarrow> stock_db \<Rightarrow> stock_db" where
  "add_movement now stock_id t quantity d reference_type reference_id notes user_id s =
     s\<lparr>movements := movements s @
         [\<lparr>mv_id = fresh_id mv_id (movements s), mv_stock_id = stock_id, mv_transaction_type = t,
           mv_quantity = quantity, mv_direction = d, mv_reference_type = reference_type,
           mv_reference_id = reference_id, mv_notes = notes, mv_created_at = now, mv_created_by = user_id\<rparr>]\<rparr>"

text \<open>\<open>quantity_on_hand += q\<close> and \<open>quantity_available += q\<close>\<close>

definition shift_stock :: "int \<Rightarrow> stock_row \<Rightarrow> stock_row" where
  "shift_stock q r = r\<lparr>sk_on_hand := sk_on_hand r + q, sk_available := sk_available r + q\<rparr>"

section \<open>Operations\<close>

record stock_receive =
  sr_warehouse_id :: int
  sr_product_id :: int
  sr_quantity :: int
  sr_reference_id :: "string option"
  sr_notes :: "string option"
  sr_serial_numbers :: "string list option"

text \<open>
  A battery has no field \<open>warehouse_id\<close>: the assignment raises for the first serial number that is
  known, and only a row created on the way is kept.
\<close>

definition receive_stock :: "datetime \<Rightarrow> stock_receive \<Rightarrow> int \<Rightarrow> stock_db \<Rightarrow> stock_row res \<times> stock_db" where
  "receive_stock now q user_id s =
     (case get_or_create_stock (sr_warehouse_id q) (sr_product_id q) s of
        Inl e \<Rightarrow> (Inl e, s)
      | Inr (r, s1) \<Rightarrow>
          if list_ex (\<lambda>n. n \<in> set (stock_batteries s1)) (case sr_serial_numbers q of None \<Rightarrow> [] | Some ns \<Rightarrow> ns)
          then (Inl (ValueError ''object has no field''), s1)
          else
            let r' = shift_stock (sr_quantity q) r
            in (Inr r', add_movement now (sk_id r) GRN (sr_quantity q) IN ''GRN'' (sr_reference_id q) (sr_notes q)
                          user_id (put_stock r' s1)))"

record stock_transfer =
  sx_from_warehouse_id :: int
  sx_to_warehouse_id :: int
  sx_product_id :: int
  sx_quantity :: int
  sx_notes :: "string option"

text \<open>
  The source is debited before the row of the destination is created, whose commit keeps both; a
  destination that does not exist keeps neither.
\<close>

definition transfer_stock ::
    "datetime \<Rightarrow> stock_transfer \<Rightarrow> int \<Rightarrow> stock_db \<Rightarrow> ((stock_row \<times> stock_row) \<times> stock_db) res" where
  "transfer_stock now q user_id s =
     (case get_stock (sx_from_warehouse_id q) (sx_product_id q) s of
        None \<Rightarrow> Inl (HTTPException 400 ''Insufficient stock in source warehouse'')
      | Some source \<Rightarrow>
          if sk_available source < sx_quantity q
          then Inl (HTTPException 400 ''Insufficient stock in source warehouse'')
          else
            let source' = shift_stock (- sx_quantity q) source;
                s1 = add_movement now (sk_id source) TRANSFER_OUT (sx_quantity q) OUT ''TRANSFER''
                       (Some (''TO-'' @ show_int (sx_to_warehouse_id q))) (sx_notes q) user_id (put_stock source' s)
            in case get_or_create_stock (sx_to_warehouse_id q) (sx_product_id q) s1 of
                 Inl e \<Rightarrow> Inl e
               | Inr (dest, s2) \<Rightarrow>
                   let dest' = shift_stock (sx_quantity q) dest;
                       s3 = add_movement now (sk_id dest) TRANSFER_IN (sx_quantity q) IN ''TRANSFER''
                              (Some (''FROM-'' @ show_int (sx_from_warehouse_id q))) (sx_notes q) user_id
                              (put_stock dest' s2)
                   in Inr ((if sk_id source = sk_id dest then dest' else source', dest'), s3))"

record stock_adjustment =
  sa_warehouse_id :: int
  sa_product_id :: int
  sa_quantity :: int
  sa_type :: movement_type
  sa_notes :: "string option"

definition adjusted :: "movement_type \<Rightarrow> int \<Rightarrow> stock_row \<Rightarrow> (stock_row \<times> direction) res" where
  "adjusted t quantity r =
     (case t of
        DAMAGED \<Rightarrow>
          if sk_available r < quantity
          then Inl (HTTPException 400 ''Insufficient available stock to mark as damaged'')
          else Inr (r\<lparr>sk_available := sk_available r - quantity, sk_damaged := sk_damaged r + quantity\<rparr>, OUT)
      | ADJUSTMENT_ADD \<Rightarrow> Inr (shift_stock quantity r, IN)
      | ADJUSTMENT_SUB \<Rightarrow>
          if sk_available r < quantity then Inl (HTTPException 400 ''Insufficient available stock'')
          else Inr (shift_stock (- quantity) r, OUT)
      | _ \<Rightarrow> Inr (r, IN))"

definition adjust_stock ::
    "datetime \<Rightarrow> stock_adjustment \<Rightarrow> int \<Rightarrow> stock_db \<Rightarrow> (stock_row \<times> stock_db) res" where
  "adjust_stock now q user_id s =
     (case get_stock (sa_warehouse_id q) (sa_product_id q) s of
        None \<Rightarrow> Inl (HTTPException 404 ''Stock record not found'')
      | Some r \<Rightarrow>
          (case adjusted (sa_type q) (sa_quantity q) r of
             Inl e \<Rightarrow> Inl e
           | Inr (r', d) \<Rightarrow>
               Inr (r', add_movement now (sk_id r) (sa_type q) (sa_quantity q) d ''ADJUSTMENT'' None (sa_notes q)
                          user_id (put_stock r' s))))"

datatype stock_request = Receive stock_receive | Transfer stock_transfer | Adjust stock_adjustment

fun serve_stock :: "datetime \<times> int \<times> stock_request \<Rightarrow> stock_db \<Rightarrow> stock_db" where
  "serve_stock (now, u, Receive q) s = snd (receive_stock now q u s)"
| "serve_stock (now, u, Transfer q) s = (case transfer_stock now q u s of Inl e \<Rightarrow> s | Inr (x, s') \<Rightarrow> s')"
| "serve_stock (now, u, Adjust q) s = (case adjust_stock now q u s of Inl e \<Rightarrow> s | Inr (x, s') \<Rightarrow> s')"

end
