(* ===== verification/StocksInv.thy ===== *)
theory StocksInv
  imports Stocks
begin

text \<open>
  What holds of the stock of the warehouses: the rows agree with the movements after any history of
  requests (\<open>stock_ok\<close>), and a transfer refines the update of a map from warehouses and products to
  quantities, \<open>available_at\<close>.
\<close>

section \<open>The ledger\<close>

text \<open>
  What a movement did to the stock that is available. An adjustment whose type is none of the three
  that \<open>adjusted\<close> acts on, such as \<open>SALE\<close>, is recorded and did nothing.
\<close>

definition effect :: "movement_type \<Rightarrow> string \<Rightarrow> direction \<Rightarrow> int \<Rightarrow> int" where
  "effect t reference_type d quantity =
     (if reference_type = ''ADJUSTMENT'' \<and> t \<notin> {DAMAGED, ADJUSTMENT_ADD, ADJUSTMENT_SUB} then 0
      else case d of IN \<Rightarrow> quantity | OUT \<Rightarrow> - quantity)"

definition signed :: "movement \<Rightarrow> int" where
  "signed m = effect (mv_transaction_type m) (mv_reference_type m) (mv_direction m) (mv_quantity m)"

definition net :: "int \<Rightarrow> stock_db \<Rightarrow> int" where
  "net i s = sum_list (map signed (filter (\<lambda>m. mv_stock_id m = i) (movements s)))"

definition place :: "stock_row \<Rightarrow> int \<times> int" where
  "place r = (sk_warehouse_id r, sk_product_id r)"

definition stock_row_ok :: "stock_db \<Rightarrow> stock_row \<Rightarrow> bool" where
  "stock_row_ok s r \<longleftrightarrow> sk_on_hand r = sk_available r + sk_damaged r \<and> sk_available r = net (sk_id r) s"

definition stock_ok :: "stock_db \<Rightarrow> bool" where
  "stock_ok s \<longleftrightarrow> distinct (map sk_id (stock_rows s)) \<and> distinct (map place (stock_rows s))
     \<and> mv_stock_id ` set (movements s) \<subseteq> sk_id ` set (stock_rows s)
     \<and> (\<forall>r \<in> set (stock_rows s). stock_row_ok s r)"

definition nonneg :: "stock_row \<Rightarrow> bool" where
  "nonneg r \<longleftrightarrow> 0 \<le> sk_available r \<and> 0 \<le> sk_damaged r"

text \<open>
  The two ways in which the tables change. When \<open>good\<close> holds a change keeps quantities from
  becoming negative.
\<close>

inductive stock_change :: "bool \<Rightarrow> stock_db \<Rightarrow> stock_db \<Rightarrow> bool" for good where
  new: "stock_rows s' = stock_rows s @ [r] \<Longrightarrow> movements s' = movements s \<Longrightarrow>
    sk_id r = fresh_id sk_id (stock_rows s) \<Longrightarrow> place r \<notin> place ` set (stock_rows s) \<Longrightarrow>
    sk_on_hand r = 0 \<Longrightarrow> sk_available r = 0 \<Longrightarrow> sk_damaged r = 0 \<Longrightarrow> stock_change good s s'"
| change: "r \<in> set (stock_rows s) \<Longrightarrow> sk_id r' = sk_id r \<Longrightarrow> place r' = place r \<Longrightarrow>
    stock_rows s' = put_row sk_id r' (stock_rows s) \<Longrightarrow> movements s' = movements s @ [m] \<Longrightarrow>
    mv_stock_id m = sk_id r \<Longrightarrow> sk_available r' = sk_available r + signed m \<Longrightarrow>
    sk_on_hand r' - sk_damaged r' = sk_on_hand r - sk_damaged r + signed m \<Longrightarrow>
    (good \<Longrightarrow> nonneg r \<Longrightarrow> nonneg r') \<Longrightarrow> stock_change good s s'"

lemma stock_change_ok:
  assumes "stock_change good s s'" "stock_ok s"
  shows "stock_ok s'"
  using assms
proof cases
  case (new r)
  have fresh: "sk_id r \<notin> sk_id ` set (stock_rows s)" by (simp add: new(3) fresh_id_notin)
  have net: "net i s' = net i s" for i by (simp add: net_def new(2))
  have "sk_id r \<notin> mv_stock_id ` set (movements s)" using assms(2) fresh by (meson stock_ok_def subsetD)
  then have "net (sk_id r) s = 0"
    unfolding net_def by (subst filter_False) (auto simp: image_iff)
  then show ?thesis
    using assms(2) fresh new(4-7) by (auto simp: stock_ok_def stock_row_ok_def new(1,2) net)
next
  case (change r r' m)
  have d: "distinct (map sk_id (stock_rows s))" using assms(2) by (simp add: stock_ok_def)
  have net: "net i s' = net i s + (if i = sk_id r then signed m else 0)" for i
    by (simp add: net_def change(5,6))
  have old: "stock_row_ok s q" if "q \<in> set (stock_rows s)" for q using assms(2) that by (simp add: stock_ok_def)
  have "stock_row_ok s' q" if "q \<in> set (put_row sk_id r' (stock_rows s))" for q
    using in_put_row [OF that]
  proof
    assume "q = r'"
    then show ?thesis using old [OF change(1)] change(2,7,8) by (simp add: stock_row_ok_def net)
  next
    assume q: "q \<in> set (stock_rows s) \<and> sk_id q \<noteq> sk_id r'"
    then show ?thesis using old [of q] change(2) by (simp add: stock_row_ok_def net)
  qed
  moreover have "map place (put_row sk_id r' (stock_rows s)) = map place (stock_rows s)"
    by (rule map_put_row [OF d change(1-3)])
  moreover have "sk_id ` set (put_row sk_id r' (stock_rows s)) = sk_id ` set (stock_rows s)"
    by (metis list.set_map put_row_keys)
  ultimately show ?thesis
    using assms(2) change(1) by (auto simp: stock_ok_def change(4-6))
qed

definition all_nonneg :: "stock_db \<Rightarrow> bool" where
  "all_nonneg s \<longleftrightarrow> list_all nonneg (stock_rows s)"

lemma stock_change_nonneg:
  assumes "stock_change True s s'" "all_nonneg s"
  shows "all_nonneg s'"
  using assms
proof cases
  case (new r)
  then show ?thesis using assms(2) by (simp add: all_nonneg_def nonneg_def)
next
  case (change r r' m)
  have "nonneg r" using assms(2) change(1) by (simp add: all_nonneg_def list_all_iff)
  with change(9) have "nonneg r'" by simp
  then show ?thesis
    using assms(2) in_put_row [of _ sk_id r' "stock_rows s"] unfolding all_nonneg_def list_all_iff change(4) by blast
qed

section \<open>The operations\<close>

lemma get_stock_member:
  "get_stock w p s = Some r \<Longrightarrow> r \<in> set (stock_rows s) \<and> sk_warehouse_id r = w \<and> sk_product_id r = p"
  by (auto simp: get_stock_def dest: find_Some)

lemma create_stockE:
  assumes "create_stock w p s = Inr (r, s1)"
  shows "stock_rows s1 = stock_rows s @ [r] \<and> movements s1 = movements s
    \<and> sk_id r = fresh_id sk_id (stock_rows s) \<and> place r = (w, p) \<and> sk_on_hand r = 0
    \<and> sk_available r = 0 \<and> sk_damaged r = 0"
  using assms by (auto simp: create_stock_def Let_def place_def split: if_splits)

lemma get_or_createE:
  assumes "get_or_create_stock w p s = Inr (r, s1)"
  obtains "get_stock w p s = Some r" "s1 = s"
    | "get_stock w p s = None" "stock_change good s s1" "r \<in> set (stock_rows s1)" "sk_available r = 0"
      "stock_rows s1 = stock_rows s @ [r]" "place r = (w, p)" "sk_id r = fresh_id sk_id (stock_rows s)"
      "movements s1 = movements s"
proof (cases "get_stock w p s")
  case None
  then have n: "(w, p) \<notin> place ` set (stock_rows s)"
    by (auto simp: get_stock_def find_None place_def)
  have "create_stock w p s = Inr (r, s1)" using assms None by (simp add: get_or_create_stock_def)
  from create_stockE [OF this] show ?thesis
  proof (elim conjE)
    assume f: "stock_rows s1 = stock_rows s @ [r]" "movements s1 = movements s"
      "sk_id r = fresh_id sk_id (stock_rows s)" "place r = (w, p)"
      "sk_on_hand r = 0" "sk_available r = 0" "sk_damaged r = 0"
    have "place r \<notin> place ` set (stock_rows s)" using n unfolding f(4) .
    from that(2) [OF None stock_change.new [OF f(1-3) this f(5-7)] _ f(6,1,4,3,2)] show ?thesis
      unfolding f(1) by simp
  qed
next
  case (Some q)
  with assms have "q = r" "s1 = s" by (simp_all add: get_or_create_stock_def)
  with Some that(1) show ?thesis by blast
qed

lemma get_or_create_member:
  assumes "get_or_create_stock w p s = Inr (r, s1)"
  shows "(stock_change good)\<^sup>*\<^sup>* s s1 \<and> r \<in> set (stock_rows s1) \<and> place r = (w, p)"
  using assms
proof (rule get_or_createE [where good = good])
  assume "get_stock w p s = Some r" "s1 = s"
  with get_stock_member [of w p s r] show ?thesis by (simp add: place_def)
qed auto

lemma put_movement:
  assumes "r \<in> set (stock_rows s)" "sk_id r' = sk_id r" "place r' = place r"
    "sk_available r' = sk_available r + effect t a d n"
    "sk_on_hand r' - sk_damaged r' = sk_on_hand r - sk_damaged r + effect t a d n"
    "good \<Longrightarrow> nonneg r \<Longrightarrow> nonneg r'"
  shows "stock_change good s (add_movement now (sk_id r) t n d a b c u (put_stock r' s))"
proof -
  let ?m = "\<lparr>mv_id = fresh_id mv_id (movements s), mv_stock_id = sk_id r, mv_transaction_type = t, mv_quantity = n,
    mv_direction = d, mv_reference_type = a, mv_reference_id = b, mv_notes = c, mv_created_at = now, mv_created_by = u\<rparr>"
  show ?thesis
    by (rule stock_change.change [OF assms(1-3), where m = ?m])
      (use assms(4-6) in \<open>simp_all add: add_movement_def put_stock_def signed_def\<close>)
qed

lemma effect_simps [simp]:
  "effect t ''GRN'' d n = (case d of IN \<Rightarrow> n | OUT \<Rightarrow> - n)"
  "effect t ''TRANSFER'' d n = (case d of IN \<Rightarrow> n | OUT \<Rightarrow> - n)"
  by (simp_all add: effect_def)

lemma shift_stock_simps [simp]:
  "sk_id (shift_stock n r) = sk_id r" "place (shift_stock n r) = place r"
  "sk_available (shift_stock n r) = sk_available r + n" "sk_on_hand (shift_stock n r) = sk_on_hand r + n"
  "sk_damaged (shift_stock n r) = sk_damaged r" "sk_warehouse_id (shift_stock n r) = sk_warehouse_id r"
  "sk_product_id (shift_stock n r) = sk_product_id r"
  by (simp_all add: shift_stock_def place_def)

definition quantity_of :: "stock_request \<Rightarrow> int" where
  "quantity_of q = (case q of Receive r \<Rightarrow> sr_quantity r | Transfer x \<Rightarrow> sx_quantity x | Adjust a \<Rightarrow> sa_quantity a)"

lemma receive_moves:
  assumes "good \<Longrightarrow> 0 \<le> sr_quantity q"
  shows "(stock_change good)\<^sup>*\<^sup>* s (snd (receive_stock now q u s))"
proof (cases "get_or_create_stock (sr_warehouse_id q) (sr_product_id q) s")
  case (Inl e)
  then show ?thesis by (simp add: receive_stock_def)
next
  case (Inr x)
  obtain r s1 where x: "x = (r, s1)" by (cases x)
  from get_or_create_member [of _ _ s r s1 good] Inr x
  have m: "(stock_change good)\<^sup>*\<^sup>* s s1" "r \<in> set (stock_rows s1)" by auto
  have "stock_change good s1 (add_movement now (sk_id r) GRN (sr_quantity q) IN ''GRN'' (sr_reference_id q) (sr_notes q)
      u (put_stock (shift_stock (sr_quantity q) r) s1))"
    by (rule put_movement [OF m(2)]) (use assms in \<open>auto simp: nonneg_def\<close>)
  with m(1) have "(stock_change good)\<^sup>*\<^sup>* s (add_movement now (sk_id r) GRN (sr_quantity q) IN ''GRN''
      (sr_reference_id q) (sr_notes q) u (put_stock (shift_stock (sr_quantity q) r) s1))"
    by (rule rtranclp.rtrancl_into_rtrancl)
  with m(1) Inr x show ?thesis by (simp add: receive_stock_def Let_def)
qed

lemma adjust_moves:
  assumes "adjust_stock now q u s = Inr (r', s')" "good \<Longrightarrow> 0 \<le> sa_quantity q"
  shows "stock_change good s s'"
proof -
  from assms(1) obtain r d where r: "get_stock (sa_warehouse_id q) (sa_product_id q) s = Some r"
    "adjusted (sa_type q) (sa_quantity q) r = Inr (r', d)"
    "s' = add_movement now (sk_id r) (sa_type q) (sa_quantity q) d ''ADJUSTMENT'' None (sa_notes q) u (put_stock r' s)"
    by (auto simp: adjust_stock_def split: option.splits sum.splits)
  show ?thesis unfolding r(3)
    by (rule put_movement)
      (use get_stock_member [OF r(1)] r(2) assms(2) in
        \<open>auto simp: adjusted_def effect_def nonneg_def place_def split: if_splits movement_type.splits\<close>)
qed

lemma transferE:
  assumes "transfer_stock now q u s = Inr (x, s')"
  obtains source dest s1 s2 where
    "get_stock (sx_from_warehouse_id q) (sx_product_id q) s = Some source" "sx_quantity q \<le> sk_available source"
    "s1 = add_movement now (sk_id source) TRANSFER_OUT (sx_quantity q) OUT ''TRANSFER''
       (Some (''TO-'' @ show_int (sx_to_warehouse_id q))) (sx_notes q) u
       (put_stock (shift_stock (- sx_quantity q) source) s)"
    "get_or_create_stock (sx_to_warehouse_id q) (sx_product_id q) s1 = Inr (dest, s2)"
    "s' = add_movement now (sk_id dest) TRANSFER_IN (sx_quantity q) IN ''TRANSFER''
       (Some (''FROM-'' @ show_int (sx_from_warehouse_id q))) (sx_notes q) u
       (put_stock (shift_stock (sx_quantity q) dest) s2)"
  using assms by (auto simp: transfer_stock_def Let_def split: option.splits sum.splits if_splits)

lemma transfer_moves:
  assumes "transfer_stock now q u s = Inr (x, s')" "good \<Longrightarrow> 0 \<le> sx_quantity q"
  shows "(stock_change good)\<^sup>*\<^sup>* s s'"
  using assms(1)
proof (rule transferE)
  fix source dest s1 s2
  assume a: "get_stock (sx_from_warehouse_id q) (sx_product_id q) s = Some source" "sx_quantity q \<le> sk_available source"
    "s1 = add_movement now (sk_id source) TRANSFER_OUT (sx_quantity q) OUT ''TRANSFER''
       (Some (''TO-'' @ show_int (sx_to_warehouse_id q))) (sx_notes q) u
       (put_stock (shift_stock (- sx_quantity q) source) s)"
    "get_or_create_stock (sx_to_warehouse_id q) (sx_product_id q) s1 = Inr (dest, s2)"
    "s' = add_movement now (sk_id dest) TRANSFER_IN (sx_quantity q) IN ''TRANSFER''
       (Some (''FROM-'' @ show_int (sx_from_warehouse_id q))) (sx_notes q) u
       (put_stock (shift_stock (sx_quantity q) dest) s2)"
  have 1: "stock_change good s s1" unfolding a(3)
    by (rule put_movement) (use get_stock_member [OF a(1)] a(2) in \<open>auto simp: nonneg_def\<close>)
  from get_or_create_member [OF a(4), of good]
  have m: "(stock_change good)\<^sup>*\<^sup>* s1 s2" "dest \<in> set (stock_rows s2)" by auto
  have 2: "stock_change good s2 s'" unfolding a(5)
    by (rule put_movement [OF m(2)]) (use assms(2) in \<open>auto simp: nonneg_def\<close>)
  show ?thesis
    by (rule converse_rtranclp_into_rtranclp [of "stock_change good", OF 1 rtranclp.rtrancl_into_rtrancl [OF m(1) 2]])
qed

lemma serve_stock_moves:
  assumes "good \<Longrightarrow> 0 \<le> quantity_of q"
  shows "(stock_change good)\<^sup>*\<^sup>* s (serve_stock (now, u, q) s)"
proof (cases q)
  case (Receive r)
  then show ?thesis using assms by (simp add: receive_moves quantity_of_def)
next
  case (Transfer x)
  then show ?thesis using assms by (auto simp: quantity_of_def split: sum.split intro: transfer_moves)
next
  case (Adjust a)
  then show ?thesis
    using assms by (auto simp: quantity_of_def split: sum.split intro!: r_into_rtranclp elim!: adjust_moves)
qed

lemma stock_changes_ok: "(stock_change good)\<^sup>*\<^sup>* s s' \<Longrightarrow> stock_ok s \<Longrightarrow> stock_ok s'"
  by (induction rule: rtranclp_induct) (auto intro: stock_change_ok)

lemma stock_changes_nonneg: "(stock_change True)\<^sup>*\<^sup>* s s' \<Longrightarrow> all_nonneg s \<Longrightarrow> all_nonneg s'"
  by (induction rule: rtranclp_induct) (auto intro: stock_change_nonneg)

interpretation stock_service: stable_step serve_stock "\<lambda>_. True" stock_ok
  by unfold_locales (auto intro: stock_changes_ok [OF serve_stock_moves [where good = False]])

interpretation stock_counts: stable_step serve_stock "\<lambda>(now, u, q). 0 \<le> quantity_of q" all_nonneg
  by unfold_locales (auto intro: stock_changes_nonneg [OF serve_stock_moves])

section \<open>A transfer, as seen from outside\<close>

definition available_at :: "int \<Rightarrow> int \<Rightarrow> stock_db \<Rightarrow> int" where
  "available_at w p s = (case get_stock w p s of None \<Rightarrow> 0 | Some r \<Rightarrow> sk_available r)"

lemma find_unique: "distinct (map place t) \<Longrightarrow> r \<in> set t \<Longrightarrow> place r = k \<Longrightarrow> List.find (\<lambda>q. place q = k) t = Some r"
  by (induction t) (auto simp: image_iff)

lemma get_stock_place: "get_stock w p s = List.find (\<lambda>q. place q = (w, p)) (stock_rows s)"
  by (simp add: get_stock_def place_def)

lemma available_at_row:
  "stock_ok s \<Longrightarrow> r \<in> set (stock_rows s) \<Longrightarrow> place r = (w, p) \<Longrightarrow> available_at w p s = sk_available r"
  by (simp add: available_at_def get_stock_place find_unique stock_ok_def)

lemma find_put_other:
  "distinct (map sk_id t) \<Longrightarrow> r \<in> set t \<Longrightarrow> sk_id r' = sk_id r \<Longrightarrow> place r' = place r \<Longrightarrow> place r \<noteq> k \<Longrightarrow>
    List.find (\<lambda>q. place q = k) (put_row sk_id r' t) = List.find (\<lambda>q. place q = k) t"
proof (induction t)
  case (Cons q t)
  show ?case
  proof (cases "r = q")
    case True
    with Cons.prems have "put_row sk_id r' t = t" by (intro put_row_notin) simp
    with True Cons.prems show ?thesis by simp
  next
    case False
    with Cons.prems have "r \<in> set t" "sk_id q \<noteq> sk_id r" by auto
    with Cons show ?thesis by simp
  qed
qed simp


lemma available_at_shift:
  assumes "stock_ok s" "r \<in> set (stock_rows s)" "place r = (w', p')"
  shows "available_at w p (add_movement now (sk_id r) t n d a b c u (put_stock (shift_stock i r) s))
    = available_at w p s + (if (w, p) = (w', p') then i else 0)"
proof -
  let ?s = "s\<lparr>stock_rows := put_row sk_id (shift_stock i r) (stock_rows s)\<rparr>"
  let ?s' = "add_movement now (sk_id r) t n d a b c u (put_stock (shift_stock i r) s)"
  have "distinct (map sk_id (stock_rows s))" using assms(1) by (simp add: stock_ok_def)
  from find_put_other [OF this assms(2), of "shift_stock i r" "(w, p)"]
  have other: "available_at w p ?s' = available_at w p s" if "(w, p) \<noteq> (w', p')"
    using that assms(3) by (auto simp: available_at_def get_stock_place add_movement_def put_stock_def)
  have "map place (put_row sk_id (shift_stock i r) (stock_rows s)) = map place (stock_rows s)"
    by (rule map_put_row [OF \<open>distinct (map sk_id (stock_rows s))\<close> assms(2)]) simp_all
  then have "distinct (map place (put_row sk_id (shift_stock i r) (stock_rows s)))"
    using assms(1) by (simp add: stock_ok_def)
  moreover have "shift_stock i r \<in> set (put_row sk_id (shift_stock i r) (stock_rows s))"
    using assms(2) by (force simp: put_row_def)
  ultimately have same: "available_at w' p' ?s' = sk_available r + i"
    using assms(3) by (simp add: available_at_def get_stock_place add_movement_def put_stock_def find_unique)
  show ?thesis using other same available_at_row [OF assms] by auto
qed

lemma available_at_create:
  assumes "get_or_create_stock w' p' s = Inr (r, s1)"
  shows "available_at w p s1 = available_at w p s"
  using assms
proof (rule get_or_createE [where good = False])
  assume new: "get_stock w' p' s = None" "sk_available r = 0" "stock_rows s1 = stock_rows s @ [r]" "place r = (w', p')"
  have app: "List.find P (xs @ [r]) = (case List.find P xs of Some q \<Rightarrow> Some q | None \<Rightarrow> if P r then Some r else None)"
    for P and xs :: "stock_row list" by (induction xs) auto
  show ?thesis
    using new by (auto simp: available_at_def get_stock_place app split: option.splits)
qed simp

lemma transfer_stock_ok: "transfer_stock now q u s = Inr (x, s') \<Longrightarrow> stock_ok s \<Longrightarrow> stock_ok s'"
  by (rule stock_changes_ok [OF transfer_moves [where good = False]]) simp_all

section \<open>What the warehouses rely on\<close>

definition empty_stock :: stock_db where
  "empty_stock = \<lparr>stock_rows = [], movements = [], stock_warehouses = [1, 2], stock_products = [7],
     stock_batteries = [''BAT-1'']\<rparr>"

definition sample_receive :: stock_receive where
  "sample_receive = \<lparr>sr_warehouse_id = 1, sr_product_id = 7, sr_quantity = 30, sr_reference_id = Some ''PO-1'',
     sr_notes = None, sr_serial_numbers = None\<rparr>"

definition sample_transfer :: stock_transfer where
  "sample_transfer = \<lparr>sx_from_warehouse_id = 1, sx_to_warehouse_id = 2, sx_product_id = 7, sx_quantity = 12,
     sx_notes = None\<rparr>"

definition sample_damage :: stock_adjustment where
  "sample_damage = \<lparr>sa_warehouse_id = 2, sa_product_id = 7, sa_quantity = 5, sa_type = DAMAGED, sa_notes = None\<rparr>"

definition stock_history :: "(datetime \<times> int \<times> stock_request) list" where
  "stock_history = [(1, 9, Receive sample_receive), (2, 9, Transfer sample_transfer), (3, 9, Adjust sample_damage),
     (4, 9, Adjust (sample_damage\<lparr>sa_type := SALE\<rparr>)), (5, 9, Receive (sample_receive\<lparr>sr_serial_numbers := Some [''BAT-1'']\<rparr>))]"

lemma empty_stock_ok: "stock_ok empty_stock" "all_nonneg empty_stock"
  by (simp_all add: stock_ok_def all_nonneg_def empty_stock_def)

lemma stock_history_nonneg: "list_all (\<lambda>(now, u, q). 0 \<le> quantity_of q) stock_history"
  by code_simp

lemma stock_history_run:
  "\<exists>r \<in> set (stock_rows (fold serve_stock stock_history empty_stock)).
     (sk_id r, sk_warehouse_id r, sk_on_hand r, sk_available r, sk_damaged r) = (2, 2, 12, 7, 5)"
proof -
  have "map (\<lambda>r. (sk_id r, sk_warehouse_id r, sk_on_hand r, sk_available r, sk_damaged r))
      (stock_rows (fold serve_stock stock_history empty_stock)) = [(1, 1, 18, 18, 0), (2, 2, 12, 7, 5)]" by code_simp
  then show ?thesis by (auto simp: map_eq_Cons_conv)
qed



text \<open>
  as long as no request has a negative quantity, nothing becomes negative: a transfer, a write-off
  and a deduction of more than is available are refused.
\<close>

lemma stock_counts_nonneg:
  assumes "all_nonneg s" "list_all (\<lambda>(now, u, q). 0 \<le> quantity_of q) xs"
    "r \<in> set (stock_rows (fold serve_stock xs s))"
  shows "0 \<le> sk_available r \<and> 0 \<le> sk_damaged r"
  using stock_counts.fold_stable [OF assms(2,1)] assms(3) by (simp add: all_nonneg_def nonneg_def list_all_iff)

lemma stock_counts_nonneg_witness:
  "\<exists>r \<in> set (stock_rows (fold serve_stock stock_history empty_stock)). sk_damaged r = 5
    \<and> 0 \<le> sk_available r \<and> 0 \<le> sk_damaged r"
proof -
  from stock_history_run obtain r
    where r: "r \<in> set (stock_rows (fold serve_stock stock_history empty_stock))" "sk_damaged r = 5"
    by (elim bexE) simp
  from stock_counts_nonneg [OF empty_stock_ok(2) stock_history_nonneg r(1)] r show ?thesis by blast
qed

text \<open>
  C39: a transfer between warehouses that succeeds is the update of a map from warehouses and products
  to quantities: the source loses the quantity, which it had, the destination gains it, and nothing
  else changes, whether or not the destination has a row yet, and also when it is the source.
\<close>

theorem transfer_moves_stock:
  assumes "stock_ok s" "transfer_stock now q u s = Inr (x, s')"
  shows "sx_quantity q \<le> available_at (sx_from_warehouse_id q) (sx_product_id q) s
    \<and> available_at w p s' = available_at w p s
        - (if (w, p) = (sx_from_warehouse_id q, sx_product_id q) then sx_quantity q else 0)
        + (if (w, p) = (sx_to_warehouse_id q, sx_product_id q) then sx_quantity q else 0)"
  using assms(2)
proof (rule transferE)
  fix source dest s1 s2
  assume a: "get_stock (sx_from_warehouse_id q) (sx_product_id q) s = Some source" "sx_quantity q \<le> sk_available source"
    "s1 = add_movement now (sk_id source) TRANSFER_OUT (sx_quantity q) OUT ''TRANSFER''
       (Some (''TO-'' @ show_int (sx_to_warehouse_id q))) (sx_notes q) u
       (put_stock (shift_stock (- sx_quantity q) source) s)"
    "get_or_create_stock (sx_to_warehouse_id q) (sx_product_id q) s1 = Inr (dest, s2)"
    "s' = add_movement now (sk_id dest) TRANSFER_IN (sx_quantity q) IN ''TRANSFER''
       (Some (''FROM-'' @ show_int (sx_from_warehouse_id q))) (sx_notes q) u
       (put_stock (shift_stock (sx_quantity q) dest) s2)"
  have m: "source \<in> set (stock_rows s)" "place source = (sx_from_warehouse_id q, sx_product_id q)"
    using get_stock_member [OF a(1)] by (simp_all add: place_def)
  have "stock_change False s s1" unfolding a(3) by (rule put_movement [OF m(1)]) simp_all
  with assms(1) have ok: "stock_ok s1" by (rule stock_change_ok [rotated])
  have d: "stock_ok s2" "dest \<in> set (stock_rows s2)" "place dest = (sx_to_warehouse_id q, sx_product_id q)"
    using get_or_create_member [OF a(4), of False] ok by (auto intro: stock_changes_ok)
  have "available_at w p s' = available_at w p s2
      + (if (w, p) = (sx_to_warehouse_id q, sx_product_id q) then sx_quantity q else 0)"
    unfolding a(5) by (rule available_at_shift [OF d])
  moreover have "available_at w p s2 = available_at w p s1" by (rule available_at_create [OF a(4)])
  moreover have "available_at w p s1 = available_at w p s
      + (if (w, p) = (sx_from_warehouse_id q, sx_product_id q) then - sx_quantity q else 0)"
    unfolding a(3) by (rule available_at_shift [OF assms(1) m])
  ultimately show ?thesis using a(2) available_at_row [OF assms(1) m] by simp
qed

lemma transfer_moves_stock_witness:
  "\<exists>x s'. transfer_stock 2 sample_transfer 9 (serve_stock (1, 9, Receive sample_receive) empty_stock) = Inr (x, s')
    \<and> available_at 2 7 s' = 12 \<and> available_at 1 7 s' = 18"
proof -
  let ?s = "serve_stock (1, 9, Receive sample_receive) empty_stock"
  have "stock_ok (fold serve_stock [(1, 9, Receive sample_receive)] empty_stock)"
    by (rule stock_service.fold_stable [OF _ empty_stock_ok(1)]) simp
  then have ok: "stock_ok ?s" by simp
  have run: "(case transfer_stock 2 sample_transfer 9 ?s of Inl e \<Rightarrow> False | Inr (x, s') \<Rightarrow> True)" by code_simp
  then obtain x s' where t: "transfer_stock 2 sample_transfer 9 ?s = Inr (x, s')"
    by (auto split: sum.splits)
  have a: "available_at 1 7 ?s = 30" "available_at 2 7 ?s = 0" by code_simp+
  have q: "sx_from_warehouse_id sample_transfer = 1" "sx_to_warehouse_id sample_transfer = 2"
    "sx_product_id sample_transfer = 7" "sx_quantity sample_transfer = 12" by (simp_all add: sample_transfer_def)
  from transfer_moves_stock [OF ok t, of 2 7] transfer_moves_stock [OF ok t, of 1 7] a t show ?thesis
    by (auto simp: q)
qed

end
