(* ===== verification/Spec2Isabelle.thy ===== *)
theory Spec2Isabelle
  imports FleetInv OutboxInv WalletInv RentalInv OrderClaims BookingsInv OtpInv RolesInv
    SwapClaims ManifestsInv SettlementClaims ShopClaims LateFeesInv DealersInv DealerKycInv CampaignsInv
    StocksInv
begin

text \<open>
  A verification library for the WEZU backend, the Python service behind a battery-swapping
  network: users rent and swap batteries at stations, pay from a wallet or through the Razorpay
  gateway, and dealers order batteries from warehouses.

  The program is a FastAPI application over SQL tables (SQLModel). Its core logic is in the
  services (\<open>app/services/\<close>) and in a few routers with logic of their own
  (\<open>app/api/v1/\<close>). A service operation reads rows, checks guards that raise
  \<open>HTTPException\<close>, changes rows and commits; a commit that is not reached is rolled back. The
  model has the same shape: a record of tables is passed in, and the operation returns
  an exception (\<open>Inl\<close>) or its value with the tables its last commit leaves (\<open>Inr\<close>). An operation
  that commits and raises afterwards returns both. A call sees one value of the clock, \<open>now\<close>.

  The theories, in the order of the program's layers:

  \<^item> \<open>Prelude\<close>: exceptions, loops that stop at an exception, tables; the locales
    \<open>preserving_step\<close> and \<open>framed_step\<close>, what a client that loops over rows relies on, and
    \<open>stable_step\<close> and \<open>evolving_step\<close>, what holds after any history of requests.
  \<^item> \<open>PyStr\<close>, \<open>PyNum\<close>, \<open>PyDate\<close>, \<open>PyDateInv\<close>: the string methods, \<open>Decimal\<close>, the roundings and the
    calendar that the services use.
  \<^item> \<open>Schema\<close>: the rows of the fleet (\<open>app/models/\<close>: battery, warehouse, station, inventory, order).
  \<^item> \<open>Fleet\<close>, \<open>FleetInv\<close>: \<open>battery_consistency.py\<close>. Every move of a battery goes through
    \<open>apply_battery_transition\<close>; \<open>fleet_inv\<close> is the consistency it keeps (unique serials, a shelf
    row exactly for the batteries on shelves, capacities), \<open>well_located\<close> what a move
    establishes, \<open>fleet_frame\<close> what it leaves alone. \<open>fleet_move\<close> and \<open>retired_move\<close> interpret the
    locales, so runs of moves inherit the facts.
  \<^item> \<open>Outbox\<close>, \<open>OutboxInv\<close>: \<open>notification_outbox_service.py\<close>. Providers are parameters; \<open>outbox_inv\<close>
    holds between worker passes, whatever they answer.
  \<^item> \<open>Wallet\<close>, \<open>Webhook\<close>, \<open>WalletInv\<close>: \<open>wallet_service.py\<close> and \<open>razorpay_webhook_service.py\<close>.
    \<open>wallet_inv\<close> says that balances are the sums of the ledger rows and that a withdrawal costs
    its amount until it is rejected; \<open>serve_wallet\<close> is the service as a state machine over
    requests and gateway events. \<open>balances\<close> abstracts the tables to a map from users to
    amounts, and each operation refines an update of that map. The locale \<open>conserving_step\<close> is
    interpreted on transfers.
  \<^item> \<open>Rentals\<close>, \<open>RentalInv\<close>: \<open>rental_service.py\<close> and the endpoints of \<open>rentals.py\<close> that change a
    rental. \<open>rental_step\<close> is the service as a step relation, \<open>rental_inv\<close> the exclusive use of a
    battery, kept by every step.

  \<^item> \<open>OrderText\<close>, \<open>Orders\<close>, \<open>OrderTextInv\<close>, \<open>OrdersInv\<close>, \<open>OrderClaims\<close>: dealer orders, \<open>orders.py\<close>: the texts
    (statuses and their aliases, request fields, the description of a dispatch and the regular
    expressions that read it back), the handlers, what each helper keeps (\<open>keeps\<close>, \<open>changes\<close>),
    the invariant \<open>orders_inv\<close> of the order table and the properties. \<open>serve_order\<close> is the
    API as a state machine; its step interprets \<open>preserving_step\<close>.

  \<^item> \<open>Swaps\<close>, \<open>SwapClaims\<close>: \<open>swap_service.py\<close>, \<open>swaps.py\<close> and the downtimes of \<open>dealer_station_service.py\<close>. A
    completed swap is a step of \<open>rental_step\<close>, so the rental invariant covers it.
  \<^item> \<open>Bookings\<close>, \<open>BookingsInv\<close>: \<open>booking_service.py\<close> and \<open>bookings.py\<close>; \<open>serve_booking\<close> is the API.
  \<^item> \<open>Otp\<close>, \<open>OtpInv\<close>: one-time codes, \<open>otp_service.py\<close>; Twilio is a parameter.
  \<^item> \<open>Roles\<close>, \<open>RolesInv\<close>: access control, \<open>rbac.py\<close>, \<open>admin_rbac.py\<close> and the role part of \<open>deps.py\<close>.
    A walk up the hierarchy is a \<open>partial_function\<close>: \<open>None\<close> is a loop that never ends.
  \<^item> \<open>Idempotency\<close>, \<open>IdempotencyInv\<close>: \<open>idempotency_service.py\<close> and the pattern in which endpoints
    use it, which refines \<open>once\<close>, a ledger of answers.
  \<^item> \<open>Manifests\<close>, \<open>ManifestsInv\<close>: \<open>manifests.py\<close>, the receipt of batteries at a warehouse, over the
    fleet and the idempotency keys. \<open>stock_inv\<close> adds to \<open>fleet_inv\<close> what the creation of a battery
    needs; the loop over the items interprets \<open>preserving_step\<close>.

  \<^item> \<open>Settlements\<close>, \<open>SettlementsInv\<close>, \<open>SettlementClaims\<close>: dealer payouts, \<open>commission_service.py\<close>,
    \<open>settlement_service.py\<close>, \<open>dispute_service.py\<close>, their endpoints and the monthly jobs. \<open>pay_step\<close> is
    a request or a job; \<open>grows\<close> reduces each to three kinds of write, from which \<open>accounts_ok\<close>, the
    accounts of the settlements, follows by rule induction. The payout gateway is a parameter.
  \<^item> \<open>Catalog\<close>, \<open>Shop\<close>, \<open>ShopInv\<close>, \<open>ShopClaims\<close>: the shop, \<open>catalog_service.py\<close>, \<open>order_service.py\<close>,
    \<open>cart_service.py\<close>, \<open>catalog.py\<close> and \<open>purchases_enhanced.py\<close>. \<open>stock\<close> is what is on the shelf of a
    product or variant and \<open>held\<close> what open orders took; \<open>shop_moves\<close> reduces every request to four
    kinds of change, and \<open>shop_service\<close> and \<open>shop_account\<close> interpret the locales of histories.
  \<^item> \<open>LateFees\<close>, \<open>LateFeesInv\<close>: \<open>late_fee_service.py\<close> and the jobs that charge overdue rentals, over the
    tables of the rentals and the wallets. \<open>fee_step\<close> is a charge, a job, a payment or the answer
    to a waiver request; \<open>fees_ok\<close> is the account of every fee.
  \<^item> \<open>Dealers\<close>, \<open>DealersInv\<close>: how a dealer is taken on: \<open>dealer_service.py\<close>, \<open>dealers.py\<close>,
    \<open>dealer_onboarding.py\<close>, \<open>admin_dealers.py\<close> and \<open>dealer_documents.py\<close>, three routers that write the
    stage of the same application. \<open>app_move\<close> is what they have in common; \<open>dealer_reach\<close> is how far a
    dealer gets alone.
  \<^item> \<open>DealerKyc\<close>, \<open>DealerKycInv\<close>: \<open>dealer_kyc_service.py\<close> and \<open>dealer_kyc.py\<close>, a second state machine;
    \<open>kyc_path\<close> relates a log of transitions to the state it leads to.
  \<^item> \<open>Campaigns\<close>, \<open>CampaignsInv\<close>: \<open>campaign_service.py\<close>, \<open>dealer_campaigns.py\<close>, \<open>promo_service.py\<close> and
    \<open>promo.py\<close>. A \<open>stamp\<close> is a datetime with or without a time zone, for the comparison of the two
    raises; \<open>campaigns_ok\<close> are the counters of the campaigns.
  \<^item> \<open>Stocks\<close>, \<open>StocksInv\<close>: \<open>services/stock.py\<close> and \<open>api/v1/stock.py\<close>, the quantities of products in the
    warehouses. \<open>stock_change\<close> are the two writes that every request consists of, \<open>stock_ok\<close> the
    ledger they keep, and \<open>available_at\<close> the map that a transfer updates.

  In each theory on a component the last section holds its properties, each after a text that
  states it, with a witness: the property applied to concrete tables on which its hypotheses
  hold.

  Representation. Rows are records, a table is the list of its rows in insertion order, and
  the first row that a query returns is the first of the list, or of a stable sort where the
  code orders. A primary key is one more than the greatest in use. Row locks and concurrency
  are left out: a request runs alone, which the code's \<open>FOR UPDATE\<close> locks are meant to
  achieve. Strings are ASCII. The detail of an exception is the source's text with the braces of
  its f-string left in. Money is in paise; float columns are the rationals they denote, and an
  amount read back from one is the amount written, which holds up to fifteen significant
  digits. The gateway, the providers of notifications and the JSON parser are parameters or
  read into records of the keys that the handlers look up. No fuel is needed: every loop of
  the code runs over a finite list, but the walks up the role hierarchy. The amounts of
  commissions and settlements are floats and so rationals, rounded where the code rounds.

  Not modelled: row locking, the HTTP layer, authentication, analytics, device ingestion and
  the clients of external services, because their logic is in the library or the service they
  call; support, memberships, referrals and the transfers of batteries between warehouses.
\<close>

end
